(* ===== verification/Prelude.thy ===== *)
theory Prelude
  imports Complex_Main "HOL-Library.AList" "HOL-Library.Sublist"
    "HOL-Library.List_Lexorder" "HOL-Library.Char_ord"
begin

text \<open>
  Shared ground of the development: Python values as the modelled code handles them
  (\<open>pyval\<close>, insertion-ordered dictionaries, truthiness, equality, \<open>str()\<close>), the
  environment of library functions the code calls and this development does not define
  (\<open>pyenv\<close>), and the generic lemmas and rule collections the components use.

  Conventions.
  \<^item> A dictionary is an association list in insertion order; \<open>AList.update\<close> is
    \<open>d[k] = v\<close> (it overwrites in place and appends a new key), \<open>dget\<close> is
    \<open>d.get(k)\<close>.
  \<^item> Timestamps (\<open>datetime\<close> and \<open>time.time()\<close>) are seconds since the epoch, of type
    \<open>real\<close>; floating point rounding is not modelled.
  \<^item> Strings are character lists. Non-ASCII characters of message templates are written as
    their UTF-8 bytes; \<open>lower()\<close> and slicing are those of ASCII text.
\<close>

section \<open>Rule collections\<close>

named_theorems frame_simps \<open>which parts of a state an operation leaves alone\<close>
named_theorems proj_defs \<open>definitions unfolded when a projection is executed\<close>

section \<open>Python values\<close>

type_synonym time = real

text \<open>
  \<open>PyObj\<close> is an instance of a model class with its attributes, \<open>PyEnum\<close> a member of a
  \<open>(str, Enum)\<close> class with its name and value, \<open>PyTime\<close> a \<open>datetime\<close>.
\<close>

datatype pyval =
    PyNone
  | PyBool bool
  | PyInt int
  | PyFloat real
  | PyStr string
  | PyTime real
  | PyEnum string string
  | PyList "pyval list"
  | PyDict "(string \<times> pyval) list"
  | PyObj string "(string \<times> pyval) list"

type_synonym dict = "(string \<times> pyval) list"

datatype pyerr = ValueError string | RegexError string | TypeError string | KeyError string
  | RuntimeError string | AttributeError string | OverflowError string

fun truthy :: "pyval \<Rightarrow> bool" where
  "truthy PyNone = False"
| "truthy (PyBool b) = b"
| "truthy (PyInt i) = (i \<noteq> 0)"
| "truthy (PyFloat x) = (x \<noteq> 0)"
| "truthy (PyStr s) = (s \<noteq> [])"
| "truthy (PyTime t) = True"
| "truthy (PyEnum n v) = (v \<noteq> [])"
| "truthy (PyList xs) = (xs \<noteq> [])"
| "truthy (PyDict d) = (d \<noteq> [])"
| "truthy (PyObj c d) = True"

definition py_or :: "pyval \<Rightarrow> pyval \<Rightarrow> pyval" where
  "py_or a b = (if truthy a then a else b)"

text \<open>The numeric value of a bool, int or float: these compare with each other in Python.\<close>

fun num_of :: "pyval \<Rightarrow> real option" where
  "num_of (PyBool b) = Some (if b then 1 else 0)"
| "num_of (PyInt i) = Some (real_of_int i)"
| "num_of (PyFloat x) = Some x"
| "num_of _ = None"

text \<open>\<open>==\<close>: numbers by value, enum members as their strings, dictionaries up to order.\<close>

fun py_eq :: "pyval \<Rightarrow> pyval \<Rightarrow> bool"
  and py_eq_list :: "pyval list \<Rightarrow> pyval list \<Rightarrow> bool"
  and py_sub_dict :: "(string \<times> pyval) list \<Rightarrow> (string \<times> pyval) list \<Rightarrow> bool" where
  "py_eq PyNone w = (w = PyNone)"
| "py_eq (PyBool b) w = (num_of w = Some (if b then 1 else 0))"
| "py_eq (PyInt i) w = (num_of w = Some (real_of_int i))"
| "py_eq (PyFloat x) w = (num_of w = Some x)"
| "py_eq (PyStr s) w = (case w of PyStr t \<Rightarrow> s = t | PyEnum n t \<Rightarrow> s = t | _ \<Rightarrow> False)"
| "py_eq (PyTime t) w = (w = PyTime t)"
| "py_eq (PyEnum n s) w = (case w of PyStr t \<Rightarrow> s = t | PyEnum m t \<Rightarrow> s = t | _ \<Rightarrow> False)"
| "py_eq (PyList xs) w = (case w of PyList ys \<Rightarrow> py_eq_list xs ys | _ \<Rightarrow> False)"
| "py_eq (PyDict d) w =
     (case w of PyDict e \<Rightarrow> length d = length e \<and> py_sub_dict d e | _ \<Rightarrow> False)"
| "py_eq (PyObj c d) w =
     (case w of PyObj c' e \<Rightarrow> c = c' \<and> length d = length e \<and> py_sub_dict d e | _ \<Rightarrow> False)"
| "py_eq_list [] ys = (ys = [])"
| "py_eq_list (x # xs) ys = (case ys of [] \<Rightarrow> False | y # ys' \<Rightarrow> py_eq x y \<and> py_eq_list xs ys')"
| "py_sub_dict [] e = True"
| "py_sub_dict ((k, v) # d) e =
     (case map_of e k of None \<Rightarrow> False | Some w \<Rightarrow> py_eq v w \<and> py_sub_dict d e)"

definition py_in_list :: "pyval \<Rightarrow> pyval list \<Rightarrow> bool" where
  "py_in_list v xs = list_ex (py_eq v) xs"

section \<open>Dictionaries\<close>

definition dget :: "dict \<Rightarrow> string \<Rightarrow> pyval" where
  "dget d k = (case map_of d k of None \<Rightarrow> PyNone | Some v \<Rightarrow> v)"

definition dget_or :: "dict \<Rightarrow> string \<Rightarrow> pyval \<Rightarrow> pyval" where
  "dget_or d k v = (case map_of d k of None \<Rightarrow> v | Some w \<Rightarrow> w)"

definition has_key :: "dict \<Rightarrow> string \<Rightarrow> bool" where
  "has_key d k = (map_of d k \<noteq> None)"

text \<open>\<open>{**a, **b}\<close>: the later entries win.\<close>

definition dmerge :: "('k \<times> 'v) list \<Rightarrow> ('k \<times> 'v) list \<Rightarrow> ('k \<times> 'v) list" where
  "dmerge a b = fold (\<lambda>(k, v). AList.update k v) b a"

text \<open>A dict comprehension \<open>{f(x): x for x in xs}\<close>: the last value of a key wins, at its first
  position.\<close>

definition dict_by :: "('a \<Rightarrow> 'k) \<Rightarrow> 'a list \<Rightarrow> ('k \<times> 'a) list" where
  "dict_by f xs = fold (\<lambda>x. AList.update (f x) x) xs []"

fun as_dict :: "pyval \<Rightarrow> dict" where
  "as_dict (PyDict d) = d"
| "as_dict _ = []"

fun as_list :: "pyval \<Rightarrow> pyval list" where
  "as_list (PyList xs) = xs"
| "as_list _ = []"

fun as_str :: "pyval \<Rightarrow> string option" where
  "as_str (PyStr s) = Some s"
| "as_str (PyEnum n s) = Some s"
| "as_str _ = None"

fun is_dict :: "pyval \<Rightarrow> bool" where
  "is_dict (PyDict d) = True"
| "is_dict _ = False"

fun is_list :: "pyval \<Rightarrow> bool" where
  "is_list (PyList d) = True"
| "is_list _ = False"

fun is_str :: "pyval \<Rightarrow> bool" where
  "is_str (PyStr s) = True"
| "is_str (PyEnum n s) = True"
| "is_str _ = False"

text \<open>\<open>int(v or 0)\<close> of a number.\<close>

fun int_of :: "pyval \<Rightarrow> int" where
  "int_of (PyInt i) = i"
| "int_of (PyBool b) = (if b then 1 else 0)"
| "int_of (PyFloat x) = (if x < 0 then - \<lfloor>- x\<rfloor> else \<lfloor>x\<rfloor>)"
| "int_of _ = 0"

text \<open>Strings and dictionaries in a list value, in order (\<open>x.get("...") or []\<close>, iterated).\<close>

definition strs_of :: "pyval \<Rightarrow> string list" where
  "strs_of v = List.map_filter as_str (as_list v)"

definition dicts_of :: "pyval \<Rightarrow> dict list" where
  "dicts_of v = map as_dict (filter is_dict (as_list v))"

definition opt_val :: "string option \<Rightarrow> pyval" where
  "opt_val x = (case x of None \<Rightarrow> PyNone | Some s \<Rightarrow> PyStr s)"

text \<open>\<open>x or y\<close> on optional strings: the empty string is falsy.\<close>

definition opt_or :: "string option \<Rightarrow> string option \<Rightarrow> string option" where
  "opt_or x y = (case x of None \<Rightarrow> y | Some s \<Rightarrow> if s = [] then y else Some s)"

definition str_or :: "string option \<Rightarrow> string \<Rightarrow> string" where
  "str_or x d = (case x of None \<Rightarrow> d | Some s \<Rightarrow> if s = [] then d else s)"

definition str_truthy :: "string option \<Rightarrow> bool" where
  "str_truthy x = (case x of None \<Rightarrow> False | Some s \<Rightarrow> s \<noteq> [])"

section \<open>Strings\<close>

definition char_lower :: "char \<Rightarrow> char" where
  "char_lower c = (let n = of_char c :: nat in if 65 \<le> n \<and> n \<le> 90 then char_of (n + 32) else c)"

definition str_lower :: "string \<Rightarrow> string" where
  "str_lower s = map char_lower s"

fun split_on :: "char \<Rightarrow> string \<Rightarrow> string list" where
  "split_on c [] = [[]]"
| "split_on c (x # xs) =
     (if x = c then [] # split_on c xs
      else (case split_on c xs of [] \<Rightarrow> [[x]] | w # ws \<Rightarrow> (x # w) # ws))"

definition digit_char :: "nat \<Rightarrow> char" where
  "digit_char n = char_of (48 + n)"

fun nat_str :: "nat \<Rightarrow> string" where
  "nat_str n = (if n < 10 then [digit_char n] else nat_str (n div 10) @ [digit_char (n mod 10)])"

declare nat_str.simps [simp del]

definition int_str :: "int \<Rightarrow> string" where
  "int_str i = (if i < 0 then CHR ''-'' # nat_str (nat (- i)) else nat_str (nat i))"

fun join :: "string \<Rightarrow> string list \<Rightarrow> string" where
  "join sep [] = []"
| "join sep [x] = x"
| "join sep (x # y # zs) = x @ sep @ join sep (y # zs)"

definition em_dash :: string where
  "em_dash = [CHR 0xE2, CHR 0x80, CHR 0x94]"

definition bullet :: string where
  "bullet = [CHR 0xE2, CHR 0x80, CHR 0xA2, CHR '' '']"

text \<open>The rule of 27 heavy dashes under a message title.\<close>

definition heavy_rule :: string where
  "heavy_rule = concat (replicate 27 [CHR 0xE2, CHR 0x94, CHR 0x81])"

definition newline :: string where
  "newline = [CHR 10]"

definition is_space :: "char \<Rightarrow> bool" where
  "is_space c = (let n = of_char c :: nat in n = 32 \<or> (9 \<le> n \<and> n \<le> 13) \<or> (28 \<le> n \<and> n \<le> 31))"

text \<open>\<open>s.strip()\<close>, and \<open>s.rstrip(c)\<close> for one character.\<close>

definition str_strip :: "string \<Rightarrow> string" where
  "str_strip s = rev (dropWhile is_space (rev (dropWhile is_space s)))"

definition str_rstrip :: "char \<Rightarrow> string \<Rightarrow> string" where
  "str_rstrip c s = rev (dropWhile (\<lambda>x. x = c) (rev s))"

text \<open>\<open>t in s\<close> on strings.\<close>

definition str_contains :: "string \<Rightarrow> string \<Rightarrow> bool" where
  "str_contains s t = sublist t s"

text \<open>\<open>sorted(set(xs))\<close>.\<close>

definition sorted_set :: "string list \<Rightarrow> string list" where
  "sorted_set xs = sort (remdups xs)"

definition set_minus :: "'a list \<Rightarrow> 'a list \<Rightarrow> 'a list" where
  "set_minus xs ys = remdups (filter (\<lambda>x. x \<notin> set ys) xs)"

text \<open>\<open>int(x)\<close> of a float: truncation towards zero.\<close>

definition trunc :: "real \<Rightarrow> int" where
  "trunc x = (if x < 0 then - \<lfloor>- x\<rfloor> else \<lfloor>x\<rfloor>)"

section \<open>The environment\<close>

text \<open>
  Functions of the runtime that the code calls and whose results it only passes on:
  hashing, name-based UUIDs, time formatting, regular expression search
  (\<open>None\<close>: the pattern does not compile), the \<open>repr\<close> of floats and containers, reading and
  rounding floats, rendering a template (\<open>None\<close>: it raises), address parsing, JSON (\<open>None\<close>: it raises),
  \<open>datetime.strptime\<close> (format, text), \<open>bytes(x).decode("utf-8", "replace")\<close>. \<open>db_fails f\<close> says that the call of \<open>storage.f\<close> raises; it is consulted where the
  code handles that exception.
\<close>

datatype ip_addr = IPv4 nat | IPv6 nat

record pyenv =
  sha256_hex :: "string \<Rightarrow> string"
  uuid5_url :: "string \<Rightarrow> string"
  iso_format :: "time \<Rightarrow> string"
  iso_parse :: "string \<Rightarrow> time option"
  strf_time :: "string \<Rightarrow> time \<Rightarrow> string"
  re_search :: "string \<Rightarrow> string \<Rightarrow> bool option"
  repr_other :: "pyval \<Rightarrow> string"
  float_parse :: "string \<Rightarrow> real option"
  fmt_1f :: "real \<Rightarrow> string"
  py_round :: "real \<Rightarrow> nat \<Rightarrow> real"
  jinja_render :: "string \<Rightarrow> dict \<Rightarrow> string option"
  parse_ip :: "string \<Rightarrow> ip_addr option"
  parse_net :: "string \<Rightarrow> (ip_addr \<times> nat) option"
  db_fails :: "string \<Rightarrow> bool"
  json_loads :: "string \<Rightarrow> pyval option"
  json_dumps :: "pyval \<Rightarrow> string option"
  strp_time :: "string \<Rightarrow> string \<Rightarrow> time option"
  decode_utf8 :: "int list \<Rightarrow> string"

fun py_str :: "pyenv \<Rightarrow> pyval \<Rightarrow> string" where
  "py_str E (PyStr s) = s"
| "py_str E PyNone = ''None''"
| "py_str E (PyBool b) = (if b then ''True'' else ''False'')"
| "py_str E (PyInt i) = int_str i"
| "py_str E v = repr_other E v"

text \<open>\<open>int(s)\<close> of a string: surrounding space, a sign, digits with single underscores between.\<close>

fun digits_val :: "int \<Rightarrow> bool \<Rightarrow> string \<Rightarrow> int option" where
  "digits_val acc ok [] = (if ok then Some acc else None)"
| "digits_val acc ok (c # cs) =
     (let n = of_char c :: nat in
      if 48 \<le> n \<and> n \<le> 57 then digits_val (acc * 10 + int (n - 48)) True cs
      else if c = CHR ''_'' \<and> ok then digits_val acc False cs
      else None)"

definition parse_int :: "string \<Rightarrow> int option" where
  "parse_int s =
     (case str_strip s of [] \<Rightarrow> None
      | c # cs \<Rightarrow>
          if c = CHR ''-'' then map_option uminus (digits_val 0 False cs)
          else if c = CHR ''+'' then digits_val 0 False cs
          else digits_val 0 False (c # cs))"

text \<open>\<open>int(v)\<close> and \<open>float(v)\<close>; \<open>None\<close> where they raise \<open>TypeError\<close> or \<open>ValueError\<close>.\<close>

fun py_int :: "pyval \<Rightarrow> int option" where
  "py_int (PyInt i) = Some i"
| "py_int (PyBool b) = Some (if b then 1 else 0)"
| "py_int (PyFloat x) = Some (trunc x)"
| "py_int (PyStr s) = parse_int s"
| "py_int _ = None"

fun py_float :: "pyenv \<Rightarrow> pyval \<Rightarrow> real option" where
  "py_float E (PyStr s) = float_parse E s"
| "py_float E v = num_of v"

text \<open>\<open>datetime.fromisoformat(s.replace("Z", "+00:00"))\<close>.\<close>

definition iso_parse_z :: "pyenv \<Rightarrow> string \<Rightarrow> time option" where
  "iso_parse_z E s = iso_parse E (concat (map (\<lambda>c. if c = CHR ''Z'' then ''+00:00'' else [c]) s))"

text \<open>\<open>s.split(c, 1)\<close> unpacked into two parts; \<open>None\<close> where the unpacking raises.\<close>

definition split_once :: "char \<Rightarrow> string \<Rightarrow> (string \<times> string) option" where
  "split_once c s = (if c \<in> set s
     then Some (takeWhile (\<lambda>x. x \<noteq> c) s, tl (dropWhile (\<lambda>x. x \<noteq> c) s)) else None)"

section \<open>Lemmas\<close>

lemma py_eq_Str [simp]: "py_eq (PyStr s) (PyStr t) \<longleftrightarrow> s = t"
  by simp

lemma py_in_list_strs [simp]: "py_in_list (PyStr s) (map PyStr xs) \<longleftrightarrow> s \<in> set xs"
  by (auto simp: py_in_list_def list_ex_iff)

lemma has_key_iff: "has_key d k \<longleftrightarrow> k \<in> fst ` set d"
  unfolding has_key_def by (metis map_of_eq_None_iff)

lemma has_key_delete [simp]: "has_key (AList.delete k d) j \<longleftrightarrow> j \<noteq> k \<and> has_key d j"
  by (simp add: has_key_def delete_conv)

lemma has_key_mem: "x \<in> set d \<Longrightarrow> has_key d (fst x)"
  by (simp add: has_key_iff)

lemma dget_absent: "k \<notin> fst ` set d \<Longrightarrow> dget d k = PyNone"
  by (simp add: dget_def map_of_eq_None_iff[THEN iffD2])

lemma dget_Nil [simp]: "dget [] k = PyNone"
  by (simp add: dget_def)

lemma dget_Cons [simp]: "dget ((k', v) # d) k = (if k = k' then v else dget d k)"
  by (simp add: dget_def)

lemma dget_update [simp]: "dget (AList.update k v d) k' = (if k = k' then v else dget d k')"
  by (simp add: dget_def update_conv)

lemma has_key_update [simp]: "has_key (AList.update k v d) k' \<longleftrightarrow> k = k' \<or> has_key d k'"
  by (simp add: has_key_def update_conv)

lemma map_of_fold_update:
  "map_of (fold (\<lambda>(k, v). AList.update k v) b a) = map_of a ++ map_of (rev b)"
  by (induction b arbitrary: a) (auto simp: update_conv' map_add_assoc[symmetric] fun_eq_iff map_add_def
      split: option.splits)

lemma map_of_dmerge: "map_of (dmerge a b) = map_of a ++ map_of (rev b)"
  by (simp add: dmerge_def map_of_fold_update)

lemma distinct_dmerge: "distinct (map fst a) \<Longrightarrow> distinct (map fst (dmerge a b))"
  unfolding dmerge_def
  by (induction b arbitrary: a) (auto simp: distinct_update)

lemma dict_by_snoc: "dict_by f (xs @ [x]) = AList.update (f x) x (dict_by f xs)"
  by (simp add: dict_by_def)

lemma dict_by_Nil [simp]: "dict_by f [] = []"
  by (simp add: dict_by_def)

lemma keys_dict_by [simp]: "fst ` set (dict_by f xs) = f ` set xs"
proof (induction xs rule: rev_induct)
  case Nil
  then show ?case by simp
next
  case (snoc x xs)
  then show ?case by (simp add: dict_by_snoc dom_update[symmetric] image_iff flip: dom_map_of_conv_image_fst)
      (simp add: update_conv' dom_map_of_conv_image_fst)
qed

lemma dict_by_key: "(k, x) \<in> set (dict_by f xs) \<Longrightarrow> k \<in> f ` set xs"
  by (metis fst_conv image_eqI keys_dict_by)

lemma distinct_dict_by: "distinct (map fst (dict_by f xs))"
  by (induction xs rule: rev_induct) (simp_all add: dict_by_snoc distinct_update)

lemma map_of_dict_by:
  "map_of (dict_by f xs) k = Some x \<Longrightarrow> x \<in> set xs \<and> f x = k"
  by (induction xs rule: rev_induct) (auto simp: dict_by_snoc update_conv' split: if_splits)

lemma map_of_dict_by_None: "map_of (dict_by f xs) k = None \<longleftrightarrow> k \<notin> f ` set xs"
  by (simp add: map_of_eq_None_iff)

lemma set_sorted_set [simp]: "set (sorted_set xs) = set xs"
  by (simp add: sorted_set_def)

lemma sorted_sorted_set [simp]: "sorted (sorted_set xs)"
  by (simp add: sorted_set_def)

lemma distinct_sorted_set [simp]: "distinct (sorted_set xs)"
  by (simp add: sorted_set_def)

lemma sorted_set_cong: "set xs = set ys \<Longrightarrow> sorted_set xs = sorted_set ys"
  by (simp add: sorted_set_def) (metis sorted_list_of_set_sort_remdups)

lemma set_set_minus [simp]: "set (set_minus xs ys) = set xs - set ys"
  by (auto simp: set_minus_def)

lemma distinct_set_minus [simp]: "distinct (set_minus xs ys)"
  by (simp add: set_minus_def)

lemma opt_or_None [simp]: "opt_or None y = y"
  by (simp add: opt_or_def)

lemma str_or_None [simp]: "str_or None y = y"
  by (simp add: str_or_def)

lemma str_or_Some [simp]: "str_or (Some s) y = (if s = [] then y else s)"
  by (simp add: str_or_def)

lemma str_truthy_simps [simp]: "\<not> str_truthy None" "str_truthy (Some s) \<longleftrightarrow> s \<noteq> []"
  by (simp_all add: str_truthy_def)

lemma split_on_ne [simp]: "split_on c s \<noteq> []"
  by (induction s) (auto split: list.splits)

lemma split_on_no_sep: "c \<notin> set s \<Longrightarrow> split_on c s = [s]"
  by (induction s) auto

lemma split_on_append: "c \<notin> set s \<Longrightarrow> split_on c (s @ c # t) = s # split_on c t"
  by (induction s) auto

lemma map_of_filter_value:
  "distinct (map fst xs) \<Longrightarrow> map_of (filter (\<lambda>(k, v). P v) xs) s =
     (case map_of xs s of None \<Rightarrow> None | Some v \<Rightarrow> if P v then Some v else None)"
  by (induction xs) (auto simp: map_of_eq_None_iff image_iff split: option.splits)

text \<open>The concrete environment the witnesses evaluate in.\<close>

definition demo_env :: pyenv where
  "demo_env = \<lparr>sha256_hex = (\<lambda>s. s), uuid5_url = (\<lambda>s. s), iso_format = (\<lambda>t. int_str \<lfloor>t\<rfloor>),
     iso_parse = (\<lambda>s. None), strf_time = (\<lambda>f t. int_str (\<lfloor>t\<rfloor> div 86400)),
     re_search = (\<lambda>p s. Some (sublist p s)), repr_other = (\<lambda>v. ''''),
     float_parse = (\<lambda>s. None), fmt_1f = (\<lambda>x. int_str \<lfloor>x\<rfloor>), py_round = (\<lambda>x n. x),
     jinja_render = (\<lambda>t d. Some t),
     parse_ip = (\<lambda>s. None), parse_net = (\<lambda>s. None), db_fails = (\<lambda>f. False),
     json_loads = (\<lambda>s. None), json_dumps = (\<lambda>v. Some ''{}''), strp_time = (\<lambda>f s. None), decode_utf8 = (\<lambda>bs. [])\<rparr>"

lemma demo_env_sel [simp]:
  "sha256_hex demo_env s = s" "uuid5_url demo_env s = s" "db_fails demo_env f = False"
  "iso_format demo_env t = int_str \<lfloor>t\<rfloor>" "iso_parse demo_env s = None"
  "json_loads demo_env s = None" "json_dumps demo_env v = Some ''{}''" "strp_time demo_env f s = None"
  by (simp_all add: demo_env_def)

end
