(* ===== verification/EventModel.thy ===== *)
theory EventModel
  imports Prelude
begin

text \<open>
  The normalized event envelope (\<open>src/blackwatch/event.py\<close>): the enumerations with their
  string values, the nested models as records, the construction of an event with its
  defaults and fingerprint, the severity order. \<open>event_obj\<close> is the attribute view of an
  event that field paths of rules are resolved against.

  \<open>ev_id = None\<close> stands for the default factory \<open>str(uuid4())\<close>: an identifier that no
  other event has. \<open>Some s\<close> is an identifier the code chose.
\<close>

section \<open>Enumerations\<close>

datatype transport = T_webhook | T_lambda | T_poll | T_syslog | T_queue | T_api | T_file

fun transport_value :: "transport \<Rightarrow> string" where
  "transport_value T_webhook = ''webhook''"
| "transport_value T_lambda = ''lambda''"
| "transport_value T_poll = ''poll''"
| "transport_value T_syslog = ''syslog''"
| "transport_value T_queue = ''queue''"
| "transport_value T_api = ''api''"
| "transport_value T_file = ''file''"

datatype category = C_iam | C_network | C_storage | C_auth | C_compute | C_vpn | C_host
  | C_finding | C_audit | C_other

fun category_value :: "category \<Rightarrow> string" where
  "category_value C_iam = ''iam''"
| "category_value C_network = ''network''"
| "category_value C_storage = ''storage''"
| "category_value C_auth = ''auth''"
| "category_value C_compute = ''compute''"
| "category_value C_vpn = ''vpn''"
| "category_value C_host = ''host''"
| "category_value C_finding = ''finding''"
| "category_value C_audit = ''audit''"
| "category_value C_other = ''other''"

datatype outcome = O_success | O_failure | O_unknown

fun outcome_value :: "outcome \<Rightarrow> string" where
  "outcome_value O_success = ''success''"
| "outcome_value O_failure = ''failure''"
| "outcome_value O_unknown = ''unknown''"

datatype actor_type = A_user | A_role | A_service | A_root | A_system | A_unknown

fun actor_type_value :: "actor_type \<Rightarrow> string" where
  "actor_type_value A_user = ''user''"
| "actor_type_value A_role = ''role''"
| "actor_type_value A_service = ''service''"
| "actor_type_value A_root = ''root''"
| "actor_type_value A_system = ''system''"
| "actor_type_value A_unknown = ''unknown''"

datatype severity = S_informational | S_low | S_medium | S_high | S_critical

fun severity_value :: "severity \<Rightarrow> string" where
  "severity_value S_informational = ''informational''"
| "severity_value S_low = ''low''"
| "severity_value S_medium = ''medium''"
| "severity_value S_high = ''high''"
| "severity_value S_critical = ''critical''"

definition severity_order :: "string list" where
  "severity_order = [''informational'', ''low'', ''medium'', ''high'', ''critical'']"

datatype observable_type = Ob_ip | Ob_arn | Ob_access_key | Ob_bucket | Ob_hash | Ob_domain
  | Ob_email | Ob_hostname | Ob_user

fun observable_value :: "observable_type \<Rightarrow> string" where
  "observable_value Ob_ip = ''ip''"
| "observable_value Ob_arn = ''arn''"
| "observable_value Ob_access_key = ''access_key''"
| "observable_value Ob_bucket = ''bucket''"
| "observable_value Ob_hash = ''hash''"
| "observable_value Ob_domain = ''domain''"
| "observable_value Ob_email = ''email''"
| "observable_value Ob_hostname = ''hostname''"
| "observable_value Ob_user = ''user''"

section \<open>Severity ranks\<close>

text \<open>\<open>list.index\<close>, from position \<open>i\<close>; absent values give \<open>-1\<close> as \<open>severity_rank\<close> does.\<close>

fun index_from :: "int \<Rightarrow> 'a list \<Rightarrow> 'a \<Rightarrow> int" where
  "index_from i [] x = -1"
| "index_from i (y # ys) x = (if x = y then i else index_from (i + 1) ys x)"

definition severity_rank_str :: "string \<Rightarrow> int" where
  "severity_rank_str value = index_from 0 severity_order value"

definition severity_rank :: "severity option \<Rightarrow> int" where
  "severity_rank s = (case s of None \<Rightarrow> -1 | Some v \<Rightarrow> severity_rank_str (severity_value v))"

instantiation severity :: linorder
begin

definition less_eq_severity :: "severity \<Rightarrow> severity \<Rightarrow> bool" where
  "s \<le> t \<longleftrightarrow> severity_rank (Some s) \<le> severity_rank (Some t)"

definition less_severity :: "severity \<Rightarrow> severity \<Rightarrow> bool" where
  "s < t \<longleftrightarrow> severity_rank (Some s) < severity_rank (Some t)"

instance
proof
  fix x y z :: severity
  show "x < y \<longleftrightarrow> x \<le> y \<and> \<not> y \<le> x"
    by (auto simp: less_eq_severity_def less_severity_def)
  show "x \<le> x"
    by (simp add: less_eq_severity_def)
  show "x \<le> y \<or> y \<le> x"
    by (auto simp: less_eq_severity_def)
  show "x \<le> y \<Longrightarrow> y \<le> z \<Longrightarrow> x \<le> z"
    by (simp add: less_eq_severity_def)
  show "x \<le> y \<Longrightarrow> y \<le> x \<Longrightarrow> x = y"
    by (cases x; cases y)
      (simp_all add: less_eq_severity_def severity_rank_def severity_rank_str_def severity_order_def)
qed

end

lemma severity_rank_simps [simp]:
  "severity_rank None = -1"
  "severity_rank (Some S_informational) = 0"
  "severity_rank (Some S_low) = 1"
  "severity_rank (Some S_medium) = 2"
  "severity_rank (Some S_high) = 3"
  "severity_rank (Some S_critical) = 4"
  by (simp_all add: severity_rank_def severity_rank_str_def severity_order_def)

lemma severity_rank_less_iff: "severity_rank (Some s) < severity_rank (Some t) \<longleftrightarrow> s < t"
  by (simp add: less_severity_def)

lemma severity_rank_le_iff: "severity_rank (Some s) \<le> severity_rank (Some t) \<longleftrightarrow> s \<le> t"
  by (simp add: less_eq_severity_def)

lemma severity_rank_nonneg [simp]: "0 \<le> severity_rank (Some s)"
  by (cases s) simp_all

lemma severity_value_inj: "severity_value s = severity_value t \<longleftrightarrow> s = t"
  by (cases s; cases t) simp_all

section \<open>Records\<close>

record source =
  src_module :: string
  src_vendor :: "string option"
  src_account :: "string option"
  src_region :: "string option"
  src_transport :: transport

record actor =
  act_principal :: "string option"
  act_type :: "actor_type option"
  act_is_root :: "bool option"
  act_via_role :: "string option"
  act_source_ip :: "string option"
  act_user_agent :: "string option"

record target =
  tgt_id :: "string option"
  tgt_type :: "string option"
  tgt_name :: "string option"

record observable =
  obs_type :: observable_type
  obs_value :: string

record event =
  ev_id :: "string option"
  ev_schema_version :: int
  ev_fingerprint :: string
  ev_time :: time
  ev_ingested_at :: time
  ev_source :: source
  ev_category :: category
  ev_action :: string
  ev_outcome :: outcome
  ev_actor :: actor
  ev_target :: target
  ev_observables :: "observable list"
  ev_severity :: "severity option"
  ev_rule_matches :: "string list"
  ev_tags :: "string list"
  ev_raw :: pyval
  ev_extra :: dict

definition new_source :: "string \<Rightarrow> transport \<Rightarrow> source" where
  "new_source m t = \<lparr>src_module = m, src_vendor = None, src_account = None, src_region = None,
     src_transport = t\<rparr>"

definition new_actor :: "string option \<Rightarrow> string option \<Rightarrow> actor" where
  "new_actor p ip = \<lparr>act_principal = p, act_type = None, act_is_root = None, act_via_role = None,
     act_source_ip = ip, act_user_agent = None\<rparr>"

definition new_target :: "string option \<Rightarrow> string option \<Rightarrow> string option \<Rightarrow> target" where
  "new_target i t n = \<lparr>tgt_id = i, tgt_type = t, tgt_name = n\<rparr>"

section \<open>Fingerprint and construction\<close>

definition fingerprint_basis :: "string \<Rightarrow> string option \<Rightarrow> string option \<Rightarrow> string" where
  "fingerprint_basis action princ target_id =
     action @ ''|'' @ str_or princ '''' @ ''|'' @ str_or target_id ''''"

definition compute_fingerprint ::
  "pyenv \<Rightarrow> string \<Rightarrow> string option \<Rightarrow> string option \<Rightarrow> string" where
  "compute_fingerprint E action princ target_id =
     sha256_hex E (fingerprint_basis action princ target_id)"

definition ensure_fingerprint :: "pyenv \<Rightarrow> event \<Rightarrow> event" where
  "ensure_fingerprint E ev =
     (if ev_fingerprint ev = []
      then ev\<lparr>ev_fingerprint := compute_fingerprint E (ev_action ev)
                (act_principal (ev_actor ev)) (tgt_id (ev_target ev))\<rparr>
      else ev)"

text \<open>The field defaults of \<open>Event\<close>, for the required \<open>source\<close> and the clock \<open>now\<close>. An event the
  code builds is \<open>ensure_fingerprint E ((event_defaults now src)\<lparr>...\<rparr>)\<close>.\<close>

definition event_defaults :: "time \<Rightarrow> source \<Rightarrow> event" where
  "event_defaults now src =
     \<lparr>ev_id = None, ev_schema_version = 1, ev_fingerprint = [], ev_time = now,
      ev_ingested_at = now, ev_source = src, ev_category = C_other,
      ev_action = ''generic.event'', ev_outcome = O_unknown,
      ev_actor = new_actor None None, ev_target = new_target None None None,
      ev_observables = [], ev_severity = None, ev_rule_matches = [], ev_tags = [],
      ev_raw = PyNone, ev_extra = []\<rparr>"

section \<open>The attribute view\<close>

definition source_obj :: "source \<Rightarrow> pyval" where
  "source_obj s = PyObj ''Source''
     [(''module'', PyStr (src_module s)), (''vendor'', opt_val (src_vendor s)),
      (''account'', opt_val (src_account s)), (''region'', opt_val (src_region s)),
      (''transport'', PyEnum (if src_transport s = T_lambda then ''aws_lambda''
         else transport_value (src_transport s)) (transport_value (src_transport s)))]"

definition actor_obj :: "actor \<Rightarrow> pyval" where
  "actor_obj a = PyObj ''Actor''
     [(''principal'', opt_val (act_principal a)),
      (''type'', (case act_type a of None \<Rightarrow> PyNone
         | Some t \<Rightarrow> PyEnum (actor_type_value t) (actor_type_value t))),
      (''is_root'', (case act_is_root a of None \<Rightarrow> PyNone | Some b \<Rightarrow> PyBool b)),
      (''via_role'', opt_val (act_via_role a)), (''source_ip'', opt_val (act_source_ip a)),
      (''user_agent'', opt_val (act_user_agent a))]"

definition target_obj :: "target \<Rightarrow> pyval" where
  "target_obj t = PyObj ''Target''
     [(''id'', opt_val (tgt_id t)), (''type'', opt_val (tgt_type t)),
      (''name'', opt_val (tgt_name t))]"

definition observable_obj :: "observable \<Rightarrow> pyval" where
  "observable_obj b = PyObj ''Observable''
     [(''type'', PyEnum (observable_value (obs_type b)) (observable_value (obs_type b))),
      (''value'', PyStr (obs_value b))]"

text \<open>A fresh \<open>uuid4\<close> has no known text: it is an opaque object that equals no string.\<close>

definition id_val :: "string option \<Rightarrow> pyval" where
  "id_val i = (case i of None \<Rightarrow> PyObj ''uuid4'' [] | Some s \<Rightarrow> PyStr s)"

definition severity_val :: "severity option \<Rightarrow> pyval" where
  "severity_val s = (case s of None \<Rightarrow> PyNone
     | Some v \<Rightarrow> PyEnum (severity_value v) (severity_value v))"

definition event_obj :: "event \<Rightarrow> pyval" where
  "event_obj e = PyObj ''Event''
     [(''event_id'', id_val (ev_id e)), (''schema_version'', PyInt (ev_schema_version e)),
      (''dedup_fingerprint'', PyStr (ev_fingerprint e)), (''event_time'', PyTime (ev_time e)),
      (''ingested_at'', PyTime (ev_ingested_at e)), (''source'', source_obj (ev_source e)),
      (''category'', PyEnum (category_value (ev_category e)) (category_value (ev_category e))),
      (''action'', PyStr (ev_action e)),
      (''outcome'', PyEnum (outcome_value (ev_outcome e)) (outcome_value (ev_outcome e))),
      (''actor'', actor_obj (ev_actor e)), (''target'', target_obj (ev_target e)),
      (''observables'', PyList (map observable_obj (ev_observables e))),
      (''severity'', severity_val (ev_severity e)),
      (''rule_matches'', PyList (map PyStr (ev_rule_matches e))),
      (''tags'', PyList (map PyStr (ev_tags e))), (''raw'', ev_raw e),
      (''extra'', PyDict (ev_extra e))]"

section \<open>Lemmas\<close>

lemma ensure_fingerprint_frame [simp]:
  "ev_id (ensure_fingerprint E ev) = ev_id ev"
  "ev_time (ensure_fingerprint E ev) = ev_time ev"
  "ev_ingested_at (ensure_fingerprint E ev) = ev_ingested_at ev"
  "ev_schema_version (ensure_fingerprint E ev) = ev_schema_version ev"
  "ev_source (ensure_fingerprint E ev) = ev_source ev"
  "ev_category (ensure_fingerprint E ev) = ev_category ev"
  "ev_action (ensure_fingerprint E ev) = ev_action ev"
  "ev_outcome (ensure_fingerprint E ev) = ev_outcome ev"
  "ev_actor (ensure_fingerprint E ev) = ev_actor ev"
  "ev_target (ensure_fingerprint E ev) = ev_target ev"
  "ev_observables (ensure_fingerprint E ev) = ev_observables ev"
  "ev_severity (ensure_fingerprint E ev) = ev_severity ev"
  "ev_rule_matches (ensure_fingerprint E ev) = ev_rule_matches ev"
  "ev_tags (ensure_fingerprint E ev) = ev_tags ev"
  "ev_raw (ensure_fingerprint E ev) = ev_raw ev"
  "ev_extra (ensure_fingerprint E ev) = ev_extra ev"
  by (simp_all add: ensure_fingerprint_def)

lemma event_defaults_sel [simp]:
  "ev_id (event_defaults now src) = None"
  "ev_fingerprint (event_defaults now src) = []"
  "ev_time (event_defaults now src) = now"
  "ev_source (event_defaults now src) = src"
  "ev_category (event_defaults now src) = C_other"
  "ev_action (event_defaults now src) = ''generic.event''"
  "ev_outcome (event_defaults now src) = O_unknown"
  "ev_actor (event_defaults now src) = new_actor None None"
  "ev_target (event_defaults now src) = new_target None None None"
  "ev_observables (event_defaults now src) = []"
  "ev_severity (event_defaults now src) = None"
  "ev_rule_matches (event_defaults now src) = []"
  "ev_tags (event_defaults now src) = []"
  "ev_raw (event_defaults now src) = PyNone"
  "ev_extra (event_defaults now src) = []"
  by (simp_all add: event_defaults_def)

lemma new_source_sel [simp]:
  "src_module (new_source m t) = m" "src_vendor (new_source m t) = None"
  "src_account (new_source m t) = None" "src_region (new_source m t) = None"
  "src_transport (new_source m t) = t"
  by (simp_all add: new_source_def)

lemma new_actor_sel [simp]:
  "act_principal (new_actor p ip) = p" "act_type (new_actor p ip) = None"
  "act_is_root (new_actor p ip) = None" "act_via_role (new_actor p ip) = None"
  "act_source_ip (new_actor p ip) = ip" "act_user_agent (new_actor p ip) = None"
  by (simp_all add: new_actor_def)

lemma new_target_sel [simp]:
  "tgt_id (new_target i t n) = i" "tgt_type (new_target i t n) = t"
  "tgt_name (new_target i t n) = n"
  by (simp_all add: new_target_def)

text \<open>Splitting the basis at its separators gives the three parts back.\<close>

lemma split_fingerprint_basis:
  assumes "CHR ''|'' \<notin> set a" "CHR ''|'' \<notin> set (str_or p '''')"
    and "CHR ''|'' \<notin> set (str_or t '''')"
  shows "split_on (CHR ''|'') (fingerprint_basis a p t) = [a, str_or p '''', str_or t '''']"
  using assms by (simp add: fingerprint_basis_def split_on_append split_on_no_sep)

end
