(* ===== verification/AdapterBase.thy ===== *)
theory AdapterBase
  imports EventModel
begin

text \<open>
  The module contract (\<open>src/blackwatch/modules/base.py\<close>): the context a payload is delivered with, and
  what the adapters share when they turn an untyped payload into events: Python's iteration, length and
  hashing of values that may have any type, the checks the event models make of their string fields
  (\<open>Inl (ValueError _)\<close> where they refuse; the wording of the message is not modelled), time stamps.
  An adapter gives \<open>Inl\<close> where \<open>parse\<close> raises.
\<close>

record ingest_ctx =
  cx_module :: string
  cx_transport :: string
  cx_account :: "string option"
  cx_region :: "string option"

section \<open>Errors as values\<close>

definition sbind :: "'e + 'a \<Rightarrow> ('a \<Rightarrow> 'e + 'b) \<Rightarrow> 'e + 'b" where
  "sbind m f = (case m of Inl e \<Rightarrow> Inl e | Inr x \<Rightarrow> f x)"

fun traverse :: "('a \<Rightarrow> 'e + 'b) \<Rightarrow> 'a list \<Rightarrow> 'e + 'b list" where
  "traverse f [] = Inr []"
| "traverse f (x # xs) = sbind (f x) (\<lambda>y. sbind (traverse f xs) (\<lambda>ys. Inr (y # ys)))"

text \<open>A loop whose body adds some events.\<close>

definition collect :: "('a \<Rightarrow> 'e + 'b list) \<Rightarrow> 'a list \<Rightarrow> 'e + 'b list" where
  "collect f xs = sbind (traverse f xs) (\<lambda>ys. Inr (concat ys))"

lemma sbind_simps [simp]: "sbind (Inl e) f = Inl e" "sbind (Inr x) f = f x"
  by (simp_all add: sbind_def)

lemma sbind_Inr_iff: "sbind m f = Inr y \<longleftrightarrow> (\<exists>x. m = Inr x \<and> f x = Inr y)"
  by (cases m) auto

lemma traverse_Inr_iff: "traverse f xs = Inr ys \<longleftrightarrow> list_all2 (\<lambda>x y. f x = Inr y) xs ys"
  by (induction xs arbitrary: ys) (auto simp: sbind_Inr_iff list_all2_Cons1)

lemma traverse_Inl: "traverse f xs = Inl e \<Longrightarrow> \<exists>x \<in> set xs. f x = Inl e"
  by (induction xs) (auto simp: sbind_def split: sum.splits)

lemma traverse_all: "(\<And>x. x \<in> set xs \<Longrightarrow> f x = Inr (g x)) \<Longrightarrow> traverse f xs = Inr (map g xs)"
  by (induction xs) auto

lemma traverse_map: "traverse f (map g xs) = traverse (\<lambda>x. f (g x)) xs"
  by (induction xs) simp_all

lemma collect_Nil [simp]: "collect f [] = Inr []"
  by (simp add: collect_def)

lemma collect_Cons: "collect f (x # xs) = sbind (f x) (\<lambda>y. sbind (collect f xs) (\<lambda>ys. Inr (y @ ys)))"
  by (auto simp: collect_def sbind_def split: sum.splits)

lemma collect_append: "collect f (xs @ ys) = sbind (collect f xs) (\<lambda>a. sbind (collect f ys) (\<lambda>b. Inr (a @ b)))"
  by (induction xs) (auto simp: collect_Cons sbind_def split: sum.splits)

lemma collect_all: "(\<And>x. x \<in> set xs \<Longrightarrow> f x = Inr (g x)) \<Longrightarrow> collect f xs = Inr (concat (map g xs))"
  by (induction xs) (auto simp: collect_Cons)

lemma collect_mem:
  "collect f xs = Inr ys \<Longrightarrow> y \<in> set ys \<Longrightarrow> \<exists>x \<in> set xs. \<exists>zs. f x = Inr zs \<and> y \<in> set zs"
  by (induction xs arbitrary: ys) (auto simp: collect_Cons sbind_Inr_iff)

lemma collect_Inl: "collect f xs = Inl e \<Longrightarrow> \<exists>x \<in> set xs. f x = Inl e"
  by (induction xs) (auto simp: collect_Cons sbind_def split: sum.splits)

section \<open>Values of any type\<close>

text \<open>\<open>for x in v\<close>, and \<open>len(v)\<close>.\<close>

fun py_iter :: "pyval \<Rightarrow> pyerr + pyval list" where
  "py_iter (PyList xs) = Inr xs"
| "py_iter (PyDict d) = Inr (map (PyStr \<circ> fst) d)"
| "py_iter (PyStr s) = Inr (map (\<lambda>c. PyStr [c]) s)"
| "py_iter v = Inl (TypeError ''object is not iterable'')"

definition iter_or_empty :: "pyval \<Rightarrow> pyerr + pyval list" where
  "iter_or_empty v = (if truthy v then py_iter v else Inr [])"

fun py_len :: "pyval \<Rightarrow> pyerr + int" where
  "py_len (PyList xs) = Inr (int (length xs))"
| "py_len (PyDict d) = Inr (int (length d))"
| "py_len (PyStr s) = Inr (int (length s))"
| "py_len v = Inl (TypeError ''object has no len()'')"

text \<open>\<open>v.get(k)\<close> on a value that may not be a dict.\<close>

fun py_get :: "pyval \<Rightarrow> string \<Rightarrow> pyerr + pyval" where
  "py_get (PyDict d) k = Inr (dget d k)"
| "py_get v k = Inl (AttributeError ''get'')"

text \<open>Looking up \<open>v\<close> in a dict with string keys: lists and dicts cannot be hashed.\<close>

fun lookup_key :: "(string \<times> 'v) list \<Rightarrow> pyval \<Rightarrow> pyerr + 'v option" where
  "lookup_key tab (PyStr s) = Inr (map_of tab s)"
| "lookup_key tab (PyEnum n s) = Inr (map_of tab s)"
| "lookup_key tab (PyList xs) = Inl (TypeError ''unhashable type: list'')"
| "lookup_key tab (PyDict d) = Inl (TypeError ''unhashable type: dict'')"
| "lookup_key tab v = Inr None"

section \<open>Checked fields\<close>

fun opt_str_field :: "pyval \<Rightarrow> pyerr + string option" where
  "opt_str_field PyNone = Inr None"
| "opt_str_field (PyStr s) = Inr (Some s)"
| "opt_str_field (PyEnum n s) = Inr (Some s)"
| "opt_str_field v = Inl (ValueError ''Input should be a valid string'')"

fun str_field :: "pyval \<Rightarrow> pyerr + string" where
  "str_field (PyStr s) = Inr s"
| "str_field (PyEnum n s) = Inr s"
| "str_field v = Inl (ValueError ''Input should be a valid string'')"

definition checked_source :: "string \<Rightarrow> string option \<Rightarrow> pyval \<Rightarrow> pyval \<Rightarrow> transport \<Rightarrow> pyerr + source" where
  "checked_source m vendor account region t =
     sbind (opt_str_field account) (\<lambda>a. sbind (opt_str_field region) (\<lambda>r.
       Inr \<lparr>src_module = m, src_vendor = vendor, src_account = a, src_region = r, src_transport = t\<rparr>))"

definition checked_target :: "pyval \<Rightarrow> pyval \<Rightarrow> pyval \<Rightarrow> pyerr + target" where
  "checked_target i t n =
     sbind (opt_str_field i) (\<lambda>i. sbind (opt_str_field t) (\<lambda>t. sbind (opt_str_field n) (\<lambda>n.
       Inr (new_target i t n))))"

section \<open>Delivery and time\<close>

definition transport_values :: "(string \<times> transport) list" where
  "transport_values = map (\<lambda>t. (transport_value t, t)) [T_webhook, T_lambda, T_poll, T_syslog, T_queue, T_api, T_file]"

text \<open>\<open>Transport(s)\<close>, or the fallback where it raises.\<close>

definition transport_or :: "transport \<Rightarrow> string \<Rightarrow> transport" where
  "transport_or fallback s = (case map_of transport_values s of None \<Rightarrow> fallback | Some t \<Rightarrow> t)"

definition adapter_parse_iso :: "pyenv \<Rightarrow> pyval \<Rightarrow> time option" where
  "adapter_parse_iso E v = (case v of PyStr s \<Rightarrow> iso_parse_z E s | _ \<Rightarrow> None)"

definition or_now :: "time \<Rightarrow> time option \<Rightarrow> time" where
  "or_now now t = (case t of None \<Rightarrow> now | Some x \<Rightarrow> x)"

text \<open>\<open>datetime.fromtimestamp(v, tz=utc)\<close>: the years 1 to 9999; \<open>ValueError\<close> next to them, \<open>OSError\<close> or
  \<open>OverflowError\<close> beyond the range of the C library.\<close>

definition from_timestamp :: "real \<Rightarrow> pyerr + time" where
  "from_timestamp v =
     (if -62135596800 \<le> v \<and> v < 253402300800 then Inr v
      else if \<bar>v\<bar> < 67767976233532800 then Inl (ValueError ''year is out of range'')
      else Inl (OverflowError ''timestamp out of range''))"

lemma transport_or_value [simp]: "transport_or f (transport_value t) = t"
  by (cases t) (simp_all add: transport_or_def transport_values_def)

lemma opt_str_field_Inr: "opt_str_field v = Inr x \<longleftrightarrow> (v = PyNone \<and> x = None) \<or> (\<exists>s. as_str v = Some s \<and> x = Some s)"
  by (cases v) auto

lemma opt_str_field_ok [simp]: "opt_str_field (opt_val x) = Inr x"
  by (cases x) (simp_all add: opt_val_def)

end
