(* ===== verification/ReportAdapters.thy ===== *)
theory ReportAdapters
  imports AdapterBase
begin

text \<open>
  The adapters of reports: the generic webhook intake, the ECS probe, AWS posture, TLS certificate
  expiry and the S3 inventory (\<open>src/blackwatch/modules/{generic,ecs_probe,aws_posture,cert_expiry,aws_s3}.py\<close>).
\<close>

section \<open>Generic intake\<close>

definition category_values :: "(string \<times> category) list" where
  "category_values = map (\<lambda>c. (category_value c, c))
     [C_iam, C_network, C_storage, C_auth, C_compute, C_vpn, C_host, C_finding, C_audit, C_other]"

definition outcome_values :: "(string \<times> outcome) list" where
  "outcome_values = map (\<lambda>c. (outcome_value c, c)) [O_success, O_failure, O_unknown]"

definition actor_type_values :: "(string \<times> actor_type) list" where
  "actor_type_values = map (\<lambda>c. (actor_type_value c, c)) [A_user, A_role, A_service, A_root, A_system, A_unknown]"

definition observable_values :: "(string \<times> observable_type) list" where
  "observable_values = map (\<lambda>c. (observable_value c, c))
     [Ob_ip, Ob_arn, Ob_access_key, Ob_bucket, Ob_hash, Ob_domain, Ob_email, Ob_hostname, Ob_user]"

definition enum_field :: "(string \<times> 'a) list \<Rightarrow> pyval \<Rightarrow> pyerr + 'a" where
  "enum_field tab v = (case as_str v of None \<Rightarrow> Inl (ValueError ''Input should be a member of the enum'')
     | Some s \<Rightarrow> (case map_of tab s of None \<Rightarrow> Inl (ValueError ''Input should be a member of the enum'')
         | Some x \<Rightarrow> Inr x))"

definition opt_enum_field :: "(string \<times> 'a) list \<Rightarrow> pyval \<Rightarrow> pyerr + 'a option" where
  "opt_enum_field tab v = (if v = PyNone then Inr None else sbind (enum_field tab v) (\<lambda>x. Inr (Some x)))"

text \<open>A \<open>bool | None\<close> field also takes 0, 1 and the words of pydantic's table.\<close>

fun opt_bool_field :: "pyval \<Rightarrow> pyerr + bool option" where
  "opt_bool_field PyNone = Inr None"
| "opt_bool_field (PyBool b) = Inr (Some b)"
| "opt_bool_field (PyInt i) = (if i = 0 then Inr (Some False) else if i = 1 then Inr (Some True)
     else Inl (ValueError ''Input should be a valid boolean''))"
| "opt_bool_field (PyFloat x) = (if x = 0 then Inr (Some False) else if x = 1 then Inr (Some True)
     else Inl (ValueError ''Input should be a valid boolean''))"
| "opt_bool_field (PyStr s) =
     (if str_lower s \<in> {''0'', ''off'', ''f'', ''false'', ''n'', ''no''} then Inr (Some False)
      else if str_lower s \<in> {''1'', ''on'', ''t'', ''true'', ''y'', ''yes''} then Inr (Some True)
      else Inl (ValueError ''Input should be a valid boolean''))"
| "opt_bool_field v = Inl (ValueError ''Input should be a valid boolean'')"

definition actor_from :: "dict \<Rightarrow> pyerr + actor" where
  "actor_from d =
     sbind (opt_str_field (dget d ''principal'')) (\<lambda>p.
     sbind (opt_enum_field actor_type_values (dget d ''type'')) (\<lambda>t.
     sbind (opt_bool_field (dget d ''is_root'')) (\<lambda>root.
     sbind (opt_str_field (dget d ''via_role'')) (\<lambda>role.
     sbind (opt_str_field (dget d ''source_ip'')) (\<lambda>ip.
     sbind (opt_str_field (dget d ''user_agent'')) (\<lambda>ua.
       Inr \<lparr>act_principal = p, act_type = t, act_is_root = root, act_via_role = role,
            act_source_ip = ip, act_user_agent = ua\<rparr>))))))"

definition generic_observable :: "pyenv \<Rightarrow> pyval \<Rightarrow> pyerr + observable list" where
  "generic_observable E v =
     (case v of PyDict d \<Rightarrow>
        (if has_key d ''type'' \<and> has_key d ''value''
         then sbind (enum_field observable_values (dget d ''type'')) (\<lambda>t.
           Inr [\<lparr>obs_type = t, obs_value = py_str E (dget d ''value'')\<rparr>])
         else Inr [])
      | _ \<Rightarrow> Inr [])"

definition generic_parse :: "pyenv \<Rightarrow> time \<Rightarrow> ingest_ctx \<Rightarrow> pyval \<Rightarrow> pyerr + event list" where
  "generic_parse E now ctx raw =
     (let body = (case raw of PyDict d \<Rightarrow> d | _ \<Rightarrow> [(''value'', raw)]) in
      sbind (opt_str_field (dget body ''vendor'')) (\<lambda>vendor.
      sbind (if is_dict (dget body ''actor'') then actor_from (as_dict (dget body ''actor''))
             else Inr (new_actor None None)) (\<lambda>act.
      sbind (iter_or_empty (dget_or body ''observables'' (PyList []))) (\<lambda>items.
      sbind (collect (generic_observable E) items) (\<lambda>obs.
      sbind (iter_or_empty (dget_or body ''tags'' (PyList []))) (\<lambda>tags.
      sbind (enum_field category_values (dget_or body ''category'' (PyStr ''other''))) (\<lambda>cat.
      sbind (str_field (dget_or body ''action'' (PyStr ''generic.event''))) (\<lambda>action.
      sbind (enum_field outcome_values (dget_or body ''outcome'' (PyStr ''unknown''))) (\<lambda>out.
      sbind (let t = as_dict (dget body ''target'') in checked_target (dget t ''id'') (dget t ''type'') (dget t ''name'')) (\<lambda>tgt.
      sbind (traverse str_field tags) (\<lambda>tags.
        Inr [ensure_fingerprint E ((event_defaults now
               \<lparr>src_module = cx_module ctx, src_vendor = vendor, src_account = cx_account ctx,
                src_region = cx_region ctx, src_transport = transport_or T_webhook (cx_transport ctx)\<rparr>)
             \<lparr>ev_time := or_now now (adapter_parse_iso E (dget body ''event_time'')), ev_category := cat,
              ev_action := action, ev_outcome := out, ev_actor := act, ev_target := tgt,
              ev_observables := obs, ev_tags := tags, ev_extra := as_dict (dget body ''extra''),
              ev_raw := raw\<rparr>)])))))))))))"

section \<open>ECS probe reports\<close>

definition is_kind :: "string \<Rightarrow> dict \<Rightarrow> bool" where
  "is_kind k d = py_eq (dget d ''kind'') (PyStr k)"

definition probe_entry :: "pyenv \<Rightarrow> time \<Rightarrow> transport \<Rightarrow> time \<Rightarrow> pyval \<Rightarrow> pyval \<Rightarrow> pyerr + event list" where
  "probe_entry E now t when vpc item =
     (case item of PyDict r \<Rightarrow>
        let tid = dget r ''target_id'' in
        if \<not> truthy tid then Inr []
        else sbind (checked_target tid (PyStr ''ecs.service'') (dget r ''name'')) (\<lambda>tgt.
          Inr [ensure_fingerprint E ((event_defaults now (new_source ''ecs.probe'' t))
            \<lparr>ev_time := when, ev_category := C_other, ev_action := ''service.probe.result'',
             ev_outcome := (if py_eq (dget r ''status'') (PyStr ''up'') then O_success else O_failure),
             ev_target := tgt,
             ev_extra := [(''vpc'', vpc), (''target_id'', tid), (''name'', dget r ''name''),
               (''tier'', dget r ''tier''), (''status'', py_or (dget r ''status'') (PyStr ''unknown'')),
               (''latency_ms'', dget r ''latency_ms''), (''error'', dget r ''error''),
               (''result_extra'', py_or (dget r ''extra'') (PyDict []))],
             ev_raw := item\<rparr>)])
      | _ \<Rightarrow> Inr [])"

definition ecs_probe_parse :: "pyenv \<Rightarrow> time \<Rightarrow> ingest_ctx \<Rightarrow> pyval \<Rightarrow> pyerr + event list" where
  "ecs_probe_parse E now ctx raw =
     (case raw of PyDict d \<Rightarrow>
        if \<not> is_kind ''ecs_probe_report'' d then Inr []
        else
          let vpc = py_or (dget d ''vpc'') (PyStr ''unknown'');
              when = or_now now (adapter_parse_iso E (dget d ''observed_at''));
              t = transport_or T_api (cx_transport ctx);
              results = py_or (dget d ''results'') (PyList []) in
          sbind (checked_target vpc (PyStr ''probe.agent'') (PyStr (''probe-'' @ py_str E vpc))) (\<lambda>tgt.
          sbind (py_len results) (\<lambda>n.
          sbind (py_iter results) (\<lambda>items.
          sbind (collect (probe_entry E now t when vpc) items) (\<lambda>evs.
            Inr (ensure_fingerprint E ((event_defaults now (new_source ''ecs.probe'' t))
              \<lparr>ev_time := when, ev_category := C_other, ev_action := ''probe.agent.heartbeat'',
               ev_outcome := O_success, ev_target := tgt,
               ev_extra := [(''vpc'', vpc), (''agent_version'', dget d ''agent_version''), (''result_count'', PyInt n)],
               ev_raw := PyDict [(''kind'', PyStr ''ecs_probe_report''), (''vpc'', vpc)]\<rparr>) # evs)))))
      | _ \<Rightarrow> Inr [])"

section \<open>AWS posture reports\<close>

text \<open>\<open>f"{account or '-'}|{resource_id}|{finding_type}"\<close>, hashed and cut to 32 characters.\<close>

definition posture_finding_id :: "pyenv \<Rightarrow> pyval \<Rightarrow> pyval \<Rightarrow> pyval \<Rightarrow> string" where
  "posture_finding_id E account rid ftype =
     take 32 (sha256_hex E (py_str E (py_or account (PyStr ''-'')) @ ''|'' @ py_str E rid @ ''|'' @ py_str E ftype))"

definition posture_severities :: "(string \<times> severity) list" where
  "posture_severities = [(''critical'', S_critical), (''high'', S_high), (''medium'', S_medium), (''low'', S_low),
     (''informational'', S_informational)]"

definition posture_categories :: "(string \<times> category) list" where
  "posture_categories = [(''sg'', C_network), (''ec2_instance'', C_compute), (''ami'', C_compute),
     (''ebs_volume'', C_storage), (''ebs_snapshot'', C_storage), (''iam_user'', C_iam), (''iam_access_key'', C_iam),
     (''iam_role'', C_iam), (''kms_key'', C_iam), (''cloudtrail'', C_audit)]"

definition or_default :: "'a \<Rightarrow> 'a option \<Rightarrow> 'a" where
  "or_default d x = (case x of None \<Rightarrow> d | Some y \<Rightarrow> y)"

definition posture_entry ::
  "pyenv \<Rightarrow> time \<Rightarrow> transport \<Rightarrow> time \<Rightarrow> pyval \<Rightarrow> pyval \<Rightarrow> pyerr + event list" where
  "posture_entry E now t when account item =
     (case item of PyDict f \<Rightarrow>
        let rid = dget f ''resource_id''; rtype = dget f ''resource_type''; ftype = dget f ''finding_type'' in
        if \<not> (truthy rid \<and> truthy rtype \<and> truthy ftype) then Inr []
        else
          let fid = posture_finding_id E account rid ftype; severity = dget_or f ''severity'' (PyStr ''medium'') in
          sbind (lookup_key posture_severities severity) (\<lambda>sev.
          sbind (lookup_key posture_categories rtype) (\<lambda>cat.
          sbind (checked_source ''aws.posture'' (Some ''aws'') account (dget f ''region'') t) (\<lambda>src.
          sbind (checked_target rid (PyStr (''aws.'' @ py_str E rtype)) rid) (\<lambda>tgt.
            Inr [ensure_fingerprint E ((event_defaults now src)
              \<lparr>ev_time := when, ev_category := or_default C_audit cat, ev_action := ''aws.posture.finding'',
               ev_outcome := O_failure, ev_target := tgt, ev_severity := Some (or_default S_medium sev),
               ev_extra := [(''finding_id'', PyStr fid), (''resource_id'', rid), (''resource_type'', rtype),
                 (''finding_type'', ftype), (''severity'', severity), (''region'', dget f ''region''),
                 (''account'', account), (''evidence'', py_or (dget f ''evidence'') (PyDict []))],
               ev_raw := PyDict [(''kind'', PyStr ''aws_posture_finding''), (''finding_id'', PyStr fid)]\<rparr>)]))))
      | _ \<Rightarrow> Inr [])"

definition posture_scan_ids :: "pyenv \<Rightarrow> pyval \<Rightarrow> pyval list \<Rightarrow> string list" where
  "posture_scan_ids E account items =
     map (\<lambda>f. posture_finding_id E account (dget f ''resource_id'') (dget f ''finding_type''))
       (filter (\<lambda>f. truthy (dget f ''resource_id'') \<and> truthy (dget f ''finding_type''))
         (map as_dict (filter is_dict items)))"

definition posture_parse :: "pyenv \<Rightarrow> time \<Rightarrow> ingest_ctx \<Rightarrow> pyval \<Rightarrow> pyerr + event list" where
  "posture_parse E now ctx raw =
     (case raw of PyDict d \<Rightarrow>
        if \<not> is_kind ''aws_posture_report'' d then Inr []
        else
          let account = dget d ''account'';
              when = or_now now (adapter_parse_iso E (dget d ''scanned_at''));
              t = transport_or T_api (cx_transport ctx) in
          sbind (iter_or_empty (dget d ''findings'')) (\<lambda>items.
          sbind (collect (posture_entry E now t when account) items) (\<lambda>evs.
          if \<not> truthy (dget_or d ''scan_complete'' (PyBool True)) then Inr evs
          else
            sbind (checked_source ''aws.posture'' (Some ''aws'') account PyNone t) (\<lambda>src.
            sbind (checked_target (py_or account (PyStr ''aws'')) (PyStr ''aws.account'') PyNone) (\<lambda>tgt.
              Inr (evs @ [ensure_fingerprint E ((event_defaults now src)
                \<lparr>ev_time := when, ev_category := C_audit, ev_action := ''aws.posture.scan.completed'',
                 ev_outcome := O_success, ev_target := tgt,
                 ev_extra := [(''account'', account),
                   (''finding_ids'', PyList (map PyStr (posture_scan_ids E account items))),
                   (''checks_run'', py_or (dget d ''checks_run'') (PyList [])),
                   (''scanner_version'', dget d ''scanner_version'')],
                 ev_raw := PyDict [(''kind'', PyStr ''aws_posture_scan_completed''), (''account'', account)]\<rparr>)])))))
      | _ \<Rightarrow> Inr [])"

section \<open>TLS certificate probes\<close>

text \<open>The comparisons \<open>days < 0\<close> and so on raise where \<open>days\<close> is not a number.\<close>

definition cert_band :: "string \<Rightarrow> real \<Rightarrow> string option" where
  "cert_band pre days =
     (if days < 0 then Some (pre @ ''expired'')
      else if days < 7 then Some (pre @ ''expiring.critical'')
      else if days < 14 then Some (pre @ ''expiring.high'')
      else if days < 30 then Some (pre @ ''expiring.warning'')
      else None)"

definition cert_action_for :: "dict \<Rightarrow> pyerr + string option" where
  "cert_action_for tgt =
     (if \<not> truthy (dget tgt ''ok'') then Inr (Some ''cert.probe.failed'')
      else if dget tgt ''days_remaining'' = PyNone then Inr (Some ''cert.probe.failed'')
      else case num_of (dget tgt ''days_remaining'') of
        None \<Rightarrow> Inl (TypeError ''not supported between instances'')
      | Some days \<Rightarrow> Inr (cert_band ''cert.'' days))"

definition cert_target_id :: "pyenv \<Rightarrow> dict \<Rightarrow> pyval" where
  "cert_target_id E tgt =
     (let host = dget tgt ''host''; port = dget tgt ''port'' in
      py_or (dget tgt ''name'') (py_or host
        (if host \<noteq> PyNone \<and> port \<noteq> PyNone then PyStr (py_str E host @ '':'' @ py_str E port) else PyNone)))"

definition cert_entry :: "pyenv \<Rightarrow> time \<Rightarrow> ingest_ctx \<Rightarrow> pyval \<Rightarrow> pyerr + event list" where
  "cert_entry E now ctx item =
     (case item of PyDict c \<Rightarrow>
        sbind (cert_action_for c) (\<lambda>action.
          case action of None \<Rightarrow> Inr []
          | Some a \<Rightarrow>
              sbind (checked_target (cert_target_id E c) (PyStr ''tls_endpoint'')
                       (py_or (dget c ''name'') (cert_target_id E c))) (\<lambda>tgt.
                Inr [ensure_fingerprint E ((event_defaults now
                    \<lparr>src_module = ''cert'', src_vendor = None, src_account = cx_account ctx,
                     src_region = cx_region ctx, src_transport = T_poll\<rparr>)
                  \<lparr>ev_time := now, ev_category := C_audit, ev_action := a,
                   ev_outcome := (if truthy (dget c ''ok'') then O_success else O_failure), ev_target := tgt,
                   ev_extra := [(''host'', dget c ''host''), (''port'', dget c ''port''),
                       (''subject'', dget c ''subject''), (''issuer'', dget c ''issuer''),
                       (''not_after'', dget c ''not_after''), (''days_remaining'', dget c ''days_remaining''),
                       (''sans'', py_or (dget c ''sans'') (PyList []))]
                     @ (if truthy (dget c ''error'') then [(''error'', dget c ''error'')] else []),
                   ev_raw := item\<rparr>)]))
      | _ \<Rightarrow> Inr [])"

definition cert_parse :: "pyenv \<Rightarrow> time \<Rightarrow> ingest_ctx \<Rightarrow> pyval \<Rightarrow> pyerr + event list" where
  "cert_parse E now ctx raw =
     sbind (iter_or_empty (dget (as_dict raw) ''targets'')) (collect (cert_entry E now ctx))"

section \<open>S3 inventory reports\<close>

definition s3_entry ::
  "pyenv \<Rightarrow> time \<Rightarrow> transport \<Rightarrow> time \<Rightarrow> pyval \<Rightarrow> pyval \<Rightarrow> pyerr + event list" where
  "s3_entry E now t when account item =
     (case item of PyDict b \<Rightarrow>
        let name = dget b ''name'' in
        if \<not> truthy name then Inr []
        else
          sbind (checked_source ''aws.s3'' (Some ''aws'') account (dget b ''region'') t) (\<lambda>src.
          sbind (checked_target name (PyStr ''aws.s3.bucket'') name) (\<lambda>tgt.
            Inr [ensure_fingerprint E ((event_defaults now src)
              \<lparr>ev_time := when, ev_category := C_storage, ev_action := ''s3.bucket.snapshot'',
               ev_outcome := O_success, ev_target := tgt,
               ev_extra := [(''bucket_name'', name), (''region'', dget b ''region''), (''account'', account),
                 (''created_date'', dget b ''created_date''), (''public'', PyBool (truthy (dget b ''public''))),
                 (''public_reasons'', py_or (dget b ''public_reasons'') (PyList [])),
                 (''encryption'', py_or (dget b ''encryption'') (PyStr ''none'')),
                 (''versioning'', py_or (dget b ''versioning'') (PyStr ''Disabled'')),
                 (''mfa_delete'', PyBool (truthy (dget b ''mfa_delete''))),
                 (''block_public_access'', py_or (dget b ''block_public_access'') (PyDict [])),
                 (''logging'', py_or (dget b ''logging'') (PyDict [])), (''policy'', dget b ''policy''),
                 (''tags'', py_or (dget b ''tags'') (PyDict []))],
               ev_raw := PyDict [(''kind'', PyStr ''s3_bucket_snapshot''), (''bucket'', name)]\<rparr>)]))
      | _ \<Rightarrow> Inr [])"

definition s3_inventory_parse :: "pyenv \<Rightarrow> time \<Rightarrow> ingest_ctx \<Rightarrow> pyval \<Rightarrow> pyerr + event list" where
  "s3_inventory_parse E now ctx raw =
     (case raw of PyDict d \<Rightarrow>
        if \<not> is_kind ''s3_bucket_snapshot'' d then Inr []
        else
          let account = dget d ''account'';
              when = or_now now (adapter_parse_iso E (dget d ''scanned_at''));
              t = transport_or T_api (cx_transport ctx) in
          sbind (iter_or_empty (dget d ''buckets'')) (\<lambda>items.
          sbind (collect (s3_entry E now t when account) items) (\<lambda>evs.
          if \<not> truthy (dget_or d ''scan_complete'' (PyBool True)) then Inr evs
          else
            sbind (checked_source ''aws.s3'' (Some ''aws'') account PyNone t) (\<lambda>src.
            sbind (checked_target (py_or account (PyStr ''aws'')) (PyStr ''aws.account'') PyNone) (\<lambda>tgt.
              Inr (evs @ [ensure_fingerprint E ((event_defaults now src)
                \<lparr>ev_time := when, ev_category := C_storage, ev_action := ''s3.scan.completed'',
                 ev_outcome := O_success, ev_target := tgt,
                 ev_extra := [(''account'', account),
                   (''bucket_names'', PyList (map (\<lambda>v. dget (as_dict v) ''name'') (filter is_dict items))),
                   (''scanner_version'', dget d ''scanner_version'')],
                 ev_raw := PyDict [(''kind'', PyStr ''s3_scan_completed''), (''account'', account)]\<rparr>)])))))
      | _ \<Rightarrow> Inr [])"

end
