(* ===== verification/Regex.thy ===== *)
theory Regex
  imports Prelude
begin

text \<open>
  The part of Python's \<open>re\<close> the code uses with fixed patterns: character classes, sequences,
  alternatives, greedy and lazy repetition, capturing groups, \<open>^\<close>, \<open>$\<close> and \<open>\b\<close>. A pattern of the
  source is written here as an \<open>rx\<close>. \<open>rx_match\<close> lists the ways to match at a position in the order
  the backtracking engine tries them, so its first element is the match that Python reports; a
  repetition goes on only while it consumes something, as the engine does. Classes are those of
  ASCII text.
\<close>

section \<open>Patterns\<close>

datatype rx =
    Rx_chars "char \<Rightarrow> bool"
  | Rx_eps
  | Rx_seq rx rx
  | Rx_alt rx rx
  | Rx_rep nat "nat option" bool rx
  | Rx_grp nat rx
  | Rx_bos
  | Rx_eos
  | Rx_wordb

definition is_digit :: "char \<Rightarrow> bool" where
  "is_digit c = (let n = of_char c :: nat in 48 \<le> n \<and> n \<le> 57)"

definition is_upper :: "char \<Rightarrow> bool" where
  "is_upper c = (let n = of_char c :: nat in 65 \<le> n \<and> n \<le> 90)"

definition is_lower :: "char \<Rightarrow> bool" where
  "is_lower c = (let n = of_char c :: nat in 97 \<le> n \<and> n \<le> 122)"

definition is_word :: "char \<Rightarrow> bool" where
  "is_word c = (is_digit c \<or> is_upper c \<or> is_lower c \<or> c = CHR ''_'')"

definition is_hex :: "char \<Rightarrow> bool" where
  "is_hex c = (let n = of_char c :: nat in is_digit c \<or> (65 \<le> n \<and> n \<le> 70) \<or> (97 \<le> n \<and> n \<le> 102))"

definition not_newline :: "char \<Rightarrow> bool" where
  "not_newline c = (c \<noteq> CHR 10)"

fun rx_lit :: "string \<Rightarrow> rx" where
  "rx_lit [] = Rx_eps"
| "rx_lit [c] = Rx_chars (\<lambda>x. x = c)"
| "rx_lit (c # d # cs) = Rx_seq (Rx_chars (\<lambda>x. x = c)) (rx_lit (d # cs))"

text \<open>A literal under \<open>re.IGNORECASE\<close>.\<close>

fun rx_ilit :: "string \<Rightarrow> rx" where
  "rx_ilit [] = Rx_eps"
| "rx_ilit [c] = Rx_chars (\<lambda>x. char_lower x = char_lower c)"
| "rx_ilit (c # d # cs) = Rx_seq (Rx_chars (\<lambda>x. char_lower x = char_lower c)) (rx_ilit (d # cs))"

fun rx_cat :: "rx list \<Rightarrow> rx" where
  "rx_cat [] = Rx_eps"
| "rx_cat [r] = r"
| "rx_cat (r # q # rs) = Rx_seq r (rx_cat (q # rs))"

fun rx_any :: "rx list \<Rightarrow> rx" where
  "rx_any [] = Rx_chars (\<lambda>c. False)"
| "rx_any [r] = r"
| "rx_any (r # q # rs) = Rx_alt r (rx_any (q # rs))"

definition rx_star :: "rx \<Rightarrow> rx" where "rx_star r = Rx_rep 0 None True r"
definition rx_plus :: "rx \<Rightarrow> rx" where "rx_plus r = Rx_rep 1 None True r"
definition rx_opt :: "rx \<Rightarrow> rx" where "rx_opt r = Rx_rep 0 (Some 1) True r"
definition rx_lazy :: "rx \<Rightarrow> rx" where "rx_lazy r = Rx_rep 0 None False r"
definition rx_times :: "nat \<Rightarrow> rx \<Rightarrow> rx" where "rx_times n r = Rx_rep n (Some n) True r"
definition rx_between :: "nat \<Rightarrow> nat \<Rightarrow> rx \<Rightarrow> rx" where "rx_between lo hi r = Rx_rep lo (Some hi) True r"
definition rx_atleast :: "nat \<Rightarrow> rx \<Rightarrow> rx" where "rx_atleast n r = Rx_rep n None True r"

section \<open>Matching\<close>

record rx_state =
  rs_prev :: "char option"
  rs_rest :: string
  rs_caps :: "(nat \<times> string) list"

definition consumed :: "rx_state \<Rightarrow> rx_state \<Rightarrow> string" where
  "consumed s t = take (length (rs_rest s) - length (rs_rest t)) (rs_rest s)"

fun rx_times_from :: "(rx_state \<Rightarrow> rx_state list) \<Rightarrow> nat \<Rightarrow> rx_state \<Rightarrow> rx_state list" where
  "rx_times_from f 0 s = [s]"
| "rx_times_from f (Suc n) s = concat (map (rx_times_from f n) (f s))"

fun rx_more :: "(rx_state \<Rightarrow> rx_state list) \<Rightarrow> bool \<Rightarrow> nat \<Rightarrow> rx_state \<Rightarrow> rx_state list" where
  "rx_more f greedy 0 s = [s]"
| "rx_more f greedy (Suc n) s =
     (let go = concat (map (rx_more f greedy n)
                (filter (\<lambda>t. length (rs_rest t) < length (rs_rest s)) (f s)))
      in if greedy then go @ [s] else s # go)"

definition at_word_boundary :: "rx_state \<Rightarrow> bool" where
  "at_word_boundary s =
     ((case rs_prev s of None \<Rightarrow> False | Some c \<Rightarrow> is_word c) \<noteq>
      (case rs_rest s of [] \<Rightarrow> False | c # cs \<Rightarrow> is_word c))"

primrec rx_match :: "rx \<Rightarrow> rx_state \<Rightarrow> rx_state list" where
  "rx_match (Rx_chars P) s = (case rs_rest s of [] \<Rightarrow> []
     | c # cs \<Rightarrow> if P c then [s\<lparr>rs_prev := Some c, rs_rest := cs\<rparr>] else [])"
| "rx_match Rx_eps s = [s]"
| "rx_match (Rx_seq a b) s = concat (map (rx_match b) (rx_match a s))"
| "rx_match (Rx_alt a b) s = rx_match a s @ rx_match b s"
| "rx_match (Rx_rep lo hi greedy r) s =
     concat (map (\<lambda>t. rx_more (rx_match r) greedy
         (case hi of None \<Rightarrow> length (rs_rest t) | Some h \<Rightarrow> h - lo) t)
       (rx_times_from (rx_match r) lo s))"
| "rx_match (Rx_grp n r) s = map (\<lambda>t. t\<lparr>rs_caps := (n, consumed s t) # rs_caps t\<rparr>) (rx_match r s)"
| "rx_match Rx_bos s = (if rs_prev s = None then [s] else [])"
| "rx_match Rx_eos s = (if rs_rest s = [] \<or> rs_rest s = [CHR 10] then [s] else [])"
| "rx_match Rx_wordb s = (if at_word_boundary s then [s] else [])"

text \<open>The first match at one position: its groups, what is left, and the text it covers.\<close>

record rx_hit =
  rh_caps :: "(nat \<times> string) list"
  rh_text :: string
  rh_before :: string
  rh_prev :: "char option"
  rh_rest :: string

definition rx_at :: "rx \<Rightarrow> string \<Rightarrow> char option \<Rightarrow> string \<Rightarrow> rx_hit option" where
  "rx_at r before prev s =
     (let s0 = \<lparr>rs_prev = prev, rs_rest = s, rs_caps = []\<rparr> in
      case rx_match r s0 of [] \<Rightarrow> None
      | t # ts \<Rightarrow> Some \<lparr>rh_caps = rs_caps t, rh_text = consumed s0 t, rh_before = before, rh_prev = rs_prev t,
          rh_rest = rs_rest t\<rparr>)"

text \<open>\<open>re.match\<close> and \<open>re.search\<close>; \<open>before\<close> is the text passed over, in reverse.\<close>

definition re_match :: "rx \<Rightarrow> string \<Rightarrow> rx_hit option" where
  "re_match r s = rx_at r [] None s"

fun rx_scan :: "rx \<Rightarrow> string \<Rightarrow> char option \<Rightarrow> string \<Rightarrow> rx_hit option" where
  "rx_scan r before prev s =
     (case rx_at r before prev s of Some h \<Rightarrow> Some h
      | None \<Rightarrow> (case s of [] \<Rightarrow> None | c # cs \<Rightarrow> rx_scan r (c # before) (Some c) cs))"

declare rx_scan.simps [simp del]

definition re_find :: "rx \<Rightarrow> string \<Rightarrow> rx_hit option" where
  "re_find r s = rx_scan r [] None s"

definition grp :: "nat \<Rightarrow> rx_hit \<Rightarrow> string option" where
  "grp n h = map_of (rh_caps h) n"

definition grp_str :: "nat \<Rightarrow> rx_hit \<Rightarrow> string" where
  "grp_str n h = (case grp n h of None \<Rightarrow> [] | Some s \<Rightarrow> s)"

text \<open>\<open>re.finditer\<close>: matches that do not overlap, from left to right; after an empty match the scan moves
  on by one character. The number of matches is bounded by the length of the text plus one.\<close>

fun rx_iter :: "nat \<Rightarrow> rx \<Rightarrow> char option \<Rightarrow> string \<Rightarrow> rx_hit list" where
  "rx_iter 0 r prev s = []"
| "rx_iter (Suc n) r prev s =
     (case rx_scan r [] prev s of None \<Rightarrow> []
      | Some h \<Rightarrow> h # (if rh_text h \<noteq> [] then rx_iter n r (rh_prev h) (rh_rest h)
                      else case rh_rest h of [] \<Rightarrow> [] | c # cs \<Rightarrow> rx_iter n r (Some c) cs))"

definition re_finditer :: "rx \<Rightarrow> string \<Rightarrow> rx_hit list" where
  "re_finditer r s = rx_iter (Suc (length s)) r None s"

text \<open>\<open>re.sub\<close> with a replacement computed from the match, for patterns that match no empty text.\<close>

fun rx_subst :: "nat \<Rightarrow> rx \<Rightarrow> (rx_hit \<Rightarrow> string) \<Rightarrow> char option \<Rightarrow> string \<Rightarrow> string" where
  "rx_subst 0 r f prev s = s"
| "rx_subst (Suc n) r f prev s =
     (case rx_scan r [] prev s of None \<Rightarrow> s
      | Some h \<Rightarrow> rev (rh_before h) @ f h @
          (if rh_text h \<noteq> [] then rx_subst n r f (rh_prev h) (rh_rest h) else rh_rest h))"

definition re_sub :: "rx \<Rightarrow> (rx_hit \<Rightarrow> string) \<Rightarrow> string \<Rightarrow> string" where
  "re_sub r f s = rx_subst (Suc (length s)) r f None s"

section \<open>Patterns the components share\<close>

abbreviation rx_d :: rx where "rx_d \<equiv> Rx_chars is_digit"
abbreviation rx_s :: rx where "rx_s \<equiv> Rx_chars is_space"
abbreviation rx_S :: rx where "rx_S \<equiv> Rx_chars (\<lambda>c. \<not> is_space c)"
abbreviation rx_dot :: rx where "rx_dot \<equiv> Rx_chars not_newline"
abbreviation rx_not :: "char \<Rightarrow> rx" where "rx_not c \<equiv> Rx_chars (\<lambda>x. x \<noteq> c)"

text \<open>\<open>\d{1,3}(?:\.\d{1,3}){3}\<close>\<close>

definition rx_ipv4 :: rx where
  "rx_ipv4 = Rx_seq (rx_between 1 3 rx_d) (rx_times 3 (Rx_seq (rx_lit ''.'') (rx_between 1 3 rx_d)))"

section \<open>What a match covers\<close>

definition advances_to :: "rx_state \<Rightarrow> rx_state \<Rightarrow> bool" where
  "advances_to s t \<longleftrightarrow> (\<exists>u. rs_rest s = u @ rs_rest t)"

lemma advances_to_refl [simp]: "advances_to s s"
  by (simp add: advances_to_def)

lemma advances_to_trans: "advances_to s t \<Longrightarrow> advances_to t u \<Longrightarrow> advances_to s u"
  by (auto simp: advances_to_def)

lemma consumed_split: "advances_to s t \<Longrightarrow> rs_rest s = consumed s t @ rs_rest t"
  by (auto simp: advances_to_def consumed_def)

lemma consumed_refl [simp]: "consumed s s = []"
  by (simp add: consumed_def)

lemma consumed_trans: "advances_to s t \<Longrightarrow> advances_to t u \<Longrightarrow> consumed s u = consumed s t @ consumed t u"
  by (auto simp: advances_to_def consumed_def)

lemma consumed_caps [simp]: "consumed s (t\<lparr>rs_caps := x\<rparr>) = consumed s t"
  "advances_to s (t\<lparr>rs_caps := x\<rparr>) = advances_to s t"
  by (simp_all add: consumed_def advances_to_def)

text \<open>A relation between the state before and after a match that the repetitions keep.\<close>

lemma rx_times_from_rel:
  assumes "\<And>s t. t \<in> set (f s) \<Longrightarrow> R s t" and "\<And>s. R s s" and "\<And>s t u. R s t \<Longrightarrow> R t u \<Longrightarrow> R s u"
  shows "t \<in> set (rx_times_from f n s) \<Longrightarrow> R s t"
  by (induction n arbitrary: s) (auto intro: assms)

lemma rx_more_rel:
  assumes "\<And>s t. t \<in> set (f s) \<Longrightarrow> R s t" and "\<And>s. R s s" and "\<And>s t u. R s t \<Longrightarrow> R t u \<Longrightarrow> R s u"
  shows "t \<in> set (rx_more f g n s) \<Longrightarrow> R s t"
  by (induction n arbitrary: s) (auto simp: Let_def intro: assms split: if_splits)

lemma rx_match_chars:
  "t \<in> set (rx_match (Rx_chars P) s) \<longleftrightarrow>
     (\<exists>c cs. rs_rest s = c # cs \<and> P c \<and> t = s\<lparr>rs_prev := Some c, rs_rest := cs\<rparr>)"
  by (cases "rs_rest s") auto

lemma rx_match_advances: "t \<in> set (rx_match r s) \<Longrightarrow> advances_to s t"
proof (induction r arbitrary: s t)
  case (Rx_chars P)
  then show ?case unfolding rx_match_chars by (auto simp: advances_to_def)
next
  case (Rx_rep lo hi g r)
  then obtain m n where m: "m \<in> set (rx_times_from (rx_match r) lo s)" "t \<in> set (rx_more (rx_match r) g n m)"
    by auto
  from rx_times_from_rel[of "rx_match r" advances_to, OF _ _ _ m(1)]
    rx_more_rel[of "rx_match r" advances_to, OF _ _ _ m(2)] show ?case
    using Rx_rep.IH advances_to_trans by (meson advances_to_refl)
next
  case (Rx_seq a b)
  then show ?case using advances_to_trans by fastforce
qed (auto split: if_splits)

text \<open>A pattern whose classes all lie in \<open>P\<close> covers characters of \<open>P\<close> only.\<close>

primrec rx_within :: "(char \<Rightarrow> bool) \<Rightarrow> rx \<Rightarrow> bool" where
  "rx_within P (Rx_chars Q) \<longleftrightarrow> (\<forall>c. Q c \<longrightarrow> P c)"
| "rx_within P Rx_eps \<longleftrightarrow> True"
| "rx_within P (Rx_seq a b) \<longleftrightarrow> rx_within P a \<and> rx_within P b"
| "rx_within P (Rx_alt a b) \<longleftrightarrow> rx_within P a \<and> rx_within P b"
| "rx_within P (Rx_rep lo hi g r) \<longleftrightarrow> rx_within P r"
| "rx_within P (Rx_grp n r) \<longleftrightarrow> rx_within P r"
| "rx_within P Rx_bos \<longleftrightarrow> True"
| "rx_within P Rx_eos \<longleftrightarrow> True"
| "rx_within P Rx_wordb \<longleftrightarrow> True"

definition covers :: "(char \<Rightarrow> bool) \<Rightarrow> rx_state \<Rightarrow> rx_state \<Rightarrow> bool" where
  "covers P s t \<longleftrightarrow> advances_to s t \<and> list_all P (consumed s t)"

lemma covers_refl [simp]: "covers P s s"
  by (simp add: covers_def)

lemma covers_trans: "covers P s t \<Longrightarrow> covers P t u \<Longrightarrow> covers P s u"
  using advances_to_trans[of s t u] by (auto simp: covers_def consumed_trans[of s t u])

lemma rx_match_covers: "rx_within P r \<Longrightarrow> t \<in> set (rx_match r s) \<Longrightarrow> covers P s t"
proof (induction r arbitrary: s t)
  case (Rx_chars Q)
  then show ?case unfolding rx_match_chars by (auto simp: covers_def consumed_def advances_to_def)
next
  case (Rx_rep lo hi g r)
  then obtain m n where m: "m \<in> set (rx_times_from (rx_match r) lo s)" "t \<in> set (rx_more (rx_match r) g n m)"
    by auto
  have "rx_within P r" using Rx_rep.prems(1) by simp
  note step = Rx_rep.IH[OF this]
  have "covers P s m" by (rule rx_times_from_rel[OF step covers_refl covers_trans m(1)])
  moreover have "covers P m t" by (rule rx_more_rel[OF step covers_refl covers_trans m(2)])
  ultimately show ?case by (rule covers_trans)
next
  case (Rx_seq a b)
  then obtain m where "m \<in> set (rx_match a s)" "t \<in> set (rx_match b m)" by auto
  with Rx_seq show ?case using covers_trans[of P s m t] by simp
qed (auto simp: covers_def split: if_splits)

section \<open>The language of a pattern\<close>

fun lang_pow :: "string set \<Rightarrow> nat \<Rightarrow> string set" where
  "lang_pow L 0 = {[]}"
| "lang_pow L (Suc n) = {u @ v | u v. u \<in> L \<and> v \<in> lang_pow L n}"

primrec rx_lang :: "rx \<Rightarrow> string set" where
  "rx_lang (Rx_chars P) = {[c] | c. P c}"
| "rx_lang Rx_eps = {[]}"
| "rx_lang (Rx_seq a b) = {u @ v | u v. u \<in> rx_lang a \<and> v \<in> rx_lang b}"
| "rx_lang (Rx_alt a b) = rx_lang a \<union> rx_lang b"
| "rx_lang (Rx_rep lo hi g r) =
     (\<Union>k \<in> (case hi of None \<Rightarrow> UNIV | Some h \<Rightarrow> {..h - lo}). lang_pow (rx_lang r) (lo + k))"
| "rx_lang (Rx_grp n r) = rx_lang r"
| "rx_lang Rx_bos = {[]}"
| "rx_lang Rx_eos = {[]}"
| "rx_lang Rx_wordb = {[]}"

text \<open>Patterns without \<open>^\<close>, \<open>$\<close> and \<open>\b\<close>.\<close>

primrec rx_plain :: "rx \<Rightarrow> bool" where
  "rx_plain (Rx_chars P) \<longleftrightarrow> True"
| "rx_plain Rx_eps \<longleftrightarrow> True"
| "rx_plain (Rx_seq a b) \<longleftrightarrow> rx_plain a \<and> rx_plain b"
| "rx_plain (Rx_alt a b) \<longleftrightarrow> rx_plain a \<and> rx_plain b"
| "rx_plain (Rx_rep lo hi g r) \<longleftrightarrow> rx_plain r"
| "rx_plain (Rx_grp n r) \<longleftrightarrow> rx_plain r"
| "rx_plain Rx_bos \<longleftrightarrow> False"
| "rx_plain Rx_eos \<longleftrightarrow> False"
| "rx_plain Rx_wordb \<longleftrightarrow> False"

lemma lang_pow_add: "w \<in> lang_pow L (m + n) \<longleftrightarrow> (\<exists>u v. w = u @ v \<and> u \<in> lang_pow L m \<and> v \<in> lang_pow L n)"
proof (induction m arbitrary: w)
  case (Suc m)
  show ?case by (auto simp: Suc) (metis append.assoc)+
qed simp

definition spells :: "string set \<Rightarrow> rx_state \<Rightarrow> rx_state \<Rightarrow> bool" where
  "spells L s t \<longleftrightarrow> advances_to s t \<and> consumed s t \<in> L"

lemma rx_times_from_spells:
  assumes "\<And>s t. t \<in> set (f s) \<Longrightarrow> spells L s t"
  shows "t \<in> set (rx_times_from f n s) \<Longrightarrow> spells (lang_pow L n) s t"
proof (induction n arbitrary: s)
  case (Suc n)
  then obtain m where m: "m \<in> set (f s)" "t \<in> set (rx_times_from f n m)" by auto
  from assms[OF m(1)] Suc.IH[OF m(2)] show ?case
    using advances_to_trans[of s m t] consumed_trans[of s m t] by (auto simp: spells_def)
qed (simp add: spells_def)

lemma rx_more_spells:
  assumes "\<And>s t. t \<in> set (f s) \<Longrightarrow> spells L s t"
  shows "t \<in> set (rx_more f g n s) \<Longrightarrow> \<exists>k \<le> n. spells (lang_pow L k) s t"
proof (induction n arbitrary: s)
  case (Suc n)
  show ?case
  proof (cases "t = s")
    case True
    then have "spells (lang_pow L 0) s t" by (simp add: spells_def)
    then show ?thesis by blast
  next
    case False
    then obtain m where m: "m \<in> set (f s)" "t \<in> set (rx_more f g n m)"
      using Suc.prems by (auto simp: Let_def split: if_splits)
    from Suc.IH[OF m(2)] obtain k where "k \<le> n" "spells (lang_pow L k) m t" by blast
    then have "spells (lang_pow L (Suc k)) s t"
      using assms[OF m(1)] advances_to_trans[of s m t] consumed_trans[of s m t] by (auto simp: spells_def)
    then show ?thesis using \<open>k \<le> n\<close> by (meson Suc_le_mono)
  qed
qed (auto simp: spells_def)

lemma rx_match_spells: "t \<in> set (rx_match r s) \<Longrightarrow> spells (rx_lang r) s t"
proof (induction r arbitrary: s t)
  case (Rx_chars P)
  then show ?case unfolding rx_match_chars by (auto simp: spells_def consumed_def advances_to_def)
next
  case (Rx_seq a b)
  then obtain m where m: "m \<in> set (rx_match a s)" "t \<in> set (rx_match b m)" by auto
  from Rx_seq.IH(1)[OF m(1)] Rx_seq.IH(2)[OF m(2)] show ?case
    using advances_to_trans[of s m t] consumed_trans[of s m t] by (auto simp: spells_def)
next
  case (Rx_rep lo hi g r)
  let ?n = "\<lambda>m. case hi of None \<Rightarrow> length (rs_rest m) | Some h \<Rightarrow> h - lo"
  from Rx_rep.prems obtain m where m: "m \<in> set (rx_times_from (rx_match r) lo s)"
    "t \<in> set (rx_more (rx_match r) g (?n m) m)" by auto
  have a: "spells (lang_pow (rx_lang r) lo) s m" by (rule rx_times_from_spells[OF Rx_rep.IH m(1)])
  obtain k where k: "k \<le> ?n m" "spells (lang_pow (rx_lang r) k) m t"
    using rx_more_spells[OF Rx_rep.IH m(2)] by blast
  have "consumed s t \<in> lang_pow (rx_lang r) (lo + k)" and "advances_to s t"
    using a k(2) consumed_trans[of s m t] advances_to_trans[of s m t] unfolding lang_pow_add spells_def by metis+
  then show ?case using k(1) by (auto simp: spells_def split: option.splits)
qed (auto simp: spells_def split: if_splits)

definition completes :: "(rx_state \<Rightarrow> rx_state list) \<Rightarrow> string set \<Rightarrow> bool" where
  "completes f L \<longleftrightarrow> (\<forall>s w v. rs_rest s = w @ v \<longrightarrow> w \<in> L \<longrightarrow> (\<exists>t \<in> set (f s). rs_rest t = v))"

lemma completesD: "completes f L \<Longrightarrow> rs_rest s = w @ v \<Longrightarrow> w \<in> L \<Longrightarrow> \<exists>t \<in> set (f s). rs_rest t = v"
  by (simp add: completes_def)

lemma rx_times_from_complete:
  assumes "completes f L"
  shows "rs_rest s = w @ v \<Longrightarrow> w \<in> lang_pow L n \<Longrightarrow> \<exists>t \<in> set (rx_times_from f n s). rs_rest t = v"
proof (induction n arbitrary: s w)
  case (Suc n)
  then obtain u x where u: "w = u @ x" "u \<in> L" "x \<in> lang_pow L n" by auto
  then obtain t where "t \<in> set (f s)" "rs_rest t = x @ v" using completesD[OF assms, of s u "x @ v"] Suc.prems(1) by auto
  then show ?case using Suc.IH[of t x] u(3) by auto
qed simp

lemma rx_more_stays: "s \<in> set (rx_more f g n s)"
  by (cases n) (auto simp: Let_def)

lemma rx_more_complete:
  assumes "completes f L"
  shows "rs_rest s = w @ v \<Longrightarrow> w \<in> lang_pow L k \<Longrightarrow> k \<le> n \<or> length w \<le> n \<Longrightarrow>
    \<exists>t \<in> set (rx_more f g n s). rs_rest t = v"
proof (induction k arbitrary: s w n)
  case 0
  then show ?case using rx_more_stays[of s f g n] by auto
next
  case (Suc k)
  then obtain u x where u: "w = u @ x" "u \<in> L" "x \<in> lang_pow L k" by auto
  show ?case
  proof (cases "u = []")
    case True
    then show ?thesis using Suc.IH[of s x n] Suc.prems u by auto
  next
    case False
    then obtain m where n: "n = Suc m" using Suc.prems(3) u(1) by (cases n) auto
    obtain t where t: "t \<in> set (f s)" "rs_rest t = x @ v"
      using completesD[OF assms, of s u "x @ v"] Suc.prems(1) u by auto
    have "\<exists>t' \<in> set (rx_more f g m t). rs_rest t' = v"
      using Suc.IH[of t x m] t(2) u Suc.prems(3) False n by (cases u) auto
    then obtain t' where t': "t' \<in> set (rx_more f g m t)" "rs_rest t' = v" by blast
    have "length (rs_rest t) < length (rs_rest s)" using t(2) Suc.prems(1) u(1) False by simp
    then have "t' \<in> set (rx_more f g n s)" using t(1) t'(1) by (auto simp: n Let_def)
    then show ?thesis using t'(2) by blast
  qed
qed

lemma rx_match_complete:
  "rx_plain r \<Longrightarrow> rs_rest s = w @ v \<Longrightarrow> w \<in> rx_lang r \<Longrightarrow> \<exists>t \<in> set (rx_match r s). rs_rest t = v"
proof (induction r arbitrary: s w v)
  case (Rx_chars P)
  then show ?case by auto
next
  case (Rx_seq a b)
  then obtain u x where u: "w = u @ x" "u \<in> rx_lang a" "x \<in> rx_lang b" by auto
  then obtain m where "m \<in> set (rx_match a s)" "rs_rest m = x @ v"
    using Rx_seq.IH(1)[of s u "x @ v"] Rx_seq.prems by auto
  then show ?case using Rx_seq.IH(2)[of m x v] Rx_seq.prems u(3) by auto
next
  case (Rx_rep lo hi g r)
  then obtain k where k: "k \<in> (case hi of None \<Rightarrow> UNIV | Some h \<Rightarrow> {..h - lo})" "w \<in> lang_pow (rx_lang r) (lo + k)" by auto
  then obtain u x where u: "w = u @ x" "u \<in> lang_pow (rx_lang r) lo" "x \<in> lang_pow (rx_lang r) k"
    unfolding lang_pow_add by blast
  have step: "completes (rx_match r) (rx_lang r)"
    using Rx_rep by (simp add: completes_def)
  obtain m where m: "m \<in> set (rx_times_from (rx_match r) lo s)" "rs_rest m = x @ v"
    using rx_times_from_complete[OF step, of s u "x @ v" lo] Rx_rep.prems(2) u by auto
  let ?n = "case hi of None \<Rightarrow> length (rs_rest m) | Some h \<Rightarrow> h - lo"
  have "k \<le> ?n \<or> length x \<le> ?n" using k(1) m(2) by (auto split: option.splits)
  then obtain t where "t \<in> set (rx_more (rx_match r) g ?n m)" "rs_rest t = v"
    using rx_more_complete[OF step m(2) u(3)] by blast
  then show ?case using m(1) by auto
qed fastforce+

text \<open>A search succeeds exactly where the text contains a word of the language.\<close>

lemma rx_at_iff: "rx_plain r \<Longrightarrow> rx_at r before prev s \<noteq> None \<longleftrightarrow> (\<exists>w v. s = w @ v \<and> w \<in> rx_lang r)"
proof -
  assume r: "rx_plain r"
  let ?s = "\<lparr>rs_prev = prev, rs_rest = s, rs_caps = []\<rparr>"
  have "rx_at r before prev s \<noteq> None \<longleftrightarrow> rx_match r ?s \<noteq> []" by (auto simp: rx_at_def Let_def split: list.splits)
  also have "\<dots> \<longleftrightarrow> (\<exists>w v. s = w @ v \<and> w \<in> rx_lang r)"
  proof
    assume "rx_match r ?s \<noteq> []"
    then obtain t where "t \<in> set (rx_match r ?s)" using hd_in_set by blast
    from rx_match_spells[OF this] show "\<exists>w v. s = w @ v \<and> w \<in> rx_lang r"
      using consumed_split unfolding spells_def by fastforce
  next
    assume "\<exists>w v. s = w @ v \<and> w \<in> rx_lang r"
    then show "rx_match r ?s \<noteq> []" using rx_match_complete[OF r, of ?s] by fastforce
  qed
  finally show ?thesis .
qed

lemma rx_scan_iff: "rx_plain r \<Longrightarrow> rx_scan r before prev s \<noteq> None \<longleftrightarrow> (\<exists>w \<in> rx_lang r. sublist w s)"
proof (induction s arbitrary: before prev)
  case Nil
  have "rx_scan r before prev [] = rx_at r before prev []" by (subst rx_scan.simps) (simp split: option.splits)
  then show ?case using rx_at_iff[OF Nil, of before prev "[]"] by auto
next
  case (Cons c cs)
  have "rx_scan r before prev (c # cs) \<noteq> None \<longleftrightarrow>
      rx_at r before prev (c # cs) \<noteq> None \<or> rx_scan r (c # before) (Some c) cs \<noteq> None"
    by (subst rx_scan.simps) (simp split: option.splits)
  also have "\<dots> \<longleftrightarrow> (\<exists>w v. c # cs = w @ v \<and> w \<in> rx_lang r) \<or> (\<exists>w \<in> rx_lang r. sublist w cs)"
    using Cons rx_at_iff by simp
  also have "\<dots> \<longleftrightarrow> (\<exists>w \<in> rx_lang r. sublist w (c # cs))"
    by (auto simp: sublist_Cons_right prefix_def)
  finally show ?case .
qed

lemma re_find_iff: "rx_plain r \<Longrightarrow> re_find r s \<noteq> None \<longleftrightarrow> (\<exists>w \<in> rx_lang r. sublist w s)"
  unfolding re_find_def by (rule rx_scan_iff)

lemma rx_lang_lit [simp]: "rx_lang (rx_lit w) = {w}" "rx_plain (rx_lit w)"
  by (induction w rule: rx_lit.induct) auto

lemma rx_plain_cat [simp]: "rx_plain (rx_cat rs) \<longleftrightarrow> list_all rx_plain rs"
  by (induction rs rule: rx_cat.induct) auto

lemma rx_lang_cat [simp]: "rx_lang (rx_cat []) = {[]}" "rx_lang (rx_cat [r]) = rx_lang r"
  "rx_lang (rx_cat (r # q # rs)) = {u @ v | u v. u \<in> rx_lang r \<and> v \<in> rx_lang (rx_cat (q # rs))}"
  by auto

lemma lang_pow_chars: "w \<in> lang_pow {[c] | c. P c} n \<longleftrightarrow> length w = n \<and> list_all P w"
proof (induction n arbitrary: w)
  case (Suc n)
  have "w \<in> lang_pow {[c] | c. P c} (Suc n) \<longleftrightarrow> (\<exists>c v. w = [c] @ v \<and> P c \<and> v \<in> lang_pow {[c] | c. P c} n)"
    unfolding lang_pow.simps by blast
  also have "\<dots> \<longleftrightarrow> length w = Suc n \<and> list_all P w" by (cases w) (auto simp: Suc)
  finally show ?case .
qed auto

lemma rx_lang_plus_chars [simp]: "rx_lang (rx_plus (Rx_chars P)) = {w. w \<noteq> [] \<and> list_all P w}"
proof -
  have "(\<exists>k. length w = Suc k) \<longleftrightarrow> w \<noteq> []" for w :: string by (cases w) auto
  then have "w \<in> rx_lang (rx_plus (Rx_chars P)) \<longleftrightarrow> w \<noteq> [] \<and> list_all P w" for w
    unfolding rx_plus_def rx_lang.simps option.case UN_iff by (simp only: lang_pow_chars) auto
  then show ?thesis by blast
qed

lemma rx_plain_derived [simp]:
  "rx_plain (rx_plus r) = rx_plain r" "rx_plain (rx_star r) = rx_plain r" "rx_plain (rx_opt r) = rx_plain r"
  "rx_plain (rx_times n r) = rx_plain r" "rx_plain (rx_between lo hi r) = rx_plain r" "rx_plain rx_ipv4"
  by (simp_all add: rx_plus_def rx_star_def rx_opt_def rx_times_def rx_between_def rx_ipv4_def)

end
