(* ===== verification/Journal.thy ===== *)
theory Journal
  imports AdapterBase Regex
begin

text \<open>
  What the adapters of host and VPN logs share: entries of the systemd journal, one JSON object a line
  (\<open>_journal_message\<close>, \<open>_journal_time\<close>, \<open>_load\<close> of \<open>src/blackwatch/modules/{ec2_host,vpn_openvpn}.py\<close>), and
  the string methods they use.
\<close>

section \<open>String methods\<close>

text \<open>\<open>s.splitlines()\<close> on ASCII text.\<close>

definition is_line_break :: "char \<Rightarrow> bool" where
  "is_line_break c = (let n = of_char c :: nat in (10 \<le> n \<and> n \<le> 13) \<or> (28 \<le> n \<and> n \<le> 30))"

fun lines_from :: "string \<Rightarrow> string \<Rightarrow> string list" where
  "lines_from acc [] = (if acc = [] then [] else [rev acc])"
| "lines_from acc [c] = (if is_line_break c then [rev acc] else [rev (c # acc)])"
| "lines_from acc (c # d # cs) =
     (if c = CHR 13 \<and> d = CHR 10 then rev acc # lines_from [] cs
      else if is_line_break c then rev acc # lines_from [] (d # cs)
      else lines_from (c # acc) (d # cs))"

definition split_lines :: "string \<Rightarrow> string list" where
  "split_lines s = lines_from [] s"

text \<open>\<open>s.rsplit(c, 1)[0]\<close>, and \<open>s.strip(cs)\<close>.\<close>

definition before_last :: "char \<Rightarrow> string \<Rightarrow> string" where
  "before_last c s = (if c \<in> set s then rev (tl (dropWhile (\<lambda>x. x \<noteq> c) (rev s))) else s)"

definition strip_chars :: "string \<Rightarrow> string \<Rightarrow> string" where
  "strip_chars cs s = rev (dropWhile (\<lambda>x. x \<in> set cs) (rev (dropWhile (\<lambda>x. x \<in> set cs) s)))"

definition starts_with :: "string \<Rightarrow> string \<Rightarrow> bool" where
  "starts_with p s = prefix p s"

section \<open>Journal entries\<close>

text \<open>\<open>bytes(xs).decode("utf-8", "replace")\<close>, or the empty string where \<open>bytes\<close> raises.\<close>

fun byte_of :: "pyval \<Rightarrow> int option" where
  "byte_of (PyInt i) = (if 0 \<le> i \<and> i < 256 then Some i else None)"
| "byte_of (PyBool b) = Some (if b then 1 else 0)"
| "byte_of v = None"

definition bytes_text :: "pyenv \<Rightarrow> pyval list \<Rightarrow> string" where
  "bytes_text E xs = (if list_all (\<lambda>v. byte_of v \<noteq> None) xs
     then decode_utf8 E (map (\<lambda>v. the (byte_of v)) xs) else [])"

definition journal_message :: "pyenv \<Rightarrow> pyval \<Rightarrow> pyerr + pyval" where
  "journal_message E entry =
     (case entry of PyDict d \<Rightarrow>
        Inr (case dget_or d ''MESSAGE'' (PyStr []) of PyList xs \<Rightarrow> PyStr (bytes_text E xs)
          | msg \<Rightarrow> py_or msg (PyStr []))
      | _ \<Rightarrow> Inl (AttributeError ''get''))"

text \<open>Searching needs a string.\<close>

definition text_of :: "pyval \<Rightarrow> pyerr + string" where
  "text_of v = (case v of PyStr s \<Rightarrow> Inr s | _ \<Rightarrow> Inl (TypeError ''expected string or bytes-like object''))"

text \<open>A time in microseconds; what the conversion raises as \<open>TypeError\<close> or \<open>ValueError\<close> means now.\<close>

definition micro_time :: "time \<Rightarrow> pyval \<Rightarrow> pyerr + time" where
  "micro_time now v = (case py_int v of None \<Rightarrow> Inr now
     | Some i \<Rightarrow> (case from_timestamp (real_of_int i / 1000000) of
           Inr t \<Rightarrow> Inr t | Inl (ValueError m) \<Rightarrow> Inr now | Inl e \<Rightarrow> Inl e))"

definition journal_time :: "time \<Rightarrow> dict \<Rightarrow> pyerr + time" where
  "journal_time now entry = micro_time now (dget entry ''__REALTIME_TIMESTAMP'')"

text \<open>A line is an entry already, or JSON text of one; \<open>None\<close>: it cannot be read.\<close>

definition load_line :: "pyenv \<Rightarrow> pyval \<Rightarrow> pyval option" where
  "load_line E line = (case line of PyDict d \<Rightarrow> Some line | PyStr s \<Rightarrow> json_loads E s | _ \<Rightarrow> None)"

definition journal_cursor :: "pyenv \<Rightarrow> dict \<Rightarrow> string \<Rightarrow> string" where
  "journal_cursor E entry message =
     (let c = dget entry ''__CURSOR'' in
      if truthy c then py_str E c
      else py_str E (dget_or entry ''__REALTIME_TIMESTAMP'' (PyStr [])) @ message)"

definition ip_observable :: "string option \<Rightarrow> observable list" where
  "ip_observable ip = (case ip of None \<Rightarrow> [] | Some s \<Rightarrow> if s = [] then [] else [\<lparr>obs_type = Ob_ip, obs_value = s\<rparr>])"

definition user_observable :: "string option \<Rightarrow> observable list" where
  "user_observable u = (case u of None \<Rightarrow> [] | Some s \<Rightarrow> if s = [] then [] else [\<lparr>obs_type = Ob_user, obs_value = s\<rparr>])"

lemma line_break_chars [simp]: "is_line_break (CHR 0x0D)" "is_line_break (CHR 0x0A)"
  by (simp_all add: is_line_break_def)

lemma lines_from_plain: "list_all (\<lambda>c. \<not> is_line_break c) s \<Longrightarrow> lines_from acc s = (if acc = [] \<and> s = [] then [] else [rev acc @ s])"
  by (induction acc s rule: lines_from.induct) auto

end
