(* ===== verification/VpnAdapter.thy ===== *)
theory VpnAdapter
  imports Journal
begin

text \<open>
  The OpenVPN adapter (\<open>src/blackwatch/modules/vpn_openvpn.py\<close>): service health, the snapshot of connected
  clients from the status file of any version, authentication attempts from the journal, certificates.
\<close>

section \<open>The status file\<close>

definition MACHINE_FIELDS :: "string list" where
  "MACHINE_FIELDS = [''common_name'', ''real_address'', ''virtual_address'', ''virtual_ipv6'', ''bytes_received'',
     ''bytes_sent'', ''connected_since'', ''connected_since_t'', ''username'', ''client_id'', ''peer_id'',
     ''data_channel_cipher'']"

definition address_ip :: "string option \<Rightarrow> string option" where
  "address_ip addr = (case addr of None \<Rightarrow> None
     | Some a \<Rightarrow> if a = [] then None
         else (let h = strip_chars ''[]'' (before_last (CHR '':'') a) in if h = [] then None else Some h))"

definition parse_machine_line :: "char \<Rightarrow> string \<Rightarrow> dict" where
  "parse_machine_line sep line =
     (let parts = tl (split_on sep line);
          row = map (\<lambda>(i, k). (k, if i < length parts then PyStr (parts ! i) else PyNone))
                  (zip [0..<length MACHINE_FIELDS] MACHINE_FIELDS)
      in row @ [(''real_ip'', opt_val (address_ip (as_str (dget row ''real_address''))))])"

definition any_prefix :: "string list \<Rightarrow> string \<Rightarrow> bool" where
  "any_prefix ps s = list_ex (\<lambda>p. starts_with p s) ps"

text \<open>The two sections of the human format; the flag says whether the scan is inside the section.\<close>

definition v1_client :: "string list \<Rightarrow> dict" where
  "v1_client parts =
     [(''common_name'', PyStr (parts ! 0)), (''real_address'', PyStr (parts ! 1)),
      (''real_ip'', opt_val (address_ip (Some (parts ! 1)))), (''bytes_received'', PyStr (parts ! 2)),
      (''bytes_sent'', PyStr (parts ! 3)), (''connected_since'', PyStr (join '','' (drop 4 parts))),
      (''username'', PyNone), (''virtual_address'', PyNone)]"

fun v1_clients :: "bool \<Rightarrow> string list \<Rightarrow> dict list" where
  "v1_clients inside [] = []"
| "v1_clients inside (line # lines) =
     (if starts_with ''Common Name,Real Address'' line then v1_clients True lines
      else if inside then
        if str_strip line = [] \<or> any_prefix [''ROUTING TABLE'', ''GLOBAL STATS'', ''END''] line then v1_clients False lines
        else let parts = split_on (CHR '','') line in
             if length parts < 5 then v1_clients True lines else v1_client parts # v1_clients True lines
      else v1_clients False lines)"

fun v1_routes :: "bool \<Rightarrow> string list \<Rightarrow> (string \<times> string) list \<Rightarrow> (string \<times> string) list" where
  "v1_routes inside [] tab = tab"
| "v1_routes inside (line # lines) tab =
     (if starts_with ''Virtual Address,Common Name'' line then v1_routes True lines tab
      else if inside then
        if str_strip line = [] \<or> any_prefix [''GLOBAL STATS'', ''END''] line then v1_routes False lines tab
        else let parts = split_on (CHR '','') line in
             v1_routes True lines
               (if 2 \<le> length parts \<and> map_of tab (parts ! 1) = None then tab @ [(parts ! 1, parts ! 0)] else tab)
      else v1_routes False lines tab)"

definition set_virtual :: "(string \<times> string) list \<Rightarrow> dict \<Rightarrow> dict" where
  "set_virtual tab client =
     (case as_str (dget client ''common_name'') of None \<Rightarrow> client
      | Some cn \<Rightarrow> (case map_of tab cn of None \<Rightarrow> client
          | Some v \<Rightarrow> AList.update ''virtual_address'' (PyStr v) client))"

definition parse_v1 :: "string list \<Rightarrow> dict list" where
  "parse_v1 lines = (let tab = v1_routes False lines [] in map (set_virtual tab) (v1_clients False lines))"

definition parse_status :: "string \<Rightarrow> dict list" where
  "parse_status text =
     (let lines = split_lines text; cl = filter (starts_with ''CLIENT_LIST'') lines in
      case cl of [] \<Rightarrow> parse_v1 lines
      | l # ls \<Rightarrow> map (parse_machine_line (if CHR 9 \<in> set l then CHR 9 else CHR '','')) cl)"

section \<open>Authentication lines\<close>

text \<open>\<open>(\d{1,3}(?:\.\d{1,3}){3}):\d+\<close>, \<open>SENT CONTROL \[([^\]]+)\]: 'AUTH_FAILED'\<close> and
  \<open>authentication succeeded for username '([^']+)'\<close>.\<close>

definition quote_char :: char where "quote_char = CHR 0x27"

definition rx_auth_ip :: rx where
  "rx_auth_ip = rx_cat [Rx_grp 1 rx_ipv4, rx_lit '':'', rx_plus rx_d]"

definition rx_auth_fail :: rx where
  "rx_auth_fail = rx_cat [rx_lit ''SENT CONTROL ['', Rx_grp 1 (rx_plus (rx_not (CHR '']''))), rx_lit '']: '',
     rx_lit ([quote_char] @ ''AUTH_FAILED'' @ [quote_char])]"

definition rx_auth_ok :: rx where
  "rx_auth_ok = rx_cat [rx_lit (''authentication succeeded for username '' @ [quote_char]),
     Rx_grp 1 (rx_plus (rx_not quote_char)), rx_lit [quote_char]]"

definition auth_verdict :: "string \<Rightarrow> (string \<times> string \<times> outcome) option" where
  "auth_verdict message =
     (if str_contains message ''AUTH_FAILED''
      then map_option (\<lambda>h. (grp_str 1 h, ''vpn.auth.failure'', O_failure)) (re_find rx_auth_fail message)
      else if str_contains message ''authentication succeeded for username''
      then map_option (\<lambda>h. (grp_str 1 h, ''vpn.auth.success'', O_success)) (re_find rx_auth_ok message)
      else None)"

definition vpn_auth_line :: "pyenv \<Rightarrow> time \<Rightarrow> pyval \<Rightarrow> pyval \<Rightarrow> pyval \<Rightarrow> pyerr + event list" where
  "vpn_auth_line E now server account line =
     (case load_line E line of None \<Rightarrow> Inr []
      | Some entry \<Rightarrow>
          sbind (journal_message E entry) (\<lambda>msg. sbind (text_of msg) (\<lambda>message.
            let ip = Option.bind (re_find rx_auth_ip message) (grp 1); d = as_dict entry in
            case auth_verdict message of None \<Rightarrow> Inr []
            | Some (user, action, out) \<Rightarrow>
                sbind (checked_source ''vpn.openvpn'' None account PyNone T_poll) (\<lambda>src.
                sbind (journal_time now d) (\<lambda>when.
                sbind (checked_target server (PyStr ''vpn.server'') server) (\<lambda>tgt.
                  Inr [ensure_fingerprint E ((event_defaults now src)
                    \<lparr>ev_id := Some (uuid5_url E (''vpn-auth:'' @ journal_cursor E d message)),
                     ev_time := when, ev_category := C_vpn, ev_action := action, ev_outcome := out,
                     ev_actor := new_actor (Some user) ip, ev_target := tgt,
                     ev_observables := ip_observable ip @ user_observable (Some user),
                     ev_extra := [(''server'', server), (''log_line'', PyStr message),
                       (''message'', PyStr (if out = O_failure then ''VPN authentication FAILED'' else ''VPN login''))],
                     ev_raw := entry\<rparr>)]))))))"

section \<open>Certificates\<close>

definition vpn_cert_action :: "dict \<Rightarrow> pyerr + string option" where
  "vpn_cert_action cert =
     (if truthy (dget cert ''error'') then Inr (Some ''vpn.cert.probe.failed'')
      else if truthy (dget cert ''revoked'') then Inr None
      else if dget cert ''days_remaining'' = PyNone then Inr (Some ''vpn.cert.probe.failed'')
      else case num_of (dget cert ''days_remaining'') of
        None \<Rightarrow> Inl (TypeError ''not supported between instances'')
      | Some days \<Rightarrow> Inr
          (if days < 0 then Some ''vpn.cert.expired''
           else if days < 7 then Some ''vpn.cert.expiring.critical''
           else if days < 14 then Some ''vpn.cert.expiring.high''
           else if days < 30 then Some ''vpn.cert.expiring.warning''
           else None))"

definition vpn_cert_key :: "pyenv \<Rightarrow> pyval \<Rightarrow> dict \<Rightarrow> pyval \<Rightarrow> string \<Rightarrow> string" where
  "vpn_cert_key E server c name action =
     ''vpn-cert:'' @ py_str E server @ '':'' @ py_str E (dget_or c ''source'' (PyStr ''?'')) @ '':'' @
     py_str E (dget_or c ''kind'' (PyStr ''?'')) @ '':'' @ py_str E name @ '':'' @ action"

definition vpn_cert_event ::
  "pyenv \<Rightarrow> time \<Rightarrow> source \<Rightarrow> pyval \<Rightarrow> pyval \<Rightarrow> pyerr + event list" where
  "vpn_cert_event E now src server item =
     (case item of PyDict c \<Rightarrow>
        sbind (vpn_cert_action c) (\<lambda>action.
          case action of None \<Rightarrow> Inr []
          | Some a \<Rightarrow>
              let name = py_or (dget c ''name'') (PyStr ''unknown'') in
              sbind (checked_target (PyStr (py_str E server @ ''/'' @ py_str E name))
                  (PyStr (''vpn.cert.'' @ py_str E (dget_or c ''kind'' (PyStr ''unknown'')))) name) (\<lambda>tgt.
                Inr [ensure_fingerprint E ((event_defaults now src)
                  \<lparr>ev_id := Some (uuid5_url E (vpn_cert_key E server c name a)), ev_time := now, ev_category := C_vpn,
                   ev_action := a, ev_outcome := (if a \<noteq> ''vpn.cert.probe.failed'' then O_success else O_failure),
                   ev_target := tgt,
                   ev_extra := [(''server'', server), (''kind'', dget c ''kind''), (''source'', dget c ''source''),
                     (''subject'', dget c ''subject''), (''issuer'', dget c ''issuer''),
                     (''not_after'', dget c ''not_after''), (''days_remaining'', dget c ''days_remaining''),
                     (''path'', dget c ''path''), (''error'', dget c ''error''),
                     (''revoked'', dget_or c ''revoked'' (PyBool False))],
                   ev_raw := item\<rparr>)]))
      | _ \<Rightarrow> Inl (AttributeError ''get''))"

section \<open>The adapter\<close>

definition vpn_health_extra :: "dict \<Rightarrow> dict \<Rightarrow> pyval \<Rightarrow> dict" where
  "vpn_health_extra body host server =
     [(''server'', server), (''state'', dget body ''state'')]
     @ (if truthy (dget body ''agent_version'') then [(''agent_version'', dget body ''agent_version'')] else [])
     @ (if dget body ''uptime_seconds'' \<noteq> PyNone then [(''uptime_seconds'', dget body ''uptime_seconds'')] else [])
     @ (if truthy (dget host ''instance_id'') then [(''instance_id'', dget host ''instance_id'')] else [])
     @ (if truthy (dget host ''hostname'') then [(''hostname'', dget host ''hostname'')] else [])"

definition vpn_health_event ::
  "pyenv \<Rightarrow> time \<Rightarrow> source \<Rightarrow> target \<Rightarrow> pyval \<Rightarrow> dict \<Rightarrow> dict \<Rightarrow> pyval \<Rightarrow> event list" where
  "vpn_health_event E now src tgt raw body host server =
     (if has_key body ''active'' \<or> has_key body ''state'' then
        let active = (if has_key body ''active'' then truthy (dget body ''active'')
                      else py_eq (dget body ''state'') (PyStr ''active'')) in
        [ensure_fingerprint E ((event_defaults now src)
          \<lparr>ev_time := now, ev_category := C_vpn, ev_action := ''vpn.service.health'',
           ev_outcome := (if active then O_success else O_failure), ev_target := tgt,
           ev_extra := vpn_health_extra body host server, ev_raw := raw\<rparr>)]
      else [])"

text \<open>The addresses and users of the connected clients, each once, in order of appearance.\<close>

definition client_observables :: "dict list \<Rightarrow> observable list" where
  "client_observables clients =
     fold (\<lambda>c obs.
       let step = (\<lambda>t v obs. if truthy v \<and> \<lparr>obs_type = t, obs_value = str_or (as_str v) []\<rparr> \<notin> set obs
                      then obs @ [\<lparr>obs_type = t, obs_value = str_or (as_str v) []\<rparr>] else obs)
       in step Ob_user (py_or (dget c ''username'') (dget c ''common_name'')) (step Ob_ip (dget c ''real_ip'') obs))
     clients []"

definition vpn_status_event :: "pyenv \<Rightarrow> time \<Rightarrow> source \<Rightarrow> target \<Rightarrow> pyval \<Rightarrow> pyval \<Rightarrow> pyval \<Rightarrow> pyerr + event list" where
  "vpn_status_event E now src tgt raw server status =
     (if status = PyNone then Inr []
      else sbind (if \<not> truthy status then Inr [] else
          case status of PyStr text \<Rightarrow> Inr (parse_status text) | _ \<Rightarrow> Inl (AttributeError ''splitlines'')) (\<lambda>clients.
        Inr [ensure_fingerprint E ((event_defaults now src)
          \<lparr>ev_time := now, ev_category := C_vpn, ev_action := ''vpn.status.snapshot'', ev_outcome := O_success,
           ev_target := tgt, ev_observables := client_observables clients,
           ev_extra := [(''server'', server), (''client_count'', PyInt (int (length clients))),
             (''clients'', PyList (map PyDict clients))],
           ev_raw := raw\<rparr>)]))"

definition vpn_certs_events :: "pyenv \<Rightarrow> time \<Rightarrow> source \<Rightarrow> target \<Rightarrow> pyval \<Rightarrow> pyval \<Rightarrow> pyval \<Rightarrow> pyerr + event list" where
  "vpn_certs_events E now src tgt raw server certs =
     (case certs of PyList items \<Rightarrow>
        sbind (collect (vpn_cert_event E now src server) items) (\<lambda>evs.
          Inr (ensure_fingerprint E ((event_defaults now src)
            \<lparr>ev_time := now, ev_category := C_vpn, ev_action := ''vpn.cert.snapshot'', ev_outcome := O_success,
             ev_target := tgt,
             ev_extra := [(''server'', server), (''certs'', certs), (''count'', PyInt (int (length items)))],
             ev_raw := raw\<rparr>) # evs))
      | _ \<Rightarrow> Inr [])"

definition opt_or_val :: "pyval \<Rightarrow> string option \<Rightarrow> pyval" where
  "opt_or_val v x = py_or v (opt_val x)"

definition vpn_parse :: "pyenv \<Rightarrow> time \<Rightarrow> ingest_ctx \<Rightarrow> pyval \<Rightarrow> pyerr + event list" where
  "vpn_parse E now ctx raw =
     (let body = as_dict raw;
          server = py_or (opt_or_val (dget body ''server'') (cx_account ctx)) (PyStr ''openvpn'') in
      sbind (case py_or (dget body ''host'') (PyDict []) of PyDict h \<Rightarrow> Inr h | _ \<Rightarrow> Inl (AttributeError ''get'')) (\<lambda>host.
      let account = opt_or_val (dget host ''account'') (cx_account ctx);
          region = opt_or_val (dget host ''region'') (cx_region ctx);
          t = transport_or T_poll (cx_transport ctx);
          certs = dget body ''certs'';
          needed = has_key body ''active'' \<or> has_key body ''state'' \<or> dget body ''status_raw'' \<noteq> PyNone \<or> is_list certs in
      sbind (if needed then checked_source ''vpn.openvpn'' None account region t else Inr (new_source ''vpn.openvpn'' t)) (\<lambda>src.
      sbind (if needed then checked_target server (PyStr ''vpn.server'') server else Inr (new_target None None None)) (\<lambda>tgt.
      sbind (vpn_status_event E now src tgt raw server (dget body ''status_raw'')) (\<lambda>status.
      sbind (iter_or_empty (dget body ''auth_lines'')) (\<lambda>lines.
      sbind (collect (vpn_auth_line E now server account) lines) (\<lambda>auth.
      sbind (vpn_certs_events E now src tgt raw server certs) (\<lambda>cert.
        Inr (vpn_health_event E now src tgt raw body host server @ status @ auth @ cert)))))))))"

end
