(* ===== verification/ApiAdapter.thy ===== *)
theory ApiAdapter
  imports Journal
begin

text \<open>
  The API Gateway access-log adapter (\<open>src/blackwatch/modules/aws_api_gw.py\<close>): one batch of JSON lines; a
  request gives \<open>api.request\<close> and, by its status and user agent, \<open>api.auth.failure\<close>, \<open>api.error\<close> and
  \<open>api.scanner_ua\<close>. JSON has no infinite or undefined numbers here.
\<close>

definition SCANNER_UA_PATTERNS :: "string list" where
  "SCANNER_UA_PATTERNS = [''sqlmap'', ''nikto'', ''dirbuster'', ''nuclei'', ''wpscan'', ''acunetix'', ''netsparker'',
     ''burpsuite'', ''burp collaborator'', ''masscan'', ''zgrab'', ''nmap scripting engine'', ''openvas'', ''arachni'',
     ''havij'', ''gobuster'', ''ffuf'', ''feroxbuster'', ''wfuzz'']"

definition parse_json_line :: "pyenv \<Rightarrow> pyval \<Rightarrow> pyerr + dict option" where
  "parse_json_line E msg =
     (case msg of PyStr text \<Rightarrow>
        let s = str_strip text in
        if s = [] \<or> \<not> starts_with ''{'' s then Inr None
        else Inr (case json_loads E s of Some (PyDict d) \<Rightarrow> Some d | _ \<Rightarrow> None)
      | _ \<Rightarrow> Inl (AttributeError ''strip''))"

text \<open>The exceptions caught around \<open>fromtimestamp\<close> are \<open>OverflowError\<close> and \<open>OSError\<close>.\<close>

fun api_ts_from :: "pyenv \<Rightarrow> time \<Rightarrow> pyval list \<Rightarrow> pyerr + time" where
  "api_ts_from E now [] = Inr now"
| "api_ts_from E now (v # vs) =
     (case py_float E v of None \<Rightarrow> api_ts_from E now vs
      | Some x \<Rightarrow> (case from_timestamp (if x > 1000000000000 then x / 1000 else x) of
            Inr t \<Rightarrow> Inr t
          | Inl (OverflowError m) \<Rightarrow> api_ts_from E now vs
          | Inl e \<Rightarrow> Inl e))"

definition api_parse_ts :: "pyenv \<Rightarrow> time \<Rightarrow> pyval \<Rightarrow> pyval \<Rightarrow> pyerr + time" where
  "api_parse_ts E now entry_ts log_ts = api_ts_from E now [entry_ts, log_ts]"

definition dash_or_empty :: "pyval \<Rightarrow> bool" where
  "dash_or_empty v = (v = PyNone \<or> py_eq v (PyStr ''-'') \<or> py_eq v (PyStr []))"

definition api_int :: "pyenv \<Rightarrow> pyval \<Rightarrow> int option" where
  "api_int E v = (if dash_or_empty v then None
     else case py_int v of Some i \<Rightarrow> Some i | None \<Rightarrow> map_option trunc (py_float E v))"

definition classify_scanner :: "string \<Rightarrow> string option" where
  "classify_scanner ua = List.find (\<lambda>sig. str_contains (str_lower ua) sig) SCANNER_UA_PATTERNS"

definition ellipsis :: string where
  "ellipsis = [CHR 0xE2, CHR 0x80, CHR 0xA6]"

definition api_truncate :: "pyenv \<Rightarrow> pyval \<Rightarrow> pyval" where
  "api_truncate E v = (if v = PyNone then PyNone
     else let s = py_str E v in PyStr (if length s \<le> 300 then s else take 300 s @ ellipsis))"

text \<open>What the fields of a line are read as.\<close>

record api_line =
  al_ip :: pyval
  al_ua :: pyval
  al_method :: pyval
  al_status :: "int option"
  al_request_id :: pyval
  al_error_message :: pyval
  al_error_type :: pyval
  al_base :: dict

definition opt_int_val :: "int option \<Rightarrow> pyval" where
  "opt_int_val i = (case i of None \<Rightarrow> PyNone | Some n \<Rightarrow> PyInt n)"

definition read_api_line :: "pyenv \<Rightarrow> pyval \<Rightarrow> dict \<Rightarrow> api_line" where
  "read_api_line E api_name p =
     (let field = (\<lambda>k. py_or (dget p k) PyNone); err = (\<lambda>k. if dash_or_empty (dget p k) then PyNone else dget p k) in
      \<lparr>al_ip = field ''ip'', al_ua = field ''userAgent'', al_method = field ''httpMethod'',
       al_status = api_int E (dget p ''status''), al_request_id = field ''requestId'',
       al_error_message = err ''errorMessage'', al_error_type = err ''errorResponseType'',
       al_base = [(''api_name'', api_name), (''source_ip'', field ''ip''), (''user_agent'', field ''userAgent''),
         (''method'', field ''httpMethod''), (''route_key'', field ''routeKey''),
         (''status'', opt_int_val (api_int E (dget p ''status''))),
         (''integration_status'', opt_int_val (api_int E (dget p ''integrationStatus''))),
         (''response_length'', opt_int_val (api_int E (dget p ''responseLength''))),
         (''response_latency_ms'', opt_int_val (api_int E (dget p ''responseLatency''))),
         (''request_id'', field ''requestId'')]\<rparr>)"

text \<open>\<open>"|".join\<close> raises on anything but strings.\<close>

definition api_event_key :: "pyenv \<Rightarrow> string \<Rightarrow> pyval \<Rightarrow> time \<Rightarrow> api_line \<Rightarrow> pyerr + string" where
  "api_event_key E action api_name ts l =
     sbind (traverse str_field
        [PyStr action, api_name, PyStr (iso_format E ts), py_or (al_ip l) (PyStr ''-''),
         PyStr (py_str E (opt_int_val (al_status l))), py_or (al_method l) (PyStr ''-''),
         py_or (al_request_id l) (PyStr ''-'')])
      (\<lambda>parts. Inr (join ''|'' parts))"

definition api_mkevent ::
  "pyenv \<Rightarrow> time \<Rightarrow> string \<Rightarrow> outcome \<Rightarrow> time \<Rightarrow> pyval \<Rightarrow> api_line \<Rightarrow> dict \<Rightarrow> transport \<Rightarrow> pyerr + event" where
  "api_mkevent E now action out ts api_name l extra t =
     sbind (if truthy (al_ip l) then str_field (al_ip l) else Inr []) (\<lambda>ip.
     sbind (api_event_key E action api_name ts l) (\<lambda>key.
     sbind (opt_str_field (al_ip l)) (\<lambda>sip.
     sbind (checked_target api_name (PyStr ''api.gateway'') api_name) (\<lambda>tgt.
       Inr (ensure_fingerprint E ((event_defaults now (new_source ''aws.api_gw'' t))
         \<lparr>ev_id := Some (uuid5_url E key), ev_time := ts, ev_category := C_other, ev_action := action,
          ev_outcome := out, ev_actor := new_actor None sip, ev_target := tgt,
          ev_observables := ip_observable (Some ip),
          ev_extra := extra @ [(''tags'', PyDict [(''env'', PyStr ''prod''), (''api'', api_name)])],
          ev_raw := PyDict [(''module'', PyStr ''aws.api_gw'')]\<rparr>))))))"

definition client_reason :: "int \<Rightarrow> string" where
  "client_reason status = (case map_of [(400, ''bad_request''), (401, ''unauthorized''), (403, ''forbidden''),
       (404, ''not_found''), (405, ''method_not_allowed''), (409, ''conflict''), (413, ''payload_too_large''),
       (415, ''unsupported_media_type''), (422, ''unprocessable_entity'')] status of
     Some s \<Rightarrow> s | None \<Rightarrow> ''client_error_'' @ int_str status)"

definition api_error_extra :: "pyenv \<Rightarrow> api_line \<Rightarrow> string \<Rightarrow> dict" where
  "api_error_extra E l reason =
     al_base l @ [(''reason'', py_or (al_error_type l) (PyStr reason)),
       (''error_message'', api_truncate E (al_error_message l))]"

definition status_events ::
  "pyenv \<Rightarrow> time \<Rightarrow> time \<Rightarrow> pyval \<Rightarrow> api_line \<Rightarrow> transport \<Rightarrow> pyerr + event list" where
  "status_events E now ts api_name l t =
     (case al_status l of None \<Rightarrow> Inr []
      | Some status \<Rightarrow>
          if status = 401 \<or> status = 403
          then sbind (api_mkevent E now ''api.auth.failure'' O_failure ts api_name l
                 (api_error_extra E l (client_reason status)) t) (\<lambda>e. Inr [e])
          else if 500 \<le> status
          then sbind (api_mkevent E now ''api.error'' O_failure ts api_name l
                 (api_error_extra E l ''server_error'') t) (\<lambda>e. Inr [e])
          else Inr [])"

definition scanner_events ::
  "pyenv \<Rightarrow> time \<Rightarrow> time \<Rightarrow> pyval \<Rightarrow> api_line \<Rightarrow> transport \<Rightarrow> pyerr + event list" where
  "scanner_events E now ts api_name l t =
     (if al_ua l = PyNone then Inr []
      else case al_ua l of
        PyStr ua \<Rightarrow> (case classify_scanner ua of None \<Rightarrow> Inr []
          | Some sig \<Rightarrow> sbind (api_mkevent E now ''api.scanner_ua'' O_failure ts api_name l
              (al_base l @ [(''scanner_signature'', PyStr sig),
                 (''message'', PyStr (py_str E api_name @ '': request from '' @ py_str E (py_or (al_ip l) (PyStr ''unknown''))
                    @ '' used known scanner signature '' @ [CHR 0x27] @ sig @ [CHR 0x27] @ '' (status ''
                    @ py_str E (opt_int_val (al_status l)) @ '', method '' @ py_str E (py_or (al_method l) (PyStr ''?''))
                    @ '')''))]) t) (\<lambda>e. Inr [e]))
      | _ \<Rightarrow> Inl (AttributeError ''lower''))"

definition api_derive_events :: "pyenv \<Rightarrow> time \<Rightarrow> dict \<Rightarrow> pyval \<Rightarrow> time \<Rightarrow> transport \<Rightarrow> pyerr + event list" where
  "api_derive_events E now parsed api_name ts t =
     (let l = read_api_line E api_name parsed;
          good = (case al_status l of None \<Rightarrow> False | Some s \<Rightarrow> 200 \<le> s \<and> s < 400) in
      sbind (api_mkevent E now ''api.request'' (if good then O_success else O_failure) ts api_name l (al_base l) t) (\<lambda>e.
      sbind (status_events E now ts api_name l t) (\<lambda>s.
      sbind (scanner_events E now ts api_name l t) (\<lambda>sc.
        Inr (e # s @ sc)))))"

definition api_entry :: "pyenv \<Rightarrow> time \<Rightarrow> pyval \<Rightarrow> transport \<Rightarrow> pyval \<Rightarrow> pyerr + event list" where
  "api_entry E now api_name t entry =
     (let message = dget (as_dict entry) ''message'' in
      if \<not> truthy message then Inr []
      else sbind (parse_json_line E message) (\<lambda>p.
        case p of None \<Rightarrow> Inr []
        | Some parsed \<Rightarrow>
            sbind (api_parse_ts E now (dget (as_dict entry) ''ts'') (dget parsed ''requestTimeEpoch'')) (\<lambda>ts.
              api_derive_events E now parsed api_name ts t)))"

definition api_gw_parse :: "pyenv \<Rightarrow> time \<Rightarrow> ingest_ctx \<Rightarrow> pyval \<Rightarrow> pyerr + event list" where
  "api_gw_parse E now ctx raw =
     (case raw of PyDict d \<Rightarrow>
        let api_name = py_or (dget d ''api_name'') (PyStr ''unknown''); t = transport_or T_queue (cx_transport ctx) in
        sbind (iter_or_empty (dget d ''events'')) (collect (api_entry E now api_name t))
      | _ \<Rightarrow> Inr [])"

end
