(* ===== verification/RdsAdapter.thy ===== *)
theory RdsAdapter
  imports Journal
begin

text \<open>
  The RDS log adapter (\<open>src/blackwatch/modules/aws_rds.py\<close>): PostgreSQL and RDS Proxy log lines as session,
  authentication, audit and error events. Four module-level dictionaries tie the lines of a pinned proxy
  session together, so that the session PostgreSQL reports under the proxy's address gets the client's;
  they are the state \<open>proxy_cache\<close> here (association lists in insertion order, which eviction follows).
\<close>

section \<open>Log line patterns\<close>

abbreviation rx_dd :: rx where "rx_dd \<equiv> rx_times 2 rx_d"

definition rx_quoted :: "nat \<Rightarrow> rx" where
  "rx_quoted n = rx_cat [rx_lit [CHR 0x22], Rx_grp n (rx_plus (rx_not (CHR 0x22))), rx_lit [CHR 0x22]]"

text \<open>Groups of \<open>_PREFIX\<close>: 1 ts, 2 remote, 3 user, 4 db, 5 pid, 6 sev, 7 msg.\<close>

definition rx_pg_prefix :: rx where
  "rx_pg_prefix = rx_cat [Rx_bos,
     Rx_grp 1 (rx_cat [rx_times 4 rx_d, rx_lit ''-'', rx_dd, rx_lit ''-'', rx_dd,
       Rx_chars (\<lambda>c. c = CHR ''T'' \<or> is_space c), rx_dd, rx_lit '':'', rx_dd, rx_lit '':'', rx_dd,
       rx_opt (Rx_seq (rx_lit ''.'') (rx_plus rx_d)), rx_star rx_s, rx_opt (Rx_alt (rx_lit ''UTC'') (rx_lit ''Z''))]),
     rx_lit '':'', Rx_grp 2 (rx_star (rx_not (CHR '':''))), rx_lit '':'',
     Rx_grp 3 (rx_star (Rx_chars (\<lambda>c. c \<noteq> CHR ''@'' \<and> c \<noteq> CHR '':''))), rx_lit ''@'',
     Rx_grp 4 (rx_star (rx_not (CHR '':''))), rx_lit '':['', Rx_grp 5 (rx_plus rx_d), rx_lit '']:'',
     Rx_grp 6 (rx_plus (Rx_chars is_upper)), rx_lit '':'', rx_star rx_s, Rx_grp 7 (rx_star rx_dot), Rx_eos]"

definition rx_connect_authz :: rx where
  "rx_connect_authz = rx_cat [rx_lit ''connection authorized:'', rx_star rx_s, rx_lit ''user='', Rx_grp 1 (rx_plus rx_S),
     rx_plus rx_s, rx_lit ''database='', Rx_grp 2 (rx_plus rx_S)]"

text \<open>1 h, 2 m, 3 s, 4 user, 5 db, 6 host\<close>

definition rx_disconnect :: rx where
  "rx_disconnect = rx_cat [rx_lit ''disconnection:'', rx_star rx_s, rx_lit ''session time:'', rx_star rx_s,
     Rx_grp 1 (rx_plus rx_d), rx_lit '':'', Rx_grp 2 (rx_plus rx_d), rx_lit '':'',
     Rx_grp 3 (Rx_seq (rx_plus rx_d) (rx_opt (Rx_seq (rx_lit ''.'') (rx_plus rx_d)))), rx_star rx_s,
     rx_lit ''user='', Rx_grp 4 (rx_plus rx_S), rx_plus rx_s, rx_lit ''database='', Rx_grp 5 (rx_plus rx_S),
     rx_plus rx_s, rx_lit ''host='', Rx_grp 6 (rx_plus rx_S)]"

definition rx_pg_auth_fail :: rx where
  "rx_pg_auth_fail = Rx_seq (rx_lit ''password authentication failed for user '') (rx_quoted 1)"

text \<open>1 host, 2 user (optional)\<close>

definition rx_hba_reject :: rx where
  "rx_hba_reject = rx_cat [rx_lit ''no pg_hba.conf entry for host '', rx_quoted 1, rx_lit '','',
     rx_opt (rx_cat [rx_star rx_s, rx_lit ''user '', rx_quoted 2, rx_lit '',''])]"

definition rx_remote_addr :: rx where
  "rx_remote_addr = rx_cat [Rx_bos, Rx_grp 1 rx_ipv4, rx_lit ''('', Rx_grp 2 (rx_plus rx_d), rx_lit '')'', Rx_eos]"

definition rx_pgaudit :: rx where
  "rx_pgaudit = rx_cat [Rx_bos, rx_lit ''AUDIT:'', rx_star rx_s, Rx_grp 1 (Rx_alt (rx_lit ''SESSION'') (rx_lit ''OBJECT'')),
     rx_lit '','', Rx_grp 2 (rx_star rx_dot), Rx_eos]"

text \<open>1 ts, 2 level, 3 tags, 4 msg\<close>

definition rx_proxy_prefix :: rx where
  "rx_proxy_prefix = rx_cat [Rx_bos,
     Rx_grp 1 (rx_cat [rx_times 4 rx_d, rx_lit ''-'', rx_dd, rx_lit ''-'', rx_dd, rx_lit ''T'', rx_dd, rx_lit '':'',
       rx_dd, rx_lit '':'', rx_dd, rx_opt (Rx_seq (rx_lit ''.'') (rx_plus rx_d)), rx_lit ''Z'']),
     rx_plus rx_s, rx_lit ''['', Rx_grp 2 (rx_plus (Rx_chars is_upper)), rx_lit '']'', rx_plus rx_s,
     Rx_grp 3 (rx_plus (rx_cat [rx_lit ''['', rx_plus (rx_not (CHR '']'')), rx_lit '']'', rx_star rx_s])),
     Rx_grp 4 (rx_star rx_dot), Rx_eos]"

definition rx_proxy_tag :: rx where
  "rx_proxy_tag = rx_cat [rx_lit ''['', Rx_grp 1 (rx_plus (rx_not (CHR ''=''))), rx_lit ''='',
     Rx_grp 2 (rx_plus (rx_not (CHR '']''))), rx_lit '']'']"

definition rx_proxy_auth_fail :: rx where
  "rx_proxy_auth_fail = rx_cat [Rx_chars (\<lambda>c. c = CHR ''P'' \<or> c = CHR ''p''), rx_lit ''roxy authentication'',
     rx_star rx_dot, rx_lit ''failed for user '', rx_quoted 1]"

definition rx_proxy_conn_open :: rx where
  "rx_proxy_conn_open = rx_cat [rx_lit ''A new client connected from '', Rx_grp 1 rx_ipv4, rx_lit '':'', Rx_grp 2 (rx_plus rx_d)]"

definition rx_proxy_conn_closed :: rx where
  "rx_proxy_conn_closed = rx_lit ''The client connection closed''"

text \<open>1 host, 2 user, 3 db\<close>

definition rx_proxy_backend_hba :: rx where
  "rx_proxy_backend_hba = rx_cat [rx_lit ''no pg_hba.conf entry for host '', rx_quoted 1, rx_lit '','', rx_star rx_s,
     rx_lit ''user '', rx_quoted 2, rx_lit '','', rx_star rx_s, rx_lit ''database '', rx_quoted 3]"

definition rx_proxy_cred_misconfig :: rx where
  "rx_proxy_cred_misconfig = rx_cat [rx_lit (''Credentials couldn'' @ [CHR 0x27] @ ''t be retrieved.''), rx_star rx_s,
     rx_lit ''The database user '', rx_quoted 1, rx_lit '' was found in multiple DB proxy authentication entries'']"

definition rx_proxy_pinned :: rx where
  "rx_proxy_pinned = rx_cat [rx_lit ''pinned to the database connection [dbConnection='', Rx_grp 1 (rx_plus rx_d), rx_lit '']'']"

definition rx_proxy_tcp :: rx where
  "rx_proxy_tcp = rx_cat [rx_lit ''A TCP connection was established from the proxy at '', Rx_grp 1 rx_ipv4, rx_lit '':'',
     Rx_grp 2 (rx_plus rx_d), rx_lit '' to the database'']"

section \<open>The caches\<close>

record proxy_cache =
  pc_conn :: "(string \<times> string \<times> int \<times> time) list"
  pc_client :: "(string \<times> string) list"
  pc_port :: "(string \<times> string \<times> int) list"
  pc_index :: "((string \<times> int) \<times> string) list"

definition empty_cache :: proxy_cache where
  "empty_cache = \<lparr>pc_conn = [], pc_client = [], pc_port = [], pc_index = []\<rparr>"

definition PROXY_CACHE_MAX :: nat where "PROXY_CACHE_MAX = 5000"

text \<open>Evicting the oldest half in insertion order.\<close>

definition make_room :: "('k \<times> 'v) list \<Rightarrow> ('k \<times> 'v) list" where
  "make_room d = (if PROXY_CACHE_MAX \<le> length d
     then fold AList.delete (take (PROXY_CACHE_MAX div 2) (map fst d)) d else d)"

definition proxy_cache_put :: "string \<Rightarrow> string \<Rightarrow> int \<Rightarrow> time \<Rightarrow> proxy_cache \<Rightarrow> proxy_cache" where
  "proxy_cache_put conn ip port ts c = c\<lparr>pc_conn := AList.update conn (ip, port, ts) (make_room (pc_conn c))\<rparr>"

definition proxy_pin_cache_put :: "string \<Rightarrow> string \<Rightarrow> proxy_cache \<Rightarrow> proxy_cache" where
  "proxy_pin_cache_put client db_conn c = c\<lparr>pc_client := AList.update db_conn client (make_room (pc_client c))\<rparr>"

fun evict_ports :: "string list \<Rightarrow> proxy_cache \<Rightarrow> proxy_cache" where
  "evict_ports [] c = c"
| "evict_ports (k # ks) c = evict_ports ks
     (case map_of (pc_port c) k of None \<Rightarrow> c
      | Some old \<Rightarrow> c\<lparr>pc_port := AList.delete k (pc_port c), pc_index := AList.delete old (pc_index c)\<rparr>)"

definition proxy_port_cache_put :: "string \<Rightarrow> string \<Rightarrow> int \<Rightarrow> proxy_cache \<Rightarrow> proxy_cache" where
  "proxy_port_cache_put db_conn ip port c =
     (let c1 = (if PROXY_CACHE_MAX \<le> length (pc_port c)
                then evict_ports (take (PROXY_CACHE_MAX div 2) (map fst (pc_port c))) c else c)
      in c1\<lparr>pc_port := AList.update db_conn (ip, port) (pc_port c1),
            pc_index := AList.update (ip, port) db_conn (pc_index c1)\<rparr>)"

definition lookup_real_client_ip :: "string option \<Rightarrow> int option \<Rightarrow> proxy_cache \<Rightarrow> (string \<times> int) option" where
  "lookup_real_client_ip ip port c =
     (case (ip, port) of (Some i, Some p) \<Rightarrow>
        if i = [] \<or> p = 0 then None
        else Option.bind (map_of (pc_index c) (i, p)) (\<lambda>db_conn.
             Option.bind (map_of (pc_client c) db_conn) (\<lambda>client.
             map_option (\<lambda>(real_ip, real_port, ts). (real_ip, real_port)) (map_of (pc_conn c) client)))
      | _ \<Rightarrow> None)"

section \<open>Helpers\<close>

definition SYSTEM_USERS :: "string list" where
  "SYSTEM_USERS = [''rdsadmin'', ''rdsproxyadmin'', ''rds_superuser'', ''rds_iam_authorization'', ''rdssecadmin'',
     ''rds_replication'', ''rds_monitor'']"

definition is_system_user :: "string \<Rightarrow> bool" where
  "is_system_user name = (name \<noteq> [] \<and> name \<in> set SYSTEM_USERS)"

definition rds_parse_ts :: "time \<Rightarrow> pyval \<Rightarrow> time" where
  "rds_parse_ts now v = (case num_of v of None \<Rightarrow> now
     | Some x \<Rightarrow> (case from_timestamp (x / 1000) of Inr t \<Rightarrow> t | Inl e \<Rightarrow> now))"

definition digits_int :: "string \<Rightarrow> int" where
  "digits_int s = (case parse_int s of None \<Rightarrow> 0 | Some i \<Rightarrow> i)"

definition split_remote :: "string \<Rightarrow> string option \<times> int option" where
  "split_remote remote = (case re_match rx_remote_addr remote of None \<Rightarrow> (None, None)
     | Some h \<Rightarrow> (Some (grp_str 1 h), Some (digits_int (grp_str 2 h))))"

text \<open>Commas inside double quotes do not split; a doubled quote inside quotes is a quote.\<close>

fun pgaudit_fields :: "bool \<Rightarrow> string \<Rightarrow> string \<Rightarrow> string list" where
  "pgaudit_fields in_q buf [] = [rev buf]"
| "pgaudit_fields in_q buf [c] =
     (if c = CHR 0x22 then [rev buf]
      else if c = CHR '','' \<and> \<not> in_q then [rev buf, []] else [rev (c # buf)])"
| "pgaudit_fields in_q buf (c # d # cs) =
     (if c = CHR 0x22 then
        if in_q \<and> d = CHR 0x22 then pgaudit_fields in_q (CHR 0x22 # buf) cs
        else pgaudit_fields (\<not> in_q) buf (d # cs)
      else if c = CHR '','' \<and> \<not> in_q then rev buf # pgaudit_fields in_q [] (d # cs)
      else pgaudit_fields in_q (c # buf) (d # cs))"

definition split_pgaudit :: "string \<Rightarrow> string list" where
  "split_pgaudit rest = pgaudit_fields False [] rest"

definition str_upper :: "string \<Rightarrow> string" where
  "str_upper s = map (\<lambda>c. let n = of_char c :: nat in if 97 \<le> n \<and> n \<le> 122 then char_of (n - 32) else c) s"

definition pgaudit_action :: "string \<Rightarrow> string" where
  "pgaudit_action cls =
     (let c = str_upper cls in
      if c = ''DDL'' then ''rds.query.ddl'' else if c = ''ROLE'' then ''rds.query.role''
      else if c = ''READ'' then ''rds.query.read'' else if c = ''WRITE'' then ''rds.query.write''
      else if c = ''FUNCTION'' then ''rds.query.function'' else ''rds.query.misc'')"

definition field_at :: "nat \<Rightarrow> string list \<Rightarrow> string" where
  "field_at i xs = (if i < length xs then xs ! i else [])"

definition pg_session_id :: "pyenv \<Rightarrow> pyval \<Rightarrow> string \<Rightarrow> string" where
  "pg_session_id E db_instance pid = ''pg:'' @ py_str E db_instance @ '':'' @ pid"

definition rds_event_key ::
  "pyenv \<Rightarrow> string \<Rightarrow> pyval \<Rightarrow> time \<Rightarrow> string option \<Rightarrow> string option \<Rightarrow> string option \<Rightarrow> string" where
  "rds_event_key E action db_instance ts session_id user ip =
     action @ ''|'' @ py_str E db_instance @ ''|'' @ iso_format E ts @ ''|'' @ str_or session_id [] @ ''|'' @
     str_or user [] @ ''|'' @ str_or ip []"

definition rds_mkevent ::
  "pyenv \<Rightarrow> time \<Rightarrow> string \<Rightarrow> outcome \<Rightarrow> time \<Rightarrow> pyval \<Rightarrow> string \<Rightarrow> string option \<Rightarrow> string option \<Rightarrow>
   string option \<Rightarrow> int option \<Rightarrow> string option \<Rightarrow> dict \<Rightarrow> transport \<Rightarrow> pyerr + event" where
  "rds_mkevent E now action out ts db_instance source_type user db ip port session_id extra t =
     sbind (checked_target db_instance (PyStr ''rds.db'') db_instance) (\<lambda>tgt.
       Inr (ensure_fingerprint E ((event_defaults now (new_source ''aws.rds'' t))
         \<lparr>ev_id := Some (uuid5_url E (rds_event_key E action db_instance ts session_id user ip)),
          ev_time := ts, ev_category := C_other, ev_action := action, ev_outcome := out,
          ev_actor := new_actor user ip, ev_target := tgt,
          ev_observables := ip_observable ip @ user_observable user,
          ev_extra := [(''db_instance'', db_instance), (''source_type'', PyStr source_type), (''user'', opt_val user),
              (''database'', opt_val db), (''source_ip'', opt_val ip),
              (''source_port'', (case port of None \<Rightarrow> PyNone | Some p \<Rightarrow> PyInt p))]
            @ extra
            @ (if str_truthy session_id then [(''session_id'', opt_val session_id)] else [])
            @ [(''tags'', PyDict ([(''env'', PyStr ''prod''), (''db_instance'', db_instance), (''source'', PyStr source_type)]
                 @ (if str_truthy db then [(''database'', opt_val db)] else [])))],
          ev_raw := PyDict [(''module'', PyStr ''aws.rds''), (''session_id'', opt_val session_id)]\<rparr>)))"

definition some_event :: "pyerr + event \<Rightarrow> pyerr + event option" where
  "some_event r = sbind r (\<lambda>e. Inr (Some e))"

definition empty_none :: "string \<Rightarrow> string option" where
  "empty_none s = (if s = [] then None else Some s)"

section \<open>PostgreSQL lines\<close>

definition pg_connect ::
  "pyenv \<Rightarrow> time \<Rightarrow> time \<Rightarrow> pyval \<Rightarrow> transport \<Rightarrow> string \<Rightarrow> string option \<Rightarrow> int option \<Rightarrow> rx_hit \<Rightarrow> proxy_cache \<Rightarrow>
   pyerr + event option" where
  "pg_connect E now ts db_instance t pid ip port h cache =
     (if is_system_user (grp_str 1 h) then Inr None
      else
        let real = lookup_real_client_ip ip port cache;
            key = py_str E db_instance @ ''|pid='' @ pid @ ''|since='' @ iso_format E ts in
        some_event (rds_mkevent E now ''rds.session.start'' O_success ts db_instance ''postgres''
          (grp 1 h) (grp 2 h) ip port (Some (pg_session_id E db_instance pid))
          ([(''backend_pid'', PyStr pid), (''session_key'', PyStr key)]
           @ (case real of None \<Rightarrow> []
              | Some (rip, rport) \<Rightarrow> [(''real_client_ip'', PyStr rip), (''real_client_port'', PyInt rport),
                  (''proxy_ip'', opt_val ip), (''proxy_port'', (case port of None \<Rightarrow> PyNone | Some p \<Rightarrow> PyInt p))])) t))"

definition pg_disconnect ::
  "pyenv \<Rightarrow> time \<Rightarrow> time \<Rightarrow> pyval \<Rightarrow> transport \<Rightarrow> string \<Rightarrow> string option \<Rightarrow> int option \<Rightarrow> rx_hit \<Rightarrow> pyerr + event option" where
  "pg_disconnect E now ts db_instance t pid ip port h =
     (if is_system_user (grp_str 4 h) then Inr None
      else case float_parse E (grp_str 3 h) of None \<Rightarrow> Inl (ValueError ''could not convert string to float'')
      | Some secs \<Rightarrow>
        some_event (rds_mkevent E now ''rds.session.end'' O_success ts db_instance ''postgres''
          (grp 4 h) (grp 5 h) ip port (Some (pg_session_id E db_instance pid))
          [(''backend_pid'', PyStr pid),
           (''duration_seconds'', PyInt (trunc (real_of_int (digits_int (grp_str 1 h) * 3600 + digits_int (grp_str 2 h) * 60) + secs))),
           (''host'', opt_val (grp 6 h))] t))"

definition pg_audit ::
  "pyenv \<Rightarrow> time \<Rightarrow> time \<Rightarrow> pyval \<Rightarrow> transport \<Rightarrow> string \<Rightarrow> string option \<Rightarrow> string option \<Rightarrow> string option \<Rightarrow> int option \<Rightarrow>
   rx_hit \<Rightarrow> pyerr + event option" where
  "pg_audit E now ts db_instance t pid user db ip port h =
     (let fields = split_pgaudit (grp_str 2 h);
          cls = str_or (Some (str_upper (field_at 2 fields))) ''MISC''; stmt = field_at 7 fields in
      some_event (rds_mkevent E now (pgaudit_action cls) O_success ts db_instance ''postgres''
        user db ip port (Some (pg_session_id E db_instance pid))
        [(''backend_pid'', PyStr pid), (''audit_class'', PyStr cls), (''command'', PyStr (field_at 3 fields)),
         (''statement'', if stmt = [] then PyNone else PyStr (take 500 stmt)), (''scope'', opt_val (grp 1 h))] t))"

definition parse_postgres_line ::
  "pyenv \<Rightarrow> time \<Rightarrow> time \<Rightarrow> pyval \<Rightarrow> transport \<Rightarrow> string \<Rightarrow> proxy_cache \<Rightarrow> pyerr + event option" where
  "parse_postgres_line E now ts db_instance t line cache =
     (case re_match rx_pg_prefix line of None \<Rightarrow> Inr None
      | Some p \<Rightarrow>
        let pid = grp_str 5 p; user = empty_none (grp_str 3 p); db = empty_none (grp_str 4 p);
            msg = grp_str 7 p; sev = grp_str 6 p; (ip, port) = split_remote (grp_str 2 p);
            failure = (\<lambda>u i reason. some_event (rds_mkevent E now ''rds.auth.failure'' O_failure ts db_instance
              ''postgres'' u db i port None [(''reason'', PyStr reason), (''backend_pid'', PyStr pid)] t)) in
        case re_find rx_connect_authz msg of Some h \<Rightarrow> pg_connect E now ts db_instance t pid ip port h cache
        | None \<Rightarrow>
        case re_find rx_disconnect msg of Some h \<Rightarrow> pg_disconnect E now ts db_instance t pid ip port h
        | None \<Rightarrow>
        case re_find rx_pg_auth_fail msg of Some h \<Rightarrow> failure (grp 1 h) ip ''invalid_password''
        | None \<Rightarrow>
        case re_find rx_hba_reject msg of
          Some h \<Rightarrow> failure (opt_or (grp 2 h) user) (opt_or ip (grp 1 h)) ''no_pg_hba_entry''
        | None \<Rightarrow>
        case re_find rx_pgaudit msg of Some h \<Rightarrow> pg_audit E now ts db_instance t pid user db ip port h
        | None \<Rightarrow>
        if sev = ''FATAL'' \<or> sev = ''PANIC''
        then some_event (rds_mkevent E now ''rds.error'' O_failure ts db_instance ''postgres'' user db ip port None
               [(''severity'', PyStr sev), (''message'', PyStr (take 500 msg))] t)
        else Inr None)"

section \<open>Proxy lines\<close>

definition proxy_tags :: "string \<Rightarrow> (string \<times> string) list" where
  "proxy_tags text = fold (\<lambda>h. AList.update (grp_str 1 h) (grp_str 2 h)) (re_finditer rx_proxy_tag text) []"

definition parse_proxy_bare_line ::
  "pyenv \<Rightarrow> time \<Rightarrow> time \<Rightarrow> pyval \<Rightarrow> transport \<Rightarrow> string \<Rightarrow> pyerr + event option" where
  "parse_proxy_bare_line E now ts db_instance t line =
     (case re_find rx_proxy_cred_misconfig line of None \<Rightarrow> Inr None
      | Some h \<Rightarrow> some_event (rds_mkevent E now ''rds.proxy.misconfig'' O_failure ts db_instance ''rds_proxy''
          (grp 1 h) None None None None
          [(''reason'', PyStr ''multiple_auth_entries''), (''message'', PyStr (take 300 line))] t))"

text \<open>The lines that carry a client connection: opened, closed, pinned. \<open>None\<close>: none of these.\<close>

definition proxy_client_line ::
  "pyenv \<Rightarrow> time \<Rightarrow> time \<Rightarrow> pyval \<Rightarrow> transport \<Rightarrow> (string \<times> string) list \<Rightarrow> string \<Rightarrow> string \<Rightarrow> proxy_cache \<Rightarrow>
   ((pyerr + event option) \<times> proxy_cache) option" where
  "proxy_client_line E now ts db_instance t tags conn msg c =
     (let extra = [(''proxy_endpoint'', opt_val (map_of tags ''proxyEndpoint'')), (''client_connection'', PyStr conn)] in
      case re_find rx_proxy_conn_open msg of
        Some h \<Rightarrow>
          let ip = grp_str 1 h; port = digits_int (grp_str 2 h) in
          Some (some_event (rds_mkevent E now ''rds.proxy.client.connect'' O_success ts db_instance ''rds_proxy''
                  None None (Some ip) (Some port) None extra t), proxy_cache_put conn ip port ts c)
      | None \<Rightarrow>
      if re_find rx_proxy_conn_closed msg \<noteq> None then
        let cached = map_of (pc_conn c) conn in
        Some (some_event (rds_mkevent E now ''rds.proxy.client.disconnect'' O_success ts db_instance ''rds_proxy''
                None None (map_option fst cached) (map_option (fst \<circ> snd) cached) None extra t),
              c\<lparr>pc_conn := AList.delete conn (pc_conn c)\<rparr>)
      else case re_find rx_proxy_pinned msg of
        Some h \<Rightarrow> Some (Inr None, proxy_pin_cache_put conn (grp_str 1 h) c)
      | None \<Rightarrow> None)"

definition proxy_failure_line ::
  "pyenv \<Rightarrow> time \<Rightarrow> time \<Rightarrow> pyval \<Rightarrow> transport \<Rightarrow> (string \<times> string) list \<Rightarrow> string option \<Rightarrow> string \<Rightarrow> proxy_cache \<Rightarrow>
   pyerr + event option" where
  "proxy_failure_line E now ts db_instance t tags conn msg c =
     (case re_find rx_proxy_auth_fail msg of
        Some h \<Rightarrow>
          let cached = Option.bind (if str_truthy conn then conn else None) (map_of (pc_conn c)) in
          some_event (rds_mkevent E now ''rds.auth.failure'' O_failure ts db_instance ''rds_proxy''
            (grp 1 h) None (map_option fst cached) (map_option (fst \<circ> snd) cached) None
            [(''reason'', PyStr ''invalid_credentials''), (''proxy_endpoint'', opt_val (map_of tags ''proxyEndpoint'')),
             (''client_connection'', opt_val conn), (''message'', PyStr (take 300 msg))] t)
      | None \<Rightarrow>
      case re_find rx_proxy_backend_hba msg of
        Some h \<Rightarrow> some_event (rds_mkevent E now ''rds.proxy.backend_hba_reject'' O_failure ts db_instance ''rds_proxy''
            (grp 2 h) (grp 3 h) (grp 1 h) None None
            [(''reason'', PyStr ''backend_hba_missing''), (''db_connection'', opt_val (map_of tags ''dbConnection'')),
             (''message'', PyStr (take 300 msg))] t)
      | None \<Rightarrow> Inr None)"

definition parse_proxy_line ::
  "pyenv \<Rightarrow> time \<Rightarrow> time \<Rightarrow> pyval \<Rightarrow> transport \<Rightarrow> string \<Rightarrow> proxy_cache \<Rightarrow> (pyerr + event option) \<times> proxy_cache" where
  "parse_proxy_line E now ts db_instance t line c =
     (case re_match rx_proxy_prefix line of None \<Rightarrow> (parse_proxy_bare_line E now ts db_instance t line, c)
      | Some m \<Rightarrow>
        let tags = proxy_tags (grp_str 3 m); msg = grp_str 4 m; conn = map_of tags ''clientConnection'';
            db_conn = map_of tags ''dbConnection'' in
        case (if str_truthy db_conn then re_find rx_proxy_tcp msg else None) of
          Some h \<Rightarrow> (Inr None, proxy_port_cache_put (the db_conn) (grp_str 1 h) (digits_int (grp_str 2 h)) c)
        | None \<Rightarrow>
        case (if str_truthy conn then proxy_client_line E now ts db_instance t tags (the conn) msg c else None) of
          Some r \<Rightarrow> r
        | None \<Rightarrow> (proxy_failure_line E now ts db_instance t tags conn msg c, c))"

section \<open>The adapter\<close>

definition rds_line ::
  "pyenv \<Rightarrow> time \<Rightarrow> pyval \<Rightarrow> pyval \<Rightarrow> transport \<Rightarrow> pyval \<Rightarrow> proxy_cache \<Rightarrow> (pyerr + event option) \<times> proxy_cache" where
  "rds_line E now db_instance source_type t entry c =
     (let message = dget (as_dict entry) ''message''; ts = rds_parse_ts now (dget (as_dict entry) ''ts'') in
      if \<not> truthy message then (Inr None, c)
      else case text_of message of Inl e \<Rightarrow> (Inl e, c)
      | Inr line \<Rightarrow>
          if py_eq source_type (PyStr ''rds_proxy'') then parse_proxy_line E now ts db_instance t line c
          else (parse_postgres_line E now ts db_instance t line c, c))"

fun rds_lines ::
  "pyenv \<Rightarrow> time \<Rightarrow> pyval \<Rightarrow> pyval \<Rightarrow> transport \<Rightarrow> pyval list \<Rightarrow> proxy_cache \<Rightarrow> (pyerr + event list) \<times> proxy_cache" where
  "rds_lines E now db st t [] c = (Inr [], c)"
| "rds_lines E now db st t (x # xs) c =
     (case rds_line E now db st t x c of (Inl e, c1) \<Rightarrow> (Inl e, c1)
      | (Inr ev, c1) \<Rightarrow>
          let (r, c2) = rds_lines E now db st t xs c1
          in (sbind r (\<lambda>evs. Inr ((case ev of None \<Rightarrow> [] | Some e \<Rightarrow> [e]) @ evs)), c2))"

definition rds_parse ::
  "pyenv \<Rightarrow> time \<Rightarrow> ingest_ctx \<Rightarrow> pyval \<Rightarrow> proxy_cache \<Rightarrow> (pyerr + event list) \<times> proxy_cache" where
  "rds_parse E now ctx raw c =
     (case raw of PyDict d \<Rightarrow>
        (case iter_or_empty (dget d ''events'') of Inl e \<Rightarrow> (Inl e, c)
         | Inr items \<Rightarrow> rds_lines E now (py_or (dget d ''db_instance'') (PyStr ''unknown''))
             (py_or (dget d ''source_type'') (PyStr ''postgres'')) (transport_or T_queue (cx_transport ctx)) items c)
      | _ \<Rightarrow> (Inr [], c))"

end
