(* ===== verification/S3AccessAdapter.thy ===== *)
theory S3AccessAdapter
  imports Journal
begin

text \<open>
  The S3 server access log adapter (\<open>src/blackwatch/modules/aws_s3_access.py\<close>): the text of one log file, a
  request a line. Of the object key only the first path segment is kept, of the request line and the
  referer nothing.
\<close>

definition KEY_KEEP_FULL_FOR_BUCKETS :: "string list" where
  "KEY_KEEP_FULL_FOR_BUCKETS = []"

text \<open>\<open>\[[^\]]*\]|"[^"]*"|\S+\<close>\<close>

definition rx_token :: rx where
  "rx_token = rx_any
     [rx_cat [rx_lit ''['', rx_star (rx_not (CHR '']'')), rx_lit '']''],
      rx_cat [rx_lit [CHR 0x22], rx_star (rx_not (CHR 0x22)), rx_lit [CHR 0x22]],
      rx_plus rx_S]"

definition clean_token :: "string \<Rightarrow> string" where
  "clean_token t =
     (if t \<noteq> [] \<and> ((hd t = CHR ''['' \<and> last t = CHR '']'') \<or> (hd t = CHR 0x22 \<and> last t = CHR 0x22))
      then butlast (tl t) else t)"

definition tokenize :: "string \<Rightarrow> string list" where
  "tokenize line = map (clean_token \<circ> rh_text) (re_finditer rx_token line)"

definition ACCESS_FIELDS :: "string list" where
  "ACCESS_FIELDS = [''bucket_owner'', ''bucket'', ''time'', ''remote_ip'', ''requester'', ''request_id'', ''operation'',
     ''key'', ''request_uri'', ''http_status'', ''error_code'', ''bytes_sent'', ''object_size'', ''total_time_ms'',
     ''turnaround_time_ms'', ''referer'', ''user_agent'', ''version_id'', ''host_id'', ''sig_version'', ''cipher_suite'',
     ''auth_type'', ''host_header'', ''tls_version'', ''access_point_arn'', ''acl_required'']"

type_synonym access_row = "string \<Rightarrow> string option"

definition row_of_tokens :: "string list \<Rightarrow> access_row" where
  "row_of_tokens tokens = map_of (zip ACCESS_FIELDS tokens)"

definition parse_access_line :: "string \<Rightarrow> access_row option" where
  "parse_access_line line = (let tokens = tokenize line in if length tokens < 8 then None else Some (row_of_tokens tokens))"

definition access_time :: "pyenv \<Rightarrow> string option \<Rightarrow> time option" where
  "access_time E ts = (if str_truthy ts then strp_time E ''%d/%b/%Y:%H:%M:%S %z'' (the ts) else None)"

definition int_or_none :: "string option \<Rightarrow> int option" where
  "int_or_none v = (case v of None \<Rightarrow> None | Some s \<Rightarrow> if s = ''-'' \<or> s = [] then None else parse_int s)"

definition first_segment :: "string \<Rightarrow> string" where
  "first_segment k = (if CHR ''/'' \<in> set k
     then takeWhile (\<lambda>c. c \<noteq> CHR ''/'') k @ ''/'' @ [CHR 0xE2, CHR 0x80, CHR 0xA6] else k)"

definition redact_key :: "pyval \<Rightarrow> string option \<Rightarrow> pyerr + string option" where
  "redact_key bucket key =
     (case key of None \<Rightarrow> Inr None
      | Some k \<Rightarrow>
          if k = ''-'' \<or> k = [] then Inr (Some k)
          else sbind (lookup_key (map (\<lambda>b. (b, ())) KEY_KEEP_FULL_FOR_BUCKETS) bucket) (\<lambda>keep.
            Inr (Some (if keep = Some () then k else first_segment k))))"

definition dash_none :: "string option \<Rightarrow> string option" where
  "dash_none v = (case v of None \<Rightarrow> None | Some s \<Rightarrow> if s = ''-'' \<or> s = [] then None else Some s)"

definition present :: "dict \<Rightarrow> dict" where
  "present d = filter (\<lambda>(k, v). v \<noteq> PyNone) d"

definition access_event ::
  "pyenv \<Rightarrow> time \<Rightarrow> pyval \<Rightarrow> pyval \<Rightarrow> pyval \<Rightarrow> nat \<Rightarrow> access_row \<Rightarrow> pyerr + event" where
  "access_event E now bucket log_bucket log_key line_no row =
     (let requester = str_or (row ''requester'') ''-'';
          ip = dash_none (row ''remote_ip'');
          status = int_or_none (row ''http_status'');
          anon = (requester = ''-'' \<or> requester = []) in
      sbind (redact_key bucket (row ''key'')) (\<lambda>key.
      sbind (checked_target (if str_truthy key then PyStr (py_str E bucket @ ''/'' @ the key) else bucket)
               (PyStr ''s3_object'') PyNone) (\<lambda>tgt.
        Inr (ensure_fingerprint E ((event_defaults now (new_source ''aws.s3.access'' T_poll))
          \<lparr>ev_id := Some (uuid5_url E (''s3access:'' @ py_str E bucket @ '':'' @ str_or (row ''request_id'') [] @ '':''
                     @ int_str (int line_no))),
           ev_time := or_now now (access_time E (row ''time'')), ev_category := C_storage,
           ev_action := (if anon then ''s3.object.access.anonymous'' else ''s3.object.access''),
           ev_outcome := (case status of None \<Rightarrow> O_success | Some s \<Rightarrow> if s < 400 then O_success else O_failure),
           ev_actor := \<lparr>act_principal = if anon then None else Some requester,
             act_type = Some (if anon then A_unknown else A_user), act_is_root = None, act_via_role = None,
             act_source_ip = ip, act_user_agent = None\<rparr>,
           ev_target := tgt, ev_observables := ip_observable ip,
           ev_extra := present
             [(''operation'', PyStr (str_or (row ''operation'') ''UNKNOWN'')),
              (''http_status'', (case status of None \<Rightarrow> PyNone | Some s \<Rightarrow> PyInt s)),
              (''bytes_sent'', (case int_or_none (row ''bytes_sent'') of None \<Rightarrow> PyNone | Some b \<Rightarrow> PyInt b)),
              (''log_bucket'', log_bucket), (''log_key'', log_key), (''user_agent'', opt_val (row ''user_agent'')),
              (''tls_version'', opt_val (row ''tls_version'')), (''auth_type'', opt_val (row ''auth_type'')),
              (''error_code'', opt_val (dash_none (row ''error_code'')))],
           ev_raw := PyDict [(''module'', PyStr ''aws.s3.access'')]\<rparr>)))))"

definition access_line_event ::
  "pyenv \<Rightarrow> time \<Rightarrow> pyval \<Rightarrow> pyval \<Rightarrow> pyval \<Rightarrow> nat \<times> string \<Rightarrow> pyerr + event list" where
  "access_line_event E now bucket log_bucket log_key numbered =
     (let (line_no, text) = numbered; line = str_strip text in
      if line = [] then Inr []
      else case parse_access_line line of None \<Rightarrow> Inr []
      | Some row \<Rightarrow> sbind (access_event E now bucket log_bucket log_key line_no row) (\<lambda>e. Inr [e]))"

definition s3_access_parse :: "pyenv \<Rightarrow> time \<Rightarrow> ingest_ctx \<Rightarrow> pyval \<Rightarrow> pyerr + event list" where
  "s3_access_parse E now ctx raw =
     (case raw of PyDict d \<Rightarrow>
        (case dget d ''content'' of
          PyStr content \<Rightarrow>
            let unknown = (\<lambda>k. py_or (dget d k) (PyStr ''unknown'')) in
            collect (access_line_event E now (unknown ''source_bucket'') (unknown ''log_bucket'') (unknown ''log_key''))
              (let ls = split_lines content in zip [1..<Suc (length ls)] ls)
        | _ \<Rightarrow> Inr [])
      | _ \<Rightarrow> Inr [])"

end
