(* ===== verification/HostAdapter.thy ===== *)
theory HostAdapter
  imports Journal
begin

text \<open>
  The EC2 host adapter (\<open>src/blackwatch/modules/ec2_host.py\<close>): the agent's report as a heartbeat, a state
  snapshot within the size cap, kernel OOM kills, SSH and sudo lines, file integrity changes and coverage.
\<close>

section \<open>Patterns\<close>

definition rx_ssh_ok :: rx where
  "rx_ssh_ok = rx_cat [rx_lit ''Accepted '', Rx_grp 1 (rx_plus rx_S), rx_lit '' for '', Rx_grp 2 (rx_plus rx_S),
     rx_lit '' from '', Rx_grp 3 rx_ipv4]"

definition rx_ssh_fail :: rx where
  "rx_ssh_fail = rx_cat [rx_lit ''Failed '', Rx_grp 1 (rx_plus rx_S), rx_lit '' for '', rx_opt (rx_lit ''invalid user ''),
     Rx_grp 2 (rx_plus rx_S), rx_lit '' from '', Rx_grp 3 rx_ipv4]"

definition rx_ssh_invalid :: rx where
  "rx_ssh_invalid = rx_cat [rx_lit ''Invalid user '', Rx_grp 1 (rx_plus rx_S), rx_lit '' from '', Rx_grp 2 rx_ipv4]"

definition rx_sudo_user :: rx where
  "rx_sudo_user = rx_cat [rx_lit ''sudo:'', rx_plus rx_s, Rx_grp 1 (rx_plus rx_S), rx_plus rx_s, rx_lit '':'']"

definition rx_sudo_ok :: rx where
  "rx_sudo_ok = rx_cat [rx_sudo_user, rx_star rx_dot, rx_lit ''COMMAND='', Rx_grp 2 (rx_plus rx_dot), Rx_eos]"

definition SUDO_FAIL_MARKERS :: "string list" where
  "SUDO_FAIL_MARKERS = [''authentication failure'', ''NOT in the sudoers'', ''command not allowed'',
     ''incorrect password attempt'']"

definition rx_instance_id :: rx where
  "rx_instance_id = rx_cat [Rx_bos, Rx_grp 1 (Rx_alt
       (Rx_seq (rx_lit ''i-'') (rx_between 8 17 (Rx_chars (\<lambda>c. is_digit c \<or> (CHR ''a'' \<le> c \<and> c \<le> CHR ''f'')))))
       (rx_between 1 64 (Rx_chars (\<lambda>c. is_digit c \<or> is_upper c \<or> is_lower c \<or> c \<in> set ''._-'')))), Rx_eos]"

definition SNAPSHOT_BYTE_CAP :: int where "SNAPSHOT_BYTE_CAP = 512 * 1024"

section \<open>Authentication lines\<close>

type_synonym host_verdict = "string \<times> outcome \<times> string option \<times> string option \<times> dict"

definition host_classify :: "string \<Rightarrow> host_verdict option" where
  "host_classify msg =
     (case re_find rx_ssh_ok msg of
        Some h \<Rightarrow> Some (if grp_str 1 h \<in> {''password'', ''keyboard-interactive''}
             then ''host.auth.ssh.password.success'' else ''host.auth.ssh.success'',
             O_success, grp 2 h, grp 3 h, [(''method'', opt_val (grp 1 h))])
      | None \<Rightarrow>
      case re_find rx_ssh_fail msg of
        Some h \<Rightarrow> Some (''host.auth.ssh.failure'', O_failure, grp 2 h, grp 3 h, [(''method'', opt_val (grp 1 h))])
      | None \<Rightarrow>
      case re_find rx_ssh_invalid msg of
        Some h \<Rightarrow> Some (''host.auth.ssh.failure'', O_failure, grp 1 h, grp 2 h, [(''reason'', PyStr ''invalid_user'')])
      | None \<Rightarrow>
      if str_contains msg ''sudo:'' then
        (case re_find rx_sudo_ok msg of
           Some h \<Rightarrow> Some (''host.sudo.exec'', O_success, grp 1 h, None, [(''command'', PyStr (str_strip (grp_str 2 h)))])
         | None \<Rightarrow>
           if list_ex (str_contains msg) SUDO_FAIL_MARKERS
           then Some (''host.sudo.failure'', O_failure, Option.bind (re_find rx_sudo_user msg) (grp 1), None, [])
           else None)
      else None)"

section \<open>The report\<close>

text \<open>What every event of a report shares.\<close>

record host_ctx =
  hc_id :: string
  hc_source :: source
  hc_target :: target
  hc_tags :: dict

definition str_opt :: "pyval \<Rightarrow> string option" where
  "str_opt v = (case v of PyStr s \<Rightarrow> Some s | _ \<Rightarrow> None)"

text \<open>\<open>None\<close>: the report is refused.\<close>

definition host_context :: "ingest_ctx \<Rightarrow> dict \<Rightarrow> host_ctx option" where
  "host_context ctx host =
     (case py_or (dget host ''instance_id'') (PyStr ''unknown'') of
        PyStr iid \<Rightarrow>
          (if re_match rx_instance_id iid = None then None
           else Some \<lparr>hc_id = iid,
             hc_source = \<lparr>src_module = ''ec2.host'', src_vendor = Some ''aws'',
               src_account = opt_or (str_opt (dget host ''account'')) (cx_account ctx),
               src_region = opt_or (str_opt (dget host ''region'')) (cx_region ctx), src_transport = T_queue\<rparr>,
             hc_target = new_target (Some iid) (Some ''ec2.instance'') (str_opt (dget host ''hostname'')),
             hc_tags = (if is_dict (dget host ''tags'') \<and> truthy (dget host ''tags'')
                then [(''tags'', dget host ''tags'')] else [])\<rparr>)
      | _ \<Rightarrow> None)"

definition host_event :: "pyenv \<Rightarrow> time \<Rightarrow> host_ctx \<Rightarrow> string \<Rightarrow> outcome \<Rightarrow> event" where
  "host_event E now hc action out =
     (event_defaults now (hc_source hc))
       \<lparr>ev_category := C_host, ev_action := action, ev_outcome := out, ev_target := hc_target hc\<rparr>"

definition opt_field :: "dict \<Rightarrow> (pyval \<Rightarrow> bool) \<Rightarrow> string \<Rightarrow> dict" where
  "opt_field raw ok k = (if ok (dget raw k) then [(k, dget raw k)] else [])"

definition host_heartbeat_extra :: "host_ctx \<Rightarrow> dict \<Rightarrow> dict" where
  "host_heartbeat_extra hc raw =
     [(''instance_id'', PyStr (hc_id hc)), (''hostname'', opt_val (tgt_name (hc_target hc))),
      (''uptime_seconds'', dget raw ''uptime_seconds''), (''agent_version'', dget raw ''agent_version'')]
     @ hc_tags hc
     @ opt_field raw (\<lambda>v. v \<noteq> PyNone) ''tick_duration_ms'' @ opt_field raw truthy ''collector_errors''
     @ concat (map (opt_field raw (\<lambda>v. v \<noteq> PyNone)) [''memory'', ''cpu'', ''active_sessions'', ''rpm_db_corrupted''])
     @ [(''stalled_collectors'', py_or (dget raw ''stalled_collectors'') (PyList []))]"

definition heartbeat_event :: "pyenv \<Rightarrow> time \<Rightarrow> host_ctx \<Rightarrow> dict \<Rightarrow> dict \<Rightarrow> event" where
  "heartbeat_event E now hc host raw =
     ensure_fingerprint E ((host_event E now hc ''host.service.health'' O_success)
       \<lparr>ev_extra := host_heartbeat_extra hc raw,
        ev_raw := PyDict [(''kind'', PyStr ''ec2_report''), (''host'', PyDict host)]\<rparr>)"

definition snapshot_events :: "pyenv \<Rightarrow> time \<Rightarrow> host_ctx \<Rightarrow> dict \<Rightarrow> dict \<Rightarrow> event list" where
  "snapshot_events E now hc host raw =
     (let snaps = dget raw ''snapshots'' in
      if \<not> is_dict snaps then []
      else
        let size = (case json_dumps E snaps of None \<Rightarrow> -1 | Some s \<Rightarrow> int (length s)) in
        if 0 < size \<and> size \<le> SNAPSHOT_BYTE_CAP then
          [ensure_fingerprint E ((host_event E now hc ''host.state.snapshot'' O_success)
            \<lparr>ev_extra := [(''instance_id'', PyStr (hc_id hc)), (''snapshots'', snaps)] @ hc_tags hc,
             ev_raw := PyDict [(''kind'', PyStr ''ec2_report''), (''host'', PyDict host),
               (''snapshots_present'', PyBool True)]\<rparr>)]
        else
          [ensure_fingerprint E ((host_event E now hc ''host.state.snapshot.rejected'' O_failure)
            \<lparr>ev_extra := [(''instance_id'', PyStr (hc_id hc)),
                (''reason'', PyStr (if size > 0 then ''snapshot_too_large'' else ''snapshot_unserializable'')),
                (''size_bytes'', PyInt size), (''cap_bytes'', PyInt SNAPSHOT_BYTE_CAP)] @ hc_tags hc,
             ev_raw := PyDict [(''kind'', PyStr ''ec2_report''), (''host'', PyDict host),
               (''snapshots_dropped'', PyBool True)]\<rparr>)])"

definition oom_event :: "pyenv \<Rightarrow> time \<Rightarrow> host_ctx \<Rightarrow> pyval \<Rightarrow> pyerr + event list" where
  "oom_event E now hc item =
     (case item of PyDict oom \<Rightarrow>
        let cursor = (if truthy (dget oom ''cursor'') then py_str E (dget oom ''cursor'')
              else py_str E (dget_or oom ''ts'' (PyStr [])) @ py_str E (dget_or oom ''message'' (PyStr []))) in
        sbind (micro_time now (dget oom ''ts'')) (\<lambda>when.
          Inr [ensure_fingerprint E ((host_event E now hc ''host.oom_kill'' O_failure)
            \<lparr>ev_id := Some (uuid5_url E (''host-oom:'' @ hc_id hc @ '':'' @ cursor)), ev_time := when,
             ev_extra := [(''instance_id'', PyStr (hc_id hc)), (''kernel_message'', dget oom ''message'')] @ hc_tags hc,
             ev_raw := PyDict [(''kind'', PyStr ''ec2_report.oom''), (''oom'', item)]\<rparr>)])
      | _ \<Rightarrow> Inr [])"

definition auth_event :: "pyenv \<Rightarrow> time \<Rightarrow> host_ctx \<Rightarrow> pyval \<Rightarrow> pyerr + event list" where
  "auth_event E now hc line =
     (case load_line E line of None \<Rightarrow> Inr []
      | Some entry \<Rightarrow>
          if entry = PyNone then Inr []
          else sbind (journal_message E entry) (\<lambda>msg. sbind (text_of msg) (\<lambda>message.
            case host_classify message of None \<Rightarrow> Inr []
            | Some (action, out, user, ip, extra) \<Rightarrow>
                sbind (journal_time now (as_dict entry)) (\<lambda>when.
                  Inr [ensure_fingerprint E ((host_event E now hc action out)
                    \<lparr>ev_id := Some (uuid5_url E (''host-auth:'' @ hc_id hc @ '':'' @ journal_cursor E (as_dict entry) message)),
                     ev_time := when, ev_actor := new_actor user ip,
                     ev_observables := ip_observable ip @ user_observable user,
                     ev_extra := [(''instance_id'', PyStr (hc_id hc))] @ extra @ hc_tags hc,
                     ev_raw := entry\<rparr>)]))))"

section \<open>File integrity\<close>

definition FIM_ACTIONS :: "(string \<times> string) list" where
  "FIM_ACTIONS = [(''created'', ''host.fim.created''), (''modified'', ''host.fim.modified''),
     (''deleted'', ''host.fim.deleted''), (''perm_changed'', ''host.fim.perm_changed''),
     (''owner_changed'', ''host.fim.owner_changed'')]"

definition fim_time :: "pyenv \<Rightarrow> time \<Rightarrow> pyval \<Rightarrow> pyerr + time" where
  "fim_time E now detected =
     (if \<not> truthy detected then Inr now
      else case detected of PyStr s \<Rightarrow> Inr (or_now now (iso_parse_z E s)) | _ \<Rightarrow> Inl (AttributeError ''replace''))"

text \<open>\<open>None\<close> is what the code passes as \<open>actor\<close> when the change carries none; the model refuses it.\<close>

definition fim_actor :: "pyenv \<Rightarrow> pyval \<Rightarrow> actor option" where
  "fim_actor E v =
     (case v of PyDict a \<Rightarrow>
        if a = [] then None
        else
          let parts = (if truthy (dget a ''comm'') then [py_str E (dget a ''comm'')] else [])
                @ (if dget a ''uid'' \<noteq> PyNone then [''uid='' @ py_str E (dget a ''uid'')] else []);
              who = join '' '' parts in
          Some (new_actor (if who = [] then None else Some who) None)
      | _ \<Rightarrow> None)"

definition actor_field :: "actor option \<Rightarrow> pyerr + actor" where
  "actor_field a = (case a of None \<Rightarrow> Inl (ValueError ''Input should be a valid dictionary or instance of Actor'')
     | Some x \<Rightarrow> Inr x)"

definition fim_key :: "pyenv \<Rightarrow> host_ctx \<Rightarrow> dict \<Rightarrow> string" where
  "fim_key E hc ch =
     ''fim:'' @ hc_id hc @ '':'' @ py_str E (dget ch ''path'') @ '':'' @ py_str E (dget ch ''change_type'') @ '':''
     @ py_str E (dget ch ''sha256_after'') @ '':'' @ py_str E (py_or (dget ch ''detected_at'') (PyStr []))"

definition FIM_COPIED :: "string list" where
  "FIM_COPIED = [''sha256_before'', ''sha256_after'', ''size_before'', ''size_after'', ''perm_before'', ''perm_after'',
     ''owner_before'', ''owner_after'']"

definition fim_event :: "pyenv \<Rightarrow> time \<Rightarrow> host_ctx \<Rightarrow> pyval \<Rightarrow> pyerr + event list" where
  "fim_event E now hc item =
     (case item of PyDict ch \<Rightarrow>
        if \<not> truthy (dget ch ''path'') then Inr []
        else sbind (lookup_key FIM_ACTIONS (dget ch ''change_type'')) (\<lambda>known.
          case known of None \<Rightarrow> Inr []
          | Some action \<Rightarrow>
              sbind (fim_time E now (dget ch ''detected_at'')) (\<lambda>when.
              sbind (actor_field (fim_actor E (dget ch ''actor''))) (\<lambda>act.
                Inr [ensure_fingerprint E ((host_event E now hc action O_success)
                  \<lparr>ev_id := Some (uuid5_url E (fim_key E hc ch)), ev_time := when, ev_actor := act,
                   ev_extra := [(''instance_id'', PyStr (hc_id hc)), (''path'', dget ch ''path''),
                       (''change_type'', dget ch ''change_type'')]
                     @ map (\<lambda>k. (k, dget ch k)) FIM_COPIED
                     @ [(''detection'', py_or (dget ch ''detection'') (PyStr ''baseline''))]
                     @ (if is_dict (dget ch ''actor'') \<and> truthy (dget ch ''actor'')
                        then [(''actor'', dget ch ''actor'')] else [])
                     @ hc_tags hc,
                   ev_raw := PyDict [(''kind'', PyStr ''ec2_report.fim_change''), (''change'', item)]\<rparr>)])))
      | _ \<Rightarrow> Inr [])"

definition coverage_events :: "pyenv \<Rightarrow> time \<Rightarrow> host_ctx \<Rightarrow> dict \<Rightarrow> event list" where
  "coverage_events E now hc raw =
     (case dget raw ''fim_coverage'' of PyDict cov \<Rightarrow>
        [ensure_fingerprint E ((host_event E now hc ''host.fim.coverage'' O_success)
          \<lparr>ev_id := Some (uuid5_url E (''fim-cov:'' @ hc_id hc @ '':'' @ int_str \<lfloor>now / 60\<rfloor>)),
           ev_extra := dmerge (dmerge [(''instance_id'', PyStr (hc_id hc))] cov) (hc_tags hc),
           ev_raw := PyDict [(''kind'', PyStr ''ec2_report.fim_coverage'')]\<rparr>)]
      | _ \<Rightarrow> [])"

definition host_parse :: "pyenv \<Rightarrow> time \<Rightarrow> ingest_ctx \<Rightarrow> pyval \<Rightarrow> pyerr + event list" where
  "host_parse E now ctx raw =
     (case raw of PyDict d \<Rightarrow>
        (if \<not> py_eq (dget d ''kind'') (PyStr ''ec2_report'') \<or> \<not> is_dict (dget d ''host'') then Inr []
         else
           let host = as_dict (dget d ''host'') in
           case host_context ctx host of None \<Rightarrow> Inr []
           | Some hc \<Rightarrow>
               sbind (iter_or_empty (dget d ''oom_events'')) (\<lambda>ooms.
               sbind (collect (oom_event E now hc) ooms) (\<lambda>oom_evs.
               sbind (iter_or_empty (dget d ''auth_events'')) (\<lambda>lines.
               sbind (collect (auth_event E now hc) lines) (\<lambda>auth_evs.
               sbind (iter_or_empty (dget d ''fim_changes'')) (\<lambda>changes.
               sbind (collect (fim_event E now hc) changes) (\<lambda>fim_evs.
                 Inr (heartbeat_event E now hc host d # snapshot_events E now hc host d
                      @ oom_evs @ auth_evs @ fim_evs @ coverage_events E now hc d))))))))
      | _ \<Rightarrow> Inr [])"

section \<open>What the adapter guarantees\<close>

lemma collect_with:
  assumes "collect f xs = Inr ys" and "\<And>x zs. x \<in> set xs \<Longrightarrow> f x = Inr zs \<Longrightarrow> list_all P zs"
  shows "list_all P ys"
  using collect_mem[OF assms(1)] assms(2) by (fastforce simp: list_all_iff)

text \<open>A change without an actor is refused by the event model.\<close>

lemma fim_event_no_actor:
  assumes "truthy (dget ch ''path'')" and "lookup_key FIM_ACTIONS (dget ch ''change_type'') = Inr (Some a)"
    and "fim_time E now (dget ch ''detected_at'') = Inr t" and "\<not> (is_dict (dget ch ''actor'') \<and> truthy (dget ch ''actor''))"
  shows "\<exists>e. fim_event E now hc (PyDict ch) = Inl e"
proof -
  have "fim_actor E (dget ch ''actor'') = None"
    using assms(4) by (auto simp: fim_actor_def split: pyval.splits)
  then show ?thesis using assms by (auto simp: fim_event_def actor_field_def)
qed

lemma sbind_fails: "(\<And>x. \<exists>e. f x = Inl e) \<Longrightarrow> \<exists>e. sbind m f = Inl e"
  by (cases m) auto

lemma collect_error: "x \<in> set xs \<Longrightarrow> f x = Inl e \<Longrightarrow> \<exists>e'. collect f xs = Inl e'"
  by (induction xs) (auto simp: collect_Cons sbind_def split: sum.splits)

text \<open>C25: A report that carries one well-formed file integrity change without an \<open>actor\<close> raises: the event
  model does not accept \<open>actor=None\<close>, so the heartbeat, the snapshot and every other event of the report are
  lost with it, whatever else the report holds.
\<close>
theorem fim_change_without_actor_loses_report:
  assumes "dget d ''kind'' = PyStr ''ec2_report''" and "dget d ''host'' = PyDict host" and "host_context ctx host = Some hc"
    and "dget d ''fim_changes'' = PyList changes" and "PyDict ch \<in> set changes"
    and "dget ch ''path'' = PyStr p" and "p \<noteq> []" and "dget ch ''change_type'' = PyStr k" and "k \<in> fst ` set FIM_ACTIONS"
    and "dget ch ''detected_at'' = PyStr det" and "dget ch ''actor'' = PyNone"
  shows "\<exists>e. host_parse E now ctx (PyDict d) = Inl e"
proof -
  have "\<exists>a. map_of FIM_ACTIONS k = Some a" using assms(9) by (metis map_of_eq_None_iff not_None_eq)
  then obtain a where a: "lookup_key FIM_ACTIONS (dget ch ''change_type'') = Inr (Some a)" by (auto simp: assms(8))
  have "\<exists>t. fim_time E now (dget ch ''detected_at'') = Inr t" by (simp add: fim_time_def assms(10))
  then obtain t where t: "fim_time E now (dget ch ''detected_at'') = Inr t" by blast
  have "\<exists>e. fim_event E now hc (PyDict ch) = Inl e"
    by (rule fim_event_no_actor[OF _ a t]) (simp_all add: assms(6,7,11))
  then obtain e where "fim_event E now hc (PyDict ch) = Inl e" by blast
  from collect_error[of _ _ "fim_event E now hc", OF assms(5) this]
  obtain e' where e': "collect (fim_event E now hc) changes = Inl e'" by blast
  have "changes \<noteq> []" using assms(5) by auto
  then have "iter_or_empty (dget d ''fim_changes'') = Inr changes" by (simp add: assms(4) iter_or_empty_def)
  with e' have late: "\<exists>e. sbind (iter_or_empty (dget d ''fim_changes'')) (\<lambda>changes.
      sbind (collect (fim_event E now hc) changes) f) = Inl e" for f :: "event list \<Rightarrow> pyerr + event list" by simp
  show ?thesis unfolding host_parse_def
    by (simp add: assms(1-3)) (intro sbind_fails late)
qed

definition demo_ctx :: "string \<Rightarrow> ingest_ctx" where
  "demo_ctx m = \<lparr>cx_module = m, cx_transport = ''queue'', cx_account = None, cx_region = None\<rparr>"

definition demo_host :: dict where
  "demo_host = [(''instance_id'', PyStr ''i-0123456789abcdef0''), (''hostname'', PyStr ''web-1'')]"

definition demo_change :: dict where
  "demo_change = [(''path'', PyStr ''/etc/passwd''), (''change_type'', PyStr ''modified''), (''detected_at'', PyStr ''t'')]"

lemma demo_host_context: "\<exists>hc. host_context (demo_ctx ''ec2.host'') demo_host = Some hc"
proof -
  have "re_match rx_instance_id ''i-0123456789abcdef0'' \<noteq> None" by code_simp
  then show ?thesis by (simp add: host_context_def demo_host_def py_or_def)
qed

lemma fim_change_without_actor_loses_report_witness:
  "\<exists>e. host_parse demo_env 0 (demo_ctx ''ec2.host'') (PyDict [(''kind'', PyStr ''ec2_report''),
     (''host'', PyDict demo_host), (''fim_changes'', PyList [PyDict demo_change])]) = Inl e"
proof -
  obtain hc where hc: "host_context (demo_ctx ''ec2.host'') demo_host = Some hc" using demo_host_context by blast
  show ?thesis
    by (rule fim_change_without_actor_loses_report[OF _ _ hc, where ch = demo_change and p = "''/etc/passwd''"
          and k = "''modified''" and det = "''t''" and changes = "[PyDict demo_change]"])
      (simp_all add: demo_change_def FIM_ACTIONS_def)
qed

lemma lang_three_groups:
  "rx_lang (rx_cat [rx_lit a, Rx_grp i r, rx_lit b, Rx_grp j q, rx_lit c, Rx_grp k p]) =
     {a @ x @ b @ y @ c @ z | x y z. x \<in> rx_lang r \<and> y \<in> rx_lang q \<and> z \<in> rx_lang p}"
  by (auto; blast)

text \<open>C26: A log line is reported as an SSH login exactly when it contains, anywhere, the phrase
  "Accepted (method) for (user) from (address)" - also inside a user name that the client chose.
\<close>
theorem ssh_login_reported_iff:
  "(\<exists>v. host_classify msg = Some v \<and> fst v \<in> {''host.auth.ssh.success'', ''host.auth.ssh.password.success''}) \<longleftrightarrow>
   (\<exists>method user ip. sublist (''Accepted '' @ method @ '' for '' @ user @ '' from '' @ ip) msg \<and>
      method \<noteq> [] \<and> user \<noteq> [] \<and> list_all (\<lambda>c. \<not> is_space c) (method @ user) \<and> ip \<in> rx_lang rx_ipv4)"
proof -
  have "(\<exists>v. host_classify msg = Some v \<and> fst v \<in> {''host.auth.ssh.success'', ''host.auth.ssh.password.success''})
      \<longleftrightarrow> re_find rx_ssh_ok msg \<noteq> None"
    by (auto simp: host_classify_def split: option.splits)
  also have "\<dots> \<longleftrightarrow> (\<exists>w \<in> rx_lang rx_ssh_ok. sublist w msg)"
    by (rule re_find_iff) (simp add: rx_ssh_ok_def)
  also have "rx_lang rx_ssh_ok = {''Accepted '' @ m @ '' for '' @ u @ '' from '' @ ip | m u ip.
      m \<noteq> [] \<and> u \<noteq> [] \<and> list_all (\<lambda>c. \<not> is_space c) (m @ u) \<and> ip \<in> rx_lang rx_ipv4}"
    unfolding rx_ssh_ok_def lang_three_groups rx_lang_plus_chars list_all_append by blast
  finally show ?thesis by blast
qed

text \<open>An SSH client chooses its user name, and the log line that refuses it is read as a login of someone
  else from elsewhere.\<close>

lemma forged_ssh_success:
  "map_option (\<lambda>(a, out, u, ip, x). (a, out, u, ip))
     (host_classify ''Invalid user Accepted password for root from 10.0.0.1 from 203.0.113.9 port 22'') =
   Some (''host.auth.ssh.password.success'', O_success, Some ''root'', Some ''10.0.0.1'')"
  by code_simp

lemma json_number_line_raises:
  "auth_event (demo_env\<lparr>json_loads := (\<lambda>s. Some (PyInt 5))\<rparr>) now hc (PyStr ''5'') = Inl (AttributeError ''get'')"
  by (simp add: auth_event_def load_line_def journal_message_def)

end
