(* ===== verification/CloudTrailSignals.thy ===== *)
theory CloudTrailSignals
  imports AdapterBase
begin

text \<open>
  The signal detectors of the CloudTrail adapter (\<open>src/blackwatch/modules/aws_cloudtrail.py\<close>): checks of a call's
  request parameters that say whether it exposes something - public policies and ACLs, ingress open to
  the world, shared snapshots and images, weakened RDS settings - and the redaction of secret values.
  \<open>rp\<close> is \<open>request_params\<close>; a detector gives \<open>Inl\<close> where it raises.
\<close>

section \<open>Redaction\<close>

definition SECRET_PAYLOAD_KEYS :: "string list" where
  "SECRET_PAYLOAD_KEYS = [''secretstring'', ''secretbinary'', ''secretvalue'', ''plaintext'']"

definition normalized_key :: "string \<Rightarrow> string" where
  "normalized_key k = filter (\<lambda>c. let n = of_char c :: nat in (48 \<le> n \<and> n \<le> 57) \<or> (97 \<le> n \<and> n \<le> 122)) (str_lower k)"

definition secret_key :: "string \<Rightarrow> bool" where
  "secret_key k = (normalized_key k \<in> set SECRET_PAYLOAD_KEYS)"

fun redact_secret_payload :: "pyval \<Rightarrow> pyval"
  and redact_fields :: "(string \<times> pyval) list \<Rightarrow> (string \<times> pyval) list"
  and redact_items :: "pyval list \<Rightarrow> pyval list" where
  "redact_secret_payload (PyDict d) = PyDict (redact_fields d)"
| "redact_secret_payload (PyList xs) = PyList (redact_items xs)"
| "redact_secret_payload v = v"
| "redact_fields [] = []"
| "redact_fields ((k, v) # d) =
     (k, if secret_key k then PyStr ''[REDACTED]'' else redact_secret_payload v) # redact_fields d"
| "redact_items [] = []"
| "redact_items (x # xs) = redact_secret_payload x # redact_items xs"

section \<open>Policies\<close>

definition remove_spaces :: "string \<Rightarrow> string" where
  "remove_spaces s = filter (\<lambda>c. c \<noteq> CHR '' '') s"

definition quoted :: "string \<Rightarrow> string" where
  "quoted s = [CHR 0x22] @ s @ [CHR 0x22]"

definition wildcard_policy :: "dict \<Rightarrow> bool" where
  "wildcard_policy rp =
     (case dget rp ''policyDocument'' of PyStr doc \<Rightarrow>
        (let blob = remove_spaces doc in
         str_contains blob (quoted ''Action'' @ '':'' @ quoted ''*'') \<or> str_contains blob (quoted ''*:*'') \<or>
         str_contains blob (quoted ''Resource'' @ '':'' @ quoted ''*''))
      | _ \<Rightarrow> False)"

text \<open>An \<open>Allow\<close> for everyone that no condition narrows.\<close>

definition wildcard_principal :: "pyval \<Rightarrow> bool" where
  "wildcard_principal p =
     (py_eq p (PyStr ''*'') \<or>
      (case p of PyDict d \<Rightarrow>
         py_eq (dget d ''AWS'') (PyStr ''*'') \<or>
         (case dget d ''AWS'' of PyList xs \<Rightarrow> py_in_list (PyStr ''*'') xs | _ \<Rightarrow> False)
       | _ \<Rightarrow> False))"

definition open_statement :: "pyval \<Rightarrow> bool" where
  "open_statement v =
     (case v of PyDict s \<Rightarrow> py_eq (dget s ''Effect'') (PyStr ''Allow'') \<and> wildcard_principal (dget s ''Principal'') \<and>
        \<not> truthy (dget s ''Condition'')
      | _ \<Rightarrow> False)"

definition policy_doc_is_wildcard :: "pyenv \<Rightarrow> pyval \<Rightarrow> pyerr + bool" where
  "policy_doc_is_wildcard E doc =
     (case doc of PyStr text \<Rightarrow>
        (case json_loads E text of None \<Rightarrow> Inr False
         | Some (PyDict parsed) \<Rightarrow>
             (case py_or (dget parsed ''Statement'') (PyList []) of
                PyDict s \<Rightarrow> Inr (open_statement (PyDict s))
              | sts \<Rightarrow> sbind (py_iter sts) (\<lambda>xs. Inr (list_ex open_statement xs)))
         | Some v \<Rightarrow> Inl (AttributeError ''get''))
      | _ \<Rightarrow> Inr False)"

definition bucket_policy_is_public :: "pyenv \<Rightarrow> dict \<Rightarrow> pyerr + bool" where
  "bucket_policy_is_public E rp = policy_doc_is_wildcard E (py_or (dget rp ''bucketPolicy'') (dget rp ''policy''))"

definition kms_policy_is_wildcard :: "pyenv \<Rightarrow> dict \<Rightarrow> pyerr + bool" where
  "kms_policy_is_wildcard E rp = policy_doc_is_wildcard E (dget rp ''policy'')"

section \<open>Buckets\<close>

definition acl_grants_public :: "pyenv \<Rightarrow> dict \<Rightarrow> pyerr + bool" where
  "acl_grants_public E rp =
     (case py_or (py_or (dget rp ''x-amz-acl'') (dget rp ''acl'')) (PyStr []) of
        PyStr canned \<Rightarrow>
          (if str_lower canned \<in> {''public-read'', ''public-read-write'', ''authenticated-read''} then Inr True
           else case json_dumps E (PyDict rp) of None \<Rightarrow> Inl (TypeError ''not JSON serializable'')
             | Some text \<Rightarrow> Inr (str_contains (str_lower text) ''global/allusers'' \<or>
                 str_contains (str_lower text) ''global/authenticatedusers''))
      | _ \<Rightarrow> Inl (AttributeError ''lower''))"

definition config_of :: "dict \<Rightarrow> string \<Rightarrow> pyerr + dict" where
  "config_of rp k = (case py_or (dget rp k) (PyDict []) of PyDict c \<Rightarrow> Inr c | _ \<Rightarrow> Inl (AttributeError ''get''))"

definition bpa_weakened :: "dict \<Rightarrow> pyerr + bool" where
  "bpa_weakened rp = sbind (config_of rp ''PublicAccessBlockConfiguration'') (\<lambda>cfg.
     Inr (list_ex (\<lambda>k. \<not> truthy (dget cfg k))
       [''BlockPublicAcls'', ''IgnorePublicAcls'', ''BlockPublicPolicy'', ''RestrictPublicBuckets'']))"

definition versioning_suspended :: "pyenv \<Rightarrow> dict \<Rightarrow> pyerr + bool" where
  "versioning_suspended E rp = sbind (config_of rp ''VersioningConfiguration'') (\<lambda>cfg.
     Inr (str_lower (py_str E (dget_or cfg ''Status'' (PyStr []))) = ''suspended''))"

definition mfa_delete_disabled :: "pyenv \<Rightarrow> dict \<Rightarrow> pyerr + bool" where
  "mfa_delete_disabled E rp = sbind (config_of rp ''VersioningConfiguration'') (\<lambda>cfg.
     Inr (str_lower (py_str E (dget_or cfg ''MfaDelete'' (PyStr []))) = ''disabled''))"

definition logging_disabled :: "dict \<Rightarrow> pyerr + bool" where
  "logging_disabled rp = sbind (config_of rp ''BucketLoggingStatus'') (\<lambda>cfg. Inr (\<not> truthy (dget cfg ''LoggingEnabled'')))"

section \<open>Security group ingress\<close>

definition RISKY_PORTS :: "int list" where
  "RISKY_PORTS = [22, 23, 25, 587, 465, 139, 445, 389, 636, 1433, 1521, 2049, 2375, 2376, 3306, 3389, 5432, 5900, 5901,
     6379, 8086, 9200, 9300, 11211, 27017, 27018]"

text \<open>The permissions of a call: nested items, or the flat shape.\<close>

definition ingress_perms :: "dict \<Rightarrow> dict list" where
  "ingress_perms rp =
     (let nested = (case dget rp ''ipPermissions'' of
            PyDict p \<Rightarrow> (case py_or (dget p ''items'') (PyList []) of PyList xs \<Rightarrow> map as_dict (filter is_dict xs) | _ \<Rightarrow> [])
          | _ \<Rightarrow> [])
      in if nested = [] \<and> (dget rp ''cidrIp'' \<noteq> PyNone \<or> dget rp ''fromPort'' \<noteq> PyNone \<or> dget rp ''ipProtocol'' \<noteq> PyNone)
         then [rp] else nested)"

definition cidrs_in :: "dict \<Rightarrow> string \<Rightarrow> string \<Rightarrow> pyerr + pyval list" where
  "cidrs_in perm ranges key =
     (case dget perm ranges of
        PyDict r \<Rightarrow> sbind (iter_or_empty (dget r ''items'')) (\<lambda>xs.
          Inr (filter truthy (map (\<lambda>v. dget (as_dict v) key) (filter is_dict xs))))
      | _ \<Rightarrow> Inr (if truthy (dget perm key) then [dget perm key] else []))"

definition is_world :: "pyval \<Rightarrow> bool" where
  "is_world c = (py_eq c (PyStr ''0.0.0.0/0'') \<or> py_eq c (PyStr ''::/0''))"

record ingress =
  ig_public :: bool
  ig_risky :: bool
  ig_all :: bool
  ig_ports :: "int list"
  ig_cidrs :: "pyval list"
  ig_proto :: "string option"

definition no_ingress :: ingress where
  "no_ingress = \<lparr>ig_public = False, ig_risky = False, ig_all = False, ig_ports = [], ig_cidrs = [], ig_proto = None\<rparr>"

text \<open>The loop over a port range stops once fifty ports are listed.\<close>

fun port_loop :: "int list \<Rightarrow> int list \<Rightarrow> bool \<Rightarrow> int list \<times> bool" where
  "port_loop [] acc risky = (acc, risky)"
| "port_loop (p # ps) acc risky =
     (let acc1 = acc @ [p]; risky1 = (risky \<or> p \<in> set RISKY_PORTS) in
      if 50 \<le> length acc1 then (acc1, risky1) else port_loop ps acc1 risky1)"

definition is_minus_one :: "pyval \<Rightarrow> bool" where
  "is_minus_one v = (py_eq v (PyInt (-1)) \<or> py_eq v (PyStr ''-1''))"

definition ingress_ports :: "dict \<Rightarrow> ingress \<Rightarrow> ingress" where
  "ingress_ports perm g =
     (let conv = (\<lambda>v. if v = PyNone then Some None else map_option Some (py_int v)) in
      case conv (dget perm ''fromPort'') of None \<Rightarrow> g
      | Some fp \<Rightarrow>
        (case (if dget perm ''toPort'' = PyNone then Some fp else conv (dget perm ''toPort'')) of None \<Rightarrow> g
         | Some tp \<Rightarrow>
           (case fp of None \<Rightarrow> g
            | Some f \<Rightarrow>
               if f = 0 \<and> (case tp of None \<Rightarrow> False | Some t \<Rightarrow> 1024 \<le> t) then g\<lparr>ig_all := True\<rparr>
               else let t = (case tp of None \<Rightarrow> f | Some t \<Rightarrow> t); (ports, risky) = port_loop [f..t] (ig_ports g) (ig_risky g)
                    in g\<lparr>ig_ports := ports, ig_risky := risky\<rparr>)))"

definition ingress_step :: "pyenv \<Rightarrow> dict \<Rightarrow> ingress \<Rightarrow> pyerr + ingress" where
  "ingress_step E perm g =
     sbind (cidrs_in perm ''ipRanges'' ''cidrIp'') (\<lambda>v4. sbind (cidrs_in perm ''ipv6Ranges'' ''cidrIpv6'') (\<lambda>v6.
       let cidrs = v4 @ v6; proto = dget perm ''ipProtocol'' in
       if \<not> list_ex is_world cidrs then Inr g
       else
         let g1 = g\<lparr>ig_public := True,
                    ig_cidrs := fold (\<lambda>c acc. if is_world c \<and> \<not> py_in_list c acc then acc @ [c] else acc) cidrs (ig_cidrs g),
                    ig_proto := (if ig_proto g = None \<and> proto \<noteq> PyNone \<and> \<not> is_minus_one proto
                                 then Some (py_str E proto) else ig_proto g)\<rparr> in
         if is_minus_one proto \<or> py_eq proto (PyStr ''all'') \<or> proto = PyNone then Inr (g1\<lparr>ig_all := True\<rparr>)
         else Inr (ingress_ports perm g1)))"

fun ingress_fold :: "pyenv \<Rightarrow> dict list \<Rightarrow> ingress \<Rightarrow> pyerr + ingress" where
  "ingress_fold E [] g = Inr g"
| "ingress_fold E (p # ps) g = sbind (ingress_step E p g) (ingress_fold E ps)"

definition flag :: "bool \<Rightarrow> string \<Rightarrow> dict" where
  "flag b k = (if b then [(k, PyBool True)] else [])"

definition ingress_extra :: "ingress \<Rightarrow> dict" where
  "ingress_extra g =
     flag (ig_public g) ''public_ingress'' @ flag (ig_risky g) ''public_ingress_risky_port''
     @ flag (ig_all g) ''public_ingress_all_traffic''
     @ (if ig_ports g = [] then [] else [(''public_ports'', PyList (map PyInt (take 50 (ig_ports g))))])
     @ (if ig_cidrs g = [] then [] else [(''public_cidrs'', PyList (ig_cidrs g))])
     @ (if str_truthy (ig_proto g) then [(''public_proto'', opt_val (ig_proto g))] else [])"

definition sg_ingress_signals :: "pyenv \<Rightarrow> dict \<Rightarrow> pyerr + dict" where
  "sg_ingress_signals E rp = sbind (ingress_fold E (ingress_perms rp) no_ingress) (\<lambda>g. Inr (ingress_extra g))"

section \<open>Instances, snapshots, images\<close>

definition imds_weakened :: "pyenv \<Rightarrow> dict \<Rightarrow> bool" where
  "imds_weakened E rp = (str_lower (py_str E (dget_or rp ''httpTokens'' (PyStr []))) = ''optional'')"

text \<open>\<open>x.get("items")\<close> of a dict, the list itself, else nothing; then iterated.\<close>

definition block_items :: "pyval \<Rightarrow> pyerr + pyval list" where
  "block_items block =
     iter_or_empty (case block of PyDict b \<Rightarrow> dget b ''items'' | PyList xs \<Rightarrow> block | _ \<Rightarrow> PyList [])"

definition is_all :: "dict \<Rightarrow> string \<Rightarrow> bool" where
  "is_all d k = py_eq (dget d k) (PyStr ''all'')"

definition permission_of :: "dict \<Rightarrow> string \<Rightarrow> dict option" where
  "permission_of rp k = (case py_or (dget rp k) (PyDict []) of PyDict p \<Rightarrow> Some p | _ \<Rightarrow> None)"

text \<open>The loop over the blocks returns at the first hit, so a later block is not read then.\<close>

definition snapshot_made_public :: "dict \<Rightarrow> pyerr + bool" where
  "snapshot_made_public rp =
     (case permission_of rp ''createVolumePermission'' of None \<Rightarrow> Inr False
      | Some perm \<Rightarrow>
          let hit = (\<lambda>v. case v of PyDict d \<Rightarrow> is_all d ''group'' \<or> is_all d ''userId'' | _ \<Rightarrow> False) in
          sbind (block_items (dget perm ''add'')) (\<lambda>xs.
            if list_ex hit xs then Inr True
            else sbind (block_items (dget perm ''items'')) (\<lambda>ys. Inr (list_ex hit ys))))"

definition other_accounts :: "pyenv \<Rightarrow> pyval list \<Rightarrow> string list" where
  "other_accounts E xs =
     map (\<lambda>d. py_str E (dget d ''userId''))
       (filter (\<lambda>d. truthy (dget d ''userId'') \<and> \<not> is_all d ''userId'') (map as_dict (filter is_dict xs)))"

definition snapshot_cross_account_share :: "pyenv \<Rightarrow> dict \<Rightarrow> pyerr + string list" where
  "snapshot_cross_account_share E rp =
     (case permission_of rp ''createVolumePermission'' of None \<Rightarrow> Inr []
      | Some perm \<Rightarrow> sbind (block_items (dget perm ''add'')) (\<lambda>xs. sbind (block_items (dget perm ''items'')) (\<lambda>ys.
          Inr (other_accounts E xs @ other_accounts E ys))))"

definition ami_made_public :: "dict \<Rightarrow> pyerr + bool" where
  "ami_made_public rp =
     (case permission_of rp ''launchPermission'' of None \<Rightarrow> Inr False
      | Some perm \<Rightarrow> sbind (block_items (dget perm ''add'')) (\<lambda>xs.
          Inr (list_ex (\<lambda>v. case v of PyDict d \<Rightarrow> is_all d ''group'' | _ \<Rightarrow> False) xs)))"

definition ami_cross_account_share :: "pyenv \<Rightarrow> dict \<Rightarrow> pyerr + string list" where
  "ami_cross_account_share E rp =
     (case permission_of rp ''launchPermission'' of None \<Rightarrow> Inr []
      | Some perm \<Rightarrow> sbind (block_items (dget perm ''add'')) (\<lambda>xs.
          Inr (map (\<lambda>d. py_str E (dget d ''userId''))
            (filter (\<lambda>d. truthy (dget d ''userId'')) (map as_dict (filter is_dict xs))))))"

section \<open>Backup, EFS, RDS\<close>

definition backup_copy_cross_account :: "dict \<Rightarrow> string option" where
  "backup_copy_cross_account rp =
     (case dget rp ''destinationBackupVaultArn'' of PyStr arn \<Rightarrow>
        (let parts = split_on (CHR '':'') arn in
         if length parts < 5 \<or> parts ! 4 = [] then None else Some (parts ! 4))
      | _ \<Rightarrow> None)"

definition efs_mount_target_sg_added :: "pyenv \<Rightarrow> dict \<Rightarrow> string list" where
  "efs_mount_target_sg_added E rp = map (py_str E) (as_list (dget rp ''securityGroups''))"

definition rds_publicly_accessible :: "dict \<Rightarrow> bool" where
  "rds_publicly_accessible rp = (dget rp ''publiclyAccessible'' = PyBool True)"

definition rds_backups_disabled :: "dict \<Rightarrow> bool" where
  "rds_backups_disabled rp = (dget rp ''backupRetentionPeriod'' \<in> {PyInt 0, PyBool False})"

definition rds_deletion_protection_off :: "dict \<Rightarrow> bool" where
  "rds_deletion_protection_off rp = (dget rp ''deletionProtection'' = PyBool False)"

definition rds_unencrypted_at_creation :: "dict \<Rightarrow> bool" where
  "rds_unencrypted_at_creation rp = (dget rp ''storageEncrypted'' = PyBool False)"

definition rds_master_password_change :: "dict \<Rightarrow> bool" where
  "rds_master_password_change rp = has_key rp ''masterUserPassword''"

definition rds_snapshot_made_public :: "dict \<Rightarrow> bool" where
  "rds_snapshot_made_public rp =
     (py_eq (dget rp ''attributeName'') (PyStr ''restore'') \<and> py_in_list (PyStr ''all'') (as_list (dget rp ''valuesToAdd'')))"

definition rds_snapshot_cross_account_share :: "pyenv \<Rightarrow> dict \<Rightarrow> string list" where
  "rds_snapshot_cross_account_share E rp =
     (if py_eq (dget rp ''attributeName'') (PyStr ''restore'')
      then map (py_str E) (filter (\<lambda>v. truthy v \<and> \<not> py_eq v (PyStr ''all'')) (as_list (dget rp ''valuesToAdd'')))
      else [])"

definition rds_iam_auth_disabled :: "dict \<Rightarrow> bool" where
  "rds_iam_auth_disabled rp = (dget rp ''enableIAMDatabaseAuthentication'' = PyBool False)"

definition WATCHED_PARAMS :: "string list" where
  "WATCHED_PARAMS = [''rds.force_ssl'', ''log_connections'', ''log_disconnections'', ''log_statement'',
     ''log_min_duration_statement'', ''ssl'', ''require_secure_transport'']"

definition rds_param_changes_security :: "dict \<Rightarrow> pyerr + pyval list" where
  "rds_param_changes_security rp =
     collect (\<lambda>v. let name = dget (as_dict v) ''parameterName'' in
         sbind (lookup_key (map (\<lambda>k. (k, ())) WATCHED_PARAMS) name) (\<lambda>hit. Inr (if hit = None then [] else [name])))
       (filter is_dict (as_list (dget rp ''parameters'')))"

section \<open>Security groups of an instance\<close>

definition extract_sg_ids_from_modify :: "pyenv \<Rightarrow> dict \<Rightarrow> string list" where
  "extract_sg_ids_from_modify E rp =
     (let id_of = (\<lambda>v. case v of PyDict d \<Rightarrow> if truthy (dget d ''groupId'') then [py_str E (dget d ''groupId'')] else [] | _ \<Rightarrow> []);
          nested = (case dget rp ''groupSet'' of PyDict g \<Rightarrow> as_list (dget g ''items'') | _ \<Rightarrow> []);
          flat = as_list (dget rp ''groups'')
      in concat (map id_of nested)
         @ concat (map (\<lambda>v. case v of PyStr s \<Rightarrow> if prefix ''sg-'' s then [s] else [] | _ \<Rightarrow> id_of v) flat))"

section \<open>Headlines\<close>

definition ports_text :: "pyenv \<Rightarrow> dict \<Rightarrow> string" where
  "ports_text E extra =
     (let ports = as_list (dget extra ''public_ports'') in
      join '','' (map (py_str E) (take 3 ports)) @ (if 3 < length ports then [CHR 0xE2, CHR 0x80, CHR 0xA6] else []))"

definition sg_ingress_message :: "pyenv \<Rightarrow> dict \<Rightarrow> string option" where
  "sg_ingress_message E extra =
     (let cidr = py_str E (case as_list (dget extra ''public_cidrs'') of [] \<Rightarrow> PyStr ''0.0.0.0/0'' | c # cs \<Rightarrow> c);
          proto = py_str E (py_or (dget extra ''public_proto'') (PyStr ''tcp'')) in
      if truthy (dget extra ''public_ingress_all_traffic'') then Some (''ALL traffic opened to '' @ cidr)
      else if truthy (dget extra ''public_ingress_risky_port'')
      then Some (''Risky public port '' @ proto @ ''/'' @ ports_text E extra @ '' opened to '' @ cidr)
      else if truthy (dget extra ''public_ingress'')
      then Some (''Public ingress '' @ proto @ ''/'' @ ports_text E extra @ '' opened to '' @ cidr)
      else None)"

definition accounts_text :: "pyenv \<Rightarrow> dict \<Rightarrow> string \<Rightarrow> string" where
  "accounts_text E extra k = join '','' (map (py_str E) (take 3 (as_list (dget extra k))))"

text \<open>Actions whose headline does not depend on the rest of the event.\<close>

definition FIXED_HEADLINES :: "(string \<times> string) list" where
  "FIXED_HEADLINES =
     [(''iam.user.create'', ''IAM user created''), (''iam.user.delete'', ''IAM user deleted''),
      (''iam.role.create'', ''IAM role created''), (''iam.role.delete'', ''IAM role deleted''),
      (''iam.role.update_trust'', ''Role trust policy modified''),
      (''iam.access_key.create'', ''IAM access key created''), (''iam.access_key.delete'', ''IAM access key deleted''),
      (''iam.login_profile.create'', ''Console password set on IAM user''),
      (''iam.mfa.deactivate'', ''MFA device deactivated''), (''iam.mfa.delete'', ''MFA device deleted''),
      (''cloudtrail.logging.stop'', ''CloudTrail logging stopped''),
      (''cloudtrail.trail.delete'', ''CloudTrail trail deleted''),
      (''cloudtrail.trail.update'', ''CloudTrail trail modified''),
      (''kms.key.disable'', ''KMS key disabled''), (''kms.key.delete_scheduled'', ''KMS key scheduled for deletion''),
      (''kms.grant.create'', ''KMS grant created''),
      (''efs.mount_target.create'', ''EFS mount target created (new NFS ingress path)''),
      (''efs.mount_target.delete'', ''EFS mount target deleted''),
      (''backup.recovery_point.delete'', ''Backup recovery point deleted''),
      (''backup.vault.delete'', ''Backup vault deleted''),
      (''secrets.secret.delete'', ''Secret scheduled for deletion''),
      (''secrets.secret.restore'', ''Secret restored (undelete)''),
      (''s3.bucket.bpa.delete'', ''S3 Block Public Access removed''),
      (''s3.bucket.encryption.delete'', ''S3 bucket encryption removed''),
      (''s3.bucket.delete'', ''S3 bucket deleted'')]"

text \<open>Actions with a headline when a flag is set in the event.\<close>

definition FLAG_HEADLINES :: "(string \<times> string \<times> string) list" where
  "FLAG_HEADLINES =
     [(''iam.policy.put_inline'', ''wildcard_policy'', ''Wildcard (*) inline policy applied''),
      (''iam.policy.create_version'', ''wildcard_policy'', ''Wildcard (*) policy version created''),
      (''kms.policy.put'', ''kms_wildcard_policy'', ''KMS key policy granted to wildcard principal''),
      (''storage.snapshot.modify'', ''snapshot_made_public'', ''EBS snapshot shared publicly''),
      (''compute.ami.modify'', ''ami_made_public'', ''AMI made public''),
      (''compute.imds.modify'', ''imdsv1_enabled'', ''IMDSv1 re-enabled (SSRF risk)''),
      (''rds.snapshot.modify'', ''rds_snapshot_made_public'', ''RDS snapshot shared publicly''),
      (''rds.cluster_snapshot.modify'', ''rds_snapshot_made_public'', ''RDS snapshot shared publicly''),
      (''efs.filesystem.policy.put'', ''efs_policy_wildcard'', ''EFS filesystem policy granted to wildcard principal''),
      (''backup.vault.policy.put'', ''backup_vault_policy_wildcard'', ''Backup vault policy granted to wildcard principal''),
      (''s3.bucket.policy.put'', ''public_policy'', ''S3 bucket policy made public''),
      (''s3.bucket.acl.put'', ''public_acl'', ''S3 bucket ACL made public''),
      (''s3.bucket.bpa.put'', ''bpa_weakened'', ''S3 Block Public Access weakened'')]"

definition RDS_INSTANCE_ACTIONS :: "string list" where
  "RDS_INSTANCE_ACTIONS = [''rds.instance.create'', ''rds.instance.modify'', ''rds.cluster.create'', ''rds.cluster.modify'']"

definition rds_headline :: "dict \<Rightarrow> string option" where
  "rds_headline extra =
     (if truthy (dget extra ''rds_publicly_accessible'') then Some ''RDS instance set to publicly accessible''
      else if truthy (dget extra ''rds_backups_disabled'') then Some ''RDS automated backups disabled''
      else if truthy (dget extra ''rds_deletion_protection_off'') then Some ''RDS deletion protection disabled''
      else if truthy (dget extra ''rds_master_password_change'') then Some ''RDS master password rotated''
      else None)"

text \<open>The actions are distinct, so the order of the tests of the source does not matter beyond the order of
  the flags of one action, which is kept: public before shared.\<close>

definition friendly_message :: "pyenv \<Rightarrow> string \<Rightarrow> dict \<Rightarrow> pyval \<Rightarrow> string option" where
  "friendly_message E action extra target_id =
     (if action = ''network.sg.ingress.add'' then sg_ingress_message E extra
      else case map_of FIXED_HEADLINES action of Some m \<Rightarrow> Some m | None \<Rightarrow>
      if action = ''iam.policy.attach'' then
        (if truthy target_id \<and> str_contains (py_str E target_id) ''AdministratorAccess''
         then Some ''AdministratorAccess policy attached'' else None)
      else case map_of FLAG_HEADLINES action of
        Some (k, m) \<Rightarrow>
          if truthy (dget extra k) then Some m
          else if action = ''storage.snapshot.modify'' \<and> truthy (dget extra ''snapshot_cross_account_share'')
          then Some (''EBS snapshot shared with account(s): '' @ accounts_text E extra ''snapshot_cross_account_share'')
          else if action = ''compute.ami.modify'' \<and> truthy (dget extra ''ami_cross_account_share'')
          then Some (''AMI shared with account(s): '' @ accounts_text E extra ''ami_cross_account_share'')
          else if action \<in> {''rds.snapshot.modify'', ''rds.cluster_snapshot.modify''}
               \<and> truthy (dget extra ''rds_snapshot_cross_account_share'')
          then Some (''RDS snapshot shared with account(s): '' @ accounts_text E extra ''rds_snapshot_cross_account_share'')
          else None
      | None \<Rightarrow>
      if action \<in> set RDS_INSTANCE_ACTIONS then rds_headline extra
      else if action = ''efs.mount_target.sg.modify''
      then Some (''EFS mount target SGs changed to '' @ accounts_text E extra ''efs_mount_target_sgs'')
      else if action = ''backup.copy_job.start'' \<and> truthy (dget extra ''backup_copy_dest_account'')
      then Some (''Backup copy started to account '' @ py_str E (dget extra ''backup_copy_dest_account''))
      else if action = ''auth.console.login'' then
        (let kind = py_str E (dget_or extra ''login_kind'' (PyStr ''iam'')) in
         Some ((if truthy (dget extra ''error_code'') then ''Console login FAILED ('' else ''Console login succeeded ('')
               @ kind @ '')''))
      else if action = ''auth.federated.login'' then
        Some (if truthy (dget extra ''error_code'') then ''Federated SSO login FAILED'' else ''Federated SSO login'')
      else None)"

section \<open>What redaction removes\<close>

text \<open>No field named like a secret holds anything but the marker, at any depth.\<close>

fun secret_free :: "pyval \<Rightarrow> bool"
  and secret_free_fields :: "(string \<times> pyval) list \<Rightarrow> bool"
  and secret_free_items :: "pyval list \<Rightarrow> bool" where
  "secret_free (PyDict d) = secret_free_fields d"
| "secret_free (PyList xs) = secret_free_items xs"
| "secret_free v = True"
| "secret_free_fields [] = True"
| "secret_free_fields ((k, v) # d) =
     ((if secret_key k then v = PyStr ''[REDACTED]'' else secret_free v) \<and> secret_free_fields d)"
| "secret_free_items [] = True"
| "secret_free_items (x # xs) = (secret_free x \<and> secret_free_items xs)"

lemma redact_secret_free:
  "secret_free (redact_secret_payload v)" "secret_free_fields (redact_fields d)" "secret_free_items (redact_items xs)"
  by (induction v and d and xs rule: redact_secret_payload_redact_fields_redact_items.induct) simp_all

text \<open>What is not secret stays: a payload without secrets is unchanged.\<close>

lemma redact_unchanged:
  "secret_free v \<Longrightarrow> redact_secret_payload v = v" "secret_free_fields d \<Longrightarrow> redact_fields d = d"
  "secret_free_items xs \<Longrightarrow> redact_items xs = xs"
  by (induction v and d and xs rule: redact_secret_payload_redact_fields_redact_items.induct) (auto split: if_splits)

lemma redact_idem: "redact_secret_payload (redact_secret_payload v) = redact_secret_payload v"
  by (rule redact_unchanged(1)[OF redact_secret_free(1)])

lemma redact_keys: "map fst (redact_fields d) = map fst d"
  by (induction d) auto

section \<open>Risky ports\<close>

definition room :: "int list \<Rightarrow> nat" where "room acc = max 1 (50 - length acc)"

lemma port_loop_take:
  "port_loop ps acc risky =
     (acc @ take (room acc) ps, risky \<or> list_ex (\<lambda>p. p \<in> set RISKY_PORTS) (take (room acc) ps))"
proof (induction ps arbitrary: acc risky)
  case Nil
  show ?case by simp
next
  case (Cons p ps)
  show ?case
  proof (cases "50 \<le> Suc (length acc)")
    case True
    then have "room acc = Suc 0" by (simp add: room_def)
    then show ?thesis using True by (simp add: Let_def)
  next
    case False
    then have n: "room acc = Suc (room (acc @ [p]))" by (simp add: room_def)
    have "port_loop (p # ps) acc risky = port_loop ps (acc @ [p]) (risky \<or> p \<in> set RISKY_PORTS)"
      using False by (simp add: Let_def)
    then show ?thesis unfolding n Cons.IH by simp
  qed
qed

lemma take_upto: "take n [f..t] = [f..min t (f + int n - 1)]"
proof (induction n arbitrary: f)
  case (Suc n)
  show ?case
  proof (cases "f \<le> t")
    case True
    then have "take (Suc n) [f..t] = f # [f + 1..min t (f + 1 + int n - 1)]"
      using Suc[of "f + 1"] by (simp add: upto_rec1)
    also have "\<dots> = [f..min t (f + int (Suc n) - 1)]" using True by (simp add: upto_rec1[of f "min t (f + int n)"])
    finally show ?thesis .
  qed simp
qed simp

text \<open>What a rule says, read off the request: is it open to the world, to every port, to which range.\<close>

definition range_open :: "dict \<Rightarrow> string \<Rightarrow> string \<Rightarrow> bool" where
  "range_open perm ranges key =
     (case dget perm ranges of
        PyDict r \<Rightarrow> (case dget r ''items'' of PyList xs \<Rightarrow> list_ex (\<lambda>v. case v of PyDict d \<Rightarrow> is_world (dget d key) | _ \<Rightarrow> False) xs
          | _ \<Rightarrow> False)
      | _ \<Rightarrow> is_world (dget perm key))"

definition open_to_world :: "dict \<Rightarrow> bool" where
  "open_to_world perm = (range_open perm ''ipRanges'' ''cidrIp'' \<or> range_open perm ''ipv6Ranges'' ''cidrIpv6'')"

definition any_protocol :: "dict \<Rightarrow> bool" where
  "any_protocol perm = (let v = dget perm ''ipProtocol'' in
     v = PyNone \<or> py_eq v (PyInt (-1)) \<or> py_eq v (PyStr ''-1'') \<or> py_eq v (PyStr ''all''))"

definition port_range :: "dict \<Rightarrow> (int \<times> int) option" where
  "port_range perm = (let f = dget perm ''fromPort''; t = (if dget perm ''toPort'' = PyNone then f else dget perm ''toPort'') in
     case (py_int f, py_int t) of (Some i, Some j) \<Rightarrow> Some (i, j) | _ \<Rightarrow> None)"

definition all_ports :: "dict \<Rightarrow> bool" where
  "all_ports perm = (any_protocol perm \<or> (case port_range perm of Some (f, t) \<Rightarrow> f = 0 \<and> 1024 \<le> t | None \<Rightarrow> False))"

definition open_ranges :: "dict list \<Rightarrow> (int \<times> int) list" where
  "open_ranges perms =
     concat (map (\<lambda>p. if open_to_world p \<and> \<not> all_ports p then (case port_range p of Some r \<Rightarrow> [r] | None \<Rightarrow> []) else []) perms)"

text \<open>The fifty places are shared by the ranges of a request: each takes what the earlier ones left, at least one.\<close>

fun used_up :: "(int \<times> int) list \<Rightarrow> nat \<Rightarrow> nat" where
  "used_up [] n = n"
| "used_up ((f, t) # rs) n = used_up rs (n + min (nat (t - f + 1)) (max 1 (50 - n)))"

fun scan_ranges :: "(int \<times> int) list \<Rightarrow> int list \<Rightarrow> int list" where
  "scan_ranges [] acc = acc"
| "scan_ranges ((f, t) # rs) acc = scan_ranges rs (acc @ [f..min t (f + int (room acc) - 1)])"

definition readable_rule :: "dict \<Rightarrow> bool" where
  "readable_rule perm = list_all (\<lambda>ranges. case dget perm ranges of
     PyDict r \<Rightarrow> (case iter_or_empty (dget r ''items'') of Inl e \<Rightarrow> False | Inr xs \<Rightarrow> True) | _ \<Rightarrow> True) [''ipRanges'', ''ipv6Ranges'']"

text \<open>The rules of a request: the items under \<open>ipPermissions\<close>, or the request itself where it has the flat shape.\<close>

definition request_rules :: "dict \<Rightarrow> dict list \<Rightarrow> bool" where
  "request_rules rp perms =
     (case dget rp ''ipPermissions'' of
        PyDict ip \<Rightarrow> perms \<noteq> [] \<and> dget ip ''items'' = PyList (map PyDict perms)
      | _ \<Rightarrow> perms = [rp] \<and> (dget rp ''cidrIp'' \<noteq> PyNone \<or> dget rp ''fromPort'' \<noteq> PyNone \<or> dget rp ''ipProtocol'' \<noteq> PyNone))"

lemma request_rules_perms:
  assumes "request_rules rp perms"
  shows "ingress_perms rp = perms"
proof (cases "dget rp ''ipPermissions''")
  case (PyDict ip)
  have "map as_dict (filter is_dict (map PyDict perms)) = perms" by (induction perms) simp_all
  with PyDict assms show ?thesis by (simp add: request_rules_def ingress_perms_def py_or_def)
qed (use assms in \<open>auto simp: request_rules_def ingress_perms_def\<close>)

lemma case_dict_iff: "(case v of PyDict d \<Rightarrow> P d | _ \<Rightarrow> False) \<longleftrightarrow> (\<exists>d. v = PyDict d \<and> P d)"
  by (cases v) simp_all

lemma is_world_truthy: "is_world v \<Longrightarrow> truthy v"
  by (cases v) (auto simp: is_world_def)

lemma cidrs_in_readable:
  "(\<exists>v. cidrs_in perm ranges key = Inr v) \<longleftrightarrow>
   (case dget perm ranges of PyDict r \<Rightarrow> (case iter_or_empty (dget r ''items'') of Inl e \<Rightarrow> False | Inr xs \<Rightarrow> True) | _ \<Rightarrow> True)"
  by (auto simp: cidrs_in_def sbind_Inr_iff split: pyval.splits sum.splits)

lemma iter_or_empty_list: "iter_or_empty v = Inr xs \<Longrightarrow> d \<in> set xs \<Longrightarrow> is_dict d \<Longrightarrow> v = PyList xs"
  by (cases v) (auto simp: iter_or_empty_def split: if_splits)

lemma cidrs_in_open:
  assumes "cidrs_in perm ranges key = Inr v"
  shows "list_ex is_world v \<longleftrightarrow> range_open perm ranges key"
proof (cases "dget perm ranges")
  case (PyDict r)
  with assms obtain xs where xs: "iter_or_empty (dget r ''items'') = Inr xs"
    and v: "v = filter truthy (map (\<lambda>v. dget (as_dict v) key) (filter is_dict xs))"
    by (auto simp: cidrs_in_def sbind_Inr_iff)
  have "list_ex is_world v \<longleftrightarrow> (\<exists>d. PyDict d \<in> set xs \<and> is_world (dget d key))"
    by (auto simp: v list_ex_iff is_world_truthy elim!: is_dict.elims(2))
  also have "\<dots> \<longleftrightarrow> range_open perm ranges key"
  proof (cases "\<exists>ys. dget r ''items'' = PyList ys")
    case True
    then show ?thesis using xs PyDict
      by (auto simp: range_open_def list_ex_iff iter_or_empty_def case_dict_iff split: if_splits)
  next
    case False
    then show ?thesis using iter_or_empty_list[OF xs] PyDict
      by (force simp: range_open_def split: pyval.splits)
  qed
  finally show ?thesis .
qed (use assms in \<open>auto simp: cidrs_in_def range_open_def is_world_truthy split: if_splits\<close>)

definition opened :: "dict \<Rightarrow> ingress \<Rightarrow> ingress \<Rightarrow> bool" where
  "opened perm g g' \<longleftrightarrow> ig_public g' = (ig_public g \<or> open_to_world perm) \<and>
     ig_all g' = (ig_all g \<or> open_to_world perm \<and> all_ports perm) \<and>
     ig_ports g' = scan_ranges (open_ranges [perm]) (ig_ports g) \<and>
     ig_risky g' = (ig_risky g \<or> (\<exists>p \<in> set RISKY_PORTS. p \<in> set (drop (length (ig_ports g)) (ig_ports g'))))"

lemma ingress_ports_range:
  assumes "\<not> any_protocol perm" "open_to_world perm" "ig_public g"
  shows "opened perm (g\<lparr>ig_public := b\<rparr>) (ingress_ports perm g)"
proof (cases "port_range perm")
  case None
  then have "ingress_ports perm g = g"
    by (auto simp: port_range_def ingress_ports_def Let_def split: option.splits if_splits)
  then show ?thesis using assms None by (simp add: opened_def all_ports_def open_ranges_def)
next
  case (Some r)
  obtain f t where r: "r = (f, t)" by fastforce
  have n: "dget perm ''fromPort'' \<noteq> PyNone" using Some by (auto simp: port_range_def Let_def)
  have "ingress_ports perm g = (if f = 0 \<and> 1024 \<le> t then g\<lparr>ig_all := True\<rparr>
      else let (ports, risky) = port_loop [f..t] (ig_ports g) (ig_risky g) in g\<lparr>ig_ports := ports, ig_risky := risky\<rparr>)"
    using Some n by (auto simp: port_range_def ingress_ports_def r Let_def split: option.splits if_splits)
  then show ?thesis using assms Some
    by (auto simp: opened_def all_ports_def open_ranges_def r port_loop_take take_upto list_ex_iff)
qed

lemma ingress_step_opened:
  assumes "ingress_step E perm g = Inr g'"
  shows "opened perm g g'"
proof -
  from assms obtain v4 v6 where c: "cidrs_in perm ''ipRanges'' ''cidrIp'' = Inr v4" "cidrs_in perm ''ipv6Ranges'' ''cidrIpv6'' = Inr v6"
    by (auto simp: ingress_step_def sbind_Inr_iff)
  have w: "list_ex is_world (v4 @ v6) \<longleftrightarrow> open_to_world perm"
    using cidrs_in_open[OF c(1)] cidrs_in_open[OF c(2)] by (simp add: open_to_world_def)
  show ?thesis
  proof (cases "open_to_world perm")
    case False
    then have "g' = g" using assms w by (simp add: ingress_step_def c Let_def)
    then show ?thesis using False by (simp add: opened_def open_ranges_def)
  next
    case True
    define g1 where "g1 = g\<lparr>ig_public := True,
        ig_cidrs := fold (\<lambda>c acc. if is_world c \<and> \<not> py_in_list c acc then acc @ [c] else acc) (v4 @ v6) (ig_cidrs g),
        ig_proto := (if ig_proto g = None \<and> dget perm ''ipProtocol'' \<noteq> PyNone \<and> \<not> is_minus_one (dget perm ''ipProtocol'')
          then Some (py_str E (dget perm ''ipProtocol'')) else ig_proto g)\<rparr>"
    have g1: "ig_public g1" "ig_all g1 = ig_all g" "ig_ports g1 = ig_ports g" "ig_risky g1 = ig_risky g"
      by (simp_all add: g1_def)
    have any: "any_protocol perm \<longleftrightarrow> is_minus_one (dget perm ''ipProtocol'') \<or>
        py_eq (dget perm ''ipProtocol'') (PyStr ''all'') \<or> dget perm ''ipProtocol'' = PyNone"
      by (auto simp: any_protocol_def is_minus_one_def Let_def)
    have "ingress_step E perm g = Inr (if any_protocol perm then g1\<lparr>ig_all := True\<rparr> else ingress_ports perm g1)"
      using w True unfolding ingress_step_def c Let_def any sbind_simps g1_def[symmetric] by (cases "any_protocol perm") (auto simp: any)
    then have g': "g' = (if any_protocol perm then g1\<lparr>ig_all := True\<rparr> else ingress_ports perm g1)"
      using assms by simp
    have "opened perm (g1\<lparr>ig_public := ig_public g\<rparr>) g'"
      using ingress_ports_range[of perm g1 "ig_public g"] True g1(1) g'
      by (auto simp: opened_def all_ports_def open_ranges_def)
    then show ?thesis using g1 by (simp add: opened_def)
  qed
qed

lemma ingress_step_readable: "(\<exists>g'. ingress_step E perm g = Inr g') \<longleftrightarrow> readable_rule perm"
proof -
  have "(\<exists>g'. ingress_step E perm g = Inr g') \<longleftrightarrow>
      (\<exists>v. cidrs_in perm ''ipRanges'' ''cidrIp'' = Inr v) \<and> (\<exists>v. cidrs_in perm ''ipv6Ranges'' ''cidrIpv6'' = Inr v)"
    by (cases "cidrs_in perm ''ipRanges'' ''cidrIp''"; cases "cidrs_in perm ''ipv6Ranges'' ''cidrIpv6''")
      (simp_all add: ingress_step_def Let_def)
  then show ?thesis by (simp only: cidrs_in_readable readable_rule_def list.pred_inject simp_thms)
qed

text \<open>The ranges of a request, one after the other, and the ports they list.\<close>

lemma open_ranges_Cons: "open_ranges (p # ps) = open_ranges [p] @ open_ranges ps"
  by (simp add: open_ranges_def)

lemma scan_ranges_append: "scan_ranges (rs @ rs') acc = scan_ranges rs' (scan_ranges rs acc)"
  by (induction rs arbitrary: acc) auto

lemma scan_ranges_grows: "\<exists>ys. scan_ranges rs acc = acc @ ys"
proof (induction rs arbitrary: acc)
  case (Cons r rs)
  then show ?case by (cases r) (metis append_assoc scan_ranges.simps(2))
qed simp

lemma used_up_length: "length (scan_ranges rs acc) = used_up rs (length acc)"
proof (induction rs acc rule: scan_ranges.induct)
  case (2 f t rs acc)
  have "length [f..min t (f + int (room acc) - 1)] = min (nat (t - f + 1)) (max 1 (50 - length acc))"
    by (simp add: room_def)
  then show ?case using 2 by simp
qed simp

lemma ingress_fold_opened:
  "ingress_fold E perms g = Inr g' \<Longrightarrow>
     ig_public g' = (ig_public g \<or> list_ex open_to_world perms) \<and>
     ig_all g' = (ig_all g \<or> list_ex (\<lambda>p. open_to_world p \<and> all_ports p) perms) \<and>
     ig_ports g' = scan_ranges (open_ranges perms) (ig_ports g) \<and>
     ig_risky g' = (ig_risky g \<or> (\<exists>p \<in> set RISKY_PORTS. p \<in> set (drop (length (ig_ports g)) (ig_ports g'))))"
proof (induction perms arbitrary: g)
  case Nil
  then show ?case by (simp add: open_ranges_def)
next
  case (Cons p ps)
  then obtain h where h: "ingress_step E p g = Inr h" and r: "ingress_fold E ps h = Inr g'"
    by (auto simp: sbind_Inr_iff)
  note o = ingress_step_opened[OF h, unfolded opened_def]
  obtain ys zs where ys: "ig_ports h = ig_ports g @ ys" and zs: "ig_ports g' = ig_ports h @ zs"
    using scan_ranges_grows o Cons.IH[OF r] by metis
  then have "set (drop (length (ig_ports g)) (ig_ports g')) =
      set (drop (length (ig_ports g)) (ig_ports h)) \<union> set (drop (length (ig_ports h)) (ig_ports g'))" by simp
  then have "(\<exists>q \<in> set RISKY_PORTS. q \<in> set (drop (length (ig_ports g)) (ig_ports g'))) \<longleftrightarrow>
      (\<exists>q \<in> set RISKY_PORTS. q \<in> set (drop (length (ig_ports g)) (ig_ports h))) \<or>
      (\<exists>q \<in> set RISKY_PORTS. q \<in> set (drop (length (ig_ports h)) (ig_ports g')))" by blast
  moreover have "ig_ports g' = scan_ranges (open_ranges (p # ps)) (ig_ports g)"
    using o Cons.IH[OF r] by (simp only: open_ranges_Cons[of p ps] scan_ranges_append)
  ultimately show ?case using o Cons.IH[OF r] by (intro conjI) simp_all
qed

lemma ingress_fold_readable: "(\<exists>g'. ingress_fold E perms g = Inr g') \<longleftrightarrow> list_all readable_rule perms"
proof (induction perms arbitrary: g)
  case (Cons p ps)
  then show ?case using ingress_step_readable[of E p g]
    by (cases "ingress_step E p g") (auto simp: sbind_Inr_iff)
qed simp

lemma in_scan_ranges:
  "q \<in> set (scan_ranges rs acc) \<longleftrightarrow> q \<in> set acc \<or>
     (\<exists>pre f t post. rs = pre @ (f, t) # post \<and> f \<le> q \<and> q \<le> t \<and> q < f + int (max 1 (50 - used_up pre (length acc))))"
proof (induction rs acc rule: scan_ranges.induct)
  case (2 f t rs acc)
  let ?new = "[f..min t (f + int (room acc) - 1)]"
  let ?P = "\<lambda>n pre f t. f \<le> q \<and> q \<le> t \<and> q < f + int (max 1 (50 - used_up pre n))"
  have n: "length (acc @ ?new) = length acc + min (nat (t - f + 1)) (max 1 (50 - length acc))"
    by (simp add: room_def)
  have u: "used_up pre (length (acc @ ?new)) = used_up ((f, t) # pre) (length acc)" for pre
    by (simp only: used_up.simps n)
  have new: "?P (length acc) [] f t \<longleftrightarrow> q \<in> set ?new" by (auto simp: room_def)
  have "(\<exists>pre f' t' post. (f, t) # rs = pre @ (f', t') # post \<and> ?P (length acc) pre f' t') \<longleftrightarrow>
      ?P (length acc) [] f t \<or> (\<exists>pre f' t' post. rs = pre @ (f', t') # post \<and> ?P (length (acc @ ?new)) pre f' t')"
    unfolding u Cons_eq_append_conv by blast
  then show ?case unfolding new by (simp only: scan_ranges.simps 2 set_append Un_iff disj_assoc)
qed simp

lemma ingress_extra_flags:
  "truthy (dget (ingress_extra g) ''public_ingress'') = ig_public g"
  "truthy (dget (ingress_extra g) ''public_ingress_risky_port'') = ig_risky g"
  "truthy (dget (ingress_extra g) ''public_ingress_all_traffic'') = ig_all g"
  by (auto simp: ingress_extra_def flag_def dget_def map_of_append map_add_def split: option.splits if_splits)

text \<open>C24: A request to open a security group, in the nested shape with any number of rules or in the flat shape of one.
  It is read unless some rule's list of ranges cannot be iterated, and then: \<open>public_ingress\<close> is set exactly if a rule
  names 0.0.0.0/0 or ::/0; \<open>public_ingress_all_traffic\<close> exactly if such a rule is for every protocol or for the
  ports from 0 to 1024 or beyond; and \<open>public_ingress_risky_port\<close> exactly if a listed port lies in the range of another
  rule open to the world, among its first so many ports. That number is what the earlier such ranges of the request left
  of fifty, and at least one: a risky port further on goes unnoticed.
\<close>
theorem risky_port_flag_iff:
  assumes "request_rules rp perms"
  shows "(\<exists>x. sg_ingress_signals E rp = Inr x) = list_all readable_rule perms \<and>
    (\<forall>x. sg_ingress_signals E rp = Inr x \<longrightarrow>
      truthy (dget x ''public_ingress'') = list_ex open_to_world perms \<and>
      truthy (dget x ''public_ingress_all_traffic'') = list_ex (\<lambda>p. open_to_world p \<and> all_ports p) perms \<and>
      (truthy (dget x ''public_ingress_risky_port'') \<longleftrightarrow>
        (\<exists>q \<in> set RISKY_PORTS. \<exists>pre f t post. open_ranges perms = pre @ (f, t) # post \<and>
          f \<le> q \<and> q \<le> t \<and> q < f + int (max 1 (50 - used_up pre 0)))))"
proof (intro conjI allI impI)
  note p = request_rules_perms[OF assms]
  show "(\<exists>x. sg_ingress_signals E rp = Inr x) = list_all readable_rule perms"
    using ingress_fold_readable[of E perms no_ingress] by (auto simp: sg_ingress_signals_def p sbind_Inr_iff)
  fix x assume "sg_ingress_signals E rp = Inr x"
  then obtain g where g: "ingress_fold E perms no_ingress = Inr g" and x: "x = ingress_extra g"
    by (auto simp: sg_ingress_signals_def p sbind_Inr_iff)
  note o = ingress_fold_opened[OF g]
  show "truthy (dget x ''public_ingress'') = list_ex open_to_world perms"
    "truthy (dget x ''public_ingress_all_traffic'') = list_ex (\<lambda>p. open_to_world p \<and> all_ports p) perms"
    using o by (simp_all add: x ingress_extra_flags no_ingress_def)
  have "ig_risky g \<longleftrightarrow> (\<exists>q \<in> set RISKY_PORTS. q \<in> set (scan_ranges (open_ranges perms) []))"
    using o by (simp add: no_ingress_def)
  then show "truthy (dget x ''public_ingress_risky_port'') \<longleftrightarrow>
      (\<exists>q \<in> set RISKY_PORTS. \<exists>pre f t post. open_ranges perms = pre @ (f, t) # post \<and>
        f \<le> q \<and> q \<le> t \<and> q < f + int (max 1 (50 - used_up pre 0)))"
    by (simp only: x ingress_extra_flags in_scan_ranges list.size(3) list.set(1) empty_iff simp_thms)
qed

text \<open>Two rules share the fifty places: after forty ports of the first, 5432 is out of reach in the second.\<close>

definition demo_rule :: "int \<Rightarrow> int \<Rightarrow> dict" where
  "demo_rule f t = [(''ipProtocol'', PyStr ''tcp''), (''fromPort'', PyInt f), (''toPort'', PyInt t),
     (''ipRanges'', PyDict [(''items'', PyList [PyDict [(''cidrIp'', PyStr ''0.0.0.0/0'')]])])]"

definition demo_sg_request :: dict where
  "demo_sg_request = [(''ipPermissions'', PyDict [(''items'', PyList [PyDict (demo_rule 8000 8039), PyDict (demo_rule 5400 5500)])])]"

lemma demo_ranges: "open_ranges [demo_rule 8000 8039, demo_rule 5400 5500] = [(8000, 8039), (5400, 5500)]"
  by (simp add: open_ranges_def demo_rule_def open_to_world_def range_open_def is_world_def all_ports_def any_protocol_def
      port_range_def)

lemma risky_port_flag_iff_witness:
  "\<exists>x. sg_ingress_signals demo_env demo_sg_request = Inr x \<and> truthy (dget x ''public_ingress'') \<and>
     \<not> truthy (dget x ''public_ingress_all_traffic'') \<and> \<not> truthy (dget x ''public_ingress_risky_port'')"
proof -
  let ?perms = "[demo_rule 8000 8039, demo_rule 5400 5500]"
  have "request_rules demo_sg_request ?perms" by (simp add: request_rules_def demo_sg_request_def)
  note t = risky_port_flag_iff[OF this, of demo_env]
  have "list_all readable_rule ?perms" by (simp add: readable_rule_def demo_rule_def iter_or_empty_def)
  moreover have "list_ex open_to_world ?perms" "\<not> list_ex (\<lambda>p. open_to_world p \<and> all_ports p) ?perms"
    by (simp_all add: demo_rule_def open_to_world_def range_open_def is_world_def all_ports_def any_protocol_def port_range_def)
  moreover have "\<not> (\<exists>q \<in> set RISKY_PORTS. \<exists>pre f t post. open_ranges ?perms = pre @ (f, t) # post \<and>
      f \<le> q \<and> q \<le> t \<and> q < f + int (max 1 (50 - used_up pre 0)))"
    by (auto simp: demo_ranges Cons_eq_append_conv RISKY_PORTS_def)
  ultimately show ?thesis using t by blast
qed

end
