(* ===== verification/CloudTrail.thy ===== *)
theory CloudTrail
  imports CloudTrailSignals Regex
begin

text \<open>
  The CloudTrail adapter (\<open>src/blackwatch/modules/aws_cloudtrail.py\<close>): one call record, or the EventBridge
  envelope around it, as one event. The table of known calls is that of the source; any other call is
  named after its service. \<open>extra\<close> is built up as the source does it; entries that end as \<open>None\<close> are dropped.
\<close>

section \<open>Known calls\<close>

definition ACTION_MAP :: "(string \<times> string \<times> category) list" where
  "ACTION_MAP =
    [(''CreateUser'', ''iam.user.create'', C_iam), (''DeleteUser'', ''iam.user.delete'', C_iam),
     (''UpdateUser'', ''iam.user.update'', C_iam), (''CreateRole'', ''iam.role.create'', C_iam),
     (''DeleteRole'', ''iam.role.delete'', C_iam), (''CreateGroup'', ''iam.group.create'', C_iam),
     (''DeleteGroup'', ''iam.group.delete'', C_iam), (''AddUserToGroup'', ''iam.group.add_user'', C_iam),
     (''RemoveUserFromGroup'', ''iam.group.remove_user'', C_iam),
     (''CreateLoginProfile'', ''iam.login_profile.create'', C_iam),
     (''UpdateLoginProfile'', ''iam.login_profile.update'', C_iam),
     (''DeleteLoginProfile'', ''iam.login_profile.delete'', C_iam),
     (''CreateAccessKey'', ''iam.access_key.create'', C_iam),
     (''UpdateAccessKey'', ''iam.access_key.update'', C_iam),
     (''DeleteAccessKey'', ''iam.access_key.delete'', C_iam), (''EnableMFADevice'', ''iam.mfa.enable'', C_iam),
     (''DeactivateMFADevice'', ''iam.mfa.deactivate'', C_iam),
     (''DeleteVirtualMFADevice'', ''iam.mfa.delete'', C_iam),
     (''AttachUserPolicy'', ''iam.policy.attach'', C_iam), (''AttachRolePolicy'', ''iam.policy.attach'', C_iam),
     (''AttachGroupPolicy'', ''iam.policy.attach'', C_iam),
     (''DetachUserPolicy'', ''iam.policy.detach'', C_iam), (''DetachRolePolicy'', ''iam.policy.detach'', C_iam),
     (''DetachGroupPolicy'', ''iam.policy.detach'', C_iam),
     (''PutUserPolicy'', ''iam.policy.put_inline'', C_iam),
     (''PutRolePolicy'', ''iam.policy.put_inline'', C_iam),
     (''PutGroupPolicy'', ''iam.policy.put_inline'', C_iam),
     (''DeleteUserPolicy'', ''iam.policy.delete_inline'', C_iam),
     (''DeleteRolePolicy'', ''iam.policy.delete_inline'', C_iam),
     (''DeleteGroupPolicy'', ''iam.policy.delete_inline'', C_iam),
     (''CreatePolicy'', ''iam.policy.create'', C_iam), (''DeletePolicy'', ''iam.policy.delete'', C_iam),
     (''CreatePolicyVersion'', ''iam.policy.create_version'', C_iam),
     (''DeletePolicyVersion'', ''iam.policy.delete_version'', C_iam),
     (''UpdateAssumeRolePolicy'', ''iam.role.update_trust'', C_iam),
     (''PutRolePermissionsBoundary'', ''iam.role.boundary.put'', C_iam),
     (''DeleteRolePermissionsBoundary'', ''iam.role.boundary.delete'', C_iam),
     (''PutUserPermissionsBoundary'', ''iam.user.boundary.put'', C_iam),
     (''DeleteUserPermissionsBoundary'', ''iam.user.boundary.delete'', C_iam),
     (''ConsoleLogin'', ''auth.console.login'', C_auth),
     (''AssumeRoleWithSAML'', ''auth.federated.login'', C_auth),
     (''AssumeRoleWithWebIdentity'', ''auth.federated.login'', C_auth),
     (''StopLogging'', ''cloudtrail.logging.stop'', C_audit),
     (''StartLogging'', ''cloudtrail.logging.start'', C_audit),
     (''DeleteTrail'', ''cloudtrail.trail.delete'', C_audit),
     (''UpdateTrail'', ''cloudtrail.trail.update'', C_audit),
     (''CreateTrail'', ''cloudtrail.trail.create'', C_audit),
     (''CreateBucket'', ''s3.bucket.create'', C_storage), (''DeleteBucket'', ''s3.bucket.delete'', C_storage),
     (''PutBucketAcl'', ''s3.bucket.acl.put'', C_storage),
     (''PutBucketPolicy'', ''s3.bucket.policy.put'', C_storage),
     (''DeleteBucketPolicy'', ''s3.bucket.policy.delete'', C_storage),
     (''PutPublicAccessBlock'', ''s3.bucket.bpa.put'', C_storage),
     (''DeletePublicAccessBlock'', ''s3.bucket.bpa.delete'', C_storage),
     (''PutBucketEncryption'', ''s3.bucket.encryption.put'', C_storage),
     (''DeleteBucketEncryption'', ''s3.bucket.encryption.delete'', C_storage),
     (''PutBucketVersioning'', ''s3.bucket.versioning.put'', C_storage),
     (''PutBucketLogging'', ''s3.bucket.logging.put'', C_storage),
     (''PutBucketLifecycleConfiguration'', ''s3.bucket.lifecycle.put'', C_storage),
     (''PutBucketReplication'', ''s3.bucket.replication.put'', C_storage),
     (''DeleteBucketReplication'', ''s3.bucket.replication.delete'', C_storage),
     (''PutObjectLockConfiguration'', ''s3.bucket.object_lock.put'', C_storage),
     (''AuthorizeSecurityGroupIngress'', ''network.sg.ingress.add'', C_network),
     (''AuthorizeSecurityGroupEgress'', ''network.sg.egress.add'', C_network),
     (''RevokeSecurityGroupIngress'', ''network.sg.ingress.remove'', C_network),
     (''RevokeSecurityGroupEgress'', ''network.sg.egress.remove'', C_network),
     (''CreateSecurityGroup'', ''network.sg.create'', C_network),
     (''DeleteSecurityGroup'', ''network.sg.delete'', C_network),
     (''ModifyInstanceMetadataOptions'', ''compute.imds.modify'', C_compute),
     (''ModifyImageAttribute'', ''compute.ami.modify'', C_compute),
     (''ModifyInstanceAttribute'', ''compute.instance.modify'', C_compute),
     (''ModifySnapshotAttribute'', ''storage.snapshot.modify'', C_storage),
     (''ModifyVolume'', ''storage.volume.modify'', C_storage),
     (''CreateVolume'', ''storage.volume.create'', C_storage),
     (''DeleteSnapshot'', ''storage.snapshot.delete'', C_storage), (''CreateKey'', ''kms.key.create'', C_iam),
     (''EnableKey'', ''kms.key.enable'', C_iam), (''DisableKey'', ''kms.key.disable'', C_iam),
     (''DisableKeyRotation'', ''kms.rotation.disable'', C_iam),
     (''EnableKeyRotation'', ''kms.rotation.enable'', C_iam), (''PutKeyPolicy'', ''kms.policy.put'', C_iam),
     (''ScheduleKeyDeletion'', ''kms.key.delete_scheduled'', C_iam),
     (''CancelKeyDeletion'', ''kms.key.delete_cancelled'', C_iam),
     (''CreateGrant'', ''kms.grant.create'', C_iam), (''RetireGrant'', ''kms.grant.retire'', C_iam),
     (''RevokeGrant'', ''kms.grant.revoke'', C_iam), (''CreateVpc'', ''network.vpc.create'', C_network),
     (''DeleteVpc'', ''network.vpc.delete'', C_network),
     (''ModifyVpcAttribute'', ''network.vpc.modify'', C_network),
     (''CreateSubnet'', ''network.subnet.create'', C_network),
     (''DeleteSubnet'', ''network.subnet.delete'', C_network),
     (''CreateInternetGateway'', ''network.igw.create'', C_network),
     (''DeleteInternetGateway'', ''network.igw.delete'', C_network),
     (''AttachInternetGateway'', ''network.igw.attach'', C_network),
     (''DetachInternetGateway'', ''network.igw.detach'', C_network),
     (''CreateNatGateway'', ''network.nat.create'', C_network),
     (''DeleteNatGateway'', ''network.nat.delete'', C_network),
     (''CreateRouteTable'', ''network.route_table.create'', C_network),
     (''DeleteRouteTable'', ''network.route_table.delete'', C_network),
     (''AssociateRouteTable'', ''network.route_table.associate'', C_network),
     (''CreateRoute'', ''network.route.create'', C_network),
     (''DeleteRoute'', ''network.route.delete'', C_network),
     (''ReplaceRoute'', ''network.route.replace'', C_network),
     (''CreateNetworkAclEntry'', ''network.nacl.entry.create'', C_network),
     (''ReplaceNetworkAclEntry'', ''network.nacl.entry.replace'', C_network),
     (''DeleteNetworkAclEntry'', ''network.nacl.entry.delete'', C_network),
     (''CreateVpcPeeringConnection'', ''network.peering.create'', C_network),
     (''AcceptVpcPeeringConnection'', ''network.peering.accept'', C_network),
     (''DeleteVpcPeeringConnection'', ''network.peering.delete'', C_network),
     (''CreateTransitGatewayPeeringAttachment'', ''network.tgw_peering.create'', C_network),
     (''AcceptTransitGatewayPeeringAttachment'', ''network.tgw_peering.accept'', C_network),
     (''CreateDBInstance'', ''rds.instance.create'', C_storage),
     (''DeleteDBInstance'', ''rds.instance.delete'', C_storage),
     (''ModifyDBInstance'', ''rds.instance.modify'', C_storage),
     (''RebootDBInstance'', ''rds.instance.reboot'', C_storage),
     (''StartDBInstance'', ''rds.instance.start'', C_storage),
     (''StopDBInstance'', ''rds.instance.stop'', C_storage),
     (''RestoreDBInstanceFromDBSnapshot'', ''rds.instance.restore'', C_storage),
     (''RestoreDBInstanceToPointInTime'', ''rds.instance.restore_pit'', C_storage),
     (''CreateDBSnapshot'', ''rds.snapshot.create'', C_storage),
     (''DeleteDBSnapshot'', ''rds.snapshot.delete'', C_storage),
     (''ModifyDBSnapshotAttribute'', ''rds.snapshot.modify'', C_storage),
     (''CopyDBSnapshot'', ''rds.snapshot.copy'', C_storage),
     (''CreateDBParameterGroup'', ''rds.parameter_group.create'', C_storage),
     (''DeleteDBParameterGroup'', ''rds.parameter_group.delete'', C_storage),
     (''ModifyDBParameterGroup'', ''rds.parameter_group.modify'', C_storage),
     (''ResetDBParameterGroup'', ''rds.parameter_group.reset'', C_storage),
     (''ModifyDBSubnetGroup'', ''rds.subnet_group.modify'', C_storage),
     (''CreateDBCluster'', ''rds.cluster.create'', C_storage),
     (''DeleteDBCluster'', ''rds.cluster.delete'', C_storage),
     (''ModifyDBCluster'', ''rds.cluster.modify'', C_storage),
     (''ModifyDBClusterSnapshotAttribute'', ''rds.cluster_snapshot.modify'', C_storage),
     (''CreateFileSystem'', ''efs.filesystem.create'', C_storage),
     (''DeleteFileSystem'', ''efs.filesystem.delete'', C_storage),
     (''PutFileSystemPolicy'', ''efs.filesystem.policy.put'', C_storage),
     (''DeleteFileSystemPolicy'', ''efs.filesystem.policy.delete'', C_storage),
     (''CreateMountTarget'', ''efs.mount_target.create'', C_storage),
     (''DeleteMountTarget'', ''efs.mount_target.delete'', C_storage),
     (''ModifyMountTargetSecurityGroups'', ''efs.mount_target.sg.modify'', C_storage),
     (''CreateBackupVault'', ''backup.vault.create'', C_storage),
     (''DeleteBackupVault'', ''backup.vault.delete'', C_storage),
     (''PutBackupVaultAccessPolicy'', ''backup.vault.policy.put'', C_storage),
     (''DeleteBackupVaultAccessPolicy'', ''backup.vault.policy.delete'', C_storage),
     (''DeleteRecoveryPoint'', ''backup.recovery_point.delete'', C_storage),
     (''StartCopyJob'', ''backup.copy_job.start'', C_storage),
     (''CreateSecret'', ''secrets.secret.create'', C_iam), (''DeleteSecret'', ''secrets.secret.delete'', C_iam),
     (''UpdateSecret'', ''secrets.secret.update'', C_iam),
     (''RestoreSecret'', ''secrets.secret.restore'', C_iam),
     (''GetSecretValue'', ''secrets.secret.get_value'', C_iam)]"

definition LAMBDA_ALLOWLIST :: "string list" where
  "LAMBDA_ALLOWLIST = sorted_set (map fst ACTION_MAP)"

definition ACTOR_TYPE_MAP :: "(string \<times> actor_type) list" where
  "ACTOR_TYPE_MAP = [(''Root'', A_root), (''IAMUser'', A_user), (''AssumedRole'', A_role), (''AWSService'', A_service),
     (''AWSAccount'', A_service)]"

section \<open>Reading a record\<close>

text \<open>\<open>^\d{1,3}(?:\.\d{1,3}){3}$|^[0-9a-fA-F:]+:[0-9a-fA-F:]+$\<close>\<close>

definition rx_ct_ip :: rx where
  "rx_ct_ip = Rx_alt (rx_cat [Rx_bos, rx_ipv4, Rx_eos])
     (let hex = rx_plus (Rx_chars (\<lambda>c. is_hex c \<or> c = CHR '':'')) in rx_cat [Rx_bos, hex, rx_lit '':'', hex, Rx_eos])"

definition ct_is_ip :: "pyval \<Rightarrow> bool" where
  "ct_is_ip v = (case v of PyStr s \<Rightarrow> re_match rx_ct_ip s \<noteq> None | _ \<Rightarrow> False)"

definition service_from_source :: "pyval \<Rightarrow> pyerr + string" where
  "service_from_source v =
     (if \<not> truthy v then Inr ''aws''
      else case v of PyStr s \<Rightarrow> Inr (str_or (Some (hd (split_on (CHR ''.'') s))) ''aws'') | _ \<Rightarrow> Inl (AttributeError ''split''))"

definition first_truthy :: "dict \<Rightarrow> string list \<Rightarrow> pyval" where
  "first_truthy d ks = fold (\<lambda>k v. py_or v (dget d k)) ks PyNone"

definition first_present :: "dict \<Rightarrow> string list \<Rightarrow> pyval" where
  "first_present d ks = (case filter (\<lambda>v. v \<noteq> PyNone) (map (dget d) ks) of [] \<Rightarrow> PyNone | v # vs \<Rightarrow> v)"

definition TARGET_KEYS :: "string list" where
  "TARGET_KEYS = [''policyArn'', ''roleName'', ''userName'', ''groupName'', ''accessKeyId'', ''bucketName'',
     ''dBInstanceIdentifier'', ''dBClusterIdentifier'', ''dBSnapshotIdentifier'', ''dBClusterSnapshotIdentifier'',
     ''dBParameterGroupName'', ''dBSubnetGroupName'', ''groupId'', ''vpcId'', ''subnetId'', ''internetGatewayId'',
     ''natGatewayId'', ''routeTableId'', ''networkAclId'', ''vpcPeeringConnectionId'', ''instanceId'', ''imageId'',
     ''snapshotId'', ''volumeId'', ''keyId'', ''secretId'', ''name'', ''backupVaultName'', ''backupVaultArn'',
     ''recoveryPointArn'', ''recoveryPointId'', ''fileSystemId'', ''filesystemId'', ''mountTargetId'']"

text \<open>A chain of \<open>or\<close> ends in its last value; that is the trail name of a CloudTrail call, else \<open>None\<close>.\<close>

definition ct_target_id :: "pyenv \<Rightarrow> pyval \<Rightarrow> dict \<Rightarrow> pyval" where
  "ct_target_id E event_source rp =
     py_or (first_truthy rp TARGET_KEYS)
       (if prefix ''cloudtrail.'' (py_str E event_source) then dget rp ''name'' else PyNone)"

definition add_obs :: "pyenv \<Rightarrow> observable_type \<Rightarrow> pyval \<Rightarrow> observable list \<Rightarrow> observable list" where
  "add_obs E t v obs = (let ob = \<lparr>obs_type = t, obs_value = py_str E v\<rparr> in
     if truthy v \<and> ob \<notin> set obs then obs @ [ob] else obs)"

definition ct_observables :: "pyenv \<Rightarrow> pyval \<Rightarrow> pyval \<Rightarrow> dict \<Rightarrow> observable list" where
  "ct_observables E princ source_ip rp =
     add_obs E Ob_user (dget rp ''userName'') (add_obs E Ob_access_key (dget rp ''accessKeyId'')
       (add_obs E Ob_arn (dget rp ''policyArn'') (add_obs E Ob_ip source_ip
         (if truthy princ \<and> prefix ''arn:'' (py_str E princ) then add_obs E Ob_arn princ [] else []))))"

section \<open>Building \<open>extra\<close>\<close>

definition eset :: "string \<Rightarrow> pyval \<Rightarrow> dict \<Rightarrow> dict" where "eset k v x = AList.update k v x"

definition eset_if :: "bool \<Rightarrow> string \<Rightarrow> pyval \<Rightarrow> dict \<Rightarrow> dict" where
  "eset_if b k v x = (if b then eset k v x else x)"

definition eflag :: "bool \<Rightarrow> string \<Rightarrow> dict \<Rightarrow> dict" where "eflag b k x = eset_if b k (PyBool True) x"

definition esetdefault :: "string \<Rightarrow> pyval \<Rightarrow> dict \<Rightarrow> dict" where
  "esetdefault k v x = (if has_key x k then x else eset k v x)"

definition blank :: "pyval \<Rightarrow> bool" where "blank v = (v = PyNone \<or> py_eq v (PyStr []))"

definition set_network :: "string \<Rightarrow> pyval \<Rightarrow> dict \<Rightarrow> dict" where
  "set_network k v x = eset_if (\<not> blank v) k v x"

definition set_present :: "string \<Rightarrow> pyval \<Rightarrow> dict \<Rightarrow> dict" where
  "set_present k v x = eset_if (v \<noteq> PyNone) k v x"

definition on_dict :: "pyval \<Rightarrow> (dict \<Rightarrow> pyerr + 'a) \<Rightarrow> pyerr + 'a" where
  "on_dict v f = (case v of PyDict d \<Rightarrow> f d | _ \<Rightarrow> Inl (AttributeError ''get''))"

definition strs_val :: "string list \<Rightarrow> pyval" where "strs_val xs = PyList (map PyStr xs)"

section \<open>Network calls\<close>

definition peering_extra :: "dict \<Rightarrow> dict \<Rightarrow> dict" where
  "peering_extra r x =
     (let requester = py_or (py_or (dget r ''requesterVpcInfo'') (dget r ''requesterTgwInfo'')) (PyDict []);
          accepter = py_or (py_or (dget r ''accepterVpcInfo'') (dget r ''accepterTgwInfo'')) (PyDict []);
          side = (\<lambda>who v x. case v of PyDict d \<Rightarrow>
              set_network (who @ ''_region'') (dget d ''region'')
                (set_network (who @ ''_account'') (py_or (dget d ''ownerId'') (dget d ''ownerAccountId''))
                  (set_network (who @ ''_vpc_id'') (py_or (dget d ''vpcId'') (dget d ''transitGatewayId'')) x))
            | _ \<Rightarrow> x)
      in set_network ''destination_region'' (dget r ''peerRegion'')
           (set_network ''destination_account'' (dget r ''peerAccountId'')
             (side ''destination'' accepter (side ''source'' requester
               (set_network ''peering_id'' (py_or (dget r ''vpcPeeringConnectionId'') (dget r ''transitGatewayAttachmentId'')) x)))))"

definition same_or_none :: "pyval \<Rightarrow> pyval \<Rightarrow> bool" where
  "same_or_none v w = (v = PyNone \<or> v = w \<or> py_eq v w)"

definition permission_extra :: "pyenv \<Rightarrow> dict \<Rightarrow> dict \<Rightarrow> dict" where
  "permission_extra E rp x =
     (let items = (case py_or (dget rp ''ipPermissions'') (PyDict []) of PyDict p \<Rightarrow> dget p ''items'' | _ \<Rightarrow> PyNone);
          permission = (case items of PyList (v # vs) \<Rightarrow> v | _ \<Rightarrow> PyDict rp) in
      case permission of PyDict p \<Rightarrow>
        let x1 = set_network ''to_port'' (dget p ''toPort'') (set_network ''from_port'' (dget p ''fromPort'')
              (set_network ''protocol'' (dget p ''ipProtocol'') x));
            f = dget p ''fromPort''; t = dget p ''toPort'' in
        eset_if (f \<noteq> PyNone) ''port_range''
          (PyStr (if same_or_none t f then py_str E f else py_str E f @ ''-'' @ py_str E t)) x1
      | _ \<Rightarrow> x)"

definition ingress_summary :: "dict \<Rightarrow> dict \<Rightarrow> dict" where
  "ingress_summary signals x =
     (let risky = py_or (dget signals ''public_ingress_risky_port'') (dget signals ''public_ingress_all_traffic'');
          public = dget signals ''public_ingress'' in
      dmerge (eset_if (truthy public) ''exposure_summary''
          (PyStr (if truthy risky then ''yes '' @ [CHR 0xC2, CHR 0xB7] @ '' risky'' else ''yes''))
        (set_network ''risky_exposure'' risky (set_network ''public_exposure'' public
          (eset_if (truthy (dget signals ''public_cidrs'')) ''cidrs'' (dget signals ''public_cidrs'') x)))) signals)"

definition NETWORK_ACTIONS :: "string list" where
  "NETWORK_ACTIONS = [''network.igw.attach'', ''network.peering.accept'', ''network.tgw_peering.accept'',
     ''network.sg.ingress.add'']"

definition network_extra :: "pyenv \<Rightarrow> string \<Rightarrow> dict \<Rightarrow> pyval \<Rightarrow> dict \<Rightarrow> pyerr + dict" where
  "network_extra E action rp response x =
     (if action \<notin> set NETWORK_ACTIONS then Inr x
      else on_dict response (\<lambda>resp.
        let x1 = set_network ''security_group_id'' (dget rp ''groupId'')
              (set_network ''peering_id'' (py_or (dget rp ''vpcPeeringConnectionId'') (dget rp ''transitGatewayAttachmentId''))
              (set_network ''gateway_id'' (dget rp ''internetGatewayId'')
              (set_network ''subnet_id'' (dget rp ''subnetId'') (set_network ''vpc_id'' (dget rp ''vpcId'') x))));
            rn = py_or (py_or (dget resp ''vpcPeeringConnection'') (dget resp ''transitGatewayPeeringAttachment'')) (PyDict []);
            x2 = (case rn of PyDict r \<Rightarrow> peering_extra r x1 | _ \<Rightarrow> x1) in
        if action = ''network.sg.ingress.add''
        then sbind (sg_ingress_signals E rp) (\<lambda>signals. Inr (ingress_summary signals (permission_extra E rp x2)))
        else Inr x2))"

section \<open>Backup, secrets and file systems\<close>

definition BACKUP_FIELDS :: "(string \<times> string list) list" where
  "BACKUP_FIELDS =
     [(''vault_name'', [''backupVaultName'', ''vaultName'']), (''vault_arn'', [''backupVaultArn'', ''vaultArn'']),
      (''recovery_point_arn'', [''recoveryPointArn'']), (''resource_arn'', [''resourceArn'']),
      (''source_vault_arn'', [''sourceBackupVaultArn'', ''sourceVaultArn'']),
      (''source_vault_name'', [''sourceBackupVaultName'', ''sourceVaultName'']),
      (''destination_vault_arn'', [''destinationBackupVaultArn'', ''destinationVaultArn'']),
      (''job_id'', [''copyJobId'', ''jobId'']), (''plan_name'', [''backupPlanName'', ''planName'']),
      (''recovery_point_time'', [''recoveryPointCreationDate'', ''creationDate'']),
      (''retention_days'', [''retentionDays''])]"

definition copy_present :: "dict \<Rightarrow> string \<times> string list \<Rightarrow> dict \<Rightarrow> dict" where
  "copy_present src f x = (let v = first_present src (snd f) in eset_if (v \<noteq> PyNone) (fst f) v x)"

text \<open>What the response adds where the request gave nothing; reading it raises if it is no dict.\<close>

fun fill_from_response :: "pyval \<Rightarrow> (string \<times> string list) list \<Rightarrow> dict \<Rightarrow> pyerr + dict" where
  "fill_from_response response [] x = Inr x"
| "fill_from_response response (f # fs) x =
     (if has_key x (fst f) then fill_from_response response fs x
      else on_dict response (\<lambda>r. fill_from_response response fs (copy_present r f x)))"

definition copy_destination :: "dict \<Rightarrow> dict" where
  "copy_destination x =
     (case dget x ''destination_vault_arn'' of PyStr arn \<Rightarrow>
        (let parts = split_on (CHR '':'') arn in
         if arn \<noteq> [] \<and> 4 < length parts
         then esetdefault ''destination_account'' (PyStr (parts ! 4))
                (esetdefault ''destination_region'' (PyStr (parts ! 3)) x)
         else x)
      | _ \<Rightarrow> x)"

definition backup_extra :: "pyenv \<Rightarrow> string \<Rightarrow> dict \<Rightarrow> pyval \<Rightarrow> dict \<Rightarrow> pyerr + dict" where
  "backup_extra E action rp response x =
     (if \<not> prefix ''backup.'' action then Inr x
      else
        let x1 = fold (copy_present rp) BACKUP_FIELDS x in
        sbind (if truthy response
               then fill_from_response response [(''vault_arn'', [''backupVaultArn'']), (''job_id'', [''copyJobId'', ''jobId''])] x1
               else Inr x1) (\<lambda>x2.
          Inr (eset_if (action \<in> {''backup.vault.policy.put'', ''backup.vault.policy.delete''} \<and> dget rp ''policy'' \<noteq> PyNone)
                 ''policy_summary'' (PyStr (take 500 (py_str E (dget rp ''policy'')))) (copy_destination x2))))"

definition SECRET_FIELDS :: "(string \<times> string list) list" where
  "SECRET_FIELDS =
     [(''secret_name'', [''name'', ''secretId'']), (''description'', [''description'']), (''kms_key_id'', [''kmsKeyId'']),
      (''version_id'', [''versionId'']), (''version_stages'', [''versionStages'']),
      (''rotation_enabled'', [''rotationEnabled'']), (''rotation_days'', [''rotationRules'']),
      (''recovery_window_days'', [''recoveryWindowInDays'']), (''force_delete'', [''forceDeleteWithoutRecovery''])]"

definition SECRET_RESPONSE_FIELDS :: "(string \<times> string list) list" where
  "SECRET_RESPONSE_FIELDS =
     [(''secret_arn'', [''ARN'', ''arn'']), (''secret_name'', [''name'']), (''version_id'', [''versionId'']),
      (''version_stages'', [''versionStages'']), (''kms_key_id'', [''kmsKeyId'']),
      (''rotation_enabled'', [''rotationEnabled'']), (''rotation_days'', [''rotationRules''])]"

definition secret_value_of :: "dict \<Rightarrow> string \<times> string list \<Rightarrow> pyval" where
  "secret_value_of src f =
     (let v = first_present src (snd f) in
      if fst f = ''rotation_days'' then (case v of PyDict r \<Rightarrow> dget r ''automaticallyAfterDays'' | _ \<Rightarrow> v) else v)"

definition CHANGE_TYPES :: "(string \<times> string) list" where
  "CHANGE_TYPES = [(''secrets.secret.update'', ''value or metadata updated''), (''secrets.secret.create'', ''secret created''),
     (''secrets.secret.restore'', ''deletion cancelled''), (''secrets.secret.delete'', ''secret scheduled for deletion'')]"

definition secrets_extra :: "string \<Rightarrow> dict \<Rightarrow> pyval \<Rightarrow> dict \<Rightarrow> pyerr + dict" where
  "secrets_extra action rp response x =
     (if \<not> prefix ''secrets.secret.'' action then Inr x
      else on_dict response (\<lambda>resp.
        let x1 = fold (\<lambda>f x. let v = secret_value_of rp f in eset_if (\<not> blank v) (fst f) v x) SECRET_FIELDS x;
            x2 = fold (\<lambda>f x. let v = secret_value_of resp f in if blank v then x else esetdefault (fst f) v x)
                   SECRET_RESPONSE_FIELDS x1
        in Inr (case map_of CHANGE_TYPES action of None \<Rightarrow> x2 | Some c \<Rightarrow> eset ''change_type'' (PyStr c) x2)))"

definition EFS_FIELDS :: "(string \<times> string list) list" where
  "EFS_FIELDS =
     [(''efs_filesystem_id'', [''fileSystemId'', ''filesystemId'']), (''efs_mount_target_id'', [''mountTargetId'']),
      (''efs_subnet_id'', [''subnetId'']), (''efs_availability_zone'', [''availabilityZone'', ''az'']),
      (''efs_ip_address'', [''ipAddress'']), (''efs_security_groups'', [''securityGroups'']),
      (''efs_policy_summary'', [''policy'', ''fileSystemPolicy'']), (''efs_filesystem_name'', [''fileSystemName'', ''name''])]"

definition efs_extra :: "pyenv \<Rightarrow> string \<Rightarrow> dict \<Rightarrow> pyval \<Rightarrow> dict \<Rightarrow> pyerr + dict" where
  "efs_extra E action rp response x =
     (if \<not> prefix ''efs.'' action then Inr x
      else
        let x1 = fold (\<lambda>f x. let v = first_present rp (snd f) in
              eset_if (v \<noteq> PyNone) (fst f)
                (if fst f = ''efs_policy_summary'' then PyStr (take 500 (py_str E v)) else v) x) EFS_FIELDS x in
        sbind (if truthy response
               then fill_from_response response
                 [(''efs_mount_target_id'', [''mountTargetId'']), (''efs_filesystem_id'', [''fileSystemId'', ''filesystemId'']),
                  (''efs_availability_zone'', [''availabilityZone'', ''az''])] x1
               else Inr x1) (\<lambda>x2.
        sbind (if action = ''efs.filesystem.policy.put''
               then policy_doc_is_wildcard E (py_or (dget rp ''policy'') (dget rp ''fileSystemPolicy'')) else Inr False) (\<lambda>open.
          Inr (eflag open ''efs_policy_wildcard'' x2))))"

section \<open>Snapshots\<close>

definition permission_items :: "pyval \<Rightarrow> dict list" where
  "permission_items v =
     (let w = (case v of PyDict d \<Rightarrow> dget d ''items'' | _ \<Rightarrow> v) in
      case w of PyDict d \<Rightarrow> [d] | PyList xs \<Rightarrow> map as_dict (filter is_dict xs) | _ \<Rightarrow> [])"

definition account_ids :: "pyenv \<Rightarrow> dict list \<Rightarrow> string list" where
  "account_ids E items =
     map (\<lambda>d. py_str E (dget d ''userId'')) (filter (\<lambda>d. dget d ''userId'' \<noteq> PyNone \<and> \<not> is_all d ''userId'') items)"

definition to_all :: "dict list \<Rightarrow> bool" where
  "to_all items = list_ex (\<lambda>d. is_all d ''group'') items"

definition share_scope :: "bool \<Rightarrow> string list \<Rightarrow> string" where
  "share_scope public accounts =
     (if public \<and> accounts \<noteq> [] then ''public and cross-account'' else if public then ''public''
      else if accounts \<noteq> [] then ''cross-account'' else ''private'')"

definition share_state :: "pyenv \<Rightarrow> string \<Rightarrow> dict list \<Rightarrow> dict \<Rightarrow> dict" where
  "share_state E when items x =
     (if items = [] then x
      else eset (''snapshot_share_scope_'' @ when) (PyStr (share_scope (to_all items) (account_ids E items)))
             (eset (''snapshot_public_'' @ when) (PyBool (to_all items))
               (eset (''snapshot_shared_accounts_'' @ when) (strs_val (account_ids E items)) x)))"

definition snapshot_share_extra :: "pyenv \<Rightarrow> dict \<Rightarrow> dict \<Rightarrow> dict" where
  "snapshot_share_extra E rp x =
     (let perm = as_dict (py_or (dget rp ''createVolumePermission'') (PyDict []));
          added = permission_items (dget perm ''add''); removed = permission_items (dget perm ''remove'');
          accounts = account_ids E added; public = to_all added;
          x1 = eflag (to_all removed) ''snapshot_removed_public''
                 (eset_if (account_ids E removed \<noteq> []) ''snapshot_removed_accounts'' (strs_val (account_ids E removed)) x);
          x2 = share_state E ''current'' (permission_items (dget perm ''current''))
                 (share_state E ''before'' (permission_items (dget perm ''before'')) x1)
      in eset_if (public \<or> accounts \<noteq> []) ''snapshot_share_scope'' (PyStr (share_scope public accounts))
           (eset_if (accounts \<noteq> []) ''snapshot_shared_accounts'' (strs_val accounts)
             (eflag public ''snapshot_public'' x2)))"

definition STORAGE_FIELDS :: "(string \<times> string) list" where
  "STORAGE_FIELDS = [(''snapshot_id'', ''snapshotId''), (''volume_id'', ''volumeId''), (''encrypted'', ''encrypted''),
     (''kms_key_id'', ''kmsKeyId''), (''volume_type'', ''volumeType''), (''size_gib'', ''size''),
     (''availability_zone'', ''availabilityZone'')]"

definition storage_extra :: "pyenv \<Rightarrow> string \<Rightarrow> dict \<Rightarrow> dict \<Rightarrow> dict" where
  "storage_extra E action rp x =
     (if \<not> prefix ''storage.'' action then x
      else
        let x1 = fold (\<lambda>f x. set_network (fst f) (dget rp (snd f)) x) STORAGE_FIELDS x in
        if action = ''storage.snapshot.modify'' then snapshot_share_extra E rp x1 else x1)"

section \<open>Signals\<close>

definition only_if :: "bool \<Rightarrow> (dict \<Rightarrow> pyerr + dict) \<Rightarrow> dict \<Rightarrow> pyerr + dict" where
  "only_if b f x = (if b then f x else Inr x)"

definition flag_by :: "(pyerr + bool) \<Rightarrow> string \<Rightarrow> dict \<Rightarrow> pyerr + dict" where
  "flag_by m k x = sbind m (\<lambda>b. Inr (eflag b k x))"

definition list_by :: "(pyerr + string list) \<Rightarrow> string \<Rightarrow> dict \<Rightarrow> pyerr + dict" where
  "list_by m k x = sbind m (\<lambda>xs. Inr (eset_if (xs \<noteq> []) k (strs_val xs) x))"

fun run_steps :: "(dict \<Rightarrow> pyerr + dict) list \<Rightarrow> dict \<Rightarrow> pyerr + dict" where
  "run_steps [] x = Inr x"
| "run_steps (f # fs) x = sbind (f x) (run_steps fs)"

definition login_kind :: "string \<Rightarrow> bool \<Rightarrow> dict \<Rightarrow> dict" where
  "login_kind action is_root x =
     (if action = ''auth.console.login'' then eset ''login_kind'' (PyStr (if is_root then ''root'' else ''iam'')) x
      else if action = ''auth.federated.login'' then eset ''login_kind'' (PyStr ''sso'') x else x)"

definition image_extra :: "pyenv \<Rightarrow> dict \<Rightarrow> dict \<Rightarrow> pyerr + dict" where
  "image_extra E rp x =
     (let items = (\<lambda>v. case v of PyList xs \<Rightarrow> map as_dict (filter is_dict xs) | PyDict d \<Rightarrow> [d] | _ \<Rightarrow> []);
          ids = (\<lambda>ds. map (\<lambda>d. py_str E (dget d ''userId'')) (filter (\<lambda>d. dget d ''userId'' \<noteq> PyNone) ds));
          x1 = set_present ''image_id'' (dget rp ''imageId'') x;
          x2 = (case dget rp ''launchPermission'' of PyDict p \<Rightarrow>
                  let added = items (dget p ''add''); removed = items (dget p ''remove'') in
                  eset_if (ids removed \<noteq> []) ''ami_removed_accounts'' (strs_val (ids removed))
                    (eflag (to_all added) ''ami_public''
                      (eset_if (ids added \<noteq> []) ''ami_shared_accounts'' (strs_val (ids added)) x1))
                | _ \<Rightarrow> x1)
      in run_steps [flag_by (ami_made_public rp) ''ami_made_public'',
                    list_by (ami_cross_account_share E rp) ''ami_cross_account_share''] x2)"

definition METADATA_KEYS :: "(string \<times> string) list" where
  "METADATA_KEYS = [(''httpTokens'', ''http_tokens''), (''httpEndpoint'', ''http_endpoint''),
     (''httpPutResponseHopLimit'', ''http_put_response_hop_limit''), (''httpProtocolIpv4'', ''http_protocol_ipv4''),
     (''httpProtocolIpv6'', ''http_protocol_ipv6''), (''instanceMetadataTags'', ''instance_metadata_tags'')]"

definition metadata_extra :: "dict \<Rightarrow> dict \<Rightarrow> dict" where
  "metadata_extra rp x =
     fold (\<lambda>(k, n). set_present n (dget (as_dict (dget rp ''metadataOptions'')) k)) METADATA_KEYS
       (set_present ''instance_id'' (dget rp ''instanceId'') x)"

definition unwrap_value :: "pyval \<Rightarrow> pyval" where
  "unwrap_value v = (case v of PyDict d \<Rightarrow> dget d ''value'' | _ \<Rightarrow> v)"

definition instance_extra :: "dict \<Rightarrow> dict \<Rightarrow> dict" where
  "instance_extra rp x =
     set_present ''source_dest_check'' (unwrap_value (dget rp ''sourceDestCheck''))
       (set_present ''instance_type'' (unwrap_value (dget rp ''instanceType''))
         (set_present ''instance_id'' (dget rp ''instanceId'') x))"

definition rds_extra :: "dict \<Rightarrow> dict \<Rightarrow> dict" where
  "rds_extra rp x =
     eflag (rds_iam_auth_disabled rp) ''rds_iam_auth_disabled''
       (eflag (rds_master_password_change rp) ''rds_master_password_change''
         (eflag (rds_deletion_protection_off rp) ''rds_deletion_protection_off''
           (eflag (rds_backups_disabled rp) ''rds_backups_disabled''
             (eflag (rds_publicly_accessible rp) ''rds_publicly_accessible'' x))))"

definition signal_steps :: "pyenv \<Rightarrow> string \<Rightarrow> bool \<Rightarrow> dict \<Rightarrow> (dict \<Rightarrow> pyerr + dict) list" where
  "signal_steps E a is_root rp =
     [\<lambda>x. Inr (eflag (a \<in> {''iam.policy.put_inline'', ''iam.policy.create_version''} \<and> wildcard_policy rp) ''wildcard_policy'' x),
      \<lambda>x. Inr (login_kind a is_root x),
      only_if (a = ''s3.bucket.acl.put'') (flag_by (acl_grants_public E rp) ''public_acl''),
      only_if (a = ''s3.bucket.policy.put'') (flag_by (bucket_policy_is_public E rp) ''public_policy''),
      only_if (a = ''s3.bucket.bpa.put'') (flag_by (bpa_weakened rp) ''bpa_weakened''),
      only_if (a = ''s3.bucket.versioning.put'') (flag_by (versioning_suspended E rp) ''versioning_suspended''),
      only_if (a = ''s3.bucket.versioning.put'') (flag_by (mfa_delete_disabled E rp) ''mfa_delete_disabled''),
      only_if (a = ''s3.bucket.logging.put'') (flag_by (logging_disabled rp) ''logging_disabled''),
      only_if (a = ''network.sg.ingress.add'') (\<lambda>x. sbind (sg_ingress_signals E rp) (\<lambda>s. Inr (dmerge x s))),
      \<lambda>x. Inr (eflag (a = ''compute.imds.modify'' \<and> imds_weakened E rp) ''imdsv1_enabled'' x),
      only_if (a = ''storage.snapshot.modify'') (flag_by (snapshot_made_public rp) ''snapshot_made_public''),
      only_if (a = ''storage.snapshot.modify'') (list_by (snapshot_cross_account_share E rp) ''snapshot_cross_account_share''),
      only_if (a = ''compute.ami.modify'') (image_extra E rp),
      \<lambda>x. Inr (if a = ''compute.imds.modify'' then metadata_extra rp x else x),
      \<lambda>x. Inr (if a = ''compute.instance.modify'' then instance_extra rp x else x),
      only_if (a = ''kms.policy.put'') (flag_by (kms_policy_is_wildcard E rp) ''kms_wildcard_policy''),
      only_if (a = ''efs.filesystem.policy.put'') (flag_by (policy_doc_is_wildcard E (dget rp ''policy'')) ''efs_policy_wildcard''),
      only_if (a = ''efs.mount_target.sg.modify'') (list_by (Inr (efs_mount_target_sg_added E rp)) ''efs_mount_target_sgs''),
      only_if (a = ''backup.vault.policy.put'') (flag_by (policy_doc_is_wildcard E (dget rp ''policy'')) ''backup_vault_policy_wildcard''),
      \<lambda>x. Inr (if a = ''backup.copy_job.start'' then set_present ''backup_copy_dest_account''
                 (opt_val (backup_copy_cross_account rp)) x else x),
      \<lambda>x. Inr (if a \<in> set RDS_INSTANCE_ACTIONS then rds_extra rp x else x),
      \<lambda>x. Inr (eflag (a \<in> {''rds.instance.create'', ''rds.cluster.create''} \<and> rds_unencrypted_at_creation rp)
                 ''rds_unencrypted_at_creation'' x),
      only_if (a \<in> {''rds.snapshot.modify'', ''rds.cluster_snapshot.modify''})
        (flag_by (Inr (rds_snapshot_made_public rp)) ''rds_snapshot_made_public''),
      only_if (a \<in> {''rds.snapshot.modify'', ''rds.cluster_snapshot.modify''})
        (list_by (Inr (rds_snapshot_cross_account_share E rp)) ''rds_snapshot_cross_account_share''),
      only_if (a = ''rds.parameter_group.modify'') (\<lambda>x. sbind (rds_param_changes_security rp) (\<lambda>hits.
        Inr (eset_if (hits \<noteq> []) ''rds_security_params_changed'' (PyList hits) x)))]"

section \<open>The adapter\<close>

definition ct_action :: "string \<Rightarrow> string \<Rightarrow> string \<times> category" where
  "ct_action name service = (case map_of ACTION_MAP name of Some ac \<Rightarrow> ac
     | None \<Rightarrow> (''aws.'' @ service @ ''.'' @ str_lower name, C_audit))"

definition ct_outcome :: "pyenv \<Rightarrow> string \<Rightarrow> dict \<Rightarrow> pyval \<Rightarrow> pyerr + outcome" where
  "ct_outcome E name detail response =
     (if name = ''ConsoleLogin''
      then on_dict response (\<lambda>r. Inr (if str_lower (py_str E (dget_or r ''ConsoleLogin'' (PyStr []))) = ''success''
             then O_success else O_failure))
      else Inr (if truthy (dget detail ''errorCode'') then O_failure else O_success))"

text \<open>Attaching security groups to an instance is told apart from its other modifications.\<close>

definition retag :: "pyenv \<Rightarrow> string \<times> category \<Rightarrow> dict \<Rightarrow> pyval \<Rightarrow> dict \<Rightarrow> (string \<times> category) \<times> pyval \<times> dict" where
  "retag E ac rp tid x =
     (let sgs = extract_sg_ids_from_modify E rp in
      if fst ac = ''compute.instance.modify'' \<and> sgs \<noteq> []
      then ((''network.sg.instance_attach'', C_network), py_or tid (dget rp ''instanceId''),
            eset ''sg_ids'' (strs_val sgs) (eset ''instance_id'' (dget rp ''instanceId'') x))
      else (ac, tid, x))"

definition ct_time :: "pyenv \<Rightarrow> time \<Rightarrow> pyval \<Rightarrow> time" where
  "ct_time E now v = or_now now (adapter_parse_iso E v)"

definition ct_extra ::
  "pyenv \<Rightarrow> string \<Rightarrow> bool \<Rightarrow> dict \<Rightarrow> pyval \<Rightarrow> dict \<Rightarrow> pyerr + dict" where
  "ct_extra E action is_root rp response base =
     sbind (network_extra E action rp response base) (\<lambda>x.
     sbind (backup_extra E action rp response x) (\<lambda>x.
     sbind (secrets_extra action rp response x) (\<lambda>x.
     sbind (efs_extra E action rp response x) (\<lambda>x.
       run_steps (signal_steps E action is_root rp) (storage_extra E action rp x)))))"

definition ct_record :: "pyenv \<Rightarrow> time \<Rightarrow> ingest_ctx \<Rightarrow> dict \<Rightarrow> dict \<Rightarrow> string \<Rightarrow> pyerr + event" where
  "ct_record E now ctx raw detail name =
     (let src_name = dget_or detail ''eventSource'' (PyStr []);
          response = py_or (dget detail ''responseElements'') (PyDict []);
          src_ip = (if ct_is_ip (dget detail ''sourceIPAddress'') then dget detail ''sourceIPAddress'' else PyNone) in
      sbind (service_from_source src_name) (\<lambda>service.
      on_dict (py_or (dget detail ''userIdentity'') (PyDict [])) (\<lambda>identity.
      let ac = ct_action name service; itype = dget_or identity ''type'' (PyStr []);
          is_root = py_eq itype (PyStr ''Root'');
          princ = py_or (py_or (dget identity ''arn'') (dget identity ''userName''))
                    (if is_root then PyStr ''root'' else PyNone) in
      sbind (ct_outcome E name detail response) (\<lambda>out.
      on_dict (py_or (dget detail ''requestParameters'') (PyDict [])) (\<lambda>rp.
      on_dict (py_or (dget detail ''additionalEventData'') (PyDict [])) (\<lambda>additional.
      sbind (ct_extra E (fst ac) is_root rp response
        [(''event_name'', PyStr name), (''event_source'', src_name), (''mfa_used'', dget additional ''MFAUsed''),
         (''error_code'', dget detail ''errorCode''), (''error_message'', dget detail ''errorMessage'')]) (\<lambda>x.
      let ((action, cat), tid, x1) = retag E ac rp (ct_target_id E src_name rp) x;
          headline = friendly_message E action x1 tid;
          x2 = eset_if (str_truthy headline) ''message'' (opt_val headline) x1;
          eid = dget detail ''eventID'' in
      sbind (checked_source ''aws.cloudtrail'' (Some ''aws'')
               (py_or (dget raw ''account'') (dget detail ''recipientAccountId''))
               (py_or (dget raw ''region'') (dget detail ''awsRegion'')) (transport_or T_queue (cx_transport ctx))) (\<lambda>src.
      sbind (opt_str_field princ) (\<lambda>p.
      sbind (lookup_key ACTOR_TYPE_MAP itype) (\<lambda>atype.
      sbind (opt_str_field (dget detail ''userAgent'')) (\<lambda>ua.
      sbind (checked_target tid (PyStr (''aws.'' @ service)) PyNone) (\<lambda>tgt.
        Inr (ensure_fingerprint E ((event_defaults now src)
          \<lparr>ev_id := (if truthy eid then Some (uuid5_url E (''cloudtrail:'' @ py_str E eid)) else None),
           ev_time := ct_time E now (py_or (dget detail ''eventTime'') (dget raw ''time'')),
           ev_category := cat, ev_action := action, ev_outcome := out,
           ev_actor := \<lparr>act_principal = p, act_type = atype, act_is_root = Some is_root, act_via_role = None,
             act_source_ip = as_str src_ip, act_user_agent = ua\<rparr>,
           ev_target := tgt, ev_observables := ct_observables E princ src_ip rp,
           ev_extra := filter (\<lambda>(k, v). v \<noteq> PyNone) x2,
           ev_raw := (if prefix ''secrets.'' action then redact_secret_payload (PyDict raw) else PyDict raw)\<rparr>))))))))))))))"

definition cloudtrail_parse :: "pyenv \<Rightarrow> time \<Rightarrow> ingest_ctx \<Rightarrow> pyval \<Rightarrow> pyerr + event list" where
  "cloudtrail_parse E now ctx raw =
     (case raw of PyDict d \<Rightarrow>
        let detail = (case dget d ''detail'' of PyDict e \<Rightarrow> e | _ \<Rightarrow> d) in
        if \<not> has_key detail ''eventName'' then Inr []
        else (case dget detail ''eventName'' of
            PyStr name \<Rightarrow> sbind (ct_record E now ctx d detail name) (\<lambda>e. Inr [e])
          | _ \<Rightarrow> Inl (AttributeError ''lower''))
      | _ \<Rightarrow> Inr [])"

section \<open>What the adapter guarantees\<close>

lemma on_dict_Inr: "on_dict v f = Inr y \<longleftrightarrow> (\<exists>d. v = PyDict d \<and> f d = Inr y)"
  by (cases v) (simp_all add: on_dict_def)

lemma retag_action:
  "fst (retag E ac rp tid x) = (''network.sg.instance_attach'', C_network) \<and> fst ac = ''compute.instance.modify'' \<or>
   fst (retag E ac rp tid x) = ac"
  by (simp add: retag_def Let_def)

lemma checked_source_module: "checked_source m v a r t = Inr s \<Longrightarrow> src_module s = m"
  by (auto simp: checked_source_def sbind_Inr_iff)

lemma ct_record_sel:
  assumes "ct_record E now ctx raw detail name = Inr e"
  shows "src_module (ev_source e) = ''aws.cloudtrail''" and "ev_severity e = None"
    and "\<forall>(k, v) \<in> set (ev_extra e). v \<noteq> PyNone"
    and "ev_id e = (if truthy (dget detail ''eventID'')
      then Some (uuid5_url E (''cloudtrail:'' @ py_str E (dget detail ''eventID''))) else None)"
    and "ev_raw e = (if prefix ''secrets.'' (ev_action e) then redact_secret_payload (PyDict raw) else PyDict raw)"
    and "(\<exists>service. ev_action e = fst (ct_action name service) \<or>
      (ev_action e = ''network.sg.instance_attach'' \<and> fst (ct_action name service) = ''compute.instance.modify''))"
proof -
  from assms obtain service ac rp tid x src tgt extra rest where
    e: "e = ensure_fingerprint E ((event_defaults now src)\<lparr>ev_id := (if truthy (dget detail ''eventID'')
          then Some (uuid5_url E (''cloudtrail:'' @ py_str E (dget detail ''eventID''))) else None),
        ev_time := fst rest, ev_category := snd ac, ev_action := fst ac, ev_outcome := fst (snd rest),
        ev_actor := fst (snd (snd rest)), ev_target := tgt, ev_observables := snd (snd (snd rest)),
        ev_extra := filter (\<lambda>p. snd p \<noteq> PyNone) extra,
        ev_raw := (if prefix ''secrets.'' (fst ac) then redact_secret_payload (PyDict raw) else PyDict raw)\<rparr>)"
    and src: "src_module src = ''aws.cloudtrail''"
    and ac: "ac = fst (retag E (ct_action name service) rp tid x)"
    unfolding ct_record_def Let_def sbind_Inr_iff on_dict_Inr case_prod_beta
    by (elim exE conjE) (drule checked_source_module, fastforce)
  show "src_module (ev_source e) = ''aws.cloudtrail''" "ev_severity e = None" "\<forall>(k, v) \<in> set (ev_extra e). v \<noteq> PyNone"
    "ev_id e = (if truthy (dget detail ''eventID'')
      then Some (uuid5_url E (''cloudtrail:'' @ py_str E (dget detail ''eventID''))) else None)"
    "ev_raw e = (if prefix ''secrets.'' (ev_action e) then redact_secret_payload (PyDict raw) else PyDict raw)"
    using src by (auto simp: e)
  have "ev_action e = fst ac" by (simp add: e)
  then show "(\<exists>service. ev_action e = fst (ct_action name service) \<or>
      (ev_action e = ''network.sg.instance_attach'' \<and> fst (ct_action name service) = ''compute.instance.modify''))"
    using retag_action[of E "ct_action name service" rp tid x] ac by (metis fst_conv)
qed

lemma cloudtrail_parse_event:
  assumes "cloudtrail_parse E now ctx raw = Inr evs" and "e \<in> set evs"
  obtains d detail name where "raw = PyDict d" "detail = (case dget d ''detail'' of PyDict x \<Rightarrow> x | _ \<Rightarrow> d)"
    "dget detail ''eventName'' = PyStr name" "ct_record E now ctx d detail name = Inr e" "evs = [e]"
proof -
  from assms obtain d where d: "raw = PyDict d" by (cases raw) (auto simp: cloudtrail_parse_def)
  define detail where "detail = (case dget d ''detail'' of PyDict x \<Rightarrow> x | _ \<Rightarrow> d)"
  have p: "(if \<not> has_key detail ''eventName'' then Inr []
        else (case dget detail ''eventName'' of
            PyStr name \<Rightarrow> sbind (ct_record E now ctx d detail name) (\<lambda>e. Inr [e])
          | _ \<Rightarrow> Inl (AttributeError ''lower''))) = Inr evs"
    using assms(1) by (simp only: d cloudtrail_parse_def detail_def Let_def pyval.case)
  then obtain name where n: "dget detail ''eventName'' = PyStr name"
    using assms(2) by (cases "dget detail ''eventName''") (auto split: if_splits)
  then obtain e' where "ct_record E now ctx d detail name = Inr e'" "evs = [e']"
    using p assms(2) by (auto simp: sbind_Inr_iff split: if_splits)
  then show thesis using that[OF d detail_def n] assms(2) by simp
qed

text \<open>The five calls of Secrets Manager in the table are the ones named \<open>secrets.*\<close>.\<close>

definition SECRET_CALLS :: "string list" where
  "SECRET_CALLS = [''CreateSecret'', ''DeleteSecret'', ''UpdateSecret'', ''RestoreSecret'', ''GetSecretValue'']"

lemma secret_calls_mapped: "list_all (\<lambda>name. map_of ACTION_MAP name \<noteq> None) SECRET_CALLS"
  by code_simp

lemma secret_calls_named:
  "list_all (\<lambda>(name, action, cat). prefix ''secrets.'' action = (name \<in> set SECRET_CALLS)) ACTION_MAP"
  by code_simp

lemma ct_action_secret: "prefix ''secrets.'' (fst (ct_action name service)) \<longleftrightarrow> name \<in> set SECRET_CALLS"
proof (cases "map_of ACTION_MAP name")
  case None
  then show ?thesis using secret_calls_mapped by (auto simp: ct_action_def list_all_iff)
next
  case (Some ac)
  then show ?thesis using secret_calls_named map_of_SomeD[OF Some]
    by (auto simp: ct_action_def list_all_iff)
qed

lemma ct_record_raw:
  assumes "ct_record E now ctx d detail name = Inr e"
  shows "ev_raw e = (if name \<in> set SECRET_CALLS then redact_secret_payload (PyDict d) else PyDict d)"
proof -
  have "\<not> prefix ''secrets.'' ''network.sg.instance_attach''" "\<not> prefix ''secrets.'' ''compute.instance.modify''" by simp_all
  then have "prefix ''secrets.'' (ev_action e) \<longleftrightarrow> name \<in> set SECRET_CALLS"
    using ct_record_sel(6)[OF assms] ct_action_secret[of name] by metis
  then show ?thesis using ct_record_sel(5)[OF assms] by simp
qed

text \<open>C23: A CloudTrail record becomes one event at most. The payload stored with it is the payload received, except
  for the five calls \<open>CreateSecret\<close>, \<open>DeleteSecret\<close>, \<open>UpdateSecret\<close>, \<open>RestoreSecret\<close> and
  \<open>GetSecretValue\<close>: theirs is blanked, and then no field of the stored payload that is named like a secret
  value has one, at any depth and in any spelling. Every other call, \<open>PutSecretValue\<close> among them, is stored as it
  came. No entry of \<open>extra\<close> is \<open>None\<close>; the identifier of a record with an \<open>eventID\<close> is a function of
  that alone; the severity is left to the rules.
\<close>
theorem cloudtrail_event_stored:
  assumes "cloudtrail_parse E now ctx (PyDict d) = Inr evs" and "e \<in> set evs"
  defines "detail \<equiv> (case dget d ''detail'' of PyDict x \<Rightarrow> x | _ \<Rightarrow> d)"
  shows "evs = [e] \<and> ev_severity e = None \<and> (\<forall>(k, v) \<in> set (ev_extra e). v \<noteq> PyNone) \<and>
    (if dget detail ''eventName'' \<in> PyStr ` {''CreateSecret'', ''DeleteSecret'', ''UpdateSecret'', ''RestoreSecret'', ''GetSecretValue''}
     then ev_raw e = redact_secret_payload (PyDict d) \<and> secret_free (ev_raw e)
     else ev_raw e = PyDict d) \<and>
    (truthy (dget detail ''eventID'') \<longrightarrow> ev_id e = Some (uuid5_url E (''cloudtrail:'' @ py_str E (dget detail ''eventID''))))"
proof -
  from cloudtrail_parse_event[OF assms(1,2)] obtain name where
    n: "dget detail ''eventName'' = PyStr name" and r: "ct_record E now ctx d detail name = Inr e" and "evs = [e]"
    unfolding detail_def by auto
  have "name \<in> set SECRET_CALLS \<longleftrightarrow>
      dget detail ''eventName'' \<in> PyStr ` {''CreateSecret'', ''DeleteSecret'', ''UpdateSecret'', ''RestoreSecret'', ''GetSecretValue''}"
    by (auto simp: n SECRET_CALLS_def)
  moreover have "secret_free (redact_secret_payload (PyDict d))" by (rule redact_secret_free(1))
  ultimately show ?thesis
    using ct_record_sel(2-4)[OF r] ct_record_raw[OF r] \<open>evs = [e]\<close> by (simp del: redact_secret_payload.simps)
qed

section \<open>A call to try it on\<close>

lemma secrets_extra_total: "\<exists>y. ct_extra E ''secrets.secret.get_value'' rt rp (PyDict r) x = Inr y"
  by (simp add: ct_extra_def network_extra_def NETWORK_ACTIONS_def backup_extra_def secrets_extra_def on_dict_def
      efs_extra_def storage_extra_def signal_steps_def Let_def only_if_def RDS_INSTANCE_ACTIONS_def)

definition demo_secret_call :: dict where
  "demo_secret_call = [(''eventName'', PyStr ''GetSecretValue''), (''eventSource'', PyStr ''secretsmanager.amazonaws.com''),
     (''eventID'', PyStr ''e-1''), (''requestParameters'', PyDict [(''secretId'', PyStr ''db'')]),
     (''responseElements'', PyDict [(''Secret_String'', PyStr ''hunter2'')])]"
definition demo_ct_ctx :: ingest_ctx where
  "demo_ct_ctx = \<lparr>cx_module = ''aws.cloudtrail'', cx_transport = ''queue'', cx_account = None, cx_region = None\<rparr>"

lemma demo_first_truthy: "checked_target (ct_target_id demo_env s [(''secretId'', PyStr ''db'')]) (PyStr t) PyNone = Inr (new_target (Some ''db'') (Some t) None)"
  by (simp add: ct_target_id_def first_truthy_def TARGET_KEYS_def py_or_def checked_target_def)

lemma demo_action: "ct_action ''GetSecretValue'' s = (''secrets.secret.get_value'', C_iam)"
proof -
  have "map_of ACTION_MAP ''GetSecretValue'' = Some (''secrets.secret.get_value'', C_iam)" by code_simp
  then show ?thesis by (simp add: ct_action_def)
qed

lemma demo_ct: "\<exists>e. cloudtrail_parse demo_env 0 demo_ct_ctx (PyDict demo_secret_call) = Inr [e]"
proof -
  obtain y where y: "ct_extra demo_env ''secrets.secret.get_value'' False [(''secretId'', PyStr ''db'')]
    (PyDict [(''Secret_String'', PyStr ''hunter2'')])
    [(''event_name'', PyStr ''GetSecretValue''), (''event_source'', PyStr ''secretsmanager.amazonaws.com''), (''mfa_used'', PyNone),
         (''error_code'', PyNone), (''error_message'', PyNone)] = Inr y" using secrets_extra_total by blast
  have "\<exists>e. ct_record demo_env 0 demo_ct_ctx demo_secret_call demo_secret_call ''GetSecretValue'' = Inr e"
    unfolding ct_record_def Let_def
    apply (simp add: demo_secret_call_def service_from_source_def dget_or_def py_or_def on_dict_def)
    apply (simp add: demo_action ct_outcome_def y)
    apply (simp add: retag_def Let_def demo_first_truthy case_prod_beta)
    apply (simp add: checked_source_def ACTOR_TYPE_MAP_def)
    done
  then show ?thesis by (auto simp: cloudtrail_parse_def demo_secret_call_def has_key_def)
qed

lemma cloudtrail_event_stored_witness:
  "\<exists>e. cloudtrail_parse demo_env 0 demo_ct_ctx (PyDict demo_secret_call) = Inr [e] \<and>
     ev_id e = Some ''cloudtrail:e-1'' \<and> secret_free (ev_raw e)"
proof -
  obtain e where e: "cloudtrail_parse demo_env 0 demo_ct_ctx (PyDict demo_secret_call) = Inr [e]" using demo_ct by blast
  from cloudtrail_event_stored[OF e, of e] e show ?thesis by (simp add: demo_secret_call_def)
qed

text \<open>\<open>PutSecretValue\<close> is not in the table, so its secret is stored as it came.\<close>

lemma unmapped_secret_call_kept: "ct_record E now ctx d detail ''PutSecretValue'' = Inr e \<Longrightarrow> ev_raw e = PyDict d"
  using ct_record_raw[of E now ctx d detail "''PutSecretValue''" e] by (simp add: SECRET_CALLS_def)

end
