(* ===== verification/Adapters.thy ===== *)
theory Adapters
  imports ReportAdapters VpnAdapter ApiAdapter RdsAdapter S3AccessAdapter HostAdapter CloudTrail
begin

text \<open>
  The registry of adapters (\<open>src/blackwatch/modules/registry.py\<close>) and the contract of an adapter
  (\<open>modules/base.py\<close>), stated as a locale and discharged for each adapter: where its events come from,
  which actions they can have, and that severities are left to the rules. The posture adapter does set
  severities; it keeps the rest of the contract. The state of a call is what the RDS adapter keeps in
  module-level dictionaries.
\<close>

section \<open>Registry\<close>

datatype adapter =
  Generic_adapter | Vpn_adapter | CloudTrail_adapter | Rds_adapter | ApiGw_adapter | Ec2Host_adapter
  | EcsProbe_adapter | S3_adapter | S3Access_adapter | Posture_adapter | Cert_adapter

primrec adapter_module :: "adapter \<Rightarrow> string" where
  "adapter_module Generic_adapter = ''generic''"
| "adapter_module Vpn_adapter = ''vpn.openvpn''"
| "adapter_module CloudTrail_adapter = ''aws.cloudtrail''"
| "adapter_module Rds_adapter = ''aws.rds''"
| "adapter_module ApiGw_adapter = ''aws.api_gw''"
| "adapter_module Ec2Host_adapter = ''ec2.host''"
| "adapter_module EcsProbe_adapter = ''ecs.probe''"
| "adapter_module S3_adapter = ''aws.s3''"
| "adapter_module S3Access_adapter = ''aws.s3.access''"
| "adapter_module Posture_adapter = ''aws.posture''"
| "adapter_module Cert_adapter = ''cert''"

type_synonym registry = "(string \<times> adapter) list"

definition GENERIC_MODULE :: string where "GENERIC_MODULE = ''generic''"

definition register_adapter :: "adapter \<Rightarrow> registry \<Rightarrow> registry" where
  "register_adapter a reg = AList.update (adapter_module a) a reg"

text \<open>\<open>None\<close>: the lookup of the fallback raises.\<close>

definition resolve_adapter :: "registry \<Rightarrow> string \<Rightarrow> adapter option" where
  "resolve_adapter reg m = (case map_of reg m of Some a \<Rightarrow> Some a | None \<Rightarrow> map_of reg GENERIC_MODULE)"

definition registered_modules :: "registry \<Rightarrow> string list" where
  "registered_modules reg = sorted_set (map fst reg)"

definition builtin_adapters :: "adapter list" where
  "builtin_adapters = [Generic_adapter, Vpn_adapter, CloudTrail_adapter, Rds_adapter, ApiGw_adapter, Ec2Host_adapter,
     EcsProbe_adapter, S3_adapter, S3Access_adapter, Posture_adapter, Cert_adapter]"

definition register_builtins :: "registry \<Rightarrow> registry" where
  "register_builtins reg = fold register_adapter builtin_adapters reg"

definition pure_parse ::
  "(pyenv \<Rightarrow> time \<Rightarrow> ingest_ctx \<Rightarrow> pyval \<Rightarrow> pyerr + event list) \<Rightarrow>
   pyenv \<Rightarrow> time \<Rightarrow> ingest_ctx \<Rightarrow> pyval \<Rightarrow> proxy_cache \<Rightarrow> (pyerr + event list) \<times> proxy_cache" where
  "pure_parse f E now ctx raw c = (f E now ctx raw, c)"

primrec run_adapter ::
  "adapter \<Rightarrow> pyenv \<Rightarrow> time \<Rightarrow> ingest_ctx \<Rightarrow> pyval \<Rightarrow> proxy_cache \<Rightarrow> (pyerr + event list) \<times> proxy_cache" where
  "run_adapter Generic_adapter = pure_parse generic_parse"
| "run_adapter Vpn_adapter = pure_parse vpn_parse"
| "run_adapter CloudTrail_adapter = pure_parse cloudtrail_parse"
| "run_adapter Rds_adapter = rds_parse"
| "run_adapter ApiGw_adapter = pure_parse api_gw_parse"
| "run_adapter Ec2Host_adapter = pure_parse host_parse"
| "run_adapter EcsProbe_adapter = pure_parse ecs_probe_parse"
| "run_adapter S3_adapter = pure_parse s3_inventory_parse"
| "run_adapter S3Access_adapter = pure_parse s3_access_parse"
| "run_adapter Posture_adapter = pure_parse posture_parse"
| "run_adapter Cert_adapter = pure_parse cert_parse"

section \<open>The contract\<close>

text \<open>An event of module \<open>m\<close> with an action of the vocabulary, before any rule has seen it.\<close>

definition emits :: "string \<Rightarrow> (string \<Rightarrow> bool) \<Rightarrow> event \<Rightarrow> bool" where
  "emits m V e \<longleftrightarrow> src_module (ev_source e) = m \<and> V (ev_action e) \<and> ev_rule_matches e = []"

locale adapter_contract =
  fixes parse :: "pyenv \<Rightarrow> time \<Rightarrow> ingest_ctx \<Rightarrow> pyval \<Rightarrow> 'c \<Rightarrow> (pyerr + event list) \<times> 'c"
    and origin :: "ingest_ctx \<Rightarrow> string" and vocabulary :: "string \<Rightarrow> bool"
  assumes emitted: "fst (parse E now ctx raw c) = Inr evs \<Longrightarrow> list_all (emits (origin ctx) vocabulary) evs"
begin

text \<open>Payloads parsed one after the other, the state handed on; one that raises adds nothing.\<close>

primrec batch :: "pyenv \<Rightarrow> (time \<times> ingest_ctx \<times> pyval) list \<Rightarrow> 'c \<Rightarrow> event list \<times> 'c" where
  "batch E [] c = ([], c)"
| "batch E (p # ps) c =
     (let (r, c1) = parse E (fst p) (fst (snd p)) (snd (snd p)) c; (rest, c2) = batch E ps c1
      in ((case r of Inl e \<Rightarrow> [] | Inr evs \<Rightarrow> evs) @ rest, c2))"

lemma batch_emits:
  "e \<in> set (fst (batch E ps c)) \<Longrightarrow> \<exists>p \<in> set ps. emits (origin (fst (snd p))) vocabulary e"
proof (induction ps arbitrary: c)
  case (Cons p ps)
  obtain r c1 where r: "parse E (fst p) (fst (snd p)) (snd (snd p)) c = (r, c1)" by fastforce
  show ?case
    using Cons.prems Cons.IH[of c1] emitted[of E "fst p" "fst (snd p)" "snd (snd p)" c] r
    by (auto simp: case_prod_beta Let_def list_all_iff split: sum.splits)
qed simp

lemma other_module: "fst (parse E now ctx raw c) = Inr evs \<Longrightarrow> origin ctx \<noteq> m \<Longrightarrow>
    filter (\<lambda>e. src_module (ev_source e) = m) evs = []"
  using emitted[of E now ctx raw c evs] by (auto simp: filter_empty_conv list_all_iff emits_def)

end

locale severity_free = adapter_contract +
  assumes unscored: "fst (parse E now ctx raw c) = Inr evs \<Longrightarrow> list_all (\<lambda>e. ev_severity e = None) evs"
begin

text \<open>What is stored of such an event has the severity its matching rules give it, and none without.\<close>

lemma batch_unscored: "e \<in> set (fst (batch E ps c)) \<Longrightarrow> ev_severity e = None"
proof (induction ps arbitrary: c)
  case (Cons p ps)
  obtain r c1 where r: "parse E (fst p) (fst (snd p)) (snd (snd p)) c = (r, c1)" by fastforce
  show ?case
    using Cons.prems Cons.IH[of c1] unscored[of E "fst p" "fst (snd p)" "snd (snd p)" c] r
    by (auto simp: case_prod_beta Let_def list_all_iff split: sum.splits)
qed simp

end

text \<open>What an adapter without posture's severities promises of each event.\<close>

definition pristine :: "string \<Rightarrow> (string \<Rightarrow> bool) \<Rightarrow> event \<Rightarrow> bool" where
  "pristine m V e \<longleftrightarrow> emits m V e \<and> ev_severity e = None"

lemma pristine_contract:
  assumes "\<And>E now ctx raw c evs. fst (parse E now ctx raw c) = Inr evs \<Longrightarrow> list_all (pristine (origin ctx) V) evs"
  shows "severity_free parse origin V"
  using assms by unfold_locales (fastforce simp: pristine_def list_all_iff)+

lemma pure_parse_Inr: "fst (pure_parse f E now ctx raw c) = Inr evs \<longleftrightarrow> f E now ctx raw = Inr evs"
  by (simp add: pure_parse_def)

section \<open>Each adapter keeps it\<close>

lemmas emitted_defs = pristine_def emits_def checked_source_def checked_target_def sbind_Inr_iff

lemma pristine_generic: "generic_parse E now ctx raw = Inr evs \<Longrightarrow> list_all (pristine (cx_module ctx) (\<lambda>a. True)) evs"
  by (auto simp: generic_parse_def emitted_defs Let_def)

definition probe_actions :: "string set" where
  "probe_actions = {''probe.agent.heartbeat'', ''service.probe.result''}"

lemma pristine_probe_entry:
  "probe_entry E now t w v x = Inr zs \<Longrightarrow> list_all (pristine ''ecs.probe'' (\<lambda>a. a \<in> probe_actions)) zs"
  by (auto simp: probe_entry_def emitted_defs probe_actions_def Let_def split: pyval.splits if_splits)

lemma pristine_probe: "ecs_probe_parse E now ctx raw = Inr evs \<Longrightarrow> list_all (pristine ''ecs.probe'' (\<lambda>a. a \<in> probe_actions)) evs"
  by (auto simp: ecs_probe_parse_def sbind_Inr_iff Let_def split: pyval.splits if_splits
      dest!: collect_with[where P = "pristine ''ecs.probe'' (\<lambda>a. a \<in> probe_actions)"] intro: pristine_probe_entry)
    (auto simp: emitted_defs probe_actions_def)

definition cert_actions :: "string set" where
  "cert_actions = {''cert.probe.failed'', ''cert.expired'', ''cert.expiring.critical'', ''cert.expiring.high'',
     ''cert.expiring.warning''}"

lemma cert_action_named: "cert_action_for t = Inr (Some a) \<Longrightarrow> a \<in> cert_actions"
  by (auto simp: cert_action_for_def cert_band_def cert_actions_def split: if_splits option.splits)

lemma pristine_cert_entry: "cert_entry E now ctx x = Inr zs \<Longrightarrow> list_all (pristine ''cert'' (\<lambda>a. a \<in> cert_actions)) zs"
  by (auto simp: cert_entry_def emitted_defs split: pyval.splits option.splits) (erule cert_action_named)

lemma pristine_cert: "cert_parse E now ctx raw = Inr evs \<Longrightarrow> list_all (pristine ''cert'' (\<lambda>a. a \<in> cert_actions)) evs"
  by (auto simp: cert_parse_def sbind_Inr_iff
      dest!: collect_with[where P = "pristine ''cert'' (\<lambda>a. a \<in> cert_actions)"] intro: pristine_cert_entry)

definition s3_actions :: "string set" where
  "s3_actions = {''s3.bucket.snapshot'', ''s3.scan.completed''}"

lemma pristine_s3_entry: "s3_entry E now t w ac x = Inr zs \<Longrightarrow> list_all (pristine ''aws.s3'' (\<lambda>a. a \<in> s3_actions)) zs"
  by (auto simp: s3_entry_def emitted_defs s3_actions_def Let_def split: pyval.splits if_splits)

lemma pristine_s3: "s3_inventory_parse E now ctx raw = Inr evs \<Longrightarrow> list_all (pristine ''aws.s3'' (\<lambda>a. a \<in> s3_actions)) evs"
  by (auto simp: s3_inventory_parse_def sbind_Inr_iff Let_def split: pyval.splits if_splits
      dest!: collect_with[where P = "pristine ''aws.s3'' (\<lambda>a. a \<in> s3_actions)"] intro: pristine_s3_entry)
    (auto simp: emitted_defs s3_actions_def)

definition posture_actions :: "string set" where
  "posture_actions = {''aws.posture.finding'', ''aws.posture.scan.completed''}"

lemma emits_posture_entry:
  "posture_entry E now t w ac x = Inr zs \<Longrightarrow> list_all (emits ''aws.posture'' (\<lambda>a. a \<in> posture_actions)) zs"
  by (auto simp: posture_entry_def emitted_defs posture_actions_def Let_def split: pyval.splits if_splits)

lemma emits_posture: "posture_parse E now ctx raw = Inr evs \<Longrightarrow> list_all (emits ''aws.posture'' (\<lambda>a. a \<in> posture_actions)) evs"
  by (auto simp: posture_parse_def sbind_Inr_iff Let_def split: pyval.splits if_splits
      dest!: collect_with[where P = "emits ''aws.posture'' (\<lambda>a. a \<in> posture_actions)"] intro: emits_posture_entry)
    (auto simp: emitted_defs posture_actions_def)

definition vpn_cert_actions :: "string set" where
  "vpn_cert_actions = {''vpn.cert.probe.failed'', ''vpn.cert.expired'', ''vpn.cert.expiring.critical'',
     ''vpn.cert.expiring.high'', ''vpn.cert.expiring.warning''}"

definition vpn_actions :: "string set" where
  "vpn_actions = {''vpn.service.health'', ''vpn.status.snapshot'', ''vpn.auth.failure'', ''vpn.auth.success'',
     ''vpn.cert.snapshot''} \<union> vpn_cert_actions"

lemma vpn_cert_action_named: "vpn_cert_action c = Inr (Some a) \<Longrightarrow> a \<in> vpn_cert_actions"
  by (auto simp: vpn_cert_action_def vpn_cert_actions_def split: if_splits option.splits)

lemma auth_verdict_named: "auth_verdict m = Some (u, a, o') \<Longrightarrow> a \<in> vpn_actions"
  by (auto simp: auth_verdict_def vpn_actions_def split: if_splits)

lemma pristine_vpn_auth:
  "vpn_auth_line E now server ac line = Inr zs \<Longrightarrow> list_all (pristine ''vpn.openvpn'' (\<lambda>a. a \<in> vpn_actions)) zs"
  by (auto simp: vpn_auth_line_def emitted_defs Let_def split: option.splits) (erule auth_verdict_named)

lemma vpn_cert_action_listed: "vpn_cert_action c = Inr (Some a) \<Longrightarrow> a \<in> vpn_actions"
  by (simp add: vpn_actions_def vpn_cert_action_named)

lemma pristine_vpn_cert:
  "src_module src = ''vpn.openvpn'' \<Longrightarrow> vpn_cert_event E now src server c = Inr zs \<Longrightarrow>
   list_all (pristine ''vpn.openvpn'' (\<lambda>a. a \<in> vpn_actions)) zs"
  by (auto simp: vpn_cert_event_def emitted_defs Let_def split: pyval.splits option.splits) (erule vpn_cert_action_listed)

lemma pristine_vpn_certs:
  "src_module src = ''vpn.openvpn'' \<Longrightarrow> vpn_certs_events E now src tgt raw server certs = Inr zs \<Longrightarrow>
   list_all (pristine ''vpn.openvpn'' (\<lambda>a. a \<in> vpn_actions)) zs"
  by (auto simp: vpn_certs_events_def sbind_Inr_iff split: pyval.splits
      dest!: collect_with[where P = "pristine ''vpn.openvpn'' (\<lambda>a. a \<in> vpn_actions)"] intro: pristine_vpn_cert)
    (auto simp: emitted_defs vpn_actions_def)

lemma pristine_vpn_status:
  "src_module src = ''vpn.openvpn'' \<Longrightarrow> vpn_status_event E now src tgt raw server status = Inr zs \<Longrightarrow>
   list_all (pristine ''vpn.openvpn'' (\<lambda>a. a \<in> vpn_actions)) zs"
  by (auto simp: vpn_status_event_def emitted_defs vpn_actions_def split: if_splits pyval.splits)

lemma pristine_vpn_health:
  "src_module src = ''vpn.openvpn'' \<Longrightarrow>
   list_all (pristine ''vpn.openvpn'' (\<lambda>a. a \<in> vpn_actions)) (vpn_health_event E now src tgt raw body host server)"
  by (auto simp: vpn_health_event_def emitted_defs vpn_actions_def Let_def)

lemma pristine_vpn: "vpn_parse E now ctx raw = Inr evs \<Longrightarrow> list_all (pristine ''vpn.openvpn'' (\<lambda>a. a \<in> vpn_actions)) evs"
proof -
  assume "vpn_parse E now ctx raw = Inr evs"
  then obtain src tgt body host server account lines status auth cert certs v where
    e: "evs = vpn_health_event E now src tgt raw body host server @ status @ auth @ cert"
    and src: "src_module src = ''vpn.openvpn''"
    and s: "vpn_status_event E now src tgt raw server v = Inr status"
    and a: "collect (vpn_auth_line E now server account) lines = Inr auth"
    and c: "vpn_certs_events E now src tgt raw server certs = Inr cert"
    unfolding vpn_parse_def Let_def sbind_Inr_iff
    by (auto simp: checked_source_def sbind_Inr_iff split: if_splits)
  show ?thesis
    unfolding e list_all_append
    using pristine_vpn_health[OF src] pristine_vpn_status[OF src s] collect_with[OF a, where P = "pristine _ _"]
      pristine_vpn_auth pristine_vpn_certs[OF src c] by metis
qed

definition api_actions :: "string set" where
  "api_actions = {''api.request'', ''api.auth.failure'', ''api.error'', ''api.scanner_ua''}"

lemma api_mkevent_pristine:
  "api_mkevent E now a out ts n l x t = Inr e \<Longrightarrow> a \<in> api_actions \<Longrightarrow> pristine ''aws.api_gw'' (\<lambda>a. a \<in> api_actions) e"
  by (auto simp: api_mkevent_def emitted_defs)

lemma pristine_api_derived:
  assumes "api_derive_events E now p n ts t = Inr zs"
  shows "list_all (pristine ''aws.api_gw'' (\<lambda>a. a \<in> api_actions)) zs"
proof -
  have "list_all (pristine ''aws.api_gw'' (\<lambda>a. a \<in> api_actions)) ys" if "status_events E now ts n l t = Inr ys" for l ys
    using that by (auto simp: status_events_def sbind_Inr_iff api_actions_def split: option.splits if_splits
        dest!: api_mkevent_pristine)
  moreover have "list_all (pristine ''aws.api_gw'' (\<lambda>a. a \<in> api_actions)) ys" if "scanner_events E now ts n l t = Inr ys" for l ys
    using that by (auto simp: scanner_events_def sbind_Inr_iff api_actions_def split: option.splits if_splits pyval.splits
        dest!: api_mkevent_pristine)
  ultimately show ?thesis
    using assms by (auto simp: api_derive_events_def sbind_Inr_iff Let_def api_actions_def dest: api_mkevent_pristine)
qed

lemma pristine_api_entry: "api_entry E now n t x = Inr zs \<Longrightarrow> list_all (pristine ''aws.api_gw'' (\<lambda>a. a \<in> api_actions)) zs"
  by (auto simp: api_entry_def sbind_Inr_iff Let_def split: if_splits option.splits intro: pristine_api_derived)

lemma pristine_api: "api_gw_parse E now ctx raw = Inr evs \<Longrightarrow> list_all (pristine ''aws.api_gw'' (\<lambda>a. a \<in> api_actions)) evs"
  by (auto simp: api_gw_parse_def sbind_Inr_iff Let_def split: pyval.splits
      dest!: collect_with[where P = "pristine ''aws.api_gw'' (\<lambda>a. a \<in> api_actions)"] intro: pristine_api_entry)

definition access_actions :: "string set" where
  "access_actions = {''s3.object.access'', ''s3.object.access.anonymous''}"

lemma pristine_access_event:
  "access_event E now b lb lk n row = Inr e \<Longrightarrow> pristine ''aws.s3.access'' (\<lambda>a. a \<in> access_actions) e"
  unfolding access_event_def Let_def sbind_Inr_iff checked_target_def
  by (elim exE conjE) (auto simp: pristine_def emits_def access_actions_def)

lemma pristine_access_line:
  "access_line_event E now b lb lk x = Inr zs \<Longrightarrow> list_all (pristine ''aws.s3.access'' (\<lambda>a. a \<in> access_actions)) zs"
  by (auto simp: access_line_event_def sbind_Inr_iff Let_def case_prod_beta intro: pristine_access_event
      split: if_splits option.splits)

lemma pristine_access:
  "s3_access_parse E now ctx raw = Inr evs \<Longrightarrow> list_all (pristine ''aws.s3.access'' (\<lambda>a. a \<in> access_actions)) evs"
  by (auto simp: s3_access_parse_def Let_def split: pyval.splits
      dest!: collect_with[where P = "pristine ''aws.s3.access'' (\<lambda>a. a \<in> access_actions)"] intro: pristine_access_line)

definition cloudtrail_action :: "string \<Rightarrow> bool" where
  "cloudtrail_action a \<longleftrightarrow> prefix ''aws.'' a \<or> a = ''network.sg.instance_attach'' \<or> a \<in> fst ` snd ` set ACTION_MAP"

lemma cloudtrail_action_attach: "cloudtrail_action ''network.sg.instance_attach''"
  by (simp add: cloudtrail_action_def)

lemma ct_action_named: "cloudtrail_action (fst (ct_action name service))"
proof (cases "map_of ACTION_MAP name")
  case (Some ac)
  then have "fst ac \<in> fst ` snd ` set ACTION_MAP" using map_of_SomeD[OF Some] by (metis image_eqI snd_conv)
  then show ?thesis using Some by (simp add: ct_action_def cloudtrail_action_def)
qed (simp add: ct_action_def cloudtrail_action_def)

lemma pristine_cloudtrail: "cloudtrail_parse E now ctx raw = Inr evs \<Longrightarrow> list_all (pristine ''aws.cloudtrail'' cloudtrail_action) evs"
proof -
  assume p: "cloudtrail_parse E now ctx raw = Inr evs"
  have "pristine ''aws.cloudtrail'' cloudtrail_action e" if mem: "e \<in> set evs" for e
  proof -
    obtain d detail name where r: "ct_record E now ctx d detail name = Inr e"
      by (rule cloudtrail_parse_event[OF p mem])
    have "ev_rule_matches e = []"
      using r unfolding ct_record_def Let_def sbind_Inr_iff on_dict_Inr case_prod_beta by (elim exE conjE) clarsimp
    moreover have "cloudtrail_action (ev_action e)"
      using ct_record_sel(6)[OF r] ct_action_named[of name] cloudtrail_action_attach by metis
    ultimately show ?thesis using ct_record_sel(1,2)[OF r] by (simp add: pristine_def emits_def)
  qed
  then show ?thesis by (simp add: list_all_iff)
qed

definition host_actions :: "string set" where
  "host_actions = {''host.service.health'', ''host.state.snapshot'', ''host.state.snapshot.rejected'', ''host.oom_kill'',
     ''host.auth.ssh.success'', ''host.auth.ssh.password.success'', ''host.auth.ssh.failure'', ''host.sudo.exec'',
     ''host.sudo.failure'', ''host.fim.created'', ''host.fim.modified'', ''host.fim.deleted'', ''host.fim.perm_changed'',
     ''host.fim.owner_changed'', ''host.fim.coverage''}"

lemma host_event_sel [simp]:
  "ev_source (host_event E now hc a out) = hc_source hc" "ev_action (host_event E now hc a out) = a"
  "ev_severity (host_event E now hc a out) = None" "ev_rule_matches (host_event E now hc a out) = []"
  by (simp_all add: host_event_def)

lemma host_context_module: "host_context ctx host = Some hc \<Longrightarrow> src_module (hc_source hc) = ''ec2.host''"
  by (auto simp: host_context_def split: pyval.splits if_splits)

lemma host_classify_named: "host_classify m = Some (a, v) \<Longrightarrow> a \<in> host_actions"
  by (auto simp: host_classify_def host_actions_def split: option.splits if_splits)

lemma pristine_host_plain:
  assumes hc: "src_module (hc_source hc) = ''ec2.host''"
  shows
  "pristine ''ec2.host'' (\<lambda>a. a \<in> host_actions) (heartbeat_event E now hc host d)"
  "list_all (pristine ''ec2.host'' (\<lambda>a. a \<in> host_actions)) (snapshot_events E now hc host d)"
  "list_all (pristine ''ec2.host'' (\<lambda>a. a \<in> host_actions)) (coverage_events E now hc d)"
  using hc by (auto simp: heartbeat_event_def snapshot_events_def coverage_events_def emitted_defs host_actions_def Let_def
      split: pyval.splits)

lemma pristine_oom:
  "src_module (hc_source hc) = ''ec2.host'' \<Longrightarrow> oom_event E now hc x = Inr zs \<Longrightarrow> list_all (pristine ''ec2.host'' (\<lambda>a. a \<in> host_actions)) zs"
  by (auto simp: oom_event_def emitted_defs host_actions_def Let_def split: pyval.splits)

lemma pristine_host_auth:
  "src_module (hc_source hc) = ''ec2.host'' \<Longrightarrow> auth_event E now hc x = Inr zs \<Longrightarrow> list_all (pristine ''ec2.host'' (\<lambda>a. a \<in> host_actions)) zs"
  by (auto simp: auth_event_def emitted_defs Let_def split: option.splits if_splits) (erule host_classify_named)

lemma fim_actions_named: "map_of FIM_ACTIONS k = Some a \<Longrightarrow> a \<in> host_actions"
  by (auto simp: FIM_ACTIONS_def host_actions_def split: if_splits)

lemma pristine_fim:
  "src_module (hc_source hc) = ''ec2.host'' \<Longrightarrow> fim_event E now hc x = Inr zs \<Longrightarrow> list_all (pristine ''ec2.host'' (\<lambda>a. a \<in> host_actions)) zs"
proof -
  have "lookup_key FIM_ACTIONS v = Inr (Some a) \<Longrightarrow> a \<in> host_actions" for v a
    by (cases v) (auto dest: fim_actions_named)
  then show "src_module (hc_source hc) = ''ec2.host'' \<Longrightarrow> fim_event E now hc x = Inr zs \<Longrightarrow> ?thesis"
    by (auto simp: fim_event_def emitted_defs Let_def split: pyval.splits option.splits if_splits)
qed

lemma pristine_host: "host_parse E now ctx raw = Inr evs \<Longrightarrow> list_all (pristine ''ec2.host'' (\<lambda>a. a \<in> host_actions)) evs"
proof -
  assume "host_parse E now ctx raw = Inr evs"
  then consider "evs = []" | hc host d ooms os lines ls changes cs where
    "evs = heartbeat_event E now hc host d # snapshot_events E now hc host d @ os @ ls @ cs @ coverage_events E now hc d"
    "host_context ctx host = Some hc" "collect (oom_event E now hc) ooms = Inr os"
    "collect (auth_event E now hc) lines = Inr ls" "collect (fim_event E now hc) changes = Inr cs"
    by (auto simp: host_parse_def sbind_Inr_iff Let_def split: pyval.splits if_splits option.splits)
  then show ?thesis
  proof cases
    case 2
    note hc = host_context_module[OF 2(2)]
    have "list_all (pristine ''ec2.host'' (\<lambda>a. a \<in> host_actions)) os"
      "list_all (pristine ''ec2.host'' (\<lambda>a. a \<in> host_actions)) ls"
      "list_all (pristine ''ec2.host'' (\<lambda>a. a \<in> host_actions)) cs"
      using collect_with[OF 2(3), where P = "pristine _ _"] collect_with[OF 2(4), where P = "pristine _ _"]
        collect_with[OF 2(5), where P = "pristine _ _"] pristine_oom[OF hc] pristine_host_auth[OF hc]
        pristine_fim[OF hc] by metis+
    then show ?thesis using pristine_host_plain[OF hc] by (simp add: 2(1))
  qed simp
qed

definition rds_actions :: "string set" where
  "rds_actions = {''rds.session.start'', ''rds.session.end'', ''rds.auth.failure'', ''rds.error'', ''rds.query.ddl'',
     ''rds.query.role'', ''rds.query.read'', ''rds.query.write'', ''rds.query.function'', ''rds.query.misc'',
     ''rds.proxy.client.connect'', ''rds.proxy.client.disconnect'', ''rds.proxy.backend_hba_reject'', ''rds.proxy.misconfig''}"

definition rds_pristine :: "pyerr + event option \<Rightarrow> bool" where
  "rds_pristine r \<longleftrightarrow> (\<forall>e. r = Inr (Some e) \<longrightarrow> pristine ''aws.rds'' (\<lambda>a. a \<in> rds_actions) e)"

lemma rds_pristine_simps [simp]: "rds_pristine (Inl e)" "rds_pristine (Inr None)"
  by (simp_all add: rds_pristine_def)

lemma rds_mkevent_pristine [intro]:
  "a \<in> rds_actions \<Longrightarrow> rds_pristine (some_event (rds_mkevent E now a out ts db st u d ip port sid x t))"
  by (auto simp: rds_pristine_def some_event_def rds_mkevent_def emitted_defs)

lemma pgaudit_action_named: "pgaudit_action c \<in> rds_actions"
  by (simp add: pgaudit_action_def Let_def rds_actions_def)

lemma rds_pristine_pg_parts:
  "rds_pristine (pg_connect E now ts db t pid ip port h c)"
  "rds_pristine (pg_disconnect E now ts db t pid ip port h)"
  "rds_pristine (pg_audit E now ts db t pid u dn ip port h)"
  unfolding pg_connect_def pg_disconnect_def pg_audit_def Let_def
  by (auto split: option.splits intro!: rds_mkevent_pristine pgaudit_action_named simp: rds_actions_def)

lemma rds_pristine_postgres: "rds_pristine (parse_postgres_line E now ts db t line c)"
  unfolding parse_postgres_line_def Let_def case_prod_beta
  by (auto split: option.splits intro!: rds_mkevent_pristine rds_pristine_pg_parts simp: rds_actions_def)

lemma rds_pristine_proxy_parts:
  "rds_pristine (parse_proxy_bare_line E now ts db t line)"
  "rds_pristine (proxy_failure_line E now ts db t tags conn' msg c)"
  "proxy_client_line E now ts db t tags conn msg c = Some (r, c') \<Longrightarrow> rds_pristine r"
  unfolding parse_proxy_bare_line_def proxy_failure_line_def proxy_client_line_def Let_def
  by (auto split: option.splits if_splits intro!: rds_mkevent_pristine simp: rds_actions_def)

lemma rds_pristine_proxy: "rds_pristine (fst (parse_proxy_line E now ts db t line c))"
  unfolding parse_proxy_line_def Let_def
  by (auto split: option.splits if_splits intro: rds_pristine_proxy_parts)

lemma rds_pristine_line: "rds_pristine (fst (rds_line E now db st t x c))"
  by (auto simp: rds_line_def Let_def rds_pristine_proxy rds_pristine_postgres split: sum.splits)

lemma pristine_rds_lines:
  "fst (rds_lines E now db st t xs c) = Inr evs \<Longrightarrow> list_all (pristine ''aws.rds'' (\<lambda>a. a \<in> rds_actions)) evs"
proof (induction xs arbitrary: c evs)
  case (Cons x xs)
  obtain r c1 where r: "rds_line E now db st t x c = (r, c1)" by fastforce
  have "rds_pristine r" using rds_pristine_line[of E now db st t x c] r by simp
  then show ?case using Cons r
    by (auto simp: rds_pristine_def case_prod_beta Let_def sbind_Inr_iff split: sum.splits option.splits)
qed simp

lemma pristine_rds: "fst (rds_parse E now ctx raw c) = Inr evs \<Longrightarrow> list_all (pristine ''aws.rds'' (\<lambda>a. a \<in> rds_actions)) evs"
  by (auto simp: rds_parse_def pristine_rds_lines split: pyval.splits sum.splits)

section \<open>The contract holds\<close>

interpretation generic_contract: severity_free "run_adapter Generic_adapter" cx_module "\<lambda>a. True"
  by (rule pristine_contract) (simp add: pure_parse_Inr pristine_generic)
interpretation vpn_contract: severity_free "run_adapter Vpn_adapter" "\<lambda>_. ''vpn.openvpn''" "\<lambda>a. a \<in> vpn_actions"
  by (rule pristine_contract) (simp add: pure_parse_Inr pristine_vpn)
interpretation cloudtrail_contract: severity_free "run_adapter CloudTrail_adapter" "\<lambda>_. ''aws.cloudtrail''" cloudtrail_action
  by (rule pristine_contract) (simp add: pure_parse_Inr pristine_cloudtrail)
interpretation rds_contract: severity_free "run_adapter Rds_adapter" "\<lambda>_. ''aws.rds''" "\<lambda>a. a \<in> rds_actions"
  by (rule pristine_contract) (simp add: pristine_rds)
interpretation api_contract: severity_free "run_adapter ApiGw_adapter" "\<lambda>_. ''aws.api_gw''" "\<lambda>a. a \<in> api_actions"
  by (rule pristine_contract) (simp add: pure_parse_Inr pristine_api)
interpretation host_contract: severity_free "run_adapter Ec2Host_adapter" "\<lambda>_. ''ec2.host''" "\<lambda>a. a \<in> host_actions"
  by (rule pristine_contract) (simp add: pure_parse_Inr pristine_host)
interpretation probe_contract: severity_free "run_adapter EcsProbe_adapter" "\<lambda>_. ''ecs.probe''" "\<lambda>a. a \<in> probe_actions"
  by (rule pristine_contract) (simp add: pure_parse_Inr pristine_probe)
interpretation s3_contract: severity_free "run_adapter S3_adapter" "\<lambda>_. ''aws.s3''" "\<lambda>a. a \<in> s3_actions"
  by (rule pristine_contract) (simp add: pure_parse_Inr pristine_s3)
interpretation access_contract: severity_free "run_adapter S3Access_adapter" "\<lambda>_. ''aws.s3.access''" "\<lambda>a. a \<in> access_actions"
  by (rule pristine_contract) (simp add: pure_parse_Inr pristine_access)
interpretation cert_contract: severity_free "run_adapter Cert_adapter" "\<lambda>_. ''cert''" "\<lambda>a. a \<in> cert_actions"
  by (rule pristine_contract) (simp add: pure_parse_Inr pristine_cert)
interpretation posture_contract: adapter_contract "run_adapter Posture_adapter" "\<lambda>_. ''aws.posture''" "\<lambda>a. a \<in> posture_actions"
  by unfold_locales (simp add: pure_parse_Inr emits_posture)

section \<open>All adapters\<close>

text \<open>The generic adapter stamps the module the payload was addressed to; it is also the fallback.\<close>

definition adapter_origin :: "adapter \<Rightarrow> ingest_ctx \<Rightarrow> string" where
  "adapter_origin a ctx = (if a = Generic_adapter then cx_module ctx else adapter_module a)"

primrec adapter_vocabulary :: "adapter \<Rightarrow> string \<Rightarrow> bool" where
  "adapter_vocabulary Generic_adapter = (\<lambda>a. True)"
| "adapter_vocabulary Vpn_adapter = (\<lambda>a. a \<in> vpn_actions)"
| "adapter_vocabulary CloudTrail_adapter = cloudtrail_action"
| "adapter_vocabulary Rds_adapter = (\<lambda>a. a \<in> rds_actions)"
| "adapter_vocabulary ApiGw_adapter = (\<lambda>a. a \<in> api_actions)"
| "adapter_vocabulary Ec2Host_adapter = (\<lambda>a. a \<in> host_actions)"
| "adapter_vocabulary EcsProbe_adapter = (\<lambda>a. a \<in> probe_actions)"
| "adapter_vocabulary S3_adapter = (\<lambda>a. a \<in> s3_actions)"
| "adapter_vocabulary S3Access_adapter = (\<lambda>a. a \<in> access_actions)"
| "adapter_vocabulary Posture_adapter = (\<lambda>a. a \<in> posture_actions)"
| "adapter_vocabulary Cert_adapter = (\<lambda>a. a \<in> cert_actions)"

lemmas all_emitted = generic_contract.emitted vpn_contract.emitted cloudtrail_contract.emitted rds_contract.emitted
  api_contract.emitted host_contract.emitted probe_contract.emitted s3_contract.emitted access_contract.emitted
  cert_contract.emitted posture_contract.emitted

lemmas all_unscored = generic_contract.unscored vpn_contract.unscored cloudtrail_contract.unscored rds_contract.unscored
  api_contract.unscored host_contract.unscored probe_contract.unscored s3_contract.unscored access_contract.unscored
  cert_contract.unscored

lemma run_adapter_emits:
  "fst (run_adapter a E now ctx raw c) = Inr evs \<Longrightarrow> list_all (emits (adapter_origin a ctx) (adapter_vocabulary a)) evs"
  by (cases a) (simp_all only: adapter_origin_def adapter_module.simps adapter_vocabulary.simps adapter.distinct
      if_True if_False refl all_emitted)

lemma run_adapter_unscored:
  "fst (run_adapter a E now ctx raw c) = Inr evs \<Longrightarrow> a \<noteq> Posture_adapter \<Longrightarrow> list_all (\<lambda>e. ev_severity e = None) evs"
  by (cases a) (blast intro: all_unscored)+

text \<open>C5: Every event an adapter makes of any payload carries the module of that adapter (the generic one:
  the module the payload was addressed to), has an action of the adapter's fixed vocabulary and no rule
  match; no adapter but the posture adapter gives it a severity.
\<close>
theorem adapters_keep_contract:
  assumes "fst (run_adapter a E now ctx raw c) = Inr evs" and "e \<in> set evs"
  shows "src_module (ev_source e) = adapter_origin a ctx \<and> adapter_vocabulary a (ev_action e) \<and>
    ev_rule_matches e = [] \<and> (a \<noteq> Posture_adapter \<longrightarrow> ev_severity e = None)"
  using run_adapter_emits[OF assms(1)] run_adapter_unscored[OF assms(1)] assms(2)
  by (auto simp: list_all_iff emits_def)

definition demo_cert_report :: pyval where
  "demo_cert_report = PyDict [(''targets'', PyList [PyDict [(''host'', PyStr ''h''), (''ok'', PyBool False)]])]"

lemma demo_cert:
  "\<exists>e. fst (run_adapter Cert_adapter demo_env 0 demo_ct_ctx demo_cert_report empty_cache) = Inr [e] \<and>
     ev_action e = ''cert.probe.failed''"
  by (simp add: pure_parse_def cert_parse_def demo_cert_report_def iter_or_empty_def collect_Cons cert_entry_def
      cert_action_for_def checked_target_def cert_target_id_def py_or_def dget_def)

lemma adapters_keep_contract_witness:
  "\<exists>e. fst (run_adapter Cert_adapter demo_env 0 demo_ct_ctx demo_cert_report empty_cache) = Inr [e] \<and>
     src_module (ev_source e) = ''cert'' \<and> ev_severity e = None \<and> ev_action e \<in> cert_actions"
proof -
  obtain e where e: "fst (run_adapter Cert_adapter demo_env 0 demo_ct_ctx demo_cert_report empty_cache) = Inr [e]"
    using demo_cert by blast
  then show ?thesis using adapters_keep_contract[OF e, of e] by (simp add: adapter_origin_def)
qed

end
