(* ===== verification/Operators.thy ===== *)
theory Operators
  imports EventModel
begin

text \<open>
  The operator vocabulary of rule leaves (\<open>src/blackwatch/rules/operators.py\<close>): one function
  per operator on the resolved field value and the expected value. Only \<open>regex\<close> can raise
  (a pattern that does not compile); every other operator is total.
\<close>

section \<open>The operators\<close>

definition as_choices :: "pyval \<Rightarrow> pyval list" where
  "as_choices v = (case v of PyList xs \<Rightarrow> xs | _ \<Rightarrow> [v])"

definition op_equals :: "pyval \<Rightarrow> pyval \<Rightarrow> bool" where
  "op_equals field expected = py_eq field expected"

definition op_not_equals :: "pyval \<Rightarrow> pyval \<Rightarrow> bool" where
  "op_not_equals field expected = (\<not> py_eq field expected)"

definition op_in :: "pyval \<Rightarrow> pyval \<Rightarrow> bool" where
  "op_in field expected =
     (let choices = as_choices expected
      in case field of PyList items \<Rightarrow> list_ex (\<lambda>item. py_in_list item choices) items
         | _ \<Rightarrow> py_in_list field choices)"

definition op_not_in :: "pyval \<Rightarrow> pyval \<Rightarrow> bool" where
  "op_not_in field expected = (if field = PyNone then False else \<not> op_in field expected)"

definition op_contains :: "pyenv \<Rightarrow> pyval \<Rightarrow> pyval \<Rightarrow> bool" where
  "op_contains E field expected =
     (case field of PyNone \<Rightarrow> False
      | PyList items \<Rightarrow> py_in_list expected items
      | _ \<Rightarrow> sublist (py_str E expected) (py_str E field))"

definition op_icontains :: "pyenv \<Rightarrow> pyval \<Rightarrow> pyval \<Rightarrow> bool" where
  "op_icontains E field expected =
     (if field = PyNone then False
      else sublist (str_lower (py_str E expected)) (str_lower (py_str E field)))"

definition op_regex :: "pyenv \<Rightarrow> pyval \<Rightarrow> pyval \<Rightarrow> pyerr + bool" where
  "op_regex E field expected =
     (if field = PyNone then Inr False
      else case re_search E (py_str E expected) (py_str E field) of
             None \<Rightarrow> Inl (RegexError (py_str E expected)) | Some b \<Rightarrow> Inr b)"

text \<open>\<open>address in network\<close>: same version, and equal after masking to the prefix.\<close>

fun in_network :: "ip_addr \<Rightarrow> ip_addr \<times> nat \<Rightarrow> bool" where
  "in_network (IPv4 a) (IPv4 n, p) = (a div 2 ^ (32 - p) = n div 2 ^ (32 - p))"
| "in_network (IPv6 a) (IPv6 n, p) = (a div 2 ^ (128 - p) = n div 2 ^ (128 - p))"
| "in_network _ _ = False"

definition cidr_hit :: "pyenv \<Rightarrow> ip_addr \<times> nat \<Rightarrow> pyval \<Rightarrow> bool" where
  "cidr_hit E network addr =
     (case parse_ip E (py_str E addr) of None \<Rightarrow> False | Some a \<Rightarrow> in_network a network)"

definition op_cidr :: "pyenv \<Rightarrow> pyval \<Rightarrow> pyval \<Rightarrow> bool" where
  "op_cidr E field expected =
     (if field = PyNone then False
      else case parse_net E (py_str E expected) of None \<Rightarrow> False
           | Some network \<Rightarrow>
               (case field of PyList items \<Rightarrow> list_ex (cidr_hit E network) items
                | _ \<Rightarrow> cidr_hit E network field))"

definition op_exists :: "pyval \<Rightarrow> pyval \<Rightarrow> bool" where
  "op_exists field expected = (field \<noteq> PyNone)"

definition op_startswith :: "pyenv \<Rightarrow> pyval \<Rightarrow> pyval \<Rightarrow> bool" where
  "op_startswith E field expected =
     (case as_str field of None \<Rightarrow> False | Some s \<Rightarrow> prefix (py_str E expected) s)"

definition op_endswith :: "pyenv \<Rightarrow> pyval \<Rightarrow> pyval \<Rightarrow> bool" where
  "op_endswith E field expected =
     (case as_str field of None \<Rightarrow> False | Some s \<Rightarrow> suffix (py_str E expected) s)"

text \<open>The dispatch table \<open>OPERATORS\<close>; \<open>None\<close> is a name that is not in it.\<close>

definition operator_names :: "string list" where
  "operator_names = [''equals'', ''not_equals'', ''in'', ''not_in'', ''contains'', ''icontains'',
     ''regex'', ''cidr'', ''exists'', ''startswith'', ''endswith'']"

definition apply_operator :: "pyenv \<Rightarrow> string \<Rightarrow> pyval \<Rightarrow> pyval \<Rightarrow> (pyerr + bool) option" where
  "apply_operator E name f v =
     (if name = ''equals'' then Some (Inr (op_equals f v))
      else if name = ''not_equals'' then Some (Inr (op_not_equals f v))
      else if name = ''in'' then Some (Inr (op_in f v))
      else if name = ''not_in'' then Some (Inr (op_not_in f v))
      else if name = ''contains'' then Some (Inr (op_contains E f v))
      else if name = ''icontains'' then Some (Inr (op_icontains E f v))
      else if name = ''regex'' then Some (op_regex E f v)
      else if name = ''cidr'' then Some (Inr (op_cidr E f v))
      else if name = ''exists'' then Some (Inr (op_exists f v))
      else if name = ''startswith'' then Some (Inr (op_startswith E f v))
      else if name = ''endswith'' then Some (Inr (op_endswith E f v))
      else None)"

section \<open>Lemmas\<close>

lemma apply_operator_known: "apply_operator E name f v \<noteq> None \<longleftrightarrow> name \<in> set operator_names"
  by (auto simp: apply_operator_def operator_names_def)

lemma apply_operator_total:
  assumes "name \<in> set operator_names" "name \<noteq> ''regex''"
  shows "\<exists>b. apply_operator E name f v = Some (Inr b)"
  using assms unfolding operator_names_def by (auto simp: apply_operator_def)

lemma op_in_strs:
  "op_in (PyStr s) (PyList (map PyStr xs)) \<longleftrightarrow> s \<in> set xs"
  by (simp add: op_in_def as_choices_def)

lemma op_in_list_strs:
  "op_in (PyList (map PyStr ys)) (PyList (map PyStr xs)) \<longleftrightarrow> set ys \<inter> set xs \<noteq> {}"
  by (auto simp: op_in_def as_choices_def list_ex_iff)

lemma py_eq_None: "py_eq v PyNone \<longleftrightarrow> v = PyNone"
  by (cases v) auto

lemma op_in_None_strs [simp]: "op_in PyNone (PyList (map PyStr xs)) \<longleftrightarrow> False"
  by (auto simp: op_in_def as_choices_def py_in_list_def list_ex_iff)

text \<open>A missing field matches no operator but \<open>equals\<close>, \<open>in\<close> and \<open>not_equals\<close>.\<close>

lemma missing_field:
  "\<not> op_not_in PyNone v" "\<not> op_contains E PyNone v" "\<not> op_icontains E PyNone v"
  "op_regex E PyNone v = Inr False" "\<not> op_cidr E PyNone v" "\<not> op_exists PyNone v"
  "\<not> op_startswith E PyNone v" "\<not> op_endswith E PyNone v"
  by (simp_all add: op_not_in_def op_contains_def op_icontains_def op_regex_def op_cidr_def
      op_exists_def op_startswith_def op_endswith_def)

text \<open>Membership in a network is an interval of addresses.\<close>

lemma in_network_IPv4_interval:
  "in_network (IPv4 a) (IPv4 n, p) \<longleftrightarrow>
     (n div 2 ^ (32 - p)) * 2 ^ (32 - p) \<le> a \<and> a < (n div 2 ^ (32 - p) + 1) * 2 ^ (32 - p)"
proof -
  define k :: nat where "k = 2 ^ (32 - p)"
  have k: "0 < k" by (simp add: k_def)
  have "a div k = n div k \<longleftrightarrow> (n div k) * k \<le> a \<and> a < (n div k + 1) * k"
    using k by (metis add.commute div_nat_eqI dividend_less_times_div div_times_less_eq_dividend
        mult.commute mult_Suc plus_1_eq_Suc)
  then show ?thesis by (simp add: k_def)
qed

end
