(* ===== verification/RuleEngine.thy ===== *)
theory RuleEngine
  imports Operators
begin

text \<open>
  Detection rules (\<open>src/blackwatch/rules/model.py\<close>, \<open>rules/engine.py\<close>): condition trees, the
  resolution of field paths, the evaluation of a condition (with Python's short-circuit order,
  so that an exception in a later branch is not raised when an earlier one decides), the rule
  engine with its two mutators, the loading of rule files and the listing of matched actions.
\<close>

section \<open>Conditions and rules\<close>

datatype condition = Condition
  (cond_field: "string option") (cond_op: "string option") (cond_value: pyval)
  (cond_all: "condition list option") (cond_any: "condition list option")
  (cond_not: "condition option")

definition leaf :: "string \<Rightarrow> string \<Rightarrow> pyval \<Rightarrow> condition" where
  "leaf f op v = Condition (Some f) (Some op) v None None None"

definition all_of :: "condition list \<Rightarrow> condition" where
  "all_of cs = Condition None None PyNone (Some cs) None None"

definition any_of :: "condition list \<Rightarrow> condition" where
  "any_of cs = Condition None None PyNone None (Some cs) None"

definition not_of :: "condition \<Rightarrow> condition" where
  "not_of c = Condition None None PyNone None None (Some c)"

datatype rule_action = Alert | Suppress

record rule =
  rule_id :: string
  rule_title :: string
  rule_description :: string
  rule_enabled :: bool
  rule_act :: rule_action
  rule_severity :: "severity option"
  rule_tags :: "string list"
  rule_match :: condition

section \<open>Field paths\<close>

text \<open>\<open>getattr(obj, part, None)\<close> and \<open>dict.get\<close>. The model knows the fields of the event's own records, the keys
  of dicts and the two attributes of an enum member. The attributes every Python object has besides - the \<open>year\<close> of a
  time, the methods of a string or a list - are read as \<open>None\<close> here; no rule under \<open>rules/\<close> names one.\<close>

definition get_attr :: "pyval \<Rightarrow> string \<Rightarrow> pyval" where
  "get_attr obj part =
     (case obj of PyDict d \<Rightarrow> dget d part
      | PyObj c d \<Rightarrow> dget d part
      | PyEnum n v \<Rightarrow> if part = ''value'' then PyStr v else if part = ''name'' then PyStr n
                      else PyNone
      | _ \<Rightarrow> PyNone)"

fun get_path :: "pyval \<Rightarrow> string list \<Rightarrow> pyval" where
  "get_path obj [] = obj"
| "get_path obj (part # parts) =
     (if obj = PyNone then PyNone else get_path (get_attr obj part) parts)"

definition enum_value :: "pyval \<Rightarrow> pyval" where
  "enum_value v = (case v of PyEnum n s \<Rightarrow> PyStr s | _ \<Rightarrow> v)"

definition get_field :: "event \<Rightarrow> string \<Rightarrow> pyval" where
  "get_field event path =
     (if path = ''observables.value''
      then PyList (map (\<lambda>b. PyStr (obs_value b)) (ev_observables event))
      else if path = ''observables.type''
      then PyList (map (\<lambda>b. PyStr (observable_value (obs_type b))) (ev_observables event))
      else enum_value (get_path (event_obj event) (split_on (CHR ''.'') path)))"

section \<open>Evaluation of conditions\<close>

definition eval_leaf ::
  "pyenv \<Rightarrow> event \<Rightarrow> string option \<Rightarrow> string option \<Rightarrow> pyval \<Rightarrow> pyerr + bool" where
  "eval_leaf E event field op v =
     (if \<not> str_truthy field \<or> \<not> str_truthy op then Inr False
      else case apply_operator E (the op) (get_field event (the field)) v of
             None \<Rightarrow> Inl (ValueError (''unknown operator: '' @ the op))
           | Some r \<Rightarrow> r)"

fun eval_condition :: "pyenv \<Rightarrow> event \<Rightarrow> condition \<Rightarrow> pyerr + bool"
  and eval_all :: "pyenv \<Rightarrow> event \<Rightarrow> condition list \<Rightarrow> pyerr + bool"
  and eval_any :: "pyenv \<Rightarrow> event \<Rightarrow> condition list \<Rightarrow> pyerr + bool" where
  "eval_condition E event (Condition field op v al an nt) =
     (case al of Some cs \<Rightarrow> eval_all E event cs
      | None \<Rightarrow>
        (case an of Some cs \<Rightarrow> eval_any E event cs
         | None \<Rightarrow>
           (case nt of
              Some c \<Rightarrow> (case eval_condition E event c of Inl e \<Rightarrow> Inl e | Inr b \<Rightarrow> Inr (\<not> b))
            | None \<Rightarrow> eval_leaf E event field op v)))"
| "eval_all E event [] = Inr True"
| "eval_all E event (c # cs) =
     (case eval_condition E event c of Inl e \<Rightarrow> Inl e
      | Inr b \<Rightarrow> if b then eval_all E event cs else Inr False)"
| "eval_any E event [] = Inr False"
| "eval_any E event (c # cs) =
     (case eval_condition E event c of Inl e \<Rightarrow> Inl e
      | Inr b \<Rightarrow> if b then Inr True else eval_any E event cs)"

section \<open>The engine\<close>

fun matched_rules :: "pyenv \<Rightarrow> rule list \<Rightarrow> event \<Rightarrow> pyerr + rule list" where
  "matched_rules E [] event = Inr []"
| "matched_rules E (r # rs) event =
     (if \<not> rule_enabled r then matched_rules E rs event
      else case eval_condition E event (rule_match r) of Inl e \<Rightarrow> Inl e
           | Inr b \<Rightarrow> (case matched_rules E rs event of Inl e \<Rightarrow> Inl e
                       | Inr ms \<Rightarrow> Inr (if b then r # ms else ms)))"

fun best_severity :: "severity option \<Rightarrow> rule list \<Rightarrow> severity option" where
  "best_severity best [] = best"
| "best_severity best (r # rs) =
     (case rule_severity r of None \<Rightarrow> best_severity best rs
      | Some s \<Rightarrow>
          if best = None \<or> severity_rank (Some s) > severity_rank best
          then best_severity (Some s) rs else best_severity best rs)"

definition assess :: "rule list \<Rightarrow> event \<Rightarrow> event" where
  "assess matched event =
     (if matched = [] then event
      else
        let suppressed = filter (\<lambda>r. rule_act r = Suppress) matched;
            tags = ev_tags event @ concat (map rule_tags matched);
            ev = event\<lparr>ev_rule_matches := map rule_id matched\<rparr>
        in if suppressed \<noteq> []
           then ev\<lparr>ev_severity := Some S_informational,
                   ev_tags := sorted_set (tags @ [''suppressed''])\<rparr>
           else ev\<lparr>ev_severity := best_severity None matched, ev_tags := sorted_set tags\<rparr>)"

definition evaluate :: "pyenv \<Rightarrow> rule list \<Rightarrow> event \<Rightarrow> pyerr + event" where
  "evaluate E rules event =
     (case matched_rules E rules event of Inl e \<Rightarrow> Inl e | Inr matched \<Rightarrow> Inr (assess matched event))"

fun set_enabled :: "rule list \<Rightarrow> string \<Rightarrow> bool \<Rightarrow> rule list \<times> bool" where
  "set_enabled [] i b = ([], False)"
| "set_enabled (r # rs) i b =
     (if rule_id r = i then (r\<lparr>rule_enabled := b\<rparr> # rs, True)
      else let (rs', ok) = set_enabled rs i b in (r # rs', ok))"

fun set_severity :: "rule list \<Rightarrow> string \<Rightarrow> severity option \<Rightarrow> rule list \<times> bool" where
  "set_severity [] i s = ([], False)"
| "set_severity (r # rs) i s =
     (if rule_id r = i then (r\<lparr>rule_severity := s\<rparr> # rs, True)
      else let (rs', ok) = set_severity rs i s in (r # rs', ok))"

section \<open>Loading rule files\<close>

text \<open>
  A parsed YAML file: a list whose items are rule mappings (already validated by the model
  class) or other values, or a document that is not a list. The directory listing comes sorted.
\<close>

datatype rule_doc = DocList "rule option list" | DocOther

fun load_items ::
  "string \<Rightarrow> rule option list \<Rightarrow> rule list \<times> string list \<Rightarrow> pyerr + rule list \<times> string list" where
  "load_items file [] acc = Inr acc"
| "load_items file (None # items) acc = load_items file items acc"
| "load_items file (Some r # items) (rules, seen) =
     (if rule_id r \<in> set seen
      then Inl (ValueError (''duplicate rule id '' @ rule_id r @ '' in '' @ file))
      else load_items file items (rules @ [r], rule_id r # seen))"

fun load_docs ::
  "(string \<times> rule_doc) list \<Rightarrow> rule list \<times> string list \<Rightarrow> pyerr + rule list \<times> string list" where
  "load_docs [] acc = Inr acc"
| "load_docs ((file, doc) # docs) acc =
     (case doc of DocOther \<Rightarrow> load_docs docs acc
      | DocList items \<Rightarrow>
          (case load_items file items acc of Inl e \<Rightarrow> Inl e | Inr acc' \<Rightarrow> load_docs docs acc'))"

definition load_rules :: "(string \<times> rule_doc) list option \<Rightarrow> pyerr + rule list" where
  "load_rules dir =
     (case dir of None \<Rightarrow> Inr []
      | Some docs \<Rightarrow> (case load_docs docs ([], []) of Inl e \<Rightarrow> Inl e | Inr acc \<Rightarrow> Inr (fst acc)))"

section \<open>Listing the actions a rule fires on\<close>

fun add_action :: "pyval \<Rightarrow> string list \<Rightarrow> string list"
  and add_actions :: "pyval list \<Rightarrow> string list \<Rightarrow> string list" where
  "add_action (PyStr s) out = (if s \<in> set out then out else out @ [s])"
| "add_action (PyList vs) out = add_actions vs out"
| "add_action v out = out"
| "add_actions [] out = out"
| "add_actions (v # vs) out = add_actions vs (add_action v out)"

fun walk_actions :: "condition \<Rightarrow> string list \<Rightarrow> string list"
  and walk_all_actions :: "condition list \<Rightarrow> string list \<Rightarrow> string list" where
  "walk_actions (Condition field op v al an nt) out =
     (case al of Some cs \<Rightarrow> walk_all_actions cs out
      | None \<Rightarrow>
        (case an of Some cs \<Rightarrow> walk_all_actions cs out
         | None \<Rightarrow>
           (case nt of Some c \<Rightarrow> out
            | None \<Rightarrow> if field = Some ''action'' then add_action v out else out)))"
| "walk_all_actions [] out = out"
| "walk_all_actions (c # cs) out = walk_all_actions cs (walk_actions c out)"

definition extract_matched_actions :: "condition \<Rightarrow> string list" where
  "extract_matched_actions c = walk_actions c []"

section \<open>Reference semantics of conditions\<close>

text \<open>
  What a condition means when nothing raises: the groups as conjunction, disjunction and
  negation. \<open>cond_safe\<close> says that no leaf of the tree raises on this event; \<open>cond_known\<close> is the static
  check that its operators are known, and \<open>regex_patterns\<close> are the patterns of its \<open>regex\<close> leaves.
\<close>

fun cond_holds :: "pyenv \<Rightarrow> event \<Rightarrow> condition \<Rightarrow> bool" where
  "cond_holds E event (Condition field op v al an nt) =
     (case al of Some cs \<Rightarrow> list_all (cond_holds E event) cs
      | None \<Rightarrow>
        (case an of Some cs \<Rightarrow> list_ex (cond_holds E event) cs
         | None \<Rightarrow>
           (case nt of Some c \<Rightarrow> \<not> cond_holds E event c
            | None \<Rightarrow> eval_leaf E event field op v = Inr True)))"

fun cond_safe :: "pyenv \<Rightarrow> event \<Rightarrow> condition \<Rightarrow> bool" where
  "cond_safe E event (Condition field op v al an nt) =
     (case al of Some cs \<Rightarrow> list_all (cond_safe E event) cs
      | None \<Rightarrow>
        (case an of Some cs \<Rightarrow> list_all (cond_safe E event) cs
         | None \<Rightarrow>
           (case nt of Some c \<Rightarrow> cond_safe E event c
            | None \<Rightarrow> (case eval_leaf E event field op v of Inl e \<Rightarrow> False | Inr b \<Rightarrow> True))))"

fun cond_known :: "condition \<Rightarrow> bool" where
  "cond_known (Condition field op v al an nt) =
     (case al of Some cs \<Rightarrow> list_all cond_known cs
      | None \<Rightarrow>
        (case an of Some cs \<Rightarrow> list_all cond_known cs
         | None \<Rightarrow>
           (case nt of Some c \<Rightarrow> cond_known c
            | None \<Rightarrow> \<not> str_truthy op \<or> the op \<in> set operator_names)))"

fun regex_patterns :: "pyenv \<Rightarrow> condition \<Rightarrow> string list" where
  "regex_patterns E (Condition field op v al an nt) =
     (case al of Some cs \<Rightarrow> concat (map (regex_patterns E) cs)
      | None \<Rightarrow>
        (case an of Some cs \<Rightarrow> concat (map (regex_patterns E) cs)
         | None \<Rightarrow>
           (case nt of Some c \<Rightarrow> regex_patterns E c
            | None \<Rightarrow> if op = Some ''regex'' then [py_str E v] else [])))"

text \<open>A pattern compiles or not, whatever it is applied to.\<close>

definition compiles :: "pyenv \<Rightarrow> string \<Rightarrow> bool" where
  "compiles E p \<longleftrightarrow> (\<forall>s. re_search E p s \<noteq> None)"

lemma eval_all_safe:
  "(\<And>c. c \<in> set cs \<Longrightarrow> eval_condition E ev c = Inr (P c)) \<Longrightarrow>
   eval_all E ev cs = Inr (list_all P cs)"
  by (induction cs) auto

lemma eval_any_safe:
  "(\<And>c. c \<in> set cs \<Longrightarrow> eval_condition E ev c = Inr (P c)) \<Longrightarrow>
   eval_any E ev cs = Inr (list_ex P cs)"
  by (induction cs) auto

lemma eval_leaf_known:
  assumes "\<not> str_truthy op \<or> the op \<in> set operator_names"
    and "op = Some ''regex'' \<Longrightarrow> compiles E (py_str E v)"
  shows "\<exists>b. eval_leaf E ev field op v = Inr b"
proof (cases "op = Some ''regex''")
  case True
  then obtain b where "re_search E (py_str E v) (py_str E (get_field ev (the field))) = Some b"
    using assms(2) unfolding compiles_def by blast
  then have "\<exists>b. op_regex E (get_field ev (the field)) v = Inr b" by (auto simp: op_regex_def)
  then show ?thesis using True by (auto simp: eval_leaf_def apply_operator_def)
next
  case False
  then show ?thesis using assms(1) apply_operator_total[of "the op" E "get_field ev (the field)" v]
    by (cases op) (auto simp: eval_leaf_def)
qed

lemma eval_leaf_error:
  assumes "eval_leaf E ev field op v = Inl e" and "\<not> str_truthy op \<or> the op \<in> set operator_names"
  shows "op = Some ''regex'' \<and> e = RegexError (py_str E v) \<and> \<not> compiles E (py_str E v)"
proof -
  have op: "op = Some ''regex''" using assms eval_leaf_known[of op E v ev field] by force
  then have "op_regex E (get_field ev (the field)) v = Inl e"
    using assms(1) by (simp add: eval_leaf_def apply_operator_def split: if_splits)
  then show ?thesis using op by (auto simp: op_regex_def compiles_def split: if_splits option.splits)
qed

lemma cond_known_safe: "cond_known c \<Longrightarrow> \<forall>p \<in> set (regex_patterns E c). compiles E p \<Longrightarrow> cond_safe E ev c"
proof (induction c rule: cond_known.induct)
  case (1 field op v al an nt)
  show ?case
    using "1.prems" "1.IH" eval_leaf_known[of op E v ev field]
    by (auto simp: list_all_iff split: option.splits sum.splits)
qed

text \<open>Every error of a group is an error of one of its members.\<close>

lemma eval_group_error:
  "eval_all E ev cs = Inl e \<Longrightarrow> \<exists>c \<in> set cs. eval_condition E ev c = Inl e"
  "eval_any E ev cs = Inl e \<Longrightarrow> \<exists>c \<in> set cs. eval_condition E ev c = Inl e"
  by (induction cs) (auto split: sum.splits if_splits)

lemma eval_condition_error:
  "cond_known c \<Longrightarrow> eval_condition E ev c = Inl e \<Longrightarrow>
     \<exists>p \<in> set (regex_patterns E c). e = RegexError p \<and> \<not> compiles E p"
proof (induction c rule: cond_known.induct)
  case (1 field op v al an nt)
  show ?case
  proof (cases al)
    case (Some cs)
    then obtain c where c: "c \<in> set cs" "cond_known c" "eval_condition E ev c = Inl e"
      using "1.prems" eval_group_error(1)[of E ev cs e] by (auto simp: list_all_iff)
    from "1.IH"(3)[OF Some c(1) c(2,3)] c(1) Some show ?thesis by auto
  next
    case al: None
    show ?thesis
    proof (cases an)
      case (Some cs)
      then obtain c where c: "c \<in> set cs" "cond_known c" "eval_condition E ev c = Inl e"
        using al "1.prems" eval_group_error(2)[of E ev cs e] by (auto simp: list_all_iff)
      from "1.IH"(2)[OF al Some c(1) c(2,3)] c(1) al Some show ?thesis by auto
    next
      case an: None
      show ?thesis
      proof (cases nt)
        case (Some c)
        then show ?thesis using al an "1.prems" "1.IH"(1) by (auto split: sum.splits)
      next
        case None
        then show ?thesis using al an "1.prems" eval_leaf_error[of E ev field op v e] by auto
      qed
    qed
  qed
qed

lemma eval_condition_holds:
  "cond_safe E ev c \<Longrightarrow> eval_condition E ev c = Inr (cond_holds E ev c)"
proof (induction c rule: cond_safe.induct)
  case (1 E ev field op v al an nt)
  show ?case
  proof (cases al)
    case (Some cs)
    with 1 have "\<And>c. c \<in> set cs \<Longrightarrow> eval_condition E ev c = Inr (cond_holds E ev c)"
      by (auto simp: list_all_iff)
    then have "eval_all E ev cs = Inr (list_all (cond_holds E ev) cs)" by (rule eval_all_safe)
    with Some show ?thesis by simp
  next
    case al: None
    show ?thesis
    proof (cases an)
      case (Some cs)
      with 1 al have "\<And>c. c \<in> set cs \<Longrightarrow> eval_condition E ev c = Inr (cond_holds E ev c)"
        by (auto simp: list_all_iff)
      then have "eval_any E ev cs = Inr (list_ex (cond_holds E ev) cs)" by (rule eval_any_safe)
      with Some al show ?thesis by simp
    next
      case None
      with 1 al show ?thesis
        by (cases nt) (auto split: sum.splits)
    qed
  qed
qed

section \<open>Lemmas about the engine\<close>

lemma leaf_sel [simp]:
  "eval_condition E ev (leaf f op v) = eval_leaf E ev (Some f) (Some op) v"
  "eval_condition E ev (all_of cs) = eval_all E ev cs"
  "eval_condition E ev (any_of cs) = eval_any E ev cs"
  by (simp_all add: leaf_def all_of_def any_of_def)

lemma matched_rules_filter:
  "matched_rules E rs ev = Inr ms \<Longrightarrow>
   ms = filter (\<lambda>r. rule_enabled r \<and> eval_condition E ev (rule_match r) = Inr True) rs"
proof (induction rs arbitrary: ms)
  case Nil
  then show ?case by simp
next
  case (Cons r rs)
  show ?case
  proof (cases "rule_enabled r")
    case True
    with Cons.prems obtain b ms' where "eval_condition E ev (rule_match r) = Inr b"
      "matched_rules E rs ev = Inr ms'" "ms = (if b then r # ms' else ms')"
      by (auto split: sum.splits)
    with True Cons.IH[of ms'] show ?thesis by simp
  next
    case False
    with Cons show ?thesis by simp
  qed
qed

lemma matched_rules_subset:
  assumes "matched_rules E rs ev = Inr ms"
  shows "set ms =
    {r \<in> set rs. rule_enabled r \<and> eval_condition E ev (rule_match r) = Inr True}"
  by (subst matched_rules_filter [OF assms]) auto

lemma matched_rules_safe:
  "(\<And>r. r \<in> set rs \<Longrightarrow> rule_enabled r \<Longrightarrow> cond_safe E ev (rule_match r)) \<Longrightarrow>
   matched_rules E rs ev =
     Inr (filter (\<lambda>r. rule_enabled r \<and> cond_holds E ev (rule_match r)) rs)"
proof (induction rs)
  case Nil
  then show ?case by simp
next
  case (Cons r rs)
  have "matched_rules E rs ev =
      Inr (filter (\<lambda>r. rule_enabled r \<and> cond_holds E ev (rule_match r)) rs)"
  proof (rule Cons.IH)
    fix q assume "q \<in> set rs" "rule_enabled q"
    then show "cond_safe E ev (rule_match q)" using Cons.prems[of q] by simp
  qed
  moreover have "eval_condition E ev (rule_match r) = Inr (cond_holds E ev (rule_match r))"
    if "rule_enabled r"
    using that Cons.prems[of r] by (intro eval_condition_holds) simp
  ultimately show ?case by (cases "rule_enabled r") simp_all
qed

definition severities :: "rule list \<Rightarrow> severity set" where
  "severities rs = {s. \<exists>r \<in> set rs. rule_severity r = Some s}"

lemma severities_simps [simp]:
  "severities [] = {}"
  "severities (r # rs) = (case rule_severity r of None \<Rightarrow> severities rs
     | Some s \<Rightarrow> insert s (severities rs))"
  by (auto simp: severities_def split: option.splits)

lemma finite_severities [simp]: "finite (severities rs)"
  by (induction rs) (auto split: option.splits)

lemma best_severity_Some: "best_severity (Some b) rs = Some (Max (insert b (severities rs)))"
proof (induction rs arbitrary: b)
  case Nil
  then show ?case by simp
next
  case (Cons r rs)
  show ?case
  proof (cases "rule_severity r")
    case None
    with Cons show ?thesis by simp
  next
    case (Some s)
    have "Max (insert b (insert s (severities rs))) =
          (if b < s then Max (insert s (severities rs)) else Max (insert b (severities rs)))"
      by (cases "severities rs = {}") (auto simp: max_def)
    with Some show ?thesis
      by (simp add: Cons severity_rank_less_iff)
  qed
qed

lemma best_severity_None:
  "best_severity None rs = (if severities rs = {} then None else Some (Max (severities rs)))"
  by (induction rs) (auto simp: best_severity_Some split: option.splits)

lemma assess_frame [frame_simps]:
  "ev_action (assess ms ev) = ev_action ev"
  "ev_id (assess ms ev) = ev_id ev"
  "ev_extra (assess ms ev) = ev_extra ev"
  "ev_fingerprint (assess ms ev) = ev_fingerprint ev"
  "ev_source (assess ms ev) = ev_source ev"
  "ev_actor (assess ms ev) = ev_actor ev"
  "ev_target (assess ms ev) = ev_target ev"
  "ev_category (assess ms ev) = ev_category ev"
  "ev_outcome (assess ms ev) = ev_outcome ev"
  "ev_time (assess ms ev) = ev_time ev"
  by (simp_all add: assess_def Let_def)

text \<open>All strings of a value, looking into nested lists.\<close>

fun action_strs :: "pyval \<Rightarrow> string list" where
  "action_strs (PyStr s) = [s]"
| "action_strs (PyList vs) = concat (map action_strs vs)"
| "action_strs v = []"

lemma set_add_action:
  "set (add_action v out) = set out \<union> set (action_strs v)"
  "set (add_actions vs out) = set out \<union> (\<Union>v \<in> set vs. set (action_strs v))"
  by (induction v out and vs out rule: add_action_add_actions.induct) auto

lemma distinct_add_action:
  "distinct out \<Longrightarrow> distinct (add_action v out)"
  "distinct out \<Longrightarrow> distinct (add_actions vs out)"
  by (induction v out and vs out rule: add_action_add_actions.induct) auto

lemma walk_actions_mono:
  "set out \<subseteq> set (walk_actions c out)"
  "set out \<subseteq> set (walk_all_actions cs out)"
proof (induction c out and cs out rule: walk_actions_walk_all_actions.induct)
  case (1 field op v al an nt out)
  then show ?case
    by (auto simp: set_add_action split: option.splits)
qed auto

lemma distinct_walk_actions:
  "distinct out \<Longrightarrow> distinct (walk_actions c out)"
  "distinct out \<Longrightarrow> distinct (walk_all_actions cs out)"
  by (induction c out and cs out rule: walk_actions_walk_all_actions.induct)
    (auto simp: distinct_add_action split: option.splits)

text \<open>Field access at the paths the components use.\<close>

lemma get_field_simps [simp]:
  "get_field ev ''action'' = PyStr (ev_action ev)"
  "get_field ev ''severity'' = (case ev_severity ev of None \<Rightarrow> PyNone
     | Some s \<Rightarrow> PyStr (severity_value s))"
  "get_field ev ''category'' = PyStr (category_value (ev_category ev))"
  "get_field ev ''source.module'' = PyStr (src_module (ev_source ev))"
  "get_field ev ''tags'' = PyList (map PyStr (ev_tags ev))"
  by (simp_all add: get_field_def event_obj_def source_obj_def get_attr_def enum_value_def
      severity_val_def split: option.splits)

text \<open>Conditions made of \<open>action equals\<close> and \<open>action in\<close> leaves, without negation.\<close>

fun action_only :: "condition \<Rightarrow> bool" where
  "action_only (Condition field op v al an nt) =
     (case al of Some cs \<Rightarrow> cs \<noteq> [] \<and> list_all action_only cs
      | None \<Rightarrow>
        (case an of Some cs \<Rightarrow> list_all action_only cs
         | None \<Rightarrow> nt = None \<and> field = Some ''action'' \<and>
             (op = Some ''equals'' \<and> (\<exists>s. v = PyStr s) \<or>
              op = Some ''in'' \<and> (\<exists>xs. v = PyList (map PyStr xs)))))"

lemma action_leaf_listed:
  assumes "eval_leaf E ev (Some ''action'') op v = Inr True"
    and "op = Some ''equals'' \<and> (\<exists>s. v = PyStr s) \<or>
         op = Some ''in'' \<and> (\<exists>xs. v = PyList (map PyStr xs))"
  shows "ev_action ev \<in> set (add_action v out)"
  using assms
  by (auto simp: eval_leaf_def apply_operator_def op_equals_def op_in_strs set_add_action)

lemma action_only_listed:
  "action_only c \<Longrightarrow> eval_condition E ev c = Inr True \<Longrightarrow> ev_action ev \<in> set (walk_actions c out)"
  "list_all action_only cs \<Longrightarrow> eval_all E ev cs = Inr True \<Longrightarrow> cs \<noteq> [] \<Longrightarrow>
   ev_action ev \<in> set (walk_all_actions cs out)"
  "list_all action_only cs \<Longrightarrow> eval_any E ev cs = Inr True \<Longrightarrow>
   ev_action ev \<in> set (walk_all_actions cs out)"
proof (induction E ev c and E ev cs and E ev cs arbitrary: out and out and out
    rule: eval_condition_eval_all_eval_any.induct)
  case (1 E event field op v al an nt)
  then show ?case
    using action_leaf_listed[of E event op v out] by (auto split: option.splits)
next
  case (3 E event c cs)
  then have "ev_action event \<in> set (walk_actions c out)"
    by (auto split: sum.splits if_splits)
  then show ?case using walk_actions_mono(2)[of "walk_actions c out" cs] by auto
next
  case (5 E event c cs)
  from "5.prems"(2) consider "eval_condition E event c = Inr True"
    | "eval_condition E event c = Inr False" "eval_any E event cs = Inr True"
    by (auto split: sum.splits if_splits)
  then show ?case
  proof cases
    case 1
    with 5 have "ev_action event \<in> set (walk_actions c out)" by simp
    then show ?thesis using walk_actions_mono(2)[of "walk_actions c out" cs] by auto
  next
    case 2
    with "5.IH"(2)[OF 2(1) _ _ 2(2)] "5.prems"(1) show ?thesis by simp
  qed
qed simp_all

lemma load_items_distinct:
  "load_items f items (rs, seen) = Inr (rs', seen') \<Longrightarrow> distinct (map rule_id rs) \<Longrightarrow>
   set seen = rule_id ` set rs \<Longrightarrow>
   distinct (map rule_id rs') \<and> set seen' = rule_id ` set rs'"
  by (induction f items "(rs, seen)" arbitrary: rs seen rule: load_items.induct)
    (auto split: if_splits)

lemma load_docs_distinct:
  "load_docs docs acc = Inr acc' \<Longrightarrow> distinct (map rule_id (fst acc)) \<Longrightarrow>
   set (snd acc) = rule_id ` set (fst acc) \<Longrightarrow> distinct (map rule_id (fst acc'))"
proof (induction docs acc rule: load_docs.induct)
  case (2 fl doc docs acc)
  then show ?case
    using load_items_distinct[of fl _ "fst acc" "snd acc"]
    by (fastforce split: rule_doc.splits sum.splits)
qed simp

lemma set_enabled_other:
  "r \<in> set (fst (set_enabled rs i b)) \<Longrightarrow> rule_id r \<noteq> i \<Longrightarrow> r \<in> set rs"
  by (induction rs) (auto split: if_splits prod.splits)

lemma matched_rules_disable:
  "distinct (map rule_id rs) \<Longrightarrow> matched_rules E rs ev = Inr ms \<Longrightarrow>
   matched_rules E (fst (set_enabled rs i False)) ev = Inr (filter (\<lambda>r. rule_id r \<noteq> i) ms)"
proof (induction rs arbitrary: ms)
  case Nil
  then show ?case by simp
next
  case (Cons r rs)
  show ?case
  proof (cases "rule_id r = i")
    case True
    then have "\<forall>q \<in> set rs. rule_id q \<noteq> i"
      using Cons.prems(1) by simp (metis image_eqI)
    moreover have "set ms' \<subseteq> set rs" if "matched_rules E rs ev = Inr ms'" for ms'
      using matched_rules_subset[OF that] by auto
    ultimately have "filter (\<lambda>r. rule_id r \<noteq> i) ms' = ms'" if "matched_rules E rs ev = Inr ms'" for ms'
      using that by (auto intro!: filter_True)
    with True Cons.prems(2) show ?thesis by (auto split: if_splits sum.splits)
  next
    case False
    with Cons show ?thesis by (auto split: if_splits sum.splits prod.splits)
  qed
qed

section \<open>Properties\<close>

text \<open>C1: On a condition whose operators are all known, evaluation has the logical reading of the tree as
  its value - \<open>all\<close> is conjunction, \<open>any\<close> disjunction, \<open>not\<close> negation, over the leaves' values - as soon as the
  patterns of its \<open>regex\<close> leaves compile; and on any event the only exception it can raise is that of such
  a pattern that does not compile.\<close>

theorem eval_condition_refines:
  assumes "cond_known c"
  shows "((\<forall>p \<in> set (regex_patterns E c). compiles E p) \<longrightarrow> eval_condition E ev c = Inr (cond_holds E ev c)) \<and>
    (\<forall>e. eval_condition E ev c = Inl e \<longrightarrow> (\<exists>p \<in> set (regex_patterns E c). e = RegexError p \<and> \<not> compiles E p))"
  using eval_condition_holds[OF cond_known_safe[OF assms]] eval_condition_error[OF assms] by blast

definition demo_event :: event where
  "demo_event = (event_defaults 1000 (new_source ''ec2.host'' T_queue))
     \<lparr>ev_action := ''host.bruteforce'', ev_tags := [''ssh''], ev_severity := Some S_low\<rparr>"

definition demo_condition :: condition where
  "demo_condition = all_of [leaf ''action'' ''in'' (PyList [PyStr ''host.bruteforce'']),
     not_of (leaf ''tags'' ''contains'' (PyStr ''lab''))]"

lemma demo_condition_known: "cond_known demo_condition" "regex_patterns E demo_condition = []"
  by (simp_all add: demo_condition_def all_of_def not_of_def leaf_def operator_names_def)

lemma demo_condition_holds: "cond_holds demo_env demo_event demo_condition"
  by (simp add: demo_condition_def all_of_def not_of_def leaf_def eval_leaf_def
      apply_operator_def demo_event_def op_in_def as_choices_def py_in_list_def op_contains_def)

lemma demo_condition_true: "eval_condition demo_env demo_event demo_condition = Inr True"
  using eval_condition_holds[OF cond_known_safe, of demo_condition demo_env demo_event]
  by (simp add: demo_condition_known demo_condition_holds)

lemma eval_condition_refines_witness:
  "cond_known demo_condition \<and> eval_condition demo_env demo_event demo_condition = Inr (cond_holds demo_env demo_event demo_condition)"
  using eval_condition_refines[OF demo_condition_known(1), of demo_env demo_event] by (simp add: demo_condition_known)

text \<open>C2: The verdict of the engine, where the conditions of the enabled rules raise nothing. The matching
  rules are the enabled ones whose condition holds, in rule order. Without any the event is returned as it
  came. Otherwise their ids are recorded, a suppression rule among them forces \<open>informational\<close> and the tag
  \<open>suppressed\<close>, else the severity is the greatest one among those that have one, and \<open>None\<close> when none
  has: the severity the event came with does not count. The tags are the sorted union of the event's
  and the rules' tags.\<close>

theorem evaluate_verdict:
  fixes rules :: "rule list"
  assumes "\<forall>r \<in> set rules. rule_enabled r \<longrightarrow> cond_safe E ev (rule_match r)"
  defines "ms \<equiv> filter (\<lambda>r. rule_enabled r \<and> cond_holds E ev (rule_match r)) rules"
  shows "(ms = [] \<longrightarrow> evaluate E rules ev = Inr ev) \<and>
    (ms \<noteq> [] \<longrightarrow> (\<exists>ev'. evaluate E rules ev = Inr ev' \<and>
     ev_severity ev' =
       (if \<exists>r \<in> set ms. rule_act r = Suppress then Some S_informational
        else if severities ms = {} then None else Some (Max (severities ms))) \<and>
     ev_rule_matches ev' = map rule_id ms \<and>
     set (ev_tags ev') = set (ev_tags ev) \<union> (\<Union>r \<in> set ms. set (rule_tags r)) \<union>
       (if \<exists>r \<in> set ms. rule_act r = Suppress then {''suppressed''} else {}) \<and>
     sorted (ev_tags ev') \<and> distinct (ev_tags ev')))"
proof -
  have m: "matched_rules E rules ev = Inr ms" unfolding ms_def using assms(1) by (intro matched_rules_safe) auto
  show ?thesis by (auto simp: evaluate_def m assess_def Let_def best_severity_None filter_empty_conv)
qed

definition demo_rules :: "rule list" where
  "demo_rules =
     [\<lparr>rule_id = ''r1'', rule_title = [], rule_description = [], rule_enabled = True,
       rule_act = Alert, rule_severity = Some S_medium, rule_tags = [''bf''],
       rule_match = demo_condition\<rparr>,
      \<lparr>rule_id = ''r2'', rule_title = [], rule_description = [], rule_enabled = True,
       rule_act = Alert, rule_severity = Some S_high, rule_tags = [],
       rule_match = leaf ''action'' ''exists'' PyNone\<rparr>]"

lemma demo_matched: "matched_rules demo_env demo_rules demo_event = Inr demo_rules"
  by (simp add: demo_rules_def eval_leaf_def apply_operator_def op_exists_def
      demo_condition_true)

lemma demo_action_set: "get_field demo_event ''action'' \<noteq> PyNone"
  by (simp add: demo_event_def)

lemma demo_rules_hold:
  "filter (\<lambda>r. rule_enabled r \<and> cond_holds demo_env demo_event (rule_match r)) demo_rules = demo_rules"
  "\<forall>r \<in> set demo_rules. rule_enabled r \<longrightarrow> cond_safe demo_env demo_event (rule_match r)"
  using cond_known_safe[OF demo_condition_known(1), of demo_env demo_event]
  by (simp_all add: demo_rules_def demo_condition_holds demo_condition_known leaf_def eval_leaf_def apply_operator_def
      op_exists_def demo_action_set)

lemma evaluate_verdict_witness:
  "\<exists>ev'. evaluate demo_env demo_rules demo_event = Inr ev' \<and> ev_severity ev' = Some S_high"
proof -
  have "demo_rules \<noteq> []" by (simp add: demo_rules_def)
  with evaluate_verdict [OF demo_rules_hold(2)] obtain ev' where
    "evaluate demo_env demo_rules demo_event = Inr ev'"
    "ev_severity ev' = (if \<exists>r \<in> set demo_rules. rule_act r = Suppress then Some S_informational
        else if severities demo_rules = {} then None else Some (Max (severities demo_rules)))"
    unfolding demo_rules_hold(1) by blast
  then show ?thesis by (simp add: demo_rules_def max_def less_eq_severity_def)
qed

text \<open>Disabling a rule of a loaded rule set takes exactly that rule out of the matches, on
  every event.\<close>

theorem disable_removes_rule:
  assumes "load_rules dir = Inr rs" and "matched_rules E rs ev = Inr ms"
  shows "matched_rules E (fst (set_enabled rs i False)) ev = Inr (filter (\<lambda>r. rule_id r \<noteq> i) ms)"
proof (rule matched_rules_disable)
  show "distinct (map rule_id rs)"
    using assms(1) load_docs_distinct[of _ "([], [])"]
    by (auto simp: load_rules_def split: option.splits sum.splits)
qed (rule assms(2))

lemma disable_removes_rule_witness:
  "\<exists>rs. load_rules (Some [(''a.yaml'', DocList (map Some demo_rules)), (''ueba.yaml'', DocOther)]) = Inr rs
     \<and> matched_rules demo_env (fst (set_enabled rs ''r1'' False)) demo_event =
         Inr (filter (\<lambda>r. rule_id r \<noteq> ''r1'') demo_rules)"
proof -
  have l: "load_rules (Some [(''a.yaml'', DocList (map Some demo_rules)), (''ueba.yaml'', DocOther)])
      = Inr demo_rules"
    by (simp add: load_rules_def demo_rules_def)
  show ?thesis
    using disable_removes_rule [OF l demo_matched, of "''r1''"] l by blast
qed

text \<open>Two rules with one id never both load: an accepted directory has distinct ids.\<close>

theorem load_rules_distinct:
  assumes "load_rules dir = Inr rs"
  shows "distinct (map rule_id rs)"
  using assms load_docs_distinct[of _ "([], [])"]
  by (auto simp: load_rules_def split: option.splits sum.splits)

lemma load_rules_distinct_witness:
  "distinct (map rule_id demo_rules)"
proof (rule load_rules_distinct)
  show "load_rules (Some [(''a.yaml'', DocList (map Some demo_rules))]) = Inr demo_rules"
    by (simp add: load_rules_def demo_rules_def)
qed

text \<open>The action list shown to operators is complete for rules written over actions: if a
  condition made of \<open>action equals\<close> and \<open>action in\<close> leaves under \<open>all\<close>/\<open>any\<close> matches an event,
  the event's action is in the list; and the list has no duplicates.\<close>

theorem matched_actions_complete:
  assumes "action_only c" and "eval_condition E ev c = Inr True"
  shows "ev_action ev \<in> set (extract_matched_actions c) \<and> distinct (extract_matched_actions c)"
  using action_only_listed(1)[OF assms] distinct_walk_actions(1)[of "[]" c]
  by (simp add: extract_matched_actions_def)

lemma matched_actions_complete_witness:
  "''host.bruteforce'' \<in> set (extract_matched_actions
     (any_of [leaf ''action'' ''equals'' (PyStr ''x''), leaf ''action'' ''in'' (PyList [PyStr ''host.bruteforce''])]))"
proof -
  let ?c = "any_of [leaf ''action'' ''equals'' (PyStr ''x''),
    leaf ''action'' ''in'' (PyList [PyStr ''host.bruteforce''])]"
  have a: "action_only ?c"
    by (auto simp: any_of_def leaf_def intro: exI[of _ "[''host.bruteforce'']"])
  have "eval_condition demo_env demo_event ?c = Inr True"
    by (simp add: eval_leaf_def apply_operator_def demo_event_def op_equals_def op_in_def
        as_choices_def py_in_list_def)
  from matched_actions_complete [OF a this] show ?thesis by (simp add: demo_event_def)
qed

end
