(* ===== verification/Window.thy ===== *)
theory Window
  imports EventModel
begin

text \<open>
  Sliding windows over timestamps. Two components keep a deque of times and expire its front
  with the loop \<open>while bucket and now - bucket[0] > W: bucket.popleft()\<close>: the brute-force
  correlation (W = 300) and the per-channel rate limiter (W = 60). The locale states what
  that loop promises and proves, once, what both rely on: on a bucket in time order the loop
  keeps exactly the entries of the window, and feeding times in order makes the bucket the
  window of the whole history.
\<close>

fun expire :: "time \<Rightarrow> time \<Rightarrow> time list \<Rightarrow> time list" where
  "expire w now [] = []"
| "expire w now (t # ts) = (if now - t > w then expire w now ts else t # ts)"

locale sliding_window =
  fixes w :: time
    and expire_w :: "time \<Rightarrow> time list \<Rightarrow> time list"
  assumes expire_nil: "expire_w now [] = []"
    and expire_cons: "expire_w now (t # ts) = (if now - t > w then expire_w now ts else t # ts)"
    and width_nonneg: "0 \<le> w"
begin

lemma set_expire: "set (expire_w now ts) \<subseteq> set ts"
  by (induction ts) (auto simp: expire_nil expire_cons)

lemma sorted_expire: "sorted ts \<Longrightarrow> sorted (expire_w now ts)"
  by (induction ts) (auto simp: expire_nil expire_cons)

lemma expire_filter: "sorted ts \<Longrightarrow> expire_w now ts = filter (\<lambda>t. now - t \<le> w) ts"
proof (induction ts)
  case Nil
  then show ?case by (simp add: expire_nil)
next
  case (Cons t ts)
  show ?case
  proof (cases "now - t > w")
    case True
    with Cons show ?thesis by (simp add: expire_cons)
  next
    case False
    with Cons.prems have "\<forall>s \<in> set ts. now - s \<le> w" by auto
    with False show ?thesis by (simp add: expire_cons)
  qed
qed

definition push :: "time \<Rightarrow> time list \<Rightarrow> time list" where
  "push now ts = expire_w now ts @ [now]"

lemma push_ne [simp]: "push now ts \<noteq> []"
  by (simp add: push_def)

lemma sorted_push: "sorted ts \<Longrightarrow> (\<And>t. t \<in> set ts \<Longrightarrow> t \<le> now) \<Longrightarrow> sorted (push now ts)"
  using set_expire[of now ts] by (auto simp: push_def sorted_append sorted_expire)

lemma push_window: "sorted ts \<Longrightarrow> t \<in> set (push now ts) \<Longrightarrow> now - t \<le> w"
  using width_nonneg by (auto simp: push_def expire_filter)

text \<open>The bucket after feeding times in order is the window of the history.\<close>

lemma fold_push:
  assumes "sorted (ts @ [now])"
  shows "fold push (ts @ [now]) [] = filter (\<lambda>t. now - t \<le> w) (ts @ [now])"
  using assms
proof (induction ts arbitrary: now rule: rev_induct)
  case Nil
  then show ?case using width_nonneg by (simp add: push_def expire_nil)
next
  case (snoc u ts)
  then have s: "sorted (ts @ [u])" and un: "u \<le> now"
    by (auto simp: sorted_append)
  have b: "fold push (ts @ [u]) [] = filter (\<lambda>t. u - t \<le> w) (ts @ [u])"
    by (rule snoc.IH) (rule s)
  have "expire_w now (filter (\<lambda>t. u - t \<le> w) (ts @ [u])) =
      filter (\<lambda>t. now - t \<le> w) (filter (\<lambda>t. u - t \<le> w) (ts @ [u]))"
    by (rule expire_filter) (rule sorted_wrt_filter[OF s])
  also have "\<dots> = filter (\<lambda>t. now - t \<le> w) (ts @ [u])"
    using un by (auto simp: filter_filter intro!: filter_cong)
  finally have e: "expire_w now (fold push (ts @ [u]) []) = filter (\<lambda>t. now - t \<le> w) (ts @ [u])"
    unfolding b .
  have "fold push ((ts @ [u]) @ [now]) [] = push now (fold push (ts @ [u]) [])"
    by simp
  also have "\<dots> = filter (\<lambda>t. now - t \<le> w) (ts @ [u]) @ [now]"
    unfolding push_def e ..
  finally show ?case using width_nonneg by simp
qed

end

lemma expire_window: "0 \<le> w \<Longrightarrow> sliding_window w (expire w)"
  by unfold_locales auto

end
