(* ===== verification/Correlation.thy ===== *)
theory Correlation
  imports Window
begin

text \<open>
  Brute-force correlation (\<open>src/blackwatch/correlation.py\<close>): two detectors, per source IP and
  per principal, each with a deque of attempt times and the time of the last alert per key.
  The state is explicit; one observation is one critical section of the code's lock, so the
  interleavings of ingest threads are the sequences of observations. \<open>now\<close> is the clock.
\<close>

section \<open>State and operations\<close>

type_synonym corr_key = "string \<times> string"

record corr_state =
  ip_attempts :: "corr_key \<Rightarrow> time list"
  ip_alerted :: "corr_key \<rightharpoonup> time"
  user_attempts :: "corr_key \<Rightarrow> time list"
  user_alerted :: "corr_key \<rightharpoonup> time"

definition THRESHOLD :: nat where "THRESHOLD = 5"

definition WINDOW_SECONDS :: int where "WINDOW_SECONDS = 300"

definition watch_ip :: "string \<Rightarrow> (string \<times> string \<times> category) option" where
  "watch_ip a =
     (if a = ''host.auth.ssh.failure'' then Some (''host.bruteforce'', ''ec2.host'', C_host)
      else if a = ''vpn.auth.failure'' then Some (''vpn.bruteforce'', ''vpn.openvpn'', C_vpn)
      else None)"

definition watch_user :: "string \<Rightarrow> (string \<times> string \<times> category) option" where
  "watch_user a =
     (if a = ''host.auth.ssh.failure'' then Some (''host.bruteforce.user'', ''ec2.host'', C_host)
      else if a = ''vpn.auth.failure'' then Some (''vpn.bruteforce.user'', ''vpn.openvpn'', C_vpn)
      else None)"

definition reset_state :: corr_state where
  "reset_state = \<lparr>ip_attempts = (\<lambda>k. []), ip_alerted = Map.empty,
     user_attempts = (\<lambda>k. []), user_alerted = Map.empty\<rparr>"

definition bruteforce_event ::
  "pyenv \<Rightarrow> event \<Rightarrow> time \<Rightarrow> string \<Rightarrow> string \<times> string \<times> category \<Rightarrow> nat \<Rightarrow> event" where
  "bruteforce_event E event now dim_label w count =
     (let (derived_action, module, category) = w in
      ensure_fingerprint E
       ((event_defaults now
          \<lparr>src_module = module, src_vendor = src_vendor (ev_source event),
           src_account = src_account (ev_source event), src_region = src_region (ev_source event),
           src_transport = T_poll\<rparr>)
        \<lparr>ev_category := category, ev_action := derived_action, ev_outcome := O_failure,
         ev_actor := new_actor (act_principal (ev_actor event)) (act_source_ip (ev_actor event)),
         ev_target := new_target (tgt_id (ev_target event)) (tgt_type (ev_target event))
           (tgt_name (ev_target event)),
         ev_extra := [(''count_in_window'', PyInt (int count)),
           (''window_seconds'', PyInt WINDOW_SECONDS), (''threshold'', PyInt (int THRESHOLD)),
           (''trigger_event_id'', id_val (ev_id event)),
           (''source_ip'', opt_val (act_source_ip (ev_actor event))),
           (''principal'', opt_val (act_principal (ev_actor event))),
           (''dimension'', PyStr dim_label)],
         ev_raw := PyDict [(''derived'', PyStr ''bruteforce''),
           (''trigger_action'', PyStr (ev_action event)), (''dimension'', PyStr dim_label)]\<rparr>))"

text \<open>\<open>last_alert and now - last_alert < WINDOW\<close>: a stored 0.0 is falsy.\<close>

definition suppressed_alert :: "time option \<Rightarrow> time \<Rightarrow> bool" where
  "suppressed_alert last_alert now =
     (case last_alert of None \<Rightarrow> False
      | Some t \<Rightarrow> t \<noteq> 0 \<and> now - t < real_of_int WINDOW_SECONDS)"

definition check_dimension ::
  "pyenv \<Rightarrow> event \<Rightarrow> time \<Rightarrow> string \<Rightarrow> string \<Rightarrow>
   (string \<Rightarrow> (string \<times> string \<times> category) option) \<Rightarrow>
   (corr_key \<Rightarrow> time list) \<Rightarrow> (corr_key \<rightharpoonup> time) \<Rightarrow>
   event list \<times> (corr_key \<Rightarrow> time list) \<times> (corr_key \<rightharpoonup> time)" where
  "check_dimension E event now dim_value dim_label watch attempts alerted =
     (case watch (ev_action event) of None \<Rightarrow> ([], attempts, alerted)
      | Some w \<Rightarrow>
        let key = (ev_action event, dim_value);
            bucket = expire (real_of_int WINDOW_SECONDS) now (attempts key) @ [now];
            attempts' = attempts(key := bucket)
        in if length bucket < THRESHOLD then ([], attempts', alerted)
           else if suppressed_alert (alerted key) now then ([], attempts', alerted)
           else ([bruteforce_event E event now dim_label w (length bucket)],
                 attempts', alerted(key \<mapsto> now)))"

definition observe_ip :: "pyenv \<Rightarrow> event \<Rightarrow> time \<Rightarrow> corr_state \<Rightarrow> event list \<times> corr_state" where
  "observe_ip E event now st =
     (case act_source_ip (ev_actor event) of None \<Rightarrow> ([], st)
      | Some ip \<Rightarrow>
          if ip = [] then ([], st)
          else let (out, a, al) = check_dimension E event now ip ''source_ip'' watch_ip
                     (ip_attempts st) (ip_alerted st)
               in (out, st\<lparr>ip_attempts := a, ip_alerted := al\<rparr>))"

definition observe_user :: "pyenv \<Rightarrow> event \<Rightarrow> time \<Rightarrow> corr_state \<Rightarrow> event list \<times> corr_state" where
  "observe_user E event now st =
     (case act_principal (ev_actor event) of None \<Rightarrow> ([], st)
      | Some p \<Rightarrow>
          if p = [] then ([], st)
          else let (out, a, al) = check_dimension E event now p ''principal'' watch_user
                     (user_attempts st) (user_alerted st)
               in (out, st\<lparr>user_attempts := a, user_alerted := al\<rparr>))"

definition observe :: "pyenv \<Rightarrow> event \<Rightarrow> time \<Rightarrow> corr_state \<Rightarrow> event list \<times> corr_state" where
  "observe E event now st =
     (let (r1, st1) = observe_ip E event now st; (r2, st2) = observe_user E event now st1
      in (r1 @ r2, st2))"

text \<open>A run: observations with their clock readings; the derived events of each are collected.\<close>

fun observe_run ::
  "pyenv \<Rightarrow> (event \<times> time) list \<Rightarrow> corr_state \<Rightarrow> (time \<times> event list) list \<times> corr_state" where
  "observe_run E [] st = ([], st)"
| "observe_run E ((ev, now) # evs) st =
     (let (out, st1) = observe E ev now st; (outs, st2) = observe_run E evs st1
      in ((now, out) # outs, st2))"

section \<open>The window of a key\<close>

interpretation corr_win: sliding_window "real_of_int WINDOW_SECONDS"
  "expire (real_of_int WINDOW_SECONDS)"
  by (rule expire_window) (simp add: WINDOW_SECONDS_def)

lemma check_dimension_attempts:
  assumes "check_dimension E ev now dv dl watch att al = (out, att', al')"
  shows "att' = (if watch (ev_action ev) = None then att
                 else att((ev_action ev, dv) := corr_win.push now (att (ev_action ev, dv))))"
  using assms
  by (auto simp: check_dimension_def Let_def corr_win.push_def split: option.splits if_splits)

lemma check_dimension_fires:
  assumes "check_dimension E ev now dv dl watch att al = (out, att', al')"
  shows "out \<noteq> [] \<longleftrightarrow> watch (ev_action ev) \<noteq> None \<and> THRESHOLD \<le> length (att' (ev_action ev, dv)) \<and>
      \<not> suppressed_alert (al (ev_action ev, dv)) now"
    and "al' = (if out = [] then al else al((ev_action ev, dv) \<mapsto> now))"
  using assms by (auto simp: check_dimension_def Let_def split: option.splits if_splits)

lemma observe_user_ip_frame [frame_simps]:
  "ip_attempts (snd (observe_user E ev now st)) = ip_attempts st"
  "ip_alerted (snd (observe_user E ev now st)) = ip_alerted st"
  by (simp_all add: observe_user_def split: option.splits prod.splits)

lemma observe_ip_user_frame [frame_simps]:
  "user_attempts (snd (observe_ip E ev now st)) = user_attempts st"
  "user_alerted (snd (observe_ip E ev now st)) = user_alerted st"
  by (simp_all add: observe_ip_def split: option.splits prod.splits)

section \<open>Runs\<close>

text \<open>The clock readings at which a key was attempted, and the alerts of the IP detector.\<close>

definition hits_ip :: "(event \<times> time) list \<Rightarrow> string \<Rightarrow> string \<Rightarrow> time list" where
  "hits_ip evs a ip =
     map snd (filter (\<lambda>(ev, t). ev_action ev = a \<and> act_source_ip (ev_actor ev) = Some ip) evs)"

lemma hits_ip_simps [simp]:
  "hits_ip [] a ip = []"
  "hits_ip ((ev, t) # evs) a ip =
     (if ev_action ev = a \<and> act_source_ip (ev_actor ev) = Some ip then t # hits_ip evs a ip
      else hits_ip evs a ip)"
  by (simp_all add: hits_ip_def)

lemma set_hits_ip: "set (hits_ip evs a ip) \<subseteq> snd ` set evs"
  by (auto simp: hits_ip_def)

lemma sorted_hits_ip: "sorted (map snd evs) \<Longrightarrow> sorted (hits_ip evs a ip)"
  by (auto simp: hits_ip_def intro: sorted_filter)

lemma observe_ip_attempts:
  assumes "watch_ip a \<noteq> None" "ip \<noteq> []"
  shows "ip_attempts (snd (observe_ip E ev now st)) (a, ip) =
    (if ev_action ev = a \<and> act_source_ip (ev_actor ev) = Some ip
     then corr_win.push now (ip_attempts st (a, ip)) else ip_attempts st (a, ip))"
  using assms
  by (auto simp: observe_ip_def dest: check_dimension_attempts split: option.splits prod.splits)

lemma snd_observe:
  "snd (observe E ev now st) = snd (observe_user E ev now (snd (observe_ip E ev now st)))"
  by (simp add: observe_def split: prod.splits)

lemma snd_observe_run:
  "snd (observe_run E ((ev, now) # evs) st) = snd (observe_run E evs (snd (observe E ev now st)))"
  by (simp split: prod.splits)

lemma observe_run_attempts:
  assumes "watch_ip a \<noteq> None" "ip \<noteq> []"
  shows "ip_attempts (snd (observe_run E evs st)) (a, ip) =
    fold corr_win.push (hits_ip evs a ip) (ip_attempts st (a, ip))"
proof (induction evs arbitrary: st)
  case Nil
  then show ?case by simp
next
  case (Cons e evs)
  then show ?case
    by (cases e)
      (simp add: snd_observe_run snd_observe frame_simps observe_ip_attempts[OF assms]
        del: observe_run.simps)
qed

fun ip_alert_times :: "pyenv \<Rightarrow> corr_key \<Rightarrow> (event \<times> time) list \<Rightarrow> corr_state \<Rightarrow> time list" where
  "ip_alert_times E k [] st = []"
| "ip_alert_times E k ((ev, now) # evs) st =
     (let rest = ip_alert_times E k evs (snd (observe E ev now st))
      in if fst (observe_ip E ev now st) \<noteq> [] \<and>
            (ev_action ev, the (act_source_ip (ev_actor ev))) = k
         then now # rest else rest)"

lemma observe_ip_alerted:
  "ip_alerted (snd (observe_ip E ev now st)) =
    (if fst (observe_ip E ev now st) = [] then ip_alerted st
     else (ip_alerted st)((ev_action ev, the (act_source_ip (ev_actor ev))) \<mapsto> now))"
  by (auto simp: observe_ip_def dest: check_dimension_fires(2) split: option.splits prod.splits)

lemma observe_ip_fires:
  assumes "fst (observe_ip E ev now st) \<noteq> []"
  shows "\<not> suppressed_alert (ip_alerted st (ev_action ev, the (act_source_ip (ev_actor ev)))) now"
  using assms
  by (auto simp: observe_ip_def dest: check_dimension_fires(1)[THEN iffD1]
      split: option.splits prod.splits if_splits)

lemma ip_alert_times_spaced:
  assumes "\<forall>t \<in> snd ` set evs. t \<noteq> 0"
  shows "sorted_wrt (\<lambda>s t. t - s \<ge> real_of_int WINDOW_SECONDS) (ip_alert_times E k evs st) \<and>
    (\<forall>a. ip_alerted st k = Some a \<and> a \<noteq> 0 \<longrightarrow>
       (\<forall>t \<in> set (ip_alert_times E k evs st). t - a \<ge> real_of_int WINDOW_SECONDS))"
  using assms
proof (induction evs arbitrary: st)
  case Nil
  then show ?case by simp
next
  case (Cons e evs)
  obtain ev now where e: "e = (ev, now)" by (cases e)
  let ?st = "snd (observe E ev now st)"
  let ?rest = "ip_alert_times E k evs ?st"
  have IH: "sorted_wrt (\<lambda>s t. t - s \<ge> real_of_int WINDOW_SECONDS) ?rest"
    "\<And>a t. ip_alerted ?st k = Some a \<Longrightarrow> a \<noteq> 0 \<Longrightarrow> t \<in> set ?rest \<Longrightarrow> t - a \<ge> real_of_int WINDOW_SECONDS"
    using Cons.IH[of ?st] Cons.prems by auto
  have now: "now \<noteq> 0" using Cons.prems e by auto
  have w: "0 \<le> real_of_int WINDOW_SECONDS" by (simp add: WINDOW_SECONDS_def)
  have al: "ip_alerted ?st = (if fst (observe_ip E ev now st) = [] then ip_alerted st
     else (ip_alerted st)((ev_action ev, the (act_source_ip (ev_actor ev))) \<mapsto> now))"
    by (simp add: snd_observe frame_simps observe_ip_alerted)
  show ?case
  proof (cases "fst (observe_ip E ev now st) \<noteq> [] \<and>
      (ev_action ev, the (act_source_ip (ev_actor ev))) = k")
    case True
    then have k: "ip_alerted ?st k = Some now" by (simp add: al)
    have ns: "\<not> suppressed_alert (ip_alerted st k) now"
      using observe_ip_fires[of E ev now st] True by simp
    have r: "\<And>t. t \<in> set ?rest \<Longrightarrow> t - now \<ge> real_of_int WINDOW_SECONDS"
      using IH(2)[OF k now] by simp
    from True have "ip_alert_times E k (e # evs) st = now # ?rest" by (simp add: e Let_def)
    with r IH(1) ns w show ?thesis
      by (fastforce simp: suppressed_alert_def)
  next
    case False
    then have "ip_alerted ?st k = ip_alerted st k" by (auto simp: al)
    moreover from False have "ip_alert_times E k (e # evs) st = ?rest" by (simp add: e Let_def)
    ultimately show ?thesis using IH by simp
  qed
qed

section \<open>Properties\<close>

text \<open>The deque of a watched key is the sliding window of its history: after any interleaving
  of observations in clock order, the bucket of \<open>(action, ip)\<close> holds exactly the attempts of that
  key within 300 seconds of its latest one, and no other event touches it.\<close>

theorem bucket_is_window:
  assumes "sorted (map snd evs)" and "watch_ip a \<noteq> None" and "ip \<noteq> []"
  shows "ip_attempts (snd (observe_run E evs reset_state)) (a, ip) =
    filter (\<lambda>t. last (hits_ip evs a ip) - t \<le> real_of_int WINDOW_SECONDS) (hits_ip evs a ip)"
proof (cases "hits_ip evs a ip" rule: rev_cases)
  case Nil
  then show ?thesis
    by (simp add: observe_run_attempts[OF assms(2,3)] reset_state_def)
next
  case (snoc ts t)
  moreover have "sorted (ts @ [t])"
    using sorted_hits_ip[OF assms(1), of a ip] snoc by simp
  ultimately show ?thesis
    using corr_win.fold_push[of ts t]
    by (simp add: observe_run_attempts[OF assms(2,3)] reset_state_def)
qed

definition demo_attempt :: event where
  "demo_attempt = (event_defaults 0 (new_source ''ec2.host'' T_queue))
     \<lparr>ev_action := ''host.auth.ssh.failure'', ev_actor := new_actor None (Some ''9.9.9.9'')\<rparr>"

lemma bucket_is_window_witness:
  "ip_attempts (snd (observe_run demo_env
     [(demo_attempt, 10), (demo_attempt, 200), (demo_attempt, 400)] reset_state))
     (''host.auth.ssh.failure'', ''9.9.9.9'') = [200, 400]"
  using bucket_is_window [of "[(demo_attempt, 10), (demo_attempt, 200), (demo_attempt, 400)]"
      "''host.auth.ssh.failure''" "''9.9.9.9''" demo_env]
  by (simp add: watch_ip_def demo_attempt_def WINDOW_SECONDS_def)

text \<open>C27: The per-IP detector fires on an observation exactly when the watched key now has at least
  five attempts in the last 300 seconds and no alert of the last 300 seconds suppresses it.\<close>

theorem bruteforce_fires_iff:
  assumes "sorted (map snd evs @ [now])" and "watch_ip (ev_action ev) \<noteq> None"
    and "act_source_ip (ev_actor ev) = Some ip" and "ip \<noteq> []"
    and "st = snd (observe_run E evs reset_state)"
  shows "fst (observe_ip E ev now st) \<noteq> [] \<longleftrightarrow>
    THRESHOLD \<le> Suc (length (filter (\<lambda>t. now - t \<le> real_of_int WINDOW_SECONDS)
                  (hits_ip evs (ev_action ev) ip))) \<and>
    \<not> suppressed_alert (ip_alerted st (ev_action ev, ip)) now"
proof -
  let ?k = "(ev_action ev, ip)"
  let ?h = "hits_ip evs (ev_action ev) ip"
  have "sorted (?h @ [now])"
    using assms(1) sorted_hits_ip[of evs "ev_action ev" ip] set_hits_ip[of evs "ev_action ev" ip]
    by (fastforce simp: sorted_append)
  then have w: "corr_win.push now (ip_attempts st ?k) =
      filter (\<lambda>t. now - t \<le> real_of_int WINDOW_SECONDS) (?h @ [now])"
    using corr_win.fold_push[of ?h now]
    by (simp add: assms(5) observe_run_attempts[OF assms(2,4)] reset_state_def)
  obtain out a al where c: "check_dimension E ev now ip ''source_ip'' watch_ip
      (ip_attempts st) (ip_alerted st) = (out, a, al)"
    by (metis prod_cases3)
  have "a ?k = corr_win.push now (ip_attempts st ?k)"
    using check_dimension_attempts[OF c] assms(2) by simp
  moreover have "fst (observe_ip E ev now st) = out"
    using c assms(3,4) by (simp add: observe_ip_def)
  ultimately show ?thesis
    using check_dimension_fires(1)[OF c] assms(2) w by (simp add: WINDOW_SECONDS_def)
qed

lemma bruteforce_fires_iff_witness:
  "fst (observe_ip demo_env demo_attempt 8 (snd (observe_run demo_env
     [(demo_attempt, 1), (demo_attempt, 2), (demo_attempt, 3), (demo_attempt, 4)] reset_state))) \<noteq> []"
proof -
  let ?evs = "[(demo_attempt, 1), (demo_attempt, 2), (demo_attempt, 3), (demo_attempt, 4 :: time)]"
  have "fst (observe_ip demo_env demo_attempt 8 (snd (observe_run demo_env ?evs reset_state))) \<noteq> []
     \<longleftrightarrow> THRESHOLD \<le> Suc (length (filter (\<lambda>t. 8 - t \<le> real_of_int WINDOW_SECONDS)
              (hits_ip ?evs (ev_action demo_attempt) ''9.9.9.9''))) \<and>
       \<not> suppressed_alert (ip_alerted (snd (observe_run demo_env ?evs reset_state))
           (ev_action demo_attempt, ''9.9.9.9'')) 8"
    by (rule bruteforce_fires_iff) (simp_all add: demo_attempt_def watch_ip_def)
  moreover have "ip_alerted (snd (observe_run demo_env ?evs reset_state)) = Map.empty"
    by (simp add: observe_def observe_ip_def observe_user_def check_dimension_def demo_attempt_def
        watch_ip_def reset_state_def Let_def THRESHOLD_def WINDOW_SECONDS_def)
  ultimately show ?thesis
    by (simp add: demo_attempt_def THRESHOLD_def WINDOW_SECONDS_def suppressed_alert_def)
qed

text \<open>A key alerts at most once per window: in any run, whatever the other keys do, two alerts
  of one \<open>(action, ip)\<close> key are at least 300 seconds apart.\<close>

theorem alerts_spaced:
  assumes "\<forall>t \<in> snd ` set evs. t \<noteq> 0"
  shows "sorted_wrt (\<lambda>s t. t - s \<ge> real_of_int WINDOW_SECONDS)
    (ip_alert_times E k evs reset_state)"
  using ip_alert_times_spaced[OF assms] by blast

lemma alerts_spaced_witness:
  "sorted_wrt (\<lambda>s t. t - s \<ge> real_of_int WINDOW_SECONDS)
    (ip_alert_times demo_env (''host.auth.ssh.failure'', ''9.9.9.9'')
      (map (\<lambda>t. (demo_attempt, t)) [1, 2, 3, 4, 5, 6]) reset_state)"
  by (rule alerts_spaced) simp

end
