(* ===== verification/Storage.thy ===== *)
theory Storage
  imports EventModel
begin

text \<open>
  The tables behind \<open>src/blackwatch/storage.py\<close> that the modelled components read and write, and
  the storage functions they call. A table is an association list from its primary key to its
  row, in insertion order; \<open>INSERT ... ON CONFLICT DO UPDATE\<close> is an update of the key, and the
  \<open>xmax = 0\<close> result says whether the key was absent. The locale \<open>row_store\<close> is the interface
  the projections rely on: lookup after write, after delete, and the keys.
\<close>

section \<open>The table interface\<close>

locale row_store =
  fixes get :: "'t \<Rightarrow> 'k \<Rightarrow> 'r option"
    and put :: "'k \<Rightarrow> 'r \<Rightarrow> 't \<Rightarrow> 't"
    and del :: "'k \<Rightarrow> 't \<Rightarrow> 't"
    and keys :: "'t \<Rightarrow> 'k list"
  assumes get_put: "get (put k r t) k' = (if k' = k then Some r else get t k')"
    and get_del: "get (del k t) k' = (if k' = k then None else get t k')"
    and keys_get: "k \<in> set (keys t) \<longleftrightarrow> get t k \<noteq> None"
begin

lemma get_put_same: "get (put k r t) k = Some r"
  by (simp add: get_put)

lemma keys_put: "set (keys (put k r t)) = insert k (set (keys t))"
  by (auto simp: keys_get get_put split: if_splits)

lemma keys_del: "set (keys (del k t)) = set (keys t) - {k}"
  by (auto simp: keys_get get_del split: if_splits)

text \<open>Deleting a list of keys, as a reconciliation pass does.\<close>

lemma get_fold_del:
  "get (fold del ks t) k = (if k \<in> set ks then None else get t k)"
  by (induction ks arbitrary: t) (auto simp: get_del)

lemma keys_fold_del: "set (keys (fold del ks t)) = set (keys t) - set ks"
  by (auto simp: keys_get get_fold_del split: if_splits)

text \<open>Replacing the row of each key in a list by a function of the row.\<close>

lemma get_fold_put:
  "(\<And>k. k \<in> set ks \<Longrightarrow> get t k \<noteq> None) \<Longrightarrow> (\<And>r. f (f r) = f r) \<Longrightarrow>
   get (fold (\<lambda>k t. put k (f (the (get t k))) t) ks t) k =
     (if k \<in> set ks then map_option f (get t k) else get t k)"
proof (induction ks arbitrary: t)
  case Nil
  then show ?case by simp
next
  case (Cons a ks)
  from Cons.prems(1)[of a] obtain r where r: "get t a = Some r" by auto
  let ?t = "put a (f (the (get t a))) t"
  have "\<And>k. k \<in> set ks \<Longrightarrow> get ?t k \<noteq> None"
    using Cons.prems(1) by (auto simp: get_put)
  from Cons.IH[OF this Cons.prems(2)] show ?case
    by (auto simp: get_put r Cons.prems(2))
qed

end

definition tbl_keys :: "('k \<times> 'r) list \<Rightarrow> 'k list" where
  "tbl_keys t = map fst t"

interpretation tbl: row_store "map_of :: ('k \<times> 'r) list \<Rightarrow> 'k \<Rightarrow> 'r option" AList.update
  AList.delete tbl_keys
  by unfold_locales
    (auto simp: update_conv delete_conv tbl_keys_def map_of_eq_None_iff)

section \<open>The first-seen interface\<close>

text \<open>
  Several tables record who touched what: \<open>touch\<close> counts the visit and answers whether the key was
  new (\<open>RETURNING xmax = 0\<close>). Over any sequence of visits the answer is yes once per key, at its
  first visit, and never for a key that was there before.
\<close>

locale first_seen =
  fixes touch :: "'a \<Rightarrow> 's \<Rightarrow> bool \<times> 's"
    and key :: "'a \<Rightarrow> 'k"
    and seen :: "'s \<Rightarrow> 'k \<Rightarrow> bool"
  assumes touch_new: "fst (touch a s) \<longleftrightarrow> \<not> seen s (key a)"
    and touch_seen: "seen (snd (touch a s)) k \<longleftrightarrow> k = key a \<or> seen s k"
begin

fun visits :: "'a list \<Rightarrow> 's \<Rightarrow> bool list \<times> 's" where
  "visits [] s = ([], s)"
| "visits (a # as) s =
     (let (new, s') = touch a s; (news, s'') = visits as s' in (new # news, s''))"

lemma visits_seen: "seen (snd (visits as s)) k \<longleftrightarrow> k \<in> key ` set as \<or> seen s k"
  by (induction "as" arbitrary: s) (auto simp: Let_def case_prod_beta touch_seen)

lemma visits_new:
  "fst (visits as s) =
     map (\<lambda>i. \<not> seen s (key (as ! i)) \<and> key (as ! i) \<notin> key ` set (take i as)) [0..<length as]"
proof (induction "as" arbitrary: s)
  case Nil
  then show ?case by simp
next
  case (Cons a as)
  have "map f [0..<length (a # as)] = f 0 # map (\<lambda>i. f (Suc i)) [0..<length as]" for f :: "nat \<Rightarrow> bool"
    by (simp add: upt_conv_Cons map_Suc_upt[symmetric] comp_def del: upt_Suc)
  note conv = this
  show ?case
    unfolding conv by (auto simp: Cons.IH Let_def case_prod_beta touch_new touch_seen)
qed

lemma no_second_new: "k \<in> key ` set as \<or> seen s k \<Longrightarrow> key a = k \<Longrightarrow> \<not> fst (touch a (snd (visits as s)))"
  by (simp add: touch_new visits_seen)

end

section \<open>Rows\<close>

record vpn_row =
  vpn_updated_at :: time
  vpn_active :: "bool option"
  vpn_clients :: "dict list option"
  vpn_certs :: pyval

record agent_row =
  pa_last_report :: time
  pa_agent_version :: pyval
  pa_active :: bool

record service_row =
  ss_vpc :: string
  ss_name :: string
  ss_tier :: string
  ss_status :: string
  ss_last_seen :: time
  ss_latency_ms :: pyval
  ss_fails :: int
  ss_success :: int
  ss_down_since :: "time option"
  ss_extra :: dict

record bucket_row =
  bk_region :: "string option"
  bk_account :: "string option"
  bk_created_date :: "time option"
  bk_last_scan :: time
  bk_public :: bool
  bk_public_reasons :: pyval
  bk_encryption :: string
  bk_versioning :: string
  bk_mfa_delete :: bool
  bk_bpa :: pyval
  bk_logging_target :: pyval
  bk_policy :: pyval
  bk_tags :: pyval

record finding_row =
  fd_resource_id :: string
  fd_resource_type :: string
  fd_finding_type :: string
  fd_severity :: string
  fd_region :: "string option"
  fd_account :: "string option"
  fd_evidence :: dict
  fd_last_seen :: time
  fd_resolved_at :: "time option"

record session_row =
  se_db_instance :: string
  se_source_type :: string
  se_db_user :: "string option"
  se_db_name :: "string option"
  se_source_ip :: "string option"
  se_source_port :: pyval
  se_connected_at :: time
  se_last_seen_at :: time
  se_disconnected_at :: "time option"
  se_duration :: "int option"
  se_extra :: dict

record counter_row =
  cn_first_seen :: time
  cn_last_seen :: time
  cn_count :: int

record api_source_row =
  ap_api_name :: string
  ap_first_seen :: time
  ap_last_seen :: time
  ap_requests :: int
  ap_4xx :: int
  ap_5xx :: int

record metric_row =
  hm_mem_min :: "real option"
  hm_mem_avg :: "real option"
  hm_mem_max :: "real option"
  hm_cpu_min :: "real option"
  hm_cpu_avg :: "real option"
  hm_cpu_max :: "real option"
  hm_count :: int

text \<open>The projection-owned keys \<open>_baseline_cpu\<close> and \<open>_state\<close> of \<open>host_status.extra\<close> are typed
  columns of the row.\<close>

record cpu_baseline =
  bl_n :: int
  bl_mean :: real
  bl_M2 :: real

record host_state =
  memory_exhausted :: bool
  cpu_anomaly_active :: bool
  consecutive_cpu_anomaly :: int
  consecutive_cpu_normal :: int
  rpm_db_corrupted_active :: bool
  stalled_collectors :: "string list"

record host_row =
  hr_hostname :: "string option"
  hr_account :: "string option"
  hr_region :: "string option"
  hr_updated_at :: time
  hr_active :: "bool option"
  hr_extra :: dict
  hr_baseline :: "cpu_baseline option"
  hr_state :: "host_state option"
  hr_snapshots :: "dict option"
  hr_display_name :: "string option"

record perf_sample =
  sm_t :: time
  sm_b :: bool
  sm_v :: real
  sm_h :: "string option"

record perf_rule =
  pr_name :: string
  pr_enabled :: bool
  pr_module :: string
  pr_instance_id :: "string option"
  pr_tag_key :: "string option"
  pr_tag_value :: "string option"
  pr_metric :: string
  pr_comparison :: string
  pr_threshold :: real
  pr_window_seconds :: int
  pr_min_breach_ratio :: real
  pr_severity :: severity
  pr_channels :: "string list"
  pr_throttle_seconds :: int
  pr_samples :: "perf_sample list"
  pr_last_fired_at :: "time option"
  pr_last_value :: "real option"
  pr_message_template :: "string option"
  pr_instance_ids :: "string list"

record fim_change =
  fh_path :: string
  fh_changed_at :: time
  fh_change_type :: pyval
  fh_sha256 :: "pyval \<times> pyval"
  fh_size :: "int option \<times> int option"
  fh_perm :: "int option \<times> int option"
  fh_owner :: "pyval \<times> pyval"
  fh_event_id :: "string option"
  fh_detection :: pyval
  fh_actor_ids :: "int option \<times> int option \<times> int option"
  fh_actor_strs :: "string option \<times> string option \<times> string option"

record fim_baseline =
  fb_sha256 :: pyval
  fb_size :: int
  fb_perm :: int
  fb_owner_uid :: int
  fb_owner_gid :: int
  fb_mtime :: time
  fb_last_seen_at :: time
  fb_established_at :: time

record fim_coverage =
  fc_paths_configured :: int
  fc_files_tracked :: int
  fc_last_full_scan_at :: "time option"
  fc_last_scan_duration_ms :: "int option"
  fc_scan_errors :: int
  fc_updated_at :: time
  fc_paths_inotify :: int
  fc_paths_baseline_only :: int
  fc_inotify_active :: bool
  fc_inotify_watch_count :: int
  fc_auditd_active :: bool
  fc_configured_paths :: "dict option"
  fc_path_stats :: "dict option"

record db =
  db_events :: "event list"
  db_vpn :: "(string \<times> vpn_row) list"
  db_hosts :: "(string \<times> host_row) list"
  db_metrics :: "((string \<times> time) \<times> metric_row) list"
  db_perf_rules :: "(string \<times> perf_rule) list"
  db_probe_tags :: "(string \<times> dict) list"
  db_services :: "(string \<times> service_row) list"
  db_agents :: "(string \<times> agent_row) list"
  db_buckets :: "(string \<times> bucket_row) list"
  db_findings :: "(string \<times> finding_row) list"
  db_sessions :: "(string \<times> session_row) list"
  db_proxy_sources :: "(string \<times> counter_row) list"
  db_user_sources :: "((string \<times> string) \<times> counter_row) list"
  db_allowlist :: "string list"
  db_api_sources :: "(string \<times> api_source_row) list"
  db_acks :: "(string \<times> time) list"
  db_fim_history :: "(string \<times> fim_change) list"
  db_fim_baselines :: "((string \<times> string) \<times> fim_baseline) list"
  db_fim_coverage :: "(string \<times> fim_coverage) list"

definition empty_db :: db where
  "empty_db = \<lparr>db_events = [], db_vpn = [], db_hosts = [], db_metrics = [], db_perf_rules = [],
     db_probe_tags = [], db_services = [], db_agents = [], db_buckets = [], db_findings = [],
     db_sessions = [], db_proxy_sources = [], db_user_sources = [], db_allowlist = [],
     db_api_sources = [], db_acks = [], db_fim_history = [], db_fim_baselines = [],
     db_fim_coverage = []\<rparr>"

section \<open>Events\<close>

text \<open>A fresh \<open>uuid4\<close> (\<open>None\<close>) conflicts with nothing.\<close>

definition insert_event :: "event \<Rightarrow> db \<Rightarrow> bool \<times> db" where
  "insert_event ev d =
     (if ev_id ev \<noteq> None \<and> ev_id ev \<in> ev_id ` set (db_events d) then (False, d)
      else (True, d\<lparr>db_events := db_events d @ [ev]\<rparr>))"

text \<open>The filters of \<open>query_events\<close>; an absent or empty filter does not constrain. The free-text
  filter \<open>q\<close> is a predicate on the row.\<close>

record event_query =
  q_module :: "string option"
  q_category :: "string option"
  q_action :: "string option"
  q_outcome :: "string option"
  q_severity :: "string option"
  q_severities :: "string list"
  q_principal :: "string option"
  q_source_ip :: "string option"
  q_target_id :: "string option"
  q_since :: "time option"
  q_until :: "time option"
  q_text :: "(event \<Rightarrow> bool) option"
  q_limit :: int

definition any_query :: event_query where
  "any_query = \<lparr>q_module = None, q_category = None, q_action = None, q_outcome = None,
     q_severity = None, q_severities = [], q_principal = None, q_source_ip = None,
     q_target_id = None, q_since = None, q_until = None, q_text = None, q_limit = 100\<rparr>"

definition q_matches :: "string option \<Rightarrow> string option \<Rightarrow> bool" where
  "q_matches filt column = (\<not> str_truthy filt \<or> column = filt)"

definition event_selected :: "event_query \<Rightarrow> event \<Rightarrow> bool" where
  "event_selected q ev =
     (q_matches (q_module q) (Some (src_module (ev_source ev))) \<and>
      q_matches (q_category q) (Some (category_value (ev_category ev))) \<and>
      q_matches (q_action q) (Some (ev_action ev)) \<and>
      q_matches (q_outcome q) (Some (outcome_value (ev_outcome ev))) \<and>
      q_matches (q_severity q) (map_option severity_value (ev_severity ev)) \<and>
      (q_severities q = [] \<or>
         map_option severity_value (ev_severity ev) \<in> Some ` set (q_severities q)) \<and>
      q_matches (q_principal q) (act_principal (ev_actor ev)) \<and>
      q_matches (q_source_ip q) (act_source_ip (ev_actor ev)) \<and>
      q_matches (q_target_id q) (tgt_id (ev_target ev)) \<and>
      (case q_since q of None \<Rightarrow> True | Some t \<Rightarrow> t \<le> ev_time ev) \<and>
      (case q_until q of None \<Rightarrow> True | Some t \<Rightarrow> ev_time ev \<le> t) \<and>
      (case q_text q of None \<Rightarrow> True | Some p \<Rightarrow> p ev))"

definition query_events :: "event_query \<Rightarrow> db \<Rightarrow> event list" where
  "query_events q d =
     take (nat (min (max (q_limit q) 1) 1000))
       (sort_key (\<lambda>ev. - ev_time ev) (filter (event_selected q) (db_events d)))"

section \<open>VPN read-model\<close>

definition get_vpn_status :: "db \<Rightarrow> string \<Rightarrow> vpn_row option" where
  "get_vpn_status d server = map_of (db_vpn d) server"

definition upsert_vpn_health :: "string \<Rightarrow> bool \<Rightarrow> time \<Rightarrow> db \<Rightarrow> db" where
  "upsert_vpn_health server active t d = d\<lparr>db_vpn := AList.update server
     (case get_vpn_status d server of
        None \<Rightarrow> \<lparr>vpn_updated_at = t, vpn_active = Some active, vpn_clients = None,
                 vpn_certs = PyNone\<rparr>
      | Some r \<Rightarrow> r\<lparr>vpn_active := Some active, vpn_updated_at := t\<rparr>) (db_vpn d)\<rparr>"

definition upsert_vpn_clients :: "string \<Rightarrow> dict list \<Rightarrow> time \<Rightarrow> db \<Rightarrow> db" where
  "upsert_vpn_clients server clients t d = d\<lparr>db_vpn := AList.update server
     (case get_vpn_status d server of
        None \<Rightarrow> \<lparr>vpn_updated_at = t, vpn_active = None, vpn_clients = Some clients,
                 vpn_certs = PyNone\<rparr>
      | Some r \<Rightarrow> r\<lparr>vpn_clients := Some clients, vpn_updated_at := t\<rparr>) (db_vpn d)\<rparr>"

definition upsert_vpn_certs :: "string \<Rightarrow> pyval \<Rightarrow> time \<Rightarrow> db \<Rightarrow> db" where
  "upsert_vpn_certs server certs t d = d\<lparr>db_vpn := AList.update server
     (case get_vpn_status d server of
        None \<Rightarrow> \<lparr>vpn_updated_at = t, vpn_active = None, vpn_clients = None, vpn_certs = certs\<rparr>
      | Some r \<Rightarrow> r\<lparr>vpn_certs := certs, vpn_updated_at := t\<rparr>) (db_vpn d)\<rparr>"

definition delete_vpn_status :: "string \<Rightarrow> db \<Rightarrow> db" where
  "delete_vpn_status server d = d\<lparr>db_vpn := AList.delete server (db_vpn d)\<rparr>"

section \<open>Hosts\<close>

definition get_host_status :: "db \<Rightarrow> string \<Rightarrow> host_row option" where
  "get_host_status d i = map_of (db_hosts d) i"

text \<open>\<open>ORDER BY hostname, instance_id\<close>: rows without a hostname come last.\<close>

definition list_host_status :: "db \<Rightarrow> (string \<times> host_row) list" where
  "list_host_status d =
     (let rows = sort_key fst (db_hosts d)
      in sort_key (\<lambda>(_, r). the (hr_hostname r)) (filter (\<lambda>(_, r). hr_hostname r \<noteq> None) rows) @
         filter (\<lambda>(_, r). hr_hostname r = None) rows)"

definition get_host_snapshots :: "db \<Rightarrow> string \<Rightarrow> dict option" where
  "get_host_snapshots d i = (case map_of (db_hosts d) i of None \<Rightarrow> None | Some r \<Rightarrow> hr_snapshots r)"

definition empty_host_row :: "time \<Rightarrow> host_row" where
  "empty_host_row t = \<lparr>hr_hostname = None, hr_account = None, hr_region = None,
     hr_updated_at = t, hr_active = None, hr_extra = [], hr_baseline = None, hr_state = None,
     hr_snapshots = None, hr_display_name = None\<rparr>"

definition host_row_or_new :: "db \<Rightarrow> string \<Rightarrow> time \<Rightarrow> host_row" where
  "host_row_or_new d i t =
     (case map_of (db_hosts d) i of None \<Rightarrow> empty_host_row t | Some r \<Rightarrow> r)"

definition set_host_snapshots :: "string \<Rightarrow> dict \<Rightarrow> time \<Rightarrow> db \<Rightarrow> db" where
  "set_host_snapshots i snaps t d = d\<lparr>db_hosts := AList.update i
     ((host_row_or_new d i t)\<lparr>hr_snapshots := Some snaps, hr_updated_at := t\<rparr>) (db_hosts d)\<rparr>"

definition upsert_host_status ::
  "string \<Rightarrow> string option \<Rightarrow> string option \<Rightarrow> string option \<Rightarrow> time \<Rightarrow> bool \<Rightarrow> dict \<Rightarrow>
   cpu_baseline \<Rightarrow> host_state \<Rightarrow> db \<Rightarrow> db" where
  "upsert_host_status i hostname account region t active extra baseline st d =
     d\<lparr>db_hosts := AList.update i
       ((host_row_or_new d i t)\<lparr>hr_hostname := hostname, hr_account := account,
          hr_region := region, hr_updated_at := t, hr_active := Some active, hr_extra := extra,
          hr_baseline := Some baseline, hr_state := Some st\<rparr>) (db_hosts d)\<rparr>"

definition set_host_active :: "string \<Rightarrow> bool \<Rightarrow> db \<Rightarrow> db" where
  "set_host_active i active d =
     (case map_of (db_hosts d) i of None \<Rightarrow> d
      | Some r \<Rightarrow> d\<lparr>db_hosts := AList.update i (r\<lparr>hr_active := Some active\<rparr>) (db_hosts d)\<rparr>)"

definition set_host_display_name :: "string \<Rightarrow> string option \<Rightarrow> db \<Rightarrow> db" where
  "set_host_display_name i name d =
     (case map_of (db_hosts d) i of None \<Rightarrow> d
      | Some r \<Rightarrow> d\<lparr>db_hosts := AList.update i
          (r\<lparr>hr_display_name := (let s = str_strip (str_or name '''') in
             if s = [] then None else Some s)\<rparr>) (db_hosts d)\<rparr>)"

text \<open>The hourly rollup of \<open>upsert_host_metric_sample\<close>: running minimum, mean and maximum per
  column, one shared sample count; rows of another hour older than the retention are pruned.\<close>

definition METRICS_RETENTION_DAYS :: int where "METRICS_RETENTION_DAYS = 14"

definition least_opt :: "real option \<Rightarrow> real option \<Rightarrow> real option" where
  "least_opt a b = (case a of None \<Rightarrow> b | Some x \<Rightarrow> (case b of None \<Rightarrow> a | Some y \<Rightarrow> Some (min x y)))"

definition greatest_opt :: "real option \<Rightarrow> real option \<Rightarrow> real option" where
  "greatest_opt a b = (case a of None \<Rightarrow> b | Some x \<Rightarrow> (case b of None \<Rightarrow> a | Some y \<Rightarrow> Some (max x y)))"

definition running_avg :: "real option \<Rightarrow> int \<Rightarrow> real option \<Rightarrow> real option" where
  "running_avg old n new =
     (case new of None \<Rightarrow> old
      | Some x \<Rightarrow> (case old of None \<Rightarrow> Some x
          | Some a \<Rightarrow> Some ((a * real_of_int n + x) / real_of_int (n + 1))))"

definition first_sample :: "real option \<Rightarrow> real option \<Rightarrow> metric_row" where
  "first_sample m c = \<lparr>hm_mem_min = m, hm_mem_avg = m, hm_mem_max = m,
     hm_cpu_min = c, hm_cpu_avg = c, hm_cpu_max = c, hm_count = 1\<rparr>"

definition fold_sample :: "real option \<Rightarrow> real option \<Rightarrow> metric_row \<Rightarrow> metric_row" where
  "fold_sample m c r =
     \<lparr>hm_mem_min = least_opt (hm_mem_min r) m,
      hm_mem_avg = running_avg (hm_mem_avg r) (hm_count r) m,
      hm_mem_max = greatest_opt (hm_mem_max r) m,
      hm_cpu_min = least_opt (hm_cpu_min r) c,
      hm_cpu_avg = running_avg (hm_cpu_avg r) (hm_count r) c,
      hm_cpu_max = greatest_opt (hm_cpu_max r) c,
      hm_count = hm_count r + 1\<rparr>"

definition hour_start :: "time \<Rightarrow> time" where
  "hour_start t = real_of_int (\<lfloor>t / 3600\<rfloor> * 3600)"

definition upsert_host_metric_sample ::
  "time \<Rightarrow> string \<Rightarrow> time \<Rightarrow> real option \<Rightarrow> real option \<Rightarrow> db \<Rightarrow> db" where
  "upsert_host_metric_sample now i t m c d =
     (let k = (i, hour_start t);
          row = (case map_of (db_metrics d) k of None \<Rightarrow> first_sample m c
                 | Some r \<Rightarrow> fold_sample m c r)
      in d\<lparr>db_metrics := filter
             (\<lambda>((_, h), _). \<not> h < now - 86400 * real_of_int METRICS_RETENTION_DAYS)
             (AList.update k row (db_metrics d))\<rparr>)"

section \<open>Performance alert rules\<close>

definition list_enabled_perf_rules_for_module :: "string \<Rightarrow> db \<Rightarrow> (string \<times> perf_rule) list" where
  "list_enabled_perf_rules_for_module m d =
     filter (\<lambda>(_, r). pr_enabled r \<and> pr_module r = m) (db_perf_rules d)"

definition update_perf_rule_state ::
  "string \<Rightarrow> perf_sample list \<Rightarrow> real option \<Rightarrow> time option \<Rightarrow> db \<Rightarrow> db" where
  "update_perf_rule_state i samples v fired d =
     (case map_of (db_perf_rules d) i of None \<Rightarrow> d
      | Some r \<Rightarrow>
          let r' = (case fired of
                 Some t \<Rightarrow> r\<lparr>pr_samples := samples, pr_last_value := v, pr_last_fired_at := Some t\<rparr>
               | None \<Rightarrow> r\<lparr>pr_samples := samples, pr_last_value := v\<rparr>)
          in d\<lparr>db_perf_rules := AList.update i r' (db_perf_rules d)\<rparr>)"

section \<open>Service probes\<close>

text \<open>Of a probe target the projection reads the tags only.\<close>

definition probe_target_tags :: "db \<Rightarrow> string \<Rightarrow> dict" where
  "probe_target_tags d i = (case map_of (db_probe_tags d) i of None \<Rightarrow> [] | Some t \<Rightarrow> t)"

definition get_service_status :: "db \<Rightarrow> string \<Rightarrow> service_row option" where
  "get_service_status d i = map_of (db_services d) i"

definition upsert_service_status :: "string \<Rightarrow> service_row \<Rightarrow> db \<Rightarrow> db" where
  "upsert_service_status i r d = d\<lparr>db_services := AList.update i r (db_services d)\<rparr>"

definition get_probe_agent :: "db \<Rightarrow> string \<Rightarrow> agent_row option" where
  "get_probe_agent d vpc = map_of (db_agents d) vpc"

definition list_probe_agents :: "db \<Rightarrow> (string \<times> agent_row) list" where
  "list_probe_agents d = sort_key fst (db_agents d)"

definition upsert_probe_agent :: "string \<Rightarrow> time \<Rightarrow> pyval \<Rightarrow> bool \<Rightarrow> db \<Rightarrow> db" where
  "upsert_probe_agent vpc t ver active d = d\<lparr>db_agents := AList.update vpc
     \<lparr>pa_last_report = t, pa_agent_version = ver, pa_active = active\<rparr> (db_agents d)\<rparr>"

section \<open>S3 buckets\<close>

text \<open>\<open>ORDER BY public DESC NULLS LAST, account, region, bucket_name\<close>; rows without an account, or without a region,
  come after those that have one. The sorts are stable, so the last key is sorted first.\<close>

definition nulls_last :: "(bucket_row \<Rightarrow> string option) \<Rightarrow> (string \<times> bucket_row) list \<Rightarrow> (string \<times> bucket_row) list" where
  "nulls_last col rows =
     sort_key (\<lambda>(_, r). the (col r)) (filter (\<lambda>(_, r). col r \<noteq> None) rows) @ filter (\<lambda>(_, r). col r = None) rows"

definition list_bucket_status :: "bool \<Rightarrow> bool \<Rightarrow> db \<Rightarrow> (string \<times> bucket_row) list" where
  "list_bucket_status public_only unencrypted_only d =
     sort_key (\<lambda>(_, r). \<not> bk_public r) (nulls_last bk_account (nulls_last bk_region (sort_key fst
       (filter (\<lambda>(_, r). (public_only \<longrightarrow> bk_public r) \<and> (unencrypted_only \<longrightarrow> bk_encryption r = ''none'')) (db_buckets d)))))"

lemma set_list_bucket_status: "set (list_bucket_status False False d) = set (db_buckets d)"
  by (auto simp: list_bucket_status_def nulls_last_def)

lemma length_list_bucket_status: "length (list_bucket_status False False d) = length (db_buckets d)"
proof -
  have "length (nulls_last col rows) = length rows" for col rows
    unfolding nulls_last_def by (induction rows) (auto simp: length_sort)
  then show ?thesis by (simp add: list_bucket_status_def)
qed

lemma distinct_list_bucket_status:
  assumes "distinct (map fst (db_buckets d))"
  shows "distinct (map fst (list_bucket_status False False d))"
proof -
  have "card (set (map fst (list_bucket_status False False d))) = length (map fst (list_bucket_status False False d))"
    using assms distinct_card by (force simp: set_list_bucket_status length_list_bucket_status)
  then show ?thesis by (rule card_distinct)
qed

definition get_bucket_status :: "db \<Rightarrow> string \<Rightarrow> bucket_row option" where
  "get_bucket_status d name = map_of (db_buckets d) name"

text \<open>\<open>created_date\<close> is kept when the new value is NULL; every other column is replaced.\<close>

definition upsert_bucket_status :: "string \<Rightarrow> bucket_row \<Rightarrow> db \<Rightarrow> db" where
  "upsert_bucket_status name r d = d\<lparr>db_buckets := AList.update name
     (case get_bucket_status d name of None \<Rightarrow> r
      | Some old \<Rightarrow> r\<lparr>bk_created_date :=
          (case bk_created_date r of None \<Rightarrow> bk_created_date old | Some t \<Rightarrow> Some t)\<rparr>)
     (db_buckets d)\<rparr>"

definition delete_bucket_status :: "string \<Rightarrow> db \<Rightarrow> db" where
  "delete_bucket_status name d = d\<lparr>db_buckets := AList.delete name (db_buckets d)\<rparr>"

section \<open>Posture findings\<close>

definition get_posture_finding :: "db \<Rightarrow> string \<Rightarrow> finding_row option" where
  "get_posture_finding d fid = map_of (db_findings d) fid"

text \<open>On conflict the identity columns stay, the rest is refreshed and the finding re-opened. The
  result is \<open>xmax = 0\<close>: whether a row was inserted.\<close>

definition upsert_posture_finding ::
  "string \<Rightarrow> string \<Rightarrow> string \<Rightarrow> string \<Rightarrow> string \<Rightarrow> string option \<Rightarrow> string option \<Rightarrow> dict \<Rightarrow> time \<Rightarrow>
   db \<Rightarrow> bool \<times> db" where
  "upsert_posture_finding fid rid rtype ftype sev region account evidence t d =
     (case get_posture_finding d fid of
        None \<Rightarrow> (True, d\<lparr>db_findings := AList.update fid
          \<lparr>fd_resource_id = rid, fd_resource_type = rtype, fd_finding_type = ftype,
           fd_severity = sev, fd_region = region, fd_account = account, fd_evidence = evidence,
           fd_last_seen = t, fd_resolved_at = None\<rparr> (db_findings d)\<rparr>)
      | Some r \<Rightarrow> (False, d\<lparr>db_findings := AList.update fid
          (r\<lparr>fd_severity := sev, fd_region := region, fd_account := account,
             fd_evidence := evidence, fd_last_seen := t, fd_resolved_at := None\<rparr>)
          (db_findings d)\<rparr>))"

definition mark_posture_finding_resolved :: "string \<Rightarrow> time \<Rightarrow> db \<Rightarrow> db" where
  "mark_posture_finding_resolved fid t d =
     (case get_posture_finding d fid of None \<Rightarrow> d
      | Some r \<Rightarrow> if fd_resolved_at r \<noteq> None then d
          else d\<lparr>db_findings := AList.update fid (r\<lparr>fd_resolved_at := Some t\<rparr>) (db_findings d)\<rparr>)"

definition list_unresolved_finding_ids_for_account :: "string \<Rightarrow> db \<Rightarrow> string list" where
  "list_unresolved_finding_ids_for_account account d =
     filter (\<lambda>fid. case get_posture_finding d fid of None \<Rightarrow> False
        | Some r \<Rightarrow> fd_account r = Some account \<and> fd_resolved_at r = None)
       (tbl_keys (db_findings d))"

section \<open>RDS sessions and sources\<close>

definition upsert_rds_session_start ::
  "string \<Rightarrow> string \<Rightarrow> string \<Rightarrow> string option \<Rightarrow> string option \<Rightarrow> string option \<Rightarrow> pyval \<Rightarrow> time \<Rightarrow>
   dict \<Rightarrow> db \<Rightarrow> bool \<times> db" where
  "upsert_rds_session_start sid inst stype user dbname ip port t extra d =
     (case map_of (db_sessions d) sid of
        None \<Rightarrow> (True, d\<lparr>db_sessions := AList.update sid
          \<lparr>se_db_instance = inst, se_source_type = stype, se_db_user = user, se_db_name = dbname,
           se_source_ip = ip, se_source_port = port, se_connected_at = t, se_last_seen_at = t,
           se_disconnected_at = None, se_duration = None, se_extra = extra\<rparr> (db_sessions d)\<rparr>)
      | Some r \<Rightarrow> (False, d\<lparr>db_sessions := AList.update sid (r\<lparr>se_last_seen_at := t\<rparr>)
          (db_sessions d)\<rparr>))"

text \<open>\<open>EXTRACT(EPOCH FROM ...)::INT\<close> rounds to the nearest integer.\<close>

definition close_rds_session :: "string \<Rightarrow> time \<Rightarrow> int option \<Rightarrow> db \<Rightarrow> bool \<times> db" where
  "close_rds_session sid t dur d =
     (case map_of (db_sessions d) sid of None \<Rightarrow> (False, d)
      | Some r \<Rightarrow> if se_disconnected_at r \<noteq> None then (False, d)
          else (True, d\<lparr>db_sessions := AList.update sid
            (r\<lparr>se_disconnected_at := Some t,
               se_duration := (case dur of Some n \<Rightarrow> Some n
                 | None \<Rightarrow> (case se_duration r of Some n \<Rightarrow> Some n
                    | None \<Rightarrow> Some (round (t - se_connected_at r)))),
               se_last_seen_at := t\<rparr>) (db_sessions d)\<rparr>))"

definition list_rds_active_sessions :: "string option \<Rightarrow> nat \<Rightarrow> db \<Rightarrow> (string \<times> session_row) list" where
  "list_rds_active_sessions inst limit d =
     take limit (sort_key (\<lambda>(_, r). - se_connected_at r)
       (filter (\<lambda>(_, r). se_disconnected_at r = None \<and>
           (case inst of None \<Rightarrow> True | Some i \<Rightarrow> se_db_instance r = i)) (db_sessions d)))"

definition bump_counter :: "time \<Rightarrow> counter_row option \<Rightarrow> counter_row" where
  "bump_counter t old =
     (case old of None \<Rightarrow> \<lparr>cn_first_seen = t, cn_last_seen = t, cn_count = 1\<rparr>
      | Some r \<Rightarrow> r\<lparr>cn_last_seen := t, cn_count := cn_count r + 1\<rparr>)"

definition upsert_rds_proxy_source :: "string \<Rightarrow> time \<Rightarrow> db \<Rightarrow> bool \<times> db" where
  "upsert_rds_proxy_source ip t d =
     (map_of (db_proxy_sources d) ip = None,
      d\<lparr>db_proxy_sources := AList.update ip (bump_counter t (map_of (db_proxy_sources d) ip))
          (db_proxy_sources d)\<rparr>)"

definition upsert_rds_user_source :: "string \<Rightarrow> string \<Rightarrow> time \<Rightarrow> db \<Rightarrow> bool \<times> db" where
  "upsert_rds_user_source user ip t d =
     (map_of (db_user_sources d) (user, ip) = None,
      d\<lparr>db_user_sources := AList.update (user, ip)
          (bump_counter t (map_of (db_user_sources d) (user, ip))) (db_user_sources d)\<rparr>)"

definition is_rds_user_allowlisted :: "string \<Rightarrow> db \<Rightarrow> bool" where
  "is_rds_user_allowlisted user d = (user \<in> set (db_allowlist d))"

section \<open>API Gateway sources\<close>

definition upsert_api_source :: "string \<Rightarrow> string \<Rightarrow> time \<Rightarrow> bool \<Rightarrow> bool \<Rightarrow> db \<Rightarrow> bool \<times> db" where
  "upsert_api_source ip api t is_4xx is_5xx d =
     (let n4 = (if is_4xx then 1 else 0); n5 = (if is_5xx then 1 else 0)
      in (map_of (db_api_sources d) ip = None,
          d\<lparr>db_api_sources := AList.update ip
             (case map_of (db_api_sources d) ip of
                None \<Rightarrow> \<lparr>ap_api_name = api, ap_first_seen = t, ap_last_seen = t, ap_requests = 1,
                         ap_4xx = n4, ap_5xx = n5\<rparr>
              | Some r \<Rightarrow> r\<lparr>ap_api_name := api, ap_last_seen := t, ap_requests := ap_requests r + 1,
                         ap_4xx := ap_4xx r + n4, ap_5xx := ap_5xx r + n5\<rparr>)
             (db_api_sources d)\<rparr>))"

section \<open>File integrity\<close>

definition insert_fim_history :: "string \<Rightarrow> fim_change \<Rightarrow> db \<Rightarrow> db" where
  "insert_fim_history i c d = d\<lparr>db_fim_history := db_fim_history d @ [(i, c)]\<rparr>"

definition delete_fim_baseline :: "string \<Rightarrow> string \<Rightarrow> db \<Rightarrow> db" where
  "delete_fim_baseline i path d = d\<lparr>db_fim_baselines := AList.delete (i, path) (db_fim_baselines d)\<rparr>"

text \<open>\<open>established_at\<close> is set on insert only.\<close>

definition upsert_fim_baseline :: "string \<Rightarrow> string \<Rightarrow> fim_baseline \<Rightarrow> db \<Rightarrow> db" where
  "upsert_fim_baseline i path b d = d\<lparr>db_fim_baselines := AList.update (i, path)
     (case map_of (db_fim_baselines d) (i, path) of
        None \<Rightarrow> b\<lparr>fb_established_at := fb_last_seen_at b\<rparr>
      | Some old \<Rightarrow> b\<lparr>fb_established_at := fb_established_at old\<rparr>) (db_fim_baselines d)\<rparr>"

definition coalesce :: "'a option \<Rightarrow> 'a option \<Rightarrow> 'a option" where
  "coalesce a b = (case a of None \<Rightarrow> b | Some x \<Rightarrow> Some x)"

definition upsert_fim_coverage :: "string \<Rightarrow> fim_coverage \<Rightarrow> db \<Rightarrow> db" where
  "upsert_fim_coverage i c d = d\<lparr>db_fim_coverage := AList.update i
     (case map_of (db_fim_coverage d) i of None \<Rightarrow> c
      | Some old \<Rightarrow> c\<lparr>
          fc_last_full_scan_at := coalesce (fc_last_full_scan_at c) (fc_last_full_scan_at old),
          fc_last_scan_duration_ms := coalesce (fc_last_scan_duration_ms c) (fc_last_scan_duration_ms old),
          fc_configured_paths := coalesce (fc_configured_paths c) (fc_configured_paths old),
          fc_path_stats := coalesce (fc_path_stats c) (fc_path_stats old)\<rparr>) (db_fim_coverage d)\<rparr>"

section \<open>Acknowledgements\<close>

definition is_fingerprint_acked :: "time \<Rightarrow> string \<Rightarrow> db \<Rightarrow> bool" where
  "is_fingerprint_acked now fp d =
     (case map_of (db_acks d) fp of None \<Rightarrow> False | Some t \<Rightarrow> now < t)"

definition add_notification_ack :: "string \<Rightarrow> time \<Rightarrow> db \<Rightarrow> db" where
  "add_notification_ack fp t d = d\<lparr>db_acks := AList.update fp t (db_acks d)\<rparr>"

definition remove_notification_ack :: "string \<Rightarrow> db \<Rightarrow> db" where
  "remove_notification_ack fp d = d\<lparr>db_acks := AList.delete fp (db_acks d)\<rparr>"

section \<open>Lemmas\<close>

lemma empty_db_get [simp]:
  "get_vpn_status empty_db k = None" "get_host_status empty_db k = None"
  "get_service_status empty_db k = None" "get_probe_agent empty_db k = None"
  "get_bucket_status empty_db k = None" "get_posture_finding empty_db k = None"
  "db_events empty_db = []"
  by (simp_all add: empty_db_def get_vpn_status_def get_host_status_def get_service_status_def
      get_probe_agent_def get_bucket_status_def get_posture_finding_def)

lemma event_selected_any [simp]: "event_selected any_query ev"
  by (simp add: event_selected_def any_query_def q_matches_def)

lemma set_query_events: "set (query_events q d) \<subseteq> {ev \<in> set (db_events d). event_selected q ev}"
  by (auto simp: query_events_def dest: in_set_takeD)

lemma length_query_events:
  "length (query_events q d) =
     min (length (filter (event_selected q) (db_events d))) (nat (min (max (q_limit q) 1) 1000))"
  by (simp add: query_events_def min.commute)

lemma insert_event_inserts:
  "fst (insert_event ev d) \<longleftrightarrow> db_events (snd (insert_event ev d)) = db_events d @ [ev]"
  by (simp add: insert_event_def)

lemma insert_event_frame [frame_simps]:
  "db_vpn (snd (insert_event ev d)) = db_vpn d"
  "db_hosts (snd (insert_event ev d)) = db_hosts d"
  "db_services (snd (insert_event ev d)) = db_services d"
  "db_buckets (snd (insert_event ev d)) = db_buckets d"
  "db_findings (snd (insert_event ev d)) = db_findings d"
  by (simp_all add: insert_event_def)

definition touch_proxy :: "string \<times> time \<Rightarrow> db \<Rightarrow> bool \<times> db" where
  "touch_proxy a d = (case a of (ip, t) \<Rightarrow> upsert_rds_proxy_source ip t d)"

definition touch_user :: "(string \<times> string) \<times> time \<Rightarrow> db \<Rightarrow> bool \<times> db" where
  "touch_user a d = (case a of ((u, ip), t) \<Rightarrow> upsert_rds_user_source u ip t d)"

definition touch_api :: "string \<times> string \<times> time \<times> bool \<times> bool \<Rightarrow> db \<Rightarrow> bool \<times> db" where
  "touch_api a d = (case a of (ip, api, t, e4, e5) \<Rightarrow> upsert_api_source ip api t e4 e5 d)"

interpretation proxy_seen: first_seen touch_proxy fst "\<lambda>d ip. map_of (db_proxy_sources d) ip \<noteq> None"
  by unfold_locales (auto simp: touch_proxy_def upsert_rds_proxy_source_def tbl.get_put)

interpretation user_seen: first_seen touch_user fst "\<lambda>d k. map_of (db_user_sources d) k \<noteq> None"
  by unfold_locales (auto simp: touch_user_def upsert_rds_user_source_def tbl.get_put split: if_splits)

interpretation api_seen: first_seen touch_api fst "\<lambda>d ip. map_of (db_api_sources d) ip \<noteq> None"
  by unfold_locales
    (auto simp: touch_api_def upsert_api_source_def tbl.get_put Let_def split: option.splits)

lemma rds_api_frame [frame_simps]:
  "db_events (snd (upsert_api_source ip api t e4 e5 d)) = db_events d"
  "db_events (snd (upsert_rds_proxy_source ip t d)) = db_events d"
  "db_events (snd (upsert_rds_user_source u ip t d)) = db_events d"
  by (simp_all add: upsert_api_source_def upsert_rds_proxy_source_def upsert_rds_user_source_def Let_def)

text \<open>The events table never holds two rows with one chosen identifier.\<close>

definition events_wf :: "db \<Rightarrow> bool" where
  "events_wf d = distinct (filter (\<lambda>i. i \<noteq> None) (map ev_id (db_events d)))"

lemma insert_event_wf: "events_wf d \<Longrightarrow> events_wf (snd (insert_event ev d))"
  by (auto simp: insert_event_def events_wf_def)

lemma insert_event_mono: "set (db_events d) \<subseteq> set (db_events (snd (insert_event ev d)))"
  by (auto simp: insert_event_def)

end
