(* ===== verification/VpnProjection.thy ===== *)
theory VpnProjection
  imports Storage
begin

text \<open>
  VPN state projection (\<open>src/blackwatch/vpn/projection.py\<close>): the read-model of a server (service
  state, connected clients, certificates) and the events derived by comparing snapshots:
  session start and end, concurrent use of one identity, service transitions. A client is a
  dictionary as the adapter parses it.
\<close>

section \<open>Operations\<close>

definition session_key :: "pyenv \<Rightarrow> dict \<Rightarrow> string" where
  "session_key E client =
     py_str E (dget client ''common_name'') @ ''|'' @ py_str E (dget client ''real_address'')"

definition identity :: "dict \<Rightarrow> string option" where
  "identity client = opt_or (as_str (dget client ''username'')) (as_str (dget client ''common_name''))"

definition real_ip :: "dict \<Rightarrow> string option" where
  "real_ip client = as_str (dget client ''real_ip'')"

definition vpn_derived_event ::
  "pyenv \<Rightarrow> time \<Rightarrow> string \<Rightarrow> string \<Rightarrow> string option \<Rightarrow> string option \<Rightarrow> observable list \<Rightarrow> dict \<Rightarrow>
   time \<Rightarrow> event" where
  "vpn_derived_event E now action server princ ip obs extra when =
     ensure_fingerprint E ((event_defaults now (new_source ''vpn.openvpn'' T_poll))
       \<lparr>ev_time := when, ev_category := C_vpn, ev_action := action, ev_outcome := O_success,
        ev_actor := new_actor princ ip,
        ev_target := new_target (Some server) (Some ''vpn.server'') (Some server),
        ev_observables := obs,
        ev_extra := dmerge [(''server'', PyStr server), (''derived'', PyBool True)] extra,
        ev_raw := PyDict [(''derived_from'', PyStr ''vpn.status.snapshot''),
                          (''server'', PyStr server)]\<rparr>)"

text \<open>\<open>by_identity.setdefault(identity, set()).add(ip)\<close> over the clients that have both.\<close>

fun group_ips :: "dict list \<Rightarrow> (string \<times> string list) list \<Rightarrow> (string \<times> string list) list" where
  "group_ips [] acc = acc"
| "group_ips (c # cs) acc =
     (if str_truthy (identity c) \<and> str_truthy (real_ip c)
      then (let i = the (identity c); ip = the (real_ip c);
                ips = (case map_of acc i of None \<Rightarrow> [] | Some xs \<Rightarrow> xs)
            in group_ips cs (AList.update i (if ip \<in> set ips then ips else ips @ [ip]) acc))
      else group_ips cs acc)"

definition detect_concurrent :: "pyenv \<Rightarrow> time \<Rightarrow> string \<Rightarrow> dict list \<Rightarrow> time \<Rightarrow> event list" where
  "detect_concurrent E now server clients when =
     map (\<lambda>(i, ips). vpn_derived_event E now ''vpn.session.concurrent'' server (Some i) None
            (map (\<lambda>ip. \<lparr>obs_type = Ob_ip, obs_value = ip\<rparr>) (sort ips))
            [(''identity'', PyStr i), (''source_ips'', PyList (map PyStr (sort ips)))] when)
       (filter (\<lambda>(i, ips). length ips > 1) (group_ips clients []))"

definition client_obs :: "dict \<Rightarrow> observable list" where
  "client_obs client =
     (if str_truthy (real_ip client)
      then [\<lparr>obs_type = Ob_ip, obs_value = the (real_ip client)\<rparr>] else []) @
     (if str_truthy (identity client)
      then [\<lparr>obs_type = Ob_user, obs_value = the (identity client)\<rparr>] else [])"

definition session_event :: "pyenv \<Rightarrow> time \<Rightarrow> string \<Rightarrow> string \<Rightarrow> time \<Rightarrow> dict \<Rightarrow> event" where
  "session_event E now action server when client =
     vpn_derived_event E now action server (identity client) (real_ip client) (client_obs client)
       [(''common_name'', dget client ''common_name'')] when"

definition diff_sessions ::
  "pyenv \<Rightarrow> time \<Rightarrow> string \<Rightarrow> dict list \<Rightarrow> dict list \<Rightarrow> time \<Rightarrow> event list" where
  "diff_sessions E now server previous current when =
     (let prev_by_key = dict_by (session_key E) previous;
          cur_by_key = dict_by (session_key E) current
      in map (\<lambda>(k, c). session_event E now ''vpn.session.start'' server when c)
           (filter (\<lambda>(k, c). k \<notin> fst ` set prev_by_key) cur_by_key) @
         map (\<lambda>(k, c). session_event E now ''vpn.session.end'' server when c)
           (filter (\<lambda>(k, c). k \<notin> fst ` set cur_by_key) prev_by_key))"

definition service_transition :: "bool option \<Rightarrow> bool \<Rightarrow> string option" where
  "service_transition prev_active new_active =
     (if prev_active = None \<and> new_active then Some ''vpn.service.up''
      else if prev_active = Some True \<and> \<not> new_active then Some ''vpn.service.down''
      else if prev_active = Some False \<and> new_active then Some ''vpn.service.up''
      else None)"

definition vpn_server :: "event \<Rightarrow> string" where
  "vpn_server event =
     str_or (opt_or (tgt_id (ev_target event)) (as_str (dget (ev_extra event) ''server''))) ''openvpn''"

definition vpn_health :: "pyenv \<Rightarrow> time \<Rightarrow> event \<Rightarrow> db \<Rightarrow> event list \<times> db" where
  "vpn_health E now event d =
     (let server = vpn_server event; when = ev_time event;
          prev_active = (case get_vpn_status d server of None \<Rightarrow> None | Some r \<Rightarrow> vpn_active r);
          new_active = (ev_outcome event = O_success);
          d' = upsert_vpn_health server new_active when d
      in case service_transition prev_active new_active of None \<Rightarrow> ([], d')
         | Some t \<Rightarrow>
             ([vpn_derived_event E now t server None None []
                [(''prev_active'', case prev_active of None \<Rightarrow> PyNone | Some b \<Rightarrow> PyBool b),
                 (''active'', PyBool new_active)] when], d'))"

definition vpn_snapshot :: "pyenv \<Rightarrow> time \<Rightarrow> event \<Rightarrow> db \<Rightarrow> event list \<times> db" where
  "vpn_snapshot E now event d =
     (let server = vpn_server event; when = ev_time event;
          current = dicts_of (dget (ev_extra event) ''clients'');
          previous = (case get_vpn_status d server of None \<Rightarrow> None | Some r \<Rightarrow> vpn_clients r);
          d' = upsert_vpn_clients server current when d
      in (detect_concurrent E now server current when @
          (case previous of None \<Rightarrow> []
           | Some p \<Rightarrow> diff_sessions E now server p current when), d'))"

definition vpn_cert_snapshot :: "event \<Rightarrow> db \<Rightarrow> event list \<times> db" where
  "vpn_cert_snapshot event d =
     ([], upsert_vpn_certs (vpn_server event)
            (py_or (dget (ev_extra event) ''certs'') (PyList [])) (ev_time event) d)"

definition vpn_project :: "pyenv \<Rightarrow> time \<Rightarrow> event \<Rightarrow> db \<Rightarrow> event list \<times> db" where
  "vpn_project E now event d =
     (if src_module (ev_source event) \<noteq> ''vpn.openvpn'' then ([], d)
      else if ev_action event = ''vpn.service.health'' then vpn_health E now event d
      else if ev_action event = ''vpn.status.snapshot'' then vpn_snapshot E now event d
      else if ev_action event = ''vpn.cert.snapshot'' then vpn_cert_snapshot event d
      else ([], d))"

section \<open>Lemmas\<close>

lemma vpn_derived_event_sel [simp]:
  "ev_action (vpn_derived_event E now a s p ip obs x w) = a"
  "ev_actor (vpn_derived_event E now a s p ip obs x w) = new_actor p ip"
  "ev_time (vpn_derived_event E now a s p ip obs x w) = w"
  by (simp_all add: vpn_derived_event_def)

lemma vpn_store [simp]:
  "get_vpn_status (upsert_vpn_health s a t d) s' =
     (if s' = s then Some (case get_vpn_status d s of
        None \<Rightarrow> \<lparr>vpn_updated_at = t, vpn_active = Some a, vpn_clients = None, vpn_certs = PyNone\<rparr>
      | Some r \<Rightarrow> r\<lparr>vpn_active := Some a, vpn_updated_at := t\<rparr>) else get_vpn_status d s')"
  "get_vpn_status (upsert_vpn_clients s c t d) s' =
     (if s' = s then Some (case get_vpn_status d s of
        None \<Rightarrow> \<lparr>vpn_updated_at = t, vpn_active = None, vpn_clients = Some c, vpn_certs = PyNone\<rparr>
      | Some r \<Rightarrow> r\<lparr>vpn_clients := Some c, vpn_updated_at := t\<rparr>) else get_vpn_status d s')"
  by (simp_all add: get_vpn_status_def upsert_vpn_health_def upsert_vpn_clients_def tbl.get_put)

text \<open>The state of the service as the read-model holds it.\<close>

definition vpn_state :: "db \<Rightarrow> string \<Rightarrow> bool option" where
  "vpn_state d s = (case get_vpn_status d s of None \<Rightarrow> None | Some r \<Rightarrow> vpn_active r)"

lemma vpn_health_state:
  "vpn_state (snd (vpn_health E now ev d)) s =
     (if s = vpn_server ev then Some (ev_outcome ev = O_success) else vpn_state d s)"
  by (auto simp: vpn_health_def vpn_state_def Let_def split: option.splits)

lemma vpn_health_actions:
  "map ev_action (fst (vpn_health E now ev d)) =
     (case service_transition (vpn_state d (vpn_server ev)) (ev_outcome ev = O_success) of
        None \<Rightarrow> [] | Some t \<Rightarrow> [t])"
  by (auto simp: vpn_health_def vpn_state_def Let_def split: option.splits)

text \<open>Grouping: the IPs recorded for an identity are those of its clients.\<close>

definition ips_of :: "dict list \<Rightarrow> string \<Rightarrow> string set" where
  "ips_of cs i = {ip. \<exists>c \<in> set cs. identity c = Some i \<and> real_ip c = Some ip \<and> i \<noteq> [] \<and> ip \<noteq> []}"

lemma ips_of_Nil [simp]: "ips_of [] i = {}"
  by (simp add: ips_of_def)

lemma ips_of_Cons: "ips_of (c # cs) i =
   (if identity c = Some i \<and> i \<noteq> [] \<and> str_truthy (real_ip c) then {the (real_ip c)} else {}) \<union> ips_of cs i"
  by (auto simp: ips_of_def str_truthy_def split: option.splits)

definition grouped :: "(string \<times> string list) list \<Rightarrow> string \<Rightarrow> string list" where
  "grouped acc i = (case map_of acc i of None \<Rightarrow> [] | Some xs \<Rightarrow> xs)"

lemma grouped_update [simp]:
  "grouped (AList.update i xs acc) j = (if j = i then xs else grouped acc j)"
  by (simp add: grouped_def update_conv)

lemma group_ips_set:
  "set (grouped (group_ips cs acc) i) = set (grouped acc i) \<union> ips_of cs i"
proof (induction cs acc rule: group_ips.induct)
  case (2 c cs acc)
  then show ?case
    by (auto simp: ips_of_Cons Let_def str_truthy_def grouped_def[symmetric] split: option.splits if_splits)
qed simp

lemma group_ips_distinct:
  "distinct (map fst acc) \<Longrightarrow> (\<And>i. distinct (grouped acc i)) \<Longrightarrow>
   distinct (map fst (group_ips cs acc)) \<and> distinct (grouped (group_ips cs acc) i)"
proof (induction cs acc rule: group_ips.induct)
  case (2 c cs acc)
  then show ?case
    by (auto simp: Let_def distinct_update grouped_def[symmetric])
qed simp

lemma grouped_Nil [simp]: "grouped [] i = []"
  by (simp add: grouped_def)

lemma group_ips_entry:
  "(i, ips) \<in> set (group_ips cs []) \<longleftrightarrow> map_of (group_ips cs []) i = Some ips"
  using group_ips_distinct[of "[]" cs] by simp

lemma group_ips_length:
  assumes "(i, ips) \<in> set (group_ips cs [])"
  shows "length ips = card (ips_of cs i)"
proof -
  have "grouped (group_ips cs []) i = ips"
    using assms by (simp add: group_ips_entry grouped_def)
  then show ?thesis
    using group_ips_set[of cs "[]" i] group_ips_distinct[of "[]" cs i]
    by (simp add: distinct_card[symmetric])
qed

lemma group_ips_many:
  assumes "card (ips_of cs i) > 1"
  shows "\<exists>ips. (i, ips) \<in> set (group_ips cs [])"
proof -
  from assms have "grouped (group_ips cs []) i \<noteq> []"
    using group_ips_set[of cs "[]" i] by auto
  then show ?thesis by (auto simp: grouped_def group_ips_entry split: option.splits)
qed

lemma detect_concurrent_principals:
  "map (\<lambda>e. act_principal (ev_actor e)) (detect_concurrent E now s cs w) =
   map (Some \<circ> fst) (filter (\<lambda>(i, ips). length ips > 1) (group_ips cs []))"
  by (auto simp: detect_concurrent_def)

lemma length_filter_map_keys:
  "distinct (map fst d) \<Longrightarrow> length (filter (\<lambda>(k, c). k \<notin> K) d) = card (fst ` set d - K)"
proof -
  assume d: "distinct (map fst d)"
  have "distinct (map fst (filter (\<lambda>(k, c). k \<notin> K) d))"
    using d by (simp add: distinct_map_filter)
  then have "card (set (map fst (filter (\<lambda>(k, c). k \<notin> K) d))) =
      length (filter (\<lambda>(k, c). k \<notin> K) d)"
    by (metis distinct_card length_map)
  moreover have "set (map fst (filter (\<lambda>(k, c). k \<notin> K) d)) = fst ` set d - K" by force
  ultimately show ?thesis by simp
qed

text \<open>The transitions a run of heartbeats emits for one server.\<close>

fun health_trace :: "pyenv \<Rightarrow> string \<Rightarrow> (event \<times> time) list \<Rightarrow> db \<Rightarrow> string list" where
  "health_trace E s [] d = []"
| "health_trace E s ((ev, now) # evs) d =
     (let (out, d') = vpn_health E now ev d
      in (if vpn_server ev = s then map ev_action out else []) @ health_trace E s evs d')"

fun alternating :: "bool \<Rightarrow> string list \<Rightarrow> bool" where
  "alternating up [] = True"
| "alternating up (a # as) =
     (a = (if up then ''vpn.service.down'' else ''vpn.service.up'') \<and> alternating (\<not> up) as)"

lemma health_trace_alternating:
  "alternating (vpn_state d s = Some True) (health_trace E s evs d)"
proof (induction evs arbitrary: d)
  case Nil
  then show ?case by simp
next
  case (Cons e evs)
  obtain ev now where e: "e = (ev, now)" by (cases e)
  obtain out d' where v: "vpn_health E now ev d = (out, d')" by fastforce
  have st: "vpn_state d' s =
      (if s = vpn_server ev then Some (ev_outcome ev = O_success) else vpn_state d s)"
    using vpn_health_state[of E now ev d s] v by simp
  have out: "map ev_action out =
      (case service_transition (vpn_state d (vpn_server ev)) (ev_outcome ev = O_success) of
        None \<Rightarrow> [] | Some t \<Rightarrow> [t])"
    using vpn_health_actions[of E now ev d] v by simp
  show ?case
    using Cons.IH[of d'] unfolding e
    by (auto simp: v st out service_transition_def split: if_splits option.splits)
qed

section \<open>Properties\<close>

text \<open>Service alerts are edge-triggered: whatever the sequence of heartbeats of however many
  servers, the transitions emitted for one server alternate, beginning with \<open>up\<close> unless the
  read-model already held it up. Two \<open>down\<close> alerts never follow each other.\<close>

theorem vpn_transitions_alternate:
  "alternating (vpn_state d s = Some True) (health_trace E s evs d)"
  by (rule health_trace_alternating)

text \<open>Concurrent use is reported exactly for the identities that are connected from more than
  one distinct address in the snapshot, and once for each.\<close>

theorem concurrent_iff:
  "(Some i \<in> (\<lambda>e. act_principal (ev_actor e)) ` set (detect_concurrent E now s cs w) \<longleftrightarrow>
     card (ips_of cs i) > 1) \<and>
   distinct (map (\<lambda>e. act_principal (ev_actor e)) (detect_concurrent E now s cs w))"
proof
  have "Some i \<in> (\<lambda>e. act_principal (ev_actor e)) ` set (detect_concurrent E now s cs w) \<longleftrightarrow>
      (\<exists>ips. (i, ips) \<in> set (group_ips cs []) \<and> length ips > 1)"
    unfolding set_map[symmetric] detect_concurrent_principals by force
  also have "\<dots> \<longleftrightarrow> card (ips_of cs i) > 1"
    using group_ips_length[of i _ cs] group_ips_many[of cs i] by metis
  finally show "Some i \<in> (\<lambda>e. act_principal (ev_actor e)) ` set (detect_concurrent E now s cs w) \<longleftrightarrow>
      card (ips_of cs i) > 1" .
next
  have "distinct (map fst (filter (\<lambda>(i, ips). length ips > 1) (group_ips cs [])))"
    using group_ips_distinct[of "[]" cs] by (simp add: distinct_map_filter)
  then show "distinct (map (\<lambda>e. act_principal (ev_actor e)) (detect_concurrent E now s cs w))"
    unfolding detect_concurrent_principals by (simp add: distinct_map comp_inj_on)
qed

text \<open>Session diffs balance: the number of \<open>start\<close> events is the number of session keys that
  are new in the snapshot, the number of \<open>end\<close> events the number of keys that are gone, and a
  repeated snapshot derives neither.\<close>

theorem session_diff_counts:
  "length (filter (\<lambda>e. ev_action e = ''vpn.session.start'') (diff_sessions E now s prev cur w)) =
     card (session_key E ` set cur - session_key E ` set prev) \<and>
   length (filter (\<lambda>e. ev_action e = ''vpn.session.end'') (diff_sessions E now s prev cur w)) =
     card (session_key E ` set prev - session_key E ` set cur) \<and>
   diff_sessions E now s cur cur w = []"
  by (simp add: diff_sessions_def Let_def session_event_def filter_map comp_def case_prod_beta
      length_filter_map_keys[OF distinct_dict_by, unfolded case_prod_beta] filter_empty_conv)
    (auto simp: filter_empty_conv dest: dict_by_key)

end
