(* ===== verification/S3Projection.thy ===== *)
theory S3Projection
  imports Storage
begin

text \<open>
  S3 bucket inventory projection (\<open>src/blackwatch/s3/projection.py\<close>): a bucket snapshot is
  stored and compared with the stored row, a completed scan removes the tracked buckets of the
  account that it did not see.
\<close>

section \<open>Operations\<close>

definition s3_good_news :: "string \<Rightarrow> bool" where
  "s3_good_news action = list_ex (\<lambda>s. suffix s action)
     [''first_seen'', ''public_removed'', ''encryption_added'', ''versioning_enabled'']"

definition s3_derived :: "pyenv \<Rightarrow> time \<Rightarrow> event \<Rightarrow> string \<Rightarrow> string \<Rightarrow> dict \<Rightarrow> time \<Rightarrow> event" where
  "s3_derived E now parent bucket action extras when =
     ensure_fingerprint E ((event_defaults now
         \<lparr>src_module = ''aws.s3'', src_vendor = Some ''aws'',
          src_account = src_account (ev_source parent),
          src_region = opt_or (as_str (dget extras ''region'')) (src_region (ev_source parent)),
          src_transport = T_api\<rparr>)
       \<lparr>ev_time := when, ev_category := C_storage, ev_action := action,
        ev_outcome := (if s3_good_news action then O_success else O_failure),
        ev_target := new_target (Some bucket) (Some ''aws.s3.bucket'') (Some bucket),
        ev_extra := dmerge [(''bucket_name'', PyStr bucket)] extras,
        ev_raw := PyDict [(''derived_from'', PyStr (ev_action parent)),
                          (''module'', PyStr ''aws.s3'')]\<rparr>)"

definition truncate_policy :: "pyval \<Rightarrow> pyval" where
  "truncate_policy p = (case p of PyStr s \<Rightarrow>
       if length s > 16000 then PyStr (take 16000 s @ ''...[truncated]'') else p | _ \<Rightarrow> p)"

definition parse_iso_opt :: "pyenv \<Rightarrow> pyval \<Rightarrow> time option" where
  "parse_iso_opt E v = (case v of PyStr s \<Rightarrow> iso_parse_z E s | _ \<Rightarrow> None)"

text \<open>The incoming side of a snapshot, normalized once.\<close>

definition bucket_of :: "pyenv \<Rightarrow> dict \<Rightarrow> time \<Rightarrow> bucket_row" where
  "bucket_of E e when =
     (let logging = as_dict (py_or (dget e ''logging'') (PyDict [])) in
      \<lparr>bk_region = as_str (dget e ''region''), bk_account = as_str (dget e ''account''),
       bk_created_date = parse_iso_opt E (dget e ''created_date''), bk_last_scan = when,
       bk_public = truthy (dget_or e ''public'' (PyBool False)),
       bk_public_reasons = py_or (dget e ''public_reasons'') (PyList []),
       bk_encryption = str_or (as_str (dget e ''encryption'')) ''none'',
       bk_versioning = str_or (as_str (dget e ''versioning'')) ''Disabled'',
       bk_mfa_delete = truthy (dget_or e ''mfa_delete'' (PyBool False)),
       bk_bpa = py_or (dget e ''block_public_access'') (PyDict []),
       bk_logging_target = (if truthy (dget logging ''enabled'') then dget logging ''target_bucket''
                            else PyNone),
       bk_policy = truncate_policy (dget e ''policy''),
       bk_tags = py_or (dget e ''tags'') (PyDict [])\<rparr>)"

definition region_of :: "dict \<Rightarrow> string \<times> pyval" where
  "region_of e = (''region'', dget e ''region'')"

text \<open>The (action, extras) pairs of a bucket seen for the first time.\<close>

definition first_sight :: "dict \<Rightarrow> bucket_row \<Rightarrow> (string \<times> dict) list" where
  "first_sight e new =
     [(''s3.bucket.first_seen'',
        [region_of e, (''account'', dget e ''account''), (''public'', PyBool (bk_public new)),
         (''encryption'', PyStr (bk_encryption new)), (''versioning'', PyStr (bk_versioning new))])] @
     (if bk_public new
      then [(''s3.bucket.public'', [(''reasons'', bk_public_reasons new), region_of e])] else []) @
     (if bk_encryption new = ''none'' then [(''s3.bucket.unencrypted'', [region_of e])] else []) @
     (if bk_versioning new \<in> {''Suspended'', ''Disabled''}
      then [(''s3.bucket.versioning_off'', [(''current'', PyStr (bk_versioning new)), region_of e])]
      else [])"

text \<open>The pairs of a known bucket: what changed against the stored row.\<close>

definition bucket_changes :: "dict \<Rightarrow> bucket_row \<Rightarrow> bucket_row \<Rightarrow> (string \<times> dict) list" where
  "bucket_changes e prev new =
     (if bk_public prev \<noteq> bk_public new
      then if bk_public new
           then [(''s3.bucket.public'', [(''reasons'', bk_public_reasons new), region_of e])]
           else [(''s3.bucket.public_removed'', [region_of e])]
      else []) @
     (let prev_enc = str_or (Some (bk_encryption prev)) ''none'' in
      if prev_enc \<noteq> bk_encryption new
      then if bk_encryption new = ''none''
           then [(''s3.bucket.unencrypted'', [(''prev_encryption'', PyStr prev_enc), region_of e])]
           else if prev_enc = ''none''
           then [(''s3.bucket.encryption_added'',
                  [(''encryption'', PyStr (bk_encryption new)), region_of e])]
           else []
      else []) @
     (let prev_versioning = str_or (Some (bk_versioning prev)) ''Disabled'' in
      if prev_versioning \<noteq> bk_versioning new
      then if bk_versioning new = ''Suspended'' \<and> prev_versioning = ''Enabled''
           then [(''s3.bucket.versioning_suspended'', [region_of e])]
           else if bk_versioning new = ''Enabled'' \<and> prev_versioning \<noteq> ''Enabled''
           then [(''s3.bucket.versioning_enabled'', [region_of e])]
           else []
      else []) @
     (if truthy (bk_logging_target prev) \<and> \<not> truthy (bk_logging_target new)
      then [(''s3.bucket.logging_disabled'', [(''prev_target'', bk_logging_target prev), region_of e])]
      else [])"

definition s3_snapshot :: "pyenv \<Rightarrow> time \<Rightarrow> event \<Rightarrow> db \<Rightarrow> event list \<times> db" where
  "s3_snapshot E now event d =
     (let e = ev_extra event in
      if \<not> str_truthy (as_str (dget e ''bucket_name'')) then ([], d)
      else
        let name = the (as_str (dget e ''bucket_name'')); when = ev_time event;
            prev = get_bucket_status d name; new = bucket_of E e when;
            d' = upsert_bucket_status name new d;
            emitted = (case prev of None \<Rightarrow> first_sight e new | Some p \<Rightarrow> bucket_changes e p new)
        in (map (\<lambda>(action, extras). s3_derived E now event name action extras when) emitted, d'))"

fun s3_reconcile ::
  "pyenv \<Rightarrow> time \<Rightarrow> event \<Rightarrow> string \<Rightarrow> string list \<Rightarrow> (string \<times> bucket_row) list \<Rightarrow> db \<Rightarrow>
   event list \<times> db" where
  "s3_reconcile E now event account seen [] d = ([], d)"
| "s3_reconcile E now event account seen ((name, row) # tracked) d =
     (if bk_account row \<noteq> Some account then s3_reconcile E now event account seen tracked d
      else if name \<in> set seen then s3_reconcile E now event account seen tracked d
      else
        let ev = s3_derived E now event name ''s3.bucket.disappeared''
              [(''region'', opt_val (bk_region row)), (''account'', PyStr account),
               (''was_public'', PyBool (bk_public row)),
               (''last_scan'', PyStr (iso_format E (bk_last_scan row)))] (ev_time event);
            (out, d') = s3_reconcile E now event account seen tracked (delete_bucket_status name d)
        in (ev # out, d'))"

definition s3_scan_completed :: "pyenv \<Rightarrow> time \<Rightarrow> event \<Rightarrow> db \<Rightarrow> event list \<times> db" where
  "s3_scan_completed E now event d =
     (let e = ev_extra event; account = as_str (dget e ''account'') in
      if \<not> str_truthy account then ([], d)
      else s3_reconcile E now event (the account) (strs_of (dget e ''bucket_names''))
             (list_bucket_status False False d) d)"

definition s3_project :: "pyenv \<Rightarrow> time \<Rightarrow> event \<Rightarrow> db \<Rightarrow> event list \<times> db" where
  "s3_project E now event d =
     (if src_module (ev_source event) \<noteq> ''aws.s3'' then ([], d)
      else if ev_action event = ''s3.bucket.snapshot'' then s3_snapshot E now event d
      else if ev_action event = ''s3.scan.completed'' then s3_scan_completed E now event d
      else ([], d))"

section \<open>Lemmas\<close>

lemma s3_derived_sel [simp]:
  "ev_action (s3_derived E now p b a x w) = a"
  "ev_target (s3_derived E now p b a x w) = new_target (Some b) (Some ''aws.s3.bucket'') (Some b)"
  by (simp_all add: s3_derived_def)

lemma get_upsert_bucket [simp]:
  "get_bucket_status (upsert_bucket_status n r d) n' =
     (if n' = n then Some (case get_bucket_status d n of None \<Rightarrow> r
      | Some old \<Rightarrow> r\<lparr>bk_created_date :=
          (case bk_created_date r of None \<Rightarrow> bk_created_date old | Some t \<Rightarrow> Some t)\<rparr>)
      else get_bucket_status d n')"
  by (simp add: get_bucket_status_def upsert_bucket_status_def tbl.get_put)

lemma str_or_nonempty: "d \<noteq> [] \<Longrightarrow> str_or x d \<noteq> []"
  by (auto simp: str_or_def split: option.splits)

lemma bucket_changes_same:
  "bucket_changes e (r\<lparr>bk_created_date := c\<rparr>) r = [] \<longleftrightarrow> bucket_changes e r r = []"
  by (simp add: bucket_changes_def)

lemma bucket_changes_self: "bk_encryption r \<noteq> [] \<Longrightarrow> bk_versioning r \<noteq> [] \<Longrightarrow> bucket_changes e r r = []"
  by (simp add: bucket_changes_def)

lemma bucket_of_nonempty [simp]:
  "bk_encryption (bucket_of E e w) \<noteq> []" "bk_versioning (bucket_of E e w) \<noteq> []"
  using str_or_nonempty[of "''none''"] str_or_nonempty[of "''Disabled''"]
  by (simp_all add: bucket_of_def Let_def)

definition s3_gone :: "string \<Rightarrow> string list \<Rightarrow> (string \<times> bucket_row) list \<Rightarrow> string list" where
  "s3_gone account seen rows =
     map fst (filter (\<lambda>(n, r). bk_account r = Some account \<and> n \<notin> set seen) rows)"

lemma s3_reconcile_events:
  "map (\<lambda>e. tgt_id (ev_target e)) (fst (s3_reconcile E now ev a seen rows d)) =
     map Some (s3_gone a seen rows)"
  by (induction rows arbitrary: d) (auto simp: s3_gone_def Let_def case_prod_beta)

lemma s3_reconcile_db:
  "db_buckets (snd (s3_reconcile E now ev a seen rows d)) =
     fold AList.delete (s3_gone a seen rows) (db_buckets d)"
  by (induction rows arbitrary: d)
    (auto simp: s3_gone_def Let_def delete_bucket_status_def case_prod_beta)

section \<open>Properties\<close>

text \<open>C38: A completed scan reconciles its account and nothing else: exactly the tracked buckets of
  that account that the scan did not see are dropped, each with one \<open>disappeared\<close> event naming it,
  and every other bucket keeps its row.\<close>

theorem s3_scan_reconciles:
  assumes "distinct (map fst (db_buckets d))"
    and "as_str (dget (ev_extra ev) ''account'') = Some a" and "a \<noteq> []"
    and "s3_scan_completed E now ev d = (out, d')"
  shows "get_bucket_status d' n =
      (case get_bucket_status d n of None \<Rightarrow> None
       | Some r \<Rightarrow> if bk_account r = Some a \<and> n \<notin> set (strs_of (dget (ev_extra ev) ''bucket_names''))
                   then None else Some r) \<and>
    (Some n \<in> (\<lambda>e. tgt_id (ev_target e)) ` set out \<longleftrightarrow>
       get_bucket_status d n \<noteq> None \<and> get_bucket_status d' n = None) \<and>
    length out = length (db_buckets d) - length (db_buckets d')"
proof -
  let ?seen = "strs_of (dget (ev_extra ev) ''bucket_names'')"
  let ?rows = "list_bucket_status False False d"
  let ?gone = "s3_gone a ?seen ?rows"
  have c: "s3_reconcile E now ev a ?seen ?rows d = (out, d')"
    using assms(2-4) by (simp add: s3_scan_completed_def Let_def)
  have db: "db_buckets d' = fold AList.delete ?gone (db_buckets d)"
    using s3_reconcile_db[of E now ev a ?seen ?rows d] c by simp
  have targets: "map (\<lambda>e. tgt_id (ev_target e)) out = map Some ?gone"
    using s3_reconcile_events[of E now ev a ?seen ?rows d] c by simp
  note rows = set_list_bucket_status[of d] length_list_bucket_status[of d]
  note distr = distinct_list_bucket_status[OF assms(1)]
  have gone: "n \<in> set ?gone \<longleftrightarrow>
      (\<exists>r. get_bucket_status d n = Some r \<and> bk_account r = Some a \<and> n \<notin> set ?seen)" for n
    using assms(1) by (force simp: s3_gone_def get_bucket_status_def rows)
  have get: "get_bucket_status d' n =
      (if n \<in> set ?gone then None else get_bucket_status d n)" for n
    by (simp add: get_bucket_status_def db tbl.get_fold_del)
  have dist: "distinct ?gone" using distr by (simp add: s3_gone_def distinct_map_filter)
  have dd: "distinct (map fst (fold AList.delete ks t))"
    if "distinct (map fst t)" for ks :: "string list" and t :: "(string \<times> bucket_row) list"
    using that by (induction ks arbitrary: t) (simp_all add: distinct_delete)
  have "set (map fst (db_buckets d')) = set (map fst (db_buckets d)) - set ?gone"
    using tbl.keys_fold_del[of ?gone "db_buckets d"] by (simp add: db tbl_keys_def)
  moreover have "set ?gone \<subseteq> set (map fst (db_buckets d))" by (auto simp: s3_gone_def rows)
  ultimately have "card (set (map fst (db_buckets d'))) =
      card (set (map fst (db_buckets d))) - card (set ?gone)"
    by (simp add: card_Diff_subset)
  then have "length (db_buckets d') = length (db_buckets d) - length ?gone"
    using dist assms(1) dd[OF assms(1), of ?gone]
    by (metis db distinct_card length_map)
  moreover have "length ?gone \<le> length (db_buckets d)"
    unfolding rows(2)[symmetric] by (simp add: s3_gone_def)
  moreover have "length out = length ?gone" using targets by (metis length_map)
  moreover have "Some n \<in> (\<lambda>e. tgt_id (ev_target e)) ` set out \<longleftrightarrow> n \<in> set ?gone"
    unfolding set_map[symmetric] targets by auto
  ultimately show ?thesis
    using gone[of n] get[of n] by (auto split: option.splits)
qed

definition demo_bucket :: bucket_row where
  "demo_bucket = bucket_of demo_env [(''account'', PyStr ''1'')] 5"

definition demo_s3_db :: db where
  "demo_s3_db = empty_db\<lparr>db_buckets := [(''a'', demo_bucket), (''b'', demo_bucket)]\<rparr>"

definition demo_scan :: event where
  "demo_scan = (event_defaults 9 (new_source ''aws.s3'' T_api))
     \<lparr>ev_action := ''s3.scan.completed'',
      ev_extra := [(''account'', PyStr ''1''), (''bucket_names'', PyList [PyStr ''b''])]\<rparr>"

lemma s3_scan_reconciles_witness:
  "get_bucket_status (snd (s3_scan_completed demo_env 9 demo_scan demo_s3_db)) ''a'' = None \<and>
   get_bucket_status (snd (s3_scan_completed demo_env 9 demo_scan demo_s3_db)) ''b'' = Some demo_bucket"
proof -
  obtain out d' where s: "s3_scan_completed demo_env 9 demo_scan demo_s3_db = (out, d')"
    by fastforce
  have a: "as_str (dget (ev_extra demo_scan) ''account'') = Some ''1''"
    by (simp add: demo_scan_def)
  have d: "distinct (map fst (db_buckets demo_s3_db))" by (simp add: demo_s3_db_def)
  have acc: "bk_account demo_bucket = Some ''1''" by (simp add: demo_bucket_def bucket_of_def Let_def)
  have names: "strs_of (dget (ev_extra demo_scan) ''bucket_names'') = [''b'']"
    by (simp add: demo_scan_def strs_of_def List.map_filter_def)
  have rows: "get_bucket_status demo_s3_db ''a'' = Some demo_bucket"
      "get_bucket_status demo_s3_db ''b'' = Some demo_bucket"
    by (simp_all add: get_bucket_status_def demo_s3_db_def)
  show ?thesis
    using s3_scan_reconciles [OF d a _ s, of "''a''"] s3_scan_reconciles [OF d a _ s, of "''b''"]
    by (simp add: s names acc rows)
qed

text \<open>Change alerts are edge-triggered: projecting the same bucket snapshot twice derives
  nothing the second time, whatever was stored before.\<close>

theorem s3_snapshot_idempotent:
  "fst (s3_snapshot E now ev (snd (s3_snapshot E now' ev d))) = []"
proof (cases "str_truthy (as_str (dget (ev_extra ev) ''bucket_name''))")
  case True
  let ?new = "bucket_of E (ev_extra ev) (ev_time ev)"
  let ?n = "the (as_str (dget (ev_extra ev) ''bucket_name''))"
  have "\<exists>c. get_bucket_status (snd (s3_snapshot E now' ev d)) ?n = Some (?new\<lparr>bk_created_date := c\<rparr>)"
    using True by (auto simp: s3_snapshot_def Let_def split: option.splits
        intro: exI[of _ "bk_created_date ?new"])
  moreover have "bucket_changes (ev_extra ev) (?new\<lparr>bk_created_date := c\<rparr>) ?new = []" for c
    using bucket_changes_self[of ?new "ev_extra ev"] by (simp add: bucket_changes_same)
  ultimately show ?thesis
    using True by (auto simp: s3_snapshot_def Let_def)
qed (simp add: s3_snapshot_def)

text \<open>What the first snapshot of a bucket emits: \<open>first_seen\<close>, and besides it the findings the
  module comment says a first scan stays silent about: \<open>unencrypted\<close> for a bucket without
  encryption and \<open>versioning_off\<close> for one without versioning.\<close>

theorem s3_first_sight:
  assumes "as_str (dget (ev_extra ev) ''bucket_name'') = Some n" and "n \<noteq> []"
    and "get_bucket_status d n = None"
  shows "map ev_action (fst (s3_snapshot E now ev d)) =
    (let new = bucket_of E (ev_extra ev) (ev_time ev) in
     [''s3.bucket.first_seen''] @
     (if bk_public new then [''s3.bucket.public''] else []) @
     (if bk_encryption new = ''none'' then [''s3.bucket.unencrypted''] else []) @
     (if bk_versioning new = ''Suspended'' \<or> bk_versioning new = ''Disabled''
      then [''s3.bucket.versioning_off''] else []))"
  using assms by (simp add: s3_snapshot_def Let_def first_sight_def)

definition demo_snapshot :: event where
  "demo_snapshot = (event_defaults 9 (new_source ''aws.s3'' T_api))
     \<lparr>ev_action := ''s3.bucket.snapshot'', ev_extra := [(''bucket_name'', PyStr ''logs'')]\<rparr>"

lemma s3_first_sight_witness:
  "map ev_action (fst (s3_snapshot demo_env 9 demo_snapshot empty_db)) =
     [''s3.bucket.first_seen'', ''s3.bucket.unencrypted'', ''s3.bucket.versioning_off'']"
proof -
  have n: "as_str (dget (ev_extra demo_snapshot) ''bucket_name'') = Some ''logs''"
    by (simp add: demo_snapshot_def)
  have g: "get_bucket_status empty_db ''logs'' = None" by simp
  show ?thesis
    using s3_first_sight [OF n _ g, of demo_env 9]
    by (simp add: demo_snapshot_def bucket_of_def Let_def dget_or_def)
qed

end
