(* ===== verification/PostureProjection.thy ===== *)
theory PostureProjection
  imports Storage
begin

text \<open>
  AWS posture findings (\<open>src/blackwatch/posture/projection.py\<close>): a finding event upserts its row
  and alerts when the row is new; a completed scan resolves the open findings of the account
  that it did not report.
\<close>

section \<open>Operations\<close>

definition posture_derive :: "pyenv \<Rightarrow> time \<Rightarrow> event \<Rightarrow> string \<Rightarrow> dict \<Rightarrow> time \<Rightarrow> event" where
  "posture_derive E now parent action extras when =
     ensure_fingerprint E ((event_defaults now
         \<lparr>src_module = ''aws.posture'', src_vendor = Some ''aws'',
          src_account = opt_or (as_str (dget extras ''account'')) (src_account (ev_source parent)),
          src_region = opt_or (as_str (dget extras ''region'')) (src_region (ev_source parent)),
          src_transport = T_api\<rparr>)
       \<lparr>ev_time := when, ev_category := ev_category parent, ev_action := action,
        ev_outcome := (if suffix ''resolved'' action then O_success else O_failure),
        ev_target := new_target (Some (str_or (as_str (dget extras ''resource_id'')) ''?''))
          (Some (''aws.'' @ py_str E (dget_or extras ''resource_type'' (PyStr ''resource''))))
          (as_str (dget extras ''resource_id'')),
        ev_extra := extras,
        ev_raw := PyDict [(''derived_from'', PyStr (ev_action parent)),
                          (''module'', PyStr ''aws.posture'')]\<rparr>)"

definition posture_finding :: "pyenv \<Rightarrow> time \<Rightarrow> event \<Rightarrow> db \<Rightarrow> event list \<times> db" where
  "posture_finding E now event d =
     (let e = ev_extra event; fid = as_str (dget e ''finding_id''); when = ev_time event in
      if \<not> str_truthy fid then ([], d)
      else
        let (is_new, d') = upsert_posture_finding (the fid)
              (str_or (as_str (dget e ''resource_id'')) ''?'')
              (str_or (as_str (dget e ''resource_type'')) ''?'')
              (str_or (as_str (dget e ''finding_type'')) ''?'')
              (str_or (as_str (dget e ''severity'')) ''medium'')
              (as_str (dget e ''region'')) (as_str (dget e ''account''))
              (as_dict (dget e ''evidence'')) when d
        in if \<not> is_new then ([], d')
           else ([posture_derive E now event ''aws.posture.finding.new'' e when], d'))"

definition resolved_extras :: "string \<Rightarrow> finding_row \<Rightarrow> dict" where
  "resolved_extras fid r =
     [(''finding_id'', PyStr fid), (''resource_id'', PyStr (fd_resource_id r)),
      (''resource_type'', PyStr (fd_resource_type r)),
      (''finding_type'', PyStr (fd_finding_type r)), (''severity'', PyStr (fd_severity r)),
      (''region'', opt_val (fd_region r)), (''account'', opt_val (fd_account r)),
      (''evidence'', PyDict (fd_evidence r))]"

fun resolve_missing ::
  "pyenv \<Rightarrow> time \<Rightarrow> event \<Rightarrow> string list \<Rightarrow> string list \<Rightarrow> db \<Rightarrow> event list \<times> db" where
  "resolve_missing E now event seen [] d = ([], d)"
| "resolve_missing E now event seen (fid # fids) d =
     (if fid \<in> set seen then resolve_missing E now event seen fids d
      else case get_posture_finding d fid of
             None \<Rightarrow> resolve_missing E now event seen fids d
           | Some prev \<Rightarrow>
               let ev = posture_derive E now event ''aws.posture.finding.resolved''
                     (resolved_extras fid prev) (ev_time event);
                   (out, d') = resolve_missing E now event seen fids
                     (mark_posture_finding_resolved fid (ev_time event) d)
               in (ev # out, d'))"

definition posture_scan_completed :: "pyenv \<Rightarrow> time \<Rightarrow> event \<Rightarrow> db \<Rightarrow> event list \<times> db" where
  "posture_scan_completed E now event d =
     (let e = ev_extra event; account = as_str (dget e ''account'') in
      if \<not> str_truthy account then ([], d)
      else resolve_missing E now event (strs_of (dget e ''finding_ids''))
             (list_unresolved_finding_ids_for_account (the account) d) d)"

definition posture_project :: "pyenv \<Rightarrow> time \<Rightarrow> event \<Rightarrow> db \<Rightarrow> event list \<times> db" where
  "posture_project E now event d =
     (if src_module (ev_source event) \<noteq> ''aws.posture'' then ([], d)
      else if ev_action event = ''aws.posture.finding'' then posture_finding E now event d
      else if ev_action event = ''aws.posture.scan.completed''
           then posture_scan_completed E now event d
      else ([], d))"

section \<open>Lemmas\<close>

text \<open>A finding is open when it has a row without resolution time.\<close>

definition open_finding :: "db \<Rightarrow> string \<Rightarrow> bool" where
  "open_finding d fid =
     (case get_posture_finding d fid of None \<Rightarrow> False | Some r \<Rightarrow> fd_resolved_at r = None)"

lemma get_mark_resolved [simp]:
  "get_posture_finding (mark_posture_finding_resolved fid t d) f =
     (if f = fid then map_option (\<lambda>r. if fd_resolved_at r = None then r\<lparr>fd_resolved_at := Some t\<rparr> else r)
                       (get_posture_finding d f)
      else get_posture_finding d f)"
  by (auto simp: mark_posture_finding_resolved_def get_posture_finding_def update_conv
      split: option.splits)

lemma get_upsert_finding:
  "get_posture_finding (snd (upsert_posture_finding fid a b c s r ac ev t d)) f =
     (if f = fid then Some (case get_posture_finding d fid of
          None \<Rightarrow> \<lparr>fd_resource_id = a, fd_resource_type = b, fd_finding_type = c, fd_severity = s,
            fd_region = r, fd_account = ac, fd_evidence = ev, fd_last_seen = t, fd_resolved_at = None\<rparr>
        | Some x \<Rightarrow> x\<lparr>fd_severity := s, fd_region := r, fd_account := ac, fd_evidence := ev,
            fd_last_seen := t, fd_resolved_at := None\<rparr>)
      else get_posture_finding d f)"
  by (auto simp: upsert_posture_finding_def get_posture_finding_def update_conv split: option.splits)

lemma upsert_posture_finding_new:
  "fst (upsert_posture_finding fid a b c s r ac ev t d) \<longleftrightarrow> get_posture_finding d fid = None"
  by (simp add: upsert_posture_finding_def split: option.splits)

lemma resolve_missing_get:
  "get_posture_finding (snd (resolve_missing E now ev seen fids d)) f =
     (if f \<in> set fids \<and> f \<notin> set seen
      then map_option (\<lambda>r. if fd_resolved_at r = None then r\<lparr>fd_resolved_at := Some (ev_time ev)\<rparr> else r)
             (get_posture_finding d f)
      else get_posture_finding d f)"
proof (induction E now ev seen fids d rule: resolve_missing.induct)
  case (2 E now event seen fid fids d)
  then show ?case
    by (auto simp: Let_def case_prod_beta map_option_case split: option.splits)
qed simp

lemma resolve_missing_events:
  assumes "\<And>f. f \<in> set fids \<Longrightarrow> get_posture_finding d f \<noteq> None"
  shows "map (\<lambda>e. dget (ev_extra e) ''finding_id'') (fst (resolve_missing E now ev seen fids d)) =
     map PyStr (filter (\<lambda>f. f \<notin> set seen) fids)"
  using assms
proof (induction fids arbitrary: d)
  case Nil
  then show ?case by simp
next
  case (Cons fid fids)
  then have "\<And>d'. (\<And>f. f \<in> set fids \<Longrightarrow> get_posture_finding d' f \<noteq> None) \<Longrightarrow>
    map (\<lambda>e. dget (ev_extra e) ''finding_id'') (fst (resolve_missing E now ev seen fids d')) =
     map PyStr (filter (\<lambda>f. f \<notin> set seen) fids)" by blast
  note IH = this[of d] this[of "mark_posture_finding_resolved fid (ev_time ev) d"]
  from Cons.prems[of fid] obtain r where "get_posture_finding d fid = Some r" by auto
  with IH Cons.prems show ?case
    by (auto simp: Let_def case_prod_beta posture_derive_def resolved_extras_def)
qed

lemma unresolved_ids:
  "f \<in> set (list_unresolved_finding_ids_for_account a d) \<longleftrightarrow>
     (\<exists>r. get_posture_finding d f = Some r \<and> fd_account r = Some a \<and> fd_resolved_at r = None)"
  by (auto simp: list_unresolved_finding_ids_for_account_def get_posture_finding_def tbl.keys_get
      split: option.splits)

section \<open>Properties\<close>

text \<open>C39: A completed scan resolves exactly the open findings of its account that it did not
  report, stamping them with the scan's time, and derives one \<open>resolved\<close> event for each; reported
  findings, findings of other accounts and findings resolved before keep their rows.\<close>

theorem posture_scan_resolves:
  assumes "as_str (dget (ev_extra ev) ''account'') = Some a" and "a \<noteq> []"
    and "posture_scan_completed E now ev d = (out, d')"
  shows "get_posture_finding d' f =
      (case get_posture_finding d f of None \<Rightarrow> None
       | Some r \<Rightarrow>
           if fd_account r = Some a \<and> fd_resolved_at r = None \<and>
              f \<notin> set (strs_of (dget (ev_extra ev) ''finding_ids''))
           then Some (r\<lparr>fd_resolved_at := Some (ev_time ev)\<rparr>) else Some r) \<and>
    (PyStr f \<in> (\<lambda>e. dget (ev_extra e) ''finding_id'') ` set out \<longleftrightarrow>
       open_finding d f \<and> \<not> open_finding d' f)"
proof -
  let ?seen = "strs_of (dget (ev_extra ev) ''finding_ids'')"
  let ?ids = "list_unresolved_finding_ids_for_account a d"
  have c: "resolve_missing E now ev ?seen ?ids d = (out, d')"
    using assms by (simp add: posture_scan_completed_def Let_def)
  have get: "get_posture_finding d' f =
     (if f \<in> set ?ids \<and> f \<notin> set ?seen
      then map_option (\<lambda>r. if fd_resolved_at r = None then r\<lparr>fd_resolved_at := Some (ev_time ev)\<rparr> else r)
             (get_posture_finding d f)
      else get_posture_finding d f)"
    using resolve_missing_get[of E now ev ?seen ?ids d f] c by simp
  have "map (\<lambda>e. dget (ev_extra e) ''finding_id'') (fst (resolve_missing E now ev ?seen ?ids d)) =
      map PyStr (filter (\<lambda>f. f \<notin> set ?seen) ?ids)"
    by (rule resolve_missing_events) (auto simp: unresolved_ids)
  then have out: "(\<lambda>e. dget (ev_extra e) ''finding_id'') ` set out =
      set (map PyStr (filter (\<lambda>f. f \<notin> set ?seen) ?ids))"
    unfolding c by (metis fst_conv list.set_map)
  show ?thesis
    unfolding out using get
    by (auto simp: unresolved_ids open_finding_def split: option.splits if_splits)
qed

definition demo_finding :: event where
  "demo_finding = (event_defaults 5 (new_source ''aws.posture'' T_api))
     \<lparr>ev_action := ''aws.posture.finding'',
      ev_extra := [(''finding_id'', PyStr ''f1''), (''account'', PyStr ''1'')]\<rparr>"

definition demo_posture_scan :: event where
  "demo_posture_scan = (event_defaults 9 (new_source ''aws.posture'' T_api))
     \<lparr>ev_action := ''aws.posture.scan.completed'',
      ev_extra := [(''account'', PyStr ''1''), (''finding_ids'', PyList [])]\<rparr>"

lemma posture_scan_resolves_witness:
  "open_finding (snd (posture_finding demo_env 5 demo_finding empty_db)) ''f1'' \<and>
   \<not> open_finding (snd (posture_scan_completed demo_env 9 demo_posture_scan
        (snd (posture_finding demo_env 5 demo_finding empty_db)))) ''f1''"
proof -
  let ?d = "snd (posture_finding demo_env 5 demo_finding empty_db)"
  have g: "\<exists>r. get_posture_finding ?d ''f1'' = Some r \<and> fd_account r = Some ''1'' \<and> fd_resolved_at r = None"
    by (simp add: posture_finding_def demo_finding_def Let_def case_prod_beta
        upsert_posture_finding_new get_upsert_finding)
  obtain out d' where s: "posture_scan_completed demo_env 9 demo_posture_scan ?d = (out, d')"
    by fastforce
  have a: "as_str (dget (ev_extra demo_posture_scan) ''account'') = Some ''1''"
    by (simp add: demo_posture_scan_def)
  have seen: "strs_of (dget (ev_extra demo_posture_scan) ''finding_ids'') = []"
    by (simp add: demo_posture_scan_def strs_of_def List.map_filter_def)
  show ?thesis
    using posture_scan_resolves [OF a _ s, of "''f1''"] g
    by (auto simp: s open_finding_def seen split: option.splits)
qed

text \<open>A finding alerts exactly once in its life: a report derives \<open>finding.new\<close> when no row of
  its id exists and nothing otherwise, also when the row was resolved before. The report re-opens
  such a row without an alert, against the module comment and the comment at the \<open>return\<close>, which
  both say that a re-opened finding alerts again.\<close>

theorem posture_alerts_once:
  assumes "as_str (dget (ev_extra ev) ''finding_id'') = Some f" and "f \<noteq> []"
  shows "map ev_action (fst (posture_finding E now ev d)) =
      (if get_posture_finding d f = None then [''aws.posture.finding.new''] else []) \<and>
    open_finding (snd (posture_finding E now ev d)) f"
  using assms
  by (auto simp: posture_finding_def Let_def case_prod_beta upsert_posture_finding_new
      open_finding_def get_upsert_finding posture_derive_def split: option.splits)

lemma posture_alerts_once_witness:
  "map ev_action (fst (posture_finding demo_env 20 demo_finding
     (mark_posture_finding_resolved ''f1'' 9 (snd (posture_finding demo_env 5 demo_finding empty_db)))))
   = []"
proof -
  have f: "as_str (dget (ev_extra demo_finding) ''finding_id'') = Some ''f1''"
    by (simp add: demo_finding_def)
  have o: "open_finding (snd (posture_finding demo_env 5 demo_finding empty_db)) ''f1''"
    using posture_alerts_once [OF f] by simp
  then show ?thesis
    using posture_alerts_once [OF f, of demo_env 20
        "mark_posture_finding_resolved ''f1'' 9 (snd (posture_finding demo_env 5 demo_finding empty_db))"]
    by (auto simp: open_finding_def split: option.splits)
qed

end
