(* ===== verification/ServiceProjection.thy ===== *)
theory ServiceProjection
  imports Storage
begin

text \<open>
  Service probe projection (\<open>src/blackwatch/services/projection.py\<close>): heartbeats of the probe
  agents, and the hysteresis that turns probe results into the service status and its transition
  events, with the messages the channels render.
\<close>

section \<open>Severity and messages\<close>

definition is_prod :: "pyenv \<Rightarrow> dict \<Rightarrow> bool" where
  "is_prod E tags =
     (str_lower (str_strip (py_str E (py_or (dget tags ''env'') (PyStr [])))) \<in>
        {''prod'', ''production''})"

definition ecs_severity :: "pyenv \<Rightarrow> string \<Rightarrow> dict \<Rightarrow> severity" where
  "ecs_severity E action tags =
     (let prod = is_prod E tags in
      if action = ''service.down'' then if prod then S_critical else S_high
      else if action = ''service.degraded'' then if prod then S_high else S_medium
      else if action = ''service.unknown'' then if prod then S_high else S_medium
      else if action = ''probe.agent.stale'' then S_critical
      else S_informational)"

definition fmt_ts :: "pyenv \<Rightarrow> time option \<Rightarrow> string" where
  "fmt_ts E t = (case t of None \<Rightarrow> em_dash | Some x \<Rightarrow> strf_time E ''%Y-%m-%d %H:%M UTC'' x)"

definition fmt_duration :: "real \<Rightarrow> string" where
  "fmt_duration seconds =
     (let s = trunc (max 0 seconds); m = s div 60; h = m div 60; rem = m mod 60 in
      if s < 60 then int_str s @ ''s''
      else if m < 60 then int_str m @ '' min''
      else if rem \<noteq> 0 then int_str h @ ''h '' @ int_str rem @ ''m''
      else int_str h @ ''h'')"

definition down_hint :: "string option \<Rightarrow> string" where
  "down_hint error =
     (let err_l = str_lower (str_or error '''') in
      if str_contains err_l ''timed out'' \<or> str_contains err_l ''timeout'' then ''timeout''
      else if str_contains err_l ''refused'' \<or> str_contains err_l ''reset'' then ''connection refused''
      else if str_contains err_l ''name or service not known'' \<or> str_contains err_l ''name resolution''
        then ''DNS lookup failed''
      else (case error of None \<Rightarrow> ''no response''
        | Some e \<Rightarrow> if prefix ''HTTP 5'' e then e else if e \<noteq> [] then take 80 e else ''no response''))"

text \<open>The optional arguments of \<open>_friendly_service_message\<close>.\<close>

record message_args =
  ma_tags :: dict
  ma_when :: "time option"
  ma_down_since :: "time option"
  ma_down_seconds :: "real option"
  ma_unknown_seconds :: "real option"
  ma_latency_ms :: pyval

definition no_message_args :: message_args where
  "no_message_args = \<lparr>ma_tags = [], ma_when = None, ma_down_since = None, ma_down_seconds = None,
     ma_unknown_seconds = None, ma_latency_ms = PyNone\<rparr>"

definition bullet_line :: "string \<Rightarrow> string \<Rightarrow> string" where
  "bullet_line label v = bullet @ ''*'' @ label @ '':* '' @ v"

definition env_lines :: "pyenv \<Rightarrow> dict \<Rightarrow> string list" where
  "env_lines E tags = (let v = dget tags ''env'' in
     if truthy v then [str_rstrip (CHR 10) (bullet_line ''Env'' (py_str E v) @ newline)] else [])"

definition positive_lines :: "string \<Rightarrow> real option \<Rightarrow> string list" where
  "positive_lines label s = (case s of None \<Rightarrow> []
     | Some x \<Rightarrow> if 0 < x then [bullet_line label (fmt_duration x)] else [])"

definition latency_lines :: "pyenv \<Rightarrow> string \<Rightarrow> pyval \<Rightarrow> string list" where
  "latency_lines E label v = (if v = PyNone then [] else [bullet_line label (py_str E v @ '' ms'')])"

definition friendly_service_message ::
  "pyenv \<Rightarrow> string \<Rightarrow> string \<Rightarrow> string \<Rightarrow> string option \<Rightarrow> message_args \<Rightarrow> string" where
  "friendly_service_message E action vpc name error a =
     (if action = ''service.down'' then
        join newline ([''*'' @ name @ '' went DOWN*'', heavy_rule, bullet_line ''VPC'' vpc,
          bullet_line ''Error'' (down_hint error)] @
          (case ma_down_since a of None \<Rightarrow> [] | Some t \<Rightarrow> [bullet_line ''Since'' (fmt_ts E (Some t))]) @
          env_lines E (ma_tags a))
      else if action = ''service.degraded'' then
        join newline ([''*'' @ name @ '' is degraded*'', heavy_rule, bullet_line ''VPC'' vpc] @
          (if str_truthy error then [bullet_line ''Signal'' (the error)] else []) @
          latency_lines E ''Latency'' (ma_latency_ms a) @ env_lines E (ma_tags a))
      else if action = ''service.up'' then
        join newline ([''*'' @ name @ '' recovered*'', heavy_rule, bullet_line ''VPC'' vpc] @
          positive_lines ''Was down for'' (ma_down_seconds a) @
          positive_lines ''Monitoring was uncertain for'' (ma_unknown_seconds a) @
          latency_lines E ''Latency now'' (ma_latency_ms a) @ env_lines E (ma_tags a))
      else if action = ''service.unknown'' then
        join newline ([''*Unable to verify '' @ name @ ''*'', heavy_rule, bullet_line ''VPC'' vpc,
          bullet_line ''Signal'' ''probe could not determine service availability''] @
          (if str_truthy error then [bullet_line ''Reason'' (down_hint error)] else []) @
          env_lines E (ma_tags a))
      else if action = ''probe.agent.first_seen'' then
        join newline [''*New probe agent seen in `'' @ vpc @ ''`*'', heavy_rule,
          bullet_line ''First report'' (fmt_ts E (ma_when a))]
      else if action = ''probe.agent.recovered'' then
        join newline [''*Probe agent recovered in `'' @ vpc @ ''`*'', heavy_rule,
          bullet_line ''Reporting again as of'' (fmt_ts E (ma_when a))]
      else action)"

section \<open>Derived events\<close>

definition svc_derive ::
  "pyenv \<Rightarrow> time \<Rightarrow> event \<Rightarrow> string \<Rightarrow> string \<Rightarrow> dict \<Rightarrow> time \<Rightarrow> string \<Rightarrow> string option \<Rightarrow>
   severity option \<Rightarrow> event" where
  "svc_derive E now parent action target_id extra when ttype tname sev =
     ensure_fingerprint E ((event_defaults now (new_source ''ecs.probe'' T_api))
       \<lparr>ev_time := when, ev_category := C_other, ev_action := action,
        ev_outcome := (if suffix ''.up'' action \<or> suffix ''.recovered'' action
                         \<or> suffix ''.first_seen'' action then O_success else O_failure),
        ev_severity := Some (case sev of None \<Rightarrow> ecs_severity E action (as_dict (dget extra ''tags''))
                                       | Some s \<Rightarrow> s),
        ev_target := new_target (Some target_id) (Some ttype) (Some (str_or tname target_id)),
        ev_extra := extra,
        ev_raw := PyDict [(''derived_from'', PyStr (ev_action parent)),
                          (''module'', PyStr ''ecs.probe'')]\<rparr>)"

section \<open>Heartbeats of the probe agents\<close>

definition heartbeat_extra :: "pyenv \<Rightarrow> event \<Rightarrow> string \<Rightarrow> string \<Rightarrow> string \<Rightarrow> time \<Rightarrow> dict" where
  "heartbeat_extra E event action vpc impact when =
     [(''vpc'', PyStr vpc), (''service_name'', PyStr vpc), (''monitor_tier'', PyStr ''probe''),
      (''monitoring_method'', PyStr ''probe heartbeat''), (''monitoring_impact'', PyStr impact),
      (''last_report'', PyStr (iso_format E when)),
      (''agent_version'', dget (ev_extra event) ''agent_version''),
      (''message'', PyStr (friendly_service_message E action vpc vpc None
         (no_message_args\<lparr>ma_when := Some when\<rparr>)))]"

definition svc_heartbeat :: "pyenv \<Rightarrow> time \<Rightarrow> event \<Rightarrow> db \<Rightarrow> event list \<times> db" where
  "svc_heartbeat E now event d =
     (let vpc = opt_or (as_str (dget (ev_extra event) ''vpc'')) (tgt_id (ev_target event)) in
      if \<not> str_truthy vpc then ([], d)
      else
        let v = the vpc; when = ev_time event;
            prev_active = map_option pa_active (get_probe_agent d v);
            d' = upsert_probe_agent v when (dget (ev_extra event) ''agent_version'') True d;
            derive = (\<lambda>action impact. svc_derive E now event action v
              (heartbeat_extra E event action v impact when) when ''probe.agent'' None None)
        in (case prev_active of
              None \<Rightarrow> [derive ''probe.agent.first_seen''
                ''Probe coverage for this environment is now established.'']
            | Some False \<Rightarrow> [derive ''probe.agent.recovered''
                ''Probe coverage for this environment is available again.'']
            | Some True \<Rightarrow> [], d'))"

section \<open>Probe results\<close>

definition DOWN_THRESHOLD :: int where "DOWN_THRESHOLD = 2"
definition UP_THRESHOLD :: int where "UP_THRESHOLD = 2"
definition UNKNOWN_AFTER_SECONDS :: real where "UNKNOWN_AFTER_SECONDS = 10 * 60"

text \<open>The consecutive counters after a result: \<open>(fails, successes)\<close>.\<close>

definition count_result :: "string \<Rightarrow> int \<times> int \<Rightarrow> int \<times> int" where
  "count_result incoming c =
     (if incoming = ''up'' then (0, snd c + 1)
      else if incoming \<in> {''down'', ''degraded''} then (fst c + 1, 0)
      else (0, 0))"

definition next_unknown_since :: "pyenv \<Rightarrow> string \<Rightarrow> time \<Rightarrow> pyval \<Rightarrow> pyval" where
  "next_unknown_since E incoming when since =
     (if incoming \<in> {''up'', ''down'', ''degraded''} then since
      else if since = PyNone then PyStr (iso_format E when) else since)"

definition next_unknown_streak :: "string \<Rightarrow> int \<Rightarrow> int" where
  "next_unknown_streak incoming n =
     (if incoming \<in> {''up'', ''down'', ''degraded''} then 0 else n + 1)"

text \<open>Seconds since an ISO timestamp; \<open>None\<close> for a value that \<open>fromisoformat\<close> refuses.\<close>

definition seconds_since :: "pyenv \<Rightarrow> time \<Rightarrow> pyval \<Rightarrow> real option" where
  "seconds_since E when since = (case since of
       PyStr s \<Rightarrow> map_option (\<lambda>t. max 0 (when - t)) (iso_parse E s) | _ \<Rightarrow> None)"

definition unknown_duration :: "pyenv \<Rightarrow> time \<Rightarrow> pyval \<Rightarrow> real" where
  "unknown_duration E when since =
     (case seconds_since E when since of None \<Rightarrow> 0 | Some x \<Rightarrow> x)"

definition effective_status :: "string option \<Rightarrow> string \<Rightarrow> int \<times> int \<Rightarrow> bool \<Rightarrow> string" where
  "effective_status prev incoming c unknown_ready =
     (if incoming = ''up'' \<and> snd c \<ge> UP_THRESHOLD then ''up''
      else if incoming \<in> {''down'', ''degraded''} \<and> fst c \<ge> DOWN_THRESHOLD then incoming
      else if incoming = ''unknown''
        then if unknown_ready then ''unknown'' else str_or prev ''unknown''
      else str_or prev incoming)"

text \<open>The action of a result, if it emits one.\<close>

definition result_action :: "string option \<Rightarrow> string \<Rightarrow> bool \<Rightarrow> bool \<Rightarrow> string option" where
  "result_action prev effective unknown_ready unknown_alerted =
     (let emits_unknown = (effective = ''unknown'' \<and> unknown_ready \<and> \<not> unknown_alerted) in
      if prev \<noteq> Some effective \<or> emits_unknown
      then if effective = ''up''
             then if prev = Some ''unknown'' \<and> \<not> unknown_alerted then None else Some ''service.up''
           else if effective = ''down'' then Some ''service.down''
           else if effective = ''degraded'' then Some ''service.degraded''
           else if effective = ''unknown'' then Some ''service.unknown''
           else None
      else None)"

definition state_extra ::
  "dict \<Rightarrow> string \<Rightarrow> string \<Rightarrow> pyval \<Rightarrow> int \<Rightarrow> bool \<Rightarrow> dict" where
  "state_extra e incoming effective since streak alerted =
     [(''last_raw_status'', PyStr incoming), (''last_error'', dget e ''error''),
      (''tier_extra'', py_or (dget e ''result_extra'') (PyDict []))] @
     (if incoming = ''unknown'' \<or> effective = ''unknown''
      then [(''unknown_since'', since), (''unknown_streak'', PyInt streak),
            (''unknown_alerted'', PyBool alerted)] else [])"

text \<open>What a result is about and what the stored row says, as the handler reads them.\<close>

record probe_result =
  rs_target :: string
  rs_vpc :: string
  rs_name :: string
  rs_tier :: string
  rs_status :: string
  rs_when :: time
  rs_prev_status :: "string option"
  rs_counts :: "int \<times> int"
  rs_prev_down :: "time option"
  rs_since :: pyval
  rs_streak :: int
  rs_alerted :: bool

definition read_result :: "pyenv \<Rightarrow> event \<Rightarrow> string \<Rightarrow> db \<Rightarrow> probe_result" where
  "read_result E event target d =
     (let e = ev_extra event; prev = get_service_status d target;
          incoming = str_or (as_str (dget e ''status'')) ''unknown''; when = ev_time event;
          counts = (case prev of None \<Rightarrow> (0, 0) | Some r \<Rightarrow> (ss_fails r, ss_success r));
          px = (case prev of None \<Rightarrow> [] | Some r \<Rightarrow> ss_extra r)
      in \<lparr>rs_target = target, rs_vpc = str_or (as_str (dget e ''vpc'')) ''unknown'',
          rs_name = str_or (as_str (dget e ''name'')) target,
          rs_tier = str_or (as_str (dget e ''tier'')) ''unknown'',
          rs_status = incoming, rs_when = when,
          rs_prev_status = map_option ss_status prev,
          rs_counts = count_result incoming counts,
          rs_prev_down = (case prev of None \<Rightarrow> None | Some r \<Rightarrow> ss_down_since r),
          rs_since = next_unknown_since E incoming when (dget px ''unknown_since''),
          rs_streak = next_unknown_streak incoming (int_of (dget px ''unknown_streak'')),
          rs_alerted = truthy (dget px ''unknown_alerted'')\<rparr>)"

definition result_event ::
  "pyenv \<Rightarrow> time \<Rightarrow> event \<Rightarrow> probe_result \<Rightarrow> string \<Rightarrow> string \<Rightarrow> dict \<Rightarrow> event" where
  "result_event E now event r effective action tags =
     (let e = ev_extra event; when = rs_when r; name = rs_name r;
          error = as_str (dget e ''error'');
          down_seconds = (if action = ''service.up''
            then map_option (\<lambda>t. when - t) (rs_prev_down r) else None);
          unknown_seconds = (if action = ''service.up'' \<and> rs_prev_status r = Some ''unknown''
                \<and> truthy (rs_since r) then seconds_since E when (rs_since r) else None);
          message = friendly_service_message E action (rs_vpc r) name error
            \<lparr>ma_tags = tags, ma_when = Some when, ma_down_since = rs_prev_down r,
             ma_down_seconds = down_seconds, ma_unknown_seconds = unknown_seconds,
             ma_latency_ms = dget e ''latency_ms''\<rparr>;
          base = [(''vpc'', PyStr (rs_vpc r)), (''name'', PyStr name), (''tier'', PyStr (rs_tier r)),
            (''service_name'', PyStr name), (''monitor_tier'', PyStr (rs_tier r)),
            (''target_id'', PyStr (rs_target r)), (''prev_status'', opt_val (rs_prev_status r)),
            (''status'', PyStr effective), (''latency_ms'', dget e ''latency_ms''),
            (''error'', dget e ''error''), (''error_signal'', PyStr (down_hint error)),
            (''monitoring_method'', py_or (dget e ''monitoring_method'') (PyStr ''service probe'')),
            (''monitoring_impact'', py_or (dget e ''monitoring_impact'')
               (PyStr (if action = ''service.down'' \<or> action = ''service.degraded''
                  then ''Service availability may be affected.''
                  else ''Service state is being monitored.''))),
            (''consecutive_failures'', PyInt (fst (rs_counts r))),
            (''consecutive_successes'', PyInt (snd (rs_counts r))),
            (''last_report'', PyStr (iso_format E when)),
            (''downtime_seconds'', PyInt (case down_seconds of None \<Rightarrow> 0 | Some x \<Rightarrow> trunc x)),
            (''unknown_seconds'', PyInt (case unknown_seconds of Some x \<Rightarrow> trunc x
               | None \<Rightarrow> trunc (unknown_duration E when (rs_since r)))),
            (''message'', PyStr message)] @
            (if tags \<noteq> [] then [(''tags'', PyDict tags)] else []) @
            (case down_seconds of None \<Rightarrow> [] | Some x \<Rightarrow> [(''down_seconds'', PyInt (trunc x))]);
          extras = (case unknown_seconds of None \<Rightarrow> base
             | Some x \<Rightarrow> AList.update ''unknown_seconds'' (PyInt (trunc x)) base)
      in svc_derive E now event action (rs_target r) extras when ''ecs.service'' (Some name)
           (Some (ecs_severity E action tags)))"

definition result_ready :: "pyenv \<Rightarrow> probe_result \<Rightarrow> bool" where
  "result_ready E r = (unknown_duration E (rs_when r) (rs_since r) \<ge> UNKNOWN_AFTER_SECONDS)"

definition result_effective :: "pyenv \<Rightarrow> probe_result \<Rightarrow> string" where
  "result_effective E r =
     effective_status (rs_prev_status r) (rs_status r) (rs_counts r) (result_ready E r)"

definition result_row :: "pyenv \<Rightarrow> event \<Rightarrow> probe_result \<Rightarrow> service_row" where
  "result_row E event r =
     (let effective = result_effective E r in
      \<lparr>ss_vpc = rs_vpc r, ss_name = rs_name r, ss_tier = rs_tier r, ss_status = effective,
       ss_last_seen = rs_when r, ss_latency_ms = dget (ev_extra event) ''latency_ms'',
       ss_fails = fst (rs_counts r), ss_success = snd (rs_counts r),
       ss_down_since = (if effective \<in> {''down'', ''degraded''}
         then (case rs_prev_down r of None \<Rightarrow> Some (rs_when r) | Some t \<Rightarrow> Some t) else None),
       ss_extra = state_extra (ev_extra event) (rs_status r) effective (rs_since r)
          (rs_streak r) (rs_alerted r \<or> result_ready E r)\<rparr>)"

definition svc_result :: "pyenv \<Rightarrow> time \<Rightarrow> event \<Rightarrow> db \<Rightarrow> event list \<times> db" where
  "svc_result E now event d =
     (let target = as_str (dget (ev_extra event) ''target_id'') in
      if \<not> str_truthy target then ([], d)
      else
        let r = read_result E event (the target) d; effective = result_effective E r;
            d' = upsert_service_status (rs_target r) (result_row E event r) d
        in (case result_action (rs_prev_status r) effective (result_ready E r) (rs_alerted r) of
              None \<Rightarrow> ([], d')
            | Some action \<Rightarrow> ([result_event E now event r effective action
                (probe_target_tags d (rs_target r))], d')))"

definition svc_project :: "pyenv \<Rightarrow> time \<Rightarrow> event \<Rightarrow> db \<Rightarrow> event list \<times> db" where
  "svc_project E now event d =
     (if src_module (ev_source event) \<noteq> ''ecs.probe'' then ([], d)
      else if ev_action event = ''probe.agent.heartbeat'' then svc_heartbeat E now event d
      else if ev_action event = ''service.probe.result'' then svc_result E now event d
      else ([], d))"

section \<open>Lemmas\<close>

lemma svc_derive_sel [simp]:
  "ev_action (svc_derive E now p a i x w tt tn s) = a"
  "tgt_id (ev_target (svc_derive E now p a i x w tt tn s)) = Some i"
  by (simp_all add: svc_derive_def)

lemma result_event_action [simp]: "ev_action (result_event E now ev r eff a tags) = a"
  by (simp add: result_event_def Let_def)

lemma get_upsert_service [simp]:
  "get_service_status (upsert_service_status i r d) j = (if j = i then Some r else get_service_status d j)"
  by (simp add: get_service_status_def upsert_service_status_def tbl.get_put)

definition result_target :: "event \<Rightarrow> string" where
  "result_target ev = str_or (as_str (dget (ev_extra ev) ''target_id'')) ''''"

definition result_status :: "event \<Rightarrow> string" where
  "result_status ev = str_or (as_str (dget (ev_extra ev) ''status'')) ''unknown''"

definition bad_status :: "string \<Rightarrow> bool" where
  "bad_status s = (s \<in> {''down'', ''degraded''})"

definition prev_counts :: "service_row option \<Rightarrow> int \<times> int" where
  "prev_counts r = (case r of None \<Rightarrow> (0, 0) | Some x \<Rightarrow> (ss_fails x, ss_success x))"

lemma result_target_ne:
  "result_target ev \<noteq> [] \<Longrightarrow>
   \<exists>s. as_str (dget (ev_extra ev) ''target_id'') = Some s \<and> s \<noteq> [] \<and> result_target ev = s"
  by (auto simp: result_target_def str_or_def split: option.splits if_splits)

text \<open>The row a result leaves behind, and what it leaves alone.\<close>

lemma read_result_sel [simp]:
  "rs_target (read_result E ev i d) = i" "rs_status (read_result E ev i d) = result_status ev"
  "rs_when (read_result E ev i d) = ev_time ev"
  "rs_prev_status (read_result E ev i d) = map_option ss_status (get_service_status d i)"
  "rs_counts (read_result E ev i d) =
     count_result (result_status ev) (prev_counts (get_service_status d i))"
  by (simp_all add: read_result_def Let_def result_status_def prev_counts_def)

lemma svc_result_falsy: "result_target ev = [] \<Longrightarrow> svc_result E now ev d = ([], d)"
  by (simp add: svc_result_def result_target_def str_truthy_def str_or_def split: option.splits)

lemma svc_result_split:
  assumes "result_target ev \<noteq> []"
  shows "svc_result E now ev d =
    (let r = read_result E ev (result_target ev) d in
     (case result_action (rs_prev_status r) (result_effective E r) (result_ready E r) (rs_alerted r) of
        None \<Rightarrow> []
      | Some a \<Rightarrow> [result_event E now ev r (result_effective E r) a
          (probe_target_tags d (result_target ev))],
      upsert_service_status (result_target ev) (result_row E ev r) d))"
proof -
  obtain s where "as_str (dget (ev_extra ev) ''target_id'') = Some s" "s \<noteq> []" "result_target ev = s"
    using result_target_ne[OF assms] by auto
  then show ?thesis by (simp add: svc_result_def Let_def split: option.split)
qed

lemma svc_result_other:
  "j \<noteq> result_target ev \<Longrightarrow>
   get_service_status (snd (svc_result E now ev d)) j = get_service_status d j"
  by (cases "result_target ev = []") (simp_all add: svc_result_falsy svc_result_split Let_def)

lemma result_row_sel [simp]:
  "ss_fails (result_row E ev r) = fst (rs_counts r)"
  "ss_success (result_row E ev r) = snd (rs_counts r)"
  "ss_status (result_row E ev r) = result_effective E r"
  "ss_down_since (result_row E ev r) \<noteq> None \<longleftrightarrow> bad_status (result_effective E r)"
  by (simp_all add: result_row_def Let_def bad_status_def split: option.split)

lemma svc_result_row:
  assumes "result_target ev \<noteq> []"
  shows "\<exists>r. get_service_status (snd (svc_result E now ev d)) (result_target ev) = Some r \<and>
     (ss_fails r, ss_success r) =
        count_result (result_status ev) (prev_counts (get_service_status d (result_target ev))) \<and>
     (ss_down_since r \<noteq> None \<longleftrightarrow> bad_status (ss_status r))"
  by (simp add: svc_result_split[OF assms] Let_def del: not_None_eq)

text \<open>The actions a result emits, as a function of the stored row.\<close>

definition row_extra :: "service_row option \<Rightarrow> dict" where
  "row_extra r = (case r of None \<Rightarrow> [] | Some x \<Rightarrow> ss_extra x)"

definition unknown_ready :: "pyenv \<Rightarrow> event \<Rightarrow> service_row option \<Rightarrow> bool" where
  "unknown_ready E ev r \<longleftrightarrow> UNKNOWN_AFTER_SECONDS \<le> unknown_duration E (ev_time ev)
     (next_unknown_since E (result_status ev) (ev_time ev) (dget (row_extra r) ''unknown_since''))"

lemma svc_result_actions:
  assumes "result_target ev \<noteq> []" and "get_service_status d (result_target ev) = r"
  shows "map ev_action (fst (svc_result E now ev d)) =
    (case result_action (map_option ss_status r)
        (effective_status (map_option ss_status r) (result_status ev)
           (count_result (result_status ev) (prev_counts r)) (unknown_ready E ev r))
        (unknown_ready E ev r) (truthy (dget (row_extra r) ''unknown_alerted'')) of
      None \<Rightarrow> [] | Some a \<Rightarrow> [a])"
proof -
  let ?r = "read_result E ev (result_target ev) d"
  have "result_ready E ?r = unknown_ready E ev r"
    using assms(2) by (cases r) (simp_all add: result_ready_def unknown_ready_def read_result_def
        Let_def row_extra_def result_status_def)
  moreover have "rs_alerted ?r = truthy (dget (row_extra r) ''unknown_alerted'')"
    using assms(2) by (cases r) (simp_all add: read_result_def Let_def row_extra_def)
  ultimately show ?thesis
    by (simp add: svc_result_split[OF assms(1)] Let_def result_effective_def assms(2) split: option.split)
qed

text \<open>The row a result stores, with its status.\<close>

lemma svc_result_row_status:
  assumes "result_target ev \<noteq> []" and "get_service_status d (result_target ev) = r"
  shows "\<exists>r'. get_service_status (snd (svc_result E now ev d)) (result_target ev) = Some r' \<and>
     (ss_fails r', ss_success r') = count_result (result_status ev) (prev_counts r) \<and>
     (ss_down_since r' \<noteq> None \<longleftrightarrow> bad_status (ss_status r')) \<and>
     ss_status r' = effective_status (map_option ss_status r) (result_status ev)
       (count_result (result_status ev) (prev_counts r)) (unknown_ready E ev r)"
proof -
  let ?r = "read_result E ev (result_target ev) d"
  have "result_ready E ?r = unknown_ready E ev r"
    using assms(2) by (cases r) (simp_all add: result_ready_def unknown_ready_def read_result_def
        Let_def row_extra_def result_status_def)
  then show ?thesis
    using assms(2) by (simp add: svc_result_split[OF assms(1)] Let_def result_effective_def del: not_None_eq)
qed

fun svc_run :: "pyenv \<Rightarrow> (event \<times> time) list \<Rightarrow> db \<Rightarrow> db" where
  "svc_run E [] d = d"
| "svc_run E ((ev, now) # evs) d = svc_run E evs (snd (svc_result E now ev d))"

definition statuses_of :: "string \<Rightarrow> (event \<times> time) list \<Rightarrow> string list" where
  "statuses_of i evs = map (\<lambda>(ev, _). result_status ev) (filter (\<lambda>(ev, _). result_target ev = i) evs)"

lemma svc_run_append: "svc_run E (xs @ ys) d = svc_run E ys (svc_run E xs d)"
  by (induction xs arbitrary: d) auto

lemma statuses_snoc:
  "statuses_of i (evs @ [(ev, now)]) =
     statuses_of i evs @ (if result_target ev = i then [result_status ev] else [])"
  by (simp add: statuses_of_def)

lemma count_result_streaks:
  "count_result s (int (length (takeWhile bad_status ss)), int (length (takeWhile ((=) ''up'') ss))) =
     (int (length (takeWhile bad_status (s # ss))), int (length (takeWhile ((=) ''up'') (s # ss))))"
  by (auto simp: count_result_def bad_status_def)

section \<open>Properties\<close>

text \<open>The stored counters count what they say. Whatever results of whatever targets arrive, the
  row of a target that started without one holds the length of its current streak of failed results
  and of its current streak of successful results, and it has a \<open>down_since\<close> exactly while its
  status is down or degraded.\<close>

theorem svc_counters_are_streaks:
  assumes "i \<noteq> []" and "get_service_status d i = None"
  shows "case get_service_status (svc_run E evs d) i of
      None \<Rightarrow> statuses_of i evs = []
    | Some r \<Rightarrow> statuses_of i evs \<noteq> [] \<and>
        ss_fails r = int (length (takeWhile bad_status (rev (statuses_of i evs)))) \<and>
        ss_success r = int (length (takeWhile ((=) ''up'') (rev (statuses_of i evs)))) \<and>
        (ss_down_since r \<noteq> None \<longleftrightarrow> bad_status (ss_status r))"
proof (induction evs rule: rev_induct)
  case Nil
  then show ?case using assms(2) by (simp add: statuses_of_def)
next
  case (snoc x evs)
  obtain ev now where x: "x = (ev, now)" by fastforce
  let ?d = "svc_run E evs d"
  show ?case
  proof (cases "result_target ev = i")
    case False
    then show ?thesis
      using snoc svc_result_other[of i ev E now ?d] unfolding x svc_run_append statuses_snoc
      by (auto split: option.splits)
  next
    case True
    have "prev_counts (get_service_status ?d i) =
        (int (length (takeWhile bad_status (rev (statuses_of i evs)))),
         int (length (takeWhile ((=) ''up'') (rev (statuses_of i evs)))))"
      using snoc by (auto simp: prev_counts_def split: option.splits)
    with svc_result_row[of ev E now ?d] True assms(1)
      count_result_streaks[of "result_status ev" "rev (statuses_of i evs)"]
    show ?thesis unfolding x svc_run_append statuses_snoc by auto
  qed
qed

definition demo_probe :: "string \<Rightarrow> event" where
  "demo_probe s = (event_defaults 0 (new_source ''ecs.probe'' T_api))
     \<lparr>ev_action := ''service.probe.result'',
      ev_extra := [(''target_id'', PyStr ''t''), (''status'', PyStr s)]\<rparr>"

lemma demo_probe_sel [simp]:
  "result_target (demo_probe s) = ''t''" "s \<noteq> [] \<Longrightarrow> result_status (demo_probe s) = s"
  "as_str (dget (ev_extra (demo_probe s)) ''target_id'') = Some ''t''"
  "ev_time (demo_probe s) = 0"
  by (simp_all add: demo_probe_def result_target_def result_status_def)

lemma svc_counters_are_streaks_witness:
  "case get_service_status
      (svc_run demo_env [(demo_probe ''up'', 0), (demo_probe ''down'', 1), (demo_probe ''down'', 2)]
        empty_db) ''t'' of None \<Rightarrow> False | Some r \<Rightarrow> ss_fails r = 2 \<and> ss_success r = 0"
  using svc_counters_are_streaks [where i = "''t''" and d = empty_db and E = demo_env
      and evs = "[(demo_probe ''up'', 0), (demo_probe ''down'', 1), (demo_probe ''down'', 2)]"]
  by (simp add: statuses_of_def bad_status_def split: option.splits)

text \<open>Where a result moves a target whose status is known, if it does.\<close>

definition svc_move :: "pyenv \<Rightarrow> event \<Rightarrow> service_row \<Rightarrow> string option" where
  "svc_move E ev r =
    (if result_status ev = ''up'' then if ss_status r \<noteq> ''up'' \<and> 1 \<le> ss_success r then Some ''up'' else None
     else if bad_status (result_status ev)
       then if ss_status r \<noteq> result_status ev \<and> 1 \<le> ss_fails r then Some (result_status ev) else None
     else if UNKNOWN_AFTER_SECONDS \<le> unknown_duration E (ev_time ev)
            (next_unknown_since E ''unknown'' (ev_time ev) (dget (ss_extra r) ''unknown_since''))
       then Some ''unknown'' else None)"

text \<open>C37: The hysteresis of a target whose status is known (up, down or degraded). One result moves it in three
  cases: a success that is at least the second in a row moves it to up; a failure, down or degraded, that is at least the
  second failure in a row (of either kind, they count together) moves it to the status it reports; an unknown result moves
  it to unknown once the target has been unverifiable for ten minutes. A move to another status stores that status and emits
  the one event named after it; every other result leaves the stored status as it was and is silent. Either way the
  result is counted in the stored streaks, and \<open>down_since\<close> is set exactly while the stored status is down or degraded.\<close>

theorem svc_hysteresis:
  assumes "get_service_status d (result_target ev) = Some r" and "result_target ev \<noteq> []"
    and "ss_status r \<in> {''up'', ''down'', ''degraded''}"
    and "result_status ev \<in> {''up'', ''down'', ''degraded'', ''unknown''}"
  shows "map ev_action (fst (svc_result E now ev d)) = (case svc_move E ev r of None \<Rightarrow> [] | Some s \<Rightarrow> [''service.'' @ s]) \<and>
    (\<exists>r'. get_service_status (snd (svc_result E now ev d)) (result_target ev) = Some r' \<and>
       ss_status r' = (case svc_move E ev r of None \<Rightarrow> ss_status r | Some s \<Rightarrow> s) \<and>
       ss_fails r' = (if bad_status (result_status ev) then ss_fails r + 1 else 0) \<and>
       ss_success r' = (if result_status ev = ''up'' then ss_success r + 1 else 0) \<and>
       (ss_down_since r' \<noteq> None) = bad_status (ss_status r'))"
proof -
  let ?ready = "unknown_ready E ev (Some r)"
  let ?counts = "count_result (result_status ev) (prev_counts (Some r))"
  let ?new = "effective_status (Some (ss_status r)) (result_status ev) ?counts ?ready"
  have ready: "result_status ev = ''unknown'' \<Longrightarrow>
      UNKNOWN_AFTER_SECONDS \<le> unknown_duration E (ev_time ev)
        (next_unknown_since E ''unknown'' (ev_time ev) (dget (ss_extra r) ''unknown_since'')) \<longleftrightarrow> ?ready"
    by (simp add: unknown_ready_def row_extra_def)
  have kinds: "result_status ev = ''up'' \<or> result_status ev = ''down'' \<or> result_status ev = ''degraded'' \<or>
    result_status ev = ''unknown''" and st: "ss_status r = ''up'' \<or> ss_status r = ''down'' \<or> ss_status r = ''degraded''"
    using assms(3,4) by auto
  have status: "?new = (case svc_move E ev r of None \<Rightarrow> ss_status r | Some s \<Rightarrow> s)"
    using kinds st ready unfolding svc_move_def
    by (elim disjE) (simp_all add: effective_status_def count_result_def UP_THRESHOLD_def DOWN_THRESHOLD_def
        prev_counts_def bad_status_def)
  have action: "result_action (Some (ss_status r)) ?new ?ready alerted = map_option ((@) ''service.'') (svc_move E ev r)" for alerted
    using kinds st ready unfolding status unfolding svc_move_def
    by (elim disjE) (simp_all add: result_action_def bad_status_def)
  have counts: "?counts = (if bad_status (result_status ev) then ss_fails r + 1 else 0,
      if result_status ev = ''up'' then ss_success r + 1 else 0)"
    by (auto simp: count_result_def prev_counts_def bad_status_def)
  obtain r' where r': "get_service_status (snd (svc_result E now ev d)) (result_target ev) = Some r'"
      "(ss_fails r', ss_success r') = ?counts" "ss_down_since r' \<noteq> None \<longleftrightarrow> bad_status (ss_status r')" "ss_status r' = ?new"
    using svc_result_row_status[OF assms(2,1), of E now] by auto
  have "map ev_action (fst (svc_result E now ev d)) = (case svc_move E ev r of None \<Rightarrow> [] | Some s \<Rightarrow> [''service.'' @ s])"
    using svc_result_actions[OF assms(2,1), of E now] by (simp add: action split: option.split)
  then show ?thesis using r' counts status by auto
qed

definition demo_service_row :: service_row where
  "demo_service_row = \<lparr>ss_vpc = ''v'', ss_name = ''n'', ss_tier = ''http'', ss_status = ''up'',
     ss_last_seen = 0, ss_latency_ms = PyNone, ss_fails = 1, ss_success = 0, ss_down_since = None,
     ss_extra = []\<rparr>"

lemma svc_hysteresis_witness:
  "map ev_action (fst (svc_result demo_env 1 (demo_probe ''down'')
     (upsert_service_status ''t'' demo_service_row empty_db))) = [''service.down''] \<and>
   map_option ss_status (get_service_status (snd (svc_result demo_env 1 (demo_probe ''down'')
     (upsert_service_status ''t'' demo_service_row empty_db))) ''t'') = Some ''down''"
  using svc_hysteresis [of "upsert_service_status ''t'' demo_service_row empty_db"
      "demo_probe ''down''" demo_service_row demo_env 1]
  by (auto simp: demo_service_row_def bad_status_def svc_move_def)

text \<open>The first result of a target is not absorbed: it emits its own status at once, also
  \<open>service.down\<close> after a single failure and \<open>service.unknown\<close> without the ten minutes.\<close>

theorem svc_first_result:
  assumes "get_service_status d (result_target ev) = None" and "result_target ev \<noteq> []"
    and "result_status ev \<in> {''up'', ''down'', ''degraded'', ''unknown''}"
  shows "map ev_action (fst (svc_result E now ev d)) = [''service.'' @ result_status ev]"
proof -
  note acts = svc_result_actions[OF assms(2,1), of E now]
  consider "result_status ev = ''up''" | "result_status ev = ''down''"
    | "result_status ev = ''degraded''" | "result_status ev = ''unknown''"
    using assms(3) by auto
  then show ?thesis
    by cases (simp_all add: acts result_action_def effective_status_def count_result_def
        prev_counts_def UP_THRESHOLD_def DOWN_THRESHOLD_def)
qed

lemma svc_first_result_witness:
  "map ev_action (fst (svc_result demo_env 1 (demo_probe ''unknown'') empty_db)) = [''service.unknown'']"
  using svc_first_result [of empty_db "demo_probe ''unknown''" demo_env 1] by simp

text \<open>A successful probe can raise the unknown alert: when the status is still unknown and not
  alerted, the first success after ten minutes leaves it unknown and emits \<open>service.unknown\<close>.\<close>

theorem svc_success_raises_unknown:
  assumes "get_service_status d (result_target ev) = Some r" and "result_target ev \<noteq> []"
    and "result_status ev = ''up''" and "ss_status r = ''unknown''" and "ss_success r = 0"
    and "\<not> truthy (dget (ss_extra r) ''unknown_alerted'')"
    and "dget (ss_extra r) ''unknown_since'' = PyStr since0" and "iso_parse E since0 = Some t"
    and "UNKNOWN_AFTER_SECONDS \<le> ev_time ev - t"
  shows "map ev_action (fst (svc_result E now ev d)) = [''service.unknown'']"
proof -
  have ready: "unknown_ready E ev (Some r)"
    using assms(3,7-9) by (simp add: unknown_ready_def row_extra_def unknown_duration_def
        seconds_since_def next_unknown_since_def)
  show ?thesis
    using assms(3-6) ready
    by (simp add: svc_result_actions[OF assms(2,1)] row_extra_def result_action_def
        effective_status_def count_result_def prev_counts_def UP_THRESHOLD_def)
qed

lemma svc_success_raises_unknown_witness:
  "map ev_action (fst (svc_result (demo_env\<lparr>iso_parse := \<lambda>_. Some (-900)\<rparr>) 1 (demo_probe ''up'')
     (upsert_service_status ''t'' (demo_service_row\<lparr>ss_status := ''unknown'',
        ss_extra := [(''unknown_since'', PyStr ''x'')]\<rparr>) empty_db))) = [''service.unknown'']"
  using svc_success_raises_unknown [of "upsert_service_status ''t'' (demo_service_row\<lparr>ss_status := ''unknown'',
        ss_extra := [(''unknown_since'', PyStr ''x'')]\<rparr>) empty_db" "demo_probe ''up''"
      "demo_service_row\<lparr>ss_status := ''unknown'', ss_extra := [(''unknown_since'', PyStr ''x'')]\<rparr>"
      "''x''" "demo_env\<lparr>iso_parse := \<lambda>_. Some (-900)\<rparr>" "-900" 1]
  by (simp add: demo_service_row_def UNKNOWN_AFTER_SECONDS_def)

end
