(* ===== verification/ApiProjection.thy ===== *)
theory ApiProjection
  imports Storage
begin

text \<open>
  API Gateway projection (\<open>src/blackwatch/api_gateway/projection.py\<close>): the table of client
  addresses with its first-seen alert, and the two burst detectors that count stored events in a
  window. A storage call that raises makes the handler return nothing.
\<close>

section \<open>Operations\<close>

definition AUTH_BURST_THRESHOLD :: nat where "AUTH_BURST_THRESHOLD = 10"
definition AUTH_BURST_WINDOW_MINUTES :: int where "AUTH_BURST_WINDOW_MINUTES = 5"
definition ERROR_BURST_THRESHOLD :: nat where "ERROR_BURST_THRESHOLD = 25"
definition ERROR_BURST_WINDOW_MINUTES :: int where "ERROR_BURST_WINDOW_MINUTES = 5"

text \<open>The shape all three derived events share.\<close>

definition api_event ::
  "pyenv \<Rightarrow> time \<Rightarrow> time \<Rightarrow> string \<Rightarrow> string \<Rightarrow> string \<Rightarrow> string \<Rightarrow> dict \<Rightarrow> string \<Rightarrow> event" where
  "api_event E now ts event_id action ip api_name extra derived_from =
     ensure_fingerprint E ((event_defaults now (new_source ''aws.api_gw'' T_api))
       \<lparr>ev_id := Some event_id, ev_time := ts, ev_category := C_other, ev_action := action,
        ev_outcome := O_failure, ev_actor := new_actor None (Some ip),
        ev_target := new_target (Some api_name) (Some ''api.gateway'') (Some api_name),
        ev_extra := extra,
        ev_raw := PyDict [(''derived_from'', PyStr derived_from)]\<rparr>)"

definition api_tags :: "string \<Rightarrow> pyval" where
  "api_tags api_name = PyDict [(''env'', PyStr ''prod''), (''api'', PyStr api_name)]"

definition api_ip :: "event \<Rightarrow> string option" where
  "api_ip event = opt_or (as_str (dget (ev_extra event) ''source_ip'')) (act_source_ip (ev_actor event))"

definition api_name_of :: "event \<Rightarrow> string" where
  "api_name_of event = str_or (as_str (dget (ev_extra event) ''api_name'')) ''unknown''"

definition record_source :: "pyenv \<Rightarrow> time \<Rightarrow> event \<Rightarrow> time \<Rightarrow> db \<Rightarrow> event list \<times> db" where
  "record_source E now event ts d =
     (if \<not> str_truthy (api_ip event) then ([], d)
      else
        let ip = the (api_ip event); api_name = api_name_of event;
            status = int_of (dget (ev_extra event) ''status'');
            is_4xx = (400 \<le> status \<and> status < 500); is_5xx = (500 \<le> status \<and> status < 600)
        in if db_fails E ''upsert_api_source'' then ([], d)
           else
             let (is_new, d') = upsert_api_source ip api_name ts is_4xx is_5xx d in
             if \<not> is_new then ([], d')
             else
               ([api_event E now ts
                   (uuid5_url E (''api.source.new::'' @ ip @ ''::'' @ strf_time E ''%Y%m%d'' ts))
                   ''api.source.new'' ip api_name
                   [(''api_name'', PyStr api_name), (''source_ip'', PyStr ip),
                    (''tags'', api_tags api_name),
                    (''message'', PyStr (api_name @ '': new source IP '' @ ip @
                       '' touched the API Gateway '' @ em_dash @ '' never seen before''))]
                   ''api.request''], d'))"

text \<open>The query both burst detectors make, for a window of so many minutes.\<close>

definition burst_query :: "string \<Rightarrow> string \<Rightarrow> time \<Rightarrow> int \<Rightarrow> nat \<Rightarrow> event_query" where
  "burst_query action ip ts minutes threshold =
     any_query\<lparr>q_module := Some ''aws.api_gw'', q_action := Some action, q_source_ip := Some ip,
       q_since := Some (ts - 60 * real_of_int minutes), q_limit := int threshold + 5\<rparr>"

definition burst_message :: "string \<Rightarrow> string \<Rightarrow> string" where
  "burst_message head tail = head @ em_dash @ tail"

definition detect_auth_burst :: "pyenv \<Rightarrow> time \<Rightarrow> event \<Rightarrow> time \<Rightarrow> db \<Rightarrow> event list" where
  "detect_auth_burst E now event ts d =
     (if \<not> str_truthy (api_ip event) then []
      else
        let ip = the (api_ip event); api_name = api_name_of event in
        if db_fails E ''query_events'' then []
        else
          let recent = query_events (burst_query ''api.auth.failure'' ip ts
                AUTH_BURST_WINDOW_MINUTES AUTH_BURST_THRESHOLD) d in
          if length recent \<noteq> AUTH_BURST_THRESHOLD then []
          else [api_event E now ts
            (uuid5_url E (''api.auth.burst::'' @ api_name @ ''::'' @ ip @ ''::'' @
               strf_time E ''%Y%m%d%H%M'' ts))
            ''api.auth.burst'' ip api_name
            [(''api_name'', PyStr api_name), (''source_ip'', PyStr ip),
             (''failure_count'', PyInt (int (length recent))),
             (''window_minutes'', PyInt AUTH_BURST_WINDOW_MINUTES), (''tags'', api_tags api_name),
             (''message'', PyStr (burst_message
               (api_name @ '': '' @ nat_str AUTH_BURST_THRESHOLD @ ''+ auth failures from '' @ ip @
                '' in '' @ int_str AUTH_BURST_WINDOW_MINUTES @ '' min '')
               '' possible credential stuffing''))]
            ''api.auth.failure''])"

definition detect_error_burst :: "pyenv \<Rightarrow> time \<Rightarrow> event \<Rightarrow> time \<Rightarrow> db \<Rightarrow> event list" where
  "detect_error_burst E now event ts d =
     (if \<not> str_truthy (api_ip event) then []
      else
        let ip = the (api_ip event); api_name = api_name_of event in
        if db_fails E ''query_events'' then []
        else
          let recent = query_events (burst_query ''api.error'' ip ts
                ERROR_BURST_WINDOW_MINUTES ERROR_BURST_THRESHOLD) d in
          if length recent \<noteq> ERROR_BURST_THRESHOLD then []
          else [api_event E now ts
            (uuid5_url E (''api.error.burst::'' @ api_name @ ''::'' @ ip @ ''::'' @
               strf_time E ''%Y%m%d%H%M'' ts))
            ''api.error.burst'' ip api_name
            [(''api_name'', PyStr api_name), (''source_ip'', PyStr ip),
             (''error_count'', PyInt (int (length recent))),
             (''window_minutes'', PyInt ERROR_BURST_WINDOW_MINUTES), (''tags'', api_tags api_name),
             (''message'', PyStr (burst_message
               (api_name @ '': '' @ nat_str ERROR_BURST_THRESHOLD @ ''+ 5xx errors on requests from ''
                @ ip @ '' in '' @ int_str ERROR_BURST_WINDOW_MINUTES @ '' min '')
               '' possible fuzzing or backend outage on one client''))]
            ''api.error''])"

definition api_project :: "pyenv \<Rightarrow> time \<Rightarrow> event \<Rightarrow> db \<Rightarrow> event list \<times> db" where
  "api_project E now event d =
     (let ts = ev_time event in
      if src_module (ev_source event) \<noteq> ''aws.api_gw'' then ([], d)
      else if ev_action event = ''api.request'' then record_source E now event ts d
      else if ev_action event = ''api.auth.failure'' then (detect_auth_burst E now event ts d, d)
      else if ev_action event = ''api.error'' then (detect_error_burst E now event ts d, d)
      else ([], d))"

section \<open>Lemmas\<close>

lemma api_event_sel [simp]:
  "ev_action (api_event E now ts i a ip n x f) = a"
  "ev_id (api_event E now ts i a ip n x f) = Some i"
  "act_source_ip (ev_actor (api_event E now ts i a ip n x f)) = Some ip"
  by (simp_all add: api_event_def)

text \<open>The stored events a burst detector counts.\<close>

definition in_burst :: "string \<Rightarrow> string \<Rightarrow> time \<Rightarrow> event \<Rightarrow> bool" where
  "in_burst action ip since ev \<longleftrightarrow>
     src_module (ev_source ev) = ''aws.api_gw'' \<and> ev_action ev = action \<and>
     act_source_ip (ev_actor ev) = Some ip \<and> since \<le> ev_time ev"

lemma event_selected_burst:
  "ip \<noteq> [] \<Longrightarrow> action \<noteq> [] \<Longrightarrow>
   event_selected (burst_query action ip ts m n) ev \<longleftrightarrow> in_burst action ip (ts - 60 * real_of_int m) ev"
  by (auto simp: event_selected_def burst_query_def any_query_def q_matches_def in_burst_def)

lemma length_burst_query:
  "ip \<noteq> [] \<Longrightarrow> action \<noteq> [] \<Longrightarrow> n \<le> 900 \<Longrightarrow>
   length (query_events (burst_query action ip ts m n) d) =
     min (length (filter (in_burst action ip (ts - 60 * real_of_int m)) (db_events d))) (n + 5)"
  by (simp add: length_query_events event_selected_burst cong: filter_cong)
    (simp add: burst_query_def any_query_def)

text \<open>The visit a request event makes to the table of addresses.\<close>

definition api_visit :: "event \<Rightarrow> string \<times> string \<times> time \<times> bool \<times> bool" where
  "api_visit ev = (let status = int_of (dget (ev_extra ev) ''status'') in
     (the (api_ip ev), api_name_of ev, ev_time ev, 400 \<le> status \<and> status < 500,
      500 \<le> status \<and> status < 600))"

lemma record_source_visit:
  assumes "str_truthy (api_ip ev)" and "\<not> db_fails E ''upsert_api_source''"
  shows "snd (record_source E now ev (ev_time ev) d) =
      snd (touch_api (api_visit ev) d)"
    and "fst (record_source E now ev (ev_time ev) d) \<noteq> [] \<longleftrightarrow>
      fst (touch_api (api_visit ev) d)"
  using assms by (auto simp: record_source_def api_visit_def touch_api_def Let_def split: prod.splits)

fun request_run :: "pyenv \<Rightarrow> (event \<times> time) list \<Rightarrow> db \<Rightarrow> event list list \<times> db" where
  "request_run E [] d = ([], d)"
| "request_run E ((ev, now) # evs) d =
     (let (out, d') = record_source E now ev (ev_time ev) d; (outs, d'') = request_run E evs d'
      in (out # outs, d''))"

lemma request_run_visits:
  assumes "\<forall>(ev, now) \<in> set evs. str_truthy (api_ip ev)" and "\<not> db_fails E ''upsert_api_source''"
  shows "map (\<lambda>out. out \<noteq> []) (fst (request_run E evs d)) =
     fst (api_seen.visits (map (\<lambda>(ev, _). api_visit ev) evs) d)"
  using assms(1)
proof (induction evs arbitrary: d)
  case Nil
  then show ?case by simp
next
  case (Cons x evs)
  obtain ev now where x: "x = (ev, now)" by fastforce
  have ip: "str_truthy (api_ip ev)" using Cons.prems by (simp add: x)
  note v = record_source_visit[OF ip assms(2), of now d]
  show ?case
    using Cons.IH[of "snd (record_source E now ev (ev_time ev) d)"] Cons.prems
    by (simp add: x Let_def case_prod_beta v)
qed

section \<open>Properties\<close>

text \<open>The authentication burst detector fires exactly when the stored failures of the client in
  the five-minute window number ten: neither below the threshold nor again beyond it.\<close>

theorem auth_burst_iff:
  assumes "api_ip ev = Some ip" and "ip \<noteq> []" and "\<not> db_fails E ''query_events''"
  shows "detect_auth_burst E now ev ts d \<noteq> [] \<longleftrightarrow>
    length (filter (in_burst ''api.auth.failure'' ip (ts - 300)) (db_events d)) = 10"
  using assms
  by (auto simp: detect_auth_burst_def Let_def length_burst_query AUTH_BURST_THRESHOLD_def
      AUTH_BURST_WINDOW_MINUTES_def)

definition demo_auth_failure :: event where
  "demo_auth_failure = (event_defaults 0 (new_source ''aws.api_gw'' T_api))
     \<lparr>ev_action := ''api.auth.failure'', ev_actor := new_actor None (Some ''1.2.3.4'')\<rparr>"

lemma auth_burst_iff_witness:
  "detect_auth_burst demo_env 0 demo_auth_failure 0
     (empty_db\<lparr>db_events := replicate 10 demo_auth_failure\<rparr>) \<noteq> []"
  using auth_burst_iff [of demo_auth_failure "''1.2.3.4''" demo_env 0 0
      "empty_db\<lparr>db_events := replicate 10 demo_auth_failure\<rparr>"]
  by (simp add: demo_auth_failure_def api_ip_def in_burst_def)

text \<open>In any run of requests an address raises \<open>api.source.new\<close> exactly at its first request, if
  it was not on record before, and never again.\<close>

theorem source_new_first_request:
  assumes "\<forall>(ev, now) \<in> set evs. str_truthy (api_ip ev)" and "\<not> db_fails E ''upsert_api_source''"
  shows "map (\<lambda>out. out \<noteq> []) (fst (request_run E evs d)) =
    map (\<lambda>i. map_of (db_api_sources d) (the (api_ip (fst (evs ! i)))) = None \<and>
             the (api_ip (fst (evs ! i))) \<notin> (\<lambda>(ev, _). the (api_ip ev)) ` set (take i evs))
      [0..<length evs]"
proof -
  have key: "fst (api_visit ev) = the (api_ip ev)" for ev by (simp add: api_visit_def Let_def)
  have "fst ` set (take i (map (\<lambda>(ev, _). api_visit ev) evs)) =
      (\<lambda>(ev, _). the (api_ip ev)) ` set (take i evs)" for i
    by (simp add: take_map image_image case_prod_beta key)
  then show ?thesis
    unfolding request_run_visits[OF assms] api_seen.visits_new
    by (auto simp: case_prod_beta key)
qed

lemma source_new_first_request_witness:
  "map (\<lambda>out. out \<noteq> []) (fst (request_run demo_env
     [(demo_auth_failure, 0), (demo_auth_failure, 1)] empty_db)) = [True, False]"
proof -
  have ip: "api_ip demo_auth_failure = Some ''1.2.3.4''"
    by (simp add: demo_auth_failure_def api_ip_def)
  show ?thesis
    using source_new_first_request [of "[(demo_auth_failure, 0), (demo_auth_failure, 1)]" demo_env empty_db]
    by (simp add: ip empty_db_def)
qed

end
