(* ===== verification/RdsProjection.thy ===== *)
theory RdsProjection
  imports Storage
begin

text \<open>
  RDS session projection (\<open>src/blackwatch/rds/projection.py\<close>): the table of open sessions, the
  detectors for concurrent sessions, failure bursts, new sources and users off the allowlist. A
  storage call that raises makes its detector return nothing.
\<close>

section \<open>Detectors\<close>

definition BURST_THRESHOLD :: nat where "BURST_THRESHOLD = 5"
definition BURST_WINDOW_MINUTES :: int where "BURST_WINDOW_MINUTES = 5"

definition rds_event ::
  "pyenv \<Rightarrow> time \<Rightarrow> time \<Rightarrow> string \<Rightarrow> string \<Rightarrow> string option \<Rightarrow> string option \<Rightarrow> string \<Rightarrow> dict \<Rightarrow>
   string \<Rightarrow> event" where
  "rds_event E now ts event_id action princ ip db_instance extra derived_from =
     ensure_fingerprint E ((event_defaults now (new_source ''aws.rds'' T_api))
       \<lparr>ev_id := Some event_id, ev_time := ts, ev_category := C_other, ev_action := action,
        ev_outcome := O_failure, ev_actor := new_actor princ ip,
        ev_target := new_target (Some db_instance) (Some ''rds.db'') (Some db_instance),
        ev_extra := extra,
        ev_raw := PyDict [(''derived_from'', PyStr derived_from)]\<rparr>)"

definition rds_tags :: "string \<Rightarrow> pyval" where
  "rds_tags db_instance = PyDict [(''env'', PyStr ''prod''), (''db_instance'', PyStr db_instance)]"

definition extra_str :: "event \<Rightarrow> string \<Rightarrow> string option" where
  "extra_str event k = as_str (dget (ev_extra event) k)"

definition db_instance_of :: "event \<Rightarrow> string" where
  "db_instance_of event = str_or (extra_str event ''db_instance'') ''unknown''"

text \<open>The addresses the user's other open sessions come from.\<close>

definition other_ips :: "string \<Rightarrow> string \<Rightarrow> (string \<times> session_row) list \<Rightarrow> string list" where
  "other_ips user source_ip active =
     remdups (List.map_filter (\<lambda>(_, s).
       if se_db_user s = Some user \<and> str_truthy (se_source_ip s) \<and> se_source_ip s \<noteq> Some source_ip
       then se_source_ip s else None) active)"

definition detect_concurrent_rds :: "pyenv \<Rightarrow> time \<Rightarrow> event \<Rightarrow> time \<Rightarrow> db \<Rightarrow> event list" where
  "detect_concurrent_rds E now event ts d =
     (let user = extra_str event ''user''; db_instance = db_instance_of event;
          source_ip = extra_str event ''source_ip'' in
      if \<not> str_truthy user \<or> \<not> str_truthy source_ip then []
      else if db_fails E ''list_rds_active_sessions'' then []
      else
        let others = other_ips (the user) (the source_ip)
              (list_rds_active_sessions (Some db_instance) 500 d);
            ips_sorted = sorted_set (the source_ip # others) in
        if others = [] then []
        else [rds_event E now ts
          (uuid5_url E (''rds.session.concurrent::'' @ db_instance @ ''::'' @ the user @ ''::'' @
             strf_time E ''%Y%m%d'' ts))
          ''rds.session.concurrent'' user source_ip db_instance
          [(''db_instance'', PyStr db_instance), (''user'', opt_val user),
           (''source_ips'', PyList (map PyStr ips_sorted)), (''tags'', rds_tags db_instance),
           (''message'', PyStr (db_instance @ '': '' @ the user @
              '' is connected from multiple IPs simultaneously ('' @ join '', '' ips_sorted @ '')''))]
          ''rds.session.start''])"

definition rds_burst_query :: "string \<Rightarrow> time \<Rightarrow> event_query" where
  "rds_burst_query user ts =
     any_query\<lparr>q_module := Some ''aws.rds'', q_action := Some ''rds.auth.failure'',
       q_principal := Some user, q_since := Some (ts - 60 * real_of_int BURST_WINDOW_MINUTES),
       q_limit := int BURST_THRESHOLD + 5\<rparr>"

text \<open>The stored envelope has no top-level \<open>actor_source_ip\<close>, so the addresses come from
  \<open>extra\<close> alone.\<close>

definition burst_ips :: "event list \<Rightarrow> string list" where
  "burst_ips recent = sorted_set (List.map_filter (\<lambda>r. extra_str r ''source_ip'') recent)"

definition detect_burst :: "pyenv \<Rightarrow> time \<Rightarrow> event \<Rightarrow> time \<Rightarrow> db \<Rightarrow> event list" where
  "detect_burst E now event ts d =
     (let user = opt_or (extra_str event ''user'') (act_principal (ev_actor event));
          db_instance = db_instance_of event in
      if \<not> str_truthy user then []
      else if db_fails E ''query_events'' then []
      else
        let recent = query_events (rds_burst_query (the user) ts) d;
            source_ips = burst_ips recent in
        if length recent \<noteq> BURST_THRESHOLD then []
        else [rds_event E now ts
          (uuid5_url E (''rds.auth.burst::'' @ db_instance @ ''::'' @ the user @ ''::'' @
             strf_time E ''%Y%m%d%H%M'' ts))
          ''rds.auth.burst'' user (act_source_ip (ev_actor event)) db_instance
          [(''db_instance'', PyStr db_instance), (''user'', opt_val user),
           (''failure_count'', PyInt (int (length recent))),
           (''window_minutes'', PyInt BURST_WINDOW_MINUTES),
           (''source_ips'', PyList (map PyStr source_ips)), (''tags'', rds_tags db_instance),
           (''message'', PyStr (db_instance @ '': '' @ nat_str BURST_THRESHOLD @
              ''+ failed logins for '' @ the user @ '' in '' @ int_str BURST_WINDOW_MINUTES @
              '' min (from '' @ (if source_ips \<noteq> [] then join '', '' source_ips else ''unknown'') @ '')''))]
          ''rds.auth.failure''])"

definition record_proxy_source :: "pyenv \<Rightarrow> time \<Rightarrow> event \<Rightarrow> time \<Rightarrow> db \<Rightarrow> event list \<times> db" where
  "record_proxy_source E now event ts d =
     (let ip = opt_or (extra_str event ''source_ip'') (act_source_ip (ev_actor event)) in
      if \<not> str_truthy ip then ([], d)
      else if db_fails E ''upsert_rds_proxy_source'' then ([], d)
      else
        let (is_new, d') = upsert_rds_proxy_source (the ip) ts d; db_instance = db_instance_of event in
        if \<not> is_new then ([], d')
        else ([rds_event E now ts
          (uuid5_url E (''rds.proxy.source.new::'' @ the ip @ ''::'' @ strf_time E ''%Y%m%d'' ts))
          ''rds.proxy.source.new'' None ip db_instance
          [(''db_instance'', PyStr db_instance), (''source_ip'', opt_val ip),
           (''tags'', rds_tags db_instance),
           (''message'', PyStr (db_instance @ '': new source IP '' @ the ip @
              '' connected to the RDS Proxy '' @ em_dash @ '' never seen before''))]
          ''rds.proxy.client.connect''], d'))"

definition detect_new_user_source :: "pyenv \<Rightarrow> time \<Rightarrow> event \<Rightarrow> time \<Rightarrow> db \<Rightarrow> event list \<times> db" where
  "detect_new_user_source E now event ts d =
     (let user = extra_str event ''user''; real_ip = extra_str event ''real_client_ip'' in
      if \<not> str_truthy user \<or> \<not> str_truthy real_ip then ([], d)
      else if db_fails E ''upsert_rds_user_source'' then ([], d)
      else
        let (is_new, d') = upsert_rds_user_source (the user) (the real_ip) ts d;
            db_instance = db_instance_of event in
        if \<not> is_new then ([], d')
        else ([rds_event E now ts
          (uuid5_url E (''rds.session.new_source::'' @ db_instance @ ''::'' @ the user @ ''::'' @
             the real_ip @ ''::'' @ strf_time E ''%Y%m%d'' ts))
          ''rds.session.new_source'' user real_ip db_instance
          [(''db_instance'', PyStr db_instance), (''user'', opt_val user),
           (''source_ip'', opt_val real_ip), (''tags'', rds_tags db_instance),
           (''message'', PyStr (db_instance @ '': '' @ the user @ '' connected from a new source IP ('' @
              the real_ip @ '') '' @ em_dash @ '' never seen for this user before''))]
          ''rds.session.start''], d'))"

definition detect_unknown_user :: "pyenv \<Rightarrow> time \<Rightarrow> event \<Rightarrow> time \<Rightarrow> db \<Rightarrow> event list" where
  "detect_unknown_user E now event ts d =
     (let user = opt_or (extra_str event ''user'') (act_principal (ev_actor event));
          db_instance = db_instance_of event in
      if \<not> str_truthy user then []
      else if db_fails E ''is_rds_user_allowlisted'' then []
      else if is_rds_user_allowlisted (the user) d then []
      else [rds_event E now ts
          (uuid5_url E (''rds.user.unknown::'' @ db_instance @ ''::'' @ the user @ ''::'' @
             strf_time E ''%Y%m%d'' ts))
          ''rds.user.unknown'' user (act_source_ip (ev_actor event)) db_instance
          [(''db_instance'', PyStr db_instance), (''user'', opt_val user),
           (''trigger'', PyStr (ev_action event)), (''tags'', rds_tags db_instance),
           (''message'', PyStr (db_instance @ '': DB user '' @ repr_other E (PyStr (the user)) @
              '' is not on the allowlist (triggered by '' @ ev_action event @ '')''))]
          (ev_action event)])"

section \<open>The projection\<close>

definition rds_session_started :: "pyenv \<Rightarrow> time \<Rightarrow> event \<Rightarrow> db \<Rightarrow> event list \<times> db" where
  "rds_session_started E now event d =
     (let session_id = extra_str event ''session_id''; e = ev_extra event; ts = ev_time event in
      if \<not> str_truthy session_id then ([], d)
      else if db_fails E ''upsert_rds_session_start'' then ([], d)
      else
        let d1 = snd (upsert_rds_session_start (the session_id) (db_instance_of event)
              (str_or (extra_str event ''source_type'') ''postgres'') (extra_str event ''user'')
              (extra_str event ''database'') (extra_str event ''source_ip'') (dget e ''source_port'') ts
              [(''backend_pid'', dget e ''backend_pid''),
               (''real_client_ip'', dget e ''real_client_ip''),
               (''real_client_port'', dget e ''real_client_port'')] d);
            (fresh, d2) = detect_new_user_source E now event ts d1
        in (detect_concurrent_rds E now event ts d1 @ detect_unknown_user E now event ts d1 @ fresh, d2))"

definition rds_session_ended :: "pyenv \<Rightarrow> event \<Rightarrow> db \<Rightarrow> db" where
  "rds_session_ended E event d =
     (let session_id = extra_str event ''session_id'' in
      if \<not> str_truthy session_id then d
      else if db_fails E ''close_rds_session'' then d
      else snd (close_rds_session (the session_id) (ev_time event)
             (case dget (ev_extra event) ''duration_seconds'' of PyInt n \<Rightarrow> Some n | _ \<Rightarrow> None) d))"

definition rds_project :: "pyenv \<Rightarrow> time \<Rightarrow> event \<Rightarrow> db \<Rightarrow> event list \<times> db" where
  "rds_project E now event d =
     (let ts = ev_time event in
      if src_module (ev_source event) \<noteq> ''aws.rds'' then ([], d)
      else if ev_action event = ''rds.session.start'' then rds_session_started E now event d
      else if ev_action event = ''rds.session.end'' then ([], rds_session_ended E event d)
      else if ev_action event = ''rds.auth.failure''
        then (detect_burst E now event ts d @ detect_unknown_user E now event ts d, d)
      else if ev_action event = ''rds.proxy.client.connect'' then record_proxy_source E now event ts d
      else ([], d))"

section \<open>Lemmas\<close>

lemma rds_event_sel [simp]:
  "ev_action (rds_event E now ts i a p ip n x f) = a"
  "ev_id (rds_event E now ts i a p ip n x f) = Some i"
  "act_principal (ev_actor (rds_event E now ts i a p ip n x f)) = p"
  by (simp_all add: rds_event_def)

definition in_rds_burst :: "string \<Rightarrow> time \<Rightarrow> event \<Rightarrow> bool" where
  "in_rds_burst user since ev \<longleftrightarrow>
     src_module (ev_source ev) = ''aws.rds'' \<and> ev_action ev = ''rds.auth.failure'' \<and>
     act_principal (ev_actor ev) = Some user \<and> since \<le> ev_time ev"

lemma event_selected_rds_burst:
  "user \<noteq> [] \<Longrightarrow> event_selected (rds_burst_query user ts) ev \<longleftrightarrow> in_rds_burst user (ts - 300) ev"
  by (auto simp: event_selected_def rds_burst_query_def any_query_def q_matches_def in_rds_burst_def
      BURST_WINDOW_MINUTES_def)

lemma length_rds_burst:
  "user \<noteq> [] \<Longrightarrow> length (query_events (rds_burst_query user ts) d) =
     min (length (filter (in_rds_burst user (ts - 300)) (db_events d))) 10"
  by (simp add: length_query_events event_selected_rds_burst cong: filter_cong)
    (simp add: rds_burst_query_def any_query_def BURST_THRESHOLD_def)

lemma set_other_ips:
  "ip \<in> set (other_ips user src active) \<longleftrightarrow>
     (\<exists>(i, s) \<in> set active. se_db_user s = Some user \<and> se_source_ip s = Some ip \<and> ip \<noteq> [] \<and> ip \<noteq> src)"
  by (force simp: other_ips_def List.map_filter_def str_truthy_def split: option.splits if_splits)

text \<open>The open sessions of an instance, when the limit does not cut.\<close>

definition open_sessions :: "string \<Rightarrow> db \<Rightarrow> (string \<times> session_row) list" where
  "open_sessions inst d =
     filter (\<lambda>(_, r). se_disconnected_at r = None \<and> se_db_instance r = inst) (db_sessions d)"

lemma set_active_sessions:
  "length (open_sessions inst d) \<le> n \<Longrightarrow>
   set (list_rds_active_sessions (Some inst) n d) = set (open_sessions inst d)"
  by (simp add: list_rds_active_sessions_def open_sessions_def)

section \<open>Properties\<close>

text \<open>The failure burst detector fires exactly when the stored failures of the user in the
  five-minute window number five.\<close>

theorem rds_burst_iff:
  assumes "opt_or (extra_str ev ''user'') (act_principal (ev_actor ev)) = Some user" and "user \<noteq> []"
    and "\<not> db_fails E ''query_events''"
  shows "detect_burst E now ev ts d \<noteq> [] \<longleftrightarrow>
    length (filter (in_rds_burst user (ts - 300)) (db_events d)) = 5"
  using assms by (auto simp: detect_burst_def Let_def length_rds_burst BURST_THRESHOLD_def)

definition demo_rds_failure :: event where
  "demo_rds_failure = (event_defaults 0 (new_source ''aws.rds'' T_api))
     \<lparr>ev_action := ''rds.auth.failure'', ev_actor := new_actor (Some ''app'') None\<rparr>"

lemma rds_burst_iff_witness:
  "detect_burst demo_env 0 demo_rds_failure 0
     (empty_db\<lparr>db_events := replicate 5 demo_rds_failure\<rparr>) \<noteq> []"
  using rds_burst_iff [of demo_rds_failure "''app''" demo_env 0 0
      "empty_db\<lparr>db_events := replicate 5 demo_rds_failure\<rparr>"]
  by (simp add: demo_rds_failure_def in_rds_burst_def extra_str_def)

text \<open>A started session is reported as concurrent exactly when the same user has another open
  session on the instance from a different address; the report names that user.\<close>

theorem rds_concurrent_iff:
  assumes "extra_str ev ''user'' = Some user" and "user \<noteq> []"
    and "extra_str ev ''source_ip'' = Some ip" and "ip \<noteq> []"
    and "\<not> db_fails E ''list_rds_active_sessions''"
    and "length (open_sessions (db_instance_of ev) d) \<le> 500"
  shows "detect_concurrent_rds E now ev ts d \<noteq> [] \<longleftrightarrow>
    (\<exists>(i, s) \<in> set (db_sessions d). se_disconnected_at s = None \<and>
       se_db_instance s = db_instance_of ev \<and> se_db_user s = Some user \<and>
       (\<exists>other. se_source_ip s = Some other \<and> other \<noteq> [] \<and> other \<noteq> ip))"
proof -
  let ?others = "other_ips user ip (list_rds_active_sessions (Some (db_instance_of ev)) 500 d)"
  have "detect_concurrent_rds E now ev ts d \<noteq> [] \<longleftrightarrow> ?others \<noteq> []"
    using assms(1-5) by (simp add: detect_concurrent_rds_def Let_def)
  also have "\<dots> \<longleftrightarrow> (\<exists>other. other \<in> set ?others)"
    using list.set_sel(1) by fastforce
  also have "\<dots> \<longleftrightarrow> (\<exists>other. \<exists>(i, s) \<in> set (open_sessions (db_instance_of ev) d).
      se_db_user s = Some user \<and> se_source_ip s = Some other \<and> other \<noteq> [] \<and> other \<noteq> ip)"
    by (simp add: set_other_ips set_active_sessions[OF assms(6)])
  finally show ?thesis by (force simp: open_sessions_def)
qed

definition demo_session :: session_row where
  "demo_session = \<lparr>se_db_instance = ''unknown'', se_source_type = ''postgres'', se_db_user = Some ''bob'',
     se_db_name = None, se_source_ip = Some ''2.2.2.2'', se_source_port = PyNone, se_connected_at = 0,
     se_last_seen_at = 0, se_disconnected_at = None, se_duration = None, se_extra = []\<rparr>"

definition demo_session_start :: event where
  "demo_session_start = (event_defaults 0 (new_source ''aws.rds'' T_api))
     \<lparr>ev_action := ''rds.session.start'',
      ev_extra := [(''user'', PyStr ''bob''), (''source_ip'', PyStr ''1.1.1.1'')]\<rparr>"

lemma rds_concurrent_iff_witness:
  "detect_concurrent_rds demo_env 0 demo_session_start 0
     (empty_db\<lparr>db_sessions := [(''s'', demo_session)]\<rparr>) \<noteq> []"
  using rds_concurrent_iff [of demo_session_start "''bob''" "''1.1.1.1''" demo_env
      "empty_db\<lparr>db_sessions := [(''s'', demo_session)]\<rparr>" 0 0]
  by (simp add: demo_session_start_def demo_session_def extra_str_def db_instance_of_def
      open_sessions_def)

end
