(* ===== verification/HostDiff.thy ===== *)
theory HostDiff
  imports Prelude
begin

text \<open>
  The difference of two host snapshots (\<open>src/blackwatch/hosts/diff.py\<close>) as a list of
  (action, extra) pairs. Python iterates the set differences in an unspecified order; the model
  takes the order of the dictionaries. Identity keys are compared as the values they are.
\<close>

section \<open>Categories\<close>

text \<open>A snapshot restricted to the categories that both sides have.\<close>

definition restrict_common :: "dict \<Rightarrow> dict \<Rightarrow> dict" where
  "restrict_common d other = filter (\<lambda>(k, _). has_key other k) d"

definition rows_of :: "dict \<Rightarrow> string \<Rightarrow> dict list" where
  "rows_of d k = dicts_of (dget d k)"

definition names_of :: "dict \<Rightarrow> string \<Rightarrow> string list" where
  "names_of d k = strs_of (dget d k)"

definition gone_keys :: "('k \<times> 'v) list \<Rightarrow> ('k \<times> 'v) list \<Rightarrow> ('k \<times> 'v) list" where
  "gone_keys xs ys = filter (\<lambda>(k, _). k \<notin> fst ` set ys) xs"

definition port_key :: "dict \<Rightarrow> pyval \<times> pyval \<times> pyval" where
  "port_key p = (dget p ''proto'', dget p ''address'', dget p ''port'')"

definition diff_ports :: "dict \<Rightarrow> dict \<Rightarrow> (string \<times> dict) list" where
  "diff_ports prev cur =
     (let pp = dict_by port_key (rows_of prev ''ports''); cp = dict_by port_key (rows_of cur ''ports'') in
      map (\<lambda>(k, p). (''host.port.opened'',
         [(''proto'', dget p ''proto''), (''address'', dget p ''address''), (''port'', dget p ''port''),
          (''process'', dget p ''process'')])) (gone_keys cp pp) @
      map (\<lambda>((proto, address, port), p). (''host.port.closed'',
         [(''proto'', proto), (''address'', address), (''port'', port)])) (gone_keys pp cp))"

definition named_rows :: "dict \<Rightarrow> (pyval \<times> dict) list" where
  "named_rows d = dict_by (\<lambda>u. dget u ''name'') (filter (\<lambda>u. truthy (dget u ''name'')) (rows_of d ''users''))"

definition diff_users :: "dict \<Rightarrow> dict \<Rightarrow> (string \<times> dict) list" where
  "diff_users prev cur =
     (let pu = named_rows prev; cu = named_rows cur in
      map (\<lambda>(name, u). (''host.user.added'',
         [(''user'', name), (''uid'', dget u ''uid''), (''shell'', dget u ''shell'')])) (gone_keys cu pu) @
      map (\<lambda>(name, u). (''host.user.removed'', [(''user'', name)])) (gone_keys pu cu))"

definition auth_key :: "dict \<Rightarrow> pyval \<times> pyval" where
  "auth_key k = (dget k ''user'', dget k ''fingerprint'')"

definition diff_authorized_keys :: "dict \<Rightarrow> dict \<Rightarrow> (string \<times> dict) list" where
  "diff_authorized_keys prev cur =
     (let pk = dict_by auth_key (rows_of prev ''authorized_keys'');
          ck = dict_by auth_key (rows_of cur ''authorized_keys'') in
      map (\<lambda>(k, kk). (''host.authorized_key.added'',
         [(''user'', dget kk ''user''), (''fingerprint'', dget kk ''fingerprint''),
          (''preview'', PyStr (take 80 (str_or (as_str (dget kk ''preview'')) '''')))])) (gone_keys ck pk) @
      map (\<lambda>((user, fp), kk). (''host.authorized_key.removed'', [(''user'', user), (''fingerprint'', fp)]))
        (gone_keys pk ck))"

text \<open>The paths whose digest differs between two \<open>{path: sha256}\<close> maps, with the kind of change.\<close>

definition path_changes :: "dict \<Rightarrow> dict \<Rightarrow> (string \<times> string) list" where
  "path_changes prev cur =
     List.map_filter (\<lambda>path.
       let a = dget prev path; b = dget cur path in
       if py_eq a b then None
       else Some (path, if a = PyNone then ''added'' else if b = PyNone then ''removed'' else ''changed''))
     (remdups (map fst prev @ map fst cur))"

definition diff_sudoers :: "dict \<Rightarrow> dict \<Rightarrow> (string \<times> dict) list" where
  "diff_sudoers prev cur =
     (let changes = path_changes (as_dict (dget prev ''sudoers'')) (as_dict (dget cur ''sudoers'')) in
      if changes \<noteq> []
      then [(''host.sudoers.changed'', [(''changes'', PyDict (map (\<lambda>(p, k). (p, PyStr k)) changes))])]
      else [])"

definition diff_files :: "string \<Rightarrow> string \<Rightarrow> dict \<Rightarrow> dict \<Rightarrow> (string \<times> dict) list" where
  "diff_files key action prev cur =
     map (\<lambda>(path, kind). (action, [(''path'', PyStr path), (''change'', PyStr kind)]))
       (path_changes (as_dict (dget prev key)) (as_dict (dget cur key)))"

text \<open>Added and removed names of a list category.\<close>

definition diff_names ::
  "string \<Rightarrow> string \<Rightarrow> string \<Rightarrow> string \<Rightarrow> dict \<Rightarrow> dict \<Rightarrow> (string \<times> dict) list" where
  "diff_names key field added removed prev cur =
     (let p = names_of prev key; c = names_of cur key in
      map (\<lambda>n. (added, [(field, PyStr n)])) (set_minus c p) @
      map (\<lambda>n. (removed, [(field, PyStr n)])) (set_minus p c))"

definition diff_packages :: "dict \<Rightarrow> dict \<Rightarrow> (string \<times> dict) list" where
  "diff_packages prev cur =
     (let p = names_of prev ''packages''; c = names_of cur ''packages'';
          added = sort (set_minus c p); removed = sort (set_minus p c) in
      if added \<noteq> [] \<or> removed \<noteq> []
      then [(''host.packages.changed'',
         [(''added'', PyList (map PyStr (take 50 added))), (''removed'', PyList (map PyStr (take 50 removed))),
          (''added_count'', PyInt (int (length added))), (''removed_count'', PyInt (int (length removed)))])]
      else [])"

definition diff_kernel_modules :: "dict \<Rightarrow> dict \<Rightarrow> (string \<times> dict) list" where
  "diff_kernel_modules prev cur =
     (let p = names_of prev ''kernel_modules''; c = names_of cur ''kernel_modules'' in
      map (\<lambda>m. (''host.kernel.module.added'', [(''module'', PyStr m)])) (sort (set_minus c p)) @
      map (\<lambda>m. (''host.kernel.module.removed'', [(''module'', PyStr m)])) (sort (set_minus p c)))"

section \<open>Disk thresholds\<close>

datatype disk_level = Disk_critical | Disk_warn | Disk_normal | Disk_warn_recovering

definition disk_state :: "int \<Rightarrow> disk_level" where
  "disk_state pct = (if pct \<ge> 95 then Disk_critical else if pct \<ge> 90 then Disk_warn
     else if pct < 85 then Disk_normal else Disk_warn_recovering)"

text \<open>The event of one mount going from \<open>p_pct\<close> to \<open>c_pct\<close>, if any.\<close>

definition disk_transition :: "int \<Rightarrow> int \<Rightarrow> string option" where
  "disk_transition p_pct c_pct =
     (if disk_state c_pct = Disk_warn_recovering then None
      else if disk_state p_pct = disk_state c_pct then None
      else if disk_state c_pct = Disk_critical then Some ''host.disk.critical''
      else if disk_state c_pct = Disk_warn then Some ''host.disk.warn''
      else Some ''host.disk.recovered'')"

definition mounts_of :: "dict \<Rightarrow> (pyval \<times> dict) list" where
  "mounts_of d = dict_by (\<lambda>x. dget x ''mount'') (filter (\<lambda>x. truthy (dget x ''mount'')) (rows_of d ''disk''))"

definition diff_disk :: "dict \<Rightarrow> dict \<Rightarrow> (string \<times> dict) list" where
  "diff_disk prev cur =
     (let cd = mounts_of cur in
      List.map_filter (\<lambda>(mount, p). case map_of cd mount of None \<Rightarrow> None
        | Some c \<Rightarrow>
            let c_pct = int_of (py_or (dget c ''used_pct'') (PyInt 0)) in
            map_option (\<lambda>action. (action,
               [(''mount'', mount), (''used_pct'', PyInt c_pct), (''total'', dget c ''total''),
                (''fs_type'', dget c ''fs_type'')]))
              (disk_transition (int_of (py_or (dget p ''used_pct'') (PyInt 0))) c_pct))
      (mounts_of prev))"

section \<open>The whole difference\<close>

definition diff_snapshots :: "dict \<Rightarrow> dict \<Rightarrow> (string \<times> dict) list" where
  "diff_snapshots previous current =
     (let prev = restrict_common previous current; cur = restrict_common current previous in
      diff_ports prev cur @ diff_users prev cur @ diff_authorized_keys prev cur @
      diff_sudoers prev cur @
      diff_files ''critical_files'' ''host.file.changed'' prev cur @
      diff_files ''cron'' ''host.cron.changed'' prev cur @
      diff_names ''systemd_units'' ''unit'' ''host.service.added'' ''host.service.removed'' prev cur @
      diff_names ''suid'' ''path'' ''host.suid.added'' ''host.suid.removed'' prev cur @
      diff_packages prev cur @ diff_kernel_modules prev cur @ diff_disk prev cur)"

section \<open>Lemmas\<close>

lemma gone_keys_self [simp]: "gone_keys xs xs = []"
  by (force simp: gone_keys_def filter_empty_conv)

lemma gone_keys_iff: "k \<in> fst ` set (gone_keys xs ys) \<longleftrightarrow> k \<in> fst ` set xs \<and> k \<notin> fst ` set ys"
  by (force simp: gone_keys_def)

lemma set_minus_self [simp]: "set_minus xs xs = []"
  by (simp add: set_minus_def filter_empty_conv)

lemma restrict_common_get: "dget (restrict_common d e) k = (if has_key e k then dget d k else PyNone)"
  by (induction d) (auto simp: restrict_common_def dget_def)

lemma restrict_common_self [simp]: "restrict_common d d = d"
  unfolding restrict_common_def
  by (rule filter_True) (force simp: has_key_def map_of_eq_None_iff)

lemma disk_transition_self [simp]: "disk_transition p p = None"
  by (simp add: disk_transition_def)

lemma distinct_mounts: "distinct (map fst (mounts_of d))"
  by (simp add: mounts_of_def distinct_dict_by)

lemma map_filter_None: "(\<And>x. x \<in> set xs \<Longrightarrow> f x = None) \<Longrightarrow> List.map_filter f xs = []"
  by (induction xs) (simp_all add: List.map_filter_def)

lemma diff_disk_self [simp]: "diff_disk d d = []"
  unfolding diff_disk_def Let_def
  by (rule map_filter_None) (auto simp: map_of_is_SomeI[OF distinct_mounts] split: option.splits)

lemma set_map_filter: "set (List.map_filter f xs) = {y. \<exists>x \<in> set xs. f x = Some y}"
  by (induction xs) (auto simp: List.map_filter_def split: option.splits)

text \<open>Digests are strings: then \<open>==\<close> on two of them or on an absent one is equality.\<close>

definition str_dict :: "dict \<Rightarrow> bool" where
  "str_dict d \<longleftrightarrow> (\<forall>(k, v) \<in> set d. is_str v)"

lemma str_dict_get: "str_dict d \<Longrightarrow> dget d k = PyNone \<or> (\<exists>s. dget d k = PyStr s) \<or> (\<exists>n s. dget d k = PyEnum n s)"
  unfolding str_dict_def
  by (cases "dget d k") (fastforce simp: dget_def dest: map_of_SomeD split: option.splits)+

lemma py_eq_str_refl: "v = PyNone \<or> (\<exists>s. v = PyStr s) \<or> (\<exists>n s. v = PyEnum n s) \<Longrightarrow> py_eq v v"
  by auto

lemma path_changes_self: "str_dict d \<Longrightarrow> path_changes d d = []"
  unfolding path_changes_def Let_def
  by (rule map_filter_None) (use py_eq_str_refl str_dict_get in auto)

lemma set_path_changes:
  "(path, kind) \<in> set (path_changes prev cur) \<longleftrightarrow>
     path \<in> fst ` set prev \<union> fst ` set cur \<and> \<not> py_eq (dget prev path) (dget cur path) \<and>
     kind = (if dget prev path = PyNone then ''added'' else if dget cur path = PyNone then ''removed''
             else ''changed'')"
  by (auto simp: path_changes_def set_map_filter Let_def image_iff)

text \<open>Each part of the difference speaks of its own actions only.\<close>

lemma diff_part_actions:
  "x \<in> set (diff_ports p c) \<Longrightarrow> fst x \<in> {''host.port.opened'', ''host.port.closed''}"
  "x \<in> set (diff_users p c) \<Longrightarrow> fst x \<in> {''host.user.added'', ''host.user.removed''}"
  "x \<in> set (diff_authorized_keys p c) \<Longrightarrow>
     fst x \<in> {''host.authorized_key.added'', ''host.authorized_key.removed''}"
  "x \<in> set (diff_sudoers p c) \<Longrightarrow> fst x = ''host.sudoers.changed''"
  "x \<in> set (diff_files k a p c) \<Longrightarrow> fst x = a"
  "x \<in> set (diff_names k f a r p c) \<Longrightarrow> fst x \<in> {a, r}"
  "x \<in> set (diff_packages p c) \<Longrightarrow> fst x = ''host.packages.changed''"
  "x \<in> set (diff_kernel_modules p c) \<Longrightarrow>
     fst x \<in> {''host.kernel.module.added'', ''host.kernel.module.removed''}"
  "x \<in> set (diff_disk p c) \<Longrightarrow>
     fst x \<in> {''host.disk.critical'', ''host.disk.warn'', ''host.disk.recovered''}"
  by (auto simp: diff_ports_def diff_users_def diff_authorized_keys_def diff_sudoers_def
      diff_files_def diff_names_def diff_packages_def diff_kernel_modules_def diff_disk_def Let_def
      set_map_filter disk_transition_def split: if_splits option.splits)

lemma set_diff_files:
  "(a, [(''path'', PyStr path), (''change'', PyStr kind)]) \<in> set (diff_files key a prev cur) \<longleftrightarrow>
     (path, kind) \<in> set (path_changes (as_dict (dget prev key)) (as_dict (dget cur key)))"
  by (auto simp: diff_files_def)

lemma file_changes_of_diff:
  "(''host.file.changed'', x) \<in> set (diff_snapshots previous current) \<longleftrightarrow>
   (''host.file.changed'', x) \<in> set (diff_files ''critical_files'' ''host.file.changed''
      (restrict_common previous current) (restrict_common current previous))"
  (is "?l \<longleftrightarrow> ?r")
proof
  assume ?l
  then show ?r
    unfolding diff_snapshots_def Let_def set_append
    by (auto dest: diff_part_actions)
qed (simp add: diff_snapshots_def Let_def)

section \<open>Properties\<close>

text \<open>File integrity: a critical file is reported as added, removed or changed exactly when both
  snapshots carry the category and its digests differ in that way.\<close>

theorem file_change_reported_iff:
  assumes "str_dict (as_dict (dget previous ''critical_files''))"
    and "str_dict (as_dict (dget current ''critical_files''))"
  shows "(''host.file.changed'', [(''path'', PyStr path), (''change'', PyStr kind)])
      \<in> set (diff_snapshots previous current) \<longleftrightarrow>
    has_key previous ''critical_files'' \<and> has_key current ''critical_files'' \<and>
    (let a = dget (as_dict (dget previous ''critical_files'')) path;
         b = dget (as_dict (dget current ''critical_files'')) path
     in as_str a \<noteq> as_str b \<and>
        kind = (if a = PyNone then ''added'' else if b = PyNone then ''removed'' else ''changed''))"
proof -
  have eq: "py_eq a b \<longleftrightarrow> as_str a = as_str b"
    if "a = PyNone \<or> (\<exists>s. a = PyStr s) \<or> (\<exists>n s. a = PyEnum n s)"
      "b = PyNone \<or> (\<exists>s. b = PyStr s) \<or> (\<exists>n s. b = PyEnum n s)" for a b
    using that by auto
  have absent: "\<not> has_key d k \<Longrightarrow> dget d k = PyNone" for d k
    by (simp add: has_key_iff dget_absent)
  note e = eq[OF str_dict_get[OF assms(1)] str_dict_get[OF assms(2)]]
  show ?thesis
    unfolding file_changes_of_diff set_diff_files set_path_changes Let_def
    by (cases "has_key previous ''critical_files'' \<and> has_key current ''critical_files''")
      (auto simp: restrict_common_get e dget_absent absent image_Un)
qed

lemma file_change_reported_iff_witness:
  "(''host.file.changed'', [(''path'', PyStr ''/etc/passwd''), (''change'', PyStr ''changed'')])
     \<in> set (diff_snapshots [(''critical_files'', PyDict [(''/etc/passwd'', PyStr ''a'')])]
             [(''critical_files'', PyDict [(''/etc/passwd'', PyStr ''b'')])])"
  using file_change_reported_iff
    [of "[(''critical_files'', PyDict [(''/etc/passwd'', PyStr ''a'')])]"
        "[(''critical_files'', PyDict [(''/etc/passwd'', PyStr ''b'')])]" "''/etc/passwd''" "''changed''"]
  by (simp add: str_dict_def has_key_def)

text \<open>No flooding: a category that one of the two snapshots lacks has no influence on the
  difference, so neither a newly added collector nor a failing one reports anything.\<close>

theorem diff_ignores_one_sided:
  assumes "\<not> has_key previous k \<or> \<not> has_key current k"
  shows "diff_snapshots previous current =
    diff_snapshots (AList.delete k previous) (AList.delete k current)"
proof -
  have "restrict_common (AList.delete k d) (AList.delete k e) = restrict_common d e"
    if "\<not> has_key d k \<or> \<not> has_key e k" for d e
  proof -
    have "fst x \<noteq> k" if "x \<in> set d" "has_key e (fst x)" for x
      using that \<open>\<not> has_key d k \<or> \<not> has_key e k\<close> by (auto dest: has_key_mem)
    then show ?thesis
      unfolding restrict_common_def fun_cong[OF AList.delete_eq, of k d] filter_filter
      by (intro filter_cong) fastforce+
  qed
  from this[of previous current] this[of current previous] show ?thesis
    using assms by (simp add: diff_snapshots_def disj_commute)
qed

lemma diff_ignores_one_sided_witness:
  "diff_snapshots [(''suid'', PyList [PyStr ''/x''])] [] = []"
  using diff_ignores_one_sided [of "[(''suid'', PyList [PyStr ''/x''])]" "''suid''" "[]"]
  by (simp add: has_key_def diff_snapshots_def restrict_common_def diff_ports_def diff_users_def
      diff_authorized_keys_def diff_sudoers_def diff_files_def diff_names_def diff_packages_def
      diff_kernel_modules_def diff_disk_def rows_of_def names_of_def named_rows_def mounts_of_def
      path_changes_def dicts_of_def strs_of_def dict_by_def gone_keys_def List.map_filter_def)

definition disk_run :: "int list \<Rightarrow> string option list" where
  "disk_run pcts = map2 disk_transition pcts (tl pcts)"

text \<open>The disk thresholds compare with the previous sample only: a mount that hovers around 90
  percent alerts again at every crossing, and one that rises into the band and falls back reports a
  recovery without ever having warned.\<close>

theorem disk_hover_flaps:
  "disk_run [91, 88, 91, 88, 91] = [None, Some ''host.disk.warn'', None, Some ''host.disk.warn''] \<and>
   disk_run [80, 86, 84] = [None, Some ''host.disk.recovered'']"
  by (simp add: disk_run_def disk_transition_def disk_state_def)

end
