(* ===== verification/PerfAlerts.thy ===== *)
theory PerfAlerts
  imports Storage
begin

text \<open>
  Threshold alerts on host heartbeats (\<open>src/blackwatch/perf_alerts.py\<close>): metric extraction, rule
  scope, the sample buffer with its window and cap, the breach ratio and the throttle. The direct
  dispatch to the notifier is returned as a request (\<open>direct_dispatch\<close>) that the notifier's model
  serves.
\<close>

section \<open>Metrics and scope\<close>

record direct_dispatch =
  dd_event :: event
  dd_channels :: "string list"
  dd_rule_name :: string
  dd_rule_id :: string
  dd_throttle :: int

definition MIN_SAMPLES_TO_EVAL :: nat where "MIN_SAMPLES_TO_EVAL = 2"
definition MAX_SAMPLES_PER_RULE :: nat where "MAX_SAMPLES_PER_RULE = 200"

definition metric_of :: "pyenv \<Rightarrow> string \<Rightarrow> pyval \<Rightarrow> (string \<times> real) list" where
  "metric_of E name v = (if v = PyNone then [] else
     case py_float E v of None \<Rightarrow> [] | Some x \<Rightarrow> [(name, x)])"

text \<open>\<open>max\<close> over the percentages of the mounts; one that is no number spoils the metric.\<close>

definition worst_disk :: "pyenv \<Rightarrow> pyval list \<Rightarrow> real option" where
  "worst_disk E disk =
     (let vs = map (\<lambda>d. py_float E (py_or (dget (as_dict d) ''used_pct'') (PyInt 0)))
            (filter (\<lambda>d. is_dict d \<and> dget (as_dict d) ''used_pct'' \<noteq> PyNone) disk) in
      if vs = [] \<or> None \<in> set vs then None else Some (Max (the ` set vs)))"

definition extract_metrics :: "pyenv \<Rightarrow> dict \<Rightarrow> (string \<times> real) list" where
  "extract_metrics E extra =
     (let mem = dget extra ''memory''; cpu = dget extra ''cpu''; disk = dget extra ''disk'' in
      (if is_dict mem then metric_of E ''memory_pct'' (dget (as_dict mem) ''used_pct'') else []) @
      (if is_dict cpu then metric_of E ''cpu_utilization_pct'' (dget (as_dict cpu) ''utilization_pct'')
       else []) @
      (if is_list disk \<and> as_list disk \<noteq> []
       then (case worst_disk E (as_list disk) of None \<Rightarrow> [] | Some w \<Rightarrow> [(''disk_pct_max'', w)])
       else []))"

definition rule_targets_instance :: "perf_rule \<Rightarrow> string \<Rightarrow> dict \<Rightarrow> bool" where
  "rule_targets_instance rule inst tags =
     (if pr_instance_ids rule \<noteq> [] then inst \<in> set (pr_instance_ids rule)
      else if str_truthy (pr_instance_id rule) then pr_instance_id rule = Some inst
      else if str_truthy (pr_tag_key rule) \<and> pr_tag_value rule \<noteq> None
        then py_eq (dget tags (the (pr_tag_key rule))) (PyStr (the (pr_tag_value rule)))
      else True)"

section \<open>One rule\<close>

definition compare :: "real \<Rightarrow> real \<Rightarrow> string \<Rightarrow> bool" where
  "compare value threshold op =
     (if op = ''gte'' then value \<ge> threshold else if op = ''gt'' then value > threshold
      else if op = ''lte'' then value \<le> threshold else if op = ''lt'' then value < threshold else False)"

text \<open>The buffer after this sample: the window, then the newest 200.\<close>

definition next_samples :: "perf_rule \<Rightarrow> real \<Rightarrow> time \<Rightarrow> string \<Rightarrow> perf_sample list" where
  "next_samples rule value now_ts inst =
     (let new = \<lparr>sm_t = now_ts, sm_b = compare value (pr_threshold rule) (pr_comparison rule),
                 sm_v = value, sm_h = Some inst\<rparr>;
          cutoff = now_ts - real_of_int (max 60 (pr_window_seconds rule));
          samples = filter (\<lambda>s. sm_t s \<ge> cutoff) (pr_samples rule @ [new])
      in drop (length samples - MAX_SAMPLES_PER_RULE) samples)"

definition host_samples :: "string \<Rightarrow> perf_sample list \<Rightarrow> perf_sample list" where
  "host_samples inst samples = filter (\<lambda>s. case sm_h s of None \<Rightarrow> True | Some h \<Rightarrow> h = inst) samples"

definition ratio_met :: "perf_rule \<Rightarrow> perf_sample list \<Rightarrow> bool" where
  "ratio_met rule hs \<longleftrightarrow>
     pr_min_breach_ratio rule \<le> real (length (filter sm_b hs)) / real (length hs)"

definition throttle_over :: "perf_rule \<Rightarrow> time \<Rightarrow> bool" where
  "throttle_over rule now_ts = (case pr_last_fired_at rule of None \<Rightarrow> True
     | Some t \<Rightarrow> now_ts - t \<ge> real_of_int (pr_throttle_seconds rule))"

definition fires :: "perf_rule \<Rightarrow> perf_sample list \<Rightarrow> time \<Rightarrow> bool" where
  "fires rule hs now_ts \<longleftrightarrow>
     MIN_SAMPLES_TO_EVAL \<le> length hs \<and> ratio_met rule hs \<and> throttle_over rule now_ts"

definition evaluate_one ::
  "pyenv \<Rightarrow> string \<Rightarrow> perf_rule \<Rightarrow> real \<Rightarrow> time \<Rightarrow> string \<Rightarrow> db \<Rightarrow> bool \<times> db" where
  "evaluate_one E rid rule value now_ts inst d =
     (let samples = next_samples rule value now_ts inst;
          fire = fires rule (host_samples inst samples) now_ts;
          fired_at = (if fire then Some now_ts else None)
      in (fire, if db_fails E ''update_perf_rule_state'' then d
                else update_perf_rule_state rid samples (Some value) fired_at d))"

section \<open>The alert event\<close>

definition metric_label :: "string \<Rightarrow> string" where
  "metric_label m = (if m = ''memory_pct'' then ''Memory''
     else if m = ''cpu_utilization_pct'' then ''CPU utilization''
     else if m = ''disk_pct_max'' then ''Disk (worst mount)'' else m)"

definition op_symbol :: "string \<Rightarrow> string" where
  "op_symbol op = (if op = ''gte'' then [CHR 0xE2, CHR 0x89, CHR 0xA5] else if op = ''gt'' then ''>''
     else if op = ''lte'' then [CHR 0xE2, CHR 0x89, CHR 0xA4] else if op = ''lt'' then ''<'' else ''?'')"

definition format_threshold :: "pyenv \<Rightarrow> real \<Rightarrow> string" where
  "format_threshold E t = (if t = real_of_int \<lfloor>t\<rfloor> then int_str \<lfloor>t\<rfloor> else fmt_1f E t)"

definition render_message :: "pyenv \<Rightarrow> string option \<Rightarrow> string \<Rightarrow> dict \<Rightarrow> string" where
  "render_message E template fallback ctx =
     (let tpl = str_strip (str_or template '''') in
      if tpl = [] then fallback
      else case jinja_render E tpl ctx of None \<Rightarrow> fallback | Some s \<Rightarrow> s)"

definition minute_floor :: "time \<Rightarrow> time" where
  "minute_floor t = real_of_int (\<lfloor>t / 60\<rfloor> * 60)"

definition make_alert_event ::
  "pyenv \<Rightarrow> time \<Rightarrow> event \<Rightarrow> string \<Rightarrow> string \<Rightarrow> perf_rule \<Rightarrow> real \<Rightarrow> db \<Rightarrow> event" where
  "make_alert_event E now heartbeat inst rid rule value d =
     (let minutes = max 1 (pr_window_seconds rule div 60);
          auto_msg = metric_label (pr_metric rule) @ '' '' @ op_symbol (pr_comparison rule) @ '' '' @
            format_threshold E (pr_threshold rule) @ ''% for '' @ int_str minutes @
            ''m (current: '' @ fmt_1f E value @ ''%)'';
          tags = py_or (dget (ev_extra heartbeat) ''tags'') (PyDict []);
          display = (if db_fails E ''get_host_status'' then None
            else case get_host_status d inst of None \<Rightarrow> None | Some r \<Rightarrow> hr_display_name r);
          resolved = str_or (opt_or display (tgt_name (ev_target heartbeat))) inst;
          fired = ev_time heartbeat; w_end = minute_floor fired;
          w_start = w_end - 60 * real_of_int minutes;
          hm = (\<lambda>t. strf_time E ''%H:%M'' t);
          msg = render_message E (pr_message_template rule) auto_msg
            [(''instance_id'', PyStr inst), (''hostname'', PyStr resolved),
             (''display_name'', opt_val display), (''metric'', PyStr (pr_metric rule)),
             (''metric_label'', PyStr (metric_label (pr_metric rule))),
             (''threshold'', PyFloat (pr_threshold rule)), (''comparison'', PyStr (pr_comparison rule)),
             (''current_value'', PyFloat value), (''window_seconds'', PyInt (pr_window_seconds rule)),
             (''window_minutes'', PyInt minutes), (''rule_name'', PyStr (pr_name rule)),
             (''severity'', PyStr (severity_value (pr_severity rule))),
             (''fired_at'', PyStr (strf_time E ''%Y-%m-%d %H:%M:%S UTC'' fired)),
             (''window_start'', PyStr (strf_time E ''%Y-%m-%d %H:%M UTC'' w_start)),
             (''window_end'', PyStr (strf_time E ''%Y-%m-%d %H:%M UTC'' w_end)),
             (''window_range'', PyStr (hm w_start @ [CHR 0xE2, CHR 0x80, CHR 0x93] @ hm w_end @ '' UTC'')),
             (''event_time'', PyStr (iso_format E fired)), (''tags'', tags)]
      in ensure_fingerprint E ((event_defaults now (ev_source heartbeat))
           \<lparr>ev_time := ev_time heartbeat, ev_category := C_host, ev_action := ''host.perf.alert'',
            ev_outcome := O_failure,
            ev_target := new_target (tgt_id (ev_target heartbeat)) (tgt_type (ev_target heartbeat))
               (Some resolved),
            ev_severity := Some (pr_severity rule),
            ev_extra := [(''instance_id'', PyStr inst), (''rule_id'', PyStr rid),
              (''rule_name'', PyStr (pr_name rule)), (''display_name'', opt_val display),
              (''hostname'', PyStr resolved), (''metric'', PyStr (pr_metric rule)),
              (''metric_label'', PyStr (metric_label (pr_metric rule))),
              (''threshold'', PyFloat (pr_threshold rule)), (''comparison'', PyStr (pr_comparison rule)),
              (''current_value'', PyFloat value), (''window_seconds'', PyInt (pr_window_seconds rule)),
              (''min_breach_ratio'', PyFloat (pr_min_breach_ratio rule)), (''message'', PyStr msg),
              (''tags'', tags)],
            ev_raw := PyDict [(''kind'', PyStr ''perf_alert''), (''metric'', PyStr (pr_metric rule)),
              (''value'', PyFloat value), (''threshold'', PyFloat (pr_threshold rule))]\<rparr>))"

section \<open>All rules of a heartbeat\<close>

definition dispatch_request :: "event \<Rightarrow> string \<Rightarrow> perf_rule \<Rightarrow> direct_dispatch list" where
  "dispatch_request alert rid rule =
     (if pr_channels rule = [] then []
      else [\<lparr>dd_event = alert, dd_channels = pr_channels rule, dd_rule_name = pr_name rule,
             dd_rule_id = rid, dd_throttle = pr_throttle_seconds rule\<rparr>])"

fun evaluate_rules ::
  "pyenv \<Rightarrow> time \<Rightarrow> event \<Rightarrow> string \<Rightarrow> dict \<Rightarrow> (string \<times> real) list \<Rightarrow> (string \<times> perf_rule) list \<Rightarrow>
   db \<Rightarrow> event list \<times> direct_dispatch list \<times> db" where
  "evaluate_rules E now event inst tags metrics [] d = ([], [], d)"
| "evaluate_rules E now event inst tags metrics ((rid, rule) # rules) d =
     (if \<not> rule_targets_instance rule inst tags then evaluate_rules E now event inst tags metrics rules d
      else case map_of metrics (pr_metric rule) of
        None \<Rightarrow> evaluate_rules E now event inst tags metrics rules d
      | Some value \<Rightarrow>
          let (fired, d1) = evaluate_one E rid rule value (ev_time event) inst d;
              (alerts, reqs, d2) = evaluate_rules E now event inst tags metrics rules d1
          in if fired
             then let alert = make_alert_event E now event inst rid rule value d1
                  in (alert # alerts, dispatch_request alert rid rule @ reqs, d2)
             else (alerts, reqs, d2))"

definition perf_evaluate ::
  "pyenv \<Rightarrow> time \<Rightarrow> event \<Rightarrow> db \<Rightarrow> event list \<times> direct_dispatch list \<times> db" where
  "perf_evaluate E now event d =
     (let inst = opt_or (tgt_id (ev_target event)) (as_str (dget (ev_extra event) ''instance_id''));
          tags = as_dict (dget (ev_extra event) ''tags'');
          metrics = extract_metrics E (ev_extra event) in
      if src_module (ev_source event) \<noteq> ''ec2.host'' \<or> ev_action event \<noteq> ''host.service.health''
        then ([], [], d)
      else if \<not> str_truthy inst then ([], [], d)
      else if metrics = [] then ([], [], d)
      else if db_fails E ''list_enabled_perf_rules_for_module'' then ([], [], d)
      else evaluate_rules E now event (the inst) tags metrics
             (list_enabled_perf_rules_for_module ''ec2.host'' d) d)"

section \<open>Lemmas\<close>

lemma length_next_samples: "length (next_samples rule v t i) \<le> MAX_SAMPLES_PER_RULE"
  unfolding next_samples_def Let_def length_drop by linarith

lemma next_samples_window:
  "s \<in> set (next_samples rule v t i) \<Longrightarrow> t - real_of_int (max 60 (pr_window_seconds rule)) \<le> sm_t s"
  unfolding next_samples_def Let_def by (drule in_set_dropD) (simp only: set_filter mem_Collect_eq)

lemma throttle_over_fires: "fires rule hs t \<Longrightarrow> throttle_over rule t"
  by (simp add: fires_def)

text \<open>A rule that is evaluated again and again on its stored row.\<close>

definition rule_after :: "perf_rule \<Rightarrow> real \<Rightarrow> time \<Rightarrow> string \<Rightarrow> perf_rule" where
  "rule_after rule v t i =
     (let samples = next_samples rule v t i in
      rule\<lparr>pr_samples := samples, pr_last_value := Some v,
           pr_last_fired_at := (if fires rule (host_samples i samples) t then Some t
                                else pr_last_fired_at rule)\<rparr>)"

lemma evaluate_one_row:
  assumes "map_of (db_perf_rules d) rid = Some rule" and "\<not> db_fails E ''update_perf_rule_state''"
  shows "map_of (db_perf_rules (snd (evaluate_one E rid rule v t i d))) rid =
    Some (rule_after rule v t i)"
  using assms by (simp add: evaluate_one_def Let_def update_perf_rule_state_def rule_after_def tbl.get_put)

fun tick_run ::
  "pyenv \<Rightarrow> string \<Rightarrow> (real \<times> time \<times> string) list \<Rightarrow> db \<Rightarrow> time list" where
  "tick_run E rid [] d = []"
| "tick_run E rid ((v, t, i) # ticks) d =
     (case map_of (db_perf_rules d) rid of None \<Rightarrow> []
      | Some rule \<Rightarrow> let (fire, d') = evaluate_one E rid rule v t i d in
          (if fire then [t] else []) @ tick_run E rid ticks d')"

lemma tick_run_spaced:
  assumes "map_of (db_perf_rules d) rid = Some rule" and "\<not> db_fails E ''update_perf_rule_state''"
    and "0 \<le> pr_throttle_seconds rule"
  shows "sorted_wrt (\<lambda>a b. real_of_int (pr_throttle_seconds rule) \<le> b - a)
    ((case pr_last_fired_at rule of None \<Rightarrow> [] | Some t \<Rightarrow> [t]) @ tick_run E rid ticks d)"
  using assms(1,3)
proof (induction ticks arbitrary: d rule)
  case Nil
  then show ?case by (simp split: option.splits)
next
  case (Cons tick ticks)
  obtain v t i where tick: "tick = (v, t, i)" by (cases tick)
  obtain fire d' where e: "evaluate_one E rid rule v t i d = (fire, d')" by fastforce
  have row: "map_of (db_perf_rules d') rid = Some (rule_after rule v t i)"
    using evaluate_one_row[OF Cons.prems(1) assms(2), of v t i] e by simp
  have thr: "pr_throttle_seconds (rule_after rule v t i) = pr_throttle_seconds rule"
    by (simp add: rule_after_def Let_def)
  have fire: "fire \<longleftrightarrow> fires rule (host_samples i (next_samples rule v t i)) t"
    using e by (auto simp: evaluate_one_def Let_def)
  note IH = Cons.IH[OF row] thr
  show ?case
  proof (cases fire)
    case True
    have lf: "pr_last_fired_at (rule_after rule v t i) = Some t"
      using True fire by (simp add: rule_after_def Let_def)
    have "throttle_over rule t" using True fire throttle_over_fires by blast
    then show ?thesis
      using IH Cons.prems lf True
      by (force simp: tick e throttle_over_def split: option.splits)
  next
    case False
    have "pr_last_fired_at (rule_after rule v t i) = pr_last_fired_at rule"
      using False fire by (simp add: rule_after_def Let_def)
    then show ?thesis
      using IH Cons.prems False by (simp add: tick e)
  qed
qed

section \<open>Properties\<close>

text \<open>The throttle holds: however a rule is ticked, by whichever hosts and values, two of its
  alerts are at least its throttle apart, counting the alert the stored row remembers.\<close>

theorem perf_throttle_holds:
  assumes "map_of (db_perf_rules d) rid = Some rule" and "\<not> db_fails E ''update_perf_rule_state''"
    and "0 \<le> pr_throttle_seconds rule"
  shows "sorted_wrt (\<lambda>a b. real_of_int (pr_throttle_seconds rule) \<le> b - a)
    ((case pr_last_fired_at rule of None \<Rightarrow> [] | Some t \<Rightarrow> [t]) @ tick_run E rid ticks d)"
  using tick_run_spaced[OF assms] .

definition demo_perf_rule :: perf_rule where
  "demo_perf_rule = \<lparr>pr_name = ''mem'', pr_enabled = True, pr_module = ''ec2.host'',
     pr_instance_id = None, pr_tag_key = None, pr_tag_value = None, pr_metric = ''memory_pct'',
     pr_comparison = ''gte'', pr_threshold = 80, pr_window_seconds = 300, pr_min_breach_ratio = 0.6,
     pr_severity = S_high, pr_channels = [], pr_throttle_seconds = 600, pr_samples = [],
     pr_last_fired_at = Some 1000, pr_last_value = None, pr_message_template = None,
     pr_instance_ids = []\<rparr>"

definition demo_perf_db :: db where
  "demo_perf_db = empty_db\<lparr>db_perf_rules := [(''r'', demo_perf_rule)]\<rparr>"

lemma demo_perf_row: "map_of (db_perf_rules demo_perf_db) ''r'' = Some demo_perf_rule"
  by (simp add: demo_perf_db_def)

lemma perf_throttle_holds_witness:
  "sorted_wrt (\<lambda>a b. 600 \<le> b - a)
     (1000 # tick_run demo_env ''r'' [(90, 1060, ''a''), (90, 1120, ''a''), (95, 1610, ''a'')] demo_perf_db)"
  using perf_throttle_holds [OF demo_perf_row, of demo_env
      "[(90, 1060, ''a''), (90, 1120, ''a''), (95, 1610, ''a'')]"]
  by (simp add: demo_perf_rule_def)

text \<open>The sample buffer of an evaluated rule is bounded: at most 200 samples, all of them inside
  the window, and it ends with the new sample.\<close>

theorem perf_buffer_bounded:
  "let samples = next_samples rule v t i in
    length samples \<le> 200 \<and>
    (\<forall>s \<in> set samples. t - real_of_int (max 60 (pr_window_seconds rule)) \<le> sm_t s) \<and>
    samples \<noteq> [] \<and> sm_t (last samples) = t \<and> sm_h (last samples) = Some i"
proof -
  let ?new = "\<lparr>sm_t = t, sm_b = compare v (pr_threshold rule) (pr_comparison rule), sm_v = v,
    sm_h = Some i\<rparr>"
  let ?old = "filter (\<lambda>s. t - real_of_int (max 60 (pr_window_seconds rule)) \<le> sm_t s) (pr_samples rule)"
  have eq: "next_samples rule v t i = drop (length (?old @ [?new]) - MAX_SAMPLES_PER_RULE) (?old @ [?new])"
    by (simp add: next_samples_def Let_def)
  have "length (?old @ [?new]) - MAX_SAMPLES_PER_RULE < length (?old @ [?new])"
    by (simp add: MAX_SAMPLES_PER_RULE_def)
  then have "next_samples rule v t i \<noteq> []" "last (next_samples rule v t i) = ?new"
    unfolding eq by (simp_all add: last_drop del: drop_append)
  moreover have "length (next_samples rule v t i) \<le> 200"
    using length_next_samples[of rule v t i] by (simp add: MAX_SAMPLES_PER_RULE_def)
  ultimately show ?thesis
    using next_samples_window[of _ rule v t i] by (auto simp: Let_def)
qed

lemma perf_buffer_bounded_witness:
  "filter (\<lambda>s. sm_t s < 760) (next_samples demo_perf_rule 90 1060 ''a'') = []"
  using perf_buffer_bounded [of demo_perf_rule 90 1060 "''a''"]
  by (force simp: Let_def demo_perf_rule_def filter_empty_conv)

text \<open>The cap starves a large fleet: when the newest 199 samples of the stored buffer all come
  from other hosts, the rule cannot fire for this host, whatever value it reports.\<close>

theorem perf_fleet_starved:
  assumes "199 \<le> length (filter (\<lambda>s. t - real_of_int (max 60 (pr_window_seconds rule)) \<le> sm_t s)
      (pr_samples rule))"
    and "\<forall>s \<in> set (drop (length (filter (\<lambda>s. t - real_of_int (max 60 (pr_window_seconds rule)) \<le> sm_t s)
        (pr_samples rule)) - 199)
      (filter (\<lambda>s. t - real_of_int (max 60 (pr_window_seconds rule)) \<le> sm_t s) (pr_samples rule))).
      sm_h s \<noteq> None \<and> sm_h s \<noteq> Some i"
  shows "\<not> fst (evaluate_one E rid rule v t i d)"
proof -
  let ?new = "\<lparr>sm_t = t, sm_b = compare v (pr_threshold rule) (pr_comparison rule), sm_v = v,
    sm_h = Some i\<rparr>"
  let ?old = "filter (\<lambda>s. t - real_of_int (max 60 (pr_window_seconds rule)) \<le> sm_t s) (pr_samples rule)"
  have "next_samples rule v t i = drop (length ?old - 199) ?old @ [?new]"
    using assms(1) by (simp add: next_samples_def Let_def MAX_SAMPLES_PER_RULE_def)
  moreover have "host_samples i (drop (length ?old - 199) ?old) = []"
    using assms(2) by (auto simp: host_samples_def filter_empty_conv split: option.splits)
  ultimately have "length (host_samples i (next_samples rule v t i)) = 1"
    by (simp add: host_samples_def)
  then show ?thesis
    by (simp add: evaluate_one_def Let_def fires_def MIN_SAMPLES_TO_EVAL_def)
qed

lemma perf_fleet_starved_witness:
  "\<not> fst (evaluate_one demo_env ''r''
     (demo_perf_rule\<lparr>pr_samples := replicate 199 \<lparr>sm_t = 1000, sm_b = True, sm_v = 99, sm_h = Some ''b''\<rparr>\<rparr>)
     99 1060 ''a'' empty_db)"
  by (rule perf_fleet_starved) (simp_all add: demo_perf_rule_def)

end
