(* ===== verification/Edges.thy ===== *)
theory Edges
  imports Prelude
begin

text \<open>
  The interface of edge-triggered alerts: a state machine with an on/off flag that emits \<open>up\<close> when
  the flag rises, \<open>down\<close> when it falls, and neither otherwise. Over any run the two then alternate,
  and the flag at the end is the parity of their number.
\<close>

fun alternates :: "'a \<Rightarrow> 'a \<Rightarrow> bool \<Rightarrow> 'a list \<Rightarrow> bool" where
  "alternates up down on [] = True"
| "alternates up down on (a # as) =
     (a = (if on then down else up) \<and> alternates up down (\<not> on) as)"

lemma alternates_append:
  "alternates up down on (as @ bs) \<longleftrightarrow>
     alternates up down on as \<and> alternates up down (on \<noteq> odd (length as)) bs"
  by (induction "as" arbitrary: on) auto

text \<open>In an alternating sequence no two neighbours agree.\<close>

lemma alternates_neighbours:
  "alternates up down on as \<Longrightarrow> up \<noteq> down \<Longrightarrow> Suc i < length as \<Longrightarrow> as ! i \<noteq> as ! Suc i"
proof (induction "as" arbitrary: on i)
  case Nil
  then show ?case by simp
next
  case (Cons a as)
  then show ?case by (cases "as"; cases i) (auto split: if_splits)
qed

locale edge_alerts =
  fixes step :: "'i \<Rightarrow> 's \<Rightarrow> 's \<times> 'a list"
    and on :: "'s \<Rightarrow> bool"
    and up :: 'a
    and down :: 'a
  assumes edge: "filter (\<lambda>a. a = up \<or> a = down) (snd (step i s)) =
    (if on (fst (step i s)) = on s then [] else if on s then [down] else [up])"
begin

fun final :: "'i list \<Rightarrow> 's \<Rightarrow> 's" where
  "final [] s = s"
| "final (i # is) s = final is (fst (step i s))"

fun trace :: "'i list \<Rightarrow> 's \<Rightarrow> 'a list" where
  "trace [] s = []"
| "trace (i # is) s = snd (step i s) @ trace is (fst (step i s))"

abbreviation edges :: "'a list \<Rightarrow> 'a list" where
  "edges as \<equiv> filter (\<lambda>a. a = up \<or> a = down) as"

lemma trace_alternates: "alternates up down (on s) (edges (trace is s))"
proof (induction "is" arbitrary: s)
  case Nil
  then show ?case by simp
next
  case (Cons i "is")
  show ?case
    using Cons.IH[of "fst (step i s)"]
    by (cases "on s"; cases "on (fst (step i s))") (simp_all add: edge alternates_append)
qed

lemma final_on: "on (final is s) \<longleftrightarrow> (on s \<noteq> odd (length (edges (trace is s))))"
proof (induction "is" arbitrary: s)
  case Nil
  then show ?case by simp
next
  case (Cons i "is")
  show ?case
    using Cons.IH[of "fst (step i s)"]
    by (cases "on s"; cases "on (fst (step i s))") (simp_all add: edge)
qed

end

end
