(* ===== verification/HostProjection.thy ===== *)
theory HostProjection
  imports HostDiff PerfAlerts Edges
begin

text \<open>
  Host projection (\<open>src/blackwatch/hosts/projection.py\<close>): heartbeats with the memory, CPU, package
  database and collector state machines over a running CPU baseline, snapshots with their
  difference and the first-seen processes, and the file integrity tables. The keys
  \<open>_baseline_cpu\<close> and \<open>_state\<close> of the stored extra are the columns \<open>hr_baseline\<close> and
  \<open>hr_state\<close> of the row.
\<close>

section \<open>Derived events\<close>

definition HOST_MODULE :: string where "HOST_MODULE = ''ec2.host''"

definition host_derived :: "pyenv \<Rightarrow> time \<Rightarrow> event \<Rightarrow> string \<Rightarrow> db \<Rightarrow> string \<Rightarrow> dict \<Rightarrow> event" where
  "host_derived E now parent inst d action extra =
     (let display = (if db_fails E ''get_host_status'' then None
            else case get_host_status d inst of None \<Rightarrow> None | Some r \<Rightarrow> hr_display_name r);
          resolved = str_or (opt_or display (tgt_name (ev_target parent))) inst
      in ensure_fingerprint E ((event_defaults now
           \<lparr>src_module = HOST_MODULE, src_vendor = Some ''aws'',
            src_account = src_account (ev_source parent), src_region = src_region (ev_source parent),
            src_transport = T_queue\<rparr>)
         \<lparr>ev_time := now, ev_category := C_host, ev_action := action,
          ev_outcome := (if list_ex (\<lambda>s. suffix s action) [''recovered'', ''first_seen'', ''normal'']
                         then O_success else O_failure),
          ev_target := new_target (Some inst) (Some ''ec2.instance'') (Some resolved),
          ev_extra := dmerge [(''instance_id'', PyStr inst), (''display_name'', opt_val display),
             (''hostname'', opt_val (tgt_name (ev_target parent)))] extra,
          ev_raw := PyDict [(''derived'', PyStr ''host-state-diff''), (''instance_id'', PyStr inst)]\<rparr>))"

section \<open>CPU baseline\<close>

definition BASELINE_MIN_SAMPLES :: int where "BASELINE_MIN_SAMPLES = 60"
definition ANOMALY_SIGMAS :: real where "ANOMALY_SIGMAS = 3"
definition ANOMALY_MIN_LOAD :: real where "ANOMALY_MIN_LOAD = 1 / 2"
definition ANOMALY_CONSECUTIVE :: int where "ANOMALY_CONSECUTIVE = 10"
definition NORMAL_CONSECUTIVE :: int where "NORMAL_CONSECUTIVE = 5"
definition MEM_EXHAUSTED_PCT :: real where "MEM_EXHAUSTED_PCT = 95"
definition MEM_RECOVERED_PCT :: real where "MEM_RECOVERED_PCT = 90"

definition empty_baseline :: cpu_baseline where
  "empty_baseline = \<lparr>bl_n = 0, bl_mean = 0, bl_M2 = 0\<rparr>"

definition welford :: "cpu_baseline \<Rightarrow> real \<Rightarrow> cpu_baseline" where
  "welford b x =
     (let n = bl_n b + 1; delta = x - bl_mean b; mean = bl_mean b + delta / real_of_int n;
          delta2 = x - mean
      in \<lparr>bl_n = n, bl_mean = mean, bl_M2 = bl_M2 b + delta * delta2\<rparr>)"

text \<open>\<open>isinstance(x, (int, float))\<close>, with the value; a bool is an int.\<close>

definition load_norm :: "pyval \<Rightarrow> real option" where
  "load_norm cpu = num_of (dget (as_dict cpu) ''load_norm_1min'')"

definition update_cpu_baseline :: "cpu_baseline option \<Rightarrow> pyval \<Rightarrow> cpu_baseline" where
  "update_cpu_baseline prev cpu =
     (let st = (case prev of None \<Rightarrow> empty_baseline | Some b \<Rightarrow> b) in
      case load_norm cpu of None \<Rightarrow> st | Some x \<Rightarrow> welford st x)"

definition is_cpu_anomalous :: "cpu_baseline \<Rightarrow> pyval \<Rightarrow> bool" where
  "is_cpu_anomalous b cpu =
     (if bl_n b < BASELINE_MIN_SAMPLES then False
      else case load_norm cpu of None \<Rightarrow> False
        | Some x \<Rightarrow> if x < ANOMALY_MIN_LOAD then False
            else x > bl_mean b + ANOMALY_SIGMAS * sqrt (bl_M2 b / real_of_int (max 1 (bl_n b - 1))))"

definition baseline_stdev :: "cpu_baseline \<Rightarrow> real" where
  "baseline_stdev b = (if bl_n b < 2 then 0 else sqrt (bl_M2 b / real_of_int (bl_n b - 1)))"

section \<open>State transitions\<close>

definition initial_host_state :: host_state where
  "initial_host_state = \<lparr>memory_exhausted = False, cpu_anomaly_active = False,
     consecutive_cpu_anomaly = 0, consecutive_cpu_normal = 0, rpm_db_corrupted_active = False,
     stalled_collectors = []\<rparr>"

definition memory_step :: "dict \<Rightarrow> host_state \<Rightarrow> host_state \<times> (string \<times> dict) list" where
  "memory_step e st =
     (let mem = as_dict (py_or (dget e ''memory'') (PyDict [])); used = dget mem ''used_pct'' in
      case num_of used of None \<Rightarrow> (st, [])
      | Some pct \<Rightarrow>
          if \<not> memory_exhausted st \<and> pct \<ge> MEM_EXHAUSTED_PCT
          then (st\<lparr>memory_exhausted := True\<rparr>,
                [(''host.memory.exhausted'', [(''used_pct'', used),
                   (''available_kb'', dget mem ''available_kb''), (''total_kb'', dget mem ''total_kb'')])])
          else if memory_exhausted st \<and> pct < MEM_RECOVERED_PCT
          then (st\<lparr>memory_exhausted := False\<rparr>,
                [(''host.memory.recovered'', [(''used_pct'', used),
                   (''available_kb'', dget mem ''available_kb'')])])
          else (st, []))"

definition cpu_step ::
  "pyenv \<Rightarrow> dict \<Rightarrow> cpu_baseline \<Rightarrow> host_state \<Rightarrow> host_state \<times> (string \<times> dict) list" where
  "cpu_step E e b st =
     (let cpu = py_or (dget e ''cpu'') (PyDict []) in
      if \<not> is_dict cpu \<or> dget (as_dict cpu) ''load_norm_1min'' = PyNone then (st, [])
      else
        let anom = is_cpu_anomalous b cpu;
            ca = (if anom then consecutive_cpu_anomaly st + 1 else 0);
            cn = (if anom then 0 else consecutive_cpu_normal st + 1);
            st' = st\<lparr>consecutive_cpu_anomaly := ca, consecutive_cpu_normal := cn\<rparr>
        in if \<not> cpu_anomaly_active st \<and> ca \<ge> ANOMALY_CONSECUTIVE
           then (st'\<lparr>cpu_anomaly_active := True\<rparr>,
                 [(''host.cpu.anomaly'', [(''load_norm_1min'', dget (as_dict cpu) ''load_norm_1min''),
                    (''load_1min'', dget (as_dict cpu) ''load_1min''),
                    (''cpu_count'', dget (as_dict cpu) ''cpu_count''),
                    (''baseline_mean'', PyFloat (py_round E (bl_mean b) 3)),
                    (''baseline_stdev'', PyFloat (py_round E (baseline_stdev b) 3)),
                    (''baseline_n'', PyInt (bl_n b))])])
           else if cpu_anomaly_active st \<and> cn \<ge> NORMAL_CONSECUTIVE
           then (st'\<lparr>cpu_anomaly_active := False\<rparr>,
                 [(''host.cpu.normal'', [(''load_norm_1min'', dget (as_dict cpu) ''load_norm_1min'')])])
           else (st', []))"

definition rpm_step :: "dict \<Rightarrow> host_state \<Rightarrow> host_state \<times> (string \<times> dict) list" where
  "rpm_step e st =
     (let rpm = dget e ''rpm_db_corrupted'' in
      if truthy rpm \<and> \<not> rpm_db_corrupted_active st
      then (st\<lparr>rpm_db_corrupted_active := True\<rparr>,
            [(''host.package_db.corrupted'',
               [(''lock_files'', dget_or (as_dict rpm) ''lock_files'' (PyList [])),
                (''lock_count'', dget_or (as_dict rpm) ''lock_count'' (PyInt 0))])])
      else if \<not> truthy rpm \<and> rpm_db_corrupted_active st
      then (st\<lparr>rpm_db_corrupted_active := False\<rparr>, [(''host.package_db.recovered'', [])])
      else (st, []))"

definition stall_step :: "dict \<Rightarrow> host_state \<Rightarrow> host_state \<times> (string \<times> dict) list" where
  "stall_step e st =
     (let stalled_now = strs_of (dget e ''stalled_collectors''); prev = stalled_collectors st in
      (st\<lparr>stalled_collectors := sorted_set stalled_now\<rparr>,
       map (\<lambda>n. (''host.collector.stalled'', [(''collector'', PyStr n)])) (sort (set_minus stalled_now prev)) @
       map (\<lambda>n. (''host.collector.recovered'', [(''collector'', PyStr n)])) (sort (set_minus prev stalled_now))))"

text \<open>The four machines read and write disjoint parts of the state, one after the other.\<close>

definition compute_state_transitions ::
  "pyenv \<Rightarrow> host_state option \<Rightarrow> dict \<Rightarrow> cpu_baseline \<Rightarrow> host_state \<times> (string \<times> dict) list" where
  "compute_state_transitions E prev e b =
     (let s0 = (case prev of None \<Rightarrow> initial_host_state | Some s \<Rightarrow> s);
          (s1, o1) = memory_step e s0; (s2, o2) = cpu_step E e b s1;
          (s3, o3) = rpm_step e s2; (s4, o4) = stall_step e s3
      in (s4, o1 @ o2 @ o3 @ o4))"

section \<open>Heartbeats\<close>

definition host_transition :: "bool option \<Rightarrow> string option" where
  "host_transition prev_active = (case prev_active of None \<Rightarrow> Some ''host.first_seen''
     | Some False \<Rightarrow> Some ''host.agent.recovered'' | Some True \<Rightarrow> None)"

definition opt_bool_val :: "bool option \<Rightarrow> pyval" where
  "opt_bool_val b = (case b of None \<Rightarrow> PyNone | Some x \<Rightarrow> PyBool x)"

definition host_heartbeat ::
  "pyenv \<Rightarrow> time \<Rightarrow> event \<Rightarrow> string \<Rightarrow> db \<Rightarrow> event list \<times> direct_dispatch list \<times> db" where
  "host_heartbeat E now event inst d =
     (let prev = get_host_status d inst;
          prev_active = (case prev of None \<Rightarrow> None | Some r \<Rightarrow> hr_active r);
          when = ev_time event; e = ev_extra event;
          baseline = update_cpu_baseline (case prev of None \<Rightarrow> None | Some r \<Rightarrow> hr_baseline r)
            (dget e ''cpu'');
          (st, transitions) = compute_state_transitions E
            (case prev of None \<Rightarrow> None | Some r \<Rightarrow> hr_state r) e baseline;
          d1 = upsert_host_status inst
            (opt_or (as_str (dget e ''hostname'')) (tgt_name (ev_target event)))
            (src_account (ev_source event)) (src_region (ev_source event)) when True e baseline st d;
          liveness = (case host_transition prev_active of None \<Rightarrow> []
            | Some a \<Rightarrow> [host_derived E now event inst d1 a [(''prev_active'', opt_bool_val prev_active)]]);
          changes = map (\<lambda>(a, x). host_derived E now event inst d1 a x) transitions;
          (alerts, reqs, d2) = perf_evaluate E now event d1;
          metrics = extract_metrics E e;
          d3 = (if db_fails E ''upsert_host_metric_sample'' then d2
                else upsert_host_metric_sample now inst when (map_of metrics ''memory_pct'')
                       (map_of metrics ''cpu_utilization_pct'') d2)
      in (liveness @ changes @ alerts, reqs, d3))"

section \<open>Snapshots\<close>

definition process_comms :: "dict \<Rightarrow> string list" where
  "process_comms current =
     filter (\<lambda>c. c \<noteq> []) (List.map_filter (\<lambda>p. as_str (dget p ''comm'')) (dicts_of (dget current ''processes'')))"

definition host_snapshot :: "pyenv \<Rightarrow> time \<Rightarrow> event \<Rightarrow> string \<Rightarrow> db \<Rightarrow> event list \<times> db" where
  "host_snapshot E now event inst d =
     (let current = as_dict (dget (ev_extra event) ''snapshots'');
          previous = get_host_snapshots d inst;
          prev_dict = (case previous of None \<Rightarrow> [] | Some p \<Rightarrow> p);
          prev_seen = strs_of (dget prev_dict ''seen_process_comms'');
          comms = process_comms current;
          first_seen = (if previous \<noteq> None \<and> has_key prev_dict ''seen_process_comms'' \<and> comms \<noteq> []
            then sort (set_minus comms prev_seen) else []);
          current' = (if comms \<noteq> [] \<or> prev_seen \<noteq> []
            then AList.update ''seen_process_comms''
                   (PyList (map PyStr (sorted_set (prev_seen @ comms)))) current
            else current);
          d' = set_host_snapshots inst current' (ev_time event) d
      in if previous = None then ([], d')
         else (map (\<lambda>(a, x). host_derived E now event inst d' a x) (diff_snapshots prev_dict current') @
               map (\<lambda>c. host_derived E now event inst d' ''host.process.first_seen'' [(''comm'', PyStr c)])
                 first_seen, d'))"

section \<open>File integrity\<close>

definition fim_change_actions :: "string list" where
  "fim_change_actions = [''host.fim.created'', ''host.fim.modified'', ''host.fim.deleted'',
     ''host.fim.perm_changed'', ''host.fim.owner_changed'']"

definition safe_str :: "pyenv \<Rightarrow> pyval \<Rightarrow> string option" where
  "safe_str E v = (if v = PyNone then None else Some (take 512 (py_str E v)))"

definition parse_owner :: "pyval \<Rightarrow> int \<times> int" where
  "parse_owner v = (case v of PyStr s \<Rightarrow> (case split_once (CHR '':'') s of None \<Rightarrow> (-1, -1)
       | Some (u, g) \<Rightarrow> (case (parse_int u, parse_int g) of (Some a, Some b) \<Rightarrow> (a, b) | _ \<Rightarrow> (-1, -1)))
     | _ \<Rightarrow> (-1, -1))"

definition project_fim_change :: "pyenv \<Rightarrow> event \<Rightarrow> string \<Rightarrow> db \<Rightarrow> db" where
  "project_fim_change E event inst d =
     (let e = ev_extra event; when = ev_time event;
          change_type = dget_or e ''change_type'' (PyStr ''modified'');
          actor = as_dict (dget e ''actor'') in
      case as_str (dget e ''path'') of None \<Rightarrow> d | Some path \<Rightarrow>
      if path = [] then d
      else
        let d1 = insert_fim_history inst
              \<lparr>fh_path = path, fh_changed_at = when, fh_change_type = change_type,
               fh_sha256 = (dget e ''sha256_before'', dget e ''sha256_after''),
               fh_size = (py_int (dget e ''size_before''), py_int (dget e ''size_after'')),
               fh_perm = (py_int (dget e ''perm_before''), py_int (dget e ''perm_after'')),
               fh_owner = (dget e ''owner_before'', dget e ''owner_after''),
               fh_event_id = ev_id event, fh_detection = dget e ''detection'',
               fh_actor_ids = (py_int (dget actor ''uid''), py_int (dget actor ''gid''), py_int (dget actor ''pid'')),
               fh_actor_strs = (safe_str E (dget actor ''comm''), safe_str E (dget actor ''exe''),
                 safe_str E (dget actor ''proctitle''))\<rparr> d
        in if py_eq change_type (PyStr ''deleted'') then delete_fim_baseline inst path d1
           else case (py_int (dget e ''perm_after''), py_int (dget e ''size_after'')) of
             (Some perm, Some sz) \<Rightarrow>
               if \<not> truthy (dget e ''sha256_after'') then d1
               else let (uid, gid) = parse_owner (py_or (dget e ''owner_after'') (PyStr [])) in
                 upsert_fim_baseline inst path
                   \<lparr>fb_sha256 = dget e ''sha256_after'', fb_size = sz, fb_perm = perm,
                    fb_owner_uid = uid, fb_owner_gid = gid, fb_mtime = when, fb_last_seen_at = when,
                    fb_established_at = when\<rparr> d1
           | _ \<Rightarrow> d1)"

definition int_or_0 :: "pyval \<Rightarrow> int" where
  "int_or_0 v = (case py_int v of None \<Rightarrow> 0 | Some n \<Rightarrow> n)"

definition opt_dict :: "pyval \<Rightarrow> dict option" where
  "opt_dict v = (case v of PyDict d \<Rightarrow> Some d | _ \<Rightarrow> None)"

definition fim_coverage_report :: "pyenv \<Rightarrow> event \<Rightarrow> string \<Rightarrow> db \<Rightarrow> db" where
  "fim_coverage_report E event inst d =
     (let e = ev_extra event in
      upsert_fim_coverage inst
        \<lparr>fc_paths_configured = int_or_0 (dget e ''paths_configured''),
         fc_files_tracked = int_or_0 (dget e ''files_tracked''),
         fc_last_full_scan_at = (case dget e ''last_full_scan_at'' of PyStr s \<Rightarrow> iso_parse_z E s | _ \<Rightarrow> None),
         fc_last_scan_duration_ms = py_int (dget e ''last_scan_duration_ms''),
         fc_scan_errors = int_or_0 (dget e ''scan_errors''), fc_updated_at = ev_time event,
         fc_paths_inotify = int_or_0 (dget e ''paths_inotify''),
         fc_paths_baseline_only = int_or_0 (dget e ''paths_baseline_only''),
         fc_inotify_active = truthy (dget e ''inotify_active''),
         fc_inotify_watch_count = int_or_0 (dget e ''inotify_watch_count''),
         fc_auditd_active = truthy (dget e ''auditd_active''),
         fc_configured_paths = opt_dict (dget e ''configured_paths''),
         fc_path_stats = opt_dict (dget e ''path_stats'')\<rparr> d)"

section \<open>The projection\<close>

definition host_project ::
  "pyenv \<Rightarrow> time \<Rightarrow> event \<Rightarrow> db \<Rightarrow> event list \<times> direct_dispatch list \<times> db" where
  "host_project E now event d =
     (let inst = opt_or (tgt_id (ev_target event)) (as_str (dget (ev_extra event) ''instance_id'')) in
      if src_module (ev_source event) \<noteq> HOST_MODULE then ([], [], d)
      else if \<not> str_truthy inst then ([], [], d)
      else if ev_action event = ''host.service.health'' then host_heartbeat E now event (the inst) d
      else if ev_action event = ''host.state.snapshot''
        then (let (out, d') = host_snapshot E now event (the inst) d in (out, [], d'))
      else if ev_action event \<in> set fim_change_actions then ([], [], project_fim_change E event (the inst) d)
      else if ev_action event = ''host.fim.coverage'' then ([], [], fim_coverage_report E event (the inst) d)
      else ([], [], d))"

section \<open>The machines over a run of heartbeats\<close>

text \<open>One heartbeat on the projection-owned part of a row, with the actions it derives.\<close>

definition host_step ::
  "pyenv \<Rightarrow> dict \<Rightarrow> cpu_baseline \<times> host_state \<Rightarrow> (cpu_baseline \<times> host_state) \<times> string list" where
  "host_step E e s =
     (let b = update_cpu_baseline (Some (fst s)) (dget e ''cpu'');
          (st, out) = compute_state_transitions E (Some (snd s)) e b
      in ((b, st), map fst out))"

lemma memory_step_frame [frame_simps]:
  "cpu_anomaly_active (fst (memory_step e s)) = cpu_anomaly_active s"
  "consecutive_cpu_anomaly (fst (memory_step e s)) = consecutive_cpu_anomaly s"
  "rpm_db_corrupted_active (fst (memory_step e s)) = rpm_db_corrupted_active s"
  "stalled_collectors (fst (memory_step e s)) = stalled_collectors s"
  by (simp_all add: memory_step_def Let_def split: option.splits)

lemma cpu_step_frame [frame_simps]:
  "memory_exhausted (fst (cpu_step E e b s)) = memory_exhausted s"
  "rpm_db_corrupted_active (fst (cpu_step E e b s)) = rpm_db_corrupted_active s"
  by (simp_all add: cpu_step_def Let_def)

lemma rpm_step_frame [frame_simps]:
  "memory_exhausted (fst (rpm_step e s)) = memory_exhausted s"
  "cpu_anomaly_active (fst (rpm_step e s)) = cpu_anomaly_active s"
  "consecutive_cpu_anomaly (fst (rpm_step e s)) = consecutive_cpu_anomaly s"
  by (simp_all add: rpm_step_def Let_def)

lemma stall_step_frame [frame_simps]:
  "memory_exhausted (fst (stall_step e s)) = memory_exhausted s"
  "cpu_anomaly_active (fst (stall_step e s)) = cpu_anomaly_active s"
  "consecutive_cpu_anomaly (fst (stall_step e s)) = consecutive_cpu_anomaly s"
  "rpm_db_corrupted_active (fst (stall_step e s)) = rpm_db_corrupted_active s"
  by (simp_all add: stall_step_def Let_def)

lemma memory_step_actions:
  "map fst (snd (memory_step e s)) =
     (if memory_exhausted (fst (memory_step e s)) = memory_exhausted s then []
      else if memory_exhausted s then [''host.memory.recovered''] else [''host.memory.exhausted''])"
  by (auto simp: memory_step_def Let_def split: option.splits)

lemma cpu_step_actions:
  "map fst (snd (cpu_step E e b s)) =
     (if cpu_anomaly_active (fst (cpu_step E e b s)) = cpu_anomaly_active s then []
      else if cpu_anomaly_active s then [''host.cpu.normal''] else [''host.cpu.anomaly''])"
  by (auto simp: cpu_step_def Let_def)

lemma rpm_step_actions:
  "map fst (snd (rpm_step e s)) =
     (if rpm_db_corrupted_active (fst (rpm_step e s)) = rpm_db_corrupted_active s then []
      else if rpm_db_corrupted_active s then [''host.package_db.recovered'']
      else [''host.package_db.corrupted''])"
  by (auto simp: rpm_step_def Let_def)

lemma stall_step_actions:
  "a \<in> set (map fst (snd (stall_step e s))) \<Longrightarrow> a \<in> {''host.collector.stalled'', ''host.collector.recovered''}"
  by (auto simp: stall_step_def Let_def)

lemma stall_step_none:
  "up \<notin> {''host.collector.stalled'', ''host.collector.recovered''} \<Longrightarrow>
   down \<notin> {''host.collector.stalled'', ''host.collector.recovered''} \<Longrightarrow>
   filter (\<lambda>a. a = up \<or> a = down) (map fst (snd (stall_step e s))) = []"
  using stall_step_actions[of _ e s] by (fastforce simp: filter_empty_conv)

lemmas host_step_defs = host_step_def compute_state_transitions_def Let_def case_prod_beta

interpretation memory_edges: edge_alerts "host_step E" "\<lambda>s. memory_exhausted (snd s)"
    "''host.memory.exhausted''" "''host.memory.recovered''"
  by unfold_locales
    (simp add: host_step_defs memory_step_actions cpu_step_actions rpm_step_actions stall_step_none
      frame_simps)

interpretation cpu_edges: edge_alerts "host_step E" "\<lambda>s. cpu_anomaly_active (snd s)"
    "''host.cpu.anomaly''" "''host.cpu.normal''"
  by unfold_locales
    (simp add: host_step_defs memory_step_actions cpu_step_actions rpm_step_actions stall_step_none
      frame_simps)

interpretation rpm_edges: edge_alerts "host_step E" "\<lambda>s. rpm_db_corrupted_active (snd s)"
    "''host.package_db.corrupted''" "''host.package_db.recovered''"
  by unfold_locales
    (simp add: host_step_defs memory_step_actions cpu_step_actions rpm_step_actions stall_step_none
      frame_simps)

section \<open>The baseline against the textbook definitions\<close>

definition mean :: "real list \<Rightarrow> real" where
  "mean xs = sum_list xs / real (length xs)"

definition sq_dev :: "real list \<Rightarrow> real" where
  "sq_dev xs = (\<Sum>x\<leftarrow>xs. (x - mean xs)\<^sup>2)"

lemma sum_sq_shift:
  "(\<Sum>x\<leftarrow>xs. (x - c)\<^sup>2) = (\<Sum>x\<leftarrow>xs. x\<^sup>2) - 2 * c * sum_list xs + real (length xs) * c\<^sup>2"
  by (induction xs) (simp_all add: power2_eq_square algebra_simps)

lemma mean_mult: "xs \<noteq> [] \<Longrightarrow> real (length xs) * mean xs = sum_list xs"
  by (simp add: mean_def)

lemma sq_dev_alt: "xs \<noteq> [] \<Longrightarrow> sq_dev xs = (\<Sum>x\<leftarrow>xs. x\<^sup>2) - mean xs * sum_list xs"
proof -
  assume "xs \<noteq> []"
  then have "real (length xs) * (mean xs)\<^sup>2 = mean xs * sum_list xs"
    using mean_mult[of xs] by (simp add: power2_eq_square)
  then show ?thesis by (simp add: sq_dev_def sum_sq_shift)
qed

lemma mean_snoc:
  assumes "xs \<noteq> []"
  shows "mean (xs @ [x]) = mean xs + (x - mean xs) / (real (length xs) + 1)"
proof -
  have "(real (length xs) + 1) * mean (xs @ [x]) = sum_list xs + x"
    using mean_mult[of "xs @ [x]"] by (simp add: add.commute)
  also have "\<dots> = real (length xs) * mean xs + x" using mean_mult[OF assms] by simp
  finally have "(real (length xs) + 1) * mean (xs @ [x]) = real (length xs) * mean xs + x" .
  then show ?thesis by (simp add: field_simps)
qed

lemma sq_dev_snoc:
  assumes "xs \<noteq> []"
  shows "sq_dev (xs @ [x]) = sq_dev xs + (x - mean xs) * (x - mean (xs @ [x]))"
proof -
  let ?S = "sum_list xs" and ?m = "mean xs" and ?m' = "mean (xs @ [x])"
  have a: "real (length xs) * ?m = ?S" by (rule mean_mult[OF assms])
  have b: "(real (length xs) + 1) * ?m' = ?S + x"
    using mean_mult[of "xs @ [x]"] by (simp add: add.commute)
  have "?m * ?S - ?m * ?m' = ?m * (real (length xs) * ?m' - x)"
  proof -
    have c: "real (length xs) * ?m' - x = ?S - ?m'" using b by (simp add: algebra_simps)
    show ?thesis unfolding c by (simp add: right_diff_distrib)
  qed
  also have "\<dots> = ?S * ?m' - ?m * x"
    using a by (metis (no_types, lifting) mult.commute mult.left_commute right_diff_distrib)
  finally have key: "?m * ?S - ?m * ?m' = ?S * ?m' - ?m * x" .
  have "sq_dev (xs @ [x]) = (\<Sum>y\<leftarrow>xs. y\<^sup>2) + x\<^sup>2 - ?m' * (?S + x)"
    by (simp add: sq_dev_alt)
  also have "\<dots> = sq_dev xs + (x - ?m) * (x - ?m')"
    using key by (simp add: sq_dev_alt[OF assms] power2_eq_square algebra_simps)
  finally show ?thesis .
qed

lemma fold_welford:
  "xs \<noteq> [] \<Longrightarrow> fold (\<lambda>x b. welford b x) xs empty_baseline =
     \<lparr>bl_n = int (length xs), bl_mean = mean xs, bl_M2 = sq_dev xs\<rparr>"
proof (induction xs rule: rev_induct)
  case Nil
  then show ?case by simp
next
  case (snoc x xs)
  show ?case
  proof (cases "xs = []")
    case True
    then show ?thesis
      by (simp add: welford_def empty_baseline_def mean_def sq_dev_def)
  next
    case False
    show ?thesis
      using snoc.IH[OF False]
      by (simp add: welford_def Let_def mean_snoc[OF False] sq_dev_snoc[OF False] add.commute)
  qed
qed

section \<open>A heartbeat is one step of the machines\<close>

definition row_state :: "db \<Rightarrow> string \<Rightarrow> cpu_baseline \<times> host_state" where
  "row_state d inst = (case get_host_status d inst of None \<Rightarrow> (empty_baseline, initial_host_state)
     | Some r \<Rightarrow> (case hr_baseline r of None \<Rightarrow> empty_baseline | Some b \<Rightarrow> b,
                  case hr_state r of None \<Rightarrow> initial_host_state | Some s \<Rightarrow> s))"

lemma host_derived_action [simp]: "ev_action (host_derived E now p i d a x) = a"
  by (simp add: host_derived_def Let_def)

lemma make_alert_action [simp]: "ev_action (make_alert_event E now hb i rid r v d) = ''host.perf.alert''"
  by (simp add: make_alert_event_def Let_def)

lemma evaluate_one_hosts [frame_simps]: "db_hosts (snd (evaluate_one E rid r v t i d)) = db_hosts d"
  by (simp add: evaluate_one_def Let_def update_perf_rule_state_def split: option.splits)

lemma evaluate_rules_frame [frame_simps]:
  "db_hosts (snd (snd (evaluate_rules E now ev i tags ms rules d))) = db_hosts d"
  by (induction rules arbitrary: d)
    (auto simp: Let_def case_prod_beta frame_simps split: option.splits)

lemma evaluate_rules_actions:
  "x \<in> set (fst (evaluate_rules E now ev i tags ms rules d)) \<Longrightarrow> ev_action x = ''host.perf.alert''"
  by (induction rules arbitrary: d)
    (auto simp: Let_def case_prod_beta split: option.splits if_splits)

lemma perf_evaluate_frame [frame_simps]: "db_hosts (snd (snd (perf_evaluate E now ev d))) = db_hosts d"
  by (simp add: perf_evaluate_def Let_def frame_simps)

lemma perf_evaluate_actions:
  "x \<in> set (fst (perf_evaluate E now ev d)) \<Longrightarrow> ev_action x = ''host.perf.alert''"
  by (auto simp: perf_evaluate_def Let_def dest: evaluate_rules_actions split: if_splits)

lemma metric_sample_frame [frame_simps]: "db_hosts (upsert_host_metric_sample n i t m c d) = db_hosts d"
  by (simp add: upsert_host_metric_sample_def Let_def)

lemma baseline_default: "update_cpu_baseline None cpu = update_cpu_baseline (Some empty_baseline) cpu"
  by (simp add: update_cpu_baseline_def)

lemma state_default:
  "compute_state_transitions E None e b = compute_state_transitions E (Some initial_host_state) e b"
  by (simp add: compute_state_transitions_def)

text \<open>What a heartbeat computes from the stored row is the step of its machines.\<close>

lemma heartbeat_parts:
  fixes d inst e E
  defines "prev \<equiv> get_host_status d inst" and "s \<equiv> host_step E e (row_state d inst)"
  shows "update_cpu_baseline (case prev of None \<Rightarrow> None | Some r \<Rightarrow> hr_baseline r) (dget e ''cpu'') = fst (fst s)"
    and "fst (compute_state_transitions E (case prev of None \<Rightarrow> None | Some r \<Rightarrow> hr_state r) e (fst (fst s))) =
      snd (fst s)"
    and "map fst (snd (compute_state_transitions E (case prev of None \<Rightarrow> None | Some r \<Rightarrow> hr_state r) e
      (fst (fst s)))) = snd s"
  by (simp_all add: assms row_state_def host_step_def Let_def case_prod_beta baseline_default state_default
      split: option.split)

lemma host_heartbeat_db:
  "db_hosts (snd (snd (host_heartbeat E now ev inst d))) =
     db_hosts (upsert_host_status inst
       (opt_or (as_str (dget (ev_extra ev) ''hostname'')) (tgt_name (ev_target ev)))
       (src_account (ev_source ev)) (src_region (ev_source ev)) (ev_time ev) True (ev_extra ev)
       (fst (fst (host_step E (ev_extra ev) (row_state d inst))))
       (snd (fst (host_step E (ev_extra ev) (row_state d inst)))) d)"
  using heartbeat_parts[where E = E and d = d and inst = inst and e = "ev_extra ev"]
  by (simp add: host_heartbeat_def Let_def case_prod_beta frame_simps)

lemma host_heartbeat_row:
  "row_state (snd (snd (host_heartbeat E now ev inst d))) inst =
     fst (host_step E (ev_extra ev) (row_state d inst))"
  by (simp add: row_state_def[of "snd (snd (host_heartbeat E now ev inst d))"] get_host_status_def
      host_heartbeat_db upsert_host_status_def tbl.get_put_same)

lemma host_heartbeat_active:
  "map_option hr_active (get_host_status (snd (snd (host_heartbeat E now ev inst d))) inst) =
     Some (Some True)"
  by (simp add: get_host_status_def host_heartbeat_db upsert_host_status_def tbl.get_put_same)

lemma filter_eq_Nil: "(\<And>x. x \<in> set xs \<Longrightarrow> \<not> P x) \<Longrightarrow> filter P xs = []"
  by (simp add: filter_empty_conv)

lemma host_heartbeat_actions:
  assumes "\<not> P ''host.perf.alert''" and "\<not> P ''host.first_seen''" and "\<not> P ''host.agent.recovered''"
  shows "filter P (map ev_action (fst (host_heartbeat E now ev inst d))) =
    filter P (snd (host_step E (ev_extra ev) (row_state d inst)))"
proof -
  have perf: "filter P (map ev_action (fst (perf_evaluate E now ev d'))) = []" for d'
    by (rule filter_eq_Nil) (use assms(1) perf_evaluate_actions in fastforce)
  have live: "host_transition a = Some x \<Longrightarrow> \<not> P x" for a x
    using assms(2,3) by (auto simp: host_transition_def split: option.splits bool.splits)
  have "map ev_action (fst (host_heartbeat E now ev inst d)) =
      (case host_transition (case get_host_status d inst of None \<Rightarrow> None | Some r \<Rightarrow> hr_active r) of
         None \<Rightarrow> [] | Some a \<Rightarrow> [a]) @
      snd (host_step E (ev_extra ev) (row_state d inst)) @
      map ev_action (fst (perf_evaluate E now ev (upsert_host_status inst
       (opt_or (as_str (dget (ev_extra ev) ''hostname'')) (tgt_name (ev_target ev)))
       (src_account (ev_source ev)) (src_region (ev_source ev)) (ev_time ev) True (ev_extra ev)
       (fst (fst (host_step E (ev_extra ev) (row_state d inst))))
       (snd (fst (host_step E (ev_extra ev) (row_state d inst)))) d)))"
    using heartbeat_parts[where E = E and d = d and inst = inst and e = "ev_extra ev"]
    by (simp add: host_heartbeat_def Let_def case_prod_beta comp_def)
      (simp split: option.split)
  then show ?thesis by (auto simp: perf dest: live split: option.splits)
qed

text \<open>A run of heartbeats of one host and the actions it derives.\<close>

fun heartbeat_run ::
  "pyenv \<Rightarrow> string \<Rightarrow> (event \<times> time) list \<Rightarrow> db \<Rightarrow> string list \<times> db" where
  "heartbeat_run E inst [] d = ([], d)"
| "heartbeat_run E inst ((ev, now) # evs) d =
     (let (out, _, d') = host_heartbeat E now ev inst d; (acts, d'') = heartbeat_run E inst evs d'
      in (map ev_action out @ acts, d''))"

lemma heartbeat_run_alternates:
  assumes edge: "\<And>e s. filter (\<lambda>a. a = up \<or> a = down) (snd (host_step E e s)) =
      (if on (snd (fst (host_step E e s))) = on (snd s) then [] else if on (snd s) then [down] else [up])"
    and up: "up \<notin> {''host.perf.alert'', ''host.first_seen'', ''host.agent.recovered''}"
    and down: "down \<notin> {''host.perf.alert'', ''host.first_seen'', ''host.agent.recovered''}"
  shows "alternates up down (on (snd (row_state d inst)))
    (filter (\<lambda>a. a = up \<or> a = down) (fst (heartbeat_run E inst evs d)))"
proof (induction evs arbitrary: d)
  case Nil
  then show ?case by simp
next
  case (Cons x evs)
  obtain ev now where x: "x = (ev, now)" by fastforce
  let ?d = "snd (snd (host_heartbeat E now ev inst d))"
  have acts: "filter (\<lambda>a. a = up \<or> a = down) (map ev_action (fst (host_heartbeat E now ev inst d))) =
      filter (\<lambda>a. a = up \<or> a = down) (snd (host_step E (ev_extra ev) (row_state d inst)))"
    by (rule host_heartbeat_actions) (use up down in auto)
  show ?case
    using Cons.IH[of ?d] edge[of "ev_extra ev" "row_state d inst"]
    unfolding host_heartbeat_row
    by (cases "on (snd (row_state d inst))";
        cases "on (snd (fst (host_step E (ev_extra ev) (row_state d inst))))")
      (simp_all add: x Let_def case_prod_beta acts alternates_append)
qed

lemma heartbeat_run_baseline:
  "fst (row_state (snd (heartbeat_run E inst evs d)) inst) =
     fold (\<lambda>x b. welford b x) (List.map_filter (\<lambda>(ev, _). load_norm (dget (ev_extra ev) ''cpu'')) evs)
       (fst (row_state d inst))"
proof (induction evs arbitrary: d)
  case Nil
  then show ?case by (simp add: List.map_filter_def)
next
  case (Cons x evs)
  obtain ev now where x: "x = (ev, now)" by fastforce
  show ?case
    using Cons.IH[of "snd (snd (host_heartbeat E now ev inst d))"]
    unfolding host_heartbeat_row
    by (simp add: x Let_def case_prod_beta host_step_def update_cpu_baseline_def List.map_filter_def
        split: option.split)
qed

text \<open>Whether each heartbeat that carries a load was anomalous, newest last.\<close>

fun anomaly_flags :: "dict list \<Rightarrow> cpu_baseline \<Rightarrow> bool list" where
  "anomaly_flags [] b = []"
| "anomaly_flags (e # es) b =
     (let b' = update_cpu_baseline (Some b) (dget e ''cpu'');
          cpu = py_or (dget e ''cpu'') (PyDict [])
      in (if is_dict cpu \<and> dget (as_dict cpu) ''load_norm_1min'' \<noteq> PyNone
          then [is_cpu_anomalous b' cpu] else []) @ anomaly_flags es b')"

fun host_run :: "pyenv \<Rightarrow> dict list \<Rightarrow> cpu_baseline \<times> host_state \<Rightarrow> cpu_baseline \<times> host_state" where
  "host_run E [] s = s"
| "host_run E (e # es) s = host_run E es (fst (host_step E e s))"

lemma host_run_append: "host_run E (xs @ ys) s = host_run E ys (host_run E xs s)"
  by (induction xs arbitrary: s) auto

lemma anomaly_flags_snoc:
  "anomaly_flags (es @ [e]) b = anomaly_flags es b @ anomaly_flags [e] (fst (host_run E es (b, st)))"
proof (induction es arbitrary: b st)
  case Nil
  then show ?case by simp
next
  case (Cons a es)
  obtain st' where s: "fst (host_step E a (b, st)) = (update_cpu_baseline (Some b) (dget a ''cpu''), st')"
    by (simp add: host_step_def Let_def case_prod_beta)
  show ?case
    using Cons.IH[of "update_cpu_baseline (Some b) (dget a ''cpu'')" st'] by (simp add: Let_def s)
qed

lemma host_step_anomaly:
  "consecutive_cpu_anomaly (snd (fst (host_step E e s))) =
     (case anomaly_flags [e] (fst s) of [] \<Rightarrow> consecutive_cpu_anomaly (snd s)
      | f # _ \<Rightarrow> if f then consecutive_cpu_anomaly (snd s) + 1 else 0)"
  by (simp add: host_step_defs frame_simps) (simp add: cpu_step_def Let_def frame_simps)

lemma anomaly_streak:
  "consecutive_cpu_anomaly (snd (host_run E es (b, initial_host_state))) =
     int (length (takeWhile id (rev (anomaly_flags es b))))"
proof (induction es rule: rev_induct)
  case Nil
  then show ?case by (simp add: initial_host_state_def)
next
  case (snoc e es)
  have one: "anomaly_flags [e] c = [] \<or> (\<exists>f. anomaly_flags [e] c = [f])" for c
    by (simp add: Let_def)
  from one[of "fst (host_run E es (b, initial_host_state))"] show ?case
    using snoc
    by (auto simp: host_run_append host_step_anomaly anomaly_flags_snoc[of es e b E initial_host_state])
qed

lemma host_step_fires_anomaly:
  "''host.cpu.anomaly'' \<in> set (snd (host_step E e s)) \<Longrightarrow>
   ANOMALY_CONSECUTIVE \<le> consecutive_cpu_anomaly (snd (fst (host_step E e s)))"
proof -
  assume a: "''host.cpu.anomaly'' \<in> set (snd (host_step E e s))"
  let ?b = "update_cpu_baseline (Some (fst s)) (dget e ''cpu'')" and ?s1 = "fst (memory_step e (snd s))"
  have "''host.cpu.anomaly'' \<in> set (map fst (snd (cpu_step E e ?b ?s1)))"
    using a stall_step_actions[of "''host.cpu.anomaly''" e]
    by (auto simp: host_step_defs memory_step_actions rpm_step_actions image_iff split: if_splits)
  then have "ANOMALY_CONSECUTIVE \<le> consecutive_cpu_anomaly (fst (cpu_step E e ?b ?s1))"
    by (auto simp: cpu_step_def Let_def split: if_splits)
  then show ?thesis by (simp add: host_step_defs frame_simps)
qed

text \<open>A full streak is always an active anomaly.\<close>

lemma host_step_streak_active:
  "(ANOMALY_CONSECUTIVE \<le> consecutive_cpu_anomaly (snd s) \<longrightarrow> cpu_anomaly_active (snd s)) \<Longrightarrow>
   ANOMALY_CONSECUTIVE \<le> consecutive_cpu_anomaly (snd (fst (host_step E e s))) \<Longrightarrow>
   cpu_anomaly_active (snd (fst (host_step E e s)))"
  by (simp add: host_step_defs frame_simps)
    (auto simp: cpu_step_def Let_def frame_simps ANOMALY_CONSECUTIVE_def NORMAL_CONSECUTIVE_def split: if_splits)

lemma streak_active:
  "ANOMALY_CONSECUTIVE \<le> consecutive_cpu_anomaly (snd (host_run E es (b, initial_host_state))) \<Longrightarrow>
   cpu_anomaly_active (snd (host_run E es (b, initial_host_state)))"
proof (induction es rule: rev_induct)
  case Nil
  then show ?case by (simp add: initial_host_state_def ANOMALY_CONSECUTIVE_def)
next
  case (snoc e es)
  then show ?case using host_step_streak_active[of "host_run E es (b, initial_host_state)" E e]
    by (simp add: host_run_append)
qed

lemma host_step_anomaly_active:
  "''host.cpu.anomaly'' \<in> set (snd (host_step E e s)) \<longleftrightarrow>
   \<not> cpu_anomaly_active (snd s) \<and> cpu_anomaly_active (snd (fst (host_step E e s)))"
proof -
  have "''host.cpu.anomaly'' \<in> set (snd (host_step E e s)) \<longleftrightarrow>
      ''host.cpu.anomaly'' \<in> set (filter (\<lambda>a. a = ''host.cpu.anomaly'' \<or> a = ''host.cpu.normal'')
        (snd (host_step E e s)))"
    by simp
  then show ?thesis unfolding cpu_edges.edge by auto
qed

lemma host_step_raises:
  "\<not> cpu_anomaly_active (snd s) \<Longrightarrow> cpu_anomaly_active (snd (fst (host_step E e s))) \<Longrightarrow>
   ANOMALY_CONSECUTIVE \<le> consecutive_cpu_anomaly (snd (fst (host_step E e s)))"
  using host_step_anomaly_active host_step_fires_anomaly by blast

lemma host_step_anomaly_iff:
  fixes E es b e
  defines "s \<equiv> host_run E es (b, initial_host_state)"
  shows "''host.cpu.anomaly'' \<in> set (snd (host_step E e s)) \<longleftrightarrow> \<not> cpu_anomaly_active (snd s) \<and>
     ANOMALY_CONSECUTIVE \<le> consecutive_cpu_anomaly (snd (fst (host_step E e s)))"
proof -
  have "ANOMALY_CONSECUTIVE \<le> consecutive_cpu_anomaly (snd s) \<longrightarrow> cpu_anomaly_active (snd s)"
    using streak_active by (simp add: s_def)
  then show ?thesis
    using host_step_streak_active[of s E e] host_step_raises[of s E e]
    by (auto simp: host_step_anomaly_active)
qed

section \<open>First-seen processes\<close>

definition seen_comms :: "db \<Rightarrow> string \<Rightarrow> string list" where
  "seen_comms d inst = strs_of (dget (case get_host_snapshots d inst of None \<Rightarrow> [] | Some p \<Rightarrow> p)
     ''seen_process_comms'')"

definition reported :: "event list \<Rightarrow> string list" where
  "reported out = List.map_filter (\<lambda>e. if ev_action e = ''host.process.first_seen''
     then as_str (dget (ev_extra e) ''comm'') else None) out"

text \<open>The agent does not send the projection-owned key.\<close>

definition agent_snapshot :: "event \<Rightarrow> bool" where
  "agent_snapshot ev \<longleftrightarrow> \<not> has_key (as_dict (dget (ev_extra ev) ''snapshots'')) ''seen_process_comms''"

fun snapshot_run :: "pyenv \<Rightarrow> string \<Rightarrow> (event \<times> time) list \<Rightarrow> db \<Rightarrow> event list \<times> db" where
  "snapshot_run E inst [] d = ([], d)"
| "snapshot_run E inst ((ev, now) # evs) d =
     (let (out, d') = host_snapshot E now ev inst d; (outs, d'') = snapshot_run E inst evs d'
      in (out @ outs, d''))"

lemma reported_append [simp]: "reported (xs @ ys) = reported xs @ reported ys"
  by (simp add: reported_def List.map_filter_def)

lemma diff_not_process: "x \<in> set (diff_snapshots p c) \<Longrightarrow> fst x \<noteq> ''host.process.first_seen''"
  unfolding diff_snapshots_def Let_def set_append by (auto dest: diff_part_actions)

lemma reported_diff: "reported (map (\<lambda>(a, x). host_derived E now ev i d a x) (diff_snapshots p c)) = []"
  unfolding reported_def by (rule map_filter_None) (auto dest: diff_not_process)

lemma reported_first_seen:
  "reported (map (\<lambda>c. host_derived E now ev i d ''host.process.first_seen'' [(''comm'', PyStr c)]) cs) = cs"
  by (induction cs) (simp_all add: reported_def List.map_filter_def host_derived_def Let_def dmerge_def)

lemma strs_of_strs [simp]: "strs_of (PyList (map PyStr xs)) = xs"
  by (induction xs) (simp_all add: strs_of_def List.map_filter_def)

lemma strs_of_None [simp]: "strs_of PyNone = []"
  by (simp add: strs_of_def List.map_filter_def)

lemma host_snapshot_seen:
  assumes "agent_snapshot ev"
  shows "set (seen_comms (snd (host_snapshot E now ev inst d)) inst) =
    set (seen_comms d inst) \<union> set (process_comms (as_dict (dget (ev_extra ev) ''snapshots'')))"
proof -
  have "dget (as_dict (dget (ev_extra ev) ''snapshots'')) ''seen_process_comms'' = PyNone"
    using assms by (simp add: agent_snapshot_def has_key_iff dget_absent)
  then show ?thesis
    by (auto simp: host_snapshot_def Let_def seen_comms_def get_host_snapshots_def set_host_snapshots_def
        tbl.get_put_same split: option.splits)
qed

lemma host_snapshot_reported:
  "reported (fst (host_snapshot E now ev inst d)) =
     (if get_host_snapshots d inst \<noteq> None \<and>
         has_key (the (get_host_snapshots d inst)) ''seen_process_comms'' \<and>
         process_comms (as_dict (dget (ev_extra ev) ''snapshots'')) \<noteq> []
      then sort (set_minus (process_comms (as_dict (dget (ev_extra ev) ''snapshots''))) (seen_comms d inst))
      else [])"
  by (auto simp: host_snapshot_def Let_def reported_diff reported_first_seen seen_comms_def
      reported_def[of "[]"] List.map_filter_def split: option.splits)

lemma snapshot_run_reported:
  assumes "\<forall>(ev, now) \<in> set evs. agent_snapshot ev"
  shows "distinct (reported (fst (snapshot_run E inst evs d))) \<and>
    set (reported (fst (snapshot_run E inst evs d))) \<inter> set (seen_comms d inst) = {}"
  using assms
proof (induction evs arbitrary: d)
  case Nil
  then show ?case by (simp add: reported_def List.map_filter_def)
next
  case (Cons x evs)
  obtain ev now where x: "x = (ev, now)" by fastforce
  have a: "agent_snapshot ev" using Cons.prems by (simp add: x)
  let ?d = "snd (host_snapshot E now ev inst d)" and ?r = "reported (fst (host_snapshot E now ev inst d))"
  have r: "distinct ?r" "set ?r \<inter> set (seen_comms d inst) = {}" "set ?r \<subseteq> set (seen_comms ?d inst)"
    by (auto simp: host_snapshot_reported host_snapshot_seen[OF a])
  have mono: "set (seen_comms d inst) \<subseteq> set (seen_comms ?d inst)"
    by (simp add: host_snapshot_seen[OF a])
  show ?case
    using Cons.IH[of ?d] Cons.prems r mono by (auto simp: x Let_def case_prod_beta)
qed

section \<open>Properties\<close>

text \<open>Host alerts alternate: over any run of heartbeats of a host, memory exhausted and recovered,
  CPU anomaly and normal, and package database corrupted and recovered each strictly alternate,
  starting with the side the stored state is not on.\<close>

theorem host_alerts_alternate:
  "let s = snd (row_state d inst); acts = fst (heartbeat_run E inst evs d) in
    alternates ''host.memory.exhausted'' ''host.memory.recovered'' (memory_exhausted s)
      (filter (\<lambda>a. a = ''host.memory.exhausted'' \<or> a = ''host.memory.recovered'') acts) \<and>
    alternates ''host.cpu.anomaly'' ''host.cpu.normal'' (cpu_anomaly_active s)
      (filter (\<lambda>a. a = ''host.cpu.anomaly'' \<or> a = ''host.cpu.normal'') acts) \<and>
    alternates ''host.package_db.corrupted'' ''host.package_db.recovered'' (rpm_db_corrupted_active s)
      (filter (\<lambda>a. a = ''host.package_db.corrupted'' \<or> a = ''host.package_db.recovered'') acts)"
  unfolding Let_def
  by (intro conjI heartbeat_run_alternates memory_edges.edge cpu_edges.edge rpm_edges.edge) simp_all

text \<open>The stored CPU baseline is exact: after any heartbeats of a new host it holds the number of
  load samples, their mean and the sum of their squared deviations from it, so the standard
  deviation the detector uses is the sample standard deviation.\<close>

theorem cpu_baseline_exact:
  fixes evs :: "(event \<times> time) list"
  defines "loads \<equiv> List.map_filter (\<lambda>(ev, _). load_norm (dget (ev_extra ev) ''cpu'')) evs"
  assumes "get_host_status d inst = None" and "2 \<le> length loads"
  shows "let b = fst (row_state (snd (heartbeat_run E inst evs d)) inst) in
    bl_n b = int (length loads) \<and>
    bl_mean b = sum_list loads / real (length loads) \<and>
    baseline_stdev b =
      sqrt ((\<Sum>x\<leftarrow>loads. (x - sum_list loads / real (length loads))\<^sup>2) / (real (length loads) - 1))"
proof -
  have "loads \<noteq> []" using assms(3) by auto
  have "fst (row_state d inst) = empty_baseline" using assms(2) by (simp add: row_state_def)
  then have "fst (row_state (snd (heartbeat_run E inst evs d)) inst) =
      \<lparr>bl_n = int (length loads), bl_mean = mean loads, bl_M2 = sq_dev loads\<rparr>"
    using fold_welford[OF \<open>loads \<noteq> []\<close>] heartbeat_run_baseline[of E inst evs d]
    by (simp add: loads_def)
  then show ?thesis
    using assms(3) by (simp add: Let_def baseline_stdev_def mean_def sq_dev_def of_nat_diff)
qed

definition demo_load :: "int \<Rightarrow> event" where
  "demo_load x = (event_defaults 0 (new_source ''ec2.host'' T_queue))
     \<lparr>ev_action := ''host.service.health'',
      ev_extra := [(''cpu'', PyDict [(''load_norm_1min'', PyInt x)])]\<rparr>"

lemma cpu_baseline_exact_witness:
  "bl_mean (fst (row_state (snd (heartbeat_run demo_env ''i''
     [(demo_load 1, 0), (demo_load 3, 60)] empty_db)) ''i'')) = 2"
  using cpu_baseline_exact [of empty_db "''i''" "[(demo_load 1, 0), (demo_load 3, 60)]" demo_env]
  by (simp add: List.map_filter_def demo_load_def load_norm_def Let_def)

text \<open>When a CPU anomaly is raised: a heartbeat of a host that started fresh raises it exactly when
  no anomaly is active and at least the last ten load samples, this one included, were all
  anomalous.\<close>

theorem cpu_anomaly_after_ten:
  "''host.cpu.anomaly'' \<in> set (snd (host_step E e (host_run E es (b, initial_host_state)))) \<longleftrightarrow>
    \<not> cpu_anomaly_active (snd (host_run E es (b, initial_host_state))) \<and>
    10 \<le> length (takeWhile id (rev (anomaly_flags (es @ [e]) b)))"
  using anomaly_streak[of E "es @ [e]" b] host_step_anomaly_iff[where E = E and es = es and b = b and e = e]
  by (simp add: host_run_append ANOMALY_CONSECUTIVE_def)

text \<open>A process name is announced at most once: over any run of snapshots of a host the reported
  first-seen processes are all different and none was in the seen set before.\<close>

theorem process_first_seen_once:
  assumes "\<forall>(ev, now) \<in> set evs. agent_snapshot ev"
  shows "distinct (reported (fst (snapshot_run E inst evs d))) \<and>
    set (reported (fst (snapshot_run E inst evs d))) \<inter> set (seen_comms d inst) = {}"
  by (rule snapshot_run_reported[OF assms])

definition demo_processes :: "string list \<Rightarrow> event" where
  "demo_processes cs = (event_defaults 0 (new_source ''ec2.host'' T_queue))
     \<lparr>ev_action := ''host.state.snapshot'', ev_extra := [(''snapshots'', PyDict [(''processes'',
        PyList (map (\<lambda>c. PyDict [(''comm'', PyStr c)]) cs))])]\<rparr>"

lemma process_first_seen_once_witness:
  "distinct (reported (fst (snapshot_run demo_env ''i''
     [(demo_processes [''sh''], 0), (demo_processes [''sh'', ''nc''], 1), (demo_processes [''nc''], 2)]
     empty_db)))"
  using process_first_seen_once [of "[(demo_processes [''sh''], 0), (demo_processes [''sh'', ''nc''], 1),
      (demo_processes [''nc''], 2)]" demo_env "''i''" empty_db]
  by (simp add: demo_processes_def agent_snapshot_def has_key_def)

text \<open>The file integrity baseline: a change report appends exactly one history row, a deletion
  drops the baseline of its path, no report touches another path, and a known path keeps the time
  since when it is tracked.\<close>

theorem fim_change_effect:
  assumes "as_str (dget (ev_extra ev) ''path'') = Some path" and "path \<noteq> []"
  shows "length (db_fim_history (project_fim_change E ev i d)) = length (db_fim_history d) + 1 \<and>
    (k \<noteq> (i, path) \<longrightarrow>
       map_of (db_fim_baselines (project_fim_change E ev i d)) k = map_of (db_fim_baselines d) k) \<and>
    (dget (ev_extra ev) ''change_type'' = PyStr ''deleted'' \<longrightarrow>
       map_of (db_fim_baselines (project_fim_change E ev i d)) (i, path) = None) \<and>
    (\<forall>old new. map_of (db_fim_baselines d) (i, path) = Some old \<longrightarrow>
       map_of (db_fim_baselines (project_fim_change E ev i d)) (i, path) = Some new \<longrightarrow>
       fb_established_at new = fb_established_at old)"
proof -
  have ct: "dget (ev_extra ev) ''change_type'' = PyStr s \<Longrightarrow>
      dget_or (ev_extra ev) ''change_type'' (PyStr ''modified'') = PyStr s" for s
    by (simp add: dget_or_def dget_def split: option.splits)
  show ?thesis
    using assms
    by (auto simp: project_fim_change_def Let_def insert_fim_history_def delete_fim_baseline_def
        upsert_fim_baseline_def tbl.get_put tbl.get_del ct case_prod_beta split: option.splits)
qed

definition demo_fim :: event where
  "demo_fim = (event_defaults 5 (new_source ''ec2.host'' T_queue))
     \<lparr>ev_action := ''host.fim.deleted'',
      ev_extra := [(''path'', PyStr ''/etc/x''), (''change_type'', PyStr ''deleted'')]\<rparr>"

lemma fim_change_effect_witness:
  "map_of (db_fim_baselines (project_fim_change demo_env demo_fim ''i'' empty_db)) (''i'', ''/etc/x'') = None"
  using fim_change_effect [of demo_fim "''/etc/x''" demo_env "''i''" empty_db "(''i'', ''/etc/x'')"]
  by (simp add: demo_fim_def)

end
