(* ===== verification/Derived.thy ===== *)
theory Derived
  imports Correlation VpnProjection S3Projection PostureProjection ServiceProjection ApiProjection
    RdsProjection HostProjection
begin

text \<open>
  What the projections have in common, for the pipeline that runs them: the actions of the events
  they derive, and that none of them writes the events table. The list of actions that only feed a
  projection is that of \<open>src/blackwatch/pipeline.py\<close>.
\<close>

definition projection_only_actions :: "string list" where
  "projection_only_actions =
     [''vpn.service.health'', ''vpn.status.snapshot'', ''vpn.cert.snapshot'', ''host.service.health'',
      ''host.state.snapshot'', ''host.fim.coverage'', ''probe.agent.heartbeat'', ''service.probe.result'',
      ''s3.bucket.snapshot'', ''s3.scan.completed'', ''aws.posture.finding'', ''aws.posture.scan.completed'',
      ''rds.proxy.client.connect'', ''rds.proxy.client.disconnect'', ''api.request'', ''s3.object.access'']"

section \<open>The events table is left alone\<close>

lemma upsert_events [frame_simps]:
  "db_events (upsert_vpn_health sv a t d) = db_events d"
  "db_events (upsert_vpn_clients sv vc t d) = db_events d"
  "db_events (upsert_vpn_certs sv v t d) = db_events d"
  "db_events (upsert_bucket_status n br d) = db_events d"
  "db_events (delete_bucket_status n d) = db_events d"
  "db_events (mark_posture_finding_resolved f t d) = db_events d"
  "db_events (upsert_probe_agent vpc t ver a d) = db_events d"
  "db_events (upsert_service_status i sr d) = db_events d"
  "db_events (set_host_snapshots i sn t d) = db_events d"
  "db_events (upsert_host_status i h ac rg t a hx b st d) = db_events d"
  "db_events (update_perf_rule_state rid ss pv pf d) = db_events d"
  "db_events (upsert_host_metric_sample w i t mm mc d) = db_events d"
  "db_events (insert_fim_history i fh d) = db_events d"
  "db_events (delete_fim_baseline i p d) = db_events d"
  "db_events (upsert_fim_baseline i p fb d) = db_events d"
  "db_events (upsert_fim_coverage i fc d) = db_events d"
  by (simp_all add: upsert_vpn_health_def upsert_vpn_clients_def upsert_vpn_certs_def upsert_bucket_status_def
      delete_bucket_status_def mark_posture_finding_resolved_def upsert_probe_agent_def upsert_service_status_def
      set_host_snapshots_def upsert_host_status_def update_perf_rule_state_def upsert_host_metric_sample_def
      insert_fim_history_def delete_fim_baseline_def upsert_fim_baseline_def upsert_fim_coverage_def Let_def
      split: option.splits)

lemma upsert_events_snd [frame_simps]:
  "db_events (snd (upsert_posture_finding f ri rt ft sv rg ac e t d)) = db_events d"
  "db_events (snd (upsert_rds_session_start s i st u n ip pt t x d)) = db_events d"
  "db_events (snd (close_rds_session s t dur d)) = db_events d"
  by (simp_all add: upsert_posture_finding_def upsert_rds_session_start_def close_rds_session_def Let_def
      split: option.splits)

lemma vpn_project_events [frame_simps]: "db_events (snd (vpn_project E now ev d)) = db_events d"
  by (simp add: vpn_project_def vpn_health_def vpn_snapshot_def vpn_cert_snapshot_def Let_def frame_simps
      split: option.splits)

lemma s3_reconcile_table [frame_simps]: "db_events (snd (s3_reconcile E now ev ac seen ts d)) = db_events d"
  by (induction E now ev ac seen ts d rule: s3_reconcile.induct) (simp_all add: Let_def case_prod_beta frame_simps)

lemma s3_project_events [frame_simps]: "db_events (snd (s3_project E now ev d)) = db_events d"
  by (simp add: s3_project_def s3_snapshot_def s3_scan_completed_def Let_def frame_simps)

lemma resolve_missing_table [frame_simps]: "db_events (snd (resolve_missing E now ev seen fs d)) = db_events d"
  by (induction E now ev seen fs d rule: resolve_missing.induct)
    (simp_all add: Let_def case_prod_beta frame_simps split: option.splits)

lemma posture_project_events [frame_simps]: "db_events (snd (posture_project E now ev d)) = db_events d"
  by (simp add: posture_project_def posture_finding_def posture_scan_completed_def Let_def case_prod_beta frame_simps)

lemma svc_project_events [frame_simps]: "db_events (snd (svc_project E now ev d)) = db_events d"
  by (simp add: svc_project_def svc_heartbeat_def svc_result_def Let_def frame_simps split: option.splits)

lemma rds_project_events [frame_simps]: "db_events (snd (rds_project E now ev d)) = db_events d"
  by (simp add: rds_project_def rds_session_started_def rds_session_ended_def record_proxy_source_def
      detect_new_user_source_def Let_def case_prod_beta frame_simps)

lemma api_project_events [frame_simps]: "db_events (snd (api_project E now ev d)) = db_events d"
  by (simp add: api_project_def record_source_def Let_def case_prod_beta frame_simps)

lemma evaluate_one_events [frame_simps]: "db_events (snd (evaluate_one E rid r v t i d)) = db_events d"
  by (simp add: evaluate_one_def Let_def frame_simps)

lemma evaluate_rules_events [frame_simps]:
  "db_events (snd (snd (evaluate_rules E now ev i tags ms rules d))) = db_events d"
  by (induction rules arbitrary: d) (auto simp: Let_def case_prod_beta frame_simps split: option.splits)

lemma project_fim_change_events [frame_simps]: "db_events (project_fim_change E ev i d) = db_events d"
  by (simp add: project_fim_change_def Let_def case_prod_beta frame_simps split: option.splits)

lemma host_project_events [frame_simps]: "db_events (snd (snd (host_project E now ev d))) = db_events d"
  by (simp add: host_project_def host_heartbeat_def host_snapshot_def fim_coverage_report_def perf_evaluate_def
      Let_def case_prod_beta frame_simps)

section \<open>The actions derived\<close>

lemma vpn_project_actions:
  "x \<in> set (fst (vpn_project E now ev d)) \<Longrightarrow> ev_action x \<in> {''vpn.session.concurrent'',
     ''vpn.session.start'', ''vpn.session.end'', ''vpn.service.up'', ''vpn.service.down''}"
  by (auto simp: vpn_project_def vpn_health_def vpn_snapshot_def vpn_cert_snapshot_def detect_concurrent_def
      diff_sessions_def session_event_def service_transition_def Let_def split: if_splits option.splits)

lemma s3_reconcile_actions:
  "x \<in> set (fst (s3_reconcile E now ev ac seen ts d)) \<Longrightarrow> ev_action x = ''s3.bucket.disappeared''"
  by (induction E now ev ac seen ts d rule: s3_reconcile.induct)
    (auto simp: Let_def case_prod_beta split: if_splits)

lemma first_sight_actions:
  "(a, x) \<in> set (first_sight e r) \<Longrightarrow> a \<in> {''s3.bucket.first_seen'', ''s3.bucket.public'',
     ''s3.bucket.unencrypted'', ''s3.bucket.versioning_off''}"
  by (auto simp: first_sight_def split: if_splits)

lemma bucket_changes_actions:
  "(a, x) \<in> set (bucket_changes e p r) \<Longrightarrow> a \<in> {''s3.bucket.public'', ''s3.bucket.public_removed'',
     ''s3.bucket.unencrypted'', ''s3.bucket.encryption_added'', ''s3.bucket.versioning_suspended'',
     ''s3.bucket.versioning_enabled'', ''s3.bucket.logging_disabled''}"
  unfolding bucket_changes_def Let_def set_append Un_iff by (elim disjE) (simp_all split: if_splits)

lemma s3_project_actions:
  assumes "x \<in> set (fst (s3_project E now ev d))"
  shows "ev_action x \<in> {''s3.bucket.first_seen'', ''s3.bucket.public'',
     ''s3.bucket.unencrypted'', ''s3.bucket.versioning_off'', ''s3.bucket.public_removed'',
     ''s3.bucket.encryption_added'', ''s3.bucket.versioning_suspended'', ''s3.bucket.versioning_enabled'',
     ''s3.bucket.logging_disabled'', ''s3.bucket.disappeared''}"
proof -
  consider "x \<in> set (fst (s3_snapshot E now ev d))" | "x \<in> set (fst (s3_scan_completed E now ev d))"
    using assms by (auto simp: s3_project_def split: if_splits)
  then show ?thesis
  proof cases
    case 1
    then have "\<exists>a y e r p. ev_action x = a \<and> ((a, y) \<in> set (first_sight e r) \<or> (a, y) \<in> set (bucket_changes e p r))"
      unfolding s3_snapshot_def Let_def by (auto split: if_splits option.splits) blast+
    then show ?thesis using first_sight_actions bucket_changes_actions by blast
  next
    case 2
    then show ?thesis using s3_reconcile_actions by (auto simp: s3_scan_completed_def Let_def split: if_splits)
  qed
qed

lemma resolve_missing_actions:
  "x \<in> set (fst (resolve_missing E now ev seen fs d)) \<Longrightarrow> ev_action x = ''aws.posture.finding.resolved''"
  by (induction E now ev seen fs d rule: resolve_missing.induct)
    (auto simp: Let_def case_prod_beta posture_derive_def split: if_splits option.splits)

lemma posture_project_actions:
  "x \<in> set (fst (posture_project E now ev d)) \<Longrightarrow>
     ev_action x \<in> {''aws.posture.finding.new'', ''aws.posture.finding.resolved''}"
  by (auto simp: posture_project_def posture_finding_def posture_scan_completed_def Let_def case_prod_beta
      posture_derive_def dest: resolve_missing_actions split: if_splits)

lemma svc_project_actions:
  "x \<in> set (fst (svc_project E now ev d)) \<Longrightarrow> ev_action x \<in> {''probe.agent.first_seen'', ''probe.agent.recovered'',
     ''service.up'', ''service.down'', ''service.degraded'', ''service.unknown''}"
  by (auto simp: svc_project_def svc_heartbeat_def svc_result_def result_action_def Let_def
      split: if_splits option.splits bool.splits)

lemma rds_detector_actions:
  "x \<in> set (detect_concurrent_rds E now ev t d) \<Longrightarrow> ev_action x = ''rds.session.concurrent''"
  "x \<in> set (detect_burst E now ev t d) \<Longrightarrow> ev_action x = ''rds.auth.burst''"
  "x \<in> set (detect_unknown_user E now ev t d) \<Longrightarrow> ev_action x = ''rds.user.unknown''"
  "x \<in> set (fst (record_proxy_source E now ev t d)) \<Longrightarrow> ev_action x = ''rds.proxy.source.new''"
  "x \<in> set (fst (detect_new_user_source E now ev t d)) \<Longrightarrow> ev_action x = ''rds.session.new_source''"
  by (auto simp: detect_concurrent_rds_def detect_burst_def detect_unknown_user_def record_proxy_source_def
      detect_new_user_source_def Let_def case_prod_beta split: if_splits)

lemma rds_project_actions:
  "x \<in> set (fst (rds_project E now ev d)) \<Longrightarrow> ev_action x \<in> {''rds.session.concurrent'', ''rds.auth.burst'',
     ''rds.proxy.source.new'', ''rds.session.new_source'', ''rds.user.unknown''}"
  by (auto simp: rds_project_def rds_session_started_def Let_def case_prod_beta dest: rds_detector_actions
      split: if_splits)

lemma api_project_actions:
  "x \<in> set (fst (api_project E now ev d)) \<Longrightarrow> ev_action x \<in> {''api.source.new'', ''api.auth.burst'', ''api.error.burst''}"
  by (auto simp: api_project_def record_source_def detect_auth_burst_def detect_error_burst_def Let_def case_prod_beta
      split: if_splits)

lemma state_transition_actions:
  assumes "x \<in> set (snd (compute_state_transitions E st e b))"
  shows "fst x \<in> {''host.memory.exhausted'', ''host.memory.recovered'', ''host.cpu.anomaly'', ''host.cpu.normal'',
     ''host.package_db.corrupted'', ''host.package_db.recovered'', ''host.collector.stalled'',
     ''host.collector.recovered''}"
proof -
  have m: "y \<in> set (snd (memory_step e s)) \<Longrightarrow> fst y \<in> {''host.memory.exhausted'', ''host.memory.recovered''}" for y s
    by (auto simp: memory_step_def Let_def split: option.splits if_splits)
  have c: "y \<in> set (snd (cpu_step E e b s)) \<Longrightarrow> fst y \<in> {''host.cpu.anomaly'', ''host.cpu.normal''}" for y s
    by (auto simp: cpu_step_def Let_def split: if_splits)
  have r: "y \<in> set (snd (rpm_step e s)) \<Longrightarrow>
      fst y \<in> {''host.package_db.corrupted'', ''host.package_db.recovered''}" for y s
    by (auto simp: rpm_step_def Let_def split: if_splits)
  have s: "y \<in> set (snd (stall_step e s)) \<Longrightarrow>
      fst y \<in> {''host.collector.stalled'', ''host.collector.recovered''}" for y s
    by (auto simp: stall_step_def Let_def)
  from assms consider s where "x \<in> set (snd (memory_step e s))" | s where "x \<in> set (snd (cpu_step E e b s))"
    | s where "x \<in> set (snd (rpm_step e s))" | s where "x \<in> set (snd (stall_step e s))"
    by (auto simp: compute_state_transitions_def case_prod_beta Let_def)
  then show ?thesis by cases (drule m c r s; auto)+
qed

definition diff_actions :: "string list" where
  "diff_actions = [''host.port.opened'', ''host.port.closed'', ''host.user.added'', ''host.user.removed'',
     ''host.authorized_key.added'', ''host.authorized_key.removed'', ''host.sudoers.changed'',
     ''host.file.changed'', ''host.cron.changed'', ''host.service.added'', ''host.service.removed'',
     ''host.suid.added'', ''host.suid.removed'', ''host.packages.changed'', ''host.kernel.module.added'',
     ''host.kernel.module.removed'', ''host.disk.critical'', ''host.disk.warn'', ''host.disk.recovered'']"

lemma diff_snapshots_actions: "x \<in> set (diff_snapshots p c) \<Longrightarrow> fst x \<in> set diff_actions"
  unfolding diff_snapshots_def Let_def set_append Un_iff
  by (elim disjE; drule diff_part_actions; auto simp: diff_actions_def)

lemma host_project_actions:
  assumes "x \<in> set (fst (host_project E now ev d))"
  shows "ev_action x \<in> {''host.first_seen'', ''host.agent.recovered'', ''host.perf.alert'', ''host.process.first_seen'',
     ''host.memory.exhausted'', ''host.memory.recovered'', ''host.cpu.anomaly'', ''host.cpu.normal'',
     ''host.package_db.corrupted'', ''host.package_db.recovered'', ''host.collector.stalled'',
     ''host.collector.recovered''} \<union> set diff_actions"
proof -
  have act: "ev_action (host_derived E now ev i d' a y) = a" for i d' a y
    by (simp add: host_derived_def Let_def)
  consider i where "x \<in> set (fst (host_heartbeat E now ev i d))" | i where "x \<in> set (fst (host_snapshot E now ev i d))"
    using assms by (auto simp: host_project_def Let_def case_prod_beta split: if_splits)
  then show ?thesis
  proof cases
    case 1
    have "ev_action y \<in> {''host.first_seen'', ''host.agent.recovered''} \<or> ev_action y = ''host.perf.alert'' \<or>
        (\<exists>z st e b. z \<in> set (snd (compute_state_transitions E st e b)) \<and> ev_action y = fst z)"
      if "y \<in> set (fst (host_heartbeat E now ev i d))" for y
      using that unfolding host_heartbeat_def Let_def case_prod_beta fst_conv set_append Un_iff
      by (elim disjE)
        (auto simp: act host_transition_def perf_evaluate_def Let_def dest: evaluate_rules_actions
          split: option.splits bool.splits if_splits intro: fst_conv[symmetric])
    from this[OF 1] show ?thesis
      by (elim disjE exE conjE) (auto dest: state_transition_actions)
  next
    case 2
    then show ?thesis
      by (auto simp: host_snapshot_def Let_def act dest: diff_snapshots_actions split: if_splits)
  qed
qed

lemma observe_actions:
  "x \<in> set (fst (observe E ev now st)) \<Longrightarrow> ev_action x \<in> {''host.bruteforce'', ''vpn.bruteforce'',
     ''host.bruteforce.user'', ''vpn.bruteforce.user''}"
  by (auto simp: observe_def observe_ip_def observe_user_def check_dimension_def watch_ip_def watch_user_def
      Let_def case_prod_beta bruteforce_event_def split: if_splits option.splits)

end
