(* ===== verification/Router.thy ===== *)
theory Router
  imports RuleEngine Storage PerfAlerts
begin

text \<open>
  Notification routing (\<open>src/blackwatch/notify/model.py\<close>, \<open>notify/router.py\<close>): channels, legacy
  routes and notification rules, the conversion of a route to a condition, and the notifier, whose
  state is its configuration, the time of the last enqueue per (rule, channel, fingerprint) and the
  queue of the send worker it feeds. Sending itself is the worker's.
\<close>

section \<open>Configuration\<close>

record channel =
  ch_name :: string
  ch_type :: string
  ch_enabled :: bool
  ch_config :: dict
  ch_url :: "string option"
  ch_template :: "string option"
  ch_retries :: int
  ch_backoff :: int
  ch_rate_limit :: int
  ch_dedup_window :: int
  ch_digest_window :: int

definition resolved_config :: "channel \<Rightarrow> dict" where
  "resolved_config c =
     (if str_truthy (ch_url c) \<and> \<not> has_key (ch_config c) ''url''
      then ch_config c @ [(''url'', opt_val (ch_url c))] else ch_config c)"

record route =
  rt_name :: string
  rt_enabled :: bool
  rt_min_severity :: "severity option"
  rt_severity :: "severity list option"
  rt_categories :: "string list option"
  rt_modules :: "string list option"
  rt_actions :: "string list option"
  rt_tags :: "string list option"
  rt_channels :: "string list"

record nrule =
  nr_id :: string
  nr_name :: string
  nr_enabled :: bool
  nr_match :: condition
  nr_channels :: "string list"
  nr_throttle :: int
  nr_digest_window :: int
  nr_silence_until :: "time option"
  nr_priority :: int
  nr_template :: "string option"

section \<open>Legacy routes\<close>

definition opt_in :: "string option \<Rightarrow> string list option \<Rightarrow> bool" where
  "opt_in x xs = (case xs of None \<Rightarrow> True | Some ys \<Rightarrow> x \<in> Some ` set ys)"

definition route_matches :: "route \<Rightarrow> event \<Rightarrow> bool" where
  "route_matches r event =
     (rt_enabled r \<and>
      (case rt_min_severity r of None \<Rightarrow> True
       | Some s \<Rightarrow> \<not> severity_rank (ev_severity event) < severity_rank (Some s)) \<and>
      (case rt_severity r of None \<Rightarrow> True | Some ss \<Rightarrow> ev_severity event \<in> Some ` set ss) \<and>
      opt_in (Some (category_value (ev_category event))) (rt_categories r) \<and>
      opt_in (Some (src_module (ev_source event))) (rt_modules r) \<and>
      opt_in (Some (ev_action event)) (rt_actions r) \<and>
      (case rt_tags r of None \<Rightarrow> True | Some ts \<Rightarrow> set ts \<inter> set (ev_tags event) \<noteq> {}))"

definition in_clause :: "string \<Rightarrow> string list option \<Rightarrow> condition list" where
  "in_clause field xs = (case xs of None \<Rightarrow> []
     | Some ys \<Rightarrow> [leaf field ''in'' (PyList (map PyStr ys))])"

definition severities_from :: "severity \<Rightarrow> string list" where
  "severities_from s = drop (nat (severity_rank (Some s))) severity_order"

definition route_clauses :: "route \<Rightarrow> condition list" where
  "route_clauses r =
     in_clause ''severity'' (map_option severities_from (rt_min_severity r)) @
     in_clause ''severity'' (map_option (map severity_value) (rt_severity r)) @
     in_clause ''category'' (rt_categories r) @ in_clause ''source.module'' (rt_modules r) @
     in_clause ''action'' (rt_actions r) @ in_clause ''tags'' (rt_tags r)"

definition route_to_condition :: "route \<Rightarrow> condition" where
  "route_to_condition r =
     (case route_clauses r of
        [] \<Rightarrow> Condition (Some ''action'') (Some ''exists'') PyNone None None None
      | [c] \<Rightarrow> c
      | cs \<Rightarrow> all_of cs)"

section \<open>The notifier\<close>

record queue_item =
  qi_rule :: nrule
  qi_channel :: channel
  qi_channel_id :: "string option"
  qi_event :: event

type_synonym send_key = "string \<times> string \<times> string"

record notifier =
  nf_channels :: "(string \<times> channel) list"
  nf_rules :: "nrule list"
  nf_channel_ids :: "(string \<times> string) list"
  nf_last_sent :: "(send_key \<times> time) list"
  nf_queue :: "queue_item list"

datatype outcome_note = Acked string | Skipped string string | Throttled string string
  | Queued string string

definition new_notifier :: "(string \<times> channel) list \<Rightarrow> nrule list \<Rightarrow> (string \<times> string) list \<Rightarrow> notifier" where
  "new_notifier chans rules ids = \<lparr>nf_channels = chans, nf_rules = rules, nf_channel_ids = ids,
     nf_last_sent = [], nf_queue = []\<rparr>"

text \<open>A reload takes the rows that \<open>storage\<close> lists; \<open>None\<close>: the call raised.\<close>

definition reload_rules :: "nrule list option \<Rightarrow> notifier \<Rightarrow> notifier" where
  "reload_rules rows n = (case rows of None \<Rightarrow> n | Some rs \<Rightarrow> n\<lparr>nf_rules := rs\<rparr>)"

definition reload_channels :: "(channel \<times> string) list option \<Rightarrow> notifier \<Rightarrow> notifier" where
  "reload_channels rows n = (case rows of None \<Rightarrow> n
     | Some rs \<Rightarrow> n\<lparr>nf_channels := map (\<lambda>(k, c, i). (k, c)) (dict_by (ch_name \<circ> fst) rs),
                   nf_channel_ids := map (\<lambda>(k, c, i). (k, i)) (dict_by (ch_name \<circ> fst) rs)\<rparr>)"

definition throttle_window :: "int \<Rightarrow> channel \<Rightarrow> int" where
  "throttle_window throttle c = (if throttle \<noteq> 0 then throttle else ch_dedup_window c)"

definition throttled :: "int \<Rightarrow> time option \<Rightarrow> time \<Rightarrow> bool" where
  "throttled window last_sent now =
     (window > 0 \<and> (case last_sent of None \<Rightarrow> False | Some t \<Rightarrow> now - t < real_of_int window))"

text \<open>One channel of a rule: \<open>rule\<close> goes into the queue, \<open>key_id\<close> into the throttle key.\<close>

definition offer ::
  "time \<Rightarrow> event \<Rightarrow> string \<Rightarrow> int \<Rightarrow> nrule \<Rightarrow> string \<Rightarrow> notifier \<Rightarrow> outcome_note \<times> notifier" where
  "offer now event key_id throttle rule cname n =
     (case map_of (nf_channels n) cname of
        None \<Rightarrow> (Skipped (nr_name rule) cname, n)
      | Some c \<Rightarrow>
          if \<not> ch_enabled c then (Skipped (nr_name rule) cname, n)
          else
            let key = (key_id, ch_name c, ev_fingerprint event);
                window = throttle_window throttle c
            in if throttled window (map_of (nf_last_sent n) key) now
               then (Throttled (nr_name rule) (ch_name c), n)
               else (Queued (nr_name rule) (ch_name c),
                     n\<lparr>nf_last_sent := AList.update key now (nf_last_sent n),
                       nf_queue := nf_queue n @
                         [\<lparr>qi_rule = rule, qi_channel = c,
                           qi_channel_id = map_of (nf_channel_ids n) cname, qi_event = event\<rparr>]\<rparr>))"

fun offer_all ::
  "time \<Rightarrow> event \<Rightarrow> string \<Rightarrow> int \<Rightarrow> (string \<Rightarrow> nrule) \<Rightarrow> string list \<Rightarrow> notifier \<Rightarrow>
   outcome_note list \<times> notifier" where
  "offer_all now event key_id throttle rule_for [] n = ([], n)"
| "offer_all now event key_id throttle rule_for (c # cs) n =
     (let (o1, n1) = offer now event key_id throttle (rule_for c) c n;
          (os, n2) = offer_all now event key_id throttle rule_for cs n1
      in (o1 # os, n2))"

text \<open>A rule takes part when it is enabled, not silenced, and its condition holds; a condition that
  raises counts as no match.\<close>

definition rule_active :: "pyenv \<Rightarrow> time \<Rightarrow> event \<Rightarrow> nrule \<Rightarrow> bool" where
  "rule_active E now event r =
     (nr_enabled r \<and>
      (case nr_silence_until r of None \<Rightarrow> True | Some t \<Rightarrow> \<not> t > now) \<and>
      eval_condition E event (nr_match r) = Inr True)"

fun dispatch_rules ::
  "pyenv \<Rightarrow> time \<Rightarrow> event \<Rightarrow> nrule list \<Rightarrow> notifier \<Rightarrow> outcome_note list \<times> notifier" where
  "dispatch_rules E now event [] n = ([], n)"
| "dispatch_rules E now event (r # rs) n =
     (if \<not> rule_active E now event r then dispatch_rules E now event rs n
      else let (o1, n1) = offer_all now event (nr_id r) (nr_throttle r) (\<lambda>_. r) (nr_channels r) n;
               (o2, n2) = dispatch_rules E now event rs n1
           in (o1 @ o2, n2))"

definition ack_hit :: "pyenv \<Rightarrow> time \<Rightarrow> event \<Rightarrow> db \<Rightarrow> bool" where
  "ack_hit E now event d =
     (\<not> db_fails E ''is_fingerprint_acked'' \<and> is_fingerprint_acked now (ev_fingerprint event) d)"

definition dispatch ::
  "pyenv \<Rightarrow> time \<Rightarrow> event \<Rightarrow> db \<Rightarrow> notifier \<Rightarrow> outcome_note list \<times> notifier" where
  "dispatch E now event d n =
     (if ack_hit E now event d then ([Acked (ev_fingerprint event)], n)
      else dispatch_rules E now event (nf_rules n) n)"

definition empty_condition :: condition where
  "empty_condition = Condition None None PyNone None None None"

definition virtual_rule :: "direct_dispatch \<Rightarrow> string \<Rightarrow> nrule" where
  "virtual_rule r cname =
     \<lparr>nr_id = str_or (Some (dd_rule_id r)) (''perf:'' @ dd_rule_name r), nr_name = dd_rule_name r,
      nr_enabled = True, nr_match = empty_condition, nr_channels = [cname],
      nr_throttle = dd_throttle r, nr_digest_window = 0, nr_silence_until = None,
      nr_priority = 100, nr_template = None\<rparr>"

definition dispatch_direct ::
  "pyenv \<Rightarrow> time \<Rightarrow> direct_dispatch \<Rightarrow> db \<Rightarrow> notifier \<Rightarrow> outcome_note list \<times> notifier" where
  "dispatch_direct E now r d n =
     (if ack_hit E now (dd_event r) d then ([Acked (ev_fingerprint (dd_event r))], n)
      else offer_all now (dd_event r) (str_or (Some (dd_rule_id r)) (dd_rule_name r)) (dd_throttle r)
             (virtual_rule r) (dd_channels r) n)"

section \<open>Routes and conditions\<close>

lemma eval_leaf_in [simp]:
  "f \<noteq> [] \<Longrightarrow> eval_leaf E ev (Some f) (Some ''in'') v = Inr (op_in (get_field ev f) v)"
  by (simp add: eval_leaf_def apply_operator_def)

lemma eval_all_known:
  "(\<And>c. c \<in> set cs \<Longrightarrow> eval_condition E ev c = Inr (p c)) \<Longrightarrow>
   eval_all E ev cs = Inr (list_all p cs)"
  by (induction cs) auto

definition clause_holds :: "event \<Rightarrow> string \<Rightarrow> string list option \<Rightarrow> bool" where
  "clause_holds ev f xs = (case xs of None \<Rightarrow> True
     | Some ys \<Rightarrow> op_in (get_field ev f) (PyList (map PyStr ys)))"

lemma in_clause_eval:
  "f \<noteq> [] \<Longrightarrow> eval_all E ev (in_clause f xs) = Inr (clause_holds ev f xs)"
  by (simp add: in_clause_def clause_holds_def split: option.split)

lemma eval_all_append:
  "eval_all E ev cs = Inr p \<Longrightarrow> eval_all E ev ds = Inr q \<Longrightarrow> eval_all E ev (cs @ ds) = Inr (p \<and> q)"
  by (induction cs arbitrary: p) (auto split: sum.splits if_splits)

lemma route_clauses_eval:
  "eval_all E ev (route_clauses r) = Inr
     (clause_holds ev ''severity'' (map_option severities_from (rt_min_severity r)) \<and>
      clause_holds ev ''severity'' (map_option (map severity_value) (rt_severity r)) \<and>
      clause_holds ev ''category'' (rt_categories r) \<and> clause_holds ev ''source.module'' (rt_modules r) \<and>
      clause_holds ev ''action'' (rt_actions r) \<and> clause_holds ev ''tags'' (rt_tags r))"
  unfolding route_clauses_def by (intro eval_all_append in_clause_eval) simp_all

lemma route_condition_all:
  "route_clauses r \<noteq> [] \<Longrightarrow>
   eval_condition E ev (route_to_condition r) = eval_all E ev (route_clauses r)"
  by (cases "route_clauses r" rule: remdups_adj.cases)
    (auto simp: route_to_condition_def all_of_def split: sum.splits)

lemma severities_from_iff:
  "severity_value t \<in> set (severities_from s) \<longleftrightarrow> severity_rank (Some s) \<le> severity_rank (Some t)"
  by (cases s; cases t) (simp_all add: severities_from_def severity_order_def eval_nat_numeral)

lemma clause_min_severity:
  "clause_holds ev ''severity'' (map_option severities_from m) \<longleftrightarrow>
     (case m of None \<Rightarrow> True | Some s \<Rightarrow> \<not> severity_rank (ev_severity ev) < severity_rank (Some s))"
proof (cases m)
  case None
  then show ?thesis by (simp add: clause_holds_def)
next
  case (Some s)
  show ?thesis
  proof (cases "ev_severity ev")
    case None
    then show ?thesis
      using Some by (cases s) (simp_all add: clause_holds_def)
  next
    case (Some t)
    then show ?thesis
      using severities_from_iff[of t s] \<open>m = Some s\<close> by (auto simp: clause_holds_def op_in_strs)
  qed
qed

lemma clause_severity:
  "clause_holds ev ''severity'' (map_option (map severity_value) ss) \<longleftrightarrow>
     (case ss of None \<Rightarrow> True | Some xs \<Rightarrow> ev_severity ev \<in> Some ` set xs)"
proof (cases ss)
  case None
  then show ?thesis by (simp add: clause_holds_def)
next
  case (Some xs)
  then show ?thesis
    by (cases "ev_severity ev") (auto simp: clause_holds_def op_in_strs severity_value_inj image_iff
        simp del: map_map list.map_comp)
qed

lemma clause_rest:
  "clause_holds ev ''category'' xs \<longleftrightarrow> opt_in (Some (category_value (ev_category ev))) xs"
  "clause_holds ev ''source.module'' xs \<longleftrightarrow> opt_in (Some (src_module (ev_source ev))) xs"
  "clause_holds ev ''action'' xs \<longleftrightarrow> opt_in (Some (ev_action ev)) xs"
  "clause_holds ev ''tags'' xs \<longleftrightarrow>
     (case xs of None \<Rightarrow> True | Some ts \<Rightarrow> set ts \<inter> set (ev_tags ev) \<noteq> {})"
  by (auto simp: clause_holds_def opt_in_def op_in_strs op_in_list_strs split: option.split)

lemma route_clauses_empty:
  "route_clauses r = [] \<longleftrightarrow> rt_min_severity r = None \<and> rt_severity r = None \<and> rt_categories r = None \<and>
     rt_modules r = None \<and> rt_actions r = None \<and> rt_tags r = None"
  by (auto simp: route_clauses_def in_clause_def split: option.splits)

lemma exists_action: "eval_condition E ev (Condition (Some ''action'') (Some ''exists'') PyNone None None None) = Inr True"
  by (simp add: eval_leaf_def apply_operator_def op_exists_def)

section \<open>The queue and the throttle\<close>

text \<open>What an offer appends to the queue.\<close>

lemma offer_queue:
  "nf_queue (snd (offer now ev k th r c n)) = nf_queue n \<or>
   (\<exists>ch. map_of (nf_channels n) c = Some ch \<and> ch_enabled ch \<and>
      \<not> throttled (throttle_window th ch) (map_of (nf_last_sent n) (k, ch_name ch, ev_fingerprint ev)) now \<and>
      nf_queue (snd (offer now ev k th r c n)) = nf_queue n @
        [\<lparr>qi_rule = r, qi_channel = ch, qi_channel_id = map_of (nf_channel_ids n) c, qi_event = ev\<rparr>])"
  by (auto simp: offer_def Let_def split: option.splits)

lemma offer_frame [frame_simps]:
  "nf_channels (snd (offer now ev k th r c n)) = nf_channels n"
  "nf_rules (snd (offer now ev k th r c n)) = nf_rules n"
  "nf_channel_ids (snd (offer now ev k th r c n)) = nf_channel_ids n"
  by (simp_all add: offer_def Let_def split: option.split)

lemma offer_all_frame [frame_simps]:
  "nf_channels (snd (offer_all now ev k th rf cs n)) = nf_channels n"
  "nf_rules (snd (offer_all now ev k th rf cs n)) = nf_rules n"
  by (induction cs arbitrary: n) (simp_all add: Let_def case_prod_beta frame_simps)

lemma dispatch_rules_frame [frame_simps]:
  "nf_channels (snd (dispatch_rules E now ev rs n)) = nf_channels n"
  "nf_rules (snd (dispatch_rules E now ev rs n)) = nf_rules n"
  by (induction rs arbitrary: n) (simp_all add: Let_def case_prod_beta frame_simps)

text \<open>The items a queue gained.\<close>

definition good_item :: "event \<Rightarrow> (string \<times> channel) list \<Rightarrow> nrule \<Rightarrow> queue_item \<Rightarrow> bool" where
  "good_item ev chans r q \<longleftrightarrow> qi_event q = ev \<and> qi_rule q = r \<and> ch_enabled (qi_channel q) \<and>
     (\<exists>c \<in> set (nr_channels r). map_of chans c = Some (qi_channel q))"

lemma offer_all_items:
  "\<exists>qs. nf_queue (snd (offer_all now ev k th (\<lambda>_. r) cs n)) = nf_queue n @ qs \<and>
     (set cs \<subseteq> set (nr_channels r) \<longrightarrow> (\<forall>q \<in> set qs. good_item ev (nf_channels n) r q))"
proof (induction cs arbitrary: n)
  case Nil
  then show ?case by simp
next
  case (Cons c cs)
  let ?n = "snd (offer now ev k th r c n)"
  obtain qs where qs: "nf_queue (snd (offer_all now ev k th (\<lambda>_. r) cs ?n)) = nf_queue ?n @ qs"
      "set cs \<subseteq> set (nr_channels r) \<longrightarrow> (\<forall>q \<in> set qs. good_item ev (nf_channels n) r q)"
    using Cons.IH[of ?n] by (auto simp: frame_simps)
  from offer_queue[of now ev k th r c n] show ?case
  proof (elim disjE exE conjE)
    assume "nf_queue ?n = nf_queue n"
    then show ?thesis using qs by (auto simp: Let_def case_prod_beta)
  next
    fix ch
    assume ch: "map_of (nf_channels n) c = Some ch" "ch_enabled ch"
      and q: "nf_queue ?n = nf_queue n @
        [\<lparr>qi_rule = r, qi_channel = ch, qi_channel_id = map_of (nf_channel_ids n) c, qi_event = ev\<rparr>]"
    show ?thesis
      using qs ch by (auto simp: Let_def case_prod_beta q good_item_def)
  qed
qed

lemma dispatch_rules_items:
  "\<exists>qs. nf_queue (snd (dispatch_rules E now ev rs n)) = nf_queue n @ qs \<and>
     (\<forall>q \<in> set qs. \<exists>r \<in> set rs. rule_active E now ev r \<and> good_item ev (nf_channels n) r q)"
proof (induction rs arbitrary: n)
  case Nil
  then show ?case by simp
next
  case (Cons r rs)
  show ?case
  proof (cases "rule_active E now ev r")
    case False
    then show ?thesis using Cons.IH[of n] by fastforce
  next
    case True
    let ?n = "snd (offer_all now ev (nr_id r) (nr_throttle r) (\<lambda>_. r) (nr_channels r) n)"
    obtain qs where qs: "nf_queue ?n = nf_queue n @ qs" "\<forall>q \<in> set qs. good_item ev (nf_channels n) r q"
      using offer_all_items[of now ev "nr_id r" "nr_throttle r" r "nr_channels r" n] by auto
    obtain qs' where qs': "nf_queue (snd (dispatch_rules E now ev rs ?n)) = nf_queue ?n @ qs'"
        "\<forall>q \<in> set qs'. \<exists>r \<in> set rs. rule_active E now ev r \<and> good_item ev (nf_channels n) r q"
      using Cons.IH[of ?n] by (auto simp: frame_simps)
    show ?thesis
      using True qs qs' by (auto simp: Let_def case_prod_beta)
  qed
qed

section \<open>Spacing of the items of one key\<close>

fun chain :: "real \<Rightarrow> time option \<Rightarrow> time list \<Rightarrow> bool" where
  "chain w l [] = True"
| "chain w l (t # ts) = ((case l of None \<Rightarrow> True | Some s \<Rightarrow> w \<le> t - s) \<and> chain w (Some t) ts)"

definition latest :: "time option \<Rightarrow> time list \<Rightarrow> time option" where
  "latest l ts = (if ts = [] then l else Some (last ts))"

lemma chain_append: "chain w l (xs @ ys) \<longleftrightarrow> chain w l xs \<and> chain w (latest l xs) ys"
  by (induction xs arbitrary: l) (auto simp: latest_def)

lemma latest_append: "latest l (xs @ ys) = latest (latest l xs) ys"
  by (simp add: latest_def)

lemma chain_lower: "0 \<le> w \<Longrightarrow> chain w (Some s) ts \<Longrightarrow> t \<in> set ts \<Longrightarrow> w \<le> t - s"
  by (induction ts arbitrary: s) force+

lemma chain_spaced: "0 \<le> w \<Longrightarrow> chain w l ts \<Longrightarrow> sorted_wrt (\<lambda>a b. w \<le> b - a) ts"
  by (induction ts arbitrary: l) (auto dest: chain_lower)

definition item_key :: "queue_item \<Rightarrow> send_key" where
  "item_key q = (nr_id (qi_rule q), ch_name (qi_channel q), ev_fingerprint (qi_event q))"

text \<open>From \<open>n\<close> to \<open>n'\<close> the queue only grew, by items of the key at the times \<open>ts\<close>.\<close>

definition key_times :: "send_key \<Rightarrow> time \<Rightarrow> queue_item list \<Rightarrow> time list" where
  "key_times key now qs = map (\<lambda>_. now) (filter (\<lambda>q. item_key q = key) qs)"

definition advances :: "real \<Rightarrow> send_key \<Rightarrow> time \<Rightarrow> notifier \<Rightarrow> notifier \<Rightarrow> bool" where
  "advances w key now n n' \<longleftrightarrow> (\<exists>qs. nf_queue n' = nf_queue n @ qs \<and>
     chain w (map_of (nf_last_sent n) key) (key_times key now qs) \<and>
     map_of (nf_last_sent n') key = latest (map_of (nf_last_sent n) key) (key_times key now qs))"

lemma key_times_append [simp]: "key_times key now (xs @ ys) = key_times key now xs @ key_times key now ys"
  by (simp add: key_times_def)

lemma advances_refl: "advances w key now n n"
  by (simp add: advances_def key_times_def latest_def)

lemma advances_trans: "advances w key now n n' \<Longrightarrow> advances w key now n' n'' \<Longrightarrow> advances w key now n n''"
  unfolding advances_def
  by (elim exE conjE, rule_tac x = "qs @ qsa" in exI)
    (simp add: key_times_append chain_append latest_append)

text \<open>Every rule of this id and channel of this name has a window of at least \<open>w\<close>.\<close>

definition window_ok :: "real \<Rightarrow> send_key \<Rightarrow> notifier \<Rightarrow> bool" where
  "window_ok w key n \<longleftrightarrow> 0 < w \<and>
     (\<forall>r \<in> set (nf_rules n). nr_id r = fst key \<longrightarrow>
        (\<forall>(_, c) \<in> set (nf_channels n). ch_name c = fst (snd key) \<longrightarrow>
           w \<le> real_of_int (throttle_window (nr_throttle r) c)))"

lemma offer_advances:
  assumes "window_ok w key n" and "r \<in> set (nf_rules n)"
  shows "advances w key now n (snd (offer now ev (nr_id r) (nr_throttle r) r c n))"
proof (cases "map_of (nf_channels n) c")
  case None
  then show ?thesis by (simp add: offer_def advances_refl)
next
  case (Some ch)
  let ?k = "(nr_id r, ch_name ch, ev_fingerprint ev)"
  show ?thesis
  proof (cases "ch_enabled ch \<and>
      \<not> throttled (throttle_window (nr_throttle r) ch) (map_of (nf_last_sent n) ?k) now")
    case False
    then show ?thesis by (simp add: offer_def Some Let_def advances_refl)
  next
    case True
    let ?q = "\<lparr>qi_rule = r, qi_channel = ch, qi_channel_id = map_of (nf_channel_ids n) c, qi_event = ev\<rparr>"
    have o: "nf_queue (snd (offer now ev (nr_id r) (nr_throttle r) r c n)) = nf_queue n @ [?q]"
        "nf_last_sent (snd (offer now ev (nr_id r) (nr_throttle r) r c n)) =
           AList.update ?k now (nf_last_sent n)"
      using True by (simp_all add: offer_def Some Let_def)
    have "w \<le> now - t" if "?k = key" "map_of (nf_last_sent n) key = Some t" for t
    proof -
      have w: "w \<le> real_of_int (throttle_window (nr_throttle r) ch)"
        using assms that(1) map_of_SomeD[OF Some] by (fastforce simp: window_ok_def)
      moreover have "0 < w" using assms(1) by (simp add: window_ok_def)
      ultimately show ?thesis using True that by (auto simp: throttled_def)
    qed
    then show ?thesis
      unfolding advances_def o
      by (intro exI[of _ "[?q]"]) (auto simp: key_times_def item_key_def latest_def tbl.get_put split: option.split)
  qed
qed

lemma window_ok_frame:
  "nf_rules n' = nf_rules n \<Longrightarrow> nf_channels n' = nf_channels n \<Longrightarrow> window_ok w key n' = window_ok w key n"
  by (simp add: window_ok_def)

lemma offer_all_advances:
  "window_ok w key n \<Longrightarrow> r \<in> set (nf_rules n) \<Longrightarrow>
   advances w key now n (snd (offer_all now ev (nr_id r) (nr_throttle r) (\<lambda>_. r) cs n))"
proof (induction cs arbitrary: n)
  case Nil
  then show ?case by (simp add: advances_refl)
next
  case (Cons c cs)
  let ?n = "snd (offer now ev (nr_id r) (nr_throttle r) r c n)"
  have "window_ok w key ?n" "r \<in> set (nf_rules ?n)"
    using Cons.prems window_ok_frame[of ?n n] by (simp_all add: frame_simps)
  from Cons.IH[OF this] offer_advances[OF Cons.prems, of now ev c] show ?case
    by (auto simp: Let_def case_prod_beta intro: advances_trans)
qed

lemma dispatch_rules_advances:
  "window_ok w key n \<Longrightarrow> set rs \<subseteq> set (nf_rules n) \<Longrightarrow>
   advances w key now n (snd (dispatch_rules E now ev rs n))"
proof (induction rs arbitrary: n)
  case Nil
  then show ?case by (simp add: advances_refl)
next
  case (Cons r rs)
  let ?n = "snd (offer_all now ev (nr_id r) (nr_throttle r) (\<lambda>_. r) (nr_channels r) n)"
  have "window_ok w key ?n" "set rs \<subseteq> set (nf_rules ?n)"
    using Cons.prems window_ok_frame[of ?n n] by (simp_all add: frame_simps)
  from Cons.IH[OF this] Cons.IH[of n] Cons.prems
    offer_all_advances[OF Cons.prems(1), of r now ev "nr_channels r"]
  show ?case by (auto simp: Let_def case_prod_beta intro: advances_trans)
qed

fun dispatch_run ::
  "pyenv \<Rightarrow> (event \<times> time) list \<Rightarrow> db \<Rightarrow> notifier \<Rightarrow> (time \<times> queue_item list) list" where
  "dispatch_run E [] d n = []"
| "dispatch_run E ((ev, now) # evs) d n =
     (let n' = snd (dispatch E now ev d n)
      in (now, drop (length (nf_queue n)) (nf_queue n')) # dispatch_run E evs d n')"

lemma dispatch_advances:
  "window_ok w key n \<Longrightarrow> advances w key now n (snd (dispatch E now ev d n))"
  by (simp add: dispatch_def advances_refl dispatch_rules_advances)

lemma dispatch_frame [frame_simps]:
  "nf_channels (snd (dispatch E now ev d n)) = nf_channels n"
  "nf_rules (snd (dispatch E now ev d n)) = nf_rules n"
  by (simp_all add: dispatch_def frame_simps)

lemma dispatch_run_chain:
  "window_ok w key n \<Longrightarrow>
   chain w (map_of (nf_last_sent n) key)
     (concat (map (\<lambda>(now, qs). key_times key now qs) (dispatch_run E evs d n)))"
proof (induction evs arbitrary: n)
  case Nil
  then show ?case by simp
next
  case (Cons x evs)
  obtain ev now where x: "x = (ev, now)" by fastforce
  let ?n = "snd (dispatch E now ev d n)"
  obtain qs where qs: "nf_queue ?n = nf_queue n @ qs"
      "chain w (map_of (nf_last_sent n) key) (key_times key now qs)"
      "map_of (nf_last_sent ?n) key = latest (map_of (nf_last_sent n) key) (key_times key now qs)"
    using dispatch_advances[OF Cons.prems, of now E ev d] by (auto simp: advances_def)
  have "window_ok w key ?n"
    using Cons.prems window_ok_frame[of ?n n] by (simp add: frame_simps)
  from Cons.IH[OF this] qs show ?case by (simp add: x Let_def chain_append)
qed

section \<open>Properties\<close>

text \<open>C36: The migration of a legacy route is faithful: evaluating the condition it is converted to
  never raises and decides as the route does when it is enabled, for every event.\<close>

theorem route_condition_equiv:
  "eval_condition E ev (route_to_condition r) = Inr (route_matches (r\<lparr>rt_enabled := True\<rparr>) ev)"
proof (cases "route_clauses r = []")
  case True
  then have "route_to_condition r = Condition (Some ''action'') (Some ''exists'') PyNone None None None"
    by (simp add: route_to_condition_def)
  with True show ?thesis
    by (simp only: exists_action) (simp add: route_clauses_empty route_matches_def opt_in_def)
next
  case False
  show ?thesis
    unfolding route_condition_all[OF False] route_clauses_eval clause_min_severity clause_severity clause_rest
    by (simp add: route_matches_def)
qed

text \<open>C32: Nothing is queued without cause: dispatching an event appends only items of that event, each
  for a rule that is enabled, not silenced and whose condition holds, on an enabled channel the rule
  names; and an acknowledged fingerprint queues nothing.\<close>

theorem dispatch_queues_only_matches:
  "\<exists>qs. nf_queue (snd (dispatch E now ev d n)) = nf_queue n @ qs \<and>
    (ack_hit E now ev d \<longrightarrow> qs = []) \<and>
    (\<forall>q \<in> set qs. qi_event q = ev \<and> qi_rule q \<in> set (nf_rules n) \<and>
       rule_active E now ev (qi_rule q) \<and> ch_enabled (qi_channel q) \<and>
       (\<exists>c \<in> set (nr_channels (qi_rule q)). map_of (nf_channels n) c = Some (qi_channel q)))"
proof (cases "ack_hit E now ev d")
  case True
  then show ?thesis by (simp add: dispatch_def)
next
  case False
  obtain qs where "nf_queue (snd (dispatch_rules E now ev (nf_rules n) n)) = nf_queue n @ qs"
      "\<forall>q \<in> set qs. \<exists>r \<in> set (nf_rules n). rule_active E now ev r \<and> good_item ev (nf_channels n) r q"
    using dispatch_rules_items by blast
  then show ?thesis using False by (auto simp: dispatch_def good_item_def)
qed

definition demo_channel :: channel where
  "demo_channel = \<lparr>ch_name = ''slack'', ch_type = ''slack'', ch_enabled = True, ch_config = [],
     ch_url = None, ch_template = None, ch_retries = 3, ch_backoff = 5, ch_rate_limit = 2,
     ch_dedup_window = 300, ch_digest_window = 0\<rparr>"

definition demo_nrule :: nrule where
  "demo_nrule = \<lparr>nr_id = ''r'', nr_name = ''all'', nr_enabled = True,
     nr_match = Condition (Some ''action'') (Some ''exists'') PyNone None None None,
     nr_channels = [''slack''], nr_throttle = 0, nr_digest_window = 0, nr_silence_until = None,
     nr_priority = 100, nr_template = None\<rparr>"

definition demo_notifier :: notifier where
  "demo_notifier = new_notifier [(''slack'', demo_channel)] [demo_nrule] []"

lemma dispatch_queues_only_matches_witness:
  "\<exists>qs. nf_queue (snd (dispatch demo_env 0 demo_event (empty_db\<lparr>db_acks := [(ev_fingerprint demo_event, 9)]\<rparr>)
      demo_notifier)) = nf_queue demo_notifier @ qs \<and> qs = []"
proof -
  have "ack_hit demo_env 0 demo_event (empty_db\<lparr>db_acks := [(ev_fingerprint demo_event, 9)]\<rparr>)"
    by (simp add: ack_hit_def is_fingerprint_acked_def)
  then show ?thesis
    using dispatch_queues_only_matches [of demo_env 0 demo_event
        "empty_db\<lparr>db_acks := [(ev_fingerprint demo_event, 9)]\<rparr>" demo_notifier] by blast
qed

text \<open>C31: The throttle: over any sequence of dispatches, two items queued for the same rule, channel and
  fingerprint are at least the throttle window apart.\<close>

theorem dispatch_throttle_spaced:
  assumes "0 < w"
    and "\<forall>r \<in> set (nf_rules n). nr_id r = rid \<longrightarrow> (\<forall>(_, c) \<in> set (nf_channels n).
      ch_name c = cname \<longrightarrow> w \<le> real_of_int (throttle_window (nr_throttle r) c))"
  shows "sorted_wrt (\<lambda>a b. w \<le> b - a)
    (concat (map (\<lambda>(now, qs). key_times (rid, cname, fp) now qs) (dispatch_run E evs d n)))"
proof -
  have "window_ok w (rid, cname, fp) n" using assms by (simp add: window_ok_def)
  from chain_spaced[OF _ dispatch_run_chain[OF this]] assms(1) show ?thesis by simp
qed

lemma dispatch_throttle_spaced_witness:
  "sorted_wrt (\<lambda>a b. 300 \<le> b - a) (concat (map (\<lambda>(now, qs). key_times (''r'', ''slack'', ''f'') now qs)
     (dispatch_run demo_env [(demo_event, 0), (demo_event, 60), (demo_event, 400)] empty_db demo_notifier)))"
  using dispatch_throttle_spaced [of 300 demo_notifier "''r''" "''slack''" "''f''" demo_env
      "[(demo_event, 0), (demo_event, 60), (demo_event, 400)]" empty_db]
  by (simp add: demo_notifier_def new_notifier_def demo_nrule_def demo_channel_def throttle_window_def)

end
