(* ===== verification/Noise.thy ===== *)
theory Noise
  imports Storage "HOL-Library.Product_Lexorder"
begin

text \<open>
  Noise control (\<open>src/blackwatch/noise.py\<close>) over the table \<open>muted_events\<close> of
  \<open>src/blackwatch/storage.py\<close>: the stored mute rules, the in-memory copy that \<open>refresh\<close> loads, and
  the test that drops an event at ingest. The table is its rows with the next identifier.
\<close>

section \<open>The table\<close>

record mute_rule =
  mu_action :: string
  mu_source_type :: "string option"
  mu_username :: "string option"
  mu_reason :: "string option"

record mute_row =
  mw_id :: int
  mw_rule :: mute_rule
  mw_note :: "string option"
  mw_created_at :: time

record mute_table =
  mt_rows :: "mute_row list"
  mt_next_id :: int

definition list_muted_events :: "mute_table \<Rightarrow> mute_row list" where
  "list_muted_events t = sort_key (\<lambda>r. (mu_action (mw_rule r), mw_id r)) (mt_rows t)"

definition add_muted_event :: "time \<Rightarrow> mute_rule \<Rightarrow> string option \<Rightarrow> mute_table \<Rightarrow> int \<times> mute_table" where
  "add_muted_event now rule note t =
     (mt_next_id t,
      t\<lparr>mt_rows := mt_rows t @ [\<lparr>mw_id = mt_next_id t, mw_rule = rule, mw_note = note, mw_created_at = now\<rparr>],
        mt_next_id := mt_next_id t + 1\<rparr>)"

definition remove_muted_event :: "int \<Rightarrow> mute_table \<Rightarrow> mute_table" where
  "remove_muted_event i t = t\<lparr>mt_rows := filter (\<lambda>r. mw_id r \<noteq> i) (mt_rows t)\<rparr>"

section \<open>The in-memory rules\<close>

definition refresh_mutes :: "pyenv \<Rightarrow> mute_table \<Rightarrow> mute_rule list \<Rightarrow> mute_rule list" where
  "refresh_mutes E t muted =
     (if db_fails E ''list_muted_events'' then muted else map mw_rule (list_muted_events t))"

definition event_field :: "event \<Rightarrow> string \<Rightarrow> pyval" where
  "event_field event key =
     (let x = ev_extra event in
      if key = ''source_type'' then py_or (dget x ''source_type'') (dget x ''source'')
      else if key = ''username''
        then py_or (py_or (dget x ''user'') (dget x ''username'')) (opt_val (act_principal (ev_actor event)))
      else if key = ''reason'' then dget x ''reason''
      else PyNone)"

definition field_differs :: "string option \<Rightarrow> pyval \<Rightarrow> bool" where
  "field_differs wanted v = (case wanted of None \<Rightarrow> False | Some s \<Rightarrow> \<not> py_eq (PyStr s) v)"

fun is_muted :: "mute_rule list \<Rightarrow> event \<Rightarrow> bool" where
  "is_muted [] event = False"
| "is_muted (r # rs) event =
     (if mu_action r \<noteq> ev_action event then is_muted rs event
      else if field_differs (mu_source_type r) (event_field event ''source_type'') then is_muted rs event
      else if field_differs (mu_username r) (event_field event ''username'') then is_muted rs event
      else if field_differs (mu_reason r) (event_field event ''reason'') then is_muted rs event
      else True)"

definition muted_view :: "mute_rule list \<Rightarrow> dict list" where
  "muted_view rules = map (\<lambda>r. [(''action'', PyStr (mu_action r)), (''source_type'', opt_val (mu_source_type r)),
     (''username'', opt_val (mu_username r)), (''reason'', opt_val (mu_reason r))]) rules"

section \<open>What muting means\<close>

text \<open>A rule covers an event when every field it sets is the event's.\<close>

definition mute_covers :: "mute_rule \<Rightarrow> event \<Rightarrow> bool" where
  "mute_covers r event \<longleftrightarrow> mu_action r = ev_action event \<and>
     (\<forall>s. mu_source_type r = Some s \<longrightarrow> py_eq (PyStr s) (event_field event ''source_type'')) \<and>
     (\<forall>s. mu_username r = Some s \<longrightarrow> py_eq (PyStr s) (event_field event ''username'')) \<and>
     (\<forall>s. mu_reason r = Some s \<longrightarrow> py_eq (PyStr s) (event_field event ''reason''))"

lemma is_muted_iff: "is_muted rules event \<longleftrightarrow> (\<exists>r \<in> set rules. mute_covers r event)"
  by (induction rules) (auto simp: mute_covers_def field_differs_def simp del: py_eq.simps split: option.splits)

lemma set_refresh_mutes:
  "\<not> db_fails E ''list_muted_events'' \<Longrightarrow> set (refresh_mutes E t muted) = mw_rule ` set (mt_rows t)"
  by (simp add: refresh_mutes_def list_muted_events_def)

text \<open>Identifiers come from a sequence, so a new one is not in the table.\<close>

definition mute_ids_ok :: "mute_table \<Rightarrow> bool" where
  "mute_ids_ok t \<longleftrightarrow> (\<forall>r \<in> set (mt_rows t). mw_id r < mt_next_id t) \<and> distinct (map mw_id (mt_rows t))"

lemma mute_ids_add: "mute_ids_ok t \<Longrightarrow> mute_ids_ok (snd (add_muted_event now rule note t))"
  by (auto simp: mute_ids_ok_def add_muted_event_def)

lemma mute_ids_remove: "mute_ids_ok t \<Longrightarrow> mute_ids_ok (remove_muted_event i t)"
  by (auto simp: mute_ids_ok_def remove_muted_event_def distinct_map_filter)

text \<open>Adding a mute and refreshing mutes exactly the events muted before and those the new rule
  covers (same action, and every set field equal); removing that mute again and refreshing brings
  back exactly the former muting. The identifiers stay unique.
\<close>
theorem mute_add_remove:
  assumes "\<not> db_fails E ''list_muted_events''" and "mute_ids_ok t"
    and "add_muted_event now rule note t = (i, t')"
  shows "(is_muted (refresh_mutes E t' muted) event \<longleftrightarrow>
            is_muted (refresh_mutes E t muted) event \<or> mute_covers rule event) \<and>
         is_muted (refresh_mutes E (remove_muted_event i t') muted) event = is_muted (refresh_mutes E t muted) event \<and>
         mute_ids_ok t' \<and> mute_ids_ok (remove_muted_event i t')"
proof -
  have rows: "set (mt_rows t') = insert \<lparr>mw_id = i, mw_rule = rule, mw_note = note, mw_created_at = now\<rparr> (set (mt_rows t))"
    using assms(3) by (auto simp: add_muted_event_def)
  have "filter (\<lambda>r. mw_id r \<noteq> mt_next_id t) (mt_rows t) = mt_rows t"
    using assms(2) unfolding mute_ids_ok_def by (intro filter_True) fastforce
  then have restored: "mt_rows (remove_muted_event i t') = mt_rows t"
    using assms(3) by (auto simp: add_muted_event_def remove_muted_event_def)
  show ?thesis
    using mute_ids_add[OF assms(2), of now rule "note"] mute_ids_remove assms(3)
    by (auto simp: is_muted_iff set_refresh_mutes[OF assms(1)] rows restored)
qed

definition sample_mute :: mute_rule where
  "sample_mute = \<lparr>mu_action = ''rds.auth.failure'', mu_source_type = None, mu_username = Some ''app'',
     mu_reason = None\<rparr>"

lemma mute_add_remove_witness:
  "is_muted (refresh_mutes demo_env (snd (add_muted_event 0 sample_mute None \<lparr>mt_rows = [], mt_next_id = 1\<rparr>)) [])
     (event_defaults 0 (new_source ''aws.rds'' T_poll)\<lparr>ev_action := ''rds.auth.failure'',
        ev_actor := new_actor (Some ''app'') None\<rparr>)"
  using mute_add_remove[of demo_env "\<lparr>mt_rows = [], mt_next_id = 1\<rparr>" 0 sample_mute None 1
      "snd (add_muted_event 0 sample_mute None \<lparr>mt_rows = [], mt_next_id = 1\<rparr>)" "[]"
      "event_defaults 0 (new_source ''aws.rds'' T_poll)\<lparr>ev_action := ''rds.auth.failure'',
        ev_actor := new_actor (Some ''app'') None\<rparr>"]
  by (simp add: mute_ids_ok_def add_muted_event_def mute_covers_def sample_mute_def event_field_def py_or_def
      new_actor_def opt_val_def)

end
