(* ===== verification/Ueba.thy ===== *)
theory Ueba
  imports Storage
begin

text \<open>
  First-seen baselines of principals (\<open>src/blackwatch/ueba/check.py\<close>, \<open>config.py\<close>, \<open>db.py\<close>): the
  configuration with its cache, the two baseline tables, the dimensions of an event, and the check
  that runs after an event is stored. \<open>check_event\<close> gives the anomaly events it hands to
  \<open>emit_fn\<close>, in order; processing them is the pipeline's part.
\<close>

section \<open>Configuration\<close>

definition UEBA_DIMENSIONS :: "string list" where
  "UEBA_DIMENSIONS = [''source_ip'', ''source_country'', ''source_asn'', ''hour_of_day'', ''action'',
     ''user_agent_family'']"

definition DEFAULT_WARM_UP_DAYS :: int where "DEFAULT_WARM_UP_DAYS = 7"

record dim_config =
  dc_enabled :: bool
  dc_warm_up_days :: int

record ueba_config =
  uc_dimensions :: "(string \<times> dim_config) list"
  uc_allow :: "string list"
  uc_deny :: "string list"
  uc_default :: int

definition config_dim :: "ueba_config \<Rightarrow> string \<Rightarrow> dim_config" where
  "config_dim c name = (case map_of (uc_dimensions c) name of Some d \<Rightarrow> d
     | None \<Rightarrow> \<lparr>dc_enabled = True, dc_warm_up_days = uc_default c\<rparr>)"

definition principal_allowed :: "ueba_config \<Rightarrow> string \<Rightarrow> bool" where
  "principal_allowed c ptype =
     (if uc_deny c \<noteq> [] \<and> ptype \<in> set (uc_deny c) then False
      else if uc_allow c \<noteq> [] \<and> ptype \<notin> set (uc_allow c) then False
      else True)"

text \<open>Reading the parsed file; \<open>None\<close> where a number does not convert.\<close>

fun read_dims :: "dict \<Rightarrow> int \<Rightarrow> string list \<Rightarrow> (string \<times> dim_config) list option" where
  "read_dims raw dflt [] = Some []"
| "read_dims raw dflt (name # names) =
     (let entry = as_dict (dget raw name) in
      case py_int (dget_or entry ''warm_up_days'' (PyInt dflt)) of None \<Rightarrow> None
      | Some days \<Rightarrow> map_option (\<lambda>ds.
          (name, \<lparr>dc_enabled = truthy (dget_or entry ''enabled'' (PyBool True)), dc_warm_up_days = days\<rparr>) # ds)
          (read_dims raw dflt names))"

definition read_config :: "dict \<Rightarrow> ueba_config option" where
  "read_config data =
     (case py_int (dget_or data ''default_warm_up_days'' (PyInt DEFAULT_WARM_UP_DAYS)) of None \<Rightarrow> None
      | Some dflt \<Rightarrow> map_option (\<lambda>dims.
          \<lparr>uc_dimensions = dims, uc_allow = strs_of (dget data ''principal_type_allow''),
           uc_deny = strs_of (dget data ''principal_type_deny''), uc_default = dflt\<rparr>)
          (read_dims (as_dict (dget data ''dimensions'')) dflt UEBA_DIMENSIONS))"

text \<open>\<open>mtime\<close> is the file's modification time, \<open>file\<close> its parsed content (\<open>None\<close>: it does not parse);
  the cache holds the last configuration with the time it was read at.\<close>

type_synonym config_cache = "(ueba_config \<times> time option) option"

definition load_config ::
  "bool \<Rightarrow> time option \<Rightarrow> dict option \<Rightarrow> config_cache \<Rightarrow> ueba_config option \<times> config_cache" where
  "load_config force mtime file cached =
     (let fresh = (let data = (if mtime = None then [] else case file of None \<Rightarrow> [] | Some d \<Rightarrow> d)
                   in case read_config data of None \<Rightarrow> (None, cached)
                      | Some c \<Rightarrow> (Some c, Some (c, mtime)))
      in case cached of None \<Rightarrow> fresh
         | Some (c, t) \<Rightarrow> if \<not> force \<and> mtime = t then (Some c, cached) else fresh)"

section \<open>Baseline tables\<close>

record baseline_row =
  br_first_seen :: int
  br_last_seen :: int
  br_count :: int

type_synonym baseline_key = "string \<times> string \<times> string \<times> string"

record ueba =
  ub_baseline :: "(baseline_key \<times> baseline_row) list"
  ub_first :: "((string \<times> string) \<times> int) list"

definition empty_ueba :: ueba where
  "empty_ueba = \<lparr>ub_baseline = [], ub_first = []\<rparr>"

definition get_or_create_first_seen :: "string \<Rightarrow> string \<Rightarrow> int \<Rightarrow> ueba \<Rightarrow> int \<times> ueba" where
  "get_or_create_first_seen ptype pid now_ts st =
     (case map_of (ub_first st) (ptype, pid) of
        Some t \<Rightarrow> (t, st)
      | None \<Rightarrow> (now_ts, st\<lparr>ub_first := AList.update (ptype, pid) now_ts (ub_first st)\<rparr>))"

definition upsert_baseline :: "string \<Rightarrow> string \<Rightarrow> string \<Rightarrow> string \<Rightarrow> int \<Rightarrow> ueba \<Rightarrow> int \<times> ueba" where
  "upsert_baseline ptype pid dimension val now_ts st =
     (let key = (ptype, pid, dimension, val);
          row = (case map_of (ub_baseline st) key of
             None \<Rightarrow> \<lparr>br_first_seen = now_ts, br_last_seen = now_ts, br_count = 1\<rparr>
           | Some r \<Rightarrow> r\<lparr>br_last_seen := now_ts, br_count := br_count r + 1\<rparr>)
      in (br_count row, st\<lparr>ub_baseline := AList.update key row (ub_baseline st)\<rparr>))"

text \<open>\<open>None\<close> for \<open>dimensions\<close> wipes the principal and restarts its warm-up; so does an empty list.\<close>

definition clear_principal :: "string \<Rightarrow> string \<Rightarrow> string list option \<Rightarrow> ueba \<Rightarrow> int \<times> ueba" where
  "clear_principal ptype pid dimensions st =
     (let all = (case dimensions of None \<Rightarrow> True | Some ds \<Rightarrow> ds = []);
          hit = (\<lambda>((pt, pn, dm, v), r). pt = ptype \<and> pn = pid \<and> (all \<or> dm \<in> set (the dimensions)));
          kept = filter (\<lambda>x. \<not> hit x) (ub_baseline st)
      in (int (length (ub_baseline st) - length kept),
          if all then st\<lparr>ub_baseline := kept, ub_first := AList.delete (ptype, pid) (ub_first st)\<rparr>
          else st\<lparr>ub_baseline := kept\<rparr>))"

definition query_baselines ::
  "string option \<Rightarrow> string option \<Rightarrow> string option \<Rightarrow> int \<Rightarrow> ueba \<Rightarrow> (baseline_key \<times> baseline_row) list" where
  "query_baselines ptype pid dimension limit st =
     (let rows = filter (\<lambda>((pt, pn, dm, v), r).
            (\<not> str_truthy ptype \<or> ptype = Some pt) \<and> (\<not> str_truthy pid \<or> pid = Some pn) \<and>
            (\<not> str_truthy dimension \<or> dimension = Some dm)) (ub_baseline st);
          sorted_rows = sort_key (\<lambda>(k, r). - br_last_seen r) rows
      in if limit < 0 then sorted_rows else take (nat limit) sorted_rows)"

section \<open>Dimensions of an event\<close>

definition anomaly_infix :: string where
  "anomaly_infix = ''.anomaly.first_seen_''"

definition principal_of :: "event \<Rightarrow> (string \<times> string) option" where
  "principal_of evt =
     (case act_principal (ev_actor evt) of None \<Rightarrow> None
      | Some p \<Rightarrow> if p = [] then None
          else case act_type (ev_actor evt) of None \<Rightarrow> None
            | Some t \<Rightarrow> if t \<in> {A_system, A_unknown} then None else Some (actor_type_value t, p))"

definition extract_intel :: "pyenv \<Rightarrow> event \<Rightarrow> string \<Rightarrow> string option" where
  "extract_intel E evt key =
     (let intel = dget (ev_extra evt) ''intel'' in
      if is_dict intel \<and> truthy (dget (as_dict intel) key)
      then Some (py_str E (dget (as_dict intel) key)) else None)"

definition user_agent_family :: "pyenv \<Rightarrow> event \<Rightarrow> string option" where
  "user_agent_family E evt =
     (let raw = (if str_truthy (act_user_agent (ev_actor evt))
                 then opt_val (act_user_agent (ev_actor evt)) else dget (ev_extra evt) ''user_agent'');
          ua = str_strip (py_str E raw) in
      if \<not> truthy raw then None
      else if ua = [] then None
      else case split_once (CHR ''/'') ua of Some (a, b) \<Rightarrow> Some a
        | None \<Rightarrow> (case split_once (CHR '' '') ua of Some (a, b) \<Rightarrow> Some a | None \<Rightarrow> Some ua))"

definition opt_dim :: "string \<Rightarrow> string option \<Rightarrow> (string \<times> string) list" where
  "opt_dim name v = (if str_truthy v then [(name, the v)] else [])"

text \<open>The UTC hour of a time.\<close>

definition hour_of :: "time \<Rightarrow> int" where
  "hour_of t = (\<lfloor>t\<rfloor> div 3600) mod 24"

definition dimensions_for :: "pyenv \<Rightarrow> event \<Rightarrow> (string \<times> string) list" where
  "dimensions_for E evt =
     opt_dim ''source_ip'' (act_source_ip (ev_actor evt)) @
     opt_dim ''source_country'' (extract_intel E evt ''country'') @
     opt_dim ''source_asn'' (extract_intel E evt ''asn'') @
     [(''hour_of_day'', int_str (hour_of (ev_time evt)))] @
     opt_dim ''action'' (Some (ev_action evt)) @
     opt_dim ''user_agent_family'' (user_agent_family E evt)"

section \<open>The check\<close>

definition make_anomaly_event ::
  "pyenv \<Rightarrow> time \<Rightarrow> event \<Rightarrow> string \<Rightarrow> string \<Rightarrow> string \<Rightarrow> string \<Rightarrow> event" where
  "make_anomaly_event E now src dimension val ptype pid = ensure_fingerprint E
     ((event_defaults now ((ev_source src)\<lparr>src_transport := T_api\<rparr>))
       \<lparr>ev_time := ev_time src, ev_category := ev_category src,
        ev_action := category_value (ev_category src) @ anomaly_infix @ dimension,
        ev_actor := ev_actor src, ev_target := ev_target src, ev_severity := Some S_medium,
        ev_tags := [''ueba'', ''first-seen'', ''dim:'' @ dimension],
        ev_extra := [(''trigger_event_id'', id_val (ev_id src)), (''trigger_action'', PyStr (ev_action src)),
          (''principal_type'', PyStr ptype), (''principal_id'', PyStr pid),
          (''dimension'', PyStr dimension), (''baseline_value'', PyStr val)]\<rparr>)"

fun check_dims ::
  "pyenv \<Rightarrow> ueba_config \<Rightarrow> time \<Rightarrow> event \<Rightarrow> string \<Rightarrow> string \<Rightarrow> int \<Rightarrow> int \<Rightarrow> (string \<times> string) list \<Rightarrow>
   ueba \<Rightarrow> event list \<times> ueba" where
  "check_dims E cfg now evt ptype pid now_ts first_ever [] st = ([], st)"
| "check_dims E cfg now evt ptype pid now_ts first_ever ((dm, val) # dims) st =
     (let dcfg = config_dim cfg dm in
      if \<not> dc_enabled dcfg then check_dims E cfg now evt ptype pid now_ts first_ever dims st
      else
        let (count, st1) = upsert_baseline ptype pid dm val now_ts st;
            (rest, st2) = check_dims E cfg now evt ptype pid now_ts first_ever dims st1
        in if now_ts - first_ever < dc_warm_up_days dcfg * 86400 then (rest, st2)
           else if count \<noteq> 1 then (rest, st2)
           else (make_anomaly_event E now evt dm val ptype pid # rest, st2))"

definition check_event :: "pyenv \<Rightarrow> ueba_config \<Rightarrow> time \<Rightarrow> event \<Rightarrow> ueba \<Rightarrow> event list \<times> ueba" where
  "check_event E cfg now evt st =
     (if str_contains (ev_action evt) anomaly_infix then ([], st)
      else case principal_of evt of None \<Rightarrow> ([], st)
      | Some (ptype, pid) \<Rightarrow>
          if \<not> principal_allowed cfg ptype then ([], st)
          else if dimensions_for E evt = [] then ([], st)
          else if db_fails E ''get_or_create_first_seen'' then ([], st)
          else
            let now_ts = trunc (ev_time evt); (first_ever, st1) = get_or_create_first_seen ptype pid now_ts st
            in if db_fails E ''upsert_baseline'' then ([], st1)
               else check_dims E cfg now evt ptype pid now_ts first_ever (dimensions_for E evt) st1)"

section \<open>Lemmas\<close>

definition baseline_seen :: "ueba \<Rightarrow> baseline_key \<Rightarrow> bool" where
  "baseline_seen st k = (map_of (ub_baseline st) k \<noteq> None)"

definition baseline_ok :: "ueba \<Rightarrow> bool" where
  "baseline_ok st \<longleftrightarrow> (\<forall>k r. map_of (ub_baseline st) k = Some r \<longrightarrow> 1 \<le> br_count r)"

lemma baseline_ok_empty [simp]: "baseline_ok empty_ueba"
  by (simp add: baseline_ok_def empty_ueba_def)

lemma upsert_baseline_new:
  "baseline_ok st \<Longrightarrow> fst (upsert_baseline p i dm v t st) = 1 \<longleftrightarrow> \<not> baseline_seen st (p, i, dm, v)"
  by (fastforce simp: upsert_baseline_def baseline_ok_def baseline_seen_def Let_def split: option.splits)

lemma upsert_baseline_seen [simp]:
  "baseline_seen (snd (upsert_baseline p i dm v t st)) k \<longleftrightarrow> k = (p, i, dm, v) \<or> baseline_seen st k"
  by (auto simp: upsert_baseline_def baseline_seen_def Let_def update_conv')

lemma upsert_baseline_ok [simp]:
  assumes "baseline_ok st"
  shows "baseline_ok (snd (upsert_baseline p i dm v t st))"
proof -
  have "1 \<le> br_count r + 1" if "map_of (ub_baseline st) k = Some r" for k r
    using assms that unfolding baseline_ok_def by fastforce
  then show ?thesis
    using assms unfolding baseline_ok_def upsert_baseline_def Let_def
    by (simp add: update_conv' split: option.splits)
qed

lemma first_seen_baseline [simp]:
  "baseline_seen (snd (get_or_create_first_seen p i t st)) = baseline_seen st"
  "baseline_ok (snd (get_or_create_first_seen p i t st)) = baseline_ok st"
  by (auto simp: get_or_create_first_seen_def baseline_seen_def baseline_ok_def fun_eq_iff split: option.splits)

text \<open>The dimensions of an event that raise an anomaly, and those that are recorded.\<close>

definition fires_dim :: "ueba_config \<Rightarrow> string \<Rightarrow> string \<Rightarrow> int \<Rightarrow> ueba \<Rightarrow> string \<times> string \<Rightarrow> bool" where
  "fires_dim cfg ptype pid age st = (\<lambda>(dm, v). dc_enabled (config_dim cfg dm) \<and>
     dc_warm_up_days (config_dim cfg dm) * 86400 \<le> age \<and> \<not> baseline_seen st (ptype, pid, dm, v))"

lemma check_dims_exact:
  assumes "baseline_ok st" and "distinct dims"
  shows "fst (check_dims E cfg now evt ptype pid t first dims st) =
      map (\<lambda>(dm, v). make_anomaly_event E now evt dm v ptype pid)
        (filter (fires_dim cfg ptype pid (t - first) st) dims) \<and>
    baseline_ok (snd (check_dims E cfg now evt ptype pid t first dims st)) \<and>
    (\<forall>k. baseline_seen (snd (check_dims E cfg now evt ptype pid t first dims st)) k \<longleftrightarrow>
      baseline_seen st k \<or> (\<exists>(dm, v) \<in> set dims. dc_enabled (config_dim cfg dm) \<and> k = (ptype, pid, dm, v)))"
  using assms
proof (induction dims arbitrary: st)
  case Nil
  then show ?case by simp
next
  case (Cons d dims)
  obtain dm v where d: "d = (dm, v)" by fastforce
  show ?case
  proof (cases "dc_enabled (config_dim cfg dm)")
    case False
    then show ?thesis using Cons by (auto simp: d fires_dim_def)
  next
    case True
    obtain c st1 where u: "upsert_baseline ptype pid dm v t st = (c, st1)" by fastforce
    obtain out st2 where r: "check_dims E cfg now evt ptype pid t first dims st1 = (out, st2)" by fastforce
    have st1: "baseline_ok st1" "c = 1 \<longleftrightarrow> \<not> baseline_seen st (ptype, pid, dm, v)"
        "\<And>k. baseline_seen st1 k \<longleftrightarrow> k = (ptype, pid, dm, v) \<or> baseline_seen st k"
      using upsert_baseline_ok[OF Cons.prems(1), of ptype pid dm v t]
        upsert_baseline_new[OF Cons.prems(1), of ptype pid dm v t]
        upsert_baseline_seen[of ptype pid dm v t st] unfolding u by simp_all
    have same: "filter (fires_dim cfg ptype pid (t - first) st1) dims =
        filter (fires_dim cfg ptype pid (t - first) st) dims"
      using Cons.prems(2) by (intro filter_cong) (auto simp: d fires_dim_def st1(3))
    have IH: "out = map (\<lambda>(dm, v). make_anomaly_event E now evt dm v ptype pid)
        (filter (fires_dim cfg ptype pid (t - first) st) dims)" "baseline_ok st2"
      "\<forall>k. baseline_seen st2 k \<longleftrightarrow> baseline_seen st1 k \<or>
        (\<exists>(dm, v) \<in> set dims. dc_enabled (config_dim cfg dm) \<and> k = (ptype, pid, dm, v))"
      using Cons.IH[OF st1(1)] Cons.prems(2) r same by simp_all
    have head: "fires_dim cfg ptype pid (t - first) st (dm, v) \<longleftrightarrow>
        \<not> t - first < dc_warm_up_days (config_dim cfg dm) * 86400 \<and> c = 1"
      using True st1(2) by (auto simp: fires_dim_def)
    show ?thesis using IH st1(3) True by (auto simp: d u r head Let_def)
  qed
qed

lemma distinct_dimensions: "distinct (dimensions_for E evt)"
  by (auto simp: dimensions_for_def opt_dim_def)

definition principal_age :: "string \<Rightarrow> string \<Rightarrow> event \<Rightarrow> ueba \<Rightarrow> int" where
  "principal_age ptype pid evt st =
     trunc (ev_time evt) - (case map_of (ub_first st) (ptype, pid) of None \<Rightarrow> trunc (ev_time evt) | Some t \<Rightarrow> t)"

lemma first_seen_age:
  "trunc (ev_time evt) - fst (get_or_create_first_seen ptype pid (trunc (ev_time evt)) st) =
   principal_age ptype pid evt st"
  by (simp add: get_or_create_first_seen_def principal_age_def split: option.splits)

text \<open>The anomalies of one check, written out.\<close>

definition anomalies_of :: "pyenv \<Rightarrow> ueba_config \<Rightarrow> time \<Rightarrow> event \<Rightarrow> ueba \<Rightarrow> event list" where
  "anomalies_of E cfg now evt st =
     (case principal_of evt of None \<Rightarrow> []
      | Some (ptype, pid) \<Rightarrow>
          if str_contains (ev_action evt) anomaly_infix \<or> \<not> principal_allowed cfg ptype then []
          else map (\<lambda>(dm, v). make_anomaly_event E now evt dm v ptype pid)
            (filter (fires_dim cfg ptype pid (principal_age ptype pid evt st) st) (dimensions_for E evt)))"

lemma dimensions_nonempty [simp]: "dimensions_for E evt \<noteq> []"
  by (simp add: dimensions_for_def)

lemma check_event_exact:
  assumes "baseline_ok st" "\<not> db_fails E ''get_or_create_first_seen''" "\<not> db_fails E ''upsert_baseline''"
  shows "fst (check_event E cfg now evt st) = anomalies_of E cfg now evt st"
proof -
  have "fires_dim cfg p i age (snd (get_or_create_first_seen p i t st)) = fires_dim cfg p i age st" for p i age t
    by (simp add: fires_dim_def)
  then show ?thesis
    using assms check_dims_exact[OF _ distinct_dimensions] first_seen_age
    by (auto simp: check_event_def anomalies_of_def case_prod_beta Let_def split: option.splits)
qed

lemma check_event_ok: "baseline_ok st \<Longrightarrow> baseline_ok (snd (check_event E cfg now evt st))"
  using check_dims_exact[OF _ distinct_dimensions]
  by (auto simp: check_event_def case_prod_beta Let_def split: option.splits)

section \<open>Properties\<close>

lemma make_anomaly_sel [simp]:
  "ev_id (make_anomaly_event E now src dm v ptype pid) = None"
  "ev_action (make_anomaly_event E now src dm v ptype pid) =
     category_value (ev_category src) @ anomaly_infix @ dm"
  "dget (ev_extra (make_anomaly_event E now src dm v ptype pid)) ''principal_type'' = PyStr ptype"
  "dget (ev_extra (make_anomaly_event E now src dm v ptype pid)) ''principal_id'' = PyStr pid"
  "dget (ev_extra (make_anomaly_event E now src dm v ptype pid)) ''dimension'' = PyStr dm"
  "dget (ev_extra (make_anomaly_event E now src dm v ptype pid)) ''baseline_value'' = PyStr v"
  by (simp_all add: make_anomaly_event_def event_defaults_def)

lemma anomaly_no_reaction:
  "str_contains (ev_action (make_anomaly_event E now src dm v ptype pid)) anomaly_infix"
  by (simp add: str_contains_def)

text \<open>C40: A stored event of a known principal of an allowed type raises an anomaly for a dimension and
  value exactly when the dimension is enabled, the value is one of the event's dimensions, the
  baseline has no row for it yet, and the principal is at least the dimension's warm-up time old.
\<close>
theorem ueba_anomaly_iff:
  assumes "baseline_ok st" and "\<not> db_fails E ''get_or_create_first_seen''" and "\<not> db_fails E ''upsert_baseline''"
    and "principal_of evt = Some (ptype, pid)" and "principal_allowed cfg ptype"
    and "\<not> str_contains (ev_action evt) anomaly_infix"
  shows "(\<exists>a \<in> set (fst (check_event E cfg now evt st)).
            dget (ev_extra a) ''dimension'' = PyStr dm \<and> dget (ev_extra a) ''baseline_value'' = PyStr v) \<longleftrightarrow>
         dc_enabled (config_dim cfg dm) \<and> (dm, v) \<in> set (dimensions_for E evt) \<and>
         map_of (ub_baseline st) (ptype, pid, dm, v) = None \<and>
         dc_warm_up_days (config_dim cfg dm) * 86400 \<le> principal_age ptype pid evt st"
  unfolding check_event_exact[OF assms(1-3)] anomalies_of_def
  using assms(4-6) by (force simp: fires_dim_def baseline_seen_def)

text \<open>What an anomaly is about.\<close>

definition anomaly_key :: "event \<Rightarrow> pyval \<times> pyval \<times> pyval \<times> pyval" where
  "anomaly_key a = (dget (ev_extra a) ''principal_type'', dget (ev_extra a) ''principal_id'',
     dget (ev_extra a) ''dimension'', dget (ev_extra a) ''baseline_value'')"

definition key_vals :: "baseline_key \<Rightarrow> pyval \<times> pyval \<times> pyval \<times> pyval" where
  "key_vals = (\<lambda>(p, i, dm, v). (PyStr p, PyStr i, PyStr dm, PyStr v))"

lemma key_vals_inj [simp]: "key_vals k = key_vals k' \<longleftrightarrow> k = k'"
  by (auto simp: key_vals_def split: prod.splits)

fun ueba_run :: "pyenv \<Rightarrow> (ueba_config \<times> time \<times> event) list \<Rightarrow> ueba \<Rightarrow> event list \<times> ueba" where
  "ueba_run E [] st = ([], st)"
| "ueba_run E ((cfg, now, evt) # evs) st =
     (let (out, st1) = check_event E cfg now evt st; (rest, st2) = ueba_run E evs st1 in (out @ rest, st2))"

lemma check_event_keys:
  assumes "baseline_ok st" and "check_event E cfg now evt st = (out, st')"
  shows "distinct (map anomaly_key out) \<and>
    (\<forall>a \<in> set out. \<exists>k. anomaly_key a = key_vals k \<and> \<not> baseline_seen st k \<and> baseline_seen st' k) \<and>
    (\<forall>k. baseline_seen st k \<longrightarrow> baseline_seen st' k)"
proof (cases "out = [] \<and> st' = st")
  case True
  then show ?thesis by simp
next
  case False
  then obtain ptype pid where p1: "principal_of evt = Some (ptype, pid)"
    using assms(2) by (auto simp: check_event_def split: option.splits if_splits)
  define t where "t = trunc (ev_time evt)"
  obtain first st1 where p: "get_or_create_first_seen ptype pid t st = (first, st1)" by fastforce
  have r: "(out, st') = ([], st1) \<or>
      check_dims E cfg now evt ptype pid t first (dimensions_for E evt) st1 = (out, st')"
    using assms(2) False p1 p by (auto simp: check_event_def t_def Let_def split: if_splits)
  have st1: "baseline_ok st1" "baseline_seen st1 = baseline_seen st"
    using first_seen_baseline[of ptype pid t st] assms(1) unfolding p by simp_all
  show ?thesis
  proof (cases "(out, st') = ([], st1)")
    case True
    then show ?thesis using st1 by simp
  next
    case False
    let ?fs = "filter (fires_dim cfg ptype pid (t - first) st1) (dimensions_for E evt)"
    have cd: "check_dims E cfg now evt ptype pid t first (dimensions_for E evt) st1 = (out, st')"
      using r False by blast
    note ex = check_dims_exact[OF st1(1) distinct_dimensions, of E cfg now evt ptype pid t first E evt,
        unfolded cd fst_conv snd_conv]
    have out: "out = map (\<lambda>(dm, v). make_anomaly_event E now evt dm v ptype pid) ?fs"
      and seen: "\<And>k. baseline_seen st' k \<longleftrightarrow> baseline_seen st1 k \<or>
        (\<exists>(dm, v) \<in> set (dimensions_for E evt). dc_enabled (config_dim cfg dm) \<and> k = (ptype, pid, dm, v))"
      using ex by blast+
    have key: "map anomaly_key out = map (\<lambda>d. key_vals (ptype, pid, d)) ?fs"
      unfolding out by (auto simp: anomaly_key_def key_vals_def split: prod.splits)
    have "inj (\<lambda>d. key_vals (ptype, pid, d))" by (auto simp: inj_def)
    then have "distinct (map anomaly_key out)"
      unfolding key by (auto simp: distinct_map distinct_dimensions intro: inj_on_subset)
    moreover have "\<exists>k. anomaly_key a = key_vals k \<and> \<not> baseline_seen st k \<and> baseline_seen st' k"
      if "a \<in> set out" for a
    proof -
      have "anomaly_key a \<in> set (map anomaly_key out)" using that by simp
      then obtain dm v where d: "(dm, v) \<in> set ?fs" "anomaly_key a = key_vals (ptype, pid, dm, v)"
        unfolding key by auto
      then have "\<not> baseline_seen st1 (ptype, pid, dm, v)" "baseline_seen st' (ptype, pid, dm, v)"
        unfolding seen by (auto simp: fires_dim_def)
      then show ?thesis unfolding d(2) using st1(2) by (intro exI[of _ "(ptype, pid, dm, v)"]) simp
    qed
    moreover have "baseline_seen st' k" if "baseline_seen st k" for k
      unfolding seen using that st1(2) by simp
    ultimately show ?thesis by simp
  qed
qed

lemma ueba_run_keys:
  assumes "baseline_ok st" and "ueba_run E evs st = (out, st')"
  shows "distinct (map anomaly_key out) \<and> (\<forall>a \<in> set out. \<exists>k. anomaly_key a = key_vals k \<and> \<not> baseline_seen st k)"
  using assms
proof (induction evs arbitrary: st out)
  case Nil
  then show ?case by simp
next
  case (Cons c evs)
  obtain cfg now evt where c: "c = (cfg, now, evt)" by (cases c)
  obtain o1 st1 where s: "check_event E cfg now evt st = (o1, st1)" by fastforce
  obtain o2 where r: "ueba_run E evs st1 = (o2, st')" "out = o1 @ o2"
    using Cons.prems(2) by (cases "ueba_run E evs st1") (auto simp: c s Let_def)
  have ok: "baseline_ok st1" using check_event_ok[OF Cons.prems(1)] s by (metis snd_conv)
  note step = check_event_keys[OF Cons.prems(1) s] and rest = Cons.IH[OF ok r(1)]
  have "anomaly_key a \<noteq> anomaly_key b" if "a \<in> set o1" "b \<in> set o2" for a b
    using step rest that by (metis key_vals_inj)
  then have "set (map anomaly_key o1) \<inter> set (map anomaly_key o2) = {}" by fastforce
  then have "distinct (map anomaly_key out)" using step rest unfolding r(2) map_append distinct_append by blast
  moreover have "\<exists>k. anomaly_key a = key_vals k \<and> \<not> baseline_seen st k" if "a \<in> set out" for a
    using that step rest unfolding r(2) set_append by blast
  ultimately show ?case by blast
qed

text \<open>However many events are checked, and however the configuration changes in between, a
  principal raises at most one anomaly per dimension and value, and none for a value that the
  baseline already had.
\<close>
theorem ueba_anomaly_once:
  assumes "baseline_ok st"
  shows "distinct (map anomaly_key (fst (ueba_run E evs st))) \<and>
    (\<forall>a \<in> set (fst (ueba_run E evs st)). \<forall>k. anomaly_key a = key_vals k \<longrightarrow> map_of (ub_baseline st) k = None)"
  using ueba_run_keys[OF assms surjective_pairing] unfolding baseline_seen_def
  by (metis key_vals_inj)

text \<open>The principal of the witnesses: a user seen first a week before.\<close>

definition sample_principal_event :: event where
  "sample_principal_event = (event_defaults 604800 (new_source ''aws.cloudtrail'' T_webhook))
     \<lparr>ev_action := ''iam.login'', ev_category := C_iam,
      ev_actor := (new_actor (Some ''eve'') (Some ''10.0.0.9''))\<lparr>act_type := Some A_user\<rparr>\<rparr>"

definition sample_config :: ueba_config where
  "sample_config = \<lparr>uc_dimensions = [], uc_allow = [], uc_deny = [], uc_default = 7\<rparr>"

definition week_old :: ueba where
  "week_old = \<lparr>ub_baseline = [], ub_first = [((''user'', ''eve''), 0)]\<rparr>"

lemma ueba_anomaly_iff_witness:
  "\<exists>a \<in> set (fst (check_event demo_env sample_config 604800 sample_principal_event week_old)).
     dget (ev_extra a) ''dimension'' = PyStr ''source_ip'' \<and>
     dget (ev_extra a) ''baseline_value'' = PyStr ''10.0.0.9''"
proof -
  have "\<not> str_contains ''iam.login'' anomaly_infix"
    by code_simp
  then show ?thesis
    by (subst ueba_anomaly_iff[where ptype = "''user''" and pid = "''eve''"])
      (simp_all add: baseline_ok_def week_old_def sample_principal_event_def sample_config_def principal_of_def
        event_defaults_def new_actor_def principal_allowed_def config_dim_def dimensions_for_def opt_dim_def
        principal_age_def trunc_def)
qed

lemma ueba_anomaly_once_witness:
  "distinct (map anomaly_key (fst (ueba_run demo_env
     [(sample_config, 0, sample_principal_event), (sample_config, 60, sample_principal_event)] empty_ueba)))"
  by (rule ueba_anomaly_once[THEN conjunct1]) simp

end
