(* ===== verification/Intel.thy ===== *)
theory Intel
  imports Storage
begin

text \<open>
  Threat intelligence on the ingest path (\<open>src/blackwatch/intel/enrich.py\<close>, \<open>intel/db.py\<close>): the feed
  table with its replacement and range lookup, the five-minute cache, the classification of an address
  and the block put on an event. The GeoIP reader and the address flags of \<open>ipaddress\<close> are the record
  \<open>intel_env\<close>.
\<close>

section \<open>Feeds\<close>

record intel_env =
  ie_bogon :: "ip_addr \<Rightarrow> bool"
  ie_geo :: "string \<Rightarrow> dict"

record ti_row =
  ti_start :: int
  ti_end :: int
  ti_feed :: string
  ti_tags :: "string option"
  ti_updated_at :: int

record feed_meta =
  fm_url :: string
  fm_last_success :: "int option"
  fm_last_status :: string
  fm_entries :: int

record intel =
  in_rows :: "ti_row list"
  in_meta :: "(string \<times> feed_meta) list"
  in_cache :: "(string \<times> (time \<times> dict)) list"

definition empty_intel :: intel where
  "empty_intel = \<lparr>in_rows = [], in_meta = [], in_cache = []\<rparr>"

definition replace_feed :: "time \<Rightarrow> string \<Rightarrow> string \<Rightarrow> (int \<times> int \<times> string) list \<Rightarrow> intel \<Rightarrow> int \<times> intel" where
  "replace_feed now feed url rows st =
     (let t = trunc now in
      (int (length rows),
       st\<lparr>in_rows := filter (\<lambda>r. ti_feed r \<noteq> feed) (in_rows st) @
            map (\<lambda>(s, e, tags). \<lparr>ti_start = s, ti_end = e, ti_feed = feed, ti_tags = Some tags, ti_updated_at = t\<rparr>) rows,
          in_meta := AList.update feed \<lparr>fm_url = url, fm_last_success = Some t, fm_last_status = ''ok'',
            fm_entries = int (length rows)\<rparr> (in_meta st)\<rparr>))"

definition record_failure :: "string \<Rightarrow> string \<Rightarrow> string \<Rightarrow> intel \<Rightarrow> intel" where
  "record_failure feed url status st =
     st\<lparr>in_meta := AList.update feed
         (case map_of (in_meta st) feed of
            None \<Rightarrow> \<lparr>fm_url = url, fm_last_success = None, fm_last_status = status, fm_entries = 0\<rparr>
          | Some m \<Rightarrow> m\<lparr>fm_url := url, fm_last_status := status\<rparr>) (in_meta st)\<rparr>"

definition lookup_ip4 :: "int \<Rightarrow> intel \<Rightarrow> (string \<times> string option) list" where
  "lookup_ip4 n st = map (\<lambda>r. (ti_feed r, ti_tags r)) (filter (\<lambda>r. ti_start r \<le> n \<and> ti_end r \<ge> n) (in_rows st))"

section \<open>Classification\<close>

definition CACHE_TTL :: time where "CACHE_TTL = 300"
definition CACHE_MAX :: nat where "CACHE_MAX = 4096"

text \<open>The feeds in order of their first match, each once.\<close>

fun feed_set :: "string list \<Rightarrow> string list \<Rightarrow> string list" where
  "feed_set acc [] = acc"
| "feed_set acc (f # fs) = feed_set (if f \<in> set acc then acc else acc @ [f]) fs"

definition intel_block :: "string list \<Rightarrow> bool \<Rightarrow> bool \<Rightarrow> dict" where
  "intel_block feeds tor bogon = [(''feeds'', PyList (map PyStr feeds)), (''is_tor'', PyBool tor),
     (''is_bogon'', PyBool bogon)]"

definition classify :: "pyenv \<Rightarrow> intel_env \<Rightarrow> intel \<Rightarrow> string \<Rightarrow> dict option" where
  "classify E I st ip =
     (case parse_ip E ip of None \<Rightarrow> None
      | Some (IPv6 n) \<Rightarrow> Some (intel_block [] False (ie_bogon I (IPv6 n)))
      | Some (IPv4 n) \<Rightarrow>
          if ie_bogon I (IPv4 n) then Some (intel_block [] False True)
          else let feeds = (if db_fails E ''lookup_ip4'' then [] else map fst (lookup_ip4 (int n) st))
               in Some (dmerge (intel_block (feed_set [] feeds) (''tor_exit'' \<in> set feeds) False) (ie_geo I ip)))"

definition intel_cached :: "time \<Rightarrow> string \<Rightarrow> intel \<Rightarrow> dict option" where
  "intel_cached now ip st =
     (case map_of (in_cache st) ip of None \<Rightarrow> None
      | Some (t, v) \<Rightarrow> if now - t < CACHE_TTL then Some v else None)"

definition intel_store :: "time \<Rightarrow> string \<Rightarrow> dict \<Rightarrow> intel \<Rightarrow> intel" where
  "intel_store now ip v st =
     (let cache = (if length (in_cache st) \<ge> CACHE_MAX then [] else in_cache st)
      in st\<lparr>in_cache := AList.update ip (now, v) cache\<rparr>)"

definition intel_lookup :: "pyenv \<Rightarrow> intel_env \<Rightarrow> time \<Rightarrow> string \<Rightarrow> intel \<Rightarrow> dict option \<times> intel" where
  "intel_lookup E I now ip st =
     (case intel_cached now ip st of Some v \<Rightarrow> (Some v, st)
      | None \<Rightarrow> (case classify E I st ip of None \<Rightarrow> (None, st) | Some v \<Rightarrow> (Some v, intel_store now ip v st)))"

definition lookup_ip :: "pyenv \<Rightarrow> intel_env \<Rightarrow> time \<Rightarrow> string \<Rightarrow> intel \<Rightarrow> dict \<times> intel" where
  "lookup_ip E I now ip st =
     (case intel_lookup E I now ip st of
        (None, st') \<Rightarrow> (intel_block [] False False, st')
      | (Some v, st') \<Rightarrow> (if v = [] then intel_block [] False False else v, st'))"

section \<open>Enrichment\<close>

definition event_ips :: "event \<Rightarrow> string list" where
  "event_ips event =
     (let ips = map obs_value (filter (\<lambda>b. obs_type b = Ob_ip \<and> obs_value b \<noteq> []) (ev_observables event));
          src = act_source_ip (ev_actor event)
      in if str_truthy src \<and> the src \<notin> set ips then ips @ [the src] else ips)"

fun pick_intel ::
  "pyenv \<Rightarrow> intel_env \<Rightarrow> time \<Rightarrow> dict option \<Rightarrow> string list \<Rightarrow> intel \<Rightarrow> dict option \<times> intel" where
  "pick_intel E I now picked [] st = (picked, st)"
| "pick_intel E I now picked (ip # ips) st =
     (case intel_lookup E I now ip st of
        (None, st1) \<Rightarrow> pick_intel E I now picked ips st1
      | (Some info, st1) \<Rightarrow>
          if \<not> truthy (dget info ''is_bogon'') then (Some info, st1)
          else pick_intel E I now (if picked = None then Some info else picked) ips st1)"

definition enrich_event :: "pyenv \<Rightarrow> intel_env \<Rightarrow> time \<Rightarrow> event \<Rightarrow> intel \<Rightarrow> event \<times> intel" where
  "enrich_event E I now event st =
     (case pick_intel E I now None (event_ips event) st of
        (None, st') \<Rightarrow> (event, st')
      | (Some info, st') \<Rightarrow>
          (if has_key (ev_extra event) ''intel'' then event
           else event\<lparr>ev_extra := ev_extra event @ [(''intel'', PyDict info)]\<rparr>, st'))"

section \<open>Lemmas\<close>

text \<open>A cache entry that has not expired is the classification of its address, and the cache is
  bounded.\<close>

definition intel_cache_ok :: "pyenv \<Rightarrow> intel_env \<Rightarrow> time \<Rightarrow> intel \<Rightarrow> bool" where
  "intel_cache_ok E I now st \<longleftrightarrow> length (in_cache st) \<le> CACHE_MAX \<and>
     (\<forall>ip v. intel_cached now ip st = Some v \<longrightarrow> classify E I st ip = Some v)"

lemma classify_cache [simp]: "classify E I (st\<lparr>in_cache := c\<rparr>) = classify E I st"
  by (simp add: classify_def lookup_ip4_def fun_eq_iff split: option.splits ip_addr.splits)

lemma length_AList_update: "length (AList.update k v xs) \<le> Suc (length xs)"
  by (induction xs) auto

lemma intel_store_ok:
  assumes "intel_cache_ok E I now st" and "classify E I st ip = Some v"
  shows "intel_cache_ok E I now (intel_store now ip v st)"
proof -
  let ?c = "if length (in_cache st) \<ge> CACHE_MAX then [] else in_cache st"
  have "length (AList.update ip (now, v) ?c) \<le> CACHE_MAX"
    using assms(1) length_AList_update[of ip "(now, v)" ?c]
    by (auto simp: intel_cache_ok_def CACHE_MAX_def split: if_splits)
  then show ?thesis
    using assms unfolding intel_cache_ok_def intel_store_def Let_def
    by (auto simp: intel_cached_def update_conv' split: if_splits option.splits)
qed

lemma intel_lookup_ok:
  assumes "intel_cache_ok E I now st"
  shows "fst (intel_lookup E I now ip st) = classify E I st ip \<and>
    intel_cache_ok E I now (snd (intel_lookup E I now ip st)) \<and>
    (\<forall>j. classify E I (snd (intel_lookup E I now ip st)) j = classify E I st j)"
proof (cases "intel_cached now ip st")
  case (Some v)
  then show ?thesis using assms by (simp add: intel_lookup_def intel_cache_ok_def)
next
  case None
  show ?thesis
  proof (cases "classify E I st ip")
    case None
    then show ?thesis using \<open>intel_cached now ip st = None\<close> assms by (simp add: intel_lookup_def)
  next
    case (Some v)
    then show ?thesis
      using \<open>intel_cached now ip st = None\<close> intel_store_ok[OF assms Some]
      by (simp add: intel_lookup_def) (simp add: intel_store_def)
  qed
qed

text \<open>The block an event gets: the first classified address that is not a bogon, else the first
  classified one.\<close>

definition best_intel :: "(string \<Rightarrow> dict option) \<Rightarrow> string list \<Rightarrow> dict option" where
  "best_intel f ips =
     (let known = List.map_filter f ips in
      case List.find (\<lambda>v. \<not> truthy (dget v ''is_bogon'')) known of Some v \<Rightarrow> Some v
      | None \<Rightarrow> (case known of [] \<Rightarrow> None | v # vs \<Rightarrow> Some v))"

lemma best_intel_Cons:
  "best_intel f (ip # ips) = (case f ip of None \<Rightarrow> best_intel f ips
     | Some v \<Rightarrow> if \<not> truthy (dget v ''is_bogon'') then Some v
         else case List.find (\<lambda>v. \<not> truthy (dget v ''is_bogon'')) (List.map_filter f ips) of
           Some w \<Rightarrow> Some w | None \<Rightarrow> Some v)"
  by (simp add: best_intel_def map_filter_simps split: option.splits)

lemma pick_intel_ok:
  assumes "intel_cache_ok E I now st"
  shows "fst (pick_intel E I now picked ips st) =
      (case List.find (\<lambda>v. \<not> truthy (dget v ''is_bogon'')) (List.map_filter (classify E I st) ips) of
         Some v \<Rightarrow> Some v | None \<Rightarrow> (if picked = None then best_intel (classify E I st) ips else picked)) \<and>
    intel_cache_ok E I now (snd (pick_intel E I now picked ips st))"
  using assms
proof (induction ips arbitrary: picked st)
  case Nil
  then show ?case by (simp add: best_intel_def map_filter_simps)
next
  case (Cons ip ips)
  obtain r st1 where l: "intel_lookup E I now ip st = (r, st1)" by fastforce
  have st1: "r = classify E I st ip" "intel_cache_ok E I now st1" "classify E I st1 = classify E I st"
    using intel_lookup_ok[OF Cons.prems, of ip] l by auto
  show ?case
    using Cons.IH[OF st1(2)] st1 l
    by (cases r) (auto simp: map_filter_simps best_intel_Cons split: option.splits)
qed

text \<open>Enrichment never changes anything of an event but its extra, keeps an intel block that is already
  there, and otherwise adds the classification of the first address that is public, or of the first
  valid address when none is; a valid cache stays valid and bounded.
\<close>
theorem enrich_picks_public:
  assumes "intel_cache_ok E I now st" and "enrich_event E I now event st = (event', st')"
  shows "event' = (case best_intel (classify E I st) (event_ips event) of None \<Rightarrow> event
      | Some v \<Rightarrow> if has_key (ev_extra event) ''intel'' then event
          else event\<lparr>ev_extra := ev_extra event @ [(''intel'', PyDict v)]\<rparr>) \<and>
    intel_cache_ok E I now st'"
proof -
  have "fst (pick_intel E I now None (event_ips event) st) = best_intel (classify E I st) (event_ips event)"
    using pick_intel_ok[OF assms(1), of None "event_ips event"]
    by (auto simp: best_intel_def split: option.splits)
  moreover have "intel_cache_ok E I now (snd (pick_intel E I now None (event_ips event) st))"
    using pick_intel_ok[OF assms(1)] by blast
  ultimately show ?thesis
    using assms(2) by (cases "pick_intel E I now None (event_ips event) st")
      (auto simp: enrich_event_def split: option.splits)
qed

definition sample_ip_env :: pyenv where
  "sample_ip_env = demo_env\<lparr>parse_ip := (\<lambda>s. if s = ''10.0.0.1'' then Some (IPv4 167772161)
     else if s = ''8.8.8.8'' then Some (IPv4 134744072) else None)\<rparr>"

definition sample_intel_env :: intel_env where
  "sample_intel_env = \<lparr>ie_bogon = (\<lambda>a. a = IPv4 167772161), ie_geo = (\<lambda>s. [(''country'', PyStr ''US'')])\<rparr>"

definition two_ip_event :: event where
  "two_ip_event = (event_defaults 0 (new_source ''m'' T_webhook))\<lparr>ev_observables :=
     [\<lparr>obs_type = Ob_ip, obs_value = ''10.0.0.1''\<rparr>, \<lparr>obs_type = Ob_ip, obs_value = ''8.8.8.8''\<rparr>]\<rparr>"

lemma enrich_picks_public_witness:
  "dget (as_dict (dget (ev_extra (fst (enrich_event sample_ip_env sample_intel_env 0 two_ip_event empty_intel)))
     ''intel'')) ''country'' = PyStr ''US''"
proof -
  have "intel_cache_ok sample_ip_env sample_intel_env 0 empty_intel"
    by (simp add: intel_cache_ok_def empty_intel_def intel_cached_def)
  from enrich_picks_public[OF this surjective_pairing, of two_ip_event]
  show ?thesis
    by (simp add: best_intel_def two_ip_event_def event_ips_def event_defaults_def new_actor_def classify_def
        sample_ip_env_def sample_intel_env_def map_filter_simps intel_block_def empty_intel_def lookup_ip4_def
        dmerge_def has_key_def demo_env_def)
qed

lemma lookup_ip4_mem:
  "(f, tags) \<in> set (lookup_ip4 n st) \<longleftrightarrow>
     (\<exists>r \<in> set (in_rows st). ti_feed r = f \<and> ti_tags r = tags \<and> ti_start r \<le> n \<and> n \<le> ti_end r)"
  by (auto simp: lookup_ip4_def)

definition feed_rows :: "time \<Rightarrow> string \<Rightarrow> (int \<times> int \<times> string) list \<Rightarrow> ti_row list" where
  "feed_rows now feed rows = map (\<lambda>(s, e, tags).
     \<lparr>ti_start = s, ti_end = e, ti_feed = feed, ti_tags = Some tags, ti_updated_at = trunc now\<rparr>) rows"

lemma replace_feed_rows:
  "in_rows (snd (replace_feed now feed url rows st)) =
     filter (\<lambda>r. ti_feed r \<noteq> feed) (in_rows st) @ feed_rows now feed rows"
  by (simp add: replace_feed_def feed_rows_def Let_def)

lemma feed_rows_mem:
  "(\<exists>r \<in> set (feed_rows now feed rows). ti_feed r = f \<and> ti_tags r = tags \<and> ti_start r \<le> n \<and> n \<le> ti_end r) \<longleftrightarrow>
     f = feed \<and> (\<exists>s e tg. (s, e, tg) \<in> set rows \<and> s \<le> n \<and> n \<le> e \<and> tags = Some tg)"
  by (fastforce simp: feed_rows_def split: prod.splits)

text \<open>
  Replacing a feed makes its ranges exactly the given ones: afterwards an address is listed by that
  feed if and only if one of the new ranges holds it, and by every other feed as before.
\<close>
theorem replace_feed_exact:
  "(f, tags) \<in> set (lookup_ip4 n (snd (replace_feed now feed url rows st))) \<longleftrightarrow>
     (if f = feed then (\<exists>s e tg. (s, e, tg) \<in> set rows \<and> s \<le> n \<and> n \<le> e \<and> tags = Some tg)
      else (f, tags) \<in> set (lookup_ip4 n st))"
  unfolding lookup_ip4_mem replace_feed_rows set_append bex_Un feed_rows_mem by auto

end
