(* ===== verification/Pipeline.thy ===== *)
theory Pipeline
  imports RuleEngine Derived Router Noise Ueba Intel
begin

text \<open>
  The ingest pipeline (\<open>src/blackwatch/pipeline.py\<close>): the one path of every payload. \<open>system\<close> is the
  state of the whole program that the path touches, \<open>world\<close> what it is given: the environment, the
  address and GeoIP functions, and the loaded UEBA configuration (\<open>None\<close>: loading raises). An adapter
  is a function from the payload to events; its exception is \<open>Inl\<close>. One reading of the clock, \<open>now\<close>,
  serves a payload. The modelled projections raise nothing, so no \<open>projection.error\<close> entry appears.
\<close>

section \<open>State\<close>

record world =
  wd_env :: pyenv
  wd_intel :: intel_env
  wd_ueba :: "ueba_config option"

record system =
  sys_db :: db
  sys_corr :: corr_state
  sys_notifier :: notifier
  sys_rules :: "rule list"
  sys_mutes :: "mute_rule list"
  sys_ueba :: ueba
  sys_intel :: intel

datatype notified = Notes "outcome_note list" | Duplicate

record summary =
  su_event_id :: "string option"
  su_action :: string
  su_severity :: "severity option"
  su_rule_matches :: "string list"
  su_notified :: notified
  su_duplicate :: bool

section \<open>One event\<close>

definition summarise :: "event \<Rightarrow> notified \<Rightarrow> bool \<Rightarrow> summary" where
  "summarise event notes dup =
     \<lparr>su_event_id = ev_id event, su_action = ev_action event, su_severity = ev_severity event,
      su_rule_matches = ev_rule_matches event, su_notified = notes, su_duplicate = dup\<rparr>"

text \<open>Handing the anomalies to \<open>emit_fn\<close> one after the other; what it answers is not looked at.\<close>

fun emit_all ::
  "(event \<Rightarrow> system \<Rightarrow> ('r \<times> event \<times> system) option) \<Rightarrow> event list \<Rightarrow> system \<Rightarrow> system option" where
  "emit_all emit [] s = Some s"
| "emit_all emit (a # as) s =
     (case emit a s of None \<Rightarrow> None | Some (_, _, s') \<Rightarrow> emit_all emit as s')"

text \<open>\<open>emit\<close> is the function the anomalies are handed to. The event comes back with its verdict, which
  the code writes into it; \<open>None\<close> says that the nested calls did not end.\<close>

definition process_with ::
  "(event \<Rightarrow> system \<Rightarrow> ((pyerr + summary) \<times> event \<times> system) option) \<Rightarrow> world \<Rightarrow> time \<Rightarrow> event \<Rightarrow> system \<Rightarrow>
   ((pyerr + summary) \<times> event \<times> system) option" where
  "process_with emit W now event s =
     (case evaluate (wd_env W) (sys_rules s) event of
        Inl e \<Rightarrow> Some (Inl e, event, s)
      | Inr ev \<Rightarrow>
          let (inserted, d) = insert_event ev (sys_db s); s1 = s\<lparr>sys_db := d\<rparr> in
          if \<not> inserted then Some (Inr (summarise ev Duplicate True), ev, s1)
          else
            let (notes, nf) = dispatch (wd_env W) now ev d (sys_notifier s1);
                s2 = s1\<lparr>sys_notifier := nf\<rparr>; result = summarise ev (Notes notes) False in
            case wd_ueba W of None \<Rightarrow> Some (Inr result, ev, s2)
            | Some cfg \<Rightarrow>
                let (anomalies, ub) = check_event (wd_env W) cfg now ev (sys_ueba s2)
                in map_option (\<lambda>s3. (Inr result, ev, s3)) (emit_all emit anomalies (s2\<lparr>sys_ueba := ub\<rparr>)))"

text \<open>The code passes \<open>process_event\<close> itself; here the nesting is bounded by the first argument.\<close>

primrec process ::
  "nat \<Rightarrow> world \<Rightarrow> time \<Rightarrow> event \<Rightarrow> system \<Rightarrow> ((pyerr + summary) \<times> event \<times> system) option" where
  "process 0 W now event s = None"
| "process (Suc n) W now event s = process_with (process n W now) W now event s"

definition process_event :: "world \<Rightarrow> time \<Rightarrow> event \<Rightarrow> system \<Rightarrow> (pyerr + summary) \<times> event \<times> system" where
  "process_event W now event s = the (process 2 W now event s)"

section \<open>Projections\<close>

definition on_db :: "(db \<Rightarrow> event list \<times> db) \<Rightarrow> system \<Rightarrow> event list \<times> system" where
  "on_db f s = (let (out, d) = f (sys_db s) in (out, s\<lparr>sys_db := d\<rparr>))"

definition host_stage :: "world \<Rightarrow> time \<Rightarrow> event \<Rightarrow> system \<Rightarrow> event list \<times> system" where
  "host_stage W now event s =
     (let (out, requests, d) = host_project (wd_env W) now event (sys_db s);
          nf = fold (\<lambda>r n. snd (dispatch_direct (wd_env W) now r d n)) requests (sys_notifier s)
      in (out, s\<lparr>sys_db := d, sys_notifier := nf\<rparr>))"

definition corr_stage :: "world \<Rightarrow> time \<Rightarrow> event \<Rightarrow> system \<Rightarrow> event list \<times> system" where
  "corr_stage W now event s =
     (let (out, c) = observe (wd_env W) event now (sys_corr s) in (out, s\<lparr>sys_corr := c\<rparr>))"

definition projections :: "(world \<Rightarrow> time \<Rightarrow> event \<Rightarrow> system \<Rightarrow> event list \<times> system) list" where
  "projections =
     [\<lambda>W now ev. on_db (vpn_project (wd_env W) now ev), host_stage,
      \<lambda>W now ev. on_db (svc_project (wd_env W) now ev),
      \<lambda>W now ev. on_db (s3_project (wd_env W) now ev),
      \<lambda>W now ev. on_db (posture_project (wd_env W) now ev),
      \<lambda>W now ev. on_db (rds_project (wd_env W) now ev),
      \<lambda>W now ev. on_db (api_project (wd_env W) now ev), corr_stage]"

fun run_projections ::
  "(world \<Rightarrow> time \<Rightarrow> event \<Rightarrow> system \<Rightarrow> event list \<times> system) list \<Rightarrow> world \<Rightarrow> time \<Rightarrow> event \<Rightarrow> system \<Rightarrow>
   event list \<times> system" where
  "run_projections [] W now event s = ([], s)"
| "run_projections (p # ps) W now event s =
     (let (out, s1) = p W now event s; (rest, s2) = run_projections ps W now event s1 in (out @ rest, s2))"

section \<open>A payload\<close>

record report =
  rp_summaries :: "summary list"
  rp_muted :: int
  rp_transient :: int

definition empty_report :: report where
  "empty_report = \<lparr>rp_summaries = [], rp_muted = 0, rp_transient = 0\<rparr>"

definition add_summary :: "summary \<Rightarrow> report \<Rightarrow> report" where
  "add_summary x r = r\<lparr>rp_summaries := rp_summaries r @ [x]\<rparr>"

text \<open>The events a projection derived. An exception of the rule engine leaves the loop.\<close>

fun ingest_derived :: "world \<Rightarrow> time \<Rightarrow> event list \<Rightarrow> report \<Rightarrow> system \<Rightarrow> (pyerr + report) \<times> system" where
  "ingest_derived W now [] r s = (Inr r, s)"
| "ingest_derived W now (ev # evs) r s =
     (if is_muted (sys_mutes s) ev then ingest_derived W now evs (r\<lparr>rp_muted := rp_muted r + 1\<rparr>) s
      else case process_event W now ev s of
        (Inl e, _, s1) \<Rightarrow> (Inl e, s1)
      | (Inr x, _, s1) \<Rightarrow> ingest_derived W now evs (add_summary x r) s1)"

definition ingest_one :: "world \<Rightarrow> time \<Rightarrow> event \<Rightarrow> report \<Rightarrow> system \<Rightarrow> (pyerr + report) \<times> system" where
  "ingest_one W now event r s =
     (let (ev, it) = enrich_event (wd_env W) (wd_intel W) now event (sys_intel s); s1 = s\<lparr>sys_intel := it\<rparr> in
      if is_muted (sys_mutes s1) ev then (Inr (r\<lparr>rp_muted := rp_muted r + 1\<rparr>), s1)
      else if ev_action ev \<in> set projection_only_actions
      then let (derived, s2) = run_projections projections W now ev s1
           in ingest_derived W now derived (r\<lparr>rp_transient := rp_transient r + 1\<rparr>) s2
      else case process_event W now ev s1 of
        (Inl e, _, s2) \<Rightarrow> (Inl e, s2)
      | (Inr x, ev2, s2) \<Rightarrow>
          let (derived, s3) = run_projections projections W now ev2 s2
          in ingest_derived W now derived (add_summary x r) s3)"

fun ingest_events :: "world \<Rightarrow> time \<Rightarrow> event list \<Rightarrow> report \<Rightarrow> system \<Rightarrow> (pyerr + report) \<times> system" where
  "ingest_events W now [] r s = (Inr r, s)"
| "ingest_events W now (ev # evs) r s =
     (case ingest_one W now ev r s of (Inl e, s1) \<Rightarrow> (Inl e, s1)
      | (Inr r1, s1) \<Rightarrow> ingest_events W now evs r1 s1)"

datatype ingest_error = NormalizationError string | Raised pyerr

definition ingest_payload ::
  "world \<Rightarrow> time \<Rightarrow> (pyval \<Rightarrow> string + event list) \<Rightarrow> pyval \<Rightarrow> system \<Rightarrow> (ingest_error + report) \<times> system" where
  "ingest_payload W now parse raw s =
     (case parse raw of Inl detail \<Rightarrow> (Inl (NormalizationError detail), s)
      | Inr evs \<Rightarrow> (case ingest_events W now evs empty_report s of
          (Inl e, s1) \<Rightarrow> (Inl (Raised e), s1) | (Inr r, s1) \<Rightarrow> (Inr r, s1)))"

section \<open>Nested processing ends\<close>

lemma evaluate_action: "evaluate E rules ev = Inr ev' \<Longrightarrow> ev_action ev' = ev_action ev \<and> ev_id ev' = ev_id ev"
  by (auto simp: evaluate_def frame_simps split: sum.splits)

lemma str_contains_mid [simp]: "str_contains (a @ t @ b) t"
  by (simp add: str_contains_def)

lemma check_event_anomalies:
  "a \<in> set (fst (check_event E cfg now ev u)) \<Longrightarrow> str_contains (ev_action a) anomaly_infix"
proof -
  have dims: "\<And>a. a \<in> set (fst (check_dims E cfg now ev p i t f ds u)) \<Longrightarrow>
      str_contains (ev_action a) anomaly_infix" for p i t f ds u
    by (induction ds arbitrary: u) (auto simp: Let_def case_prod_beta anomaly_no_reaction split: if_splits)
  assume "a \<in> set (fst (check_event E cfg now ev u))"
  then show ?thesis
    by (auto simp: check_event_def Let_def case_prod_beta dest: dims split: if_splits option.splits)
qed

lemma check_event_anomaly_quiet:
  "str_contains (ev_action ev) anomaly_infix \<Longrightarrow> check_event E cfg now ev u = ([], u)"
  by (simp add: check_event_def)

lemma emit_all_cong:
  "(\<And>a s. a \<in> set as \<Longrightarrow> p a s = q a s) \<Longrightarrow> emit_all p as s = emit_all q as s"
  by (induction "as" arbitrary: s) (auto split: option.splits)

lemma emit_all_total:
  "(\<And>a s. a \<in> set as \<Longrightarrow> p a s \<noteq> None) \<Longrightarrow> emit_all p as s \<noteq> None"
  by (induction "as" arbitrary: s) (auto split: option.splits)

lemma process_with_cong:
  assumes "\<And>a s. str_contains (ev_action a) anomaly_infix \<Longrightarrow> p a s = q a s"
  shows "process_with p W now ev s = process_with q W now ev s"
proof -
  have "emit_all p (fst (check_event E cfg now e u)) s' = emit_all q (fst (check_event E cfg now e u)) s'"
    for E cfg e u s'
    using assms check_event_anomalies by (intro emit_all_cong) blast
  then show ?thesis by (auto simp: process_with_def case_prod_beta Let_def split: sum.splits option.splits)
qed

lemma process_with_total:
  assumes "\<And>a s. str_contains (ev_action a) anomaly_infix \<Longrightarrow> p a s \<noteq> None"
  shows "process_with p W now ev s \<noteq> None"
proof -
  have "emit_all p (fst (check_event E cfg now e u)) s' \<noteq> None" for E cfg e u s'
    using assms check_event_anomalies by (intro emit_all_total) blast
  then show ?thesis by (auto simp: process_with_def case_prod_beta Let_def split: sum.splits option.splits)
qed

text \<open>An anomaly is processed without nested calls.\<close>

lemma process_with_anomaly:
  assumes "str_contains (ev_action ev) anomaly_infix"
  shows "process_with p W now ev s = process_with q W now ev s \<and> process_with p W now ev s \<noteq> None"
proof (cases "evaluate (wd_env W) (sys_rules s) ev")
  case (Inl e)
  then show ?thesis by (simp add: process_with_def)
next
  case (Inr ev')
  then have "str_contains (ev_action ev') anomaly_infix" using assms evaluate_action by metis
  then show ?thesis using Inr
    by (simp add: process_with_def check_event_anomaly_quiet case_prod_beta Let_def split: option.splits)
qed

text \<open>C7: Processing an event always ends: the anomalies it emits are themselves processed without
  emitting any, so two levels of nesting suffice and a larger allowance changes nothing.
\<close>
theorem process_terminates:
  "process (Suc (Suc n)) W now ev s = process 2 W now ev s \<and> process 2 W now ev s \<noteq> None"
  unfolding numeral_2_eq_2 process.simps(2)
  using process_with_cong[of "process_with (process n W now) W now" "process_with (process 0 W now) W now" W now ev s]
    process_with_total[of "process_with (process 0 W now) W now" W now ev s] process_with_anomaly
  by (metis (no_types, lifting))

section \<open>What the projections do to the system\<close>

lemma projections_cases:
  assumes "p \<in> set projections"
  obtains f where "p = (\<lambda>W now ev. on_db (f W now ev))"
      "f \<in> {\<lambda>W. vpn_project (wd_env W), \<lambda>W. svc_project (wd_env W), \<lambda>W. s3_project (wd_env W),
        \<lambda>W. posture_project (wd_env W), \<lambda>W. rds_project (wd_env W), \<lambda>W. api_project (wd_env W)}"
    | "p = host_stage" | "p = corr_stage"
  using assms unfolding projections_def by auto

lemma projected_actions:
  assumes "p \<in> set projections" and "x \<in> set (fst (p W now ev s))"
  shows "ev_action x \<notin> set projection_only_actions"
  using assms(1)
proof (cases rule: projections_cases)
  case (1 f)
  from 1(2) assms(2) consider "x \<in> set (fst (vpn_project (wd_env W) now ev (sys_db s)))"
    | "x \<in> set (fst (svc_project (wd_env W) now ev (sys_db s)))"
    | "x \<in> set (fst (s3_project (wd_env W) now ev (sys_db s)))"
    | "x \<in> set (fst (posture_project (wd_env W) now ev (sys_db s)))"
    | "x \<in> set (fst (rds_project (wd_env W) now ev (sys_db s)))"
    | "x \<in> set (fst (api_project (wd_env W) now ev (sys_db s)))"
    unfolding 1(1) on_db_def by (auto simp: case_prod_beta)
  then show ?thesis
    by cases (drule vpn_project_actions svc_project_actions s3_project_actions posture_project_actions
      rds_project_actions api_project_actions; auto simp: projection_only_actions_def)+
next
  case 2
  then have "x \<in> set (fst (host_project (wd_env W) now ev (sys_db s)))"
    using assms(2) by (simp add: host_stage_def case_prod_beta Let_def)
  then show ?thesis by (drule_tac host_project_actions) (auto simp: projection_only_actions_def diff_actions_def)
next
  case 3
  then have "x \<in> set (fst (observe (wd_env W) ev now (sys_corr s)))"
    using assms(2) by (simp add: corr_stage_def case_prod_beta Let_def)
  then show ?thesis by (drule_tac observe_actions) (auto simp: projection_only_actions_def)
qed

lemma projected_events:
  assumes "p \<in> set projections"
  shows "db_events (sys_db (snd (p W now ev s))) = db_events (sys_db s)"
  using assms
proof (cases rule: projections_cases)
  case (1 f)
  then show ?thesis unfolding 1(1) on_db_def by (auto simp: case_prod_beta frame_simps)
qed (simp_all add: host_stage_def corr_stage_def case_prod_beta Let_def frame_simps)

lemma projected_frame:
  assumes "p \<in> set projections"
  shows "sys_ueba (snd (p W now ev s)) = sys_ueba s" "sys_rules (snd (p W now ev s)) = sys_rules s"
    "sys_mutes (snd (p W now ev s)) = sys_mutes s" "sys_intel (snd (p W now ev s)) = sys_intel s"
  using assms
  by (cases rule: projections_cases; auto simp: on_db_def host_stage_def corr_stage_def case_prod_beta Let_def)+

lemma anomaly_action_stored: "str_contains a anomaly_infix \<Longrightarrow> a \<notin> set projection_only_actions"
proof -
  have "list_all (\<lambda>a. \<not> str_contains a anomaly_infix) projection_only_actions" by code_simp
  then show "str_contains a anomaly_infix \<Longrightarrow> a \<notin> set projection_only_actions" by (auto simp: list_all_iff)
qed

section \<open>Invariants of the path\<close>

text \<open>The states a processed event can leave: after the insert, after the dispatch, after its anomalies.\<close>

lemma process_with_cases:
  fixes W now s ev1
  defines "s1 \<equiv> s\<lparr>sys_db := snd (insert_event ev1 (sys_db s))\<rparr>"
  defines "s2 \<equiv> s1\<lparr>sys_notifier := snd (dispatch (wd_env W) now ev1 (sys_db s1) (sys_notifier s1))\<rparr>"
  assumes "evaluate (wd_env W) (sys_rules s) ev = Inr ev1" and "process_with emit W now ev s = Some (r, e, s')"
  shows "s' = s1 \<or> s' = s2 \<or> (\<exists>cfg. emit_all emit (fst (check_event (wd_env W) cfg now ev1 (sys_ueba s2)))
      (s2\<lparr>sys_ueba := snd (check_event (wd_env W) cfg now ev1 (sys_ueba s2))\<rparr>) = Some s')"
  using assms(3,4)
  by (auto simp: process_with_def s1_def s2_def case_prod_beta Let_def split: if_splits option.splits)

text \<open>
  A property of the system that the steps of the path keep: storing an event that may be stored,
  dispatching, the baseline update, enrichment, and every projection of an event whose module is among
  \<open>M\<close>. Ingesting events of these modules keeps it.
\<close>

lemma process_event_source: "process_event W now ev s = (r, e, s') \<Longrightarrow> ev_source e = ev_source ev"
proof -
  assume p: "process_event W now ev s = (r, e, s')"
  obtain y where y: "process 2 W now ev s = Some y" using process_terminates[of 0 W now ev s] by auto
  then have "process_with (process 1 W now) W now ev s = Some (r, e, s')"
    using p by (simp add: process_event_def numeral_2_eq_2)
  then show ?thesis
    by (auto simp: process_with_def evaluate_def frame_simps case_prod_beta Let_def
        split: sum.splits if_splits option.splits)
qed

lemma enrich_event_source [simp]: "ev_source (fst (enrich_event E G now ev it)) = ev_source ev"
  by (simp add: enrich_event_def case_prod_beta split: option.splits prod.splits)

locale module_invariant =
  fixes M :: "string \<Rightarrow> bool" and I :: "system \<Rightarrow> bool"
  assumes stored: "I s \<Longrightarrow> ev_action ev \<notin> set projection_only_actions \<Longrightarrow>
      I (s\<lparr>sys_db := snd (insert_event ev (sys_db s))\<rparr>)"
    and dispatched: "I s \<Longrightarrow> ev_action ev \<notin> set projection_only_actions \<Longrightarrow>
      I (s\<lparr>sys_notifier := snd (dispatch E now ev (sys_db s) (sys_notifier s))\<rparr>)"
    and checked: "I s \<Longrightarrow> I (s\<lparr>sys_ueba := snd (check_event E cfg now ev (sys_ueba s))\<rparr>)"
    and enriched: "I s \<Longrightarrow> I (s\<lparr>sys_intel := snd (enrich_event E G now ev (sys_intel s))\<rparr>)"
    and projected: "I s \<Longrightarrow> M (src_module (ev_source ev)) \<Longrightarrow> p \<in> set projections \<Longrightarrow> I (snd (p W now ev s))"
begin

lemma emit_all_keeps:
  assumes "\<And>a s r e s'. a \<in> set as \<Longrightarrow> I s \<Longrightarrow> emit a s = Some (r, e, s') \<Longrightarrow> I s'"
    and "I s" and "emit_all emit as s = Some s'"
  shows "I s'"
  using assms
proof (induction "as" arbitrary: s)
  case (Cons a "as")
  from Cons.prems(3) obtain r e s1 where "emit a s = Some (r, e, s1)" "emit_all emit as s1 = Some s'"
    by (auto split: option.splits)
  then show ?case using Cons.IH[of s1] Cons.prems(1,2) by (metis list.set_intros(1,2))
qed simp

lemma process_with_keeps:
  assumes emit: "\<And>a s r e s'. ev_action a \<notin> set projection_only_actions \<Longrightarrow> I s \<Longrightarrow>
      emit a s = Some (r, e, s') \<Longrightarrow> I s'"
    and "I s" and "ev_action ev \<notin> set projection_only_actions"
    and "process_with emit W now ev s = Some (r, e, s')"
  shows "I s'"
proof (cases "evaluate (wd_env W) (sys_rules s) ev")
  case (Inl x)
  then show ?thesis using assms(2,4) by (simp add: process_with_def)
next
  case (Inr ev1)
  define s1 where "s1 = s\<lparr>sys_db := snd (insert_event ev1 (sys_db s))\<rparr>"
  define s2 where "s2 = s1\<lparr>sys_notifier := snd (dispatch (wd_env W) now ev1 (sys_db s1) (sys_notifier s1))\<rparr>"
  have I1: "I s1" unfolding s1_def using stored assms(2,3) evaluate_action[OF Inr] by metis
  have I2: "I s2" unfolding s2_def by (rule dispatched[OF I1]) (use assms(3) evaluate_action[OF Inr] in metis)
  have I3: "I (s2\<lparr>sys_ueba := snd (check_event (wd_env W) cfg now ev1 (sys_ueba s2))\<rparr>)" for cfg
    by (rule checked[OF I2])
  have emitted: "I s''" if "emit_all emit (fst (check_event (wd_env W) cfg now ev1 (sys_ueba s2)))
      (s2\<lparr>sys_ueba := snd (check_event (wd_env W) cfg now ev1 (sys_ueba s2))\<rparr>) = Some s''" for cfg s''
    using emit_all_keeps[OF _ I3 that] emit anomaly_action_stored[OF check_event_anomalies] by metis
  have "s' = s1 \<or> s' = s2 \<or> (\<exists>cfg. emit_all emit (fst (check_event (wd_env W) cfg now ev1 (sys_ueba s2)))
      (s2\<lparr>sys_ueba := snd (check_event (wd_env W) cfg now ev1 (sys_ueba s2))\<rparr>) = Some s')"
    using process_with_cases[OF Inr assms(4)] unfolding s2_def s1_def .
  then show ?thesis using I1 I2 emitted by blast
qed

lemma process_keeps:
  "I s \<Longrightarrow> ev_action ev \<notin> set projection_only_actions \<Longrightarrow> process n W now ev s = Some (r, e, s') \<Longrightarrow> I s'"
proof (induction n arbitrary: ev s r e s')
  case (Suc n)
  show ?case
  proof (rule process_with_keeps[OF _ Suc.prems(1,2)])
    show "process_with (process n W now) W now ev s = Some (r, e, s')" using Suc.prems(3) by simp
  qed (rule Suc.IH)
qed simp

lemma process_event_keeps:
  assumes "I s" and "ev_action ev \<notin> set projection_only_actions" and "process_event W now ev s = (r, e, s')"
  shows "I s'"
  using process_keeps[OF assms(1,2), of 2 W now r e s'] assms(3) process_terminates[of 0 W now ev s]
  by (auto simp: process_event_def)

lemma run_projections_keeps:
  "set ps \<subseteq> set projections \<Longrightarrow> M (src_module (ev_source ev)) \<Longrightarrow> I s \<Longrightarrow> I (snd (run_projections ps W now ev s)) \<and>
     (\<forall>x \<in> set (fst (run_projections ps W now ev s)). ev_action x \<notin> set projection_only_actions)"
proof (induction ps arbitrary: s)
  case (Cons p ps)
  then show ?case
    using projected[of s ev p W now] projected_actions[of p _ W now ev s] Cons.IH[of "snd (p W now ev s)"]
    by (auto simp: Let_def case_prod_beta)
qed simp

lemma ingest_derived_keeps:
  assumes "I s" and "\<forall>x \<in> set evs. ev_action x \<notin> set projection_only_actions"
  shows "I (snd (ingest_derived W now evs r s))"
  using assms
proof (induction evs arbitrary: r s)
  case (Cons ev evs)
  obtain res e s1 where p: "process_event W now ev s = (res, e, s1)" by (metis prod_cases3)
  have "I s1" using process_event_keeps[OF Cons.prems(1) _ p] Cons.prems(2) by simp
  then show ?case using Cons p by (auto split: sum.splits)
qed simp

lemma ingest_one_keeps:
  assumes "I s" and "M (src_module (ev_source ev))"
  shows "I (snd (ingest_one W now ev r s))"
proof -
  obtain ev1 it where en: "enrich_event (wd_env W) (wd_intel W) now ev (sys_intel s) = (ev1, it)" by fastforce
  let ?s1 = "s\<lparr>sys_intel := it\<rparr>"
  have I1: "I ?s1" using enriched[OF assms(1), of "wd_env W" "wd_intel W" now ev] en by simp
  have stage: "I (snd (ingest_derived W now (fst (run_projections projections W now e s')) r'
      (snd (run_projections projections W now e s'))))"
    if "I s'" "ev_source e = ev_source ev" for e s' r'
    using run_projections_keeps[OF subset_refl _ that(1), of e W now] that(2) assms(2)
    by (intro ingest_derived_keeps) simp_all
  obtain res e s2 where p: "process_event W now ev1 ?s1 = (res, e, s2)" by (metis prod_cases3)
  have "ev_action ev1 \<notin> set projection_only_actions \<Longrightarrow> I s2" using process_event_keeps[OF I1 _ p] by blast
  moreover have "ev_source ev1 = ev_source ev" by (metis en enrich_event_source fst_conv)
  moreover from this have "ev_source e = ev_source ev" using process_event_source[OF p] by simp
  ultimately show ?thesis
    using I1 stage[OF I1] stage[of s2 e] p
    by (auto simp: ingest_one_def en Let_def case_prod_beta split: sum.splits)
qed

lemma ingest_events_keeps:
  "I s \<Longrightarrow> list_all (\<lambda>e. M (src_module (ev_source e))) evs \<Longrightarrow> I (snd (ingest_events W now evs r s))"
proof (induction evs arbitrary: r s)
  case (Cons ev evs)
  obtain res s1 where "ingest_one W now ev r s = (res, s1)" by fastforce
  then show ?case using ingest_one_keeps[OF Cons.prems(1), of ev W now r] Cons by (auto split: sum.splits)
qed simp

lemma ingest_parsed_keeps:
  assumes "I s" and "\<And>evs. parse raw = Inr evs \<Longrightarrow> list_all (\<lambda>e. M (src_module (ev_source e))) evs"
  shows "I (snd (ingest_payload W now parse raw s))"
proof (cases "parse raw")
  case (Inr evs)
  then show ?thesis using ingest_events_keeps[OF assms(1) assms(2)[OF Inr], of W now empty_report]
    by (auto simp: ingest_payload_def case_prod_beta split: sum.splits)
qed (simp add: ingest_payload_def assms(1))

end

text \<open>An invariant of every projection is kept whatever the modules of the events.\<close>

locale ingest_invariant =
  fixes I :: "system \<Rightarrow> bool"
  assumes stored: "I s \<Longrightarrow> ev_action ev \<notin> set projection_only_actions \<Longrightarrow>
      I (s\<lparr>sys_db := snd (insert_event ev (sys_db s))\<rparr>)"
    and dispatched: "I s \<Longrightarrow> ev_action ev \<notin> set projection_only_actions \<Longrightarrow>
      I (s\<lparr>sys_notifier := snd (dispatch E now ev (sys_db s) (sys_notifier s))\<rparr>)"
    and checked: "I s \<Longrightarrow> I (s\<lparr>sys_ueba := snd (check_event E cfg now ev (sys_ueba s))\<rparr>)"
    and enriched: "I s \<Longrightarrow> I (s\<lparr>sys_intel := snd (enrich_event E G now ev (sys_intel s))\<rparr>)"
    and projected: "I s \<Longrightarrow> p \<in> set projections \<Longrightarrow> I (snd (p W now ev s))"

sublocale ingest_invariant \<subseteq> any_module: module_invariant "\<lambda>m. True" I
  by unfold_locales (blast intro: stored dispatched checked enriched projected)+

context ingest_invariant
begin

lemma ingest_payload_keeps: "I s \<Longrightarrow> I (snd (ingest_payload W now parse raw s))"
  by (rule any_module.ingest_parsed_keeps) (simp_all add: list_all_iff)

end

section \<open>Properties of the path\<close>

text \<open>What ingestion adds to the events table: only events that may be stored, at its end.\<close>

definition extends_events :: "event list \<Rightarrow> event list \<Rightarrow> bool" where
  "extends_events old new \<longleftrightarrow>
     (\<exists>added. new = old @ added \<and> filter (\<lambda>e. ev_action e \<in> set projection_only_actions) added = [])"

lemma extends_events_insert:
  "extends_events old (db_events d) \<Longrightarrow> ev_action ev \<notin> set projection_only_actions \<Longrightarrow>
   extends_events old (db_events (snd (insert_event ev d)))"
  unfolding extends_events_def insert_event_def by auto

interpretation history: ingest_invariant "\<lambda>s. extends_events old (db_events (sys_db s))" for old
  by unfold_locales (simp_all add: extends_events_insert projected_events)

lemma events_wf_projected:
  "p \<in> set projections \<Longrightarrow> events_wf (sys_db (snd (p W now ev s))) = events_wf (sys_db s)"
  by (simp add: events_wf_def projected_events)

interpretation unique_ids: ingest_invariant "\<lambda>s. events_wf (sys_db s)"
  by unfold_locales (simp_all add: insert_event_wf events_wf_projected)

interpretation ruled: ingest_invariant "\<lambda>s. sys_rules s = rs" for rs
  by unfold_locales (simp_all add: projected_frame)

interpretation baselines: ingest_invariant "\<lambda>s. baseline_ok (sys_ueba s)"
  by unfold_locales (simp_all add: check_event_ok projected_frame)

text \<open>C6: Whatever a payload holds and whatever its adapter makes of it, ingesting it only appends to the
  events table, and no appended event has an action that is meant to feed a projection only.
\<close>
theorem ingest_appends_signal_only:
  "\<exists>added. db_events (sys_db (snd (ingest_payload W now parse raw s))) = db_events (sys_db s) @ added \<and>
     filter (\<lambda>e. ev_action e \<in> set projection_only_actions) added = []"
  using history.ingest_payload_keeps[of "db_events (sys_db s)" s W now parse raw]
  by (simp add: extends_events_def)

text \<open>C10: Ingestion keeps the identifiers of stored events unique, and the first-seen baselines well formed.
\<close>
theorem ingest_keeps_invariants:
  assumes "events_wf (sys_db s)" and "baseline_ok (sys_ueba s)"
  shows "events_wf (sys_db (snd (ingest_payload W now parse raw s))) \<and>
    baseline_ok (sys_ueba (snd (ingest_payload W now parse raw s)))"
  using unique_ids.ingest_payload_keeps[OF assms(1)] baselines.ingest_payload_keeps[OF assms(2)] by blast

section \<open>Mutes\<close>

lemma event_field_enriched [simp]:
  "event_field (event\<lparr>ev_extra := ev_extra event @ [(''intel'', v)]\<rparr>) k = event_field event k"
  by (simp add: event_field_def dget_def map_add_def Let_def split: option.splits)

lemma is_muted_enriched: "is_muted mutes (fst (enrich_event E G now event it)) = is_muted mutes event"
proof -
  have "is_muted mutes (event\<lparr>ev_extra := ev_extra event @ [(''intel'', v)]\<rparr>) = is_muted mutes event" for v
    by (induction mutes) simp_all
  then show ?thesis by (simp add: enrich_event_def case_prod_beta split: option.splits prod.splits)
qed

lemma ingest_one_muted:
  assumes "is_muted (sys_mutes s) event"
  shows "\<exists>it. ingest_one W now event r s = (Inr (r\<lparr>rp_muted := rp_muted r + 1\<rparr>), s\<lparr>sys_intel := it\<rparr>)"
  using assms is_muted_enriched[of "sys_mutes s" "wd_env W" "wd_intel W" now event "sys_intel s"]
  by (auto simp: ingest_one_def case_prod_beta Let_def)

lemma ingest_events_muted:
  assumes "list_all (is_muted (sys_mutes s)) evs"
  shows "\<exists>it. ingest_events W now evs r s =
    (Inr (r\<lparr>rp_muted := rp_muted r + int (length evs)\<rparr>), s\<lparr>sys_intel := it\<rparr>)"
  using assms
proof (induction evs arbitrary: r s)
  case Nil
  then show ?case by (auto intro: exI[of _ "sys_intel s"])
next
  case (Cons ev evs)
  obtain it where one: "ingest_one W now ev r s = (Inr (r\<lparr>rp_muted := rp_muted r + 1\<rparr>), s\<lparr>sys_intel := it\<rparr>)"
    using ingest_one_muted Cons.prems by (metis list.pred_inject(2))
  have "list_all (is_muted (sys_mutes (s\<lparr>sys_intel := it\<rparr>))) evs" using Cons.prems by simp
  from Cons.IH[OF this, of "r\<lparr>rp_muted := rp_muted r + 1\<rparr>"] show ?case by (auto simp: one add.commute)
qed

text \<open>C8: Muted events leave no trace: a payload of muted events changes nothing of the system but the
  address cache - nothing is stored, scored, queued, projected or counted towards a burst - and the
  report counts each of them as muted.
\<close>
theorem muted_leaves_no_trace:
  assumes "parse raw = Inr evs" and "list_all (is_muted (sys_mutes s)) evs"
  shows "\<exists>it. ingest_payload W now parse raw s =
    (Inr \<lparr>rp_summaries = [], rp_muted = int (length evs), rp_transient = 0\<rparr>, s\<lparr>sys_intel := it\<rparr>)"
  using ingest_events_muted[OF assms(2), of W now empty_report] assms(1)
  by (auto simp: ingest_payload_def empty_report_def)

section \<open>Replays\<close>

lemma process_event_with:
  "process_event W now ev s = the (process_with (process 1 W now) W now ev s)"
  by (simp add: process_event_def numeral_2_eq_2)

lemma process_duplicate:
  assumes "ev_id ev \<noteq> None" and "ev_id ev \<in> ev_id ` set (db_events (sys_db s))"
  shows "process_event W now ev s =
    (case evaluate (wd_env W) (sys_rules s) ev of Inl e \<Rightarrow> (Inl e, ev, s)
     | Inr scored \<Rightarrow> (Inr (summarise scored Duplicate True), scored, s))"
proof (cases "evaluate (wd_env W) (sys_rules s) ev")
  case (Inl e)
  then show ?thesis by (simp add: process_event_with process_with_def)
next
  case (Inr ev')
  then have "insert_event ev' (sys_db s) = (False, sys_db s)"
    using assms evaluate_action[OF Inr] by (simp add: insert_event_def)
  then show ?thesis using Inr by (simp add: process_event_with process_with_def)
qed

text \<open>A run: payloads one after the other, each with its world, clock and adapter.\<close>

fun ingest_run :: "(world \<times> time \<times> (pyval \<Rightarrow> string + event list) \<times> pyval) list \<Rightarrow> system \<Rightarrow> system" where
  "ingest_run [] s = s"
| "ingest_run ((W, now, parse, raw) # ps) s = ingest_run ps (snd (ingest_payload W now parse raw s))"

lemma ingest_run_events: "set (db_events (sys_db s)) \<subseteq> set (db_events (sys_db (ingest_run ps s)))"
proof (induction ps arbitrary: s)
  case (Cons p ps)
  obtain W now parse raw where p: "p = (W, now, parse, raw)" by (cases p)
  have "set (db_events (sys_db s)) \<subseteq> set (db_events (sys_db (snd (ingest_payload W now parse raw s))))"
    using history.ingest_payload_keeps[of "db_events (sys_db s)" s W now parse raw]
    by (auto simp: extends_events_def)
  then show ?case using Cons.IH unfolding p by (simp, blast)
qed simp

text \<open>Storing an event, then its anomalies: its identifier is in the table afterwards.\<close>

lemma process_event_stored:
  assumes "process_event W now ev s = (Inr x, e, s')" and "ev_action ev \<notin> set projection_only_actions"
  shows "ev_id ev \<in> ev_id ` set (db_events (sys_db s'))"
proof -
  obtain ev1 where ev1: "evaluate (wd_env W) (sys_rules s) ev = Inr ev1"
    using assms(1) by (cases "evaluate (wd_env W) (sys_rules s) ev") (simp_all add: process_event_with process_with_def)
  define s1 where "s1 = s\<lparr>sys_db := snd (insert_event ev1 (sys_db s))\<rparr>"
  define s2 where "s2 = s1\<lparr>sys_notifier := snd (dispatch (wd_env W) now ev1 (sys_db s1) (sys_notifier s1))\<rparr>"
  define I :: "system \<Rightarrow> bool" where "I = (\<lambda>s. extends_events (db_events (sys_db s1)) (db_events (sys_db s)))"
  have refl: "I s1" "I s2" "I (s2\<lparr>sys_ueba := u\<rparr>)" for u
    by (simp_all add: I_def extends_events_def s2_def)
  have "process 2 W now ev s = Some (Inr x, e, s')"
    using assms(1) process_terminates[of 0 W now ev s] by (auto simp: process_event_def)
  then have run: "process_with (process 1 W now) W now ev s = Some (Inr x, e, s')"
    by (simp only: numeral_2_eq_2 One_nat_def process.simps(2))
  have emitted: "I s''" if "emit_all (process 1 W now) (fst (check_event E cfg now ev1 (sys_ueba s2)))
      (s2\<lparr>sys_ueba := snd (check_event E cfg now ev1 (sys_ueba s2))\<rparr>) = Some s''" for E cfg s''
    unfolding I_def
  proof (rule history.any_module.emit_all_keeps[OF _ _ that])
    fix a s r e s'
    assume "a \<in> set (fst (check_event E cfg now ev1 (sys_ueba s2)))"
      and "extends_events (db_events (sys_db s1)) (db_events (sys_db s))" and "process 1 W now a s = Some (r, e, s')"
    then show "extends_events (db_events (sys_db s1)) (db_events (sys_db s'))"
      using history.any_module.process_keeps anomaly_action_stored check_event_anomalies by blast
  qed (rule refl(3)[unfolded I_def])
  have "I s'" using process_with_cases[OF ev1 run] refl emitted unfolding s2_def s1_def by blast
  moreover have "ev_id ev \<in> ev_id ` set (db_events (sys_db s1))"
    using evaluate_action[OF ev1] by (auto simp: s1_def insert_event_def)
  ultimately show ?thesis by (auto simp: I_def extends_events_def)
qed

text \<open>C3: Storing, notifying and learning happen once per identifier. Once an event with a chosen
  identifier has been processed, then after any number of further payloads, processing an event with that
  identifier scores it and leaves the whole system as it is - no second row, notification, baseline count
  or anomaly - and reports a duplicate. On the ingest path such an event still goes through the
  projections, and what they do is all it does.
\<close>
theorem replay_silent:
  assumes "process_event W now ev s = (Inr x, e, s1)" and "ev_action ev \<notin> set projection_only_actions"
    and "ev_id ev \<noteq> None" and "ev_id again = ev_id ev" and "s2 = ingest_run ps s1"
    and "evaluate (wd_env W') (sys_rules s2) again = Inr scored"
  shows "process_event W' now' again s2 = (Inr (summarise scored Duplicate True), scored, s2) \<and>
    (enrich_event (wd_env W') (wd_intel W') now' received (sys_intel s2) = (again, it)
       \<and> \<not> is_muted (sys_mutes s2) again \<and> ev_action again \<notin> set projection_only_actions \<longrightarrow>
     ingest_one W' now' received r s2 =
       (case run_projections projections W' now' scored (s2\<lparr>sys_intel := it\<rparr>) of (derived, s3) \<Rightarrow>
          ingest_derived W' now' derived (add_summary (summarise scored Duplicate True) r) s3))"
proof -
  have "ev_id again \<noteq> None" using assms(3,4) by simp
  moreover have "ev_id again \<in> ev_id ` set (db_events (sys_db s2))"
    using process_event_stored[OF assms(1,2)] ingest_run_events[of s1 ps] assms(4,5) by (metis image_mono subsetD)
  ultimately have p: "process_event W' now' again (s2\<lparr>sys_intel := i\<rparr>) =
      (Inr (summarise scored Duplicate True), scored, s2\<lparr>sys_intel := i\<rparr>)" for i
    using assms(6) by (simp add: process_duplicate)
  from p[of "sys_intel s2"] p[of it] show ?thesis by (simp add: ingest_one_def)
qed

text \<open>So a replayed failed login is counted again by the correlation.\<close>

lemma projections_correlate:
  "sys_corr (snd (run_projections projections W now ev s)) = snd (observe (wd_env W) ev now (sys_corr s))"
  by (simp add: projections_def on_db_def host_stage_def corr_stage_def case_prod_beta Let_def)

text \<open>The system and the world of the witnesses: one mute, one notification rule, UEBA on.\<close>

definition demo_world :: world where
  "demo_world = \<lparr>wd_env = demo_env, wd_intel = sample_intel_env, wd_ueba = Some sample_config\<rparr>"

definition demo_system :: system where
  "demo_system = \<lparr>sys_db = empty_db, sys_corr = reset_state, sys_notifier = demo_notifier, sys_rules = [],
     sys_mutes = [sample_mute], sys_ueba = empty_ueba, sys_intel = empty_intel\<rparr>"

definition demo_stored :: event where
  "demo_stored = demo_event\<lparr>ev_id := Some ''e1''\<rparr>"

lemma ingest_keeps_invariants_witness:
  "events_wf (sys_db (snd (ingest_payload demo_world 0 (\<lambda>p. Inr [demo_stored, demo_stored]) PyNone demo_system))) \<and>
   baseline_ok (sys_ueba (snd (ingest_payload demo_world 0 (\<lambda>p. Inr [demo_stored, demo_stored]) PyNone demo_system)))"
  by (rule ingest_keeps_invariants) (simp_all add: demo_system_def events_wf_def empty_db_def)

definition demo_muted :: event where
  "demo_muted = (event_defaults 0 (new_source ''aws.rds'' T_poll))\<lparr>ev_action := ''rds.auth.failure'',
     ev_actor := new_actor (Some ''app'') None\<rparr>"

lemma muted_leaves_no_trace_witness:
  "\<exists>it. ingest_payload demo_world 0 (\<lambda>p. Inr [demo_muted]) PyNone demo_system =
     (Inr \<lparr>rp_summaries = [], rp_muted = 1, rp_transient = 0\<rparr>, demo_system\<lparr>sys_intel := it\<rparr>)"
  using muted_leaves_no_trace[of "\<lambda>p. Inr [demo_muted]" PyNone "[demo_muted]" demo_system demo_world 0]
  by (simp add: demo_system_def sample_mute_def demo_muted_def event_field_def new_actor_def opt_val_def
      event_defaults_def field_differs_def py_or_def)

lemma replay_silent_witness:
  "\<exists>s1. snd (snd (process_event demo_world 0 demo_stored demo_system)) = s1 \<and>
     process_event demo_world 60 demo_stored s1 = (Inr (summarise demo_stored Duplicate True), demo_stored, s1)"
proof -
  obtain r e s1 where p: "process_event demo_world 0 demo_stored demo_system = (r, e, s1)" by (metis prod_cases3)
  have "\<exists>x. r = Inr x"
    using p process_terminates[of 0 demo_world 0 demo_stored demo_system]
    by (auto simp: process_event_def numeral_2_eq_2 process_with_def demo_system_def demo_world_def evaluate_def
        Let_def case_prod_beta split: if_splits)
  then obtain x where x: "r = Inr x" ..
  have rules: "sys_rules s1 = []"
    using ruled.any_module.process_event_keeps[OF _ _ p, of "[]"]
    by (simp add: demo_system_def demo_stored_def demo_event_def projection_only_actions_def)
  then have "evaluate (wd_env demo_world) (sys_rules s1) demo_stored = Inr demo_stored" by (simp add: evaluate_def assess_def)
  moreover have "ev_action demo_stored \<notin> set projection_only_actions" "ev_id demo_stored \<noteq> None"
    by (simp_all add: demo_stored_def demo_event_def projection_only_actions_def)
  ultimately show ?thesis
    using replay_silent[OF p[unfolded x], of demo_stored s1 "[]" demo_world demo_stored 60] p by simp
qed

section \<open>An exception of the rule engine\<close>

lemma ingest_events_append:
  "ingest_events W now (xs @ ys) r s =
     (case ingest_events W now xs r s of (Inl e, s1) \<Rightarrow> (Inl e, s1)
      | (Inr r1, s1) \<Rightarrow> ingest_events W now ys r1 s1)"
  by (induction xs arbitrary: r s) (auto split: prod.splits sum.splits)

lemma ingest_one_raises:
  assumes "enrich_event (wd_env W) (wd_intel W) now event (sys_intel s) = (ev, it)"
    and "\<not> is_muted (sys_mutes s) ev" and "ev_action ev \<notin> set projection_only_actions"
    and "evaluate (wd_env W) (sys_rules s) ev = Inl err"
  shows "ingest_one W now event r s = (Inl err, s\<lparr>sys_intel := it\<rparr>)"
  using assms by (simp add: ingest_one_def process_event_with process_with_def)

text \<open>C9: A rule condition that raises on an event aborts its payload: the events before it stay stored and
  projected, the event itself is neither stored nor projected, the events after it are not looked at,
  and the caller gets the exception instead of a report.
\<close>
theorem raising_rule_aborts_payload:
  assumes "parse raw = Inr (before @ event # after)"
    and "ingest_events W now before empty_report s = (Inr r, s1)"
    and "enrich_event (wd_env W) (wd_intel W) now event (sys_intel s1) = (ev, it)"
    and "\<not> is_muted (sys_mutes s1) ev" and "ev_action ev \<notin> set projection_only_actions"
    and "evaluate (wd_env W) (sys_rules s1) ev = Inl err"
  shows "ingest_payload W now parse raw s = (Inl (Raised err), s1\<lparr>sys_intel := it\<rparr>)"
  using ingest_one_raises[OF assms(3-6)] assms(1,2) by (simp add: ingest_payload_def ingest_events_append)

text \<open>A rule whose operator the engine does not know.\<close>

definition broken_rule :: rule where
  "broken_rule = \<lparr>rule_id = ''bad'', rule_title = [], rule_description = [], rule_enabled = True,
     rule_act = Alert, rule_severity = None, rule_tags = [], rule_match = leaf ''action'' ''like'' (PyStr ''x'')\<rparr>"

lemma raising_rule_aborts_payload_witness:
  "\<exists>err it. ingest_payload demo_world 0 (\<lambda>p. Inr [demo_stored, demo_stored]) PyNone
     (demo_system\<lparr>sys_rules := [broken_rule]\<rparr>) =
   (Inl (Raised err), demo_system\<lparr>sys_rules := [broken_rule], sys_intel := it\<rparr>)"
proof -
  let ?s = "demo_system\<lparr>sys_rules := [broken_rule]\<rparr>"
  obtain ev it where en: "enrich_event (wd_env demo_world) (wd_intel demo_world) 0 demo_stored (sys_intel ?s) = (ev, it)"
    by fastforce
  have ev: "ev = demo_stored"
    using en by (simp add: enrich_event_def demo_stored_def demo_event_def event_ips_def event_defaults_def
        new_actor_def map_filter_simps split: prod.splits option.splits)
  have "is_muted (sys_mutes ?s) ev = False" "ev_action ev \<notin> set projection_only_actions"
    by (simp_all add: ev demo_system_def sample_mute_def demo_stored_def demo_event_def projection_only_actions_def)
  moreover obtain err where "evaluate (wd_env demo_world) (sys_rules ?s) ev = Inl err"
    by (simp add: ev evaluate_def demo_world_def broken_rule_def leaf_def eval_leaf_def apply_operator_def
        operator_names_def)
  ultimately show ?thesis
    using raising_rule_aborts_payload[of "\<lambda>p. Inr [demo_stored, demo_stored]" PyNone "[]" demo_stored
        "[demo_stored]" demo_world 0 ?s empty_report ?s ev it err] en
    by auto
qed

end
