(* ===== verification/Ownership.thy ===== *)
theory Ownership
  imports Pipeline
begin

text \<open>
  Which tables a projection writes: \<open>foreign m d\<close> is the database without the events table and without the
  tables that the projection of module \<open>m\<close> owns; every projection leaves all that is foreign to it alone.
\<close>

definition foreign :: "string \<Rightarrow> db \<Rightarrow> db" where
  "foreign m d0 =
     (let d = d0\<lparr>db_events := []\<rparr> in
      if m = ''vpn.openvpn'' then d\<lparr>db_vpn := []\<rparr>
      else if m = ''ec2.host'' then d\<lparr>db_hosts := [], db_metrics := [], db_perf_rules := [], db_fim_history := [],
        db_fim_baselines := [], db_fim_coverage := []\<rparr>
      else if m = ''ecs.probe'' then d\<lparr>db_services := [], db_agents := []\<rparr>
      else if m = ''aws.s3'' then d\<lparr>db_buckets := []\<rparr>
      else if m = ''aws.posture'' then d\<lparr>db_findings := []\<rparr>
      else if m = ''aws.rds'' then d\<lparr>db_sessions := [], db_proxy_sources := [], db_user_sources := []\<rparr>
      else if m = ''aws.api_gw'' then d\<lparr>db_api_sources := []\<rparr>
      else d)"

named_theorems own_simps \<open>what an operation leaves alone outside its own tables\<close>

section \<open>Table operations\<close>

lemma foreign_insert [own_simps]: "foreign m (snd (insert_event ev d)) = foreign m d"
  by (simp add: foreign_def insert_event_def Let_def)

lemma foreign_vpn_ops [own_simps]:
  "foreign ''vpn.openvpn'' (upsert_vpn_health sv a t d) = foreign ''vpn.openvpn'' d"
  "foreign ''vpn.openvpn'' (upsert_vpn_clients sv vc t d) = foreign ''vpn.openvpn'' d"
  "foreign ''vpn.openvpn'' (upsert_vpn_certs sv v t d) = foreign ''vpn.openvpn'' d"
  by (simp_all add: foreign_def upsert_vpn_health_def upsert_vpn_clients_def upsert_vpn_certs_def Let_def
      split: option.splits)

lemma foreign_s3_ops [own_simps]:
  "foreign ''aws.s3'' (upsert_bucket_status n br d) = foreign ''aws.s3'' d"
  "foreign ''aws.s3'' (delete_bucket_status n d) = foreign ''aws.s3'' d"
  by (simp_all add: foreign_def upsert_bucket_status_def delete_bucket_status_def Let_def)

lemma foreign_posture_ops [own_simps]:
  "foreign ''aws.posture'' (snd (upsert_posture_finding f ri rt ft sv rg ac e t d)) = foreign ''aws.posture'' d"
  "foreign ''aws.posture'' (mark_posture_finding_resolved f t d) = foreign ''aws.posture'' d"
  by (simp_all add: foreign_def upsert_posture_finding_def mark_posture_finding_resolved_def Let_def
      split: option.splits)

lemma foreign_svc_ops [own_simps]:
  "foreign ''ecs.probe'' (upsert_probe_agent vpc t ver a d) = foreign ''ecs.probe'' d"
  "foreign ''ecs.probe'' (upsert_service_status i sr d) = foreign ''ecs.probe'' d"
  by (simp_all add: foreign_def upsert_probe_agent_def upsert_service_status_def Let_def split: option.splits)

lemma foreign_rds_ops [own_simps]:
  "foreign ''aws.rds'' (snd (upsert_rds_session_start s i st u n ip pt t x d)) = foreign ''aws.rds'' d"
  "foreign ''aws.rds'' (snd (close_rds_session s t dur d)) = foreign ''aws.rds'' d"
  "foreign ''aws.rds'' (snd (upsert_rds_proxy_source pip t d)) = foreign ''aws.rds'' d"
  "foreign ''aws.rds'' (snd (upsert_rds_user_source uu uip t d)) = foreign ''aws.rds'' d"
  by (simp_all add: foreign_def upsert_rds_session_start_def close_rds_session_def upsert_rds_proxy_source_def
      upsert_rds_user_source_def Let_def split: option.splits)

lemma foreign_api_ops [own_simps]:
  "foreign ''aws.api_gw'' (snd (upsert_api_source ip api t e4 e5 d)) = foreign ''aws.api_gw'' d"
  by (simp add: foreign_def upsert_api_source_def Let_def)

lemma foreign_host_ops [own_simps]:
  "foreign ''ec2.host'' (set_host_snapshots i sn t d) = foreign ''ec2.host'' d"
  "foreign ''ec2.host'' (upsert_host_status i h ac rg t a hx b st d) = foreign ''ec2.host'' d"
  "foreign ''ec2.host'' (update_perf_rule_state rid ss pv pf d) = foreign ''ec2.host'' d"
  "foreign ''ec2.host'' (upsert_host_metric_sample w i t mm mc d) = foreign ''ec2.host'' d"
  "foreign ''ec2.host'' (insert_fim_history i fh d) = foreign ''ec2.host'' d"
  "foreign ''ec2.host'' (delete_fim_baseline i p d) = foreign ''ec2.host'' d"
  "foreign ''ec2.host'' (upsert_fim_baseline i p fb d) = foreign ''ec2.host'' d"
  "foreign ''ec2.host'' (upsert_fim_coverage i fc d) = foreign ''ec2.host'' d"
  by (simp_all add: foreign_def set_host_snapshots_def upsert_host_status_def update_perf_rule_state_def
      upsert_host_metric_sample_def insert_fim_history_def delete_fim_baseline_def upsert_fim_baseline_def
      upsert_fim_coverage_def Let_def split: option.splits)

section \<open>Projections\<close>

lemma foreign_vpn_project: "foreign ''vpn.openvpn'' (snd (vpn_project E now ev d)) = foreign ''vpn.openvpn'' d"
  by (simp add: vpn_project_def vpn_health_def vpn_snapshot_def vpn_cert_snapshot_def Let_def own_simps
      split: option.splits)

lemma foreign_s3_reconcile [own_simps]:
  "foreign ''aws.s3'' (snd (s3_reconcile E now ev ac seen ts d)) = foreign ''aws.s3'' d"
  by (induction E now ev ac seen ts d rule: s3_reconcile.induct) (simp_all add: Let_def case_prod_beta own_simps)

lemma foreign_s3_project: "foreign ''aws.s3'' (snd (s3_project E now ev d)) = foreign ''aws.s3'' d"
  by (simp add: s3_project_def s3_snapshot_def s3_scan_completed_def Let_def own_simps)

lemma foreign_resolve_missing [own_simps]:
  "foreign ''aws.posture'' (snd (resolve_missing E now ev seen fs d)) = foreign ''aws.posture'' d"
  by (induction E now ev seen fs d rule: resolve_missing.induct)
    (simp_all add: Let_def case_prod_beta own_simps split: option.splits)

lemma foreign_posture_project: "foreign ''aws.posture'' (snd (posture_project E now ev d)) = foreign ''aws.posture'' d"
  by (simp add: posture_project_def posture_finding_def posture_scan_completed_def Let_def case_prod_beta own_simps)

lemma foreign_svc_project: "foreign ''ecs.probe'' (snd (svc_project E now ev d)) = foreign ''ecs.probe'' d"
  by (simp add: svc_project_def svc_heartbeat_def svc_result_def Let_def own_simps split: option.splits)

lemma foreign_rds_handlers:
  "foreign ''aws.rds'' (snd (detect_new_user_source E now ev ts d)) = foreign ''aws.rds'' d"
  "foreign ''aws.rds'' (rds_session_ended E ev d) = foreign ''aws.rds'' d"
  "foreign ''aws.rds'' (snd (record_proxy_source E now ev ts d)) = foreign ''aws.rds'' d"
  by (simp_all add: detect_new_user_source_def rds_session_ended_def record_proxy_source_def Let_def case_prod_beta
      foreign_rds_ops)

lemma foreign_rds_start: "foreign ''aws.rds'' (snd (rds_session_started E now ev d)) = foreign ''aws.rds'' d"
  by (simp add: rds_session_started_def Let_def case_prod_beta foreign_rds_handlers(1) foreign_rds_ops(1))

lemma foreign_rds_project: "foreign ''aws.rds'' (snd (rds_project E now ev d)) = foreign ''aws.rds'' d"
  by (simp add: rds_project_def Let_def foreign_rds_handlers foreign_rds_start)

lemma foreign_api_project: "foreign ''aws.api_gw'' (snd (api_project E now ev d)) = foreign ''aws.api_gw'' d"
  by (simp add: api_project_def record_source_def Let_def case_prod_beta own_simps)

definition host_erased :: "db \<Rightarrow> db" where "host_erased d = foreign ''ec2.host'' d"

lemmas host_erased_ops = foreign_host_ops[folded host_erased_def]

lemma host_erased_evaluate [own_simps]:
  "host_erased (snd (evaluate_one E rid r v t i d)) = host_erased d"
  "host_erased (snd (snd (evaluate_rules E now ev i tags ms rules d0))) = host_erased d0"
proof -
  show one: "host_erased (snd (evaluate_one E rid r v t i d)) = host_erased d" for rid r v t i d
    by (simp add: evaluate_one_def Let_def host_erased_ops)
  show "host_erased (snd (snd (evaluate_rules E now ev i tags ms rules d0))) = host_erased d0"
    by (induction rules arbitrary: d0) (auto simp: Let_def case_prod_beta one split: option.splits)
qed

lemma host_erased_handlers:
  "host_erased (snd (snd (perf_evaluate E now ev d))) = host_erased d"
  "host_erased (project_fim_change E ev i d) = host_erased d"
  "host_erased (fim_coverage_report E ev i d) = host_erased d"
  "host_erased (snd (host_snapshot E now ev i d)) = host_erased d"
  by (simp_all add: perf_evaluate_def project_fim_change_def fim_coverage_report_def host_snapshot_def Let_def
      case_prod_beta host_erased_ops host_erased_evaluate split: option.splits)

lemma host_erased_heartbeat: "host_erased (snd (snd (host_heartbeat E now ev i d))) = host_erased d"
  by (simp add: host_heartbeat_def Let_def case_prod_beta host_erased_ops host_erased_handlers(1))

lemma foreign_host_project: "foreign ''ec2.host'' (snd (snd (host_project E now ev d))) = foreign ''ec2.host'' d"
  by (simp add: host_project_def Let_def case_prod_beta host_erased_handlers host_erased_heartbeat
      flip: host_erased_def)

text \<open>A projection does nothing for the events of another module.\<close>

lemma other_module_projects:
  "src_module (ev_source ev) \<noteq> ''vpn.openvpn'' \<Longrightarrow> vpn_project E now ev d = ([], d)"
  "src_module (ev_source ev) \<noteq> ''aws.s3'' \<Longrightarrow> s3_project E now ev d = ([], d)"
  "src_module (ev_source ev) \<noteq> ''aws.posture'' \<Longrightarrow> posture_project E now ev d = ([], d)"
  "src_module (ev_source ev) \<noteq> ''ecs.probe'' \<Longrightarrow> svc_project E now ev d = ([], d)"
  "src_module (ev_source ev) \<noteq> ''aws.rds'' \<Longrightarrow> rds_project E now ev d = ([], d)"
  "src_module (ev_source ev) \<noteq> ''aws.api_gw'' \<Longrightarrow> api_project E now ev d = ([], d)"
  "src_module (ev_source ev) \<noteq> ''ec2.host'' \<Longrightarrow> host_project E now ev d = ([], [], d)"
  by (simp_all add: vpn_project_def s3_project_def posture_project_def svc_project_def rds_project_def
      api_project_def host_project_def HOST_MODULE_def)

lemma foreign_by_module:
  assumes "src_module (ev_source ev) = m"
  shows "foreign m (snd (vpn_project E now ev d)) = foreign m d"
    "foreign m (snd (s3_project E now ev d)) = foreign m d"
    "foreign m (snd (posture_project E now ev d)) = foreign m d"
    "foreign m (snd (svc_project E now ev d)) = foreign m d"
    "foreign m (snd (rds_project E now ev d)) = foreign m d"
    "foreign m (snd (api_project E now ev d)) = foreign m d"
    "foreign m (snd (snd (host_project E now ev d))) = foreign m d"
  subgoal using assms foreign_vpn_project by (cases "m = ''vpn.openvpn''") (simp_all add: other_module_projects(1))
  subgoal using assms foreign_s3_project by (cases "m = ''aws.s3''") (simp_all add: other_module_projects(2))
  subgoal using assms foreign_posture_project by (cases "m = ''aws.posture''") (simp_all add: other_module_projects(3))
  subgoal using assms foreign_svc_project by (cases "m = ''ecs.probe''") (simp_all add: other_module_projects(4))
  subgoal using assms foreign_rds_project by (cases "m = ''aws.rds''") (simp_all add: other_module_projects(5))
  subgoal using assms foreign_api_project by (cases "m = ''aws.api_gw''") (simp_all add: other_module_projects(6))
  subgoal using assms foreign_host_project by (cases "m = ''ec2.host''") (simp_all add: other_module_projects(7))
  done

lemma foreign_projected:
  assumes "p \<in> set projections" and "m = src_module (ev_source ev)"
  shows "foreign m (sys_db (snd (p W now ev s))) = foreign m (sys_db s)"
  using assms(1)
proof (cases rule: projections_cases)
  case (1 f)
  then show ?thesis using foreign_by_module(1-6)[OF assms(2)[symmetric]] by (auto simp: on_db_def case_prod_beta)
next
  case 2
  then show ?thesis using foreign_by_module(7)[OF assms(2)[symmetric]] by (simp add: host_stage_def case_prod_beta Let_def)
qed (simp add: corr_stage_def case_prod_beta Let_def)

text \<open>Ingesting events of module \<open>m\<close> keeps what is foreign to \<open>m\<close>.\<close>

interpretation owned: module_invariant "\<lambda>k. k = m" "\<lambda>s. foreign m (sys_db s) = f" for m f
  by unfold_locales (simp_all add: foreign_insert foreign_projected)

end
