(* ===== verification/Intake.thy ===== *)
theory Intake
  imports Adapters Ownership
begin

text \<open>
  \<open>ingest_payload\<close> of \<open>src/blackwatch/pipeline.py\<close> with the registered adapters: the payload goes to the
  adapter of its module, or to the generic one, and what it makes goes down the path of the theory
  Pipeline. The second component of the state is what the RDS adapter remembers between calls.
\<close>

text \<open>\<open>str(exc)\<close>.\<close>

fun err_text :: "pyerr \<Rightarrow> string" where
  "err_text (ValueError m) = m" | "err_text (RegexError m) = m" | "err_text (TypeError m) = m"
| "err_text (KeyError m) = quote_char # m @ [quote_char]" | "err_text (RuntimeError m) = m"
| "err_text (AttributeError m) = m" | "err_text (OverflowError m) = m"

type_synonym service = "system \<times> proxy_cache"

definition ingest_from ::
  "world \<Rightarrow> time \<Rightarrow> registry \<Rightarrow> ingest_ctx \<Rightarrow> pyval \<Rightarrow> service \<Rightarrow> (ingest_error + report) \<times> service" where
  "ingest_from W now reg ctx raw sc =
     (case resolve_adapter reg (cx_module ctx) of
        None \<Rightarrow> (Inl (Raised (KeyError GENERIC_MODULE)), sc)
      | Some a \<Rightarrow>
          let (r, c1) = run_adapter a (wd_env W) now ctx raw (snd sc);
              (out, s1) = ingest_payload W now (\<lambda>_. case r of Inl e \<Rightarrow> Inl (err_text e) | Inr evs \<Rightarrow> Inr evs) raw (fst sc)
          in (out, s1, c1))"

section \<open>Where a payload goes\<close>

lemma resolve_builtin_cases:
  "resolve_adapter (register_builtins []) m =
     Some (case map_of (map (\<lambda>a. (adapter_module a, a)) builtin_adapters) m of Some a \<Rightarrow> a | None \<Rightarrow> Generic_adapter)"
  by (simp add: resolve_adapter_def register_builtins_def builtin_adapters_def register_adapter_def GENERIC_MODULE_def
      split: option.splits)

lemma resolve_builtin_origin:
  assumes "resolve_adapter (register_builtins []) (cx_module ctx) = Some a"
  shows "adapter_origin a ctx = cx_module ctx"
proof (cases "map_of (map (\<lambda>a. (adapter_module a, a)) builtin_adapters) (cx_module ctx)")
  case None
  then show ?thesis using assms by (simp add: resolve_builtin_cases adapter_origin_def)
next
  case (Some b)
  then have "adapter_module b = cx_module ctx" using map_of_SomeD[OF Some] by auto
  then show ?thesis using assms Some by (simp add: resolve_builtin_cases adapter_origin_def)
qed

lemma ingest_from_foreign:
  "foreign (cx_module ctx) (sys_db (fst (snd (ingest_from W now (register_builtins []) ctx raw sc)))) =
   foreign (cx_module ctx) (sys_db (fst sc))"
proof (cases "resolve_adapter (register_builtins []) (cx_module ctx)")
  case None
  then show ?thesis by (simp add: ingest_from_def)
next
  case (Some a)
  obtain r c1 where r: "run_adapter a (wd_env W) now ctx raw (snd sc) = (r, c1)" by fastforce
  have "list_all (\<lambda>e. src_module (ev_source e) = cx_module ctx) evs" if "r = Inr evs" for evs
    using run_adapter_emits[of a "wd_env W" now ctx raw "snd sc" evs] resolve_builtin_origin[OF Some] r that
    by (simp add: list_all_iff emits_def)
  then have "foreign (cx_module ctx) (sys_db (snd (ingest_payload W now
      (\<lambda>_. case r of Inl e \<Rightarrow> Inl (err_text e) | Inr evs \<Rightarrow> Inr evs) raw (fst sc)))) = foreign (cx_module ctx) (sys_db (fst sc))"
    by (intro owned.ingest_parsed_keeps) (auto split: sum.splits)
  then show ?thesis by (simp add: ingest_from_def Some r case_prod_beta Let_def)
qed

text \<open>C4: A payload addressed to a module changes no table that belongs to the projection of another module:
  whatever it holds and whichever adapter takes it, only the events table and the module's own tables can
  differ afterwards.
\<close>
theorem payload_stays_in_module:
  "foreign (cx_module ctx) (sys_db (fst (snd (ingest_from W now (register_builtins []) ctx raw sc)))) =
   foreign (cx_module ctx) (sys_db (fst sc))"
  by (rule ingest_from_foreign)

end
