(* ===== verification/Connectors.thy ===== *)
theory Connectors
  imports EventModel Storage
begin

text \<open>
  Connectors and their operation history: the two tables (\<open>src/blackwatch/storage.py\<close>), the pure parts
  of the operation manager - failure classes, redaction, backoff, progress -
  (\<open>src/blackwatch/connectors/operations.py\<close>) and the decisions of the scheduler
  (\<open>src/blackwatch/connectors/scheduler.py\<close>). Jitter and fresh identifiers are arguments.
\<close>

section \<open>Rows\<close>

record connector =
  co_name :: string
  co_type :: string
  co_enabled :: bool
  co_verified :: bool
  co_config :: dict
  co_last_run_at :: "time option"
  co_last_status :: "string option"
  co_last_error :: "string option"
  co_retry_count :: int
  co_next_attempt_at :: "time option"
  co_reason :: "string option"

datatype op_status = Op_queued | Op_running | Op_succeeded | Op_failed | Op_skipped | Op_timed_out

definition op_active :: "op_status \<Rightarrow> bool" where
  "op_active s \<longleftrightarrow> s = Op_queued \<or> s = Op_running"

record operation =
  op_kind :: string
  op_connector :: "string option"
  op_parent :: "string option"
  op_status :: op_status
  op_requested_at :: time
  op_started_at :: "time option"
  op_finished_at :: "time option"
  op_next_attempt_at :: "time option"
  op_retry_count :: int
  op_attempt :: int
  op_duration_ms :: "int option"
  op_outcome :: dict
  op_error_category :: "string option"
  op_error_message :: "string option"
  op_created_by :: "string option"

record conn_db =
  cd_connectors :: "(string \<times> connector) list"
  cd_operations :: "(string \<times> operation) list"

section \<open>The connectors table\<close>

definition list_connectors :: "conn_db \<Rightarrow> (string \<times> connector) list" where
  "list_connectors d = sort_key (\<lambda>(i, c). co_name c) (cd_connectors d)"

definition get_connector :: "conn_db \<Rightarrow> string \<Rightarrow> connector option" where
  "get_connector d i = map_of (cd_connectors d) i"

definition alter_connector :: "string \<Rightarrow> (connector \<Rightarrow> connector) \<Rightarrow> conn_db \<Rightarrow> conn_db" where
  "alter_connector i f d = (case get_connector d i of None \<Rightarrow> d
     | Some c \<Rightarrow> d\<lparr>cd_connectors := AList.update i (f c) (cd_connectors d)\<rparr>)"

definition upsert_connector :: "string \<Rightarrow> string \<Rightarrow> string \<Rightarrow> dict \<Rightarrow> conn_db \<Rightarrow> conn_db" where
  "upsert_connector i name ctype config d =
     (case get_connector d i of
        None \<Rightarrow> d\<lparr>cd_connectors := AList.update i
          \<lparr>co_name = name, co_type = ctype, co_enabled = False, co_verified = False, co_config = config,
           co_last_run_at = None, co_last_status = None, co_last_error = None, co_retry_count = 0,
           co_next_attempt_at = None, co_reason = None\<rparr> (cd_connectors d)\<rparr>
      | Some c \<Rightarrow> alter_connector i (\<lambda>c. c\<lparr>co_name := name, co_config := config, co_verified := False\<rparr>) d)"

definition set_connector_enabled :: "string \<Rightarrow> bool \<Rightarrow> conn_db \<Rightarrow> conn_db" where
  "set_connector_enabled i b = alter_connector i (\<lambda>c. c\<lparr>co_enabled := b\<rparr>)"

definition delete_connector :: "string \<Rightarrow> conn_db \<Rightarrow> conn_db" where
  "delete_connector i d = d\<lparr>cd_connectors := AList.delete i (cd_connectors d)\<rparr>"

definition operation_live :: "conn_db \<Rightarrow> string \<Rightarrow> bool" where
  "operation_live d o1 = (case map_of (cd_operations d) o1 of None \<Rightarrow> False | Some r \<Rightarrow> op_active (op_status r))"

text \<open>With an operation given, the row is written only while that operation is queued or running.\<close>

definition set_connector_status ::
  "string \<Rightarrow> string \<Rightarrow> string option \<Rightarrow> time \<Rightarrow> bool option \<Rightarrow> string option \<Rightarrow> conn_db \<Rightarrow> conn_db" where
  "set_connector_status i status err run_at verified o1 d =
     (if o1 \<noteq> None \<and> \<not> operation_live d (the o1) then d
      else alter_connector i (\<lambda>c. c\<lparr>co_last_status := Some status, co_last_error := err,
             co_last_run_at := Some run_at,
             co_verified := (case verified of None \<Rightarrow> co_verified c | Some v \<Rightarrow> v)\<rparr>) d)"

definition set_connector_retry ::
  "string \<Rightarrow> int \<Rightarrow> time option \<Rightarrow> string option \<Rightarrow> conn_db \<Rightarrow> conn_db" where
  "set_connector_retry i retry_count next_at reason =
     alter_connector i (\<lambda>c. c\<lparr>co_retry_count := max 0 retry_count, co_next_attempt_at := next_at,
       co_reason := reason\<rparr>)"

section \<open>The operations table\<close>

text \<open>The operation id is the primary key: \<open>None\<close> where the insert raises.\<close>

definition create_connector_operation ::
  "string \<Rightarrow> string \<Rightarrow> string option \<Rightarrow> string option \<Rightarrow> op_status \<Rightarrow> time \<Rightarrow> int \<Rightarrow> dict \<Rightarrow> string option \<Rightarrow>
   conn_db \<Rightarrow> conn_db option" where
  "create_connector_operation o1 kind cid parent status requested retry_count result by d =
     (if map_of (cd_operations d) o1 \<noteq> None then None
      else Some (d\<lparr>cd_operations := cd_operations d @
        [(o1, \<lparr>op_kind = kind, op_connector = cid, op_parent = parent, op_status = status,
          op_requested_at = requested, op_started_at = None, op_finished_at = None,
          op_next_attempt_at = None, op_retry_count = max 0 retry_count, op_attempt = 0,
          op_duration_ms = None, op_outcome = result, op_error_category = None,
          op_error_message = None, op_created_by = by\<rparr>)]\<rparr>))"

definition get_connector_operation :: "conn_db \<Rightarrow> string \<Rightarrow> operation option" where
  "get_connector_operation d o1 = map_of (cd_operations d) o1"

text \<open>\<open>UPDATE ... WHERE operation_id = %s AND <guard>\<close>; the answer is whether a row was changed.\<close>

definition alter_operation ::
  "string \<Rightarrow> (operation \<Rightarrow> bool) \<Rightarrow> (operation \<Rightarrow> operation) \<Rightarrow> conn_db \<Rightarrow> bool \<times> conn_db" where
  "alter_operation o1 guard f d =
     (case get_connector_operation d o1 of None \<Rightarrow> (False, d)
      | Some r \<Rightarrow> if guard r then (True, d\<lparr>cd_operations := AList.update o1 (f r) (cd_operations d)\<rparr>) else (False, d))"

text \<open>The optional arguments of an update; \<open>None\<close> leaves the column as it is.\<close>

record op_change =
  ch_started_at :: "time option"
  ch_attempt :: "int option"
  ch_finished_at :: "time option"
  ch_next_attempt_at :: "time option"
  ch_retry_count :: "int option"
  ch_duration_ms :: "int option"
  ch_outcome :: "dict option"
  ch_error_category :: "string option"
  ch_error_message :: "string option"

definition no_change :: op_change where
  "no_change = \<lparr>ch_started_at = None, ch_attempt = None, ch_finished_at = None, ch_next_attempt_at = None, ch_retry_count = None, ch_duration_ms = None,
     ch_outcome = None, ch_error_category = None, ch_error_message = None\<rparr>"

definition keep :: "'a option \<Rightarrow> 'a option \<Rightarrow> 'a option" where
  "keep new old = (case new of None \<Rightarrow> old | Some v \<Rightarrow> Some v)"

definition apply_change :: "op_status \<Rightarrow> op_change \<Rightarrow> operation \<Rightarrow> operation" where
  "apply_change status c r = r\<lparr>op_status := status,
     op_started_at := keep (ch_started_at c) (op_started_at r),
     op_attempt := (case ch_attempt c of None \<Rightarrow> op_attempt r | Some n \<Rightarrow> n),
     op_finished_at := keep (ch_finished_at c) (op_finished_at r),
     op_next_attempt_at := keep (ch_next_attempt_at c) (op_next_attempt_at r),
     op_retry_count := (case ch_retry_count c of None \<Rightarrow> op_retry_count r | Some n \<Rightarrow> n),
     op_duration_ms := keep (ch_duration_ms c) (op_duration_ms r),
     op_outcome := (case ch_outcome c of None \<Rightarrow> op_outcome r | Some v \<Rightarrow> v),
     op_error_category := keep (ch_error_category c) (op_error_category r),
     op_error_message := keep (ch_error_message c) (op_error_message r)\<rparr>"

definition update_connector_operation ::
  "string \<Rightarrow> op_status \<Rightarrow> op_change \<Rightarrow> bool \<Rightarrow> conn_db \<Rightarrow> bool \<times> conn_db" where
  "update_connector_operation o1 status c require_active =
     alter_operation o1 (\<lambda>r. require_active \<longrightarrow> op_active (op_status r)) (apply_change status c)"

definition mark_connector_operation_timed_out ::
  "string \<Rightarrow> time \<Rightarrow> time \<Rightarrow> int \<Rightarrow> string \<Rightarrow> string \<Rightarrow> dict \<Rightarrow> conn_db \<Rightarrow> bool \<times> conn_db" where
  "mark_connector_operation_timed_out o1 finished next_at retry_count category message result =
     alter_operation o1 (\<lambda>r. op_active (op_status r))
       (\<lambda>r. r\<lparr>op_status := Op_timed_out, op_finished_at := Some finished, op_next_attempt_at := Some next_at,
          op_retry_count := max 0 retry_count, op_error_category := Some category,
          op_error_message := Some message, op_outcome := result\<rparr>)"

definition mark_connector_operation_running :: "string \<Rightarrow> time \<Rightarrow> conn_db \<Rightarrow> bool \<times> conn_db" where
  "mark_connector_operation_running o1 t =
     alter_operation o1 (\<lambda>r. op_status r = Op_queued)
       (\<lambda>r. r\<lparr>op_status := Op_running, op_started_at := Some t, op_attempt := 1\<rparr>)"

definition list_connector_operations ::
  "string option \<Rightarrow> string option \<Rightarrow> int \<Rightarrow> conn_db \<Rightarrow> (string \<times> operation) list" where
  "list_connector_operations cid parent limit d =
     take (nat (max 1 (min limit 100))) (sort_key (\<lambda>(_, r). - op_requested_at r)
       (filter (\<lambda>(_, r). (cid = None \<or> op_connector r = cid) \<and> (parent = None \<or> op_parent r = parent))
          (cd_operations d)))"

definition list_stale_connector_operations :: "time \<Rightarrow> conn_db \<Rightarrow> (string \<times> operation) list" where
  "list_stale_connector_operations before d =
     sort_key (\<lambda>(_, r). op_requested_at r) (filter (\<lambda>(_, r). op_active (op_status r) \<and>
       (case op_started_at r of Some t \<Rightarrow> t | None \<Rightarrow> op_requested_at r) \<le> before) (cd_operations d))"

definition get_latest_connector_operation :: "conn_db \<Rightarrow> string \<Rightarrow> operation option" where
  "get_latest_connector_operation d cid =
     (case list_connector_operations (Some cid) None 1 d of [] \<Rightarrow> None | (_, r) # _ \<Rightarrow> Some r)"

definition find_active_connector_operation :: "conn_db \<Rightarrow> string \<Rightarrow> (string \<times> operation) option" where
  "find_active_connector_operation d cid =
     (case sort_key (\<lambda>(_, r). - op_requested_at r)
        (filter (\<lambda>(_, r). op_connector r = Some cid \<and> op_active (op_status r)) (cd_operations d)) of
        [] \<Rightarrow> None | x # _ \<Rightarrow> Some x)"

section \<open>Failures\<close>

text \<open>An exception as \<open>classify_failure\<close> looks at it: its class, the name of its class, its text.\<close>

datatype exc_class = X_value | X_timeout | X_os | X_other

record exc =
  ex_class :: exc_class
  ex_name :: string
  ex_text :: string

definition runtime_error :: "string \<Rightarrow> exc" where
  "runtime_error s = \<lparr>ex_class = X_other, ex_name = ''RuntimeError'', ex_text = s\<rparr>"

definition AUTH_TERMS :: "string list" where
  "AUTH_TERMS = [''accessdenied'', ''access denied'', ''invalidclienttoken'', ''credential'', ''unauthorized'',
     ''forbidden'', ''permission'']"

definition RATE_TERMS :: "string list" where
  "RATE_TERMS = [''throttl'', ''rate exceeded'', ''too many requests'', ''quota'']"

definition NET_TERMS :: "string list" where
  "NET_TERMS = [''connection refused'', ''connection reset'', ''unavailable'', ''dns'', ''endpoint'', ''no such host'']"

definition classify_failure :: "exc \<Rightarrow> string" where
  "classify_failure e =
     (let text = str_lower (ex_text e); name = str_lower (ex_name e); mentions = list_ex (str_contains text) in
      if ex_class e = X_value \<or> str_contains name ''validation'' then ''configuration''
      else if ex_class e = X_timeout \<or> mentions [''timeout'', ''timed out''] then ''timeout''
      else if mentions AUTH_TERMS then ''authentication''
      else if mentions RATE_TERMS then ''rate_limited''
      else if ex_class e = X_os \<or> mentions NET_TERMS then ''unavailable''
      else ''unknown'')"

definition compute_retry_delay :: "int \<Rightarrow> int option \<Rightarrow> int" where
  "compute_retry_delay retry_count jitter =
     (let base = min 900 (60 * 2 ^ nat (min (max 0 retry_count) 4))
      in min 900 (base + max 0 (min (case jitter of None \<Rightarrow> 0 | Some j \<Rightarrow> j) 30)))"

text \<open>\<open>jitter\<close> is what \<open>random.randint(0, 30)\<close> returns.\<close>

definition scheduled_retry_delay :: "int \<Rightarrow> int \<Rightarrow> int" where
  "scheduled_retry_delay jitter retry_count = compute_retry_delay retry_count (Some jitter)"

section \<open>Redaction\<close>

text \<open>
  \<open>_SECRET_RE\<close>: a keyword in any case, \<open>=\<close> or \<open>:\<close> with space around it, then the value up to the next
  space, comma or semicolon. Every part is determined by the previous one, so the first alternative
  that matches is the match.
\<close>

definition SECRET_KEYS :: "string list" where
  "SECRET_KEYS = [''password'', ''passwd'', ''token'', ''secret'', ''access_key'', ''access-key'', ''accesskey'',
     ''authorization'']"

definition value_char :: "char \<Rightarrow> bool" where
  "value_char c \<longleftrightarrow> \<not> is_space c \<and> c \<noteq> CHR '','' \<and> c \<noteq> CHR '';''"

text \<open>The text kept and the text after the value.\<close>

definition secret_at :: "string \<Rightarrow> string \<Rightarrow> (string \<times> string) option" where
  "secret_at key s =
     (let n = length key; head = take n s; rest = drop n s;
          ws1 = takeWhile is_space rest; rest1 = dropWhile is_space rest in
      if str_lower head \<noteq> key then None
      else case rest1 of [] \<Rightarrow> None
      | c # rest2 \<Rightarrow>
          let ws2 = takeWhile is_space rest2; rest3 = dropWhile is_space rest2 in
          if (c = CHR ''='' \<or> c = CHR '':'') \<and> takeWhile value_char rest3 \<noteq> []
          then Some (head @ ws1 @ [c] @ ws2, dropWhile value_char rest3) else None)"

definition secret_match :: "string \<Rightarrow> (string \<times> string) option" where
  "secret_match s = (case List.map_filter (\<lambda>k. secret_at k s) SECRET_KEYS of [] \<Rightarrow> None | m # _ \<Rightarrow> Some m)"

lemma secret_at_shorter:
  "secret_at key s = Some (kept, rest) \<Longrightarrow> length rest < length s"
proof -
  assume "secret_at key s = Some (kept, rest)"
  then obtain c rest2 where c: "dropWhile is_space (drop (length key) s) = c # rest2"
    and rest: "rest = dropWhile value_char (dropWhile is_space rest2)"
    by (auto simp: secret_at_def Let_def split: if_splits list.splits)
  have "length rest \<le> length rest2"
    unfolding rest by (meson length_dropWhile_le order_trans)
  also have "length rest2 < length s"
    using length_dropWhile_le[of is_space "drop (length key) s"] by (simp add: c)
  finally show ?thesis .
qed

lemma secret_match_shorter: "secret_match s = Some (kept, rest) \<Longrightarrow> length rest < length s"
  by (auto simp: secret_match_def SECRET_KEYS_def map_filter_simps dest: secret_at_shorter
      split: option.splits)

function redact_secrets :: "string \<Rightarrow> string" where
  "redact_secrets [] = []"
| "redact_secrets (c # cs) =
     (case secret_match (c # cs) of None \<Rightarrow> c # redact_secrets cs
      | Some (kept, rest) \<Rightarrow> kept @ ''[redacted]'' @ redact_secrets rest)"
  by pat_completeness auto
termination
  by (relation "measure length") (auto dest: secret_match_shorter)

text \<open>\<open>_AWS_KEY_RE\<close>: word boundaries on both sides; \<open>inside\<close> says that a word character came before.\<close>

definition word_char :: "char \<Rightarrow> bool" where
  "word_char c \<longleftrightarrow> (let n = of_char c :: nat in (48 \<le> n \<and> n \<le> 57) \<or> (65 \<le> n \<and> n \<le> 90) \<or> (97 \<le> n \<and> n \<le> 122) \<or> n = 95)"

definition upper_alnum :: "char \<Rightarrow> bool" where
  "upper_alnum c \<longleftrightarrow> (let n = of_char c :: nat in (48 \<le> n \<and> n \<le> 57) \<or> (65 \<le> n \<and> n \<le> 90))"

definition aws_key_at :: "string \<Rightarrow> bool" where
  "aws_key_at s \<longleftrightarrow> take 4 s \<in> {''AKIA'', ''ASIA''} \<and> length s \<ge> 20 \<and> list_all upper_alnum (take 16 (drop 4 s)) \<and>
     (case drop 20 s of [] \<Rightarrow> True | c # _ \<Rightarrow> \<not> word_char c)"

function redact_aws :: "bool \<Rightarrow> string \<Rightarrow> string" where
  "redact_aws inside [] = []"
| "redact_aws inside (c # cs) =
     (if \<not> inside \<and> aws_key_at (c # cs) then ''[redacted-aws-key]'' @ redact_aws True (drop 19 cs)
      else c # redact_aws (word_char c) cs)"
  by pat_completeness auto
termination
  by (relation "measure (\<lambda>(_, s). length s)") auto

text \<open>\<open>" ".join(s.split())\<close>.\<close>

fun words_of :: "string \<Rightarrow> string \<Rightarrow> string list" where
  "words_of w [] = (if w = [] then [] else [w])"
| "words_of w (c # cs) =
     (if is_space c then (if w = [] then words_of [] cs else w # words_of [] cs) else words_of (w @ [c]) cs)"

definition failure_explanation :: "string \<Rightarrow> string" where
  "failure_explanation category =
     (if category = ''configuration'' then ''The connector configuration was rejected before collection completed.''
      else if category = ''authentication'' then ''The provider rejected the configured identity or permission.''
      else if category = ''rate_limited'' then ''The provider limited this request or account.''
      else if category = ''timeout'' then ''The connector did not finish within its safety timeout.''
      else if category = ''unavailable'' then ''The configured provider or endpoint was not reachable.''
      else ''The connector failed for an unclassified reason.'')"

text \<open>The \<open>message\<close> of \<open>redact_error\<close>, the part of it that is stored.\<close>

definition redact_message :: "exc \<Rightarrow> string \<Rightarrow> string" where
  "redact_message e category =
     (let detail = take 500 (join '' '' (words_of [] (redact_aws False (redact_secrets (ex_text e)))))
      in if detail = [] then failure_explanation category else detail)"

section \<open>Progress of a group\<close>

definition count_status :: "op_status \<Rightarrow> (string \<times> operation) list \<Rightarrow> int" where
  "count_status st cs = int (length (filter (\<lambda>(_, r). op_status r = st) cs))"

record progress =
  pg_total :: int
  pg_failed :: int
  pg_timed_out :: int
  pg_completed :: int
  pg_percent :: int

definition aggregate_progress :: "(string \<times> operation) list \<Rightarrow> progress" where
  "aggregate_progress children =
     (let total = int (length children);
          completed = count_status Op_succeeded children + count_status Op_failed children +
            count_status Op_skipped children + count_status Op_timed_out children
      in \<lparr>pg_total = total, pg_failed = count_status Op_failed children,
          pg_timed_out = count_status Op_timed_out children, pg_completed = completed,
          pg_percent = (if total \<noteq> 0 then completed * 100 div total else 100)\<rparr>)"

text \<open>The status of the parent: as \<open>start_retry_all\<close> sets it, and as the monitor thread does.\<close>

definition initial_parent_status :: "progress \<Rightarrow> op_status" where
  "initial_parent_status p = (if pg_completed p = pg_total p then Op_succeeded else Op_running)"

definition monitored_parent_status :: "progress \<Rightarrow> op_status" where
  "monitored_parent_status p =
     (if pg_failed p \<noteq> 0 \<or> pg_timed_out p \<noteq> 0 then Op_failed
      else if pg_completed p \<noteq> pg_total p then Op_running else Op_succeeded)"

section \<open>Scheduling decisions\<close>

definition failing_flags :: "connector \<Rightarrow> bool" where
  "failing_flags c \<longleftrightarrow> co_last_status c \<in> {Some ''error'', Some ''timed_out''} \<or>
     co_reason c \<in> {Some ''timeout'', Some ''process_restart''}"

text \<open>\<open>int(config.get("interval_seconds", 60))\<close>; \<open>None\<close> where it raises.\<close>

definition interval_of :: "connector \<Rightarrow> int option" where
  "interval_of c = py_int (dget_or (co_config c) ''interval_seconds'' (PyInt 60))"

text \<open>\<open>status\<close> is that of the connector's latest operation.\<close>

definition connector_health_state :: "time \<Rightarrow> op_status option \<Rightarrow> connector \<Rightarrow> string option" where
  "connector_health_state now status c =
     (if \<not> co_enabled c then Some ''disabled''
      else if \<not> co_verified c then Some ''unverified''
      else if status \<in> {Some Op_queued, Some Op_running} then Some ''running''
      else case co_last_run_at c of None \<Rightarrow> Some ''never_run''
      | Some last_run \<Rightarrow>
          if failing_flags c then Some ''failing''
          else map_option (\<lambda>interval. if real_of_int (max (max 1 interval) 60) \<le> now - last_run
                 then ''stale'' else ''healthy'') (interval_of c))"

definition due :: "time \<Rightarrow> op_status option \<Rightarrow> connector \<Rightarrow> bool option" where
  "due now status c =
     (if \<not> (co_enabled c \<and> co_verified c) then Some False
      else if status \<in> {Some Op_queued, Some Op_running} then Some False
      else case interval_of c of None \<Rightarrow> None
      | Some interval \<Rightarrow>
          (case co_next_attempt_at c of
             Some t \<Rightarrow> if t > now then Some False else if failing_flags c then Some True
               else Some (case co_last_run_at c of None \<Rightarrow> True
                    | Some last_run \<Rightarrow> real_of_int (max interval 60) \<le> now - last_run)
           | None \<Rightarrow> Some (case co_last_run_at c of None \<Rightarrow> True
                    | Some last_run \<Rightarrow> real_of_int (max interval 60) \<le> now - last_run)))"

text \<open>What \<open>_reconcile_retry_metadata\<close> wants the connector row to say, from its latest operation.\<close>

definition desired_retry :: "operation \<Rightarrow> (int \<times> time option \<times> string option) option" where
  "desired_retry r =
     (if op_status r = Op_succeeded then Some (0, None, None)
      else if (op_status r = Op_failed \<or> op_status r = Op_timed_out) \<and> op_next_attempt_at r \<noteq> None
      then Some (op_retry_count r, op_next_attempt_at r,
        Some (if dget (op_outcome r) ''reason'' = PyStr ''process_restart'' then ''process_restart''
              else str_or (op_error_category r) ''unknown''))
      else None)"

definition reconcile_retry_metadata :: "string \<Rightarrow> operation option \<Rightarrow> conn_db \<Rightarrow> conn_db" where
  "reconcile_retry_metadata cid operation d =
     (case (operation, get_connector d cid) of
        (Some r, Some c) \<Rightarrow> (case desired_retry r of None \<Rightarrow> d
          | Some (n, t, reason) \<Rightarrow>
              if co_retry_count c = n \<and> co_next_attempt_at c = t \<and> co_reason c = reason then d
              else set_connector_retry cid n t reason d)
      | _ \<Rightarrow> d)"

end
