(* ===== verification/Drains.thy ===== *)
theory Drains
  imports Intake Connectors
begin

text \<open>
  The connectors that pull payloads into the pipeline: the queue drains
  (\<open>src/blackwatch/connectors/{aws_sqs,aws_rds_sqs,aws_api_gw_sqs,aws_ecs_probe_sqs}.py\<close>) and the reader of S3
  access logs (\<open>aws_s3_access_pull.py\<close>). What AWS answers is an argument: the batches that
  \<open>receive_message\<close> returns, the pages of the bucket and the bodies of its objects, each with the reading
  of the clock at which it is handled. What the code asks of AWS is in the result: the messages it deletes.
\<close>

section \<open>Queues\<close>

record message =
  mg_id :: string
  mg_handle :: string
  mg_body :: "string option"
  mg_at :: time

text \<open>A body that is absent or not JSON is passed on as it is under the key \<open>raw\<close>.\<close>

definition message_payload :: "pyenv \<Rightarrow> message \<Rightarrow> pyval" where
  "message_payload E m =
     (case Option.bind (mg_body m) (json_loads E) of Some v \<Rightarrow> v
      | None \<Rightarrow> PyDict [(''raw'', opt_val (mg_body m))])"

text \<open>The VPC of a probe report is that of the queue it came through.\<close>

definition pin_vpc :: "string \<Rightarrow> pyval \<Rightarrow> pyval" where
  "pin_vpc vpc body = (case body of PyDict d \<Rightarrow> PyDict (AList.update ''vpc'' (PyStr vpc) d) | _ \<Rightarrow> body)"

record drained =
  dn_ingested :: int
  dn_messages :: int
  dn_deleted :: "(string \<times> string) list list"

definition nothing_drained :: drained where
  "nothing_drained = \<lparr>dn_ingested = 0, dn_messages = 0, dn_deleted = []\<rparr>"

text \<open>One batch: what was ingested, which messages are to be deleted.\<close>

fun drain_batch ::
  "(message \<Rightarrow> 's \<Rightarrow> (ingest_error + report) \<times> 's) \<Rightarrow> message list \<Rightarrow> 's \<Rightarrow> (int \<times> message list) \<times> 's" where
  "drain_batch take_in [] s = ((0, []), s)"
| "drain_batch take_in (m # ms) s =
     (let (r, s1) = take_in m s; ((n, del), s2) = drain_batch take_in ms s1
      in (case r of Inl e \<Rightarrow> (n, del) | Inr rep \<Rightarrow> (n + int (length (rp_summaries rep)), m # del), s2))"

text \<open>The loop over batches ends at an empty answer or after \<open>max(1, max_batches)\<close> of them.\<close>

fun drain_batches ::
  "(message \<Rightarrow> 's \<Rightarrow> (ingest_error + report) \<times> 's) \<Rightarrow> nat \<Rightarrow> message list list \<Rightarrow> drained \<Rightarrow> 's \<Rightarrow> drained \<times> 's" where
  "drain_batches take_in 0 resps acc s = (acc, s)"
| "drain_batches take_in (Suc n) [] acc s = (acc, s)"
| "drain_batches take_in (Suc n) (ms # resps) acc s =
     (if ms = [] then (acc, s)
      else
        let ((k, del), s1) = drain_batch take_in ms s
        in drain_batches take_in n resps
             \<lparr>dn_ingested = dn_ingested acc + k, dn_messages = dn_messages acc + int (length ms),
              dn_deleted = dn_deleted acc @ (if del = [] then [] else [map (\<lambda>m. (mg_id m, mg_handle m)) del])\<rparr> s1)"

definition queue_ctx :: "string \<Rightarrow> ingest_ctx" where
  "queue_ctx mdl = \<lparr>cx_module = mdl, cx_transport = ''queue'', cx_account = None, cx_region = None\<rparr>"

definition queue_intake :: "world \<Rightarrow> registry \<Rightarrow> string \<Rightarrow> message \<Rightarrow> service \<Rightarrow> (ingest_error + report) \<times> service" where
  "queue_intake W reg mdl m = ingest_from W (mg_at m) reg (queue_ctx mdl) (message_payload (wd_env W) m)"

definition drain_queue ::
  "world \<Rightarrow> registry \<Rightarrow> string \<Rightarrow> int \<Rightarrow> message list list \<Rightarrow> service \<Rightarrow> drained \<times> service" where
  "drain_queue W reg mdl max_batches resps =
     drain_batches (queue_intake W reg mdl) (nat (max 1 max_batches)) resps nothing_drained"

definition drain_rds :: "world \<Rightarrow> registry \<Rightarrow> int \<Rightarrow> message list list \<Rightarrow> service \<Rightarrow> drained \<times> service" where
  "drain_rds W reg = drain_queue W reg ''aws.rds''"

definition drain_api_gw :: "world \<Rightarrow> registry \<Rightarrow> int \<Rightarrow> message list list \<Rightarrow> service \<Rightarrow> drained \<times> service" where
  "drain_api_gw W reg = drain_queue W reg ''aws.api_gw''"

definition probe_intake :: "world \<Rightarrow> registry \<Rightarrow> string \<Rightarrow> message \<Rightarrow> service \<Rightarrow> (ingest_error + report) \<times> service" where
  "probe_intake W reg vpc m =
     ingest_from W (mg_at m) reg (queue_ctx ''ecs.probe'') (pin_vpc vpc (message_payload (wd_env W) m))"

definition drain_probe ::
  "world \<Rightarrow> registry \<Rightarrow> string \<Rightarrow> int \<Rightarrow> message list list \<Rightarrow> service \<Rightarrow> drained \<times> service" where
  "drain_probe W reg vpc max_batches resps =
     drain_batches (probe_intake W reg vpc) (nat (max 1 max_batches)) resps nothing_drained"

section \<open>Probe targets\<close>

record probe_target =
  pt_name :: pyval
  pt_vpc :: string
  pt_tier :: pyval
  pt_config :: pyval
  pt_severity :: pyval
  pt_tags :: dict
  pt_enabled :: bool

type_synonym target_table = "(string \<times> probe_target) list"

definition derive_target_id :: "pyenv \<Rightarrow> string \<Rightarrow> pyval \<Rightarrow> string" where
  "derive_target_id E vpc name = uuid5_url E (''bw-ecs-probe::'' @ vpc @ ''::'' @ py_str E name)"

definition DEFAULT_SEVERITY :: "((string \<times> string) \<times> string) list" where
  "DEFAULT_SEVERITY = [((''prod'', ''api''), ''critical''), ((''prod'', ''db''), ''critical''),
     ((''prod'', ''worker''), ''high''), ((''prod'', ''other''), ''high''), ((''dev'', ''api''), ''high''),
     ((''dev'', ''db''), ''high''), ((''dev'', ''worker''), ''medium''), ((''dev'', ''other''), ''medium'')]"

definition default_severity :: "string \<Rightarrow> pyval \<Rightarrow> string" where
  "default_severity vpc role =
     (case as_str (py_or role (PyStr ''other'')) of None \<Rightarrow> ''medium''
      | Some r \<Rightarrow> (case map_of DEFAULT_SEVERITY (vpc, r) of None \<Rightarrow> ''medium'' | Some s \<Rightarrow> s))"

text \<open>One entry of the parameter: \<open>None\<close> where it has no name. The tags are an object or absent.\<close>

definition ssm_target :: "pyenv \<Rightarrow> string \<Rightarrow> pyval \<Rightarrow> pyerr + (string \<times> probe_target) option" where
  "ssm_target E vpc item =
     (case item of PyDict t \<Rightarrow>
        let name = dget t ''name'' in
        if \<not> truthy name then Inr None
        else (case py_or (dget t ''tags'') (PyDict []) of PyDict tags0 \<Rightarrow>
            let tags = (if has_key tags0 ''env'' then tags0 else tags0 @ [(''env'', PyStr vpc)]) in
            Inr (Some (if truthy (dget t ''id'') then py_str E (dget t ''id'') else derive_target_id E vpc name,
              \<lparr>pt_name = name, pt_vpc = vpc, pt_tier = py_or (dget t ''tier'') (PyStr ''unknown''),
               pt_config = py_or (dget t ''config'') (PyDict []),
               pt_severity = py_or (dget t ''severity_when_down'') (PyStr (default_severity vpc (dget tags ''role''))),
               pt_tags = tags, pt_enabled = truthy (dget_or t ''enabled'' (PyBool True))\<rparr>))
          | _ \<Rightarrow> Inl (ValueError ''tags''))
      | _ \<Rightarrow> Inl (AttributeError ''get''))"

definition upsert_probe_target :: "string \<Rightarrow> probe_target \<Rightarrow> target_table \<Rightarrow> target_table" where
  "upsert_probe_target i p tab = AList.update i p tab"

definition list_probe_targets :: "string option \<Rightarrow> bool \<Rightarrow> target_table \<Rightarrow> target_table" where
  "list_probe_targets vpc enabled_only tab =
     filter (\<lambda>(i, p). (vpc = None \<or> vpc = Some (pt_vpc p)) \<and> (enabled_only \<longrightarrow> pt_enabled p)) tab"

fun write_targets :: "pyenv \<Rightarrow> string \<Rightarrow> pyval list \<Rightarrow> string list \<Rightarrow> target_table \<Rightarrow> pyerr + string list \<times> target_table" where
  "write_targets E vpc [] seen tab = Inr (seen, tab)"
| "write_targets E vpc (x # xs) seen tab =
     (case ssm_target E vpc x of Inl e \<Rightarrow> Inl e
      | Inr None \<Rightarrow> write_targets E vpc xs seen tab
      | Inr (Some (i, p)) \<Rightarrow> write_targets E vpc xs (i # seen) (upsert_probe_target i p tab))"

text \<open>The targets of this VPC that the parameter no longer lists are disabled, not deleted.\<close>

definition disable_unseen :: "string \<Rightarrow> string list \<Rightarrow> target_table \<Rightarrow> target_table" where
  "disable_unseen vpc seen tab =
     fold (\<lambda>(i, p) tab. if i \<notin> set seen \<and> pt_enabled p
             then upsert_probe_target i (p\<lparr>pt_config := py_or (pt_config p) (PyDict []),
                    pt_severity := py_or (pt_severity p) (PyStr ''medium''), pt_enabled := False\<rparr>) tab else tab)
       (list_probe_targets (Some vpc) False tab) tab"

text \<open>The parameter is what SSM gives; \<open>None\<close>: fetching or decoding it raised.\<close>

definition sync_targets :: "pyenv \<Rightarrow> string \<Rightarrow> pyval option \<Rightarrow> target_table \<Rightarrow> pyerr + target_table" where
  "sync_targets E vpc param tab =
     (case param of Some (PyList items) \<Rightarrow>
        sbind (write_targets E vpc items [] tab) (\<lambda>(seen, tab1). Inr (disable_unseen vpc seen tab1))
      | _ \<Rightarrow> Inr tab)"

section \<open>S3 access logs\<close>

text \<open>An object of the bucket listing: \<open>lo_body\<close> is what fetching it gives, \<open>None\<close> where that raises; decoding with
  replacement does not raise. The pages of the listing follow one another in one list.\<close>

record log_object =
  lo_key :: string
  lo_modified :: "time option"
  lo_body :: "int list option"
  lo_at :: time

record access_config =
  ac_bucket :: string
  ac_prefix :: "string option"
  ac_region :: string
  ac_max_files :: int
  ac_overlap :: int

definition source_bucket_from_key :: "string \<Rightarrow> string \<Rightarrow> string" where
  "source_bucket_from_key key pre =
     (let tail = (if pre \<noteq> [] \<and> starts_with pre key then drop (length pre) key else key);
          rest = (if starts_with ''logs/'' tail then drop 5 tail else tail);
          seg = takeWhile (\<lambda>c. c \<noteq> CHR ''/'') rest in
      if length seg < length rest \<and> seg \<noteq> [] then seg else ''unknown'')"

text \<open>The cursor is the last run of the first connector that reads this bucket.\<close>

definition reads_bucket :: "string \<Rightarrow> string \<times> connector \<Rightarrow> bool" where
  "reads_bucket bucket ic \<longleftrightarrow>
     co_type (snd ic) = ''aws_s3_access_logs'' \<and> py_eq (dget (co_config (snd ic)) ''bucket'') (PyStr bucket)"

definition last_run_at :: "string \<Rightarrow> (string \<times> connector) list \<Rightarrow> time option" where
  "last_run_at bucket rows =
     (case filter (reads_bucket bucket) rows of [] \<Rightarrow> None | (i, c) # _ \<Rightarrow> co_last_run_at c)"

definition poll_since :: "access_config \<Rightarrow> (string \<times> connector) list \<Rightarrow> time \<Rightarrow> time" where
  "poll_since cfg rows now =
     (case last_run_at (ac_bucket cfg) rows of Some t \<Rightarrow> t | None \<Rightarrow> now - real_of_int (ac_overlap cfg))
     - real_of_int (ac_overlap cfg)"

record pulled =
  pl_ingested :: int
  pl_processed :: int
  pl_empty :: int
  pl_errors :: int

definition eligible :: "time \<Rightarrow> log_object \<Rightarrow> bool" where
  "eligible since x = (lo_key x \<noteq> [] \<and> (case lo_modified x of None \<Rightarrow> False | Some t \<Rightarrow> since \<le> t))"

definition log_payload :: "pyenv \<Rightarrow> access_config \<Rightarrow> log_object \<Rightarrow> int list \<Rightarrow> pyval" where
  "log_payload E cfg x bytes =
     PyDict [(''kind'', PyStr ''s3_access_log_batch''), (''log_bucket'', PyStr (ac_bucket cfg)),
       (''log_key'', PyStr (lo_key x)),
       (''source_bucket'', PyStr (source_bucket_from_key (lo_key x) (str_or (ac_prefix cfg) []))),
       (''content'', PyStr (decode_utf8 E bytes))]"

definition access_intake ::
  "world \<Rightarrow> registry \<Rightarrow> access_config \<Rightarrow> log_object \<Rightarrow> int list \<Rightarrow> service \<Rightarrow> (ingest_error + report) \<times> service" where
  "access_intake W reg cfg x bytes =
     ingest_from W (lo_at x) reg \<lparr>cx_module = ''aws.s3.access'', cx_transport = ''poll'', cx_account = None,
       cx_region = Some (ac_region cfg)\<rparr> (log_payload (wd_env W) cfg x bytes)"

fun pull_objects ::
  "(log_object \<Rightarrow> int list \<Rightarrow> 's \<Rightarrow> (ingest_error + report) \<times> 's) \<Rightarrow> time \<Rightarrow> int \<Rightarrow> log_object list \<Rightarrow> pulled \<Rightarrow> 's \<Rightarrow>
   pulled \<times> 's" where
  "pull_objects take_in since cap [] p s = (p, s)"
| "pull_objects take_in since cap (x # xs) p s =
     (if pl_processed p \<ge> cap then (p, s)
      else if \<not> eligible since x then pull_objects take_in since cap xs p s
      else case lo_body x of
        None \<Rightarrow> pull_objects take_in since cap xs (p\<lparr>pl_errors := pl_errors p + 1\<rparr>) s
      | Some bytes \<Rightarrow>
          let p1 = p\<lparr>pl_processed := pl_processed p + 1\<rparr> in
          if bytes = [] then pull_objects take_in since cap xs (p1\<lparr>pl_empty := pl_empty p1 + 1\<rparr>) s
          else
            (case take_in x bytes s of
               (Inl e, s1) \<Rightarrow> pull_objects take_in since cap xs (p1\<lparr>pl_errors := pl_errors p1 + 1\<rparr>) s1
             | (Inr r, s1) \<Rightarrow> pull_objects take_in since cap xs
                 (p1\<lparr>pl_ingested := pl_ingested p1 + int (length (rp_summaries r)) + rp_transient r\<rparr>) s1))"

definition poll_access_logs ::
  "world \<Rightarrow> registry \<Rightarrow> access_config \<Rightarrow> (string \<times> connector) list \<Rightarrow> time \<Rightarrow> log_object list \<Rightarrow> service \<Rightarrow>
   pulled \<times> service" where
  "poll_access_logs W reg cfg rows now objects =
     pull_objects (access_intake W reg cfg) (poll_since cfg rows now) (ac_max_files cfg) objects
       \<lparr>pl_ingested = 0, pl_processed = 0, pl_empty = 0, pl_errors = 0\<rparr>"

section \<open>What a drain guarantees\<close>

text \<open>A consumer whose intake of one message leaves a part of the state alone.\<close>

locale queue_consumer =
  fixes take_in :: "message \<Rightarrow> 's \<Rightarrow> (ingest_error + report) \<times> 's" and kept :: "'s \<Rightarrow> 'v"
  assumes leaves: "kept (snd (take_in m s)) = kept s"
begin

lemma batch_leaves: "kept (snd (drain_batch take_in ms s)) = kept s"
  by (induction ms arbitrary: s) (auto simp: leaves case_prod_beta Let_def split: sum.splits)

lemma batches_leave: "kept (snd (drain_batches take_in n resps acc s)) = kept s"
proof (induction n arbitrary: resps acc s)
  case (Suc n)
  then show ?case by (cases resps) (auto simp: batch_leaves case_prod_beta Let_def)
qed simp

end

lemma drain_batch_append:
  "drain_batch take_in (xs @ ys) s =
     (let ((n1, d1), s1) = drain_batch take_in xs s; ((n2, d2), s2) = drain_batch take_in ys s1
      in ((n1 + n2, d1 @ d2), s2))"
  by (induction xs arbitrary: s) (auto simp: case_prod_beta Let_def split: sum.splits)

lemma drain_batch_deleted_sub: "set (snd (fst (drain_batch take_in ms s))) \<subseteq> set ms"
  by (induction ms arbitrary: s) (auto simp: case_prod_beta Let_def split: sum.splits) 

lemma drain_batch_deletes_iff:
  assumes "distinct (xs @ m # ys)"
  shows "m \<in> set (snd (fst (drain_batch take_in (xs @ m # ys) s))) \<longleftrightarrow>
    (\<exists>r. fst (take_in m (snd (drain_batch take_in xs s))) = Inr r)"
proof -
  have "m \<notin> set (snd (fst (drain_batch take_in xs s)))"
    using drain_batch_deleted_sub[of take_in xs s] assms by auto
  moreover have "m \<notin> set (snd (fst (drain_batch take_in ys s')))" for s'
    using drain_batch_deleted_sub[of take_in ys s'] assms by auto
  ultimately show ?thesis
    by (auto simp: drain_batch_append case_prod_beta Let_def split: sum.splits)
qed

interpretation sqs: queue_consumer "queue_intake W (register_builtins []) mdl" "\<lambda>sc. foreign mdl (sys_db (fst sc))" for W mdl
proof unfold_locales
  fix m s
  show "foreign mdl (sys_db (fst (snd (queue_intake W (register_builtins []) mdl m s)))) = foreign mdl (sys_db (fst s))"
    using ingest_from_foreign[of "queue_ctx mdl"] by (simp add: queue_intake_def queue_ctx_def)
qed

interpretation probe_sqs: queue_consumer "probe_intake W (register_builtins []) vpc"
  "\<lambda>sc. foreign ''ecs.probe'' (sys_db (fst sc))" for W vpc
proof unfold_locales
  fix m s
  show "foreign ''ecs.probe'' (sys_db (fst (snd (probe_intake W (register_builtins []) vpc m s)))) =
      foreign ''ecs.probe'' (sys_db (fst s))"
    using ingest_from_foreign[of "queue_ctx ''ecs.probe''"] by (simp add: probe_intake_def queue_ctx_def)
qed

text \<open>C18: A message of a batch is deleted from the queue exactly when taking it in succeeded, in the state that the
  messages before it left; the others stay for redelivery. Whatever is on the queue of a module, draining it
  changes no table of another module.
\<close>
theorem drain_deletes_ingested:
  assumes "distinct (xs @ m # ys)"
  shows "(m \<in> set (snd (fst (drain_batch (queue_intake W reg mdl) (xs @ m # ys) sc))) \<longleftrightarrow>
      (\<exists>r. fst (queue_intake W reg mdl m (snd (drain_batch (queue_intake W reg mdl) xs sc))) = Inr r)) \<and>
    foreign mdl (sys_db (fst (snd (drain_queue W (register_builtins []) mdl k resps sc)))) = foreign mdl (sys_db (fst sc))"
  unfolding drain_queue_def by (intro conjI drain_batch_deletes_iff[OF assms] sqs.batches_leave)

text \<open>A body that is not JSON reaches the CloudTrail adapter as an object without an event name: it gives no event,
  which counts as success, so the message is deleted and its contents are kept nowhere.\<close>

lemma undecodable_body_deleted:
  assumes "Option.bind (mg_body m) (json_loads (wd_env W)) = None"
  shows "fst (queue_intake W (register_builtins []) ''aws.cloudtrail'' m sc) = Inr empty_report \<and>
    db_events (sys_db (fst (snd (queue_intake W (register_builtins []) ''aws.cloudtrail'' m sc)))) = db_events (sys_db (fst sc))"
proof -
  have r: "resolve_adapter (register_builtins []) ''aws.cloudtrail'' = Some CloudTrail_adapter"
    by (simp add: resolve_builtin_cases builtin_adapters_def)
  have p: "cloudtrail_parse (wd_env W) t c (message_payload (wd_env W) m) = Inr []" for t c
    using assms by (simp add: message_payload_def cloudtrail_parse_def has_key_def)
  show ?thesis
    by (simp add: queue_intake_def queue_ctx_def ingest_from_def r pure_parse_def p ingest_payload_def)
qed

definition demo_message :: message where
  "demo_message = \<lparr>mg_id = ''m1'', mg_handle = ''h1'', mg_body = Some ''oops'', mg_at = 0\<rparr>"

lemma drain_deletes_ingested_witness:
  "demo_message \<in> set (snd (fst (drain_batch (queue_intake demo_world (register_builtins []) ''aws.cloudtrail'')
     [demo_message] (demo_system, empty_cache))))"
proof -
  have "\<exists>r. fst (queue_intake demo_world (register_builtins []) ''aws.cloudtrail'' demo_message (demo_system, empty_cache)) = Inr r"
    using undecodable_body_deleted[of demo_message demo_world] by (simp add: demo_world_def demo_message_def)
  then show ?thesis
    using drain_deletes_ingested[of "[]" demo_message "[]" demo_world "register_builtins []" "''aws.cloudtrail''"
        "(demo_system, empty_cache)" 1 "[]"] by auto
qed

text \<open>The VPC of a report is pinned to its queue, the targets are not.\<close>

lemma probe_entry_vpc: "probe_entry E now t w v x = Inr zs \<Longrightarrow> list_all (\<lambda>e. dget (ev_extra e) ''vpc'' = v) zs"
  by (auto simp: probe_entry_def sbind_Inr_iff Let_def dget_def split: pyval.splits if_splits)

lemma probe_result_row:
  "as_str (dget (ev_extra e) ''target_id'') = Some tid \<Longrightarrow> tid \<noteq> [] \<Longrightarrow>
   snd (svc_result E now e d) = upsert_service_status tid (result_row E e (read_result E e tid d)) d"
proof -
  have "rs_target (read_result E e tid d) = tid" by (simp add: read_result_def Let_def)
  then show "as_str (dget (ev_extra e) ''target_id'') = Some tid \<Longrightarrow> tid \<noteq> [] \<Longrightarrow> ?thesis"
    by (simp add: svc_result_def Let_def split: option.splits)
qed

lemma pinned_vpc:
  assumes "ecs_probe_parse E now ctx (pin_vpc vpc body) = Inr evs" and "e \<in> set evs" and "vpc \<noteq> []"
  shows "dget (ev_extra e) ''vpc'' = PyStr vpc \<and> src_module (ev_source e) = ''ecs.probe'' \<and>
    ev_action e \<in> {''probe.agent.heartbeat'', ''service.probe.result''}"
proof -
  let ?P = "\<lambda>e. dget (ev_extra e) ''vpc'' = PyStr vpc"
  from assms(1,2) obtain d where d: "body = PyDict d"
    by (cases body) (auto simp: pin_vpc_def ecs_probe_parse_def)
  have v: "py_or (dget (AList.update ''vpc'' (PyStr vpc) d) ''vpc'') w = PyStr vpc" for w
    using assms(3) by (simp add: dget_def update_conv' py_or_def)
  have "\<exists>hb rest t w items. evs = hb # rest \<and> ?P hb \<and> collect (probe_entry E now t w (PyStr vpc)) items = Inr rest"
    using assms(1) assms(2) unfolding d pin_vpc_def ecs_probe_parse_def Let_def pyval.case v
    by (auto simp: sbind_Inr_iff dget_def split: if_splits) blast+
  then obtain hb rest t w items where evs: "evs = hb # rest" "?P hb"
    and c: "collect (probe_entry E now t w (PyStr vpc)) items = Inr rest" by blast
  have "list_all ?P rest" by (rule collect_with[OF c], rule probe_entry_vpc)
  then have "list_all ?P evs" using evs by simp
  then show ?thesis using assms(2) pristine_probe[OF assms(1)]
    by (auto simp: list_all_iff pristine_def emits_def probe_actions_def)
qed

text \<open>C19: A report that came through the queue of a VPC makes only heartbeats and results labelled with that VPC,
  whatever VPC the report names. But a result is filed under the target identifier in the report: the row of
  any target it names, of whichever VPC, is overwritten and carries the label of the queue's VPC afterwards.
\<close>
theorem probe_report_vpc:
  assumes "ecs_probe_parse E now ctx (pin_vpc vpc body) = Inr evs" and "e \<in> set evs" and "vpc \<noteq> []"
  shows "dget (ev_extra e) ''vpc'' = PyStr vpc \<and>
    (\<forall>tid d. ev_action e = ''service.probe.result'' \<and> as_str (dget (ev_extra e) ''target_id'') = Some tid \<and> tid \<noteq> [] \<longrightarrow>
      map_option ss_vpc (get_service_status (snd (svc_project E now2 e d)) tid) = Some vpc)"
proof -
  note p = pinned_vpc[OF assms]
  have "map_option ss_vpc (get_service_status (snd (svc_project E now2 e d)) tid) = Some vpc"
    if "ev_action e = ''service.probe.result''" "as_str (dget (ev_extra e) ''target_id'') = Some tid" "tid \<noteq> []" for tid d
  proof -
    have "ss_vpc (result_row E e (read_result E e tid d)) = vpc"
      using p assms(3) by (simp add: result_row_def read_result_def Let_def)
    then show ?thesis using that p by (simp add: svc_project_def probe_result_row[OF that(2,3)])
  qed
  then show ?thesis using p by blast
qed

lemma demo_probe_report:
  "\<exists>hb r. ecs_probe_parse demo_env 0 (queue_ctx ''ecs.probe'') (pin_vpc ''dev'' (PyDict [(''kind'', PyStr ''ecs_probe_report''),
      (''vpc'', PyStr ''prod''), (''results'', PyList [PyDict [(''target_id'', PyStr ''t1''), (''status'', PyStr ''down'')]])])) =
     Inr [hb, r] \<and> ev_action r = ''service.probe.result'' \<and> dget (ev_extra r) ''target_id'' = PyStr ''t1''"
  by (simp add: ecs_probe_parse_def pin_vpc_def is_kind_def dget_def py_or_def checked_target_def collect_Cons probe_entry_def Let_def)

text \<open>A report of the development VPC that names a target of production moves its row.\<close>

lemma probe_report_vpc_witness:
  "\<exists>r. ev_action r = ''service.probe.result'' \<and> dget (ev_extra r) ''vpc'' = PyStr ''dev'' \<and>
     (\<forall>d. map_option ss_vpc (get_service_status (snd (svc_project demo_env 0 r d)) ''t1'') = Some ''dev'')"
proof -
  obtain hb r where p: "ecs_probe_parse demo_env 0 (queue_ctx ''ecs.probe'') (pin_vpc ''dev'' (PyDict [(''kind'', PyStr ''ecs_probe_report''),
      (''vpc'', PyStr ''prod''), (''results'', PyList [PyDict [(''target_id'', PyStr ''t1''), (''status'', PyStr ''down'')]])])) = Inr [hb, r]"
    and r: "ev_action r = ''service.probe.result''" "dget (ev_extra r) ''target_id'' = PyStr ''t1''"
    using demo_probe_report by blast
  show ?thesis using probe_report_vpc[where e = r and ?now2.0 = 0, OF p] r by (intro exI[of _ r]) simp
qed

text \<open>What a run of the access-log reader takes: the files in the order of the listing until the cap is reached.\<close>

lemma pull_capped: "pl_processed p \<ge> cap \<Longrightarrow> pull_objects f since cap xs p s = (p, s)"
  by (cases xs) simp_all

lemma pull_append:
  "pull_objects f since cap (xs @ ys) p s =
     (let (p1, s1) = pull_objects f since cap xs p s in pull_objects f since cap ys p1 s1)"
  by (induction xs arbitrary: p s) (auto simp: Let_def pull_capped case_prod_beta split: option.splits sum.splits)

lemma pull_processed:
  "pl_processed (fst (pull_objects f since cap xs p s)) =
     (if cap \<le> pl_processed p then pl_processed p
      else min cap (pl_processed p + int (length (filter (\<lambda>x. eligible since x \<and> lo_body x \<noteq> None) xs))))"
  by (induction xs arbitrary: p s) (auto simp: Let_def split: option.splits sum.splits prod.splits)

lemma filter_first: "filter P xs = x # ys \<Longrightarrow> x \<in> set xs \<and> P x"
  by (induction xs) (auto split: if_splits)

lemma filter_update_first:
  assumes "distinct (map fst rows)" and "filter P rows = (i, c) # rest" and "P (i, c')"
  shows "\<exists>rest'. filter P (AList.update i c' rows) = (i, c') # rest'"
  using assms(1,2)
proof (induction rows)
  case (Cons x rows)
  obtain j e where x: "x = (j, e)" by (cases x)
  show ?case
  proof (cases "P (j, e)")
    case True
    then show ?thesis using Cons.prems(2) assms(3) x by simp
  next
    case False
    then have f: "filter P rows = (i, c) # rest" using Cons.prems(2) x by simp
    have "(i, c) \<in> set rows" using filter_first[OF f] by simp
    then have "j \<noteq> i" using Cons.prems(1) x by force
    then show ?thesis using Cons.IH[OF _ f] Cons.prems(1) False x by simp
  qed
qed simp

text \<open>Every status of a run whose operation is live moves the cursor to the time of the run.\<close>

lemma status_moves_cursor:
  assumes "distinct (map fst (cd_connectors d))" and "filter (reads_bucket bucket) (cd_connectors d) = (i, c) # rest"
    and "o1 = None \<or> operation_live d (the o1)"
  shows "last_run_at bucket (cd_connectors (set_connector_status i status err run_at v o1 d)) = Some run_at"
proof -
  have mem: "(i, c) \<in> set (cd_connectors d)" and P: "reads_bucket bucket (i, c)"
    using filter_first[OF assms(2)] by simp_all
  let ?c = "c\<lparr>co_last_status := Some status, co_last_error := err, co_last_run_at := Some run_at,
    co_verified := (case v of None \<Rightarrow> co_verified c | Some b \<Rightarrow> b)\<rparr>"
  have "get_connector d i = Some c" using mem assms(1) by (simp add: get_connector_def)
  then have "set_connector_status i status err run_at v o1 d = d\<lparr>cd_connectors := AList.update i ?c (cd_connectors d)\<rparr>"
    using assms(3) by (auto simp: set_connector_status_def alter_connector_def)
  moreover have "reads_bucket bucket (i, ?c)" using P by (simp add: reads_bucket_def)
  ultimately show ?thesis using filter_update_first[OF assms(1,2), of ?c] by (auto simp: last_run_at_def)
qed

text \<open>C20: A run handles at most the configured number of files, the first fetched ones of the listing, and never
  looks at those after them. Whatever status is then recorded for the bucket's connector (the first one listed, by a run
  whose operation has not ended meanwhile), the run's time becomes the cursor; so a file that was not reached and was
  written more than the overlap before that time is not eligible for any later run, as long as the cursor does not
  move back.
\<close>
theorem unreached_log_is_lost:
  assumes "ac_max_files cfg \<le> pl_processed (fst (poll_access_logs W reg cfg rows now xs sc))"
    and "lo_modified x = Some t" and "t < run_at - real_of_int (ac_overlap cfg)"
    and "distinct (map fst (cd_connectors d))" and "filter (reads_bucket (ac_bucket cfg)) (cd_connectors d) = (i, c) # rest"
    and "o1 = None \<or> operation_live d (the o1)"
  shows "poll_access_logs W reg cfg rows now (xs @ x # ys) sc = poll_access_logs W reg cfg rows now xs sc \<and>
    last_run_at (ac_bucket cfg) (cd_connectors (set_connector_status i status err run_at v o1 d)) = Some run_at \<and>
    (\<forall>later t2 now2. last_run_at (ac_bucket cfg) later = Some t2 \<and> run_at \<le> t2 \<longrightarrow>
       \<not> eligible (poll_since cfg later now2) x)"
  using assms(1-3) status_moves_cursor[OF assms(4-6)]
  by (auto simp: poll_access_logs_def pull_append case_prod_beta pull_capped eligible_def poll_since_def)

definition demo_access_config :: access_config where
  "demo_access_config = \<lparr>ac_bucket = ''logs'', ac_prefix = None, ac_region = ''r'', ac_max_files = 1, ac_overlap = 10\<rparr>"

definition demo_log :: "time \<Rightarrow> log_object" where
  "demo_log t = \<lparr>lo_key = ''logs/b/x'', lo_modified = Some t, lo_body = Some [], lo_at = 0\<rparr>"

definition demo_access_connectors :: conn_db where
  "demo_access_connectors = \<lparr>cd_connectors = [(''c'', \<lparr>co_name = ''c'', co_type = ''aws_s3_access_logs'', co_enabled = True,
     co_verified = True, co_config = [(''bucket'', PyStr ''logs'')], co_last_run_at = None, co_last_status = None,
     co_last_error = None, co_retry_count = 0, co_next_attempt_at = None, co_reason = None\<rparr>)], cd_operations = []\<rparr>"

lemma unreached_log_is_lost_witness:
  "last_run_at ''logs'' (cd_connectors (set_connector_status ''c'' ''error'' (Some ''boom'') 100 None None demo_access_connectors))
     = Some 100 \<and>
   \<not> eligible (poll_since demo_access_config (cd_connectors (set_connector_status ''c'' ''error'' (Some ''boom'') 100 None None
      demo_access_connectors)) 200) (demo_log 50)"
proof -
  obtain c where c: "filter (reads_bucket ''logs'') (cd_connectors demo_access_connectors) = [(''c'', c)]"
    by (simp add: demo_access_connectors_def reads_bucket_def dget_def)
  have l: "last_run_at ''logs'' (cd_connectors (set_connector_status ''c'' ''error'' (Some ''boom'') 100 None None demo_access_connectors))
      = Some 100 \<and> (\<forall>later t2 now2. last_run_at ''logs'' later = Some t2 \<and> 100 \<le> t2 \<longrightarrow>
        \<not> eligible (poll_since demo_access_config later now2) (demo_log 50))"
    using unreached_log_is_lost[of demo_access_config demo_world "register_builtins []" "[]" 10 "[demo_log 5]"
        "(demo_system, empty_cache)" "demo_log 50" 50 100 demo_access_connectors "''c''" c "[]" None "[]" "''error''" "Some ''boom''" None]
      c by (simp add: demo_access_config_def demo_log_def demo_access_connectors_def poll_access_logs_def poll_since_def
        last_run_at_def eligible_def)
  then show ?thesis by blast
qed

end
