(* ===== verification/Staleness.thy ===== *)
theory Staleness
  imports Pipeline
begin

text \<open>
  Absence detection (\<open>src/blackwatch/hosts/staleness.py\<close>, \<open>services/staleness.py\<close>, \<open>rds/staleness.py\<close>),
  run by the connector scheduler on every tick: a host or a probe agent that stopped reporting, a database
  session that stays open. The three \<open>check\<close> functions read a table, hand an event to \<open>process_event\<close> for
  every overdue row and then mark the row; an exception of either call skips the rest for this row
  only. \<open>sweep\<close> is that loop. The locale \<open>absence_check\<close> is what makes it alert once: the mark ends the
  overdue state of its row and touches no other. It is interpreted for hosts and for probe agents.
\<close>

section \<open>The loop\<close>

fun sweep ::
  "(time \<Rightarrow> 'r \<Rightarrow> bool) \<Rightarrow> (pyenv \<Rightarrow> time \<Rightarrow> string \<Rightarrow> 'r \<Rightarrow> event) \<Rightarrow> (pyenv \<Rightarrow> string \<Rightarrow> 'r \<Rightarrow> db \<Rightarrow> db) \<Rightarrow>
   world \<Rightarrow> time \<Rightarrow> (string \<times> 'r) list \<Rightarrow> system \<Rightarrow> system" where
  "sweep overdue alert mark W now [] s = s"
| "sweep overdue alert mark W now ((k, r) # rows) s =
     (if \<not> overdue now r then sweep overdue alert mark W now rows s
      else case process_event W now (alert (wd_env W) now k r) s of
        (Inl e, _, s1) \<Rightarrow> sweep overdue alert mark W now rows s1
      | (Inr x, _, s1) \<Rightarrow>
          sweep overdue alert mark W now rows (s1\<lparr>sys_db := mark (wd_env W) k r (sys_db s1)\<rparr>))"

section \<open>Hosts\<close>

definition STALE_AFTER_SECONDS :: int where "STALE_AFTER_SECONDS = 180"

definition host_overdue :: "time \<Rightarrow> host_row \<Rightarrow> bool" where
  "host_overdue now r \<longleftrightarrow> hr_active r = Some True \<and> \<not> now - hr_updated_at r \<le> of_int STALE_AFTER_SECONDS"

definition host_stale_event :: "pyenv \<Rightarrow> time \<Rightarrow> string \<Rightarrow> host_row \<Rightarrow> event" where
  "host_stale_event E now i r =
     ensure_fingerprint E ((event_defaults now ((new_source ''ec2.host'' T_poll)
         \<lparr>src_account := hr_account r, src_region := hr_region r\<rparr>))
       \<lparr>ev_time := now, ev_category := C_host, ev_action := ''host.agent.stale'', ev_outcome := O_failure,
        ev_target := new_target (Some i) (Some ''ec2.instance'') (hr_hostname r),
        ev_extra := [(''instance_id'', PyStr i), (''last_seen'', PyStr (iso_format E (hr_updated_at r))),
          (''age_seconds'', PyInt (trunc (now - hr_updated_at r)))],
        ev_raw := PyDict [(''derived'', PyStr ''staleness'')]\<rparr>)"

definition mark_host :: "pyenv \<Rightarrow> string \<Rightarrow> host_row \<Rightarrow> db \<Rightarrow> db" where
  "mark_host E i r d = (if db_fails E ''set_host_active'' then d else set_host_active i False d)"

definition host_check :: "world \<Rightarrow> time \<Rightarrow> system \<Rightarrow> system" where
  "host_check W now s =
     (if db_fails (wd_env W) ''list_host_status'' then s
      else sweep host_overdue host_stale_event mark_host W now (list_host_status (sys_db s)) s)"

section \<open>Probe agents\<close>

definition agent_overdue :: "time \<Rightarrow> agent_row \<Rightarrow> bool" where
  "agent_overdue now r \<longleftrightarrow> pa_active r \<and> \<not> now - pa_last_report r \<le> of_int STALE_AFTER_SECONDS"

definition stale_message :: "pyenv \<Rightarrow> string \<Rightarrow> int \<Rightarrow> time \<Rightarrow> string" where
  "stale_message E vpc age_seconds last_report =
     join newline [''*Probe agent went silent in `'' @ vpc @ ''`*'', heavy_rule, bullet_line ''VPC'' vpc,
       bullet_line ''Silent for'' (int_str (max 1 (age_seconds div 60)) @ '' min''),
       bullet_line ''Last report'' (fmt_ts E (Some last_report)),
       bullet_line ''Impact'' ''HTTP/TCP monitoring for this VPC is offline'']"

definition agent_stale_event :: "pyenv \<Rightarrow> time \<Rightarrow> string \<Rightarrow> agent_row \<Rightarrow> event" where
  "agent_stale_event E now vpc r =
     (let age = trunc (now - pa_last_report r) in
      ensure_fingerprint E ((event_defaults now (new_source ''ecs.probe'' T_poll))
       \<lparr>ev_time := now, ev_category := C_other, ev_action := ''probe.agent.stale'', ev_outcome := O_failure,
        ev_severity := Some S_critical,
        ev_target := new_target (Some vpc) (Some ''probe.agent'') (Some (''probe-'' @ vpc)),
        ev_extra := [(''vpc'', PyStr vpc), (''service_name'', PyStr vpc), (''monitor_tier'', PyStr ''probe''),
          (''monitoring_method'', PyStr ''probe heartbeat''),
          (''monitoring_impact'', PyStr ''HTTP/TCP monitoring for this environment is offline.''),
          (''error_signal'', PyStr ''no heartbeat''),
          (''last_report'', PyStr (iso_format E (pa_last_report r))),
          (''age_seconds'', PyInt age), (''downtime_seconds'', PyInt age),
          (''agent_version'', pa_agent_version r), (''message'', PyStr (stale_message E vpc age (pa_last_report r)))],
        ev_raw := PyDict [(''derived'', PyStr ''staleness'')]\<rparr>))"

definition mark_agent :: "pyenv \<Rightarrow> string \<Rightarrow> agent_row \<Rightarrow> db \<Rightarrow> db" where
  "mark_agent E vpc r d =
     (if db_fails E ''upsert_probe_agent'' then d
      else upsert_probe_agent vpc (pa_last_report r) (pa_agent_version r) False d)"

definition probe_check :: "world \<Rightarrow> time \<Rightarrow> system \<Rightarrow> system" where
  "probe_check W now s =
     (if db_fails (wd_env W) ''list_probe_agents'' then s
      else sweep agent_overdue agent_stale_event mark_agent W now (list_probe_agents (sys_db s)) s)"

section \<open>Database sessions\<close>

definition IDLE_THRESHOLD_HOURS :: int where "IDLE_THRESHOLD_HOURS = 24"

definition session_overdue :: "time \<Rightarrow> session_row \<Rightarrow> bool" where
  "session_overdue now r \<longleftrightarrow> se_connected_at r < now - of_int (IDLE_THRESHOLD_HOURS * 3600)"

text \<open>One identifier per session and day.\<close>

definition long_idle_id :: "pyenv \<Rightarrow> time \<Rightarrow> string \<Rightarrow> string" where
  "long_idle_id E now sid =
     uuid5_url E (''rds.session.long_idle::'' @ sid @ ''::'' @ strf_time E ''%Y%m%d'' now)"

definition long_idle_raw :: "string \<Rightarrow> pyval" where
  "long_idle_raw sid = PyDict [(''derived'', PyStr ''rds_staleness''), (''session_id'', PyStr sid)]"

definition long_idle_event :: "pyenv \<Rightarrow> time \<Rightarrow> string \<Rightarrow> session_row \<Rightarrow> event" where
  "long_idle_event E now sid r =
     (let inst = se_db_instance r; idle_hours = trunc ((now - se_connected_at r) / 3600) in
      ensure_fingerprint E ((event_defaults now (new_source ''aws.rds'' T_poll))
       \<lparr>ev_id := Some (long_idle_id E now sid), ev_time := now, ev_category := C_other,
        ev_action := ''rds.session.long_idle'', ev_outcome := O_failure,
        ev_actor := new_actor (se_db_user r) (se_source_ip r),
        ev_target := new_target (Some inst) (Some ''rds.db'') (Some inst),
        ev_extra := [(''db_instance'', PyStr inst), (''user'', opt_val (se_db_user r)),
          (''database'', opt_val (se_db_name r)), (''source_ip'', opt_val (se_source_ip r)),
          (''session_id'', PyStr sid), (''idle_hours'', PyInt idle_hours),
          (''connected_at'', PyStr (iso_format E (se_connected_at r))),
          (''tags'', PyDict [(''env'', PyStr ''prod''), (''db_instance'', PyStr inst)]),
          (''message'', PyStr (inst @ '': session for '' @ str_or (se_db_user r) ''unknown'' @
             '' has been idle for '' @ int_str idle_hours @ ''h (source: '' @
             str_or (se_source_ip r) ''unknown'' @ '')''))],
        ev_raw := long_idle_raw sid\<rparr>))"

definition rds_check :: "world \<Rightarrow> time \<Rightarrow> system \<Rightarrow> system" where
  "rds_check W now s =
     (if db_fails (wd_env W) ''list_rds_active_sessions'' then s
      else sweep session_overdue long_idle_event (\<lambda>E k r d. d) W now
             (list_rds_active_sessions None 1000 (sys_db s)) s)"

section \<open>What processing an event changes\<close>

text \<open>\<open>grown s s'\<close>: the two systems have the same rules, mutes and tables, and the events of \<open>s'\<close> are those
  of \<open>s\<close> with anomalies behind them.\<close>

definition grown :: "system \<Rightarrow> system \<Rightarrow> bool" where
  "grown s s' \<longleftrightarrow> sys_rules s' = sys_rules s \<and> sys_mutes s' = sys_mutes s \<and>
     (sys_db s')\<lparr>db_events := []\<rparr> = (sys_db s)\<lparr>db_events := []\<rparr> \<and>
     (\<exists>as. db_events (sys_db s') = db_events (sys_db s) @ as \<and>
        list_all (\<lambda>a. str_contains (ev_action a) anomaly_infix) as)"

lemma grown_refl [intro, simp]: "grown s s"
  by (auto simp: grown_def)

lemma grown_trans: "grown s t \<Longrightarrow> grown t u \<Longrightarrow> grown s u"
  by (fastforce simp: grown_def)

lemma insert_event_tables: "(snd (insert_event ev d))\<lparr>db_events := []\<rparr> = d\<lparr>db_events := []\<rparr>"
  by (simp add: insert_event_def)

lemma grown_frame [simp]:
  "grown s (s\<lparr>sys_notifier := n\<rparr>) " "grown s (s\<lparr>sys_ueba := u\<rparr>)"
  "grown s (s\<lparr>sys_notifier := n, sys_ueba := u\<rparr>)"
  by (auto simp: grown_def)

lemma grown_anomaly:
  assumes "str_contains (ev_action a) anomaly_infix"
  shows "grown s (s\<lparr>sys_db := snd (insert_event a (sys_db s))\<rparr>)"
  using assms by (auto simp: grown_def insert_event_def)

lemma process_anomaly:
  assumes "str_contains (ev_action a) anomaly_infix" and "process_with emit W now a s = Some (r, e, s')"
  shows "grown s s'"
proof (cases "evaluate (wd_env W) (sys_rules s) a")
  case (Inl x)
  then show ?thesis using assms(2) by (simp add: process_with_def)
next
  case (Inr a')
  then have q: "str_contains (ev_action a') anomaly_infix" using assms(1) evaluate_action by metis
  have g: "grown s (s\<lparr>sys_db := snd (insert_event a' (sys_db s))\<rparr>)" by (rule grown_anomaly[OF q])
  show ?thesis
    using process_with_cases[OF Inr assms(2)] grown_trans[OF g grown_frame(1)] grown_trans[OF g grown_frame(3)] g
    by (auto simp: check_event_anomaly_quiet[OF q])
qed

lemma emit_all_grown:
  assumes "list_all (\<lambda>a. str_contains (ev_action a) anomaly_infix) as"
    and "emit_all (process (Suc n) W now) as s = Some s'"
  shows "grown s s'"
  using assms
proof (induction "as" arbitrary: s)
  case (Cons a "as")
  from Cons.prems(2) obtain r e s1 where p: "process (Suc n) W now a s = Some (r, e, s1)"
    and rest: "emit_all (process (Suc n) W now) as s1 = Some s'"
    by (auto simp del: process.simps split: option.splits)
  have "grown s s1" using process_anomaly[of a "process n W now" W now s r e s1] Cons.prems(1) p by simp
  moreover have "grown s1 s'" using Cons.IH[OF _ rest] Cons.prems(1) by simp
  ultimately show ?case by (rule grown_trans)
qed simp

lemma process_event_grown:
  assumes "evaluate (wd_env W) (sys_rules s) ev = Inr ev1"
  obtains x s' where "process_event W now ev s = (Inr x, ev1, s')"
    "grown (s\<lparr>sys_db := snd (insert_event ev1 (sys_db s))\<rparr>) s'"
proof -
  obtain r e s' where p: "process_event W now ev s = (r, e, s')" by (metis prod_cases3)
  have run: "process_with (process 1 W now) W now ev s = Some (r, e, s')"
    using p process_terminates[of 0 W now ev s]
    by (auto simp: process_event_def numeral_2_eq_2)
  let ?s1 = "s\<lparr>sys_db := snd (insert_event ev1 (sys_db s))\<rparr>"
  let ?s2 = "?s1\<lparr>sys_notifier := snd (dispatch (wd_env W) now ev1 (sys_db ?s1) (sys_notifier ?s1))\<rparr>"
  have res: "\<exists>x. r = Inr x" "e = ev1"
    using run assms by (auto simp: process_with_def case_prod_beta Let_def split: if_splits option.splits)
  have mid: "grown ?s1 (?s2\<lparr>sys_ueba := u\<rparr>)" "grown ?s1 ?s2" for u
    by (simp_all add: grown_def)
  have emitted: "grown ?s1 s''"
    if "emit_all (process 1 W now) (fst (check_event (wd_env W) cfg now ev1 v)) (?s2\<lparr>sys_ueba := u\<rparr>) = Some s''"
    for cfg s'' u v
  proof (rule grown_trans[OF mid(1)])
    show "grown (?s2\<lparr>sys_ueba := u\<rparr>) s''"
      using emit_all_grown[OF _ that[unfolded One_nat_def]] check_event_anomalies by (auto simp: list_all_iff)
  qed
  have "grown ?s1 s'"
    using process_with_cases[OF assms run] emitted mid(2) grown_refl by blast
  then show thesis using that p res by blast
qed

lemma process_event_raises:
  assumes "evaluate (wd_env W) (sys_rules s) ev = Inl err"
  shows "process_event W now ev s = (Inl err, ev, s)"
  using assms by (simp add: process_event_with process_with_def)

section \<open>Sweeps\<close>

text \<open>No rule has a condition that raises.\<close>

definition no_rule_raises :: "pyenv \<Rightarrow> rule list \<Rightarrow> bool" where
  "no_rule_raises E rules \<longleftrightarrow> (\<forall>ev. \<exists>ev'. evaluate E rules ev = Inr ev')"

definition alerts_for :: "string \<Rightarrow> string \<Rightarrow> event list \<Rightarrow> event list" where
  "alerts_for act k = filter (\<lambda>e. ev_action e = act \<and> tgt_id (ev_target e) = Some k)"

lemma evaluate_kept:
  "evaluate E rules ev = Inr ev' \<Longrightarrow> ev_action ev' = ev_action ev \<and> ev_id ev' = ev_id ev \<and>
     ev_target ev' = ev_target ev \<and> ev_raw ev' = ev_raw ev"
  by (auto simp: evaluate_def frame_simps assess_def Let_def split: sum.splits option.splits)

lemma sweep_idle: "list_all (\<lambda>(k, r). \<not> overdue now r) rows \<Longrightarrow> sweep overdue alert mark W now rows s = s"
  by (induction rows) auto

lemma grown_filter:
  assumes "grown s s'" and "\<And>a. str_contains (ev_action a) anomaly_infix \<Longrightarrow> \<not> P a"
  shows "filter P (db_events (sys_db s')) = filter P (db_events (sys_db s))"
  using assms by (auto simp: grown_def list_all_iff)

text \<open>Events that no listed row alerts with are not added.\<close>

lemma sweep_silent:
  assumes "\<And>a. str_contains (ev_action a) anomaly_infix \<Longrightarrow> \<not> P a"
    and "\<And>k r ev. (k, r) \<in> set rows \<Longrightarrow> ev_action ev = ev_action (alert (wd_env W) now k r) \<Longrightarrow>
        ev_raw ev = ev_raw (alert (wd_env W) now k r) \<Longrightarrow> \<not> P ev"
    and "\<And>k r d. db_events (mark (wd_env W) k r d) = db_events d"
  shows "filter P (db_events (sys_db (sweep overdue alert mark W now rows s))) = filter P (db_events (sys_db s))"
  using assms(2)
proof (induction rows arbitrary: s)
  case (Cons row rows)
  obtain k r where row: "row = (k, r)" by fastforce
  have IH: "filter P (db_events (sys_db (sweep overdue alert mark W now rows s))) = filter P (db_events (sys_db s))" for s
    by (rule Cons.IH) (use Cons.prems in auto)
  show ?case
  proof (cases "evaluate (wd_env W) (sys_rules s) (alert (wd_env W) now k r)")
    case (Inl err)
    then show ?thesis using IH by (simp add: row process_event_raises)
  next
    case (Inr ev1)
    have "\<not> P ev1" using Cons.prems[of k r ev1] evaluate_kept[OF Inr] row by simp
    then have "filter P (db_events (snd (insert_event ev1 d))) = filter P (db_events d)" for d
      by (simp add: insert_event_def)
    moreover obtain x s' where "process_event W now (alert (wd_env W) now k r) s = (Inr x, ev1, s')"
      "grown (s\<lparr>sys_db := snd (insert_event ev1 (sys_db s))\<rparr>) s'"
      using process_event_grown[OF Inr] by blast
    ultimately show ?thesis using grown_filter[of _ s' P] assms(1) IH by (simp add: row assms(3))
  qed
qed simp

locale absence_check =
  fixes tbl :: "db \<Rightarrow> (string \<times> 'r) list"
    and overdue :: "time \<Rightarrow> 'r \<Rightarrow> bool"
    and alert :: "pyenv \<Rightarrow> time \<Rightarrow> string \<Rightarrow> 'r \<Rightarrow> event"
    and mark :: "pyenv \<Rightarrow> string \<Rightarrow> 'r \<Rightarrow> db \<Rightarrow> db"
    and quiet :: "'r \<Rightarrow> 'r"
    and writes :: "pyenv \<Rightarrow> bool"
    and act :: string
  assumes mark_row: "writes E \<Longrightarrow> map_of (tbl d) k = Some r \<Longrightarrow>
      map_of (tbl (mark E k r d)) k' = (if k' = k then Some (quiet r) else map_of (tbl d) k')"
    and mark_keys: "distinct (map fst (tbl d)) \<Longrightarrow> distinct (map fst (tbl (mark E k r d)))"
    and mark_events: "db_events (mark E k r d) = db_events d"
    and tbl_frame: "d\<lparr>db_events := []\<rparr> = d'\<lparr>db_events := []\<rparr> \<Longrightarrow> tbl d = tbl d'"
    and quiet_done: "\<not> overdue now (quiet r)"
    and alert_id: "ev_id (alert E now k r) = None"
    and alert_action: "ev_action (alert E now k r) = act"
    and alert_target: "tgt_id (ev_target (alert E now k r)) = Some k"
    and act_plain: "\<not> str_contains act anomaly_infix"
begin

text \<open>The row and the alerts of a key after one overdue row was handled.\<close>

lemma overdue_step:
  assumes "no_rule_raises (wd_env W) (sys_rules s)" and "writes (wd_env W)"
    and "map_of (tbl (sys_db s)) k = Some r" and "distinct (map fst (tbl (sys_db s)))"
  obtains x e s1 s2 where "process_event W now (alert (wd_env W) now k r) s = (Inr x, e, s1)"
    and "s2 = s1\<lparr>sys_db := mark (wd_env W) k r (sys_db s1)\<rparr>"
    and "sys_rules s2 = sys_rules s" and "distinct (map fst (tbl (sys_db s2)))"
    and "\<And>k'. map_of (tbl (sys_db s2)) k' = (if k' = k then Some (quiet r) else map_of (tbl (sys_db s)) k')"
    and "\<And>k'. length (alerts_for act k' (db_events (sys_db s2))) =
      length (alerts_for act k' (db_events (sys_db s))) + (if k' = k then 1 else 0)"
proof -
  obtain ev1 where ev1: "evaluate (wd_env W) (sys_rules s) (alert (wd_env W) now k r) = Inr ev1"
    using assms(1) unfolding no_rule_raises_def by blast
  obtain x s1 where p: "process_event W now (alert (wd_env W) now k r) s = (Inr x, ev1, s1)"
    and g: "grown (s\<lparr>sys_db := snd (insert_event ev1 (sys_db s))\<rparr>) s1"
    using process_event_grown[OF ev1] by blast
  have same: "tbl (sys_db s1) = tbl (sys_db s)"
    using g insert_event_tables[of ev1 "sys_db s"] by (intro tbl_frame) (simp add: grown_def)
  have new: "ev_id ev1 = None" "ev_action ev1 = act" "tgt_id (ev_target ev1) = Some k"
    using evaluate_kept[OF ev1] by (simp_all add: alert_id alert_action alert_target)
  have "length (alerts_for act k' (db_events (sys_db s1))) =
      length (alerts_for act k' (db_events (sys_db s))) + (if k' = k then 1 else 0)" for k'
  proof -
    have "alerts_for act k' (db_events (sys_db s1)) =
        alerts_for act k' (db_events (snd (insert_event ev1 (sys_db s))))"
      using grown_filter[OF g, of "\<lambda>e. ev_action e = act \<and> tgt_id (ev_target e) = Some k'"] act_plain
      unfolding alerts_for_def by (simp, blast)
    then show ?thesis using new by (simp add: alerts_for_def insert_event_def)
  qed
  then show thesis
    using that[OF p refl] g assms(2-4) mark_keys[of "sys_db s1" "wd_env W" k r]
      mark_row[of "wd_env W" "sys_db s1" k r]
    by (simp add: same mark_events grown_def)
qed

lemma sweep_effect:
  fixes now :: time
  assumes "no_rule_raises (wd_env W) (sys_rules s)" and "writes (wd_env W)"
    and "distinct (map fst (tbl (sys_db s)))" and "distinct (map fst rows)"
    and "\<And>k r. (k, r) \<in> set rows \<Longrightarrow> map_of (tbl (sys_db s)) k = Some r"
  defines "s' \<equiv> sweep overdue alert mark W now rows s"
  shows "sys_rules s' = sys_rules s \<and> distinct (map fst (tbl (sys_db s'))) \<and>
    map_of (tbl (sys_db s')) k =
      (case map_of rows k of None \<Rightarrow> map_of (tbl (sys_db s)) k
       | Some r \<Rightarrow> Some (if overdue now r then quiet r else r)) \<and>
    length (alerts_for act k (db_events (sys_db s'))) = length (alerts_for act k (db_events (sys_db s))) +
      (case map_of rows k of None \<Rightarrow> 0 | Some r \<Rightarrow> if overdue now r then 1 else 0)"
  using assms(1,3-5) unfolding s'_def
proof (induction rows arbitrary: s)
  case (Cons row rows)
  obtain k0 r0 where row: "row = (k0, r0)" by fastforce
  have fresh: "map_of rows k0 = None" using Cons.prems(3) by (simp add: row map_of_eq_None_iff)
  have here: "map_of (tbl (sys_db s)) k0 = Some r0" using Cons.prems(4) row by simp
  show ?case
  proof (cases "overdue now r0")
    case False
    then show ?thesis using Cons.IH[OF Cons.prems(1,2)] Cons.prems(3,4) fresh here
      by (auto simp: row split: option.splits)
  next
    case True
    obtain x e s1 s2 where p: "process_event W now (alert (wd_env W) now k0 r0) s = (Inr x, e, s1)"
      and s2: "s2 = s1\<lparr>sys_db := mark (wd_env W) k0 r0 (sys_db s1)\<rparr>"
      and after: "sys_rules s2 = sys_rules s" "distinct (map fst (tbl (sys_db s2)))"
        "\<And>k'. map_of (tbl (sys_db s2)) k' = (if k' = k0 then Some (quiet r0) else map_of (tbl (sys_db s)) k')"
        "\<And>k'. length (alerts_for act k' (db_events (sys_db s2))) =
          length (alerts_for act k' (db_events (sys_db s))) + (if k' = k0 then 1 else 0)"
      using overdue_step[OF Cons.prems(1) assms(2) here Cons.prems(2)] by blast
    have "map_of (tbl (sys_db s2)) k' = Some r'" if "(k', r') \<in> set rows" for k' r'
      using Cons.prems(3,4) that by (force simp: row after(3))
    from Cons.IH[of s2, OF _ after(2) _ this] Cons.prems(1,3)
    show ?thesis using True fresh by (auto simp: row p s2[symmetric] after split: option.splits)
  qed
qed simp

lemma sweep_quiet:
  assumes "no_rule_raises (wd_env W) (sys_rules s)" and "writes (wd_env W)"
    and "distinct (map fst (tbl (sys_db s)))" and "distinct (map fst rows)" and "set rows = set (tbl (sys_db s))"
    and "set rows' = set (tbl (sys_db (sweep overdue alert mark W now rows s)))"
  shows "sweep overdue alert mark W now rows' (sweep overdue alert mark W now rows s) =
    sweep overdue alert mark W now rows s"
proof (rule sweep_idle, unfold list_all_iff, clarify)
  let ?s = "sweep overdue alert mark W now rows s"
  have listed: "map_of (tbl (sys_db s)) k = Some r" if "(k, r) \<in> set rows" for k r
    using that assms(3,5) by simp
  fix k r assume "(k, r) \<in> set rows'" "overdue now r"
  from sweep_effect[OF assms(1-4) listed, of now k]
  have d: "distinct (map fst (tbl (sys_db ?s)))" and eff: "map_of (tbl (sys_db ?s)) k =
      (case map_of rows k of None \<Rightarrow> map_of (tbl (sys_db s)) k
       | Some r \<Rightarrow> Some (if overdue now r then quiet r else r))" by simp_all
  have "(k, r) \<in> set (tbl (sys_db ?s))" using \<open>(k, r) \<in> set rows'\<close> assms(6) by simp
  note row = map_of_is_SomeI[OF d this]
  show False
  proof (cases "map_of rows k")
    case None
    then have "map_of (tbl (sys_db s)) k = Some r" using eff row by simp
    then have "(k, r) \<in> set rows" using assms(5) map_of_SomeD by fastforce
    then show False using None by (auto simp: map_of_eq_None_iff image_iff)
  next
    case (Some q)
    then show False using eff row \<open>overdue now r\<close> quiet_done by (auto split: if_splits)
  qed
qed

end

section \<open>Alerting once\<close>

lemma set_host_active_tbl:
  "map_of (db_hosts d) k = Some r \<Longrightarrow> map_of (db_hosts (set_host_active k b d)) k' =
     (if k' = k then Some (r\<lparr>hr_active := Some b\<rparr>) else map_of (db_hosts d) k')"
  by (simp add: set_host_active_def update_conv)

interpretation hosts: absence_check db_hosts host_overdue host_stale_event mark_host
  "\<lambda>r. r\<lparr>hr_active := Some False\<rparr>" "\<lambda>E. \<not> db_fails E ''set_host_active''" "''host.agent.stale''"
proof unfold_locales
  fix d d' :: db
  assume "d\<lparr>db_events := []\<rparr> = d'\<lparr>db_events := []\<rparr>"
  then show "db_hosts d = db_hosts d'" by (metis db.select_convs(3) db.surjective db.update_convs(1))
next
  show "\<not> str_contains ''host.agent.stale'' anomaly_infix" by code_simp
qed (auto simp: mark_host_def set_host_active_tbl set_host_active_def distinct_update update_conv host_overdue_def
    host_stale_event_def split: option.splits)

interpretation agents: absence_check db_agents agent_overdue agent_stale_event mark_agent
  "\<lambda>r. r\<lparr>pa_active := False\<rparr>" "\<lambda>E. \<not> db_fails E ''upsert_probe_agent''" "''probe.agent.stale''"
proof unfold_locales
  fix d d' :: db
  assume "d\<lparr>db_events := []\<rparr> = d'\<lparr>db_events := []\<rparr>"
  then show "db_agents d = db_agents d'" by (metis db.select_convs(8) db.surjective db.update_convs(1))
next
  show "\<not> str_contains ''probe.agent.stale'' anomaly_infix" by code_simp
qed (auto simp: mark_agent_def upsert_probe_agent_def update_conv distinct_update agent_overdue_def
    agent_stale_event_def Let_def)

lemma set_list_host_status: "set (list_host_status d) = set (db_hosts d)"
  by (auto simp: list_host_status_def Let_def)

lemma distinct_list_host_status:
  "distinct (map fst (db_hosts d)) \<Longrightarrow> distinct (map fst (list_host_status d))"
  using set_list_host_status[of d] by (auto simp: distinct_map) (auto simp: list_host_status_def Let_def)

lemma set_list_probe_agents: "set (list_probe_agents d) = set (db_agents d)"
  by (simp add: list_probe_agents_def)

text \<open>A host is alerted on once.\<close>

lemma host_listing:
  assumes "distinct (map fst (db_hosts d))"
  shows "map_of (list_host_status d) = map_of (db_hosts d)"
  using map_of_inject_set[OF distinct_list_host_status[OF assms] assms] set_list_host_status by blast

lemma agent_listing:
  assumes "distinct (map fst (db_agents d))"
  shows "map_of (list_probe_agents d) = map_of (db_agents d)" "distinct (map fst (list_probe_agents d))"
proof -
  show "distinct (map fst (list_probe_agents d))"
    using assms by (simp add: distinct_map list_probe_agents_def)
  then show "map_of (list_probe_agents d) = map_of (db_agents d)"
    using map_of_inject_set[OF _ assms] set_list_probe_agents by blast
qed

text \<open>C21: One check of the hosts alerts once on every active host whose last report is more than 180 seconds old
  and on no other, also where a mute covers the alert, marks exactly these hosts inactive, and leaves
  nothing to alert on: a second check changes nothing.
\<close>
theorem stale_hosts_alerted_once:
  assumes "no_rule_raises (wd_env W) (sys_rules s)" and "distinct (map fst (db_hosts (sys_db s)))"
    and "\<not> db_fails (wd_env W) ''list_host_status''" and "\<not> db_fails (wd_env W) ''set_host_active''"
  shows "map_of (db_hosts (sys_db (host_check W now s))) k =
      map_option (\<lambda>r. if host_overdue now r then r\<lparr>hr_active := Some False\<rparr> else r) (map_of (db_hosts (sys_db s)) k) \<and>
    length (alerts_for ''host.agent.stale'' k (db_events (sys_db (host_check W now s)))) =
      length (alerts_for ''host.agent.stale'' k (db_events (sys_db s))) +
      (case map_of (db_hosts (sys_db s)) k of None \<Rightarrow> 0 | Some r \<Rightarrow> if host_overdue now r then 1 else 0) \<and>
    host_check W now (host_check W now s) = host_check W now s"
proof -
  note distinct = distinct_list_host_status[OF assms(2)]
  have listed: "map_of (db_hosts (sys_db s)) i = Some r" if "(i, r) \<in> set (list_host_status (sys_db s))" for i r
    using that assms(2) by (simp add: set_list_host_status)
  have again: "host_check W now (host_check W now s) = host_check W now s"
    using hosts.sweep_quiet[OF assms(1,4,2) distinct] assms(3) by (simp add: host_check_def set_list_host_status)
  from hosts.sweep_effect[OF assms(1,4,2) distinct listed, of now k] again show ?thesis
    using assms(3) by (auto simp: host_check_def host_listing[OF assms(2)] split: option.splits)
qed

theorem stale_agents_alerted_once:
  assumes "no_rule_raises (wd_env W) (sys_rules s)" and "distinct (map fst (db_agents (sys_db s)))"
    and "\<not> db_fails (wd_env W) ''list_probe_agents''" and "\<not> db_fails (wd_env W) ''upsert_probe_agent''"
  shows "map_of (db_agents (sys_db (probe_check W now s))) k =
      map_option (\<lambda>r. if agent_overdue now r then r\<lparr>pa_active := False\<rparr> else r) (map_of (db_agents (sys_db s)) k) \<and>
    length (alerts_for ''probe.agent.stale'' k (db_events (sys_db (probe_check W now s)))) =
      length (alerts_for ''probe.agent.stale'' k (db_events (sys_db s))) +
      (case map_of (db_agents (sys_db s)) k of None \<Rightarrow> 0 | Some r \<Rightarrow> if agent_overdue now r then 1 else 0) \<and>
    probe_check W now (probe_check W now s) = probe_check W now s"
proof -
  note distinct = agent_listing(2)[OF assms(2)]
  have listed: "map_of (db_agents (sys_db s)) i = Some r" if "(i, r) \<in> set (list_probe_agents (sys_db s))" for i r
    using that assms(2) by (simp add: set_list_probe_agents)
  have again: "probe_check W now (probe_check W now s) = probe_check W now s"
    using agents.sweep_quiet[OF assms(1,4,2) distinct] assms(3) by (simp add: probe_check_def set_list_probe_agents)
  from agents.sweep_effect[OF assms(1,4,2) distinct listed, of now k] again show ?thesis
    using assms(3) by (auto simp: probe_check_def agent_listing(1)[OF assms(2)] split: option.splits)
qed

text \<open>An exception in a rule keeps the host active, so the next tick tries again; nothing is stored meanwhile.\<close>

lemma raising_rule_hides_stale_host:
  assumes "evaluate (wd_env W) (sys_rules s) (host_stale_event (wd_env W) now k r) = Inl err"
  shows "sweep host_overdue host_stale_event mark_host W now [(k, r)] s = s"
  using assms by (simp add: process_event_raises)

section \<open>Long-idle sessions\<close>

text \<open>A row with \<open>n\<close> rows of smaller key is not among the first \<open>n\<close>.\<close>

lemma not_in_take_sorted:
  fixes f :: "'a \<Rightarrow> 'k::linorder"
  assumes "n \<le> length (filter (\<lambda>y. f y < f x) xs)"
  shows "x \<notin> set (take n (sort_key f xs))"
proof
  let ?ys = "sort_key f xs"
  assume "x \<in> set (take n ?ys)"
  then obtain i where i: "i < n" "i < length ?ys" "?ys ! i = x"
    by (auto simp: in_set_conv_nth)
  have "\<not> f y < f x" if y: "y \<in> set (drop i ?ys)" for y
  proof -
    from y obtain j where j: "j < length ?ys - i" "y = ?ys ! (i + j)" by (auto simp: in_set_conv_nth)
    have "sorted (map f ?ys)" by simp
    then have "map f ?ys ! i \<le> map f ?ys ! (i + j)" using i j by (intro sorted_nth_mono) auto
    then show ?thesis using i j by simp
  qed
  then have "filter (\<lambda>y. f y < f x) (drop i ?ys) = []" by (simp add: filter_empty_conv)
  then have "filter (\<lambda>y. f y < f x) ?ys = filter (\<lambda>y. f y < f x) (take i ?ys)"
    by (metis append.right_neutral append_take_drop_id filter_append)
  then have "length (filter (\<lambda>y. f y < f x) ?ys) \<le> i"
    by (metis (no_types, lifting) le_trans length_filter_le length_take min.cobounded2)
  moreover have "length (filter (\<lambda>y. f y < f x) ?ys) = length (filter (\<lambda>y. f y < f x) xs)"
    by (simp add: filter_sort)
  ultimately show False using assms i(1) by simp
qed

text \<open>The events about a session that was open too long.\<close>

definition idle_alerts :: "string \<Rightarrow> event list \<Rightarrow> event list" where
  "idle_alerts sid = filter (\<lambda>e. ev_action e = ''rds.session.long_idle'' \<and> ev_raw e = long_idle_raw sid)"

text \<open>C22: The check for long-idle sessions reads the 1000 most recently opened sessions only: a session behind
  1000 younger open ones is never alerted on, however long it has been open.
\<close>
theorem old_sessions_unchecked:
  assumes "distinct (map fst (db_sessions (sys_db s)))"
    and "map_of (db_sessions (sys_db s)) sid = Some r" and "se_disconnected_at r = None"
    and "1000 \<le> length (filter (\<lambda>(k, q). se_disconnected_at q = None \<and> se_connected_at r < se_connected_at q)
      (db_sessions (sys_db s)))"
  shows "idle_alerts sid (db_events (sys_db (rds_check W now s))) = idle_alerts sid (db_events (sys_db s))"
proof -
  let ?rows = "list_rds_active_sessions None 1000 (sys_db s)"
  let ?open = "filter (\<lambda>(_, r). se_disconnected_at r = None) (db_sessions (sys_db s))"
  have rows: "?rows = take 1000 (sort_key (\<lambda>(_, r). - se_connected_at r) ?open)"
    by (simp add: list_rds_active_sessions_def)
  have "length (filter (\<lambda>y. (\<lambda>(_, r). - se_connected_at r) y < (\<lambda>(_, r). - se_connected_at r) (sid, r)) ?open) =
      length (filter (\<lambda>(k, q). se_disconnected_at q = None \<and> se_connected_at r < se_connected_at q)
        (db_sessions (sys_db s)))"
    by (simp add: case_prod_unfold conj_commute)
  then have "(sid, r) \<notin> set ?rows"
    unfolding rows using not_in_take_sorted[of 1000 "\<lambda>(_, r). - se_connected_at r" "(sid, r)" ?open] assms(4) by simp
  moreover have "q = r" if "(sid, q) \<in> set ?rows" for q
    using that assms(1,2) map_of_is_SomeI unfolding rows by (auto dest!: in_set_takeD) fastforce
  ultimately have absent: "k \<noteq> sid" if "(k, q) \<in> set ?rows" for k q using that by blast
  show ?thesis
  proof (cases "db_fails (wd_env W) ''list_rds_active_sessions''")
    case False
    have "filter (\<lambda>e. ev_action e = ''rds.session.long_idle'' \<and> ev_raw e = long_idle_raw sid)
        (db_events (sys_db (sweep session_overdue long_idle_event (\<lambda>E k r d. d) W now ?rows s))) =
      filter (\<lambda>e. ev_action e = ''rds.session.long_idle'' \<and> ev_raw e = long_idle_raw sid) (db_events (sys_db s))"
    proof (rule sweep_silent)
      have "\<not> str_contains ''rds.session.long_idle'' anomaly_infix" by code_simp
      then show "\<not> (ev_action a = ''rds.session.long_idle'' \<and> ev_raw a = long_idle_raw sid)"
        if "str_contains (ev_action a) anomaly_infix" for a using that by metis
    qed (auto dest!: absent simp: long_idle_event_def Let_def long_idle_raw_def)
    then show ?thesis using False by (simp add: rds_check_def idle_alerts_def)
  qed (simp add: rds_check_def)
qed

text \<open>A listed session is alerted on, and once a day: the alert's identifier is in the table after the check,
  and the identifiers of the table stay distinct.\<close>

lemma sweep_ids:
  assumes "\<And>k r d. db_events (mark (wd_env W) k r d) = db_events d" and "no_rule_raises (wd_env W) (sys_rules s)"
    and "ev_id (alert (wd_env W) now k r) \<noteq> None"
    and "i \<in> ev_id ` set (db_events (sys_db s)) \<or> (k, r) \<in> set rows \<and> overdue now r \<and> i = ev_id (alert (wd_env W) now k r)"
  shows "i \<in> ev_id ` set (db_events (sys_db (sweep overdue alert mark W now rows s)))"
  using assms(2,4)
proof (induction rows arbitrary: s)
  case (Cons row rows)
  obtain k0 r0 where row: "row = (k0, r0)" by fastforce
  obtain ev1 where ev1: "evaluate (wd_env W) (sys_rules s) (alert (wd_env W) now k0 r0) = Inr ev1"
    using Cons.prems(1) unfolding no_rule_raises_def by blast
  obtain x s' where p: "process_event W now (alert (wd_env W) now k0 r0) s = (Inr x, ev1, s')"
    and g: "grown (s\<lparr>sys_db := snd (insert_event ev1 (sys_db s))\<rparr>) s'"
    using process_event_grown[OF ev1] by blast
  have "i \<in> ev_id ` set (db_events (snd (insert_event ev1 (sys_db s))))"
    if "i \<in> ev_id ` set (db_events (sys_db s)) \<or> (k, r) = (k0, r0) \<and> i = ev_id (alert (wd_env W) now k r)"
    using that evaluate_kept[OF ev1] by (auto simp: insert_event_def)
  then have "i \<in> ev_id ` set (db_events (sys_db s'))"
    if "i \<in> ev_id ` set (db_events (sys_db s)) \<or> (k, r) = (k0, r0) \<and> i = ev_id (alert (wd_env W) now k r)"
    using g that by (auto simp: grown_def)
  moreover have "sys_rules s' = sys_rules s" using g by (simp add: grown_def)
  ultimately show ?case
    using Cons.IH[of "s'\<lparr>sys_db := mark (wd_env W) k0 r0 (sys_db s')\<rparr>"] Cons.IH[of s] Cons.prems
    by (auto simp: row p assms(1))
qed auto

lemma listed_session_alerted:
  assumes "no_rule_raises (wd_env W) (sys_rules s)" and "\<not> db_fails (wd_env W) ''list_rds_active_sessions''"
    and "(sid, r) \<in> set (list_rds_active_sessions None 1000 (sys_db s))" and "session_overdue now r"
  shows "Some (long_idle_id (wd_env W) now sid) \<in> ev_id ` set (db_events (sys_db (rds_check W now s)))"
proof -
  have i: "ev_id (long_idle_event (wd_env W) now sid r) = Some (long_idle_id (wd_env W) now sid)"
    by (simp add: long_idle_event_def Let_def)
  show ?thesis
    using sweep_ids[of "\<lambda>E k r d. d" W s long_idle_event now sid r "Some (long_idle_id (wd_env W) now sid)" _ session_overdue]
      assms i by (simp add: rds_check_def)
qed

section \<open>Witnesses\<close>

definition silent_host :: host_row where
  "silent_host = (empty_host_row 0)\<lparr>hr_active := Some True\<rparr>"

definition silent_system :: system where
  "silent_system = demo_system\<lparr>sys_db := empty_db\<lparr>db_hosts := [(''i-1'', silent_host)]\<rparr>,
     sys_mutes := [\<lparr>mu_action = ''host.agent.stale'', mu_source_type = None, mu_username = None,
       mu_reason = None\<rparr>]\<rparr>"

lemma silent_no_rule_raises: "no_rule_raises (wd_env demo_world) (sys_rules silent_system)"
  by (simp add: no_rule_raises_def silent_system_def demo_system_def evaluate_def)

lemma stale_hosts_alerted_once_witness:
  "map_of (db_hosts (sys_db (host_check demo_world 181 silent_system))) ''i-1'' =
     Some (silent_host\<lparr>hr_active := Some False\<rparr>) \<and>
   length (alerts_for ''host.agent.stale'' ''i-1'' (db_events (sys_db (host_check demo_world 181 silent_system)))) = 1"
proof -
  have h: "distinct (map fst (db_hosts (sys_db silent_system)))"
    "\<not> db_fails (wd_env demo_world) ''list_host_status''" "\<not> db_fails (wd_env demo_world) ''set_host_active''"
    by (simp_all add: silent_system_def demo_world_def demo_env_def)
  show ?thesis
    using stale_hosts_alerted_once[OF silent_no_rule_raises h, of 181 "''i-1''"]
    by (simp add: silent_system_def silent_host_def empty_host_row_def host_overdue_def STALE_AFTER_SECONDS_def
        empty_db_def alerts_for_def)
qed

definition idle_session :: "time \<Rightarrow> session_row" where
  "idle_session t = \<lparr>se_db_instance = ''db-1'', se_source_type = ''postgres'', se_db_user = None, se_db_name = None,
     se_source_ip = None, se_source_port = PyNone, se_connected_at = t, se_last_seen_at = t,
     se_disconnected_at = None, se_duration = None, se_extra = []\<rparr>"

definition busy_system :: system where
  "busy_system = demo_system\<lparr>sys_db := empty_db\<lparr>db_sessions :=
     (''old'', idle_session 0) # map (\<lambda>i. (replicate i (CHR ''x''), idle_session 1)) [0..<1000]\<rparr>\<rparr>"

lemma old_sessions_unchecked_witness:
  "session_overdue 100000 (idle_session 0) \<and>
   idle_alerts ''old'' (db_events (sys_db (rds_check demo_world 100000 busy_system))) = []"
proof -
  have "inj_on (\<lambda>i. replicate i (CHR ''x'')) {0..<1000}" by (rule inj_onI) (metis length_replicate)
  moreover have "''old'' \<noteq> replicate i (CHR ''x'')" for i by (cases i) auto
  ultimately have d: "distinct (map fst (db_sessions (sys_db busy_system)))"
    by (auto simp: busy_system_def distinct_map comp_def)
  have younger: "filter (\<lambda>(k, q). se_disconnected_at q = None \<and> se_connected_at (idle_session 0) < se_connected_at q)
      (map (\<lambda>i. (replicate i (CHR ''x''), idle_session 1)) [0..<1000]) =
    map (\<lambda>i. (replicate i (CHR ''x''), idle_session 1)) [0..<1000]"
    by (rule filter_True) (simp add: idle_session_def)
  have "1000 \<le> length (filter (\<lambda>(k, q). se_disconnected_at q = None \<and>
      se_connected_at (idle_session 0) < se_connected_at q) (db_sessions (sys_db busy_system)))"
    using younger by (simp add: busy_system_def)
  from old_sessions_unchecked[OF d _ _ this, of "''old''" demo_world 100000]
  show ?thesis
    by (simp add: busy_system_def idle_alerts_def idle_session_def session_overdue_def IDLE_THRESHOLD_HOURS_def
        demo_system_def empty_db_def)
qed

end
