(* ===== verification/Catalog.thy ===== *)
theory Catalog
  imports RuleEngine
begin

text \<open>
  The notification catalogue (\<open>src/blackwatch/notify/profiles.py\<close>, \<open>NOTIFICATION_CATALOG\<close>) - modules and the
  kinds of events an operator can be notified of, each with its label, description and default
  severity - and what \<open>notify/catalog.py\<close> derives from it: the routing cards and the coverage report of
  saved profiles and rules. The message texts that the catalogue also carries are not modelled.
  A stored \<open>match\<close> is the condition tree it is read as.
\<close>

section \<open>The catalogue\<close>

record catalog_event =
  ce_key :: string
  ce_label :: string
  ce_description :: string
  ce_severity :: string
  ce_status :: string

definition notifying :: "string \<Rightarrow> string \<Rightarrow> string \<Rightarrow> string \<Rightarrow> catalog_event" where
  "notifying key label description severity =
     \<lparr>ce_key = key, ce_label = label, ce_description = description, ce_severity = severity,
      ce_status = ''notifying''\<rparr>"

definition planned :: "string \<Rightarrow> string \<Rightarrow> string \<Rightarrow> string \<Rightarrow> catalog_event" where
  "planned key label description severity =
     (notifying key label description severity)\<lparr>ce_status := ''non_notifying''\<rparr>"

record catalog_module =
  cm_key :: string
  cm_label :: string
  cm_description :: string
  cm_events :: "catalog_event list"

definition cat_module :: "string \<Rightarrow> string \<Rightarrow> string \<Rightarrow> catalog_event list \<Rightarrow> catalog_module" where
  "cat_module key label description events =
     \<lparr>cm_key = key, cm_label = label, cm_description = description, cm_events = events\<rparr>"

definition ec2_host_events :: "catalog_event list" where
  "ec2_host_events =
    [notifying ''host.agent.stale'' ''Host agent stopped reporting'' ''A host agent has gone silent.'' ''high'',
     notifying ''host.agent.recovered'' ''Host agent recovered'' ''A previously silent host agent reported again.'' ''informational'',
     notifying ''host.auth.ssh.failure'' ''SSH login failed'' ''An SSH authentication attempt failed.'' ''medium'',
     notifying ''host.auth.ssh.password.success'' ''SSH password login succeeded'' ''An SSH password authentication succeeded.'' ''low'',
     notifying ''host.auth.ssh.success'' ''SSH login succeeded'' ''An SSH authentication succeeded.'' ''informational'',
     notifying ''host.bruteforce'' ''SSH brute-force activity'' ''Repeated SSH failures crossed the detection threshold.'' ''high'',
     notifying ''host.bruteforce.user'' ''SSH brute-force activity against a user'' ''Repeated SSH failures targeted one user.'' ''high'',
     notifying ''host.sudo.failure'' ''Sudo attempt failed'' ''A privileged command attempt failed.'' ''high'',
     notifying ''host.authorized_key.added'' ''SSH key added'' ''An authorized SSH key was added to a host.'' ''high'',
     notifying ''host.user.added'' ''Local user added'' ''A local user account was created.'' ''medium'',
     notifying ''host.port.opened'' ''Listening port opened'' ''A new listening port was observed.'' ''medium'',
     notifying ''host.fim.modified'' ''Protected file changed'' ''A monitored file was modified.'' ''high'',
     notifying ''host.fim.deleted'' ''Protected file deleted'' ''A monitored file was deleted.'' ''high'',
     notifying ''host.fim.created'' ''Protected file created'' ''A monitored file was created.'' ''high'',
     notifying ''host.fim.perm_changed'' ''Protected file permissions changed'' ''Permissions on a monitored file changed.'' ''high'',
     notifying ''host.fim.owner_changed'' ''Protected file owner changed'' ''The owner of a monitored file changed.'' ''high'',
     notifying ''host.fim.coverage'' ''File monitoring coverage changed'' ''File-integrity monitoring coverage changed.'' ''medium'',
     notifying ''host.service.added'' ''Host service added'' ''A new host service was detected.'' ''medium'',
     notifying ''host.cpu.anomaly'' ''CPU anomaly detected'' ''Host CPU behavior crossed the anomaly threshold.'' ''medium'',
     notifying ''host.cpu.normal'' ''CPU returned to normal'' ''Host CPU behavior returned to its baseline.'' ''informational'',
     notifying ''host.cron.changed'' ''Scheduled task changed'' ''A monitored cron or scheduled task changed.'' ''high'',
     notifying ''host.disk.critical'' ''Disk space critical'' ''Disk usage crossed the critical threshold.'' ''high'',
     notifying ''host.disk.warn'' ''Disk space warning'' ''Disk usage crossed the warning threshold.'' ''medium'',
     notifying ''host.disk.recovered'' ''Disk space recovered'' ''Disk usage returned below the recovery threshold.'' ''informational'',
     notifying ''host.file.changed'' ''Monitored file changed'' ''A monitored file changed.'' ''high'',
     notifying ''host.memory.exhausted'' ''Memory exhausted'' ''The host reported memory exhaustion.'' ''high'',
     notifying ''host.memory.recovered'' ''Memory pressure recovered'' ''Host memory pressure returned to normal.'' ''informational'',
     notifying ''host.oom_kill'' ''Process killed by OOM'' ''The kernel killed a process because of memory pressure.'' ''high'',
     notifying ''host.collector.stalled'' ''Host collector stalled'' ''The host collector stopped producing expected telemetry.'' ''high'',
     notifying ''host.collector.recovered'' ''Host collector recovered'' ''The host collector resumed producing telemetry.'' ''informational'',
     notifying ''host.first_seen'' ''Host first seen'' ''A host was observed for the first time.'' ''low'',
     notifying ''host.kernel.module.added'' ''Kernel module added'' ''A kernel module was added.'' ''high'',
     notifying ''host.kernel.module.removed'' ''Kernel module removed'' ''A kernel module was removed.'' ''high'',
     notifying ''host.package_db.corrupted'' ''Package database corrupted'' ''The host package database could not be read safely.'' ''high'',
     notifying ''host.package_db.recovered'' ''Package database recovered'' ''The host package database became readable again.'' ''informational'',
     notifying ''host.packages.changed'' ''Installed packages changed'' ''Installed packages changed on a host.'' ''medium'',
     notifying ''host.process.first_seen'' ''New process observed'' ''A process not previously seen on the host started.'' ''medium'',
     notifying ''host.sudoers.changed'' ''Sudoers configuration changed'' ''Sudoers configuration changed.'' ''high'',
     notifying ''host.suid.added'' ''SUID file added'' ''A new SUID file was observed.'' ''high'']"

definition aws_rds_events :: "catalog_event list" where
  "aws_rds_events =
    [notifying ''rds.auth.failure'' ''Database authentication failed'' ''A database authentication attempt failed.'' ''high'',
     notifying ''rds.auth.burst'' ''Database authentication burst'' ''A burst of database authentication failures was detected.'' ''critical'',
     notifying ''rds.instance.create'' ''Database instance created'' ''An RDS database instance was created.'' ''medium'',
     notifying ''rds.instance.delete'' ''Database instance deleted'' ''An RDS database instance was deleted.'' ''critical'',
     notifying ''rds.instance.modify'' ''Database instance changed'' ''An RDS database instance configuration changed.'' ''high'',
     notifying ''rds.snapshot.modify'' ''Database snapshot changed'' ''An RDS database snapshot configuration or sharing setting changed.'' ''high'',
     notifying ''rds.session.concurrent'' ''Concurrent session threshold reached'' ''Concurrent database sessions crossed the configured threshold.'' ''medium'',
     notifying ''rds.session.long_idle'' ''Long-idle database session'' ''A database session remained idle longer than expected.'' ''medium'',
     notifying ''rds.query.role'' ''Sensitive role query'' ''A query associated with a sensitive database role was observed.'' ''high'',
     notifying ''rds.query.function'' ''Sensitive database function used'' ''A monitored database function was called.'' ''high'',
     notifying ''rds.error'' ''Database error'' ''A database error was observed.'' ''medium'',
     notifying ''rds.proxy.source.new'' ''New database proxy source'' ''A new source connected through the database proxy.'' ''medium'',
     notifying ''rds.proxy.client.connect'' ''Database proxy client connected'' ''A client connected through the database proxy.'' ''informational'',
     notifying ''rds.proxy.client.disconnect'' ''Database proxy client disconnected'' ''A client disconnected from the database proxy.'' ''informational'',
     notifying ''rds.proxy.backend_hba_reject'' ''Database proxy backend rejected a connection'' ''The database backend rejected a proxy connection.'' ''high'',
     notifying ''rds.proxy.misconfig'' ''Database proxy misconfigured'' ''The database proxy reported a configuration problem.'' ''high'',
     notifying ''rds.session.start'' ''Database session started'' ''A database session started.'' ''informational'',
     notifying ''rds.session.end'' ''Database session ended'' ''A database session ended.'' ''informational'',
     notifying ''rds.session.new_source'' ''New database session source'' ''A new database session source was observed.'' ''medium'',
     notifying ''rds.query.ddl'' ''Database schema changed'' ''A database DDL statement changed schema or objects.'' ''high'',
     notifying ''rds.parameter_group.modify'' ''Database parameter group changed'' ''A database parameter group security setting changed.'' ''high'',
     notifying ''rds.user.unknown'' ''Unknown database user'' ''A database user not present in the allowlist was observed.'' ''high'']"

definition aws_iam_events :: "catalog_event list" where
  "aws_iam_events =
    [notifying ''iam.access_key.create'' ''IAM access key created'' ''A new IAM access key was created.'' ''high'',
     notifying ''iam.access_key.update'' ''IAM access key changed'' ''An IAM access key was changed.'' ''high'',
     notifying ''iam.access_key.delete'' ''IAM access key deleted'' ''An IAM access key was deleted.'' ''high'',
     notifying ''iam.mfa.deactivate'' ''IAM MFA disabled'' ''Multi-factor authentication was disabled.'' ''critical'',
     notifying ''iam.mfa.enable'' ''IAM MFA enabled'' ''Multi-factor authentication was enabled.'' ''informational'',
     notifying ''iam.mfa.delete'' ''IAM MFA device deleted'' ''An MFA device was deleted.'' ''high'',
     notifying ''iam.role.update_trust'' ''Role trust policy changed'' ''An IAM role trust policy was changed.'' ''critical'',
     notifying ''iam.user.create'' ''IAM user created'' ''A new IAM user was created.'' ''medium'',
     notifying ''iam.user.update'' ''IAM user changed'' ''An IAM user was changed.'' ''high'',
     notifying ''iam.user.delete'' ''IAM user deleted'' ''An IAM user was deleted.'' ''high'',
     notifying ''iam.role.create'' ''IAM role created'' ''A new IAM role was created.'' ''medium'',
     notifying ''iam.role.delete'' ''IAM role deleted'' ''An IAM role was deleted.'' ''high'',
     notifying ''iam.group.create'' ''IAM group created'' ''An IAM group was created.'' ''medium'',
     notifying ''iam.group.delete'' ''IAM group deleted'' ''An IAM group was deleted.'' ''high'',
     notifying ''iam.group.add_user'' ''IAM user added to group'' ''A user was added to an IAM group.'' ''high'',
     notifying ''iam.group.remove_user'' ''IAM user removed from group'' ''A user was removed from an IAM group.'' ''high'',
     notifying ''iam.login_profile.create'' ''IAM login profile created'' ''A console login profile was created for an IAM user.'' ''high'',
     notifying ''iam.login_profile.update'' ''IAM login profile changed'' ''An IAM console login profile was changed.'' ''high'',
     notifying ''iam.login_profile.delete'' ''IAM login profile deleted'' ''An IAM console login profile was deleted.'' ''high'',
     notifying ''iam.policy.attach'' ''IAM policy attached'' ''A policy was attached to an IAM principal.'' ''high'',
     notifying ''iam.policy.detach'' ''IAM policy detached'' ''A policy was detached from an IAM principal.'' ''high'',
     notifying ''iam.policy.put_inline'' ''Inline IAM policy changed'' ''An inline IAM policy was added or changed.'' ''high'',
     notifying ''iam.policy.delete_inline'' ''Inline IAM policy deleted'' ''An inline IAM policy was deleted.'' ''high'',
     notifying ''iam.policy.create'' ''IAM policy created'' ''A managed IAM policy was created.'' ''high'',
     notifying ''iam.policy.delete'' ''IAM policy deleted'' ''A managed IAM policy was deleted.'' ''high'',
     notifying ''iam.policy.create_version'' ''IAM policy version created'' ''A managed IAM policy version was created.'' ''high'',
     notifying ''iam.policy.delete_version'' ''IAM policy version deleted'' ''A managed IAM policy version was deleted.'' ''high'',
     notifying ''iam.role.boundary.put'' ''IAM role permissions boundary changed'' ''A permissions boundary was attached to a role.'' ''high'',
     notifying ''iam.role.boundary.delete'' ''IAM role permissions boundary removed'' ''A permissions boundary was removed from a role.'' ''critical'',
     notifying ''iam.user.boundary.put'' ''IAM user permissions boundary changed'' ''A permissions boundary was attached to a user.'' ''high'',
     notifying ''iam.user.boundary.delete'' ''IAM user permissions boundary removed'' ''A permissions boundary was removed from a user.'' ''critical'',
     notifying ''kms.key.disable'' ''KMS key disabled'' ''A KMS key was disabled.'' ''critical'',
     notifying ''kms.key.create'' ''KMS key created'' ''A KMS key was created.'' ''high'',
     notifying ''kms.key.enable'' ''KMS key enabled'' ''A KMS key was enabled.'' ''informational'',
     notifying ''kms.key.delete_scheduled'' ''KMS key deletion scheduled'' ''Deletion was scheduled for a KMS key.'' ''critical'',
     notifying ''kms.key.delete_cancelled'' ''KMS key deletion cancelled'' ''Scheduled KMS key deletion was cancelled.'' ''informational'',
     notifying ''kms.policy.put'' ''KMS key policy changed'' ''A KMS key policy was changed.'' ''high'',
     notifying ''kms.grant.create'' ''KMS grant created'' ''A grant was created for a KMS key.'' ''high'',
     notifying ''kms.grant.retire'' ''KMS grant retired'' ''A KMS grant was retired.'' ''informational'',
     notifying ''kms.grant.revoke'' ''KMS grant revoked'' ''A KMS grant was revoked.'' ''high'',
     notifying ''kms.rotation.disable'' ''KMS key rotation disabled'' ''Automatic KMS key rotation was disabled.'' ''critical'',
     notifying ''kms.rotation.enable'' ''KMS key rotation enabled'' ''Automatic KMS key rotation was enabled.'' ''informational'',
     notifying ''cloudtrail.trail.delete'' ''CloudTrail trail deleted'' ''A CloudTrail trail was deleted.'' ''critical'',
     notifying ''cloudtrail.logging.stop'' ''CloudTrail logging stopped'' ''CloudTrail logging was stopped.'' ''critical'',
     notifying ''cloudtrail.logging.start'' ''CloudTrail logging started'' ''CloudTrail logging was started.'' ''informational'',
     notifying ''cloudtrail.trail.create'' ''CloudTrail trail created'' ''A CloudTrail trail was created.'' ''medium'',
     notifying ''cloudtrail.trail.update'' ''CloudTrail trail changed'' ''A CloudTrail trail configuration changed.'' ''high'',
     notifying ''auth.console.login'' ''AWS console login'' ''An AWS console login was observed.'' ''informational'',
     notifying ''auth.federated.login'' ''Federated AWS login'' ''A federated AWS login was observed.'' ''informational'']"

definition aws_s3_events :: "catalog_event list" where
  "aws_s3_events =
    [notifying ''s3.object.access.anonymous'' ''Anonymous S3 object access'' ''An S3 object was accessed anonymously.'' ''high'',
     notifying ''s3.object.access'' ''S3 object accessed'' ''An S3 object was accessed.'' ''informational'',
     notifying ''s3.bucket.create'' ''S3 bucket created'' ''An S3 bucket was created.'' ''informational'',
     notifying ''s3.bucket.delete'' ''S3 bucket deleted'' ''An S3 bucket was deleted.'' ''critical'',
     notifying ''s3.bucket.acl.put'' ''S3 bucket ACL changed'' ''An S3 bucket ACL changed.'' ''high'',
     notifying ''s3.bucket.policy.put'' ''S3 bucket policy changed'' ''An S3 bucket policy changed.'' ''high'',
     notifying ''s3.bucket.bpa.put'' ''S3 public access block changed'' ''An S3 public access block setting changed.'' ''high'',
     notifying ''s3.bucket.bpa.delete'' ''S3 public access block removed'' ''An S3 public access block setting was removed.'' ''critical'',
     notifying ''s3.bucket.public'' ''S3 bucket became public'' ''A bucket public-access control changed.'' ''critical'',
     notifying ''s3.bucket.public_removed'' ''S3 bucket public access removed'' ''A bucket was no longer publicly accessible.'' ''informational'',
     notifying ''s3.bucket.encryption.delete'' ''S3 bucket encryption removed'' ''Default encryption was removed from an S3 bucket.'' ''high'',
     notifying ''s3.bucket.encryption.put'' ''S3 bucket encryption changed'' ''Default encryption was changed on an S3 bucket.'' ''medium'',
     notifying ''s3.bucket.encryption_added'' ''S3 bucket encryption restored'' ''A bucket returned from no default encryption to an encrypted state.'' ''informational'',
     notifying ''s3.bucket.versioning.put'' ''S3 bucket versioning changed'' ''S3 bucket versioning was enabled or changed.'' ''medium'',
     notifying ''s3.bucket.versioning_suspended'' ''S3 bucket versioning suspended'' ''S3 bucket versioning was suspended.'' ''high'',
     notifying ''s3.bucket.versioning_enabled'' ''S3 bucket versioning enabled'' ''S3 bucket versioning was enabled.'' ''informational'',
     notifying ''s3.bucket.versioning_off'' ''S3 bucket versioning disabled'' ''S3 bucket versioning was disabled.'' ''high'',
     notifying ''s3.bucket.logging.put'' ''S3 bucket logging changed'' ''S3 bucket access logging changed.'' ''high'',
     notifying ''s3.bucket.logging_disabled'' ''S3 bucket logging disabled'' ''S3 bucket access logging was disabled.'' ''high'',
     notifying ''s3.bucket.policy.delete'' ''S3 bucket policy deleted'' ''An S3 bucket policy was deleted.'' ''high'',
     notifying ''s3.bucket.lifecycle.put'' ''S3 bucket lifecycle changed'' ''An S3 bucket lifecycle configuration changed.'' ''medium'',
     notifying ''s3.bucket.replication.put'' ''S3 bucket replication changed'' ''An S3 bucket replication configuration changed.'' ''high'',
     notifying ''s3.bucket.replication.delete'' ''S3 bucket replication removed'' ''An S3 bucket replication configuration was removed.'' ''high'',
     notifying ''s3.bucket.object_lock.put'' ''S3 object lock changed'' ''An S3 object-lock configuration changed.'' ''high'',
     notifying ''s3.bucket.unencrypted'' ''Unencrypted S3 bucket detected'' ''An S3 bucket was observed without expected encryption.'' ''high'',
     notifying ''s3.bucket.first_seen'' ''S3 bucket first seen'' ''An S3 bucket was observed for the first time.'' ''low'',
     notifying ''s3.bucket.disappeared'' ''S3 bucket disappeared'' ''A previously observed S3 bucket was not found.'' ''high'']"

definition aws_api_gateway_events :: "catalog_event list" where
  "aws_api_gateway_events =
    [notifying ''api.auth.failure'' ''API authentication failed'' ''An API authentication request failed.'' ''medium'',
     notifying ''api.auth.burst'' ''API authentication burst'' ''A burst of API authentication failures was detected.'' ''high'',
     notifying ''api.error'' ''API error'' ''An API request returned an error.'' ''medium'',
     notifying ''api.error.burst'' ''API error burst'' ''An unusual burst of API errors was detected.'' ''high'',
     notifying ''api.scanner_ua'' ''Scanner user agent detected'' ''A known scanner-like user agent was observed.'' ''medium'',
     notifying ''api.source.new'' ''New API source'' ''A new API client source was observed.'' ''low'']"

definition aws_posture_events :: "catalog_event list" where
  "aws_posture_events =
    [notifying ''network.sg.instance_attach'' ''Security group attached'' ''A security group attachment changed.'' ''high'',
     planned ''posture.finding.open'' ''Posture finding opened'' ''A posture finding became active.'' ''high'',
     notifying ''aws.posture.finding.new'' ''New posture finding'' ''A new posture finding was detected.'' ''high'',
     notifying ''aws.posture.finding.resolved'' ''Posture finding resolved'' ''A posture finding was resolved.'' ''informational'']"

definition aws_backup_events :: "catalog_event list" where
  "aws_backup_events =
    [notifying ''backup.vault.create'' ''Backup vault created'' ''A backup vault was created.'' ''medium'',
     notifying ''backup.recovery_point.delete'' ''Backup recovery point deleted'' ''A backup recovery point was deleted.'' ''critical'',
     notifying ''backup.vault.delete'' ''Backup vault deleted'' ''A backup vault was deleted.'' ''critical'',
     notifying ''backup.vault.policy.delete'' ''Backup vault policy deleted'' ''A backup vault policy was deleted.'' ''high'',
     notifying ''backup.vault.policy.put'' ''Backup vault policy changed'' ''A backup vault policy changed.'' ''high'',
     notifying ''backup.copy_job.start'' ''Backup copy job started'' ''A backup copy job started.'' ''medium'']"

definition aws_efs_events :: "catalog_event list" where
  "aws_efs_events =
    [notifying ''efs.filesystem.create'' ''EFS file system created'' ''An EFS file system was created.'' ''medium'',
     notifying ''efs.filesystem.policy.delete'' ''EFS policy deleted'' ''An EFS file-system policy was deleted.'' ''high'',
     notifying ''efs.filesystem.policy.put'' ''EFS policy changed'' ''An EFS file-system policy changed.'' ''high'',
     notifying ''efs.mount_target.create'' ''EFS mount target created'' ''An EFS mount target was created.'' ''medium'',
     notifying ''efs.mount_target.delete'' ''EFS mount target deleted'' ''An EFS mount target was deleted.'' ''high'',
     notifying ''efs.mount_target.sg.modify'' ''EFS mount security group changed'' ''An EFS mount target security group changed.'' ''high'',
     notifying ''efs.filesystem.delete'' ''EFS file system deleted'' ''An EFS file system was deleted.'' ''critical'']"

definition aws_network_events :: "catalog_event list" where
  "aws_network_events =
    [notifying ''network.igw.attach'' ''Internet gateway attached'' ''An internet gateway was attached.'' ''high'',
     notifying ''network.peering.accept'' ''Network peering accepted'' ''A network peering request was accepted.'' ''high'',
     notifying ''network.tgw_peering.accept'' ''Transit gateway peering accepted'' ''Transit gateway peering was accepted.'' ''high'',
     notifying ''network.sg.ingress.add'' ''Network ingress rule added'' ''An inbound security-group rule was added.'' ''high'']"

definition aws_secrets_events :: "catalog_event list" where
  "aws_secrets_events =
    [notifying ''secrets.secret.create'' ''Secret created'' ''A new secret was created.'' ''medium'',
     notifying ''secrets.secret.update'' ''Secret updated'' ''A secret value or metadata was updated.'' ''high'',
     notifying ''secrets.secret.restore'' ''Secret restored'' ''A deleted secret was restored.'' ''medium'',
     notifying ''secrets.secret.delete'' ''Secret deleted'' ''A secret was deleted.'' ''critical'']"

definition aws_compute_events :: "catalog_event list" where
  "aws_compute_events =
    [notifying ''compute.imds.modify'' ''EC2 metadata settings changed'' ''Instance metadata settings changed.'' ''high'',
     notifying ''compute.ami.modify'' ''AMI sharing or visibility changed'' ''An AMI sharing or visibility setting changed.'' ''high'',
     notifying ''compute.instance.modify'' ''EC2 instance configuration changed'' ''An EC2 instance configuration changed.'' ''medium'']"

definition aws_storage_events :: "catalog_event list" where
  "aws_storage_events =
    [notifying ''storage.snapshot.modify'' ''EBS snapshot sharing changed'' ''An EBS snapshot sharing permission changed.'' ''high'']"

definition vpn_openvpn_events :: "catalog_event list" where
  "vpn_openvpn_events =
    [notifying ''vpn.service.down'' ''VPN service down'' ''The VPN service reported a down state.'' ''critical'',
     notifying ''vpn.auth.failure'' ''VPN login failed'' ''A VPN authentication attempt failed.'' ''medium'',
     notifying ''vpn.bruteforce'' ''VPN brute-force activity'' ''Repeated VPN authentication failures were detected.'' ''high'',
     notifying ''vpn.session.concurrent'' ''Concurrent VPN sessions high'' ''Concurrent VPN sessions crossed the configured threshold.'' ''medium'',
     notifying ''vpn.cert.expired'' ''VPN certificate expired'' ''A VPN certificate expired.'' ''critical'',
     notifying ''vpn.cert.probe.failed'' ''VPN certificate probe failed'' ''A VPN certificate check could not complete.'' ''high'',
     notifying ''vpn.cert.expiring.critical'' ''VPN certificate expires soon'' ''A VPN certificate is critically close to expiry.'' ''critical'',
     notifying ''vpn.cert.expiring.high'' ''VPN certificate expiry warning'' ''A VPN certificate is approaching expiry.'' ''high'',
     notifying ''vpn.cert.expiring.warning'' ''VPN certificate expiry notice'' ''A VPN certificate entered its warning window.'' ''medium'',
     notifying ''vpn.auth.success'' ''VPN login succeeded'' ''A VPN authentication attempt succeeded.'' ''informational'',
     notifying ''vpn.bruteforce.user'' ''VPN brute-force activity against a user'' ''Repeated VPN authentication failures targeted one user.'' ''high'',
     notifying ''vpn.service.up'' ''VPN service recovered'' ''The VPN service recovered.'' ''informational'',
     notifying ''vpn.session.start'' ''VPN session started'' ''A VPN session started.'' ''informational'',
     notifying ''vpn.session.end'' ''VPN session ended'' ''A VPN session ended.'' ''informational'']"

definition ecs_probe_events :: "catalog_event list" where
  "ecs_probe_events =
    [notifying ''service.down'' ''Service went down'' ''A monitored service crossed the down threshold.'' ''high'',
     notifying ''service.degraded'' ''Service degraded'' ''A monitored service reported degraded health.'' ''medium'',
     notifying ''service.unknown'' ''Service state unknown'' ''A monitored service could not be classified reliably.'' ''medium'',
     notifying ''service.up'' ''Service recovered'' ''A previously unhealthy service recovered.'' ''informational'',
     notifying ''probe.agent.stale'' ''Probe agent stopped reporting'' ''A probe agent stopped reporting and monitoring coverage is offline.'' ''critical'',
     notifying ''probe.agent.recovered'' ''Probe agent recovered'' ''A previously silent probe agent reported again.'' ''informational'',
     notifying ''probe.agent.first_seen'' ''New probe agent detected'' ''A probe agent reported for the first time.'' ''low'']"

definition cert_events :: "catalog_event list" where
  "cert_events =
    [notifying ''cert.expired'' ''Certificate expired'' ''A monitored certificate has expired.'' ''critical'',
     notifying ''cert.expiring.critical'' ''Certificate expires soon'' ''A monitored certificate is close to expiry.'' ''critical'',
     notifying ''cert.expiring.high'' ''Certificate expiry warning'' ''A monitored certificate is approaching expiry.'' ''high'',
     notifying ''cert.expiring.warning'' ''Certificate expiry notice'' ''A monitored certificate entered its warning window.'' ''medium'',
     notifying ''cert.probe.failed'' ''Certificate probe failed'' ''A certificate check could not complete.'' ''high'']"

definition ueba_events :: "catalog_event list" where
  "ueba_events =
    [notifying ''<category>.anomaly.first_seen_*'' ''New behavior value observed'' ''A UEBA baseline observed a new category-specific value.'' ''high'']"

definition findings_events :: "catalog_event list" where
  "findings_events =
    [notifying ''finding.malware.detected'' ''Malware detected'' ''A malware finding was reported.'' ''critical'',
     notifying ''<finding>.detected'' ''Security finding detected'' ''A typed or custom finding/webhook reported a detected condition.'' ''high'']"

definition NOTIFICATION_CATALOG :: "catalog_module list" where
  "NOTIFICATION_CATALOG =
    [cat_module ''ec2.host'' ''EC2 Hosts'' ''Agent, login, privilege, file, process, and host health events.'' ec2_host_events,
     cat_module ''aws.rds'' ''AWS RDS'' ''Database authentication, sessions, queries, and proxy activity.'' aws_rds_events,
     cat_module ''aws.iam'' ''AWS IAM'' ''Identity, access-key, MFA, trust-policy, KMS, and CloudTrail security events.'' aws_iam_events,
     cat_module ''aws.s3'' ''AWS S3'' ''Bucket policy, public access, and object access events.'' aws_s3_events,
     cat_module ''aws.api_gateway'' ''API Gateway'' ''API authentication, errors, scanners, bursts, and new sources.'' aws_api_gateway_events,
     cat_module ''aws.posture'' ''AWS Posture'' ''Security posture drift and resource exposure findings.'' aws_posture_events,
     cat_module ''aws.backup'' ''AWS Backup'' ''Backup recovery-point and vault policy changes.'' aws_backup_events,
     cat_module ''aws.efs'' ''AWS EFS'' ''File-system policy, mount target, and security-group changes.'' aws_efs_events,
     cat_module ''aws.network'' ''AWS Network'' ''Internet gateway, peering, and transit-network changes.'' aws_network_events,
     cat_module ''aws.secrets'' ''AWS Secrets'' ''Secrets creation, update, restore, and deletion.'' aws_secrets_events,
     cat_module ''aws.compute'' ''AWS Compute'' ''EC2, AMI, and instance security configuration changes.'' aws_compute_events,
     cat_module ''aws.storage'' ''AWS Storage'' ''Snapshot, volume, and resource-sharing changes.'' aws_storage_events,
     cat_module ''vpn.openvpn'' ''OpenVPN'' ''VPN service, authentication, sessions, and brute-force activity.'' vpn_openvpn_events,
     cat_module ''ecs.probe'' ''Services and Probes'' ''Service availability, degradation, recovery, and monitoring-agent health.'' ecs_probe_events,
     cat_module ''cert'' ''TLS Certificates'' ''Certificate expiration and probe failures.'' cert_events,
     cat_module ''ueba'' ''UEBA'' ''Behavior baselines and anomaly signals.'' ueba_events,
     cat_module ''findings'' ''Security Findings'' ''Malware, custom, and externally supplied security findings.'' findings_events]"

section \<open>Cards\<close>

definition ICONS :: "(string \<times> string) list" where
  "ICONS =
     [(''ec2.host'', ''server''), (''aws.rds'', ''database''), (''aws.iam'', ''shield''), (''aws.s3'', ''archive''),
      (''aws.api_gateway'', ''route''), (''aws.posture'', ''eye''), (''aws.backup'', ''archive-restore''),
      (''aws.efs'', ''hard-drive''), (''aws.network'', ''network''), (''aws.secrets'', ''key-round''),
      (''aws.compute'', ''cpu''), (''aws.storage'', ''database-backup''), (''vpn.openvpn'', ''network''),
      (''ecs.probe'', ''activity''), (''cert'', ''key-round''), (''ueba'', ''scan-search''),
      (''findings'', ''triangle-alert'')]"

definition icon_of :: "string \<Rightarrow> string" where
  "icon_of key = (case map_of ICONS key of None \<Rightarrow> ''bell'' | Some i \<Rightarrow> i)"

definition canonical_module_keys :: "string list" where
  "canonical_module_keys = map cm_key NOTIFICATION_CATALOG"

text \<open>The module that owns an event kind: a literal key, or one of the two patterns.\<close>

definition anomaly_kind :: "string \<Rightarrow> bool" where
  "anomaly_kind kind \<longleftrightarrow> kind = ''ueba.anomaly'' \<or> str_contains kind ''.anomaly.first_seen_''"

definition finding_kind :: "string \<Rightarrow> bool" where
  "finding_kind kind \<longleftrightarrow> prefix ''finding.'' kind \<and> suffix ''.detected'' kind"

definition owns_kind :: "catalog_module \<Rightarrow> string \<Rightarrow> catalog_event \<Rightarrow> bool" where
  "owns_kind m kind e \<longleftrightarrow> ce_key e = kind \<or>
     cm_key m = ''ueba'' \<and> ce_key e = ''<category>.anomaly.first_seen_*'' \<and> anomaly_kind kind \<or>
     cm_key m = ''findings'' \<and> ce_key e = ''<finding>.detected'' \<and> finding_kind kind"

definition module_for_event_kind :: "string \<Rightarrow> string option" where
  "module_for_event_kind kind =
     map_option cm_key (List.find (\<lambda>m. list_ex (owns_kind m kind) (cm_events m)) NOTIFICATION_CATALOG)"

section \<open>Reading rules\<close>

fun walk_match :: "condition \<Rightarrow> condition list" where
  "walk_match (Condition f op v al an nt) =
     (if f \<noteq> None then [Condition f op v al an nt] else []) @
     (case al of None \<Rightarrow> [] | Some cs \<Rightarrow> concat (map walk_match cs)) @
     (case an of None \<Rightarrow> [] | Some cs \<Rightarrow> concat (map walk_match cs)) @
     (case nt of None \<Rightarrow> [] | Some c \<Rightarrow> walk_match c)"

definition module_aliases :: "string \<Rightarrow> string list" where
  "module_aliases m = (if m = ''aws.iam'' then [''aws.iam'', ''aws.cloudtrail''] else [m])"

definition leaf_values :: "condition \<Rightarrow> pyval list" where
  "leaf_values c = (case cond_value c of PyList vs \<Rightarrow> vs | v \<Rightarrow> [v])"

definition rule_covers_event :: "pyenv \<Rightarrow> string \<Rightarrow> condition \<Rightarrow> string \<Rightarrow> string \<Rightarrow> bool" where
  "rule_covers_event E rid match mdl kind =
     (if prefix ''profile:'' rid then False
      else
        let leaves = walk_match match;
            actions = filter (\<lambda>c. cond_field c = Some ''action'') leaves
        in if actions \<noteq> []
           then list_ex (\<lambda>c. kind \<in> set (map (py_str E) (leaf_values c))) actions
           else list_ex (\<lambda>c. cond_field c = Some ''source.module'' \<and> cond_op c = Some ''equals'' \<and>
             list_ex (\<lambda>m. py_eq (cond_value c) (PyStr m)) (module_aliases mdl)) leaves)"

definition rule_severities_of :: "pyenv \<Rightarrow> condition \<Rightarrow> string list" where
  "rule_severities_of E match =
     rev (remdups (rev (concat (map (\<lambda>c. map (py_str E) (filter truthy (leaf_values c)))
       (filter (\<lambda>c. cond_field c = Some ''severity'') (walk_match match))))))"

end
