(* ===== verification/NotifyRules.thy ===== *)
theory NotifyRules
  imports Catalog Router
begin

text \<open>
  How operators configure routing: the table of notification rules (\<open>src/blackwatch/storage.py\<close>), its seed
  from the configuration file (\<open>notify/router.py\<close>), the module cards (\<open>notify/routing_matrix.py\<close>) and the
  simple routes (\<open>notify/routes_view.py\<close>). A card and a simple route are rows of the one table; the notifier
  takes the table over when it reloads. The identifiers of cards are \<open>uuid5\<close> in a namespace of their own,
  here the function \<open>U\<close>.
\<close>

section \<open>The table\<close>

type_synonym rule_table = "(string \<times> nrule) list"

text \<open>\<open>ORDER BY priority, name\<close>.\<close>

definition list_notification_rules :: "rule_table \<Rightarrow> nrule list" where
  "list_notification_rules t = sort_key nr_priority (sort_key nr_name (map snd t))"

definition get_notification_rule :: "rule_table \<Rightarrow> string \<Rightarrow> nrule option" where
  "get_notification_rule t rid = map_of t rid"

definition clean_template :: "string option \<Rightarrow> string option" where
  "clean_template tpl = (let s = str_strip (str_or tpl '''') in if s = [] then None else Some s)"

text \<open>The silence of an existing row is kept.\<close>

definition upsert_notification_rule ::
  "string \<Rightarrow> string \<Rightarrow> bool \<Rightarrow> condition \<Rightarrow> string list \<Rightarrow> int \<Rightarrow> int \<Rightarrow> string option \<Rightarrow> int \<Rightarrow> rule_table \<Rightarrow> rule_table" where
  "upsert_notification_rule rid name enabled match channels throttle priority template digest t =
     AList.update rid
       \<lparr>nr_id = rid, nr_name = name, nr_enabled = enabled, nr_match = match, nr_channels = channels,
        nr_throttle = throttle, nr_digest_window = max 0 digest,
        nr_silence_until = (case map_of t rid of None \<Rightarrow> None | Some r \<Rightarrow> nr_silence_until r),
        nr_priority = priority, nr_template = clean_template template\<rparr> t"

definition change_rule :: "string \<Rightarrow> (nrule \<Rightarrow> nrule) \<Rightarrow> rule_table \<Rightarrow> rule_table" where
  "change_rule rid f t = (case map_of t rid of None \<Rightarrow> t | Some r \<Rightarrow> AList.update rid (f r) t)"

definition set_notification_rule_enabled :: "string \<Rightarrow> bool \<Rightarrow> rule_table \<Rightarrow> rule_table" where
  "set_notification_rule_enabled rid enabled = change_rule rid (\<lambda>r. r\<lparr>nr_enabled := enabled\<rparr>)"

definition set_notification_rule_silence :: "string \<Rightarrow> time option \<Rightarrow> rule_table \<Rightarrow> rule_table" where
  "set_notification_rule_silence rid until = change_rule rid (\<lambda>r. r\<lparr>nr_silence_until := until\<rparr>)"

definition delete_notification_rule :: "string \<Rightarrow> rule_table \<Rightarrow> rule_table" where
  "delete_notification_rule rid t = AList.delete rid t"

text \<open>The routes of the configuration file fill an empty table, each under a fresh identifier.\<close>

definition seed_rules_from_yaml :: "pyenv \<Rightarrow> (string \<times> route) list \<Rightarrow> rule_table \<Rightarrow> rule_table" where
  "seed_rules_from_yaml E routes t =
     (if db_fails E ''list_notification_rules'' \<or> t \<noteq> [] then t
      else fold (\<lambda>(rid, r) t. if db_fails E ''upsert_notification_rule'' then t
        else upsert_notification_rule rid (rt_name r) (rt_enabled r) (route_to_condition r) (rt_channels r) 0 100
               None 0 t) routes t)"

text \<open>The configuration that the operator's actions change: the table and the running notifier.\<close>

record studio =
  st_rules :: rule_table
  st_notifier :: notifier

definition reload_notifier :: "pyenv \<Rightarrow> studio \<Rightarrow> studio" where
  "reload_notifier E st = st\<lparr>st_notifier := reload_rules
     (if db_fails E ''list_notification_rules'' then None else Some (list_notification_rules (st_rules st)))
     (st_notifier st)\<rparr>"

section \<open>Module cards\<close>

definition THRESHOLDS :: "(string \<times> string list) list" where
  "THRESHOLDS =
     [(''critical'', [''critical'']), (''high'', [''critical'', ''high'']),
      (''medium'', [''critical'', ''high'', ''medium'']),
      (''low'', [''critical'', ''high'', ''medium'', ''low''])]"

definition DEFAULT_THRESHOLD :: string where "DEFAULT_THRESHOLD = ''high''"

definition card_rule_id :: "(string \<Rightarrow> string) \<Rightarrow> string \<Rightarrow> string" where
  "card_rule_id U mdl = U (''auto:'' @ mdl)"

definition card_rule_name :: "string \<Rightarrow> string" where
  "card_rule_name mdl = ''auto:'' @ mdl"

definition is_auto_rule_name :: "string \<Rightarrow> bool" where
  "is_auto_rule_name name \<longleftrightarrow> prefix ''auto:'' name"

definition severities_for_threshold :: "string \<Rightarrow> string list" where
  "severities_for_threshold threshold =
     (case map_of THRESHOLDS threshold of None \<Rightarrow> [''critical'', ''high''] | Some xs \<Rightarrow> xs)"

definition build_match :: "string \<Rightarrow> string \<Rightarrow> condition" where
  "build_match mdl threshold =
     all_of [leaf ''source.module'' ''equals'' (PyStr mdl),
       leaf ''severity'' ''in'' (PyList (map PyStr (severities_for_threshold threshold)))]"

fun match_targets_module :: "string \<Rightarrow> condition \<Rightarrow> bool" where
  "match_targets_module mdl (Condition f op v al an nt) \<longleftrightarrow>
     (case al of None \<Rightarrow> False | Some cs \<Rightarrow> list_ex (match_targets_module mdl) cs) \<or>
     (case an of None \<Rightarrow> False | Some cs \<Rightarrow> list_ex (match_targets_module mdl) cs) \<or>
     (case nt of None \<Rightarrow> False | Some c \<Rightarrow> match_targets_module mdl c) \<or>
     f = Some ''source.module'' \<and>
       (op = Some ''equals'' \<and> py_eq v (PyStr mdl) \<or>
        op = Some ''in'' \<and> (case v of PyList vs \<Rightarrow> py_in_list (PyStr mdl) vs | _ \<Rightarrow> False))"

text \<open>\<open>set(value or [])\<close> of a severity clause; \<open>None\<close> where Python raises \<open>TypeError\<close>.\<close>

definition value_set :: "pyval \<Rightarrow> pyval set option" where
  "value_set v =
     (if \<not> truthy v then Some {}
      else case v of
        PyList vs \<Rightarrow> if list_ex (\<lambda>x. case x of PyList _ \<Rightarrow> True | PyDict _ \<Rightarrow> True | _ \<Rightarrow> False) vs then None
                     else Some (set vs)
      | PyDict d \<Rightarrow> Some (PyStr ` fst ` set d)
      | PyStr s \<Rightarrow> Some ((\<lambda>c. PyStr [c]) ` set s)
      | _ \<Rightarrow> None)"

definition threshold_of_set :: "pyval set \<Rightarrow> string option" where
  "threshold_of_set vs = map_option fst (List.find (\<lambda>(k, xs). PyStr ` set xs = vs) THRESHOLDS)"

fun threshold_from_clauses :: "condition list \<Rightarrow> string option" where
  "threshold_from_clauses [] = Some DEFAULT_THRESHOLD"
| "threshold_from_clauses (c # cs) =
     (if cond_field c = Some ''severity'' \<and> cond_op c = Some ''in'' then
        (case value_set (cond_value c) of None \<Rightarrow> None
         | Some vs \<Rightarrow> (case threshold_of_set vs of Some k \<Rightarrow> Some k | None \<Rightarrow> threshold_from_clauses cs))
      else threshold_from_clauses cs)"

definition threshold_from_match :: "condition \<Rightarrow> string option" where
  "threshold_from_match match =
     threshold_from_clauses (case cond_all match of None \<Rightarrow> [] | Some cs \<Rightarrow> cs)"

record card =
  cd_module :: string
  cd_label :: string
  cd_icon :: string
  cd_blurb :: string
  cd_enabled :: bool
  cd_channel :: "string option"
  cd_threshold :: string
  cd_silence_until :: "time option"
  cd_rule_id :: "string option"
  cd_companions :: "(string \<times> string \<times> bool \<times> string list) list"

definition find_companion_rules :: "nrule list \<Rightarrow> string \<Rightarrow> (string \<times> string \<times> bool \<times> string list) list" where
  "find_companion_rules rules mdl =
     map (\<lambda>r. (nr_id r, nr_name r, nr_enabled r, nr_channels r))
       (filter (\<lambda>r. \<not> is_auto_rule_name (nr_name r) \<and> match_targets_module mdl (nr_match r)) rules)"

definition card_of :: "(string \<Rightarrow> string) \<Rightarrow> nrule list \<Rightarrow> catalog_module \<Rightarrow> card option" where
  "card_of U rules spec =
     (let base = \<lparr>cd_module = cm_key spec, cd_label = cm_label spec, cd_icon = icon_of (cm_key spec),
            cd_blurb = str_or (Some (cm_description spec)) ''Supported BlackWatch notification events.'',
            cd_enabled = False, cd_channel = None, cd_threshold = DEFAULT_THRESHOLD, cd_silence_until = None,
            cd_rule_id = None, cd_companions = find_companion_rules rules (cm_key spec)\<rparr>
      in case map_of (dict_by nr_id rules) (card_rule_id U (cm_key spec)) of None \<Rightarrow> Some base
         | Some r \<Rightarrow> map_option (\<lambda>k. base\<lparr>cd_rule_id := Some (nr_id r), cd_enabled := nr_enabled r,
             cd_channel := (case nr_channels r of [] \<Rightarrow> None | c # cs \<Rightarrow> Some c), cd_threshold := k,
             cd_silence_until := nr_silence_until r\<rparr>) (threshold_from_match (nr_match r)))"

text \<open>One unreadable card fails the whole listing; the text of the exception is left out.\<close>

definition list_cards :: "pyenv \<Rightarrow> (string \<Rightarrow> string) \<Rightarrow> studio \<Rightarrow> pyerr + card list" where
  "list_cards E U st =
     (let rules = (if db_fails E ''list_notification_rules'' then [] else list_notification_rules (st_rules st));
          cards = map (card_of U rules) NOTIFICATION_CATALOG
      in if None \<in> set cards then Inl (TypeError []) else Inr (map the cards))"

definition find_card :: "pyenv \<Rightarrow> (string \<Rightarrow> string) \<Rightarrow> string \<Rightarrow> studio \<Rightarrow> pyerr + card option" where
  "find_card E U mdl st =
     (case list_cards E U st of Inl e \<Rightarrow> Inl e | Inr cs \<Rightarrow> Inr (List.find (\<lambda>c. cd_module c = mdl) cs))"

definition save_card ::
  "pyenv \<Rightarrow> (string \<Rightarrow> string) \<Rightarrow> string \<Rightarrow> bool \<Rightarrow> string option \<Rightarrow> string \<Rightarrow> studio \<Rightarrow> (pyerr + card option) \<times> studio" where
  "save_card E U mdl enabled channel threshold st =
     (if mdl \<notin> set canonical_module_keys then (Inl (ValueError (''unknown module '' @ repr_other E (PyStr mdl))), st)
      else if threshold \<notin> fst ` set THRESHOLDS
      then (Inl (ValueError (''invalid threshold '' @ repr_other E (PyStr threshold))), st)
      else
        let rid = card_rule_id U mdl;
            st1 = (if \<not> str_truthy channel
              then (if db_fails E ''delete_notification_rule'' then st
                    else st\<lparr>st_rules := delete_notification_rule rid (st_rules st)\<rparr>)
              else st\<lparr>st_rules := upsert_notification_rule rid (card_rule_name mdl) enabled
                (build_match mdl threshold) [the channel] 0 50 None 0 (st_rules st)\<rparr>);
            st2 = reload_notifier E st1
        in (find_card E U mdl st2, st2))"

definition silence_card ::
  "pyenv \<Rightarrow> (string \<Rightarrow> string) \<Rightarrow> time \<Rightarrow> string \<Rightarrow> int \<Rightarrow> studio \<Rightarrow> (pyerr + card option) \<times> studio" where
  "silence_card E U now mdl hours st =
     (if mdl \<notin> set canonical_module_keys then (Inl (ValueError (''unknown module '' @ repr_other E (PyStr mdl))), st)
      else
        let until = (if 0 < hours then Some (now + of_int (hours * 3600)) else None);
            st1 = (if db_fails E ''set_notification_rule_silence'' then st
              else st\<lparr>st_rules := set_notification_rule_silence (card_rule_id U mdl) until (st_rules st)\<rparr>);
            st2 = reload_notifier E st1
        in (find_card E U mdl st2, st2))"

section \<open>Simple routes\<close>

definition build_simple_match :: "string \<Rightarrow> string list \<Rightarrow> pyerr + condition" where
  "build_simple_match mdl sevs =
     (let valid = filter (\<lambda>s. s \<in> set severity_order) sevs;
          sev_clause = leaf ''severity'' ''in'' (PyList (map PyStr valid))
      in if valid = [] then Inl (ValueError ''at least one valid severity required'')
         else if mdl \<noteq> [] then Inr (all_of [leaf ''source.module'' ''equals'' (PyStr mdl), sev_clause])
         else Inr sev_clause)"

definition upsert_simple_route ::
  "string \<Rightarrow> string option \<Rightarrow> string \<Rightarrow> string list \<Rightarrow> string \<Rightarrow> bool \<Rightarrow> string option \<Rightarrow> rule_table \<Rightarrow>
   (pyerr + string) \<times> rule_table" where
  "upsert_simple_route fresh_id old_id mdl sevs channel enabled template t =
     (if mdl = [] then (Inl (ValueError ''module required''), t)
      else if channel = [] then (Inl (ValueError ''channel required''), t)
      else case build_simple_match mdl sevs of Inl e \<Rightarrow> (Inl e, t)
      | Inr match \<Rightarrow>
          let rid = str_or old_id fresh_id;
              name = (if sevs \<noteq> [] then ''route:'' @ mdl @ '':'' @ join ''+'' (sort sevs) else ''route:'' @ mdl)
          in (Inr rid, upsert_notification_rule rid name enabled match [channel] 0 50 template 0 t))"

definition ACTION_PREFIX_TO_MODULE :: "(string \<times> string) list" where
  "ACTION_PREFIX_TO_MODULE =
     [(''aws.cloudtrail.'', ''aws.cloudtrail''), (''aws.rds.'', ''aws.rds''), (''aws.s3.'', ''aws.s3''),
      (''aws.posture.'', ''aws.posture''), (''vpn.openvpn.'', ''vpn.openvpn''), (''vpn.'', ''vpn.openvpn''),
      (''ecs.probe.'', ''ecs.probe''), (''ecs.'', ''ecs.probe''), (''service.'', ''ecs.probe''),
      (''probe.'', ''ecs.probe''), (''cert.'', ''cert''), (''host.'', ''ec2.host'')]"

definition module_of_action :: "string \<Rightarrow> string option" where
  "module_of_action v =
     (case module_for_event_kind v of Some m \<Rightarrow> Some m
      | None \<Rightarrow> map_option snd (List.find (\<lambda>(p, m). prefix p v) ACTION_PREFIX_TO_MODULE))"

text \<open>The one module that all listed actions belong to.\<close>

definition module_from_action_value :: "pyenv \<Rightarrow> pyval \<Rightarrow> string option" where
  "module_from_action_value E value =
     (let values = (case value of PyStr s \<Rightarrow> [s]
            | PyList vs \<Rightarrow> map (py_str E)
                (filter (\<lambda>v. case v of PyStr _ \<Rightarrow> True | PyInt _ \<Rightarrow> True | PyBool _ \<Rightarrow> True | _ \<Rightarrow> False) vs)
            | _ \<Rightarrow> []);
          modules = remdups (List.map_filter module_of_action values)
      in case modules of [m] \<Rightarrow> Some m | _ \<Rightarrow> None)"

definition module_of_leaf :: "pyenv \<Rightarrow> condition \<Rightarrow> string option" where
  "module_of_leaf E c =
     (case (cond_field c, cond_op c, cond_value c) of
        (Some f, Some op, v) \<Rightarrow>
          if f = ''source.module'' \<and> op = ''equals'' then
            (case v of PyStr s \<Rightarrow> Some (if s = ''aws.cloudtrail'' then ''aws.iam'' else s) | _ \<Rightarrow> None)
          else if f = ''action'' then
            (if op \<in> {''equals'', ''in''} then module_from_action_value E v
             else if op = ''icontains'' then
               (case v of PyStr s \<Rightarrow> map_option snd
                    (List.find (\<lambda>(p, m). prefix (str_rstrip (CHR ''.'') p) s) ACTION_PREFIX_TO_MODULE)
                | _ \<Rightarrow> None)
             else None)
          else None
      | _ \<Rightarrow> None)"

definition first_some :: "'a option list \<Rightarrow> 'a option" where
  "first_some xs = (case filter (\<lambda>x. x \<noteq> None) xs of [] \<Rightarrow> None | x # _ \<Rightarrow> x)"

fun extract_module_from_match :: "pyenv \<Rightarrow> condition \<Rightarrow> string option" where
  "extract_module_from_match E (Condition f op v al an nt) =
     (case module_of_leaf E (Condition f op v al an nt) of Some m \<Rightarrow> Some m
      | None \<Rightarrow> (case al of None \<Rightarrow> None
          | Some cs \<Rightarrow> first_some (map (extract_module_from_match E) cs)))"

definition severities_of_leaf :: "pyenv \<Rightarrow> condition \<Rightarrow> string list option" where
  "severities_of_leaf E c =
     (if cond_field c = Some ''severity'' then
        (case (cond_op c, cond_value c) of
           (Some op, PyList vs) \<Rightarrow> if op = ''in'' then Some (map (py_str E) vs) else None
         | (Some op, PyStr s) \<Rightarrow> if op = ''equals'' then Some [s] else None
         | _ \<Rightarrow> None)
      else None)"

fun extract_severities :: "pyenv \<Rightarrow> condition \<Rightarrow> string list" where
  "extract_severities E (Condition f op v al an nt) =
     (case severities_of_leaf E (Condition f op v al an nt) of Some xs \<Rightarrow> xs
      | None \<Rightarrow> (case al of None \<Rightarrow> []
          | Some cs \<Rightarrow> (case filter (\<lambda>xs. xs \<noteq> []) (map (extract_severities E) cs) of [] \<Rightarrow> [] | xs # _ \<Rightarrow> xs)))"

definition simple_clause :: "condition \<Rightarrow> bool" where
  "simple_clause c \<longleftrightarrow> cond_field c = Some ''source.module'' \<and> cond_op c = Some ''equals'' \<or>
     cond_field c = Some ''severity'' \<and> cond_op c = Some ''in''"

definition rule_kind_simple :: "condition \<Rightarrow> bool" where
  "rule_kind_simple match = list_all simple_clause (case cond_all match of Some cs \<Rightarrow> cs | None \<Rightarrow> [match])"

record route_view =
  rr_rule :: nrule
  rr_module :: string
  rr_label :: string
  rr_channel :: "string option"
  rr_channels :: "string list"
  rr_severities :: "string list"
  rr_simple :: bool
  rr_silenced :: bool

definition route_row :: "pyenv \<Rightarrow> time \<Rightarrow> (string \<times> string) list \<Rightarrow> nrule \<Rightarrow> route_view" where
  "route_row E now names r =
     (let mdl = extract_module_from_match E (nr_match r);
          name = (\<lambda>c. case map_of names c of None \<Rightarrow> c | Some n \<Rightarrow> n)
      in \<lparr>rr_rule = r, rr_module = (case mdl of None \<Rightarrow> ''__custom__'' | Some m \<Rightarrow> str_or (Some m) ''__custom__''),
          rr_label = (case List.find (\<lambda>m. Some (cm_key m) = mdl) NOTIFICATION_CATALOG of
             None \<Rightarrow> ''Custom / advanced'' | Some m \<Rightarrow> cm_label m),
          rr_channel = (case nr_channels r of [] \<Rightarrow> None | c # cs \<Rightarrow> Some (name c)),
          rr_channels = map name (nr_channels r), rr_severities = extract_severities E (nr_match r),
          rr_simple = rule_kind_simple (nr_match r),
          rr_silenced = (case nr_silence_until r of None \<Rightarrow> False | Some t \<Rightarrow> now < t)\<rparr>)"

definition position_or :: "nat \<Rightarrow> 'a list \<Rightarrow> 'a \<Rightarrow> nat" where
  "position_or n xs x = (if x \<in> set xs then length (takeWhile (\<lambda>y. y \<noteq> x) xs) else n)"

text \<open>In catalogue order, within a module by the first severity, strongest first; both sorts are stable.\<close>

definition list_routes :: "pyenv \<Rightarrow> time \<Rightarrow> (string \<times> string) list \<Rightarrow> rule_table \<Rightarrow> route_view list" where
  "list_routes E now names t =
     (let rules = (if db_fails E ''list_notification_rules'' then [] else list_notification_rules t);
          rows = map (route_row E now names)
            (filter (\<lambda>r. \<not> prefix ''profile:'' (nr_id r) \<and> nr_channels r \<noteq> []) rules);
          strength = (\<lambda>row. case rr_severities row of [] \<Rightarrow> 999
            | s # ss \<Rightarrow> position_or 999 (rev severity_order) s)
      in sort_key (\<lambda>row. position_or 999 canonical_module_keys (rr_module row)) (sort_key strength rows))"

section \<open>The table keeps its keys\<close>

definition keyed :: "rule_table \<Rightarrow> bool" where
  "keyed t \<longleftrightarrow> distinct (map fst t) \<and> list_all (\<lambda>(k, r). nr_id r = k) t"

lemma keyedI: "distinct (map fst t) \<Longrightarrow> (\<And>k r. map_of t k = Some r \<Longrightarrow> nr_id r = k) \<Longrightarrow> keyed t"
  by (auto simp: keyed_def list_all_iff)

lemma keyed_row: "keyed t \<Longrightarrow> map_of t k = Some r \<Longrightarrow> nr_id r = k"
  by (auto simp: keyed_def list_all_iff dest: map_of_SomeD)

lemma keyed_update: "keyed t \<Longrightarrow> nr_id r = k \<Longrightarrow> keyed (AList.update k r t)"
  by (rule keyedI) (auto simp: keyed_def distinct_update update_conv' list_all_iff split: if_splits dest: map_of_SomeD)

lemma keyed_delete: "keyed t \<Longrightarrow> keyed (AList.delete k t)"
  by (rule keyedI) (auto simp: keyed_def distinct_delete delete_conv' list_all_iff restrict_map_def
      split: if_splits dest: map_of_SomeD)

lemma keyed_operations:
  assumes "keyed t"
  shows "keyed (upsert_notification_rule rid n e m cs th pr tpl dg t)"
    "keyed (set_notification_rule_enabled rid e t)" "keyed (set_notification_rule_silence rid u t)"
    "keyed (delete_notification_rule rid t)" "snd (upsert_simple_route fr oid md sv ch e tpl t) = t' \<Longrightarrow> keyed t'"
  using assms keyed_row[OF assms]
  by (auto simp: upsert_notification_rule_def set_notification_rule_enabled_def set_notification_rule_silence_def
      change_rule_def delete_notification_rule_def upsert_simple_route_def Let_def
      split: option.splits sum.splits intro!: keyed_update keyed_delete)

text \<open>What the notifier reads: the rule of an identifier is its row.\<close>

lemma set_list_notification_rules: "set (list_notification_rules t) = snd ` set t"
  by (simp add: list_notification_rules_def)

lemma listed_iff:
  assumes "keyed t"
  shows "r \<in> set (list_notification_rules t) \<longleftrightarrow> map_of t (nr_id r) = Some r"
proof -
  have "r \<in> snd ` set t \<longleftrightarrow> (nr_id r, r) \<in> set t"
    using assms by (force simp: keyed_def list_all_iff)
  then show ?thesis using assms by (simp add: set_list_notification_rules keyed_def)
qed

text \<open>A row is silent to the clock \<open>now\<close>.\<close>

definition silenced :: "time \<Rightarrow> nrule \<Rightarrow> bool" where
  "silenced now r \<longleftrightarrow> (case nr_silence_until r of None \<Rightarrow> False | Some t \<Rightarrow> now < t)"

definition silenced_at :: "time \<Rightarrow> string \<Rightarrow> rule_table \<Rightarrow> bool" where
  "silenced_at now rid t \<longleftrightarrow> (case map_of t rid of None \<Rightarrow> False | Some r \<Rightarrow> silenced now r)"

lemma upsert_silence:
  "silenced now (the (map_of (upsert_notification_rule rid n e m cs th pr tpl dg t) rid)) = silenced_at now rid t"
  by (simp add: upsert_notification_rule_def update_conv silenced_at_def silenced_def split: option.splits)

section \<open>What a card lets through\<close>

lemma module_leaf_eval [simp]:
  "eval_leaf E ev (Some ''source.module'') (Some ''equals'') (PyStr m) = Inr (src_module (ev_source ev) = m)"
  by (simp add: eval_leaf_def apply_operator_def op_equals_def)

lemma severity_leaf_eval [simp]:
  "eval_leaf E ev (Some ''severity'') (Some ''in'') (PyList (map PyStr xs)) =
     Inr (\<exists>s. ev_severity ev = Some s \<and> severity_value s \<in> set xs)"
  by (simp add: op_in_strs split: option.splits)

lemma threshold_cases:
  assumes "k \<in> fst ` set THRESHOLDS"
  obtains s where "severity_value s = k" and "s \<noteq> S_informational"
    and "\<And>t. severity_value t \<in> set (severities_for_threshold k) \<longleftrightarrow> s \<le> t"
proof -
  have "\<exists>s. severity_value s = k \<and> s \<noteq> S_informational \<and>
      (\<forall>t. severity_value t \<in> set (severities_for_threshold k) \<longleftrightarrow> s \<le> t)"
  proof -
    have all: "(\<forall>t. P t) \<longleftrightarrow> P S_informational \<and> P S_low \<and> P S_medium \<and> P S_high \<and> P S_critical" for P
      by (metis severity.exhaust)
    consider "k = ''critical''" | "k = ''high''" | "k = ''medium''" | "k = ''low''"
      using assms by (auto simp: THRESHOLDS_def)
    then show ?thesis
      by cases (rule exI[of _ S_critical] exI[of _ S_high] exI[of _ S_medium] exI[of _ S_low];
        simp add: all severities_for_threshold_def THRESHOLDS_def less_eq_severity_def)+
  qed
  then show thesis using that by blast
qed

lemma card_match_eval:
  assumes "severity_value s = k" and "\<And>t. severity_value t \<in> set (severities_for_threshold k) \<longleftrightarrow> s \<le> t"
  shows "eval_condition E ev (build_match m k) =
    Inr (src_module (ev_source ev) = m \<and> (\<exists>t. ev_severity ev = Some t \<and> s \<le> t))"
  using assms(2) by (simp add: build_match_def all_of_def leaf_def)

lemma threshold_roundtrip:
  assumes "k \<in> fst ` set THRESHOLDS"
  shows "threshold_from_match (build_match m k) = Some k"
proof -
  have "list_all (\<lambda>k. threshold_of_set (PyStr ` set (severities_for_threshold k)) = Some k) (map fst THRESHOLDS)"
    by code_simp
  then have t: "threshold_of_set (PyStr ` set (severities_for_threshold k)) = Some k"
    using assms by (fastforce simp: list_all_iff)
  have "severities_for_threshold k \<noteq> []" using assms by (auto simp: severities_for_threshold_def THRESHOLDS_def)
  then have v: "value_set (PyList (map PyStr (severities_for_threshold k))) = Some (PyStr ` set (severities_for_threshold k))"
    by (simp add: value_set_def list_ex_iff)
  show ?thesis
    using t v by (simp add: threshold_from_match_def build_match_def all_of_def leaf_def)
qed

section \<open>Cards, saved and shown\<close>

lemma reloaded_rules:
  "\<not> db_fails E ''list_notification_rules'' \<Longrightarrow>
   nf_rules (st_notifier (reload_notifier E st)) = list_notification_rules (st_rules st) \<and>
   st_rules (reload_notifier E st) = st_rules st"
  by (simp add: reload_notifier_def reload_rules_def)

lemma dict_by_listed:
  assumes "keyed t" and "map_of t k = Some r"
  shows "map_of (dict_by nr_id (list_notification_rules t)) k = Some r"
proof -
  have "nr_id r = k" by (rule keyed_row[OF assms])
  have same: "q = r" if "q \<in> set (list_notification_rules t)" "nr_id q = k" for q
    using that assms listed_iff[OF assms(1)] by auto
  show ?thesis
  proof (cases "map_of (dict_by nr_id (list_notification_rules t)) k")
    case None
    then show ?thesis
      using listed_iff[OF assms(1), of r] assms(2) \<open>nr_id r = k\<close> by (force simp: map_of_dict_by_None)
  next
    case (Some q)
    then show ?thesis using map_of_dict_by[OF Some] same by simp
  qed
qed

text \<open>C30: Saving a card with a channel leaves one rule under the card's identifier in the running notifier. It sends
  to this channel exactly the events of the module that are at least as severe as the threshold - the
  card being enabled and no earlier silence running -, and the card reads back with these settings.
\<close>
theorem card_saved_and_shown:
  fixes U :: "string \<Rightarrow> string" and enabled :: bool
  assumes "keyed (st_rules st)" and "spec \<in> set NOTIFICATION_CATALOG" and "k \<in> fst ` set THRESHOLDS"
    and "channel \<noteq> []" and "\<not> db_fails E ''list_notification_rules''"
  defines "st' \<equiv> snd (save_card E U (cm_key spec) enabled (Some channel) k st)"
    and "rid \<equiv> card_rule_id U (cm_key spec)"
  shows "\<exists>r c. {q \<in> set (nf_rules (st_notifier st')). nr_id q = rid} = {r} \<and> nr_channels r = [channel] \<and>
    (\<forall>E' now ev. rule_active E' now ev r \<longleftrightarrow> enabled \<and> \<not> silenced_at now rid (st_rules st) \<and>
       src_module (ev_source ev) = cm_key spec \<and>
       (\<exists>s t. severity_value s = k \<and> ev_severity ev = Some t \<and> s \<le> t)) \<and>
    card_of U (nf_rules (st_notifier st')) spec = Some c \<and> cd_enabled c = enabled \<and>
    cd_channel c = Some channel \<and> cd_threshold c = k"
proof -
  define t where "t = upsert_notification_rule rid (card_rule_name (cm_key spec)) enabled
    (build_match (cm_key spec) k) [channel] 0 50 None 0 (st_rules st)"
  have st': "st' = reload_notifier E (st\<lparr>st_rules := t\<rparr>)"
    using assms(2-4) by (simp add: st'_def save_card_def canonical_module_keys_def Let_def t_def rid_def)
  have rules: "nf_rules (st_notifier st') = list_notification_rules t"
    using reloaded_rules[OF assms(5), of "st\<lparr>st_rules := t\<rparr>"] st' by simp
  have t: "keyed t" unfolding t_def by (rule keyed_operations(1)[OF assms(1)])
  define r where "r = the (map_of t rid)"
  have row: "map_of t rid = Some r" by (simp add: r_def t_def upsert_notification_rule_def update_conv)
  have r: "nr_enabled r = enabled" "nr_match r = build_match (cm_key spec) k" "nr_channels r = [channel]"
    by (simp_all add: r_def t_def upsert_notification_rule_def update_conv)
  have one: "{q \<in> set (list_notification_rules t). nr_id q = rid} = {r}"
    using listed_iff[OF t] row keyed_row[OF t row] by auto
  obtain s where s: "severity_value s = k" "\<And>t. severity_value t \<in> set (severities_for_threshold k) \<longleftrightarrow> s \<le> t"
    using threshold_cases[OF assms(3)] by blast
  have active: "rule_active E' now ev r \<longleftrightarrow> enabled \<and> \<not> silenced_at now rid (st_rules st) \<and>
      src_module (ev_source ev) = cm_key spec \<and>
      (\<exists>s t. severity_value s = k \<and> ev_severity ev = Some t \<and> s \<le> t)" for E' now ev
  proof -
    have "(case nr_silence_until r of None \<Rightarrow> True | Some t \<Rightarrow> \<not> t > now) \<longleftrightarrow> \<not> silenced_at now rid (st_rules st)"
      using upsert_silence[of now rid "card_rule_name (cm_key spec)" enabled "build_match (cm_key spec) k" "[channel]" 0 50
          None 0 "st_rules st"]
      by (simp add: silenced_def r_def t_def split: option.splits)
    moreover have "(\<exists>s t. severity_value s = k \<and> ev_severity ev = Some t \<and> s \<le> t) \<longleftrightarrow>
        (\<exists>t. ev_severity ev = Some t \<and> s \<le> t)"
      unfolding s(1)[symmetric] severity_value_inj by simp
    ultimately show ?thesis unfolding rule_active_def r card_match_eval[OF s] sum.inject by blast
  qed
  have "\<exists>c. card_of U (list_notification_rules t) spec = Some c \<and> cd_enabled c = enabled \<and>
      cd_channel c = Some channel \<and> cd_threshold c = k"
    using dict_by_listed[OF t row, unfolded rid_def] threshold_roundtrip[OF assms(3), of "cm_key spec"]
    by (simp add: card_of_def Let_def r)
  then obtain c where c: "card_of U (list_notification_rules t) spec = Some c" "cd_enabled c = enabled"
      "cd_channel c = Some channel" "cd_threshold c = k" by blast
  show ?thesis unfolding rules using one r(3) active c by (intro exI[of _ r] exI[of _ c]) blast
qed

text \<open>CloudTrail events carry the module of the connector that read them; the card of the catalogue module
  \<open>aws.iam\<close> asks for \<open>aws.iam\<close> and lets none of them through.\<close>

lemma iam_card_misses_cloudtrail:
  "src_module (ev_source ev) = ''aws.cloudtrail'' \<Longrightarrow> k \<in> fst ` set THRESHOLDS \<Longrightarrow>
   eval_condition E ev (build_match ''aws.iam'' k) = Inr False"
  by (rule threshold_cases, assumption) (simp add: card_match_eval)

section \<open>Simple routes, saved and read\<close>

text \<open>A simple route reads back as saved: its module - CloudTrail under the name of the catalogue -, its valid
  severities in their order, and the mini-form can edit it.
\<close>
theorem simple_route_roundtrip:
  assumes "build_simple_match mdl sevs = Inr match" and "mdl \<noteq> []"
  shows "extract_module_from_match E match = Some (if mdl = ''aws.cloudtrail'' then ''aws.iam'' else mdl) \<and>
    extract_severities E match = filter (\<lambda>s. s \<in> set severity_order) sevs \<and> rule_kind_simple match"
  using assms
  by (auto simp: build_simple_match_def Let_def all_of_def leaf_def module_of_leaf_def first_some_def
      severities_of_leaf_def rule_kind_simple_def simple_clause_def comp_def split: if_splits)

section \<open>Witnesses\<close>

definition demo_studio :: studio where
  "demo_studio = \<lparr>st_rules = [], st_notifier = demo_notifier\<rparr>"

lemma card_saved_and_shown_witness:
  "\<exists>r. {q \<in> set (nf_rules (st_notifier (snd (save_card demo_env (\<lambda>s. s) ''cert'' True (Some ''ops'') ''high'' demo_studio)))).
     nr_id q = ''auto:cert''} = {r} \<and> nr_channels r = [''ops'']"
proof -
  let ?spec = "cat_module ''cert'' ''TLS Certificates'' ''Certificate expiration and probe failures.'' cert_events"
  have h: "keyed (st_rules demo_studio)" "?spec \<in> set NOTIFICATION_CATALOG" "''high'' \<in> fst ` set THRESHOLDS"
    "''ops'' \<noteq> []" "\<not> db_fails demo_env ''list_notification_rules''"
    by (simp_all add: keyed_def demo_studio_def NOTIFICATION_CATALOG_def THRESHOLDS_def demo_env_def)
  show ?thesis
    using card_saved_and_shown[OF h, of "\<lambda>s. s" True]
    by (simp add: card_rule_id_def cat_module_def) blast
qed

lemma simple_route_roundtrip_witness:
  "extract_module_from_match demo_env (all_of [leaf ''source.module'' ''equals'' (PyStr ''aws.rds''),
     leaf ''severity'' ''in'' (PyList (map PyStr [''high'']))]) = Some ''aws.rds''"
proof -
  have "build_simple_match ''aws.rds'' [''high'', ''urgent''] = Inr (all_of [leaf ''source.module'' ''equals'' (PyStr ''aws.rds''),
      leaf ''severity'' ''in'' (PyList (map PyStr [''high'']))])"
    by (simp add: build_simple_match_def severity_order_def)
  from simple_route_roundtrip[OF this, of demo_env] show ?thesis by simp
qed

end
