(* ===== verification/Profiles.thy ===== *)
theory Profiles
  imports NotifyRules Pipeline
begin

text \<open>
  Notification profiles (\<open>src/blackwatch/notify/profiles.py\<close>, \<open>notify/profile_service.py\<close>): one module and one
  kind of event in plain language, compiled to a rule of the notification table and a message template.
  The default texts of a kind, which the catalogue carries, are the argument \<open>T\<close> (module, key). Saving and
  deleting act on the tables and reload the notifier. \<open>profile_silence_ignored\<close> and
  \<open>projection_profile_never_fires\<close> state two ways in which a profile does not do what it shows.
\<close>

section \<open>Fields and tokens\<close>

definition PROFILE_CONTENT_FIELDS :: "string list" where
  "PROFILE_CONTENT_FIELDS = [''title'', ''what_happened'', ''facts'', ''decision'', ''next_steps'', ''why_it_matters'',
     ''evidence'', ''monitoring_method'', ''impact'', ''recovery'', ''runbook_url'']"

definition profile_severities :: "string list" where
  "profile_severities = [''informational'', ''low'', ''medium'', ''high'', ''critical'']"

text \<open>A backquote stands for a single quote in the replacements below, which hold none.\<close>

definition token :: "string \<Rightarrow> string \<Rightarrow> string \<times> string" where
  "token k v = (k, map (\<lambda>c. if c = CHR ''`'' then CHR 0x27 else c) v)"

definition TOKEN_MAP :: "(string \<times> string) list" where
  "TOKEN_MAP = dmerge []
    [token ''{module}'' ''{{ event.source.module }}'',
     token ''{alert_type}'' ''{{ event.action }}'',
     token ''{target_name}'' ''{{ event.target.name or event.target.id or `unknown target` }}'',
     token ''{{target_name}}'' ''{{ event.target.name or event.target.id or `unknown target` }}'',
     token ''{severity}'' ''{{ event.severity or `unscored` }}'',
     token ''{principal}'' ''{{ event.actor.principal or `unknown principal` }}'',
     token ''{source_ip}'' ''{{ event.actor.source_ip or `unknown source` }}'',
     token ''{event_time}'' ''{{ event.event_time }}'',
     token ''{evidence}'' ''{{ event.extra.evidence or event.extra.error or event.extra.observation or event.extra.message or `no additional evidence` }}'',
     token ''{monitoring_method}'' ''{{ event.extra.monitoring_method or `configured monitor` }}'',
     token ''{impact}'' ''{{ event.extra.impact or `impact not specified` }}'',
     token ''{recovery_event}'' ''{{ event.extra.recovery_event or `the matching recovery event` }}'',
     token ''{service_name}'' ''{{ event.extra.service_name or event.target.name or event.target.id or `unknown service` }}'',
     token ''{vpc}'' ''{{ event.extra.vpc or `unknown environment` }}'',
     token ''{monitor_tier}'' ''{{ event.extra.monitor_tier or `service` }}'',
     token ''{error_signal}'' ''{{ event.extra.error_signal or event.extra.error or event.extra.observation or `no error signal` }}'',
     token ''{latency_ms}'' ''{{ event.extra.latency_ms if event.extra.latency_ms is not none else `unknown` }}'',
     token ''{consecutive_failures}'' ''{{ event.extra.consecutive_failures if event.extra.consecutive_failures is not none else `unknown` }}'',
     token ''{consecutive_successes}'' ''{{ event.extra.consecutive_successes if event.extra.consecutive_successes is not none else `unknown` }}'',
     token ''{downtime}'' ''{{ event.extra.downtime_seconds if event.extra.downtime_seconds is not none else `unknown` }} seconds'',
     token ''{unknown_duration}'' ''{{ event.extra.unknown_seconds if event.extra.unknown_seconds is not none else `unknown` }} seconds'',
     token ''{age_seconds}'' ''{{ event.extra.age_seconds if event.extra.age_seconds is not none else `not reported` }} seconds'',
     token ''{last_report}'' ''{{ event.extra.last_report or `unknown` }}'',
     token ''{agent_version}'' ''{{ event.extra.agent_version or `unknown` }}'',
     token ''{monitoring_impact}'' ''{{ event.extra.monitoring_impact or event.extra.impact or `monitoring impact not specified` }}'',
     token ''{server}'' ''{{ event.extra.server or event.target.name or event.target.id or `unknown server` }}'',
     token ''{previous_state}'' ''{{ event.extra.prev_active if event.extra.prev_active is not none else `not reported` }}'',
     token ''{current_state}'' ''{{ event.extra.active if event.extra.active is not none else `not reported` }}'',
     token ''{common_name}'' ''{{ event.extra.common_name or `not reported` }}'',
     token ''{identity}'' ''{{ event.extra.identity or event.actor.principal or `not reported` }}'',
     token ''{source_ips}'' ''{{ event.extra.source_ips | join(`, `) if event.extra.source_ips else `not reported` }}'',
     token ''{count_in_window}'' ''{{ event.extra.count_in_window or event.extra.failure_count or `not reported` }}'',
     token ''{threshold}'' ''{{ event.extra.threshold or `not reported` }}'',
     token ''{window_seconds}'' ''{{ event.extra.window_seconds or `not reported` }}'',
     token ''{window_minutes}'' ''{{ event.extra.window_minutes or `not reported` }}'',
     token ''{certificate_subject}'' ''{{ event.extra.subject or `not reported` }}'',
     token ''{issuer}'' ''{{ event.extra.issuer or `not reported` }}'',
     token ''{sans}'' ''{{ event.extra.sans | join(`, `) if event.extra.sans else `not reported` }}'',
     token ''{days_remaining}'' ''{{ event.extra.days_remaining if event.extra.days_remaining is not none else `not reported` }}'',
     token ''{not_after}'' ''{{ event.extra.not_after or `not reported` }}'',
     token ''{certificate_path}'' ''{{ event.extra.path or `not reported` }}'',
     token ''{certificate_error}'' ''{{ event.extra.error or `not reported` }}'',
     token ''{secret_name}'' ''{{ event.extra.secret_name or event.target.name or event.target.id }}'',
     token ''{secret_arn}'' ''{{ event.extra.secret_arn or `` }}'',
     token ''{description}'' ''{{ event.extra.description or `` }}'',
     token ''{kms_key_id}'' ''{{ event.extra.kms_key_id or `` }}'',
     token ''{version_id}'' ''{{ event.extra.version_id or `` }}'',
     token ''{version_stages}'' ''{{ event.extra.version_stages | join(`, `) if event.extra.version_stages else `` }}'',
     token ''{rotation_enabled}'' ''{{ event.extra.rotation_enabled if event.extra.rotation_enabled is not none else `` }}'',
     token ''{rotation_days}'' ''{{ event.extra.rotation_days if event.extra.rotation_days is not none else `` }}'',
     token ''{recovery_window_days}'' ''{{ event.extra.recovery_window_days if event.extra.recovery_window_days is not none else `` }}'',
     token ''{force_delete}'' ''{{ event.extra.force_delete if event.extra.force_delete is not none else `` }}'',
     token ''{secret_name}'' ''{{ event.extra.secret_name or event.target.name or event.target.id }}'',
     token ''{secret_arn}'' ''{{ event.extra.secret_arn or `` }}'',
     token ''{description}'' ''{{ event.extra.description or `` }}'',
     token ''{kms_key_id}'' ''{{ event.extra.kms_key_id or `` }}'',
     token ''{version_id}'' ''{{ event.extra.version_id or `` }}'',
     token ''{version_stages}'' ''{{ event.extra.version_stages | join(`, `) if event.extra.version_stages else `` }}'',
     token ''{rotation_enabled}'' ''{{ event.extra.rotation_enabled if event.extra.rotation_enabled is not none else `` }}'',
     token ''{rotation_days}'' ''{{ event.extra.rotation_days if event.extra.rotation_days is not none else `` }}'',
     token ''{recovery_window_days}'' ''{{ event.extra.recovery_window_days if event.extra.recovery_window_days is not none else `` }}'',
     token ''{force_delete}'' ''{{ event.extra.force_delete if event.extra.force_delete is not none else `` }}'',
     token ''{instance_id}'' ''{{ event.extra.instance_id or `not reported` }}'',
     token ''{image_id}'' ''{{ event.extra.image_id or `` }}'',
     token ''{http_tokens}'' ''{{ event.extra.http_tokens or `` }}'',
     token ''{http_endpoint}'' ''{{ event.extra.http_endpoint or `` }}'',
     token ''{http_put_response_hop_limit}'' ''{{ event.extra.http_put_response_hop_limit if event.extra.http_put_response_hop_limit is not none else `` }}'',
     token ''{http_protocol_ipv4}'' ''{{ event.extra.http_protocol_ipv4 or `` }}'',
     token ''{http_protocol_ipv6}'' ''{{ event.extra.http_protocol_ipv6 or `` }}'',
     token ''{instance_metadata_tags}'' ''{{ event.extra.instance_metadata_tags or `` }}'',
     token ''{imdsv1_enabled}'' ''{{ event.extra.imdsv1_enabled if event.extra.imdsv1_enabled is not none else `` }}'',
     token ''{ami_public}'' ''{{ event.extra.ami_public if event.extra.ami_public is not none else `` }}'',
     token ''{ami_shared_accounts}'' ''{{ event.extra.ami_shared_accounts | join(`, `) if event.extra.ami_shared_accounts else `` }}'',
     token ''{ami_removed_accounts}'' ''{{ event.extra.ami_removed_accounts | join(`, `) if event.extra.ami_removed_accounts else `` }}'',
     token ''{ami_made_public}'' ''{{ event.extra.ami_made_public if event.extra.ami_made_public is not none else `` }}'',
     token ''{ami_cross_account_share}'' ''{{ event.extra.ami_cross_account_share | join(`, `) if event.extra.ami_cross_account_share else `` }}'',
     token ''{instance_type}'' ''{{ event.extra.instance_type or `` }}'',
     token ''{source_dest_check}'' ''{{ event.extra.source_dest_check if event.extra.source_dest_check is not none else `` }}'',
     token ''{last_report}'' ''{{ event.extra.last_report or `not reported` }}'',
     token ''{agent_version}'' ''{{ event.extra.agent_version or `not reported` }}'',
     token ''{collector}'' ''{{ event.extra.collector or `not reported` }}'',
     token ''{user}'' ''{{ event.extra.user or event.actor.principal or `not reported` }}'',
     token ''{path}'' ''{{ event.extra.path or `not reported` }}'',
     token ''{change_type}'' ''{{ event.extra.change_type or `not reported` }}'',
     token ''{hash}'' ''{{ event.extra.hash or `not reported` }}'',
     token ''{owner}'' ''{{ event.extra.owner or `not reported` }}'',
     token ''{value}'' ''{{ event.extra.value if event.extra.value is not none else `not reported` }}'',
     token ''{baseline}'' ''{{ event.extra.baseline if event.extra.baseline is not none else `not reported` }}'',
     token ''{duration_seconds}'' ''{{ event.extra.duration_seconds if event.extra.duration_seconds is not none else `not reported` }}'',
     token ''{mount}'' ''{{ event.extra.mount or `not reported` }}'',
     token ''{process}'' ''{{ event.extra.process or `not reported` }}'',
     token ''{pid}'' ''{{ event.extra.pid or `not reported` }}'',
     token ''{kernel_module}'' ''{{ event.extra.module or `not reported` }}'',
     token ''{package}'' ''{{ event.extra.package or `not reported` }}'',
     token ''{error}'' ''{{ event.extra.error or `not reported` }}'',
     token ''{port}'' ''{{ event.extra.port or `not reported` }}'',
     token ''{service_name}'' ''{{ event.extra.service_name or event.extra.service or `not reported` }}'',
     token ''{state}'' ''{{ event.extra.state or `not reported` }}'',
     token ''{db_instance}'' ''{{ event.extra.db_instance or event.target.name or event.target.id or `not reported` }}'',
     token ''{database}'' ''{{ event.extra.database or event.extra.db_name or `not reported` }}'',
     token ''{session_id}'' ''{{ event.extra.session_id or `not reported` }}'',
     token ''{idle_hours}'' ''{{ event.extra.idle_hours if event.extra.idle_hours is not none else `not reported` }}'',
     token ''{reason}'' ''{{ event.extra.reason or `not reported` }}'',
     token ''{source_port}'' ''{{ event.extra.source_port or `not reported` }}'',
     token ''{change}'' ''{{ event.extra.change or event.extra.message or `not reported` }}'',
     token ''{query}'' ''{{ event.extra.query or `not captured` }}'',
     token ''{function}'' ''{{ event.extra.function or `not reported` }}'',
     token ''{role}'' ''{{ event.extra.role or `not reported` }}'',
     token ''{object}'' ''{{ event.extra.object or `not reported` }}'',
     token ''{trigger}'' ''{{ event.extra.trigger or `not reported` }}'',
     token ''{account}'' ''{{ event.source.account or event.extra.account or `not reported` }}'',
     token ''{region}'' ''{{ event.source.region or event.extra.region or `not reported` }}'',
     token ''{event_name}'' ''{{ event.extra.event_name or event.action }}'',
     token ''{error_code}'' ''{{ event.extra.error_code or `not reported` }}'',
     token ''{mfa_used}'' ''{{ event.extra.mfa_used or `not reported` }}'',
     token ''{user_agent}'' ''{{ event.actor.user_agent or event.extra.user_agent or `not reported` }}'',
     token ''{operation}'' ''{{ event.extra.operation or `not reported` }}'',
     token ''{http_status}'' ''{{ event.extra.http_status or `not reported` }}'',
     token ''{bytes_sent}'' ''{{ event.extra.bytes_sent if event.extra.bytes_sent is not none else `not reported` }}'',
     token ''{auth_type}'' ''{{ event.extra.auth_type or `not reported` }}'',
     token ''{public}'' ''{{ event.extra.public if event.extra.public is not none else `not reported` }}'',
     token ''{public_reasons}'' ''{{ event.extra.public_reasons | join(`, `) if event.extra.public_reasons else `not reported` }}'',
     token ''{encryption}'' ''{{ event.extra.encryption or `not reported` }}'',
     token ''{versioning}'' ''{{ event.extra.versioning or `not reported` }}'',
     token ''{api_name}'' ''{{ event.extra.api_name }}'',
     token ''{method}'' ''{{ event.extra.method }}'',
     token ''{route_key}'' ''{{ event.extra.route_key }}'',
     token ''{status}'' ''{{ event.extra.status if event.extra.status is not none else `` }}'',
     token ''{integration_status}'' ''{{ event.extra.integration_status if event.extra.integration_status is not none else `` }}'',
     token ''{response_length}'' ''{{ event.extra.response_length if event.extra.response_length is not none else `` }}'',
     token ''{response_latency_ms}'' ''{{ event.extra.response_latency_ms if event.extra.response_latency_ms is not none else `` }}'',
     token ''{request_id}'' ''{{ event.extra.request_id }}'',
     token ''{scanner_signature}'' ''{{ event.extra.scanner_signature }}'',
     token ''{error_message}'' ''{{ event.extra.error_message }}'',
     token ''{dimension}'' ''{{ event.extra.dimension }}'',
     token ''{baseline_value}'' ''{{ event.extra.baseline_value }}'',
     token ''{principal_type}'' ''{{ event.extra.principal_type }}'',
     token ''{source_country}'' ''{{ event.extra.source_country }}'',
     token ''{source_asn}'' ''{{ event.extra.source_asn }}'',
     token ''{user_agent_family}'' ''{{ event.extra.user_agent_family }}'',
     token ''{hour_of_day}'' ''{{ event.extra.hour_of_day }}'',
     token ''{trigger_action}'' ''{{ event.extra.trigger_action }}'',
     token ''{trigger_event_id}'' ''{{ event.extra.trigger_event_id }}'',
     token ''{signature}'' ''{{ event.extra.signature }}'',
     token ''{detection}'' ''{{ event.extra.detection }}'',
     token ''{resource}'' ''{{ event.extra.resource or event.target.id or event.target.name }}'',
     token ''{object_path}'' ''{{ event.extra.object_path }}'',
     token ''{file_hash}'' ''{{ event.extra.file_hash }}'',
     token ''{scan_time}'' ''{{ event.extra.scan_time }}'',
     token ''{engine}'' ''{{ event.extra.engine }}'',
     token ''{confidence}'' ''{{ event.extra.confidence }}'',
     token ''{containment_state}'' ''{{ event.extra.containment_state }}'',
     token ''{owner}'' ''{{ event.extra.owner }}'',
     token ''{vendor}'' ''{{ event.source.vendor }}'',
     token ''{finding_type}'' ''{{ event.extra.finding_type }}'',
     token ''{finding_id}'' ''{{ event.extra.finding_id }}'',
     token ''{recovery_point_arn}'' ''{{ event.extra.recovery_point_arn }}'',
     token ''{resource_arn}'' ''{{ event.extra.resource_arn }}'',
     token ''{vault_name}'' ''{{ event.extra.vault_name }}'',
     token ''{vault_arn}'' ''{{ event.extra.vault_arn }}'',
     token ''{source_vault_arn}'' ''{{ event.extra.source_vault_arn }}'',
     token ''{destination_vault_arn}'' ''{{ event.extra.destination_vault_arn }}'',
     token ''{destination_account}'' ''{{ event.extra.destination_account }}'',
     token ''{destination_region}'' ''{{ event.extra.destination_region }}'',
     token ''{plan_name}'' ''{{ event.extra.plan_name }}'',
     token ''{recovery_point_time}'' ''{{ event.extra.recovery_point_time }}'',
     token ''{retention_days}'' ''{{ event.extra.retention_days if event.extra.retention_days is not none else `` }}'',
     token ''{policy_summary}'' ''{{ event.extra.policy_summary }}'',
     token ''{backup_vault_policy_wildcard}'' ''{{ event.extra.backup_vault_policy_wildcard }}'',
     token ''{backup_copy_dest_account}'' ''{{ event.extra.backup_copy_dest_account }}'',
     token ''{snapshot_id}'' ''{{ event.extra.snapshot_id or event.target.id }}'',
     token ''{volume_id}'' ''{{ event.extra.volume_id }}'',
     token ''{snapshot_share_scope}'' ''{{ event.extra.snapshot_share_scope }}'',
     token ''{snapshot_shared_accounts}'' ''{{ event.extra.snapshot_shared_accounts | join(`, `) if event.extra.snapshot_shared_accounts else `` }}'',
     token ''{snapshot_public}'' ''{{ event.extra.snapshot_public if event.extra.snapshot_public is not none else `` }}'',
     token ''{snapshot_removed_accounts}'' ''{{ event.extra.snapshot_removed_accounts | join(`, `) if event.extra.snapshot_removed_accounts else `` }}'',
     token ''{snapshot_removed_public}'' ''{{ `yes` if event.extra.snapshot_removed_public else `` }}'',
     token ''{snapshot_share_scope_before}'' ''{{ event.extra.snapshot_share_scope_before }}'',
     token ''{snapshot_share_scope_current}'' ''{{ event.extra.snapshot_share_scope_current }}'',
     token ''{snapshot_shared_accounts_before}'' ''{{ event.extra.snapshot_shared_accounts_before | join(`, `) if event.extra.snapshot_shared_accounts_before else `` }}'',
     token ''{snapshot_shared_accounts_current}'' ''{{ event.extra.snapshot_shared_accounts_current | join(`, `) if event.extra.snapshot_shared_accounts_current else `` }}'',
     token ''{encrypted}'' ''{{ event.extra.encrypted if event.extra.encrypted is not none else `` }}'',
     token ''{kms_key_id}'' ''{{ event.extra.kms_key_id }}'',
     token ''{vpc_id}'' ''{{ event.extra.vpc_id }}'',
     token ''{subnet_id}'' ''{{ event.extra.subnet_id }}'',
     token ''{gateway_id}'' ''{{ event.extra.gateway_id }}'',
     token ''{peering_id}'' ''{{ event.extra.peering_id }}'',
     token ''{source_vpc_id}'' ''{{ event.extra.source_vpc_id }}'',
     token ''{destination_vpc_id}'' ''{{ event.extra.destination_vpc_id }}'',
     token ''{source_account}'' ''{{ event.extra.source_account }}'',
     token ''{destination_account}'' ''{{ event.extra.destination_account }}'',
     token ''{source_region}'' ''{{ event.extra.source_region }}'',
     token ''{destination_region}'' ''{{ event.extra.destination_region }}'',
     token ''{security_group_id}'' ''{{ event.extra.security_group_id }}'',
     token ''{protocol}'' ''{{ event.extra.protocol }}'',
     token ''{from_port}'' ''{{ event.extra.from_port }}'',
     token ''{to_port}'' ''{{ event.extra.to_port }}'',
     token ''{cidrs}'' ''{{ event.extra.cidrs | join(`, `) if event.extra.cidrs else `` }}'',
     token ''{public_exposure}'' ''{{ event.extra.public_exposure }}'',
     token ''{risky_exposure}'' ''{{ event.extra.risky_exposure }}'',
     token ''{efs_filesystem_id}'' ''{{ event.extra.efs_filesystem_id }}'',
     token ''{efs_filesystem_name}'' ''{{ event.extra.efs_filesystem_name }}'',
     token ''{efs_mount_target_id}'' ''{{ event.extra.efs_mount_target_id }}'',
     token ''{efs_subnet_id}'' ''{{ event.extra.efs_subnet_id }}'',
     token ''{efs_availability_zone}'' ''{{ event.extra.efs_availability_zone }}'',
     token ''{efs_ip_address}'' ''{{ event.extra.efs_ip_address }}'',
     token ''{efs_security_groups}'' ''{{ event.extra.efs_security_groups | join(`, `) if event.extra.efs_security_groups else `` }}'',
     token ''{efs_policy_summary}'' ''{{ event.extra.efs_policy_summary }}'',
     token ''{efs_policy_wildcard}'' ''{{ event.extra.efs_policy_wildcard }}'']"

text \<open>\<open>s.replace(old, new)\<close> for a text \<open>old\<close> that is not empty; the argument \<open>n\<close> bounds the replacements
  (\<open>None\<close>: all).\<close>

function str_replace :: "nat option \<Rightarrow> string \<Rightarrow> string \<Rightarrow> string \<Rightarrow> string" where
  "str_replace n old new s =
     (if n = Some 0 \<or> old = [] then s
      else case s of [] \<Rightarrow> []
      | c # cs \<Rightarrow> if prefix old s
          then new @ str_replace (map_option (\<lambda>k. k - 1) n) old new (drop (length old) s)
          else c # str_replace n old new cs)"
  by pat_completeness auto
termination
  by (relation "measure (\<lambda>(n, old, new, s). length s)") auto

section \<open>Matching\<close>

definition event_spec :: "string \<Rightarrow> string \<Rightarrow> catalog_event option" where
  "event_spec mdl kind =
     (case List.find (\<lambda>m. cm_key m = mdl) NOTIFICATION_CATALOG of None \<Rightarrow> None
      | Some m \<Rightarrow> List.find (owns_kind m kind) (cm_events m))"

definition build_profile_match :: "string \<Rightarrow> string \<Rightarrow> string list \<Rightarrow> condition" where
  "build_profile_match mdl kind sevs =
     (let action_clause =
          (if mdl = ''ueba'' \<and> kind \<in> {''ueba.anomaly'', ''<category>.anomaly.first_seen_*''}
           then leaf ''action'' ''icontains'' (PyStr ''.anomaly.first_seen_'')
           else if mdl = ''findings'' \<and> kind \<in> {''<finding>.detected'', ''finding.detected''}
           then leaf ''action'' ''regex'' (PyStr (''^finding(?:'' @ [CHR 0x5C] @ ''..+)?'' @ [CHR 0x5C] @ ''.detected$''))
           else leaf ''action'' ''equals'' (PyStr kind));
          valid = filter (\<lambda>s. s \<in> set profile_severities) sevs
      in all_of (action_clause #
           (if valid \<noteq> [] then [leaf ''severity'' ''in'' (PyList (map PyStr valid))] else [])))"

definition content_labels :: "(string \<times> string) list" where
  "content_labels =
     [(''what_happened'', ''What happened''), (''facts'', ''Facts''), (''decision'', ''Decision''),
      (''next_steps'', ''Next steps''), (''why_it_matters'', ''Why it matters''), (''evidence'', ''Evidence''),
      (''monitoring_method'', ''Monitoring''), (''impact'', ''Impact''), (''recovery'', ''Recovery''),
      (''runbook_url'', ''Runbook'')]"

text \<open>\<open>sorted(_TOKEN_MAP, key=len, reverse=True)\<close> keeps the order of equally long tokens.\<close>

definition expand_tokens :: "string \<Rightarrow> string" where
  "expand_tokens v = fold (\<lambda>(k, r) s. str_replace None k r s) (sort_key (\<lambda>(k, r). - int (length k)) TOKEN_MAP) v"

definition content_line :: "pyenv \<Rightarrow> dict \<Rightarrow> string \<Rightarrow> string option" where
  "content_line E content key =
     (let raw = str_strip (py_str E (py_or (dget content key) (PyStr []))) in
      if raw = [] then None
      else
        let v = expand_tokens raw in
        Some (if key = ''title'' then v
          else if key = ''evidence'' \<and> prefix ''{% if '' v then str_replace (Some 1) ''%}'' ''%}Evidence: '' v
          else the (map_of content_labels key) @ '': '' @ v))"

definition compile_message_template :: "pyenv \<Rightarrow> dict \<Rightarrow> string" where
  "compile_message_template E content = join newline (List.map_filter (content_line E content) PROFILE_CONTENT_FIELDS)"

definition profile_id :: "string \<Rightarrow> string \<Rightarrow> string" where
  "profile_id mdl kind = ''profile:'' @ mdl @ '':'' @ kind"

section \<open>Normalisation\<close>

record profile =
  pf_id :: string
  pf_module :: string
  pf_kind :: string
  pf_label :: string
  pf_description :: string
  pf_enabled :: bool
  pf_severities :: "string list"
  pf_channels :: "string list"
  pf_throttle :: int
  pf_digest_window :: int
  pf_silence_until :: pyval
  pf_content :: dict
  pf_advanced :: "string option"
  pf_template :: string

text \<open>What iterating over a value yields; \<open>None\<close> where Python raises \<open>TypeError\<close>. Texts of exceptions are
  left out.\<close>

definition iterated :: "pyval \<Rightarrow> pyval list option" where
  "iterated v = (case v of PyList vs \<Rightarrow> Some vs | PyStr s \<Rightarrow> Some (map (\<lambda>c. PyStr [c]) s)
     | PyDict d \<Rightarrow> Some (map (PyStr \<circ> fst) d) | _ \<Rightarrow> None)"

definition str_list :: "string list \<Rightarrow> pyval" where
  "str_list xs = PyList (map PyStr xs)"

definition profile_content :: "dict \<Rightarrow> dict \<Rightarrow> dict" where
  "profile_content defaults payload =
     (let source = (case dget payload ''content'' of PyDict d \<Rightarrow> d | _ \<Rightarrow> payload)
      in dmerge defaults (map (\<lambda>k. (k, dget source k)) (filter (has_key source) PROFILE_CONTENT_FIELDS)))"

definition strip_str :: "pyenv \<Rightarrow> pyval \<Rightarrow> string" where
  "strip_str E v = str_strip (py_str E (py_or v (PyStr [])))"

definition seconds_of :: "pyval \<Rightarrow> int option" where
  "seconds_of v = map_option (max 0) (py_int (py_or v (PyInt 0)))"

definition normalize_profile ::
  "pyenv \<Rightarrow> (string \<Rightarrow> string \<Rightarrow> dict) \<Rightarrow> dict \<Rightarrow> pyerr + profile" where
  "normalize_profile E T payload =
     (let mdl = strip_str E (dget payload ''module''); kind = strip_str E (dget payload ''event_kind'') in
      case event_spec mdl kind of
        None \<Rightarrow> Inl (ValueError (''unsupported notification profile: '' @ mdl @ ''/'' @ kind))
      | Some spec \<Rightarrow>
          if ce_status spec \<noteq> ''notifying''
          then Inl (ValueError (''event is not a notifying profile: '' @ mdl @ ''/'' @ kind))
          else
            let content = profile_content (T mdl (ce_key spec)) payload;
                wanted = py_or (dget payload ''severities'') (str_list [ce_severity spec]);
                chans = py_or (dget payload ''channels'') (PyList []);
                advanced = (let a = strip_str E (dget payload ''advanced_template'') in if a = [] then None else Some a)
            in case (iterated wanted, iterated chans, seconds_of (dget payload ''throttle_seconds''),
                     seconds_of (dget payload ''digest_window_seconds'')) of
                 (Some ws, Some cs, Some throttle, Some digest) \<Rightarrow>
                   let sevs = filter (\<lambda>s. s \<in> set profile_severities) (map (py_str E) ws) in
                   Inr \<lparr>pf_id = py_str E (py_or (dget payload ''id'') (PyStr (profile_id mdl kind))),
                     pf_module = mdl, pf_kind = kind,
                     pf_label = py_str E (py_or (dget payload ''label'') (PyStr (ce_label spec))),
                     pf_description = py_str E (py_or (dget payload ''description'') (PyStr (ce_description spec))),
                     pf_enabled = truthy (dget payload ''enabled''),
                     pf_severities = (if sevs = [] then [ce_severity spec] else sevs),
                     pf_channels = filter (\<lambda>c. c \<noteq> []) (map (\<lambda>v. str_strip (py_str E v)) cs),
                     pf_throttle = throttle, pf_digest_window = digest,
                     pf_silence_until = dget payload ''silence_until'', pf_content = content, pf_advanced = advanced,
                     pf_template = (case advanced of Some a \<Rightarrow> a | None \<Rightarrow> compile_message_template E content)\<rparr>
               | _ \<Rightarrow> Inl (TypeError []))"

section \<open>Tables and service\<close>

record profile_row =
  pw_module :: string
  pw_kind :: string
  pw_label :: string
  pw_description :: string
  pw_enabled :: bool
  pw_severities :: "string list"
  pw_channels :: "string list"
  pw_throttle :: int
  pw_digest_window :: int
  pw_silence_until :: "time option"
  pw_content :: dict
  pw_advanced :: "string option"

record workbench =
  wb_profiles :: "(string \<times> profile_row) list"
  wb_audit :: "(string \<times> string \<times> string) list"
  wb_studio :: studio

text \<open>The pair of module and kind is unique; a second row for it is refused (\<open>None\<close>).\<close>

definition upsert_notification_profile ::
  "string \<Rightarrow> profile_row \<Rightarrow> (string \<times> profile_row) list \<Rightarrow> (string \<times> profile_row) list option" where
  "upsert_notification_profile pid row t =
     (if list_ex (\<lambda>(k, r). k \<noteq> pid \<and> pw_module r = pw_module row \<and> pw_kind r = pw_kind row) t then None
      else Some (AList.update pid row t))"

definition delete_notification_profile :: "string \<Rightarrow> (string \<times> profile_row) list \<Rightarrow> (string \<times> profile_row) list" where
  "delete_notification_profile pid t = AList.delete pid t"

definition record_audit :: "string \<Rightarrow> string \<Rightarrow> string \<Rightarrow> workbench \<Rightarrow> workbench" where
  "record_audit pid act detail w = w\<lparr>wb_audit := wb_audit w @ [(pid, take 80 act, take 500 detail)]\<rparr>"

text \<open>A row as the dictionary that is normalised again when profiles are listed.\<close>

definition row_payload :: "string \<Rightarrow> profile_row \<Rightarrow> dict" where
  "row_payload pid r =
     [(''id'', PyStr pid), (''module'', PyStr (pw_module r)), (''event_kind'', PyStr (pw_kind r)),
      (''label'', PyStr (pw_label r)), (''description'', PyStr (pw_description r)),
      (''enabled'', PyBool (pw_enabled r)), (''severities'', str_list (pw_severities r)),
      (''channels'', str_list (pw_channels r)), (''throttle_seconds'', PyInt (pw_throttle r)),
      (''digest_window_seconds'', PyInt (pw_digest_window r)),
      (''silence_until'', (case pw_silence_until r of None \<Rightarrow> PyNone | Some t \<Rightarrow> PyTime t)),
      (''content'', PyDict (pw_content r)), (''advanced_template'', opt_val (pw_advanced r))]"

definition default_payload :: "(string \<Rightarrow> string \<Rightarrow> dict) \<Rightarrow> string \<Rightarrow> catalog_event \<Rightarrow> dict" where
  "default_payload T mdl e =
     [(''id'', PyStr (profile_id mdl (ce_key e))), (''module'', PyStr mdl), (''event_kind'', PyStr (ce_key e)),
      (''label'', PyStr (ce_label e)), (''description'', PyStr (ce_description e)), (''enabled'', PyBool False),
      (''severities'', str_list [ce_severity e]), (''channels'', PyList []), (''throttle_seconds'', PyInt 0),
      (''digest_window_seconds'', PyInt 0), (''content'', PyDict (T mdl (ce_key e))),
      (''advanced_template'', PyNone)]"

definition listed_profile ::
  "pyenv \<Rightarrow> (string \<Rightarrow> string \<Rightarrow> dict) \<Rightarrow> (string \<times> profile_row) list \<Rightarrow> string \<Rightarrow> catalog_event \<Rightarrow> pyerr + profile" where
  "listed_profile E T saved mdl e =
     (case map_of saved (profile_id mdl (ce_key e)) of
        None \<Rightarrow> normalize_profile E T (default_payload T mdl e)
      | Some r \<Rightarrow> normalize_profile E T (row_payload (profile_id mdl (ce_key e)) r))"

text \<open>Every notifying kind of the catalogue, saved or default; an exception of one row fails the list.\<close>

fun gather :: "(pyerr + 'a) list \<Rightarrow> pyerr + 'a list" where
  "gather [] = Inr []"
| "gather (x # xs) =
     (case x of Inl e \<Rightarrow> Inl e | Inr y \<Rightarrow> (case gather xs of Inl e \<Rightarrow> Inl e | Inr ys \<Rightarrow> Inr (y # ys)))"

definition list_profiles :: "pyenv \<Rightarrow> (string \<Rightarrow> string \<Rightarrow> dict) \<Rightarrow> workbench \<Rightarrow> pyerr + profile list" where
  "list_profiles E T w =
     (let saved = (if db_fails E ''list_notification_profiles'' then [] else wb_profiles w)
      in gather (concat (map (\<lambda>m. map (listed_profile E T saved (cm_key m))
           (filter (\<lambda>e. ce_status e = ''notifying'') (cm_events m))) NOTIFICATION_CATALOG)))"

definition get_profile :: "pyenv \<Rightarrow> (string \<Rightarrow> string \<Rightarrow> dict) \<Rightarrow> string \<Rightarrow> workbench \<Rightarrow> pyerr + profile option" where
  "get_profile E T pid w =
     (case list_profiles E T w of Inl e \<Rightarrow> Inl e | Inr ps \<Rightarrow> Inr (List.find (\<lambda>p. pf_id p = pid) ps))"

definition parse_silence :: "pyenv \<Rightarrow> pyval \<Rightarrow> pyerr + time option" where
  "parse_silence E v =
     (case v of PyTime t \<Rightarrow> Inr (Some t)
      | PyStr s \<Rightarrow> if str_strip s = [] then Inr None
          else (case iso_parse_z E s of Some t \<Rightarrow> Inr (Some t)
            | None \<Rightarrow> Inl (ValueError ''silence_until must be an ISO timestamp''))
      | _ \<Rightarrow> Inr None)"

definition row_of_profile :: "profile \<Rightarrow> time option \<Rightarrow> profile_row" where
  "row_of_profile p until =
     \<lparr>pw_module = pf_module p, pw_kind = pf_kind p, pw_label = pf_label p, pw_description = pf_description p,
      pw_enabled = pf_enabled p, pw_severities = pf_severities p, pw_channels = pf_channels p,
      pw_throttle = pf_throttle p, pw_digest_window = pf_digest_window p, pw_silence_until = until,
      pw_content = pf_content p, pw_advanced = pf_advanced p\<rparr>"

definition profile_rule_table :: "profile \<Rightarrow> rule_table \<Rightarrow> rule_table" where
  "profile_rule_table p =
     upsert_notification_rule (pf_id p) (profile_id (pf_module p) (pf_kind p)) (pf_enabled p)
       (build_profile_match (pf_module p) (pf_kind p) (pf_severities p)) (pf_channels p) (pf_throttle p) 40
       (Some (pf_template p)) (pf_digest_window p)"

definition save_detail :: "pyenv \<Rightarrow> profile \<Rightarrow> string" where
  "save_detail E p = ''enabled='' @ py_str E (PyBool (pf_enabled p)) @ '' channels='' @
     int_str (int (length (pf_channels p))) @ '' advanced='' @ py_str E (PyBool (pf_advanced p \<noteq> None))"

definition save_profile ::
  "pyenv \<Rightarrow> (string \<Rightarrow> string \<Rightarrow> dict) \<Rightarrow> dict \<Rightarrow> workbench \<Rightarrow> (pyerr + profile) \<times> workbench" where
  "save_profile E T payload w =
     (case normalize_profile E T payload of Inl e \<Rightarrow> (Inl e, w)
      | Inr p \<Rightarrow> (case parse_silence E (pf_silence_until p) of Inl e \<Rightarrow> (Inl e, w)
        | Inr until \<Rightarrow> (case upsert_notification_profile (pf_id p) (row_of_profile p until) (wb_profiles w) of
            None \<Rightarrow> (Inl (RuntimeError ''UniqueViolation''), w)
          | Some rows \<Rightarrow>
              let w1 = w\<lparr>wb_profiles := rows,
                  wb_studio := (wb_studio w)\<lparr>st_rules := profile_rule_table p (st_rules (wb_studio w))\<rparr>\<rparr>;
                  w2 = record_audit (pf_id p) ''save'' (save_detail E p) w1;
                  w3 = w2\<lparr>wb_studio := reload_notifier E (wb_studio w2)\<rparr>
              in (case get_profile E T (pf_id p) w3 of Inl e \<Rightarrow> (Inl e, w3)
                  | Inr shown \<Rightarrow> (Inr (case shown of None \<Rightarrow> p | Some q \<Rightarrow> q), w3)))))"

definition delete_profile :: "pyenv \<Rightarrow> string \<Rightarrow> workbench \<Rightarrow> workbench" where
  "delete_profile E pid w =
     (let w1 = w\<lparr>wb_profiles := delete_notification_profile pid (wb_profiles w),
         wb_studio := (wb_studio w)\<lparr>st_rules := delete_notification_rule pid (st_rules (wb_studio w))\<rparr>\<rparr>;
         w2 = record_audit pid ''delete'' [] w1
      in w2\<lparr>wb_studio := reload_notifier E (wb_studio w2)\<rparr>)"

section \<open>Coverage\<close>

record coverage_row =
  cv_kind :: string
  cv_state :: string
  cv_severities :: "string list"
  cv_gap :: bool

definition until_running :: "time \<Rightarrow> time option \<Rightarrow> bool" where
  "until_running now u = (case u of None \<Rightarrow> False | Some t \<Rightarrow> now < t)"

definition distinct_first :: "'a list \<Rightarrow> 'a list" where
  "distinct_first xs = rev (remdups (rev xs))"

definition event_coverage ::
  "pyenv \<Rightarrow> time \<Rightarrow> (string \<times> profile_row) list \<Rightarrow> nrule list \<Rightarrow> string \<Rightarrow> catalog_event \<Rightarrow> coverage_row" where
  "event_coverage E now saved rules mdl e =
     (let matching = filter (\<lambda>r. rule_covers_event E (nr_id r) (nr_match r) mdl (ce_key e) \<and> nr_channels r \<noteq> []) rules;
          active = filter (\<lambda>r. nr_enabled r \<and> \<not> until_running now (nr_silence_until r)) matching;
          of_rules = (\<lambda>rs. distinct_first (concat (map (\<lambda>r. rule_severities_of E (nr_match r)) rs)));
          (state, covered) = (case map_of saved (profile_id mdl (ce_key e)) of
             Some p \<Rightarrow>
               (if until_running now (pw_silence_until p) \<or> \<not> pw_enabled p then ''muted''
                else if pw_channels p \<noteq> [] then ''configured'' else ''unconfigured'', pw_severities p)
           | None \<Rightarrow> if active \<noteq> [] then (''fallback'', of_rules active)
               else if matching \<noteq> [] then (''muted'', of_rules matching) else (''unconfigured'', []))
      in \<lparr>cv_kind = ce_key e, cv_state = state, cv_severities = covered,
          cv_gap = (ce_severity e \<in> {''high'', ''critical''} \<and>
            \<not> list_ex (\<lambda>s. s \<in> {''high'', ''critical''}) covered)\<rparr>)"

definition build_coverage ::
  "pyenv \<Rightarrow> time \<Rightarrow> (string \<times> profile_row) list \<Rightarrow> nrule list \<Rightarrow> (string \<times> coverage_row list) list" where
  "build_coverage E now saved rules =
     map (\<lambda>m. (cm_key m, map (event_coverage E now saved rules (cm_key m)) (cm_events m))) NOTIFICATION_CATALOG"

section \<open>What a saved profile lets through\<close>

definition pattern_kinds :: "string list" where
  "pattern_kinds = [''ueba.anomaly'', ''<category>.anomaly.first_seen_*'', ''<finding>.detected'', ''finding.detected'']"

lemma action_leaf_eval [simp]:
  "eval_leaf E ev (Some ''action'') (Some ''equals'') (PyStr a) = Inr (ev_action ev = a)"
  by (simp add: eval_leaf_def apply_operator_def op_equals_def)

lemma profile_match_eval:
  assumes "kind \<notin> set pattern_kinds" and "set sevs \<subseteq> set profile_severities" and "sevs \<noteq> []"
  shows "eval_condition E ev (build_profile_match mdl kind sevs) =
    Inr (ev_action ev = kind \<and> (\<exists>s. ev_severity ev = Some s \<and> severity_value s \<in> set sevs))"
proof -
  have "filter (\<lambda>s. s \<in> set profile_severities) sevs = sevs" using assms(2) by (auto intro: filter_True)
  then show ?thesis
    using assms(1,3) by (simp add: build_profile_match_def pattern_kinds_def all_of_def leaf_def)
qed

lemma catalog_severities:
  "m \<in> set NOTIFICATION_CATALOG \<Longrightarrow> e \<in> set (cm_events m) \<Longrightarrow> ce_severity e \<in> set profile_severities"
proof -
  have "list_all (\<lambda>m. list_all (\<lambda>e. ce_severity e \<in> set profile_severities) (cm_events m)) NOTIFICATION_CATALOG"
    by code_simp
  then show "m \<in> set NOTIFICATION_CATALOG \<Longrightarrow> e \<in> set (cm_events m) \<Longrightarrow> ce_severity e \<in> set profile_severities"
    by (auto simp: list_all_iff)
qed

lemma event_spec_mem:
  "event_spec mdl kind = Some e \<Longrightarrow> \<exists>m \<in> set NOTIFICATION_CATALOG. cm_key m = mdl \<and> e \<in> set (cm_events m)"
  by (auto simp: event_spec_def find_Some_iff split: option.splits)

text \<open>What normalisation guarantees: a kind of the catalogue, severities that exist, no empty channel, no
  negative window.\<close>

lemma normalized_ok:
  assumes "normalize_profile E T payload = Inr p"
  shows "pf_severities p \<noteq> [] \<and> set (pf_severities p) \<subseteq> set profile_severities \<and> [] \<notin> set (pf_channels p) \<and>
    0 \<le> pf_throttle p \<and> 0 \<le> pf_digest_window p \<and>
    (\<exists>e. event_spec (pf_module p) (pf_kind p) = Some e \<and> ce_status e = ''notifying'')"
proof -
  obtain spec where spec: "event_spec (pf_module p) (pf_kind p) = Some spec"
    using assms by (auto simp: normalize_profile_def Let_def split: option.splits if_splits)
  then have "ce_severity spec \<in> set profile_severities"
    using event_spec_mem catalog_severities by blast
  then show ?thesis
    using assms spec by (auto simp: normalize_profile_def Let_def seconds_of_def split: option.splits if_splits)
qed

lemma save_profile_studio:
  assumes "normalize_profile E T payload = Inr p" and "parse_silence E (pf_silence_until p) = Inr until"
    and "upsert_notification_profile (pf_id p) (row_of_profile p until) (wb_profiles w) = Some rows"
    and "\<not> db_fails E ''list_notification_rules''"
  defines "w' \<equiv> snd (save_profile E T payload w)"
  shows "st_rules (wb_studio w') = profile_rule_table p (st_rules (wb_studio w)) \<and> wb_profiles w' = rows \<and>
    nf_rules (st_notifier (wb_studio w')) = list_notification_rules (st_rules (wb_studio w'))"
  using assms reloaded_rules[OF assms(4)]
  by (auto simp: save_profile_def Let_def record_audit_def split: sum.splits option.splits)

text \<open>C29: A saved profile, of any kind but those that stand for a pattern of actions, is in force at once and its
  silence is not: the running notifier has the profile's rule,
  which fires on exactly the events of the profile's kind and severities - the profile being enabled and no
  silence of an earlier rule of this identifier running - whatever time the profile itself is silenced until.
\<close>
theorem profile_silence_ignored:
  assumes "normalize_profile E T payload = Inr p" and "parse_silence E (pf_silence_until p) = Inr until"
    and "upsert_notification_profile (pf_id p) (row_of_profile p until) (wb_profiles w) = Some rows"
    and "\<not> db_fails E ''list_notification_rules''" and "keyed (st_rules (wb_studio w))"
    and "pf_kind p \<notin> set pattern_kinds"
  defines "w' \<equiv> snd (save_profile E T payload w)"
  shows "\<exists>r \<in> set (nf_rules (st_notifier (wb_studio w'))). nr_id r = pf_id p \<and> nr_channels r = pf_channels p \<and>
    (\<forall>E' now ev. rule_active E' now ev r \<longleftrightarrow> pf_enabled p \<and> ev_action ev = pf_kind p \<and>
       (\<exists>s. ev_severity ev = Some s \<and> severity_value s \<in> set (pf_severities p)) \<and>
       \<not> silenced_at now (pf_id p) (st_rules (wb_studio w)))"
proof -
  let ?t = "profile_rule_table p (st_rules (wb_studio w))"
  have rules: "nf_rules (st_notifier (wb_studio w')) = list_notification_rules ?t"
    using save_profile_studio[OF assms(1-4)] by (simp add: w'_def)
  have t: "keyed ?t" unfolding profile_rule_table_def by (rule keyed_operations(1)[OF assms(5)])
  define r where "r = the (map_of ?t (pf_id p))"
  have row: "map_of ?t (pf_id p) = Some r"
    by (simp add: r_def profile_rule_table_def upsert_notification_rule_def update_conv)
  have r: "nr_enabled r = pf_enabled p" "nr_channels r = pf_channels p"
      "nr_match r = build_profile_match (pf_module p) (pf_kind p) (pf_severities p)"
    by (simp_all add: r_def profile_rule_table_def upsert_notification_rule_def update_conv)
  have quiet: "(case nr_silence_until r of None \<Rightarrow> True | Some t \<Rightarrow> \<not> t > now) \<longleftrightarrow>
      \<not> silenced_at now (pf_id p) (st_rules (wb_studio w))" for now
    by (simp add: r_def profile_rule_table_def upsert_notification_rule_def update_conv silenced_at_def silenced_def
        split: option.splits)
  note ok = normalized_ok[OF assms(1)]
  have m: "eval_condition E' ev (nr_match r) = Inr (ev_action ev = pf_kind p \<and>
      (\<exists>s. ev_severity ev = Some s \<and> severity_value s \<in> set (pf_severities p)))" for E' ev
    unfolding r(3) using ok by (intro profile_match_eval[OF assms(6)]) simp_all
  have "r \<in> set (list_notification_rules ?t)" "nr_id r = pf_id p"
    using listed_iff[OF t, of r] row keyed_row[OF t row] by simp_all
  then show ?thesis
    unfolding rules using r(1,2) by (intro bexI[of _ r]) (auto simp: rule_active_def m quiet)
qed

text \<open>The coverage report calls the profile muted meanwhile.\<close>

lemma silenced_profile_shown_muted:
  assumes "parse_silence E (pf_silence_until p) = Inr (Some u)" and "now < u"
    and "upsert_notification_profile (pf_id p) (row_of_profile p (Some u)) saved = Some rows"
    and "pf_id p = profile_id mdl (ce_key e)"
  shows "cv_state (event_coverage E now rows rules mdl e) = ''muted''"
  using assms(2-4)
  by (auto simp: upsert_notification_profile_def event_coverage_def row_of_profile_def until_running_def update_conv'
      Let_def split: if_splits)

section \<open>Profiles for events that never reach the router\<close>

definition not_queued :: "condition \<Rightarrow> system \<Rightarrow> bool" where
  "not_queued match s \<longleftrightarrow> list_all (\<lambda>q. nr_match (qi_rule q) \<noteq> match) (nf_queue (sys_notifier s))"

lemma profile_match_needs_action:
  assumes "kind \<in> set projection_only_actions" and "eval_condition E ev (build_profile_match mdl kind sevs) = Inr True"
  shows "ev_action ev = kind"
proof -
  have "kind \<notin> set pattern_kinds" using assms(1) by (auto simp: projection_only_actions_def pattern_kinds_def)
  then show ?thesis
    using assms(2) by (simp add: build_profile_match_def pattern_kinds_def all_of_def leaf_def Let_def
        split: sum.splits if_splits)
qed

lemma dispatch_not_queued:
  assumes "list_all (\<lambda>q. nr_match (qi_rule q) \<noteq> m) (nf_queue n)" and "eval_condition E ev m \<noteq> Inr True"
  shows "list_all (\<lambda>q. nr_match (qi_rule q) \<noteq> m) (nf_queue (snd (dispatch E now ev d n)))"
proof (cases "ack_hit E now ev d")
  case False
  obtain qs where "nf_queue (snd (dispatch_rules E now ev (nf_rules n) n)) = nf_queue n @ qs"
      "\<forall>q \<in> set qs. \<exists>r \<in> set (nf_rules n). rule_active E now ev r \<and> good_item ev (nf_channels n) r q"
    using dispatch_rules_items by blast
  then show ?thesis
    using assms False by (auto simp: dispatch_def list_all_iff rule_active_def good_item_def)
qed (simp add: dispatch_def assms(1))

lemma direct_not_queued:
  assumes "list_all (\<lambda>q. nr_match (qi_rule q) \<noteq> m) (nf_queue n)" and "m \<noteq> empty_condition"
  shows "list_all (\<lambda>q. nr_match (qi_rule q) \<noteq> m) (nf_queue (snd (dispatch_direct E now r d n)))"
proof -
  have "list_all (\<lambda>q. nr_match (qi_rule q) \<noteq> m) (nf_queue (snd (offer_all now ev k th (virtual_rule r) cs n)))" for ev k th cs
    using assms(1)
  proof (induction cs arbitrary: n)
    case (Cons c cs)
    have "list_all (\<lambda>q. nr_match (qi_rule q) \<noteq> m) (nf_queue (snd (offer now ev k th (virtual_rule r c) c n)))"
      using offer_queue[of now ev k th "virtual_rule r c" c n] Cons.prems assms(2) by (auto simp: virtual_rule_def)
    from Cons.IH[OF this] show ?case by (simp add: Let_def case_prod_beta)
  qed simp
  then show ?thesis using assms(1) by (simp add: dispatch_direct_def)
qed

lemma fold_direct_not_queued:
  assumes "list_all (\<lambda>q. nr_match (qi_rule q) \<noteq> m) (nf_queue n)" and "m \<noteq> empty_condition"
  shows "list_all (\<lambda>q. nr_match (qi_rule q) \<noteq> m) (nf_queue (fold (\<lambda>r n. snd (dispatch_direct E now r d n)) rs n))"
  using assms(1) by (induction rs arbitrary: n) (simp_all add: direct_not_queued[OF _ assms(2)])

lemma profile_match_not_empty: "build_profile_match mdl kind sevs \<noteq> empty_condition"
  by (simp add: build_profile_match_def all_of_def empty_condition_def Let_def)

interpretation unheard: ingest_invariant
  "\<lambda>s. kind \<in> set projection_only_actions \<longrightarrow> not_queued (build_profile_match mdl kind sevs) s" for mdl kind sevs
proof unfold_locales
  fix s :: system and E now and ev :: event
  assume I: "kind \<in> set projection_only_actions \<longrightarrow> not_queued (build_profile_match mdl kind sevs) s"
    and a: "ev_action ev \<notin> set projection_only_actions"
  show "kind \<in> set projection_only_actions \<longrightarrow> not_queued (build_profile_match mdl kind sevs)
      (s\<lparr>sys_notifier := snd (dispatch E now ev (sys_db s) (sys_notifier s))\<rparr>)"
  proof
    assume k: "kind \<in> set projection_only_actions"
    then have "eval_condition E ev (build_profile_match mdl kind sevs) \<noteq> Inr True"
      using profile_match_needs_action a by blast
    then show "not_queued (build_profile_match mdl kind sevs)
        (s\<lparr>sys_notifier := snd (dispatch E now ev (sys_db s) (sys_notifier s))\<rparr>)"
      using I k dispatch_not_queued by (simp add: not_queued_def)
  qed
next
  fix s :: system and p W now and ev :: event
  assume I: "kind \<in> set projection_only_actions \<longrightarrow> not_queued (build_profile_match mdl kind sevs) s"
    and p: "p \<in> set projections"
  from p show "kind \<in> set projection_only_actions \<longrightarrow> not_queued (build_profile_match mdl kind sevs) (snd (p W now ev s))"
  proof (cases rule: projections_cases)
    case (1 f)
    then show ?thesis using I by (simp add: not_queued_def on_db_def case_prod_beta)
  next
    case 2
    then show ?thesis
      using I fold_direct_not_queued[OF _ profile_match_not_empty]
      by (simp add: not_queued_def host_stage_def case_prod_beta Let_def)
  next
    case 3
    then show ?thesis using I by (simp add: not_queued_def corr_stage_def case_prod_beta Let_def)
  qed
qed (simp_all add: not_queued_def)

text \<open>The kinds the catalogue offers although no stored event has them.\<close>

definition offered_kinds :: "string list" where
  "offered_kinds = concat (map (\<lambda>m. map ce_key (filter (\<lambda>e. ce_status e = ''notifying'') (cm_events m))) NOTIFICATION_CATALOG)"

lemma offeredI:
  assumes "cat_module key label desc evs \<in> set NOTIFICATION_CATALOG"
    and "list_ex (\<lambda>e. ce_key e = kind \<and> ce_status e = ''notifying'') evs"
  shows "kind \<in> set offered_kinds"
proof -
  obtain e where "e \<in> set evs" "ce_key e = kind" "ce_status e = ''notifying''"
    using assms(2) by (auto simp: list_ex_iff)
  then show ?thesis using assms(1) unfolding offered_kinds_def by (force simp: cat_module_def)
qed

lemma unheard_kinds:
  assumes "kind \<in> {''host.fim.coverage'', ''rds.proxy.client.connect'', ''rds.proxy.client.disconnect'', ''s3.object.access''}"
  shows "kind \<in> set offered_kinds"
proof -
  have "cat_module ''ec2.host'' ''EC2 Hosts'' ''Agent, login, privilege, file, process, and host health events.''
        ec2_host_events \<in> set NOTIFICATION_CATALOG"
    "cat_module ''aws.rds'' ''AWS RDS'' ''Database authentication, sessions, queries, and proxy activity.''
        aws_rds_events \<in> set NOTIFICATION_CATALOG"
    "cat_module ''aws.s3'' ''AWS S3'' ''Bucket policy, public access, and object access events.''
        aws_s3_events \<in> set NOTIFICATION_CATALOG"
    unfolding NOTIFICATION_CATALOG_def by simp_all
  note offered = this[THEN offeredI]
  have "list_ex (\<lambda>e. ce_key e = ''host.fim.coverage'' \<and> ce_status e = ''notifying'') ec2_host_events"
    "list_ex (\<lambda>e. ce_key e = ''rds.proxy.client.connect'' \<and> ce_status e = ''notifying'') aws_rds_events"
    "list_ex (\<lambda>e. ce_key e = ''rds.proxy.client.disconnect'' \<and> ce_status e = ''notifying'') aws_rds_events"
    "list_ex (\<lambda>e. ce_key e = ''s3.object.access'' \<and> ce_status e = ''notifying'') aws_s3_events"
    by code_simp+
  then show ?thesis using assms offered by blast
qed

text \<open>C28: The catalogue offers profiles for file-monitoring coverage, the two ends of a proxy connection and object
  access, whose events only feed projections: no payload ever queues a notification for such a profile's rule.
\<close>
theorem projection_profile_never_fires:
  assumes "kind \<in> {''host.fim.coverage'', ''rds.proxy.client.connect'', ''rds.proxy.client.disconnect'', ''s3.object.access''}"
    and "not_queued (build_profile_match mdl kind sevs) s"
  shows "kind \<in> set offered_kinds \<and>
    not_queued (build_profile_match mdl kind sevs) (snd (ingest_payload W now parse raw s))"
proof -
  have k: "kind \<in> set projection_only_actions" "kind \<in> set offered_kinds"
    using assms(1) unheard_kinds by (auto simp: projection_only_actions_def)
  show ?thesis using unheard.ingest_payload_keeps[of kind mdl sevs s W now parse raw] assms(2) k by simp
qed

section \<open>Witnesses\<close>

lemma content_line_absent: "dget content key = PyNone \<Longrightarrow> content_line E content key = None"
  by (simp add: content_line_def py_or_def str_strip_def)

definition demo_payload :: dict where
  "demo_payload = [(''module'', PyStr ''cert''), (''event_kind'', PyStr ''cert.expired''), (''enabled'', PyBool True),
     (''channels'', PyList [PyStr ''slack'']), (''silence_until'', PyTime 1000)]"

definition demo_workbench :: workbench where
  "demo_workbench = \<lparr>wb_profiles = [], wb_audit = [], wb_studio = demo_studio\<rparr>"

lemma cert_spec:
  "event_spec ''cert'' ''cert.expired'' =
     Some (notifying ''cert.expired'' ''Certificate expired'' ''A monitored certificate has expired.'' ''critical'')"
  by (simp add: event_spec_def NOTIFICATION_CATALOG_def cat_module_def cert_events_def owns_kind_def notifying_def)

lemma demo_normalized:
  "\<exists>p. normalize_profile demo_env (\<lambda>_ _. []) demo_payload = Inr p \<and> pf_id p = ''profile:cert:cert.expired'' \<and>
     pf_kind p = ''cert.expired'' \<and> pf_enabled p \<and> pf_severities p = [''critical''] \<and> pf_silence_until p = PyTime 1000"
  by (simp add: normalize_profile_def demo_payload_def strip_str_def py_or_def str_strip_def is_space_def cert_spec
      notifying_def iterated_def str_list_def seconds_of_def profile_id_def profile_severities_def Let_def)

lemma profile_silence_ignored_witness:
  "\<exists>r. r \<in> set (nf_rules (st_notifier (wb_studio (snd (save_profile demo_env (\<lambda>_ _. []) demo_payload demo_workbench))))) \<and>
     rule_active demo_env 0 ((event_defaults 0 (new_source ''cert'' T_poll))
       \<lparr>ev_action := ''cert.expired'', ev_severity := Some S_critical\<rparr>) r"
proof -
  obtain p where p: "normalize_profile demo_env (\<lambda>_ _. []) demo_payload = Inr p" "pf_id p = ''profile:cert:cert.expired''"
      "pf_kind p = ''cert.expired''" "pf_enabled p" "pf_severities p = [''critical'']" "pf_silence_until p = PyTime 1000"
    using demo_normalized by blast
  have h: "parse_silence demo_env (pf_silence_until p) = Inr (Some 1000)"
    "upsert_notification_profile (pf_id p) (row_of_profile p (Some 1000)) (wb_profiles demo_workbench) =
       Some (AList.update (pf_id p) (row_of_profile p (Some 1000)) [])"
    "\<not> db_fails demo_env ''list_notification_rules''" "keyed (st_rules (wb_studio demo_workbench))"
    "pf_kind p \<notin> set pattern_kinds"
    by (simp_all add: p parse_silence_def upsert_notification_profile_def demo_workbench_def demo_studio_def keyed_def
        demo_env_def pattern_kinds_def)
  from profile_silence_ignored[OF p(1) h] show ?thesis
    by (auto simp: p silenced_at_def demo_workbench_def demo_studio_def)
qed

lemma projection_profile_never_fires_witness:
  "not_queued (build_profile_match ''aws.s3'' ''s3.object.access'' [''informational''])
     (snd (ingest_payload demo_world 0 (\<lambda>p. Inr [demo_stored]) PyNone demo_system))"
proof -
  have "not_queued (build_profile_match ''aws.s3'' ''s3.object.access'' [''informational'']) demo_system"
    by (simp add: not_queued_def demo_system_def demo_notifier_def new_notifier_def)
  from projection_profile_never_fires[OF _ this, of demo_world 0 "\<lambda>p. Inr [demo_stored]" PyNone]
  show ?thesis by simp
qed

end
