(* ===== verification/Metrics.thy ===== *)
theory Metrics
  imports Storage
begin

text \<open>
  What the hourly metric rollup of \<open>upsert_host_metric_sample\<close> promises: when every heartbeat of the
  hour carries the reading, the row holds the exact minimum, mean and maximum; when some lack it,
  the mean is weighted by the shared sample count and is not the mean of the readings.
\<close>

section \<open>Lemmas\<close>

definition sample_run ::
  "time \<Rightarrow> string \<Rightarrow> (time \<times> real option \<times> real option) list \<Rightarrow> db \<Rightarrow> db" where
  "sample_run now i samples d = fold (\<lambda>(t, m, c). upsert_host_metric_sample now i t m c) samples d"

lemma map_of_filter_key: "map_of (filter (\<lambda>(k, _). P k) xs) k = (if P k then map_of xs k else None)"
  by (induction xs) auto

lemma upsert_metric_row:
  assumes "hour_start t = h" and "\<not> h < now - 86400 * real_of_int METRICS_RETENTION_DAYS"
  shows "map_of (db_metrics (upsert_host_metric_sample now i t m c d)) (i, h) =
    Some (case map_of (db_metrics d) (i, h) of None \<Rightarrow> first_sample m c | Some r \<Rightarrow> fold_sample m c r)"
proof -
  have "map_of (filter (\<lambda>((_, h), _). \<not> h < now - 86400 * real_of_int METRICS_RETENTION_DAYS) xs) (i, h) =
      map_of xs (i, h)" for xs :: "((string \<times> time) \<times> metric_row) list"
    using assms(2) map_of_filter_key[of "\<lambda>(_, h). \<not> h < now - 86400 * real_of_int METRICS_RETENTION_DAYS" xs "(i, h)"]
    by (simp add: case_prod_beta')
  then show ?thesis
    by (simp add: upsert_host_metric_sample_def Let_def assms(1) tbl.get_put_same)
qed

definition exact_row :: "metric_row \<Rightarrow> real list \<Rightarrow> bool" where
  "exact_row r xs \<longleftrightarrow> hm_count r = int (length xs) \<and> hm_mem_min r = Some (Min (set xs)) \<and>
     hm_mem_max r = Some (Max (set xs)) \<and> hm_mem_avg r = Some (sum_list xs / real (length xs))"

lemma exact_first: "exact_row (first_sample (Some x) c) [x]"
  by (simp add: exact_row_def first_sample_def)

lemma exact_fold:
  assumes "exact_row r xs" and "xs \<noteq> []"
  shows "exact_row (fold_sample (Some x) c r) (xs @ [x])"
  using assms
  by (simp add: exact_row_def fold_sample_def least_opt_def greatest_opt_def running_avg_def
      min.commute max.commute add.commute Min_insert Max_insert)

lemma sample_run_exact:
  assumes "\<forall>(t, m, c) \<in> set samples. hour_start t = h \<and> m \<noteq> None"
    and "\<not> h < now - 86400 * real_of_int METRICS_RETENTION_DAYS"
    and "map_of (db_metrics d) (i, h) = None" and "samples \<noteq> []"
  shows "\<exists>r. map_of (db_metrics (sample_run now i samples d)) (i, h) = Some r \<and>
    exact_row r (map (\<lambda>(t, m, c). the m) samples)"
  using assms(1,4)
proof (induction samples rule: rev_induct)
  case Nil
  then show ?case by simp
next
  case (snoc s samples)
  obtain t m c where s: "s = (t, m, c)" by (cases s)
  obtain x where m: "m = Some x" and t: "hour_start t = h" using snoc.prems by (auto simp: s)
  have run: "sample_run now i (samples @ [s]) d =
      upsert_host_metric_sample now i t m c (sample_run now i samples d)"
    by (simp add: sample_run_def s)
  show ?case
  proof (cases "samples = []")
    case True
    then show ?thesis
      using upsert_metric_row[OF t assms(2), of i m c d] assms(3) exact_first
      by (simp add: run[unfolded s m] m s) (simp add: sample_run_def)
  next
    case False
    then obtain r where r: "map_of (db_metrics (sample_run now i samples d)) (i, h) = Some r"
        "exact_row r (map (\<lambda>(t, m, c). the m) samples)"
      using snoc by auto
    then show ?thesis
      using upsert_metric_row[OF t assms(2), of i m c "sample_run now i samples d"]
        exact_fold[OF r(2)] False by (simp add: run[unfolded s m] m s)
  qed
qed

section \<open>Properties\<close>

text \<open>The hourly memory rollup is exact when every heartbeat of the hour carries the reading: the
  row holds the number of samples and their minimum, maximum and mean.\<close>

theorem rollup_exact:
  assumes "\<forall>(t, m, c) \<in> set samples. hour_start t = h \<and> m \<noteq> None"
    and "now - 86400 * 14 \<le> h"
    and "map_of (db_metrics d) (i, h) = None" and "samples \<noteq> []"
  shows "let xs = map (\<lambda>(t, m, c). the m) samples in
    \<exists>r. map_of (db_metrics (sample_run now i samples d)) (i, h) = Some r \<and>
      hm_count r = int (length xs) \<and> hm_mem_min r = Some (Min (set xs)) \<and>
      hm_mem_max r = Some (Max (set xs)) \<and> hm_mem_avg r = Some (sum_list xs / real (length xs))"
  using sample_run_exact[OF assms(1) _ assms(3,4)] assms(2)
  by (simp add: Let_def exact_row_def METRICS_RETENTION_DAYS_def not_less)

lemma rollup_exact_witness:
  "\<exists>r. map_of (db_metrics (sample_run 0 ''i'' [(0, Some 10, None), (60, Some 40, None)] empty_db)) (''i'', 0) = Some r \<and>
     hm_mem_avg r = Some 25"
proof -
  have h: "hour_start 0 = 0" "hour_start 60 = 0" by (simp_all add: hour_start_def)
  show ?thesis
    using rollup_exact [of "[(0, Some 10, None), (60, Some 40, None)]" 0 0 empty_db "''i''"]
    by (auto simp: h Let_def empty_db_def)
qed

text \<open>A heartbeat without a reading skews the mean: after readings 10, none and 40 the rollup says
  20, while the readings average 25, because the weight counts the sample that had none.\<close>

theorem rollup_skew:
  "hm_mem_avg (fold_sample (Some 40) c (fold_sample None c (first_sample (Some 10) c))) = Some 20 \<and>
   (10 + 40) / (2::real) = 25"
  by (simp add: fold_sample_def first_sample_def running_avg_def)

end
