(* ===== verification/Worker.thy ===== *)
theory Worker
  imports Router Window
begin

text \<open>
  The send worker (\<open>src/blackwatch/notify/worker.py\<close>): per-channel rate limit, digest buffers,
  sending with retries, and the loop body. What a send returns is decided outside the program; the
  record \<open>delivery\<close> gives the answers of \<open>channels.send\<close> (per attempt), of the type senders, of the
  renderer, and whether the stop flag is set after the wait of an attempt.
\<close>

section \<open>State\<close>

record delivery =
  dl_send :: "nat \<Rightarrow> channel \<Rightarrow> event \<Rightarrow> string option \<Rightarrow> bool \<times> string"
  dl_sender :: "string \<Rightarrow> (dict \<Rightarrow> string \<Rightarrow> event \<Rightarrow> bool \<times> string) option"
  dl_render :: "channel \<Rightarrow> event \<Rightarrow> string option \<Rightarrow> string"
  dl_stopped :: "nat \<Rightarrow> bool"

record log_entry =
  le_rule_id :: "string option"
  le_rule_name :: "string option"
  le_channel_id :: "string option"
  le_channel_name :: string
  le_event_id :: "string option"
  le_event_action :: string
  le_event_severity :: "string option"
  le_status :: string
  le_retries :: "int option"
  le_preview :: string
  le_error :: "string option"

record channel_status =
  cs_channel_id :: string
  cs_status :: string
  cs_error :: "string option"
  cs_sent :: bool

record worker =
  wk_hits :: "string \<Rightarrow> time list"
  wk_buffers :: "(string \<times> queue_item list) list"
  wk_first_at :: "(string \<times> time) list"

definition new_worker :: worker where
  "new_worker = \<lparr>wk_hits = (\<lambda>_. []), wk_buffers = [], wk_first_at = []\<rparr>"

section \<open>Rate limit\<close>

definition rate_allow :: "channel \<Rightarrow> time \<Rightarrow> (string \<Rightarrow> time list) \<Rightarrow> bool \<times> (string \<Rightarrow> time list)" where
  "rate_allow c now hits =
     (if ch_rate_limit c \<le> 0 then (True, hits)
      else
        let bucket = expire 60 now (hits (ch_name c)) in
        if int (length bucket) \<ge> ch_rate_limit c then (False, hits(ch_name c := bucket))
        else (True, hits(ch_name c := bucket @ [now])))"

section \<open>Digest buffer\<close>

definition digest_add :: "time \<Rightarrow> string \<Rightarrow> queue_item \<Rightarrow> worker \<Rightarrow> worker" where
  "digest_add now cname item w =
     w\<lparr>wk_first_at := (if map_of (wk_first_at w) cname = None
          then AList.update cname now (wk_first_at w) else wk_first_at w),
       wk_buffers := AList.update cname
          ((case map_of (wk_buffers w) cname of None \<Rightarrow> [] | Some items \<Rightarrow> items) @ [item]) (wk_buffers w)\<rparr>"

definition digest_due :: "time \<Rightarrow> string \<Rightarrow> int \<Rightarrow> worker \<Rightarrow> bool" where
  "digest_due now cname window w =
     (case (map_of (wk_first_at w) cname, map_of (wk_buffers w) cname) of
        (Some first, Some items) \<Rightarrow> items \<noteq> [] \<and> now - first \<ge> real_of_int window
      | _ \<Rightarrow> False)"

definition digest_drain :: "string \<Rightarrow> worker \<Rightarrow> queue_item list \<times> worker" where
  "digest_drain cname w =
     ((case map_of (wk_buffers w) cname of None \<Rightarrow> [] | Some items \<Rightarrow> items),
      w\<lparr>wk_buffers := AList.delete cname (wk_buffers w),
        wk_first_at := AList.delete cname (wk_first_at w)\<rparr>)"

definition digest_window_of :: "nrule \<Rightarrow> channel \<Rightarrow> int" where
  "digest_window_of r c = (if nr_digest_window r \<noteq> 0 then nr_digest_window r else ch_digest_window c)"

section \<open>Sending\<close>

definition preview :: "delivery \<Rightarrow> channel \<Rightarrow> event \<Rightarrow> string option \<Rightarrow> string" where
  "preview D c event tpl = take 500 (dl_render D c event tpl)"

definition log_skel :: "queue_item \<Rightarrow> log_entry" where
  "log_skel q =
     \<lparr>le_rule_id = Some (nr_id (qi_rule q)), le_rule_name = Some (nr_name (qi_rule q)),
      le_channel_id = qi_channel_id q, le_channel_name = ch_name (qi_channel q),
      le_event_id = ev_id (qi_event q), le_event_action = ev_action (qi_event q),
      le_event_severity = map_option severity_value (ev_severity (qi_event q)),
      le_status = [], le_retries = None, le_preview = [], le_error = None\<rparr>"

definition record_status :: "string option \<Rightarrow> string \<Rightarrow> string option \<Rightarrow> bool \<Rightarrow> channel_status list" where
  "record_status cid status err sent =
     (if str_truthy cid
      then [\<lparr>cs_channel_id = the cid, cs_status = status, cs_error = err, cs_sent = sent\<rparr>] else [])"

text \<open>The attempts from number \<open>a\<close> on, \<open>left\<close> of them after it: the attempt that succeeded, the last
  error, and the waits in between.\<close>

fun attempts ::
  "delivery \<Rightarrow> channel \<Rightarrow> event \<Rightarrow> string option \<Rightarrow> int \<Rightarrow> nat \<Rightarrow> nat \<Rightarrow> nat option \<times> string \<times> int list" where
  "attempts D c event tpl backoff a 0 =
     (let (ok, detail) = dl_send D a c event tpl in (if ok then Some a else None, detail, []))"
| "attempts D c event tpl backoff a (Suc left) =
     (let (ok, detail) = dl_send D a c event tpl in
      if ok then (Some a, detail, [])
      else if dl_stopped D a then (None, detail, [backoff * 2 ^ a])
      else let (r, e, ws) = attempts D c event tpl backoff (Suc a) left
           in (r, e, (backoff * 2 ^ a) # ws))"

definition send_with_retry ::
  "delivery \<Rightarrow> queue_item \<Rightarrow> log_entry \<times> channel_status list \<times> int list" where
  "send_with_retry D q =
     (let c = qi_channel q; event = qi_event q; tpl = nr_template (qi_rule q);
          retries = max 0 (ch_retries c); backoff = max 1 (ch_backoff c);
          (r, err, waits) = attempts D c event tpl backoff 0 (nat retries);
          shown = preview D c event tpl
      in case r of
           Some a \<Rightarrow> ((log_skel q)\<lparr>le_status := ''sent'', le_retries := Some (int a), le_preview := shown\<rparr>,
                      record_status (qi_channel_id q) ''ok'' None True, waits)
         | None \<Rightarrow> ((log_skel q)\<lparr>le_status := ''failed'', le_retries := Some retries, le_preview := shown,
                      le_error := Some err\<rparr>,
                    record_status (qi_channel_id q) ''error'' (Some err) False, waits))"

definition handle_one ::
  "delivery \<Rightarrow> time \<Rightarrow> queue_item \<Rightarrow> worker \<Rightarrow> log_entry \<times> channel_status list \<times> int list \<times> worker" where
  "handle_one D now q w =
     (let c = qi_channel q; (allowed, hits) = rate_allow c now (wk_hits w); w1 = w\<lparr>wk_hits := hits\<rparr>;
          shown = preview D c (qi_event q) (nr_template (qi_rule q))
      in if \<not> allowed
         then ((log_skel q)\<lparr>le_status := ''rate_limited'', le_preview := shown\<rparr>, [], [], w1)
         else if digest_window_of (qi_rule q) c > 0
         then ((log_skel q)\<lparr>le_status := ''digested'', le_preview := shown\<rparr>, [], [],
               digest_add now (ch_name c) q w1)
         else let (entry, status, waits) = send_with_retry D q in (entry, status, waits, w1))"

section \<open>Flushing digests\<close>

definition pad_left :: "nat \<Rightarrow> string \<Rightarrow> string" where
  "pad_left n s = replicate (n - length s) (CHR '' '') @ s"

definition digest_line :: "queue_item \<Rightarrow> string" where
  "digest_line q = ''- ['' @ pad_left 8 (case ev_severity (qi_event q) of None \<Rightarrow> ''-'' | Some s \<Rightarrow> severity_value s) @
     ''] '' @ ev_action (qi_event q) @ '' by '' @ str_or (act_principal (ev_actor (qi_event q))) ''-''"

definition digest_body :: "queue_item list \<Rightarrow> channel \<Rightarrow> string" where
  "digest_body items c =
     ''BlackWatch digest: '' @ nat_str (length items) @ '' events in the last '' @
     int_str (digest_window_of (qi_rule (hd items)) c) @ ''s'' @ newline @
     join newline (map digest_line items)"

definition digest_event :: "pyenv \<Rightarrow> time \<Rightarrow> queue_item list \<Rightarrow> event" where
  "digest_event E now items = ensure_fingerprint E
     ((event_defaults now (new_source ''blackwatch.digest'' T_webhook))
       \<lparr>ev_action := ''notification.digest'', ev_severity := Some S_informational,
        ev_extra := [(''items'', PyInt (int (length items)))]\<rparr>)"

definition flush_one :: "pyenv \<Rightarrow> delivery \<Rightarrow> time \<Rightarrow> channel \<Rightarrow> queue_item list \<Rightarrow> log_entry list" where
  "flush_one E D now c items =
     (case dl_sender D (ch_type c) of None \<Rightarrow> []
      | Some sender \<Rightarrow>
          let body = digest_body items c; (ok, detail) = sender (resolved_config c) body (digest_event E now items)
          in [\<lparr>le_rule_id = None, le_rule_name = Some ''(digest)'', le_channel_id = None,
               le_channel_name = ch_name c, le_event_id = None,
               le_event_action = ''notification.digest'', le_event_severity = None,
               le_status = (if ok then ''sent'' else ''failed''), le_retries = None,
               le_preview = take 500 body, le_error = (if ok then None else Some detail)\<rparr>])"

text \<open>The flushed batches are returned beside the log entries.\<close>

fun flush_due ::
  "pyenv \<Rightarrow> delivery \<Rightarrow> time \<Rightarrow> string list \<Rightarrow> worker \<Rightarrow> log_entry list \<times> queue_item list list \<times> worker" where
  "flush_due E D now [] w = ([], [], w)"
| "flush_due E D now (cname # cnames) w =
     (case map_of (wk_buffers w) cname of
        None \<Rightarrow> flush_due E D now cnames w
      | Some [] \<Rightarrow> flush_due E D now cnames w
      | Some (q # qs) \<Rightarrow>
          if \<not> digest_due now cname (digest_window_of (qi_rule q) (qi_channel q)) w
          then flush_due E D now cnames w
          else
            let (items, w1) = digest_drain cname w; entry = flush_one E D now (qi_channel q) items;
                (entries, batches, w2) = flush_due E D now cnames w1
            in (entry @ entries, items # batches, w2))"

text \<open>One round of the loop: flush, then handle the next queued item, if one arrives.\<close>

definition worker_round ::
  "pyenv \<Rightarrow> delivery \<Rightarrow> time \<Rightarrow> queue_item option \<Rightarrow> worker \<Rightarrow>
   log_entry list \<times> queue_item list list \<times> worker" where
  "worker_round E D now item w =
     (let (flushed, batches, w1) = flush_due E D now (map fst (wk_buffers w)) w in
      case item of None \<Rightarrow> (flushed, batches, w1)
      | Some q \<Rightarrow> let (entry, status, waits, w2) = handle_one D now q w1
                  in (flushed @ [entry], batches, w2))"

section \<open>The rate limit window\<close>

interpretation rate_win: sliding_window 60 "expire 60"
  by (rule expire_window) simp

text \<open>The times at which a channel was allowed, over a run of requests.\<close>

fun allow_run :: "channel \<Rightarrow> time list \<Rightarrow> (string \<Rightarrow> time list) \<Rightarrow> time list" where
  "allow_run c [] hits = []"
| "allow_run c (t # ts) hits =
     (let (ok, hits') = rate_allow c t hits in (if ok then [t] else []) @ allow_run c ts hits')"

lemma filter_window_mono:
  assumes "sorted ys" "t' \<le> t"
  shows "filter (\<lambda>s. t - s \<le> 60) (filter (\<lambda>s. t' - s \<le> (60::real)) ys) = filter (\<lambda>s. t - s \<le> 60) ys"
  using assms(2) by (auto simp: filter_filter intro!: filter_cong)

lemma rate_allow_bucket:
  assumes "0 < ch_rate_limit c" and "sorted (hits (ch_name c))"
  shows "snd (rate_allow c t hits) (ch_name c) =
      filter (\<lambda>s. t - s \<le> 60) (hits (ch_name c)) @ (if fst (rate_allow c t hits) then [t] else [])"
    and "fst (rate_allow c t hits) \<longleftrightarrow>
      int (length (filter (\<lambda>s. t - s \<le> 60) (hits (ch_name c)))) < ch_rate_limit c"
  using assms by (auto simp: rate_allow_def Let_def rate_win.expire_filter)

text \<open>The bucket is the window of the allowed times, and no window holds more than the limit.\<close>

lemma allow_run_bounded:
  assumes "0 < ch_rate_limit c" and "sorted ts"
    and "hits (ch_name c) = filter (\<lambda>s. last_t - s \<le> 60) past" and "sorted past"
    and "\<forall>s \<in> set past. s \<le> last_t" and "\<forall>t \<in> set ts. last_t \<le> t"
    and "\<And>u. int (length (filter (\<lambda>s. u - 60 \<le> s \<and> s \<le> u) past)) \<le> ch_rate_limit c"
  shows "int (length (filter (\<lambda>s. u - 60 \<le> s \<and> s \<le> u) (past @ allow_run c ts hits))) \<le> ch_rate_limit c"
  using assms(2-)
proof (induction ts arbitrary: hits past last_t)
  case Nil
  then show ?case by simp
next
  case (Cons t ts)
  let ?r = "rate_allow c t hits"
  let ?past = "past @ (if fst ?r then [t] else [])"
  have le: "last_t \<le> t" using Cons.prems(5) by simp
  have sh: "sorted (hits (ch_name c))" using Cons.prems(2,3) by (simp add: sorted_wrt_filter)
  have win: "filter (\<lambda>s. t - s \<le> 60) (hits (ch_name c)) = filter (\<lambda>s. t - s \<le> 60) past"
    using Cons.prems(2) filter_window_mono[OF Cons.prems(3) le] by simp
  have bucket: "snd ?r (ch_name c) = filter (\<lambda>s. t - s \<le> 60) ?past"
    using rate_allow_bucket(1)[of c hits t, OF assms(1) sh] win by simp
  have past_le: "\<forall>s \<in> set ?past. s \<le> t" using Cons.prems(4) le by auto
  have bound: "int (length (filter (\<lambda>s. u - 60 \<le> s \<and> s \<le> u) ?past)) \<le> ch_rate_limit c" for u
  proof (cases "fst ?r \<and> u - 60 \<le> t \<and> t \<le> u")
    case False
    then show ?thesis using Cons.prems(6)[of u] by auto
  next
    case True
    have "filter (\<lambda>s. u - 60 \<le> s \<and> s \<le> u) past = filter (\<lambda>s. u - 60 \<le> s) (filter (\<lambda>s. t - s \<le> 60) past)"
      using True past_le by (auto simp: filter_filter intro!: filter_cong)
    then have "length (filter (\<lambda>s. u - 60 \<le> s \<and> s \<le> u) past) \<le> length (filter (\<lambda>s. t - s \<le> 60) past)"
      by (metis length_filter_le)
    moreover have "int (length (filter (\<lambda>s. t - s \<le> 60) past)) < ch_rate_limit c"
      using True rate_allow_bucket(2)[of c hits t, OF assms(1) sh] win by simp
    ultimately show ?thesis using True by simp
  qed
  have "int (length (filter (\<lambda>s. u - 60 \<le> s \<and> s \<le> u) (?past @ allow_run c ts (snd ?r)))) \<le> ch_rate_limit c"
  proof (rule Cons.IH[where hits = "snd ?r" and last_t = t and past = ?past, OF _ bucket _ past_le])
    show "sorted ts" "\<forall>t' \<in> set ts. t \<le> t'" using Cons.prems(1) by auto
    show "sorted ?past" using Cons.prems(3) past_le by (auto simp: sorted_append)
  qed (rule bound)
  then show ?case by (simp add: Let_def case_prod_beta)
qed

text \<open>C33: However many items a channel with a positive rate limit is offered, and however the offers are
  spaced, no 60-second window contains more allowed items than the limit.
\<close>
theorem rate_limit_holds:
  assumes "0 < ch_rate_limit c" and "sorted ts"
  shows "int (length (filter (\<lambda>s. u - 60 \<le> s \<and> s \<le> u) (allow_run c ts (wk_hits new_worker))))
           \<le> ch_rate_limit c"
proof (cases ts)
  case (Cons t0 rest)
  then show ?thesis
    using allow_run_bounded[of c ts "\<lambda>_. []" t0 "[]" u] assms by (auto simp: new_worker_def)
qed (use assms in simp)

definition sample_channel :: channel where
  "sample_channel = \<lparr>ch_name = ''ops'', ch_type = ''webhook'', ch_enabled = True, ch_config = [],
     ch_url = Some ''https://hooks.example'', ch_template = None, ch_retries = 2, ch_backoff = 5,
     ch_rate_limit = 2, ch_dedup_window = 0, ch_digest_window = 0\<rparr>"

lemma rate_limit_holds_witness:
  "int (length (filter (\<lambda>s. 62 - 60 \<le> s \<and> s \<le> 62)
      (allow_run sample_channel [0, 1, 2, 61, 62] (wk_hits new_worker)))) \<le> ch_rate_limit sample_channel"
  by (rule rate_limit_holds) (simp_all add: sample_channel_def)

section \<open>Retries\<close>

lemma attempts_outcome:
  assumes "\<And>a. \<not> dl_stopped D a"
  shows "attempts D c event tpl b a left =
    (case List.find (\<lambda>k. fst (dl_send D k c event tpl)) [a..<Suc (a + left)] of
       Some k \<Rightarrow> (Some k, snd (dl_send D k c event tpl), map (\<lambda>i. b * 2 ^ i) [a..<k])
     | None \<Rightarrow> (None, snd (dl_send D (a + left) c event tpl), map (\<lambda>i. b * 2 ^ i) [a..<a + left]))"
proof (induction left arbitrary: a)
  case 0
  then show ?case by (simp add: case_prod_beta)
next
  case (Suc left)
  have step: "[a..<Suc (a + Suc left)] = a # [Suc a..<Suc (Suc a + left)]" by (simp add: upt_conv_Cons del: upt_Suc)
  have shift: "[a..<a + Suc left] = a # [Suc a..<Suc a + left]" by (simp add: upt_conv_Cons del: upt_Suc)
  show ?case
  proof (cases "fst (dl_send D a c event tpl)")
    case True
    then show ?thesis unfolding step by (simp add: case_prod_beta)
  next
    case False
    show ?thesis
    proof (cases "List.find (\<lambda>k. fst (dl_send D k c event tpl)) [Suc a..<Suc (Suc a + left)]")
      case None
      then show ?thesis unfolding step shift using False assms Suc.IH[of "Suc a"]
        by (simp add: case_prod_beta del: upt_Suc)
    next
      case (Some k)
      then have "k \<in> set [Suc a..<Suc (Suc a + left)]" by (metis find_Some_iff nth_mem)
      then have "a < k" by (simp del: upt_Suc)
      then have "[a..<k] = a # [Suc a..<k]" by (rule upt_conv_Cons)
      then show ?thesis unfolding step using False assms Suc.IH[of "Suc a"] Some
        by (simp add: case_prod_beta del: upt_Suc)
    qed
  qed
qed

text \<open>C34: When the worker is not stopped, an item is sent at most \<open>retries + 1\<close> times. The log entry says
  \<open>sent\<close> exactly when one of these attempts succeeds, with the number of the first that does, and
  \<open>failed\<close> with the last error otherwise; before attempt \<open>k + 1\<close> the worker waits the backoff times
  \<open>2 ^ k\<close>.
\<close>
theorem retry_outcome:
  fixes q :: queue_item
  defines "c \<equiv> qi_channel q"
  assumes "\<And>a. \<not> dl_stopped D a"
  shows "let (entry, status, waits) = send_with_retry D q;
           n = nat (max 0 (ch_retries c));
           attempt = (\<lambda>k. dl_send D k c (qi_event q) (nr_template (qi_rule q)))
         in case List.find (\<lambda>k. fst (attempt k)) [0..<Suc n] of
              Some k \<Rightarrow> le_status entry = ''sent'' \<and> le_retries entry = Some (int k) \<and> le_error entry = None \<and>
                waits = map (\<lambda>i. max 1 (ch_backoff c) * 2 ^ i) [0..<k]
            | None \<Rightarrow> le_status entry = ''failed'' \<and> le_retries entry = Some (int n) \<and>
                le_error entry = Some (snd (attempt n)) \<and>
                waits = map (\<lambda>i. max 1 (ch_backoff c) * 2 ^ i) [0..<n]"
  using attempts_outcome[OF assms(2), of c "qi_event q" "nr_template (qi_rule q)" "max 1 (ch_backoff c)" 0
      "nat (max 0 (ch_retries c))"]
  unfolding c_def send_with_retry_def
  by (auto simp: Let_def log_skel_def simp del: upt_Suc split: option.splits)

definition sample_item :: queue_item where
  "sample_item = \<lparr>qi_rule = demo_nrule, qi_channel = sample_channel, qi_channel_id = Some ''c1'',
     qi_event = demo_event\<rparr>"

text \<open>The third attempt succeeds, and the worker is never stopped.\<close>

definition sample_delivery :: delivery where
  "sample_delivery = \<lparr>dl_send = (\<lambda>a c event tpl. (a = 2, ''HTTP 503'')), dl_sender = (\<lambda>_. None),
     dl_render = (\<lambda>c event tpl. ev_action event), dl_stopped = (\<lambda>_. False)\<rparr>"

lemma retry_outcome_witness:
  "let (entry, status, waits) = send_with_retry sample_delivery sample_item
   in le_status entry = ''sent'' \<and> le_retries entry = Some 2 \<and> waits = [5, 10]"
  using retry_outcome[of sample_delivery sample_item]
  by (simp add: sample_delivery_def sample_item_def sample_channel_def case_prod_beta Let_def upt_rec)

section \<open>Digests\<close>

definition buffered :: "string \<Rightarrow> worker \<Rightarrow> queue_item list" where
  "buffered c w = (case map_of (wk_buffers w) c of None \<Rightarrow> [] | Some items \<Rightarrow> items)"

definition for_channel :: "string \<Rightarrow> queue_item list \<Rightarrow> queue_item list" where
  "for_channel c items = filter (\<lambda>q. ch_name (qi_channel q) = c) items"

text \<open>Every buffer holds items of its channel only and its age is known.\<close>

definition digests_ok :: "worker \<Rightarrow> bool" where
  "digests_ok w \<longleftrightarrow> distinct (map fst (wk_buffers w)) \<and>
     (\<forall>(c, items) \<in> set (wk_buffers w). map_of (wk_first_at w) c \<noteq> None \<and>
        (\<forall>q \<in> set items. ch_name (qi_channel q) = c))"

lemma digests_okD:
  assumes "digests_ok w"
  shows "q \<in> set (buffered c w) \<Longrightarrow> ch_name (qi_channel q) = c"
    and "map_of (wk_buffers w) c = Some items \<Longrightarrow> map_of (wk_first_at w) c \<noteq> None"
  using assms by (fastforce simp: digests_ok_def buffered_def split: option.splits dest: map_of_SomeD)+

lemma digests_okI:
  assumes "distinct (map fst (wk_buffers w))"
    and "\<And>c items. map_of (wk_buffers w) c = Some items \<Longrightarrow> map_of (wk_first_at w) c \<noteq> None"
    and "\<And>c q. q \<in> set (buffered c w) \<Longrightarrow> ch_name (qi_channel q) = c"
  shows "digests_ok w"
proof -
  have "map_of (wk_first_at w) c \<noteq> None \<and> (\<forall>q \<in> set items. ch_name (qi_channel q) = c)"
    if "(c, items) \<in> set (wk_buffers w)" for c items
  proof -
    have some: "map_of (wk_buffers w) c = Some items" using assms(1) that by (rule map_of_is_SomeI)
    then show ?thesis using assms(2)[OF some] assms(3)[of _ c] by (simp add: buffered_def)
  qed
  then show ?thesis using assms(1) unfolding digests_ok_def by blast
qed

lemma for_channel_own: "digests_ok w \<Longrightarrow> for_channel c (buffered c' w) = (if c' = c then buffered c w else [])"
  unfolding for_channel_def using digests_okD(1) by (auto intro!: filter_True filter_False)

lemma for_channel_append [simp]: "for_channel c (xs @ ys) = for_channel c xs @ for_channel c ys"
  by (simp add: for_channel_def)

lemma buffered_drain [simp]:
  "buffered c (snd (digest_drain c' w)) = (if c = c' then [] else buffered c w)"
  by (simp add: buffered_def digest_drain_def delete_conv)

lemma buffered_add [simp]:
  "buffered c (digest_add now c' q w) = (if c = c' then buffered c w @ [q] else buffered c w)"
  by (simp add: buffered_def digest_add_def update_conv)

lemma digests_ok_drain: "digests_ok w \<Longrightarrow> digests_ok (snd (digest_drain c w))"
proof (rule digests_okI)
  assume "digests_ok w"
  then show "distinct (map fst (wk_buffers (snd (digest_drain c w))))"
    by (simp add: digest_drain_def digests_ok_def distinct_delete)
next
  fix c' items
  assume "digests_ok w" "map_of (wk_buffers (snd (digest_drain c w))) c' = Some items"
  then show "map_of (wk_first_at (snd (digest_drain c w))) c' \<noteq> None"
    using digests_okD(2)[of w c' items] by (simp add: digest_drain_def delete_conv split: if_splits)
next
  fix c' q
  assume "digests_ok w" "q \<in> set (buffered c' (snd (digest_drain c w)))"
  then show "ch_name (qi_channel q) = c'" using digests_okD(1) by (simp split: if_splits)
qed

lemma digests_ok_add:
  assumes "digests_ok w"
  shows "digests_ok (digest_add now (ch_name (qi_channel q)) q w)"
proof (rule digests_okI)
  show "distinct (map fst (wk_buffers (digest_add now (ch_name (qi_channel q)) q w)))"
    using assms by (simp add: digest_add_def digests_ok_def distinct_update)
next
  fix c items
  assume "map_of (wk_buffers (digest_add now (ch_name (qi_channel q)) q w)) c = Some items"
  then show "map_of (wk_first_at (digest_add now (ch_name (qi_channel q)) q w)) c \<noteq> None"
    using digests_okD(2)[OF assms, of c items] by (auto simp: digest_add_def update_conv split: if_splits)
next
  fix c q'
  assume "q' \<in> set (buffered c (digest_add now (ch_name (qi_channel q)) q w))"
  then show "ch_name (qi_channel q') = c" using digests_okD(1)[OF assms] by (auto split: if_splits)
qed

lemma flush_due_drain:
  assumes "map_of (wk_buffers w) cname = Some (q # qs)"
    and "digest_due now cname (digest_window_of (qi_rule q) (qi_channel q)) w"
  shows "flush_due E D now (cname # cnames) w =
    (let (entries, batches, w2) = flush_due E D now cnames (snd (digest_drain cname w))
     in (flush_one E D now (qi_channel q) (q # qs) @ entries, buffered cname w # batches, w2))"
  using assms by (simp add: digest_drain_def buffered_def)

lemma flush_due_skip:
  assumes "\<And>q qs. map_of (wk_buffers w) cname = Some (q # qs) \<Longrightarrow>
      \<not> digest_due now cname (digest_window_of (qi_rule q) (qi_channel q)) w"
  shows "flush_due E D now (cname # cnames) w = flush_due E D now cnames w"
  using assms by (simp split: option.splits list.splits)

lemma flush_due_conserves:
  assumes "digests_ok w" and "flush_due E D now cnames w = (entries, batches, w')"
  shows "digests_ok w' \<and> wk_hits w' = wk_hits w \<and>
    (\<forall>c. for_channel c (concat batches) @ buffered c w' = buffered c w)"
  using assms
proof (induction cnames arbitrary: w entries batches)
  case Nil
  then show ?case by (simp add: for_channel_def)
next
  case (Cons cname cnames)
  show ?case
  proof (cases "\<exists>q qs. map_of (wk_buffers w) cname = Some (q # qs) \<and>
      digest_due now cname (digest_window_of (qi_rule q) (qi_channel q)) w")
    case False
    then show ?thesis using Cons.IH[OF Cons.prems(1)] Cons.prems(2) flush_due_skip[of w cname now E D cnames]
      by metis
  next
    case True
    then obtain q qs where q: "map_of (wk_buffers w) cname = Some (q # qs)"
      "digest_due now cname (digest_window_of (qi_rule q) (qi_channel q)) w" by blast
    let ?w1 = "snd (digest_drain cname w)"
    obtain es bs w2 where s: "flush_due E D now cnames ?w1 = (es, bs, w2)" by (metis prod_cases3)
    have step: "flush_due E D now cnames ?w1 = (es, bs, w')" "batches = buffered cname w # bs"
      using Cons.prems(2) s unfolding flush_due_drain[OF q] by simp_all
    have hits: "wk_hits ?w1 = wk_hits w" by (simp add: digest_drain_def)
    show ?thesis
      using Cons.IH[OF digests_ok_drain[OF Cons.prems(1)] step(1)] for_channel_own[OF Cons.prems(1)] hits
      unfolding step(2) by (auto split: if_splits)
  qed
qed

text \<open>What becomes of a drained batch: one message through the sender of its channel's type, with a line per item in
  order, and one log entry saying how that went; nothing at all if the type has no sender.\<close>

definition sent_once :: "pyenv \<Rightarrow> delivery \<Rightarrow> time \<Rightarrow> queue_item list \<Rightarrow> log_entry list \<Rightarrow> bool" where
  "sent_once E D now b logged \<longleftrightarrow> b \<noteq> [] \<and>
     (let c = qi_channel (hd b) in
      case dl_sender D (ch_type c) of None \<Rightarrow> logged = []
      | Some sender \<Rightarrow> (\<exists>l. logged = [l] \<and> le_channel_name l = ch_name c \<and> le_rule_name l = Some ''(digest)'' \<and>
          le_status l = (if fst (sender (resolved_config c)
              (''BlackWatch digest: '' @ nat_str (length b) @ '' events in the last '' @
               int_str (digest_window_of (qi_rule (hd b)) c) @ ''s'' @ newline @ join newline (map digest_line b))
              (digest_event E now b)) then ''sent'' else ''failed'')))"

lemma flush_one_sent: "sent_once E D now (q # qs) (flush_one E D now (qi_channel q) (q # qs))"
  by (auto simp: sent_once_def flush_one_def digest_body_def Let_def split: option.splits prod.splits)

lemma flush_due_sent:
  assumes "flush_due E D now cnames w = (entries, batches, w')"
  shows "\<exists>logs. entries = concat logs \<and> list_all2 (sent_once E D now) batches logs"
  using assms
proof (induction cnames arbitrary: w entries batches)
  case Nil
  then show ?case by (intro exI[of _ "[]"]) simp
next
  case (Cons cname cnames)
  show ?case
  proof (cases "\<exists>q qs. map_of (wk_buffers w) cname = Some (q # qs) \<and>
      digest_due now cname (digest_window_of (qi_rule q) (qi_channel q)) w")
    case False
    then show ?thesis using Cons.IH[of w] Cons.prems flush_due_skip[of w cname now E D cnames] by metis
  next
    case True
    then obtain q qs where q: "map_of (wk_buffers w) cname = Some (q # qs)"
      "digest_due now cname (digest_window_of (qi_rule q) (qi_channel q)) w" by blast
    obtain es bs w2 where s: "flush_due E D now cnames (snd (digest_drain cname w)) = (es, bs, w2)"
      by (metis prod_cases3)
    have e: "entries = flush_one E D now (qi_channel q) (q # qs) @ es" and b: "batches = (q # qs) # bs"
      using Cons.prems s unfolding flush_due_drain[OF q] by (simp_all add: buffered_def q(1))
    have "flush_due E D now cnames (snd (digest_drain cname w)) = (es, bs, w')"
      using Cons.prems s unfolding flush_due_drain[OF q] by simp
    then obtain logs where "es = concat logs" "list_all2 (sent_once E D now) bs logs" using Cons.IH by blast
    then show ?thesis using flush_one_sent[of E D now q qs] unfolding e b
      by (intro exI[of _ "flush_one E D now (qi_channel q) (q # qs) # logs"]) simp
  qed
qed

lemma digest_due_drain:
  "digest_due now c n (snd (digest_drain c' w)) \<longleftrightarrow> c \<noteq> c' \<and> digest_due now c n w"
  by (auto simp: digest_due_def digest_drain_def delete_conv split: option.splits)

text \<open>A buffer is overdue when the window of its first item has passed.\<close>

definition overdue :: "time \<Rightarrow> string \<Rightarrow> worker \<Rightarrow> bool" where
  "overdue now c w = (case buffered c w of [] \<Rightarrow> False
     | q # qs \<Rightarrow> digest_due now c (digest_window_of (qi_rule q) (qi_channel q)) w)"

lemma overdue_drain: "overdue now c (snd (digest_drain c' w)) \<longleftrightarrow> c \<noteq> c' \<and> overdue now c w"
  by (auto simp: overdue_def digest_due_drain split: list.splits)

lemma overdue_iff:
  "overdue now c w \<longleftrightarrow> (\<exists>q qs. map_of (wk_buffers w) c = Some (q # qs) \<and>
     digest_due now c (digest_window_of (qi_rule q) (qi_channel q)) w)"
  by (auto simp: overdue_def buffered_def split: option.splits list.splits)

lemma flush_due_complete:
  assumes "flush_due E D now cnames w = (entries, batches, w')"
  shows "(overdue now c w' \<longleftrightarrow> overdue now c w \<and> c \<notin> set cnames) \<and>
    (\<not> overdue now c w \<longrightarrow> buffered c w' = buffered c w)"
  using assms
proof (induction cnames arbitrary: w entries batches)
  case (Cons cname cnames)
  show ?case
  proof (cases "overdue now cname w")
    case False
    then have "flush_due E D now (cname # cnames) w = flush_due E D now cnames w"
      unfolding overdue_iff by (intro flush_due_skip) blast
    then show ?thesis using Cons.IH[of w entries batches] Cons.prems False by auto
  next
    case True
    then obtain q qs where q: "map_of (wk_buffers w) cname = Some (q # qs)"
      "digest_due now cname (digest_window_of (qi_rule q) (qi_channel q)) w" unfolding overdue_iff by blast
    obtain es bs w2 where s: "flush_due E D now cnames (snd (digest_drain cname w)) = (es, bs, w2)"
      by (metis prod_cases3)
    then have "flush_due E D now cnames (snd (digest_drain cname w)) = (es, bs, w')"
      using Cons.prems unfolding flush_due_drain[OF q] by simp
    then show ?thesis using Cons.IH[of "snd (digest_drain cname w)" es bs] True
      by (auto simp: overdue_drain)
  qed
qed simp

text \<open>The item a round buffered for a channel: the one whose log entry says so.\<close>

definition digested_item :: "string \<Rightarrow> queue_item option \<Rightarrow> log_entry list \<Rightarrow> queue_item list" where
  "digested_item c item entries = (case item of None \<Rightarrow> []
     | Some q \<Rightarrow> if ch_name (qi_channel q) = c \<and> le_status (last entries) = ''digested'' then [q] else [])"

lemma send_status: "le_status (fst (send_with_retry D q)) \<in> {''sent'', ''failed''}"
  by (auto simp: send_with_retry_def Let_def case_prod_beta log_skel_def split: option.splits)

lemma handle_one_digest:
  assumes "digests_ok w" and "handle_one D now q w = (entry, status, waits, w')"
  shows "digests_ok w' \<and> buffered c w' = buffered c w @ digested_item c (Some q) [entry]"
proof -
  obtain ok hits where ra: "rate_allow (qi_channel q) now (wk_hits w) = (ok, hits)" by fastforce
  have same: "digests_ok (w\<lparr>wk_hits := hits\<rparr>)" "buffered c (w\<lparr>wk_hits := hits\<rparr>) = buffered c w"
    using assms(1) by (simp_all add: digests_ok_def buffered_def)
  show ?thesis
    using assms(2) same digests_ok_add[OF same(1), of now q] send_status[of D q]
    by (auto simp: handle_one_def ra Let_def case_prod_beta digested_item_def log_skel_def split: if_splits)
qed

text \<open>C35: Digests conserve what they buffer, up to one attempt to send it. In any round, for every channel, the items of
  the batches drained followed by those still buffered are the items buffered before followed by the one item
  the round logs as digested; a buffer holds items of its own channel only. Each batch is handed to the sender of
  its channel's type once, as one message with a line per item in order, and makes one log entry, \<open>sent\<close> or
  \<open>failed\<close> as the sender answers; a type without a sender makes no message and no entry. In either case the batch
  has left the buffer, so a digest that fails is not sent again.
\<close>
theorem digest_conserves:
  assumes "digests_ok w" and "worker_round E D now item w = (entries, batches, w')"
  shows "digests_ok w' \<and>
    (\<forall>c. for_channel c (concat batches) @ buffered c w' = buffered c w @ digested_item c item entries) \<and>
    (\<exists>logs own. entries = concat logs @ own \<and> length own = (case item of None \<Rightarrow> 0 | Some q \<Rightarrow> 1) \<and>
       list_all2 (sent_once E D now) batches logs)"
proof -
  obtain es bs w1 where f: "flush_due E D now (map fst (wk_buffers w)) w = (es, bs, w1)" by (metis prod_cases3)
  note kept = flush_due_conserves[OF assms(1) f]
  obtain logs where logs: "es = concat logs" "list_all2 (sent_once E D now) bs logs" using flush_due_sent[OF f] by blast
  show ?thesis
  proof (cases item)
    case None
    then have r: "entries = es" "batches = bs" "w' = w1" using assms(2) f by (simp_all add: worker_round_def)
    show ?thesis unfolding r None using kept logs by (auto simp: digested_item_def)
  next
    case (Some q)
    obtain entry status waits w2 where h: "handle_one D now q w1 = (entry, status, waits, w2)"
      by (metis prod_cases4)
    then have r: "entries = es @ [entry]" "batches = bs" "w' = w2"
      using assms(2) f Some by (simp_all add: worker_round_def)
    have "digested_item c (Some q) (es @ [entry]) = digested_item c (Some q) [entry]" for c
      by (simp add: digested_item_def)
    moreover have "\<exists>logs own. es @ [entry] = concat logs @ own \<and> length own = 1 \<and> list_all2 (sent_once E D now) bs logs"
      using logs by (intro exI[of _ logs] exI[of _ "[entry]"]) simp
    ultimately show ?thesis unfolding r Some option.case
      using kept handle_one_digest[OF _ h] by (metis append_assoc)
  qed
qed

text \<open>A digest does not wait longer than its window: a round in which no item arrives leaves no buffer
  whose first item has been waiting for its digest window, and it flushes no other buffer.
\<close>
theorem digest_flushed_in_time:
  assumes "worker_round E D now None w = (entries, batches, w')"
  shows "\<not> overdue now c w' \<and> (overdue now c w \<or> buffered c w' = buffered c w)"
proof -
  have f: "flush_due E D now (map fst (wk_buffers w)) w = (entries, batches, w')"
    using assms by (simp add: worker_round_def case_prod_beta prod_eq_iff)
  have named: "overdue now c w \<Longrightarrow> c \<in> set (map fst (wk_buffers w))"
    unfolding overdue_iff by (metis domI dom_map_of_conv_image_fst set_map)
  show ?thesis using flush_due_complete[OF f, of c] named by blast
qed

definition digest_channel :: channel where
  "digest_channel = sample_channel\<lparr>ch_digest_window := 60\<rparr>"

definition digest_item :: queue_item where
  "digest_item = sample_item\<lparr>qi_channel := digest_channel\<rparr>"

definition digesting_worker :: worker where
  "digesting_worker = digest_add 0 ''ops'' digest_item new_worker"

lemmas sample_worker_defs = digesting_worker_def digest_item_def digest_channel_def sample_item_def
  sample_channel_def sample_delivery_def digest_add_def new_worker_def demo_nrule_def

lemma digest_conserves_witness:
  "\<exists>entries batches w'. worker_round demo_env sample_delivery 60 None digesting_worker = (entries, batches, w') \<and>
     for_channel ''ops'' (concat batches) @ buffered ''ops'' w' = [digest_item] \<and>
     (\<exists>logs. entries = concat logs \<and> list_all2 (sent_once demo_env sample_delivery 60) batches logs)"
proof -
  have "digests_ok digesting_worker" "buffered ''ops'' digesting_worker = [digest_item]"
    by (simp_all add: digests_ok_def buffered_def sample_worker_defs)
  moreover obtain entries batches w' where
    r: "worker_round demo_env sample_delivery 60 None digesting_worker = (entries, batches, w')" by (metis prod_cases3)
  ultimately show ?thesis using digest_conserves[OF _ r] by (auto simp: digested_item_def)
qed

text \<open>A batch whose channel type has no sender is lost without a trace in the log.\<close>

lemma digest_without_sender_lost:
  assumes "map_of (wk_buffers w) c = Some (q # qs)" and "dl_sender D (ch_type (qi_channel q)) = None"
    and "digest_due now c (digest_window_of (qi_rule q) (qi_channel q)) w"
  shows "flush_due E D now [c] w = ([], [q # qs], snd (digest_drain c w))"
  using assms by (simp add: flush_one_def digest_drain_def)

lemma digest_flushed_in_time_witness:
  "\<not> overdue 60 ''ops'' (snd (snd (worker_round demo_env sample_delivery 60 None digesting_worker)))"
  using digest_flushed_in_time[of demo_env sample_delivery 60 digesting_worker _ _ _ "''ops''"] by (metis prod.collapse)

end
