(* ===== verification/Password.thy ===== *)
theory Password
  imports Prelude
begin

text \<open>
  Password hashes (\<open>hash_password\<close>, \<open>verify_password\<close> in \<open>src/blackwatch/auth.py\<close>) down to the
  text format \<open>scheme$iterations$salt$key\<close>: splitting, reading the iteration count, and the base64
  codec of the standard library, whose decoder skips characters outside the alphabet and stops at
  complete padding. Bytes are characters. The key derivation itself is a parameter: \<open>None\<close> where
  \<open>pbkdf2_hmac\<close> raises.
\<close>

type_synonym kdf = "string \<Rightarrow> string \<Rightarrow> int \<Rightarrow> nat \<Rightarrow> string option"

section \<open>Base64\<close>

definition b64_alphabet :: string where
  "b64_alphabet = ''ABCDEFGHIJKLMNOPQRSTUVWXYZabcdefghijklmnopqrstuvwxyz0123456789+/''"

definition b64_sym :: "nat \<Rightarrow> char" where
  "b64_sym n = b64_alphabet ! n"

fun position :: "nat \<Rightarrow> 'a list \<Rightarrow> 'a \<Rightarrow> nat option" where
  "position i [] x = None"
| "position i (y # ys) x = (if x = y then Some i else position (Suc i) ys x)"

definition b64_val :: "char \<Rightarrow> nat option" where
  "b64_val c = position 0 b64_alphabet c"

abbreviation byte :: "char \<Rightarrow> nat" where
  "byte c \<equiv> of_char c"

fun b64encode :: "string \<Rightarrow> string" where
  "b64encode [] = []"
| "b64encode [a] = [b64_sym (byte a div 4), b64_sym (byte a mod 4 * 16), CHR ''='', CHR ''='']"
| "b64encode [a, b] = [b64_sym (byte a div 4), b64_sym (byte a mod 4 * 16 + byte b div 16),
     b64_sym (byte b mod 16 * 4), CHR ''='']"
| "b64encode (a # b # c # r) =
     b64_sym (byte a div 4) # b64_sym (byte a mod 4 * 16 + byte b div 16) #
     b64_sym (byte b mod 16 * 4 + byte c div 64) # b64_sym (byte c mod 64) # b64encode r"

text \<open>The scanner: position in the group of four, bits left over, padding characters seen.\<close>

fun b64_scan :: "nat \<Rightarrow> nat \<Rightarrow> nat \<Rightarrow> string \<Rightarrow> string option" where
  "b64_scan q l p [] = (if q = 0 then Some [] else None)"
| "b64_scan q l p (c # cs) =
     (if c = CHR ''='' then
        if q \<ge> 2 \<and> q + p + 1 \<ge> 4 then Some [] else b64_scan q l (if q \<ge> 2 then p + 1 else p) cs
      else case b64_val c of None \<Rightarrow> b64_scan q l p cs
      | Some v \<Rightarrow>
          if q = 0 then b64_scan 1 v 0 cs
          else if q = 1 then map_option (Cons (char_of (l * 4 + v div 16))) (b64_scan 2 (v mod 16) 0 cs)
          else if q = 2 then map_option (Cons (char_of (l * 16 + v div 4))) (b64_scan 3 (v mod 4) 0 cs)
          else map_option (Cons (char_of (l * 64 + v))) (b64_scan 0 0 0 cs))"

text \<open>A string argument must be ASCII.\<close>

definition b64decode :: "string \<Rightarrow> string option" where
  "b64decode s = (if list_all (\<lambda>c. byte c < 128) s then b64_scan 0 0 0 s else None)"

section \<open>Hashing and verifying\<close>

definition PBKDF2_SCHEME :: string where "PBKDF2_SCHEME = ''pbkdf2_sha256''"
definition PBKDF2_ITER :: int where "PBKDF2_ITER = 200000"
definition KEY_BYTES :: nat where "KEY_BYTES = 32"

definition encode_hash :: "int \<Rightarrow> string \<Rightarrow> string \<Rightarrow> string" where
  "encode_hash iters salt dk =
     join ''$'' [PBKDF2_SCHEME, int_str iters, b64encode salt, b64encode dk]"

text \<open>\<open>salt\<close> is what \<open>secrets.token_bytes\<close> returns.\<close>

definition hash_password :: "kdf \<Rightarrow> string \<Rightarrow> string \<Rightarrow> pyerr + string" where
  "hash_password K salt password =
     (if password = [] then Inl (ValueError ''password must be a non-empty string'')
      else case K password salt PBKDF2_ITER KEY_BYTES of
        None \<Rightarrow> Inl (ValueError ''pbkdf2_hmac'')
      | Some dk \<Rightarrow> Inr (encode_hash PBKDF2_ITER salt dk))"

definition verify_password :: "kdf \<Rightarrow> string \<Rightarrow> string \<Rightarrow> bool" where
  "verify_password K password stored_hash =
     (case split_on (CHR ''$'') stored_hash of
        [scheme, iter_str, salt_b64, key_b64] \<Rightarrow>
          if scheme \<noteq> PBKDF2_SCHEME then False
          else (case parse_int iter_str of None \<Rightarrow> False | Some iters \<Rightarrow>
            (case b64decode salt_b64 of None \<Rightarrow> False | Some salt \<Rightarrow>
              (case b64decode key_b64 of None \<Rightarrow> False | Some expected \<Rightarrow>
                (case K password salt iters (length expected) of None \<Rightarrow> False
                 | Some actual \<Rightarrow> actual = expected))))
      | _ \<Rightarrow> False)"

section \<open>The codec\<close>

lemma position_nth: "distinct xs \<Longrightarrow> n < length xs \<Longrightarrow> position i xs (xs ! n) = Some (i + n)"
proof (induction xs arbitrary: i n)
  case (Cons x xs)
  then show ?case by (cases n) auto
qed simp

lemma b64_alphabet_distinct: "distinct b64_alphabet"
  by code_simp

lemma b64_alphabet_length: "length b64_alphabet = 64"
  by (simp add: b64_alphabet_def)

lemma b64_val_sym [simp]: "n < 64 \<Longrightarrow> b64_val (b64_sym n) = Some n"
  using position_nth[OF b64_alphabet_distinct, of n 0]
  by (simp add: b64_val_def b64_sym_def b64_alphabet_length)

text \<open>What every symbol of the alphabet is: not the padding, not a field separator, ASCII.\<close>

lemma b64_alphabet_plain:
  "list_all (\<lambda>c. c \<noteq> CHR ''='' \<and> c \<noteq> CHR ''$'' \<and> byte c < 128) b64_alphabet"
  by (simp add: b64_alphabet_def)

lemma b64_sym_plain: "n < 64 \<Longrightarrow> b64_sym n \<noteq> CHR ''='' \<and> b64_sym n \<noteq> CHR ''$'' \<and> byte (b64_sym n) < 128"
  using b64_alphabet_plain nth_mem[of n b64_alphabet]
  by (auto simp: list_all_iff b64_sym_def b64_alphabet_length)

lemmas b64_sym_simps [simp] =
  b64_sym_plain[THEN conjunct1] b64_sym_plain[THEN conjunct2, THEN conjunct1]
  b64_sym_plain[THEN conjunct2, THEN conjunct2]

lemma byte_parts [simp]:
  "byte a div 4 < 64" "byte a div 16 < 16" "byte a div 64 < 4"
  by (simp_all add: div_less_iff_less_mult)

text \<open>The bits of a group: every symbol is below 64, and the parts come back out of it.\<close>

lemma b64_group_bounds [simp]:
  "byte a mod 4 * 16 < 64" "byte a mod 4 * 16 + byte b div 16 < 64"
  "byte b mod 16 * 4 < 64" "byte b mod 16 * 4 + byte c div 64 < 64"
proof -
  have "byte a mod 4 < 4" "byte b mod 16 < 16" "byte b div 16 < 16" "byte c div 64 < 4" by simp_all
  then show "byte a mod 4 * 16 < 64" "byte a mod 4 * 16 + byte b div 16 < 64"
    "byte b mod 16 * 4 < 64" "byte b mod 16 * 4 + byte c div 64 < 64" by linarith+
qed

lemma b64_regroup [simp]:
  "(byte a mod 4 * 16 + byte b div 16) div 16 = byte a mod 4"
  "(byte a mod 4 * 16 + byte b div 16) mod 16 = byte b div 16"
  "(byte b mod 16 * 4 + byte c div 64) div 4 = byte b mod 16"
  "(byte b mod 16 * 4 + byte c div 64) mod 4 = byte c div 64"
  by simp_all

text \<open>Decoding what was encoded gives it back: on one, two and three bytes, then by induction.\<close>

lemma b64_scan_encode: "b64_scan 0 0 0 (b64encode s) = Some s"
  by (induction s rule: b64encode.induct) simp_all

lemma b64encode_plain: "list_all (\<lambda>c. c \<noteq> CHR ''$'' \<and> byte c < 128) (b64encode s)"
  by (induction s rule: b64encode.induct) simp_all

lemma b64_roundtrip [simp]: "b64decode (b64encode s) = Some s"
  using b64encode_plain[of s] by (simp add: b64decode_def b64_scan_encode list_all_iff)

lemma b64encode_no_sep [simp]: "CHR ''$'' \<notin> set (b64encode s)"
  using b64encode_plain[of s] by (auto simp: list_all_iff)

lemma verify_encoded:
  "verify_password K pw (encode_hash PBKDF2_ITER salt dk) \<longleftrightarrow> K pw salt PBKDF2_ITER (length dk) = Some dk"
proof -
  have "digit_char 2 = CHR ''2''" "digit_char 0 = CHR ''0''" by code_simp+
  then have n: "int_str PBKDF2_ITER = ''200000''"
    by (simp add: PBKDF2_ITER_def int_str_def nat_str.simps)
  have p: "parse_int ''200000'' = Some PBKDF2_ITER"
    by (simp add: parse_int_def str_strip_def is_space_def PBKDF2_ITER_def)
  have "split_on (CHR ''$'') (encode_hash PBKDF2_ITER salt dk) =
      [PBKDF2_SCHEME, ''200000'', b64encode salt, b64encode dk]"
    unfolding encode_hash_def n PBKDF2_SCHEME_def by (simp add: split_on_append split_on_no_sep)
  then show ?thesis by (auto simp: verify_password_def p split: option.splits)
qed

text \<open>C16: A password verifies against its own hash, and another password verifies against it exactly when
  the key derivation gives both the same key; no password is hashed that is empty.
\<close>
theorem password_roundtrip:
  assumes "K q salt PBKDF2_ITER KEY_BYTES = Some dk" and "length dk = KEY_BYTES" and "q \<noteq> []"
  shows "\<exists>h. hash_password K salt q = Inr h \<and> verify_password K q h \<and>
    (\<forall>pw. verify_password K pw h \<longleftrightarrow>
       K pw salt PBKDF2_ITER KEY_BYTES = K q salt PBKDF2_ITER KEY_BYTES)"
  using assms by (auto simp: hash_password_def verify_encoded)

text \<open>A stand-in for the derivation: the salt and the password, padded or cut to the length.\<close>

definition demo_kdf :: kdf where
  "demo_kdf pw salt iters n = (if iters < 1 \<or> n < 1 then None
     else Some (take n (salt @ pw @ replicate n (CHR 0x00))))"

lemma password_roundtrip_witness:
  "verify_password demo_kdf ''secret'' (encode_hash PBKDF2_ITER ''salt'' (''saltsecret'' @ replicate 22 (CHR 0x00))) \<and>
   \<not> verify_password demo_kdf ''guess'' (encode_hash PBKDF2_ITER ''salt'' (''saltsecret'' @ replicate 22 (CHR 0x00)))"
proof -
  have k: "demo_kdf ''secret'' ''salt'' PBKDF2_ITER KEY_BYTES = Some (''saltsecret'' @ replicate 22 (CHR 0x00))"
    "demo_kdf ''guess'' ''salt'' PBKDF2_ITER KEY_BYTES \<noteq> Some (''saltsecret'' @ replicate 22 (CHR 0x00))"
    by (simp_all add: demo_kdf_def PBKDF2_ITER_def KEY_BYTES_def eval_nat_numeral)
  have len: "length (''saltsecret'' @ replicate 22 (CHR 0x00)) = KEY_BYTES" by (simp add: KEY_BYTES_def)
  from password_roundtrip[where K = demo_kdf and q = "''secret''", OF k(1) len] obtain h where
    "hash_password demo_kdf ''salt'' ''secret'' = Inr h" "verify_password demo_kdf ''secret'' h"
    "\<And>pw. verify_password demo_kdf pw h \<longleftrightarrow>
       demo_kdf pw ''salt'' PBKDF2_ITER KEY_BYTES = demo_kdf ''secret'' ''salt'' PBKDF2_ITER KEY_BYTES"
    by blast
  then show ?thesis using k by (simp add: hash_password_def)
qed

end
