(* ===== verification/Auth.thy ===== *)
theory Auth
  imports Password
begin

text \<open>
  Users, sessions and roles (\<open>src/blackwatch/auth.py\<close>, the authentication part of
  \<open>src/blackwatch/storage.py\<close>, the login, logout and password handlers of \<open>src/blackwatch/api.py\<close>, and
  the authentication middleware of \<open>src/blackwatch/main.py\<close>). Session identifiers and salts, drawn from
  \<open>secrets\<close>, are arguments. \<open>db_fails\<close> of the environment says which storage calls raise.
\<close>

section \<open>Tables\<close>

record user_row =
  us_hash :: string
  us_role :: string

record login_row =
  lg_user :: string
  lg_expires :: time

record auth_db =
  au_users :: "(string \<times> user_row) list"
  au_sessions :: "(string \<times> login_row) list"

definition ROLE_ADMIN :: string where "ROLE_ADMIN = ''admin''"
definition ROLE_VIEWER :: string where "ROLE_VIEWER = ''viewer''"
definition SESSION_TTL :: time where "SESSION_TTL = 1800"
definition DEFAULT_USERNAME :: string where "DEFAULT_USERNAME = ''admin''"
definition DEFAULT_PASSWORD :: string where "DEFAULT_PASSWORD = ''password''"

definition get_user :: "string \<Rightarrow> auth_db \<Rightarrow> user_row option" where
  "get_user username st = map_of (au_users st) username"

definition get_user_role :: "pyenv \<Rightarrow> string \<Rightarrow> auth_db \<Rightarrow> string" where
  "get_user_role E username st =
     (if username = [] \<or> db_fails E ''get_user_role'' then ROLE_VIEWER
      else case get_user username st of None \<Rightarrow> ROLE_VIEWER | Some r \<Rightarrow> str_or (Some (us_role r)) ROLE_VIEWER)"

text \<open>A new row without a role gets the default of the column.\<close>

definition upsert_user :: "string \<Rightarrow> string \<Rightarrow> string option \<Rightarrow> auth_db \<Rightarrow> auth_db" where
  "upsert_user username h role st = st\<lparr>au_users := AList.update username
     (case get_user username st of
        None \<Rightarrow> \<lparr>us_hash = h, us_role = (case role of None \<Rightarrow> ROLE_VIEWER | Some r \<Rightarrow> r)\<rparr>
      | Some u \<Rightarrow> \<lparr>us_hash = h, us_role = (case role of None \<Rightarrow> us_role u | Some r \<Rightarrow> r)\<rparr>) (au_users st)\<rparr>"

definition set_user_role :: "string \<Rightarrow> string \<Rightarrow> auth_db \<Rightarrow> auth_db" where
  "set_user_role username role st = (case get_user username st of None \<Rightarrow> st
     | Some u \<Rightarrow> st\<lparr>au_users := AList.update username (u\<lparr>us_role := role\<rparr>) (au_users st)\<rparr>)"

text \<open>The identifier is the primary key, the user a foreign key: \<open>None\<close> where the insert raises.\<close>

definition insert_session :: "string \<Rightarrow> string \<Rightarrow> time \<Rightarrow> auth_db \<Rightarrow> auth_db option" where
  "insert_session sid username expires st =
     (if map_of (au_sessions st) sid \<noteq> None \<or> get_user username st = None then None
      else Some (st\<lparr>au_sessions := (sid, \<lparr>lg_user = username, lg_expires = expires\<rparr>) # au_sessions st\<rparr>))"

definition get_session :: "string \<Rightarrow> auth_db \<Rightarrow> login_row option" where
  "get_session sid st = map_of (au_sessions st) sid"

definition update_session_expiry :: "string \<Rightarrow> time \<Rightarrow> auth_db \<Rightarrow> auth_db" where
  "update_session_expiry sid t st = (case get_session sid st of None \<Rightarrow> st
     | Some r \<Rightarrow> st\<lparr>au_sessions := AList.update sid (r\<lparr>lg_expires := t\<rparr>) (au_sessions st)\<rparr>)"

definition drop_session :: "string \<Rightarrow> auth_db \<Rightarrow> auth_db" where
  "drop_session sid st = st\<lparr>au_sessions := AList.delete sid (au_sessions st)\<rparr>"

definition prune_expired_sessions :: "time \<Rightarrow> auth_db \<Rightarrow> int \<times> auth_db" where
  "prune_expired_sessions now st =
     (int (length (filter (\<lambda>(_, r). lg_expires r < now) (au_sessions st))),
      st\<lparr>au_sessions := filter (\<lambda>(_, r). \<not> lg_expires r < now) (au_sessions st)\<rparr>)"

section \<open>Sessions\<close>

definition create_session :: "pyenv \<Rightarrow> time \<Rightarrow> string \<Rightarrow> string \<Rightarrow> auth_db \<Rightarrow> (string \<times> time) option \<times> auth_db" where
  "create_session E now sid username st =
     (if db_fails E ''insert_session'' then (None, st)
      else case insert_session sid username (now + SESSION_TTL) st of
        None \<Rightarrow> (None, st) | Some st' \<Rightarrow> (Some (sid, now + SESSION_TTL), st'))"

definition touch_session :: "pyenv \<Rightarrow> time \<Rightarrow> string \<Rightarrow> auth_db \<Rightarrow> (string \<times> time) option \<times> auth_db" where
  "touch_session E now sid st =
     (if sid = [] \<or> db_fails E ''get_session'' then (None, st)
      else case get_session sid st of None \<Rightarrow> (None, st)
      | Some row \<Rightarrow>
          if lg_expires row < now then (None, if db_fails E ''delete_session'' then st else drop_session sid st)
          else (Some (lg_user row, now + SESSION_TTL),
                if db_fails E ''update_session_expiry'' then st
                else update_session_expiry sid (now + SESSION_TTL) st))"

definition delete_session :: "pyenv \<Rightarrow> string option \<Rightarrow> auth_db \<Rightarrow> auth_db" where
  "delete_session E sid st =
     (if \<not> str_truthy sid \<or> db_fails E ''delete_session'' then st else drop_session (the sid) st)"

definition seed_admin_if_empty :: "pyenv \<Rightarrow> kdf \<Rightarrow> string \<Rightarrow> auth_db \<Rightarrow> auth_db" where
  "seed_admin_if_empty E K salt st =
     (if db_fails E ''list_users'' \<or> au_users st \<noteq> [] then st
      else case hash_password K salt DEFAULT_PASSWORD of Inl e \<Rightarrow> st
      | Inr h \<Rightarrow> upsert_user DEFAULT_USERNAME h (Some ROLE_ADMIN) st)"

definition change_password ::
  "pyenv \<Rightarrow> kdf \<Rightarrow> string \<Rightarrow> string \<Rightarrow> string \<Rightarrow> string \<Rightarrow> auth_db \<Rightarrow> (bool \<times> string) \<times> auth_db" where
  "change_password E K salt username current new st =
     (if length new < 8 then ((False, ''new password must be at least 8 characters''), st)
      else if db_fails E ''get_user'' then ((False, ''internal error''), st)
      else case get_user username st of None \<Rightarrow> ((False, ''user not found''), st)
      | Some user \<Rightarrow>
          if \<not> verify_password K current (us_hash user) then ((False, ''current password is wrong''), st)
          else case hash_password K salt new of Inl e \<Rightarrow> ((False, ''could not save new password''), st)
          | Inr h \<Rightarrow>
              if db_fails E ''upsert_user'' then ((False, ''could not save new password''), st)
              else ((True, ''password changed''), upsert_user username h None st))"

section \<open>Requests\<close>

datatype http_error = HTTPException int string | Unhandled string

definition auth_login ::
  "pyenv \<Rightarrow> kdf \<Rightarrow> time \<Rightarrow> string \<Rightarrow> string \<Rightarrow> string \<Rightarrow> auth_db \<Rightarrow> (http_error + string \<times> time) \<times> auth_db" where
  "auth_login E K now sid name password st =
     (let username = str_strip name in
      if username = [] \<or> password = [] then (Inl (HTTPException 400 ''username and password required''), st)
      else if db_fails E ''get_user'' then (Inl (Unhandled ''get_user''), st)
      else case get_user username st of None \<Rightarrow> (Inl (HTTPException 401 ''invalid credentials''), st)
      | Some user \<Rightarrow>
          if \<not> verify_password K password (us_hash user)
          then (Inl (HTTPException 401 ''invalid credentials''), st)
          else case create_session E now sid username st of
            (None, st') \<Rightarrow> (Inl (Unhandled ''insert_session''), st')
          | (Some (s, expires), st') \<Rightarrow> (Inr (s, expires), st'))"

definition auth_change_password ::
  "pyenv \<Rightarrow> kdf \<Rightarrow> string \<Rightarrow> string option \<Rightarrow> string \<Rightarrow> string \<Rightarrow> auth_db \<Rightarrow> (http_error + unit) \<times> auth_db" where
  "auth_change_password E K salt user current new st =
     (if \<not> str_truthy user then (Inl (HTTPException 401 ''not authenticated''), st)
      else if current = [] \<or> new = []
      then (Inl (HTTPException 400 ''current_password and new_password required''), st)
      else case change_password E K salt (the user) current new st of
        ((ok, msg), st') \<Rightarrow> (if ok then Inr () else Inl (HTTPException 400 msg), st'))"

definition PUBLIC_PATHS :: "string list" where
  "PUBLIC_PATHS = [''/'', ''/healthz'', ''/ingest'', ''/api/ingest'', ''/auth/login'', ''/api/auth/login'',
     ''/auth/logout'', ''/api/auth/logout'']"

definition PUBLIC_PREFIXES :: "string list" where
  "PUBLIC_PREFIXES = [''/docs'', ''/openapi'', ''/redoc'', ''/static/'']"

definition needs_auth :: "string \<Rightarrow> bool" where
  "needs_auth path = (path \<notin> set PUBLIC_PATHS \<and> \<not> list_ex (\<lambda>p. prefix p path) PUBLIC_PREFIXES)"

text \<open>What the middleware stashes on the request: the user and the role; \<open>401\<close> ends the request.\<close>

definition auth_middleware ::
  "pyenv \<Rightarrow> time \<Rightarrow> string \<Rightarrow> string option \<Rightarrow> auth_db \<Rightarrow>
   (http_error + (string \<times> string) option) \<times> auth_db" where
  "auth_middleware E now path cookie st =
     (if \<not> needs_auth path then (Inr None, st)
      else let (result, st') =
             (if str_truthy cookie then touch_session E now (the cookie) st else (None, st))
           in case result of None \<Rightarrow> (Inl (HTTPException 401 ''authentication required''), st')
           | Some (user, _) \<Rightarrow> (Inr (Some (user, get_user_role E user st')), st'))"

definition role_from_request :: "pyenv \<Rightarrow> (string \<times> string) option \<Rightarrow> auth_db \<Rightarrow> string option \<times> string" where
  "role_from_request E stashed st =
     (case stashed of None \<Rightarrow> (None, ROLE_VIEWER)
      | Some (user, role) \<Rightarrow>
          if user = [] then (None, ROLE_VIEWER)
          else (Some user, str_or (Some (if role = [] then get_user_role E user st else role)) ROLE_VIEWER))"

definition get_current_user_with_role ::
  "pyenv \<Rightarrow> (string \<times> string) option \<Rightarrow> auth_db \<Rightarrow> http_error + string \<times> string" where
  "get_current_user_with_role E stashed st =
     (case role_from_request E stashed st of
        (None, _) \<Rightarrow> Inl (HTTPException 401 ''not authenticated'')
      | (Some user, role) \<Rightarrow> Inr (user, role))"

definition role_rank :: "string \<Rightarrow> int \<Rightarrow> int" where
  "role_rank role fallback = (if role = ROLE_VIEWER then 0 else if role = ROLE_ADMIN then 1 else fallback)"

definition require_role ::
  "string \<Rightarrow> pyenv \<Rightarrow> (string \<times> string) option \<Rightarrow> auth_db \<Rightarrow> http_error + string \<times> string" where
  "require_role role E stashed st =
     (case get_current_user_with_role E stashed st of Inl e \<Rightarrow> Inl e
      | Inr (user, actual) \<Rightarrow>
          if role_rank actual (- 1) < role_rank role 99
          then Inl (HTTPException 403 ''admin role required'') else Inr (user, actual))"

text \<open>A request to a handler that depends on \<open>require_role("admin")\<close>: the middleware, then the guard.\<close>

definition admin_request ::
  "pyenv \<Rightarrow> time \<Rightarrow> string \<Rightarrow> string option \<Rightarrow> auth_db \<Rightarrow> (http_error + string \<times> string) \<times> auth_db" where
  "admin_request E now path cookie st =
     (case auth_middleware E now path cookie st of (Inl e, st') \<Rightarrow> (Inl e, st')
      | (Inr stashed, st') \<Rightarrow> (require_role ROLE_ADMIN E stashed st', st'))"

section \<open>Session lifetime\<close>

datatype auth_op =
    Login string string string
  | Touch string
  | Logout string
  | Rotate string string string string
  | Prune

text \<open>\<open>Login sid user password\<close>, \<open>Rotate salt user current new\<close>: the identifier and salt are drawn.\<close>

fun auth_step :: "pyenv \<Rightarrow> kdf \<Rightarrow> time \<times> auth_op \<Rightarrow> auth_db \<Rightarrow> auth_db" where
  "auth_step E K (now, Login sid u p) st = snd (auth_login E K now sid u p st)"
| "auth_step E K (now, Touch sid) st = snd (touch_session E now sid st)"
| "auth_step E K (now, Logout sid) st = delete_session E (Some sid) st"
| "auth_step E K (now, Rotate salt u c n) st = snd (auth_change_password E K salt (Some u) c n st)"
| "auth_step E K (now, Prune) st = snd (prune_expired_sessions now st)"

definition auth_run :: "pyenv \<Rightarrow> kdf \<Rightarrow> (time \<times> auth_op) list \<Rightarrow> auth_db \<Rightarrow> auth_db" where
  "auth_run E K ops st = fold (auth_step E K) ops st"

text \<open>The specification, on the log of operations alone.\<close>

definition login_sids :: "(time \<times> auth_op) list \<Rightarrow> string list" where
  "login_sids ops = List.map_filter (\<lambda>(t, op). case op of Login sid u p \<Rightarrow> Some sid | _ \<Rightarrow> None) ops"

definition touches :: "string \<Rightarrow> (time \<times> auth_op) list \<Rightarrow> time list" where
  "touches sid ops = map fst (filter (\<lambda>(t, op). op = Touch sid) ops)"

text \<open>From the last use on, no logout and never more than the lifetime between two uses.\<close>

definition stays_alive :: "string \<Rightarrow> time \<Rightarrow> (time \<times> auth_op) list \<Rightarrow> time \<Rightarrow> bool" where
  "stays_alive sid used ops now \<longleftrightarrow>
     list_all (\<lambda>(t, op). op \<noteq> Logout sid) ops \<and>
     successively (\<lambda>a b. b \<le> a + SESSION_TTL) (used # touches sid ops @ [now])"

definition healthy :: "pyenv \<Rightarrow> bool" where
  "healthy E \<longleftrightarrow> list_all (\<lambda>f. \<not> db_fails E f)
     [''get_session'', ''insert_session'', ''delete_session'', ''update_session_expiry'', ''get_user'', ''get_user_role'']"

lemma healthy_simps [simp]:
  assumes "healthy E"
  shows "\<not> db_fails E ''get_session''" "\<not> db_fails E ''insert_session''" "\<not> db_fails E ''delete_session''"
    "\<not> db_fails E ''update_session_expiry''" "\<not> db_fails E ''get_user''" "\<not> db_fails E ''get_user_role''"
  using assms by (simp_all add: healthy_def)

lemma get_session_update [simp]:
  "get_session s (update_session_expiry sid t st) =
     (if s = sid then map_option (\<lambda>r. r\<lparr>lg_expires := t\<rparr>) (get_session sid st) else get_session s st)"
  by (auto simp: update_session_expiry_def get_session_def update_conv split: option.splits)

lemma get_session_drop [simp]:
  "get_session s (drop_session sid st) = (if s = sid then None else get_session s st)"
  by (simp add: drop_session_def get_session_def delete_conv)

lemma upsert_user_sessions [simp]: "get_session s (upsert_user u h r st) = get_session s st"
  by (simp add: upsert_user_def get_session_def)

lemma change_password_sessions [simp]:
  "au_sessions (snd (change_password E K salt u c n st)) = au_sessions st"
  by (simp add: change_password_def upsert_user_def split: option.splits sum.splits)

lemma auth_change_password_sessions [simp]:
  "get_session s (snd (auth_change_password E K salt u c n st)) = get_session s st"
  by (simp add: auth_change_password_def get_session_def case_prod_beta)

lemma auth_run_Nil [simp]: "auth_run E K [] st = st"
  by (simp add: auth_run_def)

lemma auth_run_Cons [simp]: "auth_run E K (x # ops) st = auth_run E K ops (auth_step E K x st)"
  by (simp add: auth_run_def)

lemma auth_run_append: "auth_run E K (xs @ ys) st = auth_run E K ys (auth_run E K xs st)"
  by (simp add: auth_run_def)

definition sessions_wf :: "auth_db \<Rightarrow> bool" where
  "sessions_wf st \<longleftrightarrow> distinct (map fst (au_sessions st))"

lemma sessions_wf_step: "sessions_wf st \<Longrightarrow> sessions_wf (auth_step E K x st)"
  by (induction E K x st rule: auth_step.induct)
    (auto simp: sessions_wf_def auth_login_def create_session_def insert_session_def touch_session_def
      delete_session_def drop_session_def update_session_expiry_def auth_change_password_def
      prune_expired_sessions_def Let_def case_prod_beta distinct_update distinct_delete distinct_map_filter
      map_of_eq_None_iff split: option.splits)

lemma get_session_login:
  "get_session s (snd (auth_login E K now sid u p st)) =
     (if s = sid \<and> (\<exists>x. fst (auth_login E K now sid u p st) = Inr x)
      then Some \<lparr>lg_user = str_strip u, lg_expires = now + SESSION_TTL\<rparr> else get_session s st)"
  by (auto simp: auth_login_def create_session_def insert_session_def get_session_def Let_def split: option.splits)

lemma get_session_touch:
  "healthy E \<Longrightarrow> get_session s (snd (touch_session E now sid st)) =
     (if s = sid \<and> sid \<noteq> [] then
        case get_session sid st of None \<Rightarrow> None
        | Some r \<Rightarrow> if lg_expires r < now then None else Some (r\<lparr>lg_expires := now + SESSION_TTL\<rparr>)
      else get_session s st)"
  by (auto simp: touch_session_def split: option.splits)

lemma get_session_logout:
  "healthy E \<Longrightarrow> get_session s (delete_session E (Some sid) st) =
     (if s = sid \<and> sid \<noteq> [] then None else get_session s st)"
  by (simp add: delete_session_def)

lemma get_session_prune:
  "sessions_wf st \<Longrightarrow> get_session s (snd (prune_expired_sessions now st)) =
     (case get_session s st of None \<Rightarrow> None | Some r \<Rightarrow> if lg_expires r < now then None else Some r)"
  by (simp add: sessions_wf_def get_session_def prune_expired_sessions_def map_of_filter_value split: option.splits)

lemma login_sids_Nil [simp]: "login_sids [] = []"
  by (simp add: login_sids_def map_filter_simps)

lemma login_sids_Cons [simp]:
  "login_sids ((t, op) # ops) = (case op of Login s u p \<Rightarrow> s # login_sids ops | _ \<Rightarrow> login_sids ops)"
  by (simp add: login_sids_def map_filter_simps split: auth_op.split)

lemma touches_Cons [simp]:
  "touches sid ((t, op) # ops) = (if op = Touch sid then t # touches sid ops else touches sid ops)"
  by (simp add: touches_def)

lemma touches_Nil [simp]: "touches sid [] = []"
  by (simp add: touches_def)

lemma stays_alive_Nil [simp]: "stays_alive sid l [] now \<longleftrightarrow> now \<le> l + SESSION_TTL"
  by (simp add: stays_alive_def)

lemma stays_alive_Cons [simp]:
  "stays_alive sid l ((t, op) # ops) now \<longleftrightarrow> op \<noteq> Logout sid \<and>
     (if op = Touch sid then t \<le> l + SESSION_TTL \<and> stays_alive sid t ops now else stays_alive sid l ops now)"
  by (auto simp: stays_alive_def)

lemma stays_alive_late:
  assumes "sorted (t # map fst ops @ [now])" and "l + SESSION_TTL < t"
  shows "\<not> stays_alive sid l ops now"
proof -
  have "\<forall>y \<in> set (touches sid ops @ [now]). t \<le> y"
    using assms(1) by (auto simp: touches_def sorted_append)
  moreover obtain y ys where "touches sid ops @ [now] = y # ys" by (cases "touches sid ops @ [now]") auto
  ultimately show ?thesis using assms(2) by (auto simp: stays_alive_def)
qed

lemma get_session_step:
  assumes "healthy E" "sessions_wf st" "sid \<noteq> []" "sid \<notin> set (login_sids [(t, op)])"
  shows "get_session sid (auth_step E K (t, op) st) =
    (case get_session sid st of None \<Rightarrow> None | Some r \<Rightarrow>
      if op = Logout sid \<or> (op = Touch sid \<or> op = Prune) \<and> lg_expires r < t then None
      else if op = Touch sid then Some (r\<lparr>lg_expires := t + SESSION_TTL\<rparr>) else Some r)"
  using assms by (cases op) (auto simp: get_session_login get_session_touch get_session_logout get_session_prune
      split: option.splits)

text \<open>No session row: no later operation but a login with that identifier makes one.\<close>

lemma run_absent:
  "\<lbrakk>healthy E; sessions_wf st; sid \<noteq> []; sid \<notin> set (login_sids ops); get_session sid st = None\<rbrakk>
   \<Longrightarrow> get_session sid (auth_run E K ops st) = None"
proof (induction ops arbitrary: st)
  case (Cons x ops)
  obtain t op where x: "x = (t, op)" by (cases x)
  have "get_session sid (auth_step E K x st) = None"
    using get_session_step[of E st sid t op K] Cons.prems by (cases op) (auto simp: x)
  then show ?case using Cons sessions_wf_step[of st E K x] by (cases op) (auto simp: x)
qed simp

lemma touch_absent: "get_session sid st = None \<Longrightarrow> fst (touch_session E now sid st) = None"
  by (simp add: touch_session_def)

text \<open>From a row on: it survives exactly as long as the log says.\<close>

lemma run_alive:
  assumes "healthy E" "sid \<noteq> []"
  shows "\<lbrakk>sessions_wf st; sid \<notin> set (login_sids ops); sorted (map fst ops @ [now]);
      get_session sid st = Some r; lg_expires r = l + SESSION_TTL\<rbrakk>
    \<Longrightarrow> fst (touch_session E now sid (auth_run E K ops st)) =
      (if stays_alive sid l ops now then Some (lg_user r, now + SESSION_TTL) else None)"
proof (induction ops arbitrary: st l r)
  case Nil
  then show ?case using assms by (auto simp: touch_session_def)
next
  case (Cons x ops)
  obtain t op where x: "x = (t, op)" by (cases x)
  have wf: "sessions_wf (auth_step E K (t, op) st)" using Cons.prems(1) sessions_wf_step by blast
  have no: "sid \<notin> set (login_sids [(t, op)])" "sid \<notin> set (login_sids ops)"
    using Cons.prems(2) by (auto simp: x split: auth_op.splits)
  have sorted: "sorted (map fst ops @ [now])" and late: "sorted (t # map fst ops @ [now])"
    using Cons.prems(3) by (auto simp: x)
  note row = get_session_step[OF assms(1) Cons.prems(1) assms(2) no(1), of K]
  show ?case
  proof (cases "op = Logout sid \<or> (op = Touch sid \<or> op = Prune) \<and> lg_expires r < t")
    case True
    then have "get_session sid (auth_step E K (t, op) st) = None" using row Cons.prems(4) by simp
    then have "fst (touch_session E now sid (auth_run E K (x # ops) st)) = None"
      using touch_absent run_absent[OF assms(1) wf assms(2) no(2)] by (simp add: x)
    moreover have "\<not> stays_alive sid l (x # ops) now"
      using True stays_alive_late[OF late, of l] Cons.prems(5) by (auto simp: x)
    ultimately show ?thesis by simp
  next
    case False
    let ?r = "if op = Touch sid then r\<lparr>lg_expires := t + SESSION_TTL\<rparr> else r"
    have "get_session sid (auth_step E K (t, op) st) = Some ?r" using False row Cons.prems(4) by simp
    from Cons.IH[OF wf no(2) sorted this, of "if op = Touch sid then t else l"] show ?thesis
      using False Cons.prems(5) by (auto simp: x)
  qed
qed

text \<open>C14: The sliding session lifetime, over any log of logins, requests, logouts, password changes and
  prunings: a request with the cookie of a login is accepted, as the user who logged in, exactly when
  that session was not logged out and no two uses of it, the login and this request included, are more
  than 30 minutes apart.
\<close>
theorem session_sliding:
  assumes "healthy E" and "sessions_wf st" and "get_session sid st = None" and "sid \<noteq> []"
    and "sid \<notin> set (login_sids before)" and "sid \<notin> set (login_sids after)"
    and "sorted (map fst (before @ (t, Login sid u p) # after) @ [now])"
    and "fst (auth_login E K t sid u p (auth_run E K before st)) = Inr x"
  shows "fst (touch_session E now sid (auth_run E K (before @ (t, Login sid u p) # after) st)) =
    (if stays_alive sid t after now then Some (str_strip u, now + SESSION_TTL) else None)"
proof -
  have wf: "sessions_wf (auth_run E K ops st)" for ops
    by (induction ops rule: rev_induct) (simp_all add: assms(2) auth_run_append sessions_wf_step)
  let ?st = "auth_step E K (t, Login sid u p) (auth_run E K before st)"
  have "sessions_wf ?st" using wf sessions_wf_step by blast
  moreover have "get_session sid ?st = Some \<lparr>lg_user = str_strip u, lg_expires = t + SESSION_TTL\<rparr>"
    using assms(8) by (auto simp: get_session_login)
  moreover have "sorted (map fst after @ [now])" using assms(7) by (auto simp: sorted_append)
  ultimately show ?thesis
    using run_alive[OF assms(1,4) _ assms(6), of ?st now] by (simp add: auth_run_append)
qed

text \<open>The state of the witnesses: one administrator, whose hash is the stand-in's, and one viewer.\<close>

definition demo_key :: "string \<Rightarrow> string" where
  "demo_key pw = take 32 (''salt'' @ pw @ replicate 32 (CHR 0x00))"

definition demo_hash :: "string \<Rightarrow> string" where
  "demo_hash pw = encode_hash PBKDF2_ITER ''salt'' (demo_key pw)"

definition demo_auth :: auth_db where
  "demo_auth = \<lparr>au_users = [(''ann'', \<lparr>us_hash = demo_hash ''first-password'', us_role = ''admin''\<rparr>),
     (''bob'', \<lparr>us_hash = demo_hash ''other-password'', us_role = ''viewer''\<rparr>)], au_sessions = []\<rparr>"

lemma demo_env_healthy [simp]: "healthy demo_env"
  by (simp add: healthy_def)

lemma demo_key_length [simp]: "length (demo_key pw) = KEY_BYTES"
  by (simp add: demo_key_def KEY_BYTES_def)

lemma demo_kdf_key [simp]: "demo_kdf pw ''salt'' PBKDF2_ITER KEY_BYTES = Some (demo_key pw)"
  by (simp add: demo_kdf_def demo_key_def PBKDF2_ITER_def KEY_BYTES_def)

lemma verify_demo [simp]: "verify_password demo_kdf pw (demo_hash q) \<longleftrightarrow> demo_key pw = demo_key q"
  unfolding demo_hash_def verify_encoded by simp

lemma session_sliding_witness:
  "fst (touch_session demo_env 3000 ''s1'' (auth_run demo_env demo_kdf
     [(0, Login ''s1'' ''ann'' ''first-password''), (1500, Touch ''s1'')] demo_auth)) = Some (''ann'', 4800) \<and>
   fst (touch_session demo_env 3000 ''s1'' (auth_run demo_env demo_kdf
     [(0, Login ''s1'' ''ann'' ''first-password'')] demo_auth)) = None"
proof -
  have strip: "str_strip ''ann'' = ''ann''" by (simp add: str_strip_def is_space_def)
  have ok: "fst (auth_login demo_env demo_kdf 0 ''s1'' ''ann'' ''first-password'' demo_auth) = Inr (''s1'', 1800)"
    by (simp add: auth_login_def strip demo_auth_def get_user_def create_session_def insert_session_def SESSION_TTL_def Let_def)
  have no: "sessions_wf demo_auth" "get_session ''s1'' demo_auth = None"
    by (simp_all add: demo_auth_def sessions_wf_def get_session_def)
  show ?thesis
    using session_sliding[where before = "[]" and after = "[(1500, Touch ''s1'')]" and now = 3000 and t = 0,
        OF demo_env_healthy no] session_sliding[where before = "[]" and after = "[]" and now = 3000 and t = 0,
        OF demo_env_healthy no] ok strip
    by (simp add: SESSION_TTL_def)
qed

section \<open>Roles\<close>

text \<open>C13: A handler guarded by \<open>require_role("admin")\<close> runs, as user \<open>u\<close>, exactly for the requests to a
  protected path that carry the cookie of an unexpired session of \<open>u\<close>, when the users table says that
  \<open>u\<close> is an administrator; any other request, and any failure of the database, is refused.
\<close>
theorem admin_request_iff:
  "(\<exists>st'. admin_request E now path cookie st = (Inr (u, r), st')) \<longleftrightarrow>
     r = ROLE_ADMIN \<and> needs_auth path \<and> u \<noteq> [] \<and> \<not> db_fails E ''get_session'' \<and> \<not> db_fails E ''get_user_role'' \<and>
     (\<exists>sid row us. cookie = Some sid \<and> sid \<noteq> [] \<and> get_session sid st = Some row \<and> now \<le> lg_expires row \<and>
        lg_user row = u \<and> get_user u st = Some us \<and> us_role us = ROLE_ADMIN)"
proof -
  have users: "get_user_role E v (snd (touch_session E now sid st)) = get_user_role E v st" for v sid
    by (auto simp: get_user_role_def get_user_def touch_session_def update_session_expiry_def drop_session_def
        split: option.splits)
  have guard: "require_role ROLE_ADMIN E (Some (v, get_user_role E v st'')) st' = Inr (u, r) \<longleftrightarrow>
      u = v \<and> r = ROLE_ADMIN \<and> v \<noteq> [] \<and> get_user_role E v st'' = ROLE_ADMIN" for v st' st''
    by (auto simp: require_role_def get_current_user_with_role_def role_from_request_def role_rank_def
        get_user_role_def ROLE_ADMIN_def ROLE_VIEWER_def str_or_def split: option.splits)
  have role: "get_user_role E v st = ROLE_ADMIN \<longleftrightarrow> v \<noteq> [] \<and> \<not> db_fails E ''get_user_role'' \<and>
      (\<exists>us. get_user v st = Some us \<and> us_role us = ROLE_ADMIN)" for v
    by (auto simp: get_user_role_def ROLE_ADMIN_def ROLE_VIEWER_def str_or_def split: option.splits)
  have public: "require_role ROLE_ADMIN E None st = Inl e \<or> \<not> (\<exists>x. require_role ROLE_ADMIN E None st = Inr x)" for e
    by (simp add: require_role_def get_current_user_with_role_def role_from_request_def)
  have touch: "fst (touch_session E now sid st) = Some (v, e) \<longleftrightarrow> sid \<noteq> [] \<and> \<not> db_fails E ''get_session'' \<and>
      e = now + SESSION_TTL \<and> (\<exists>row. get_session sid st = Some row \<and> now \<le> lg_expires row \<and> lg_user row = v)"
    for sid v e
    by (auto simp: touch_session_def split: option.splits)
  show ?thesis
  proof (cases "needs_auth path \<and> str_truthy cookie")
    case False
    then show ?thesis using public
      by (auto simp: admin_request_def auth_middleware_def str_truthy_def split: option.splits)
  next
    case True
    then obtain sid where sid: "cookie = Some sid" "sid \<noteq> []" by (cases cookie) auto
    show ?thesis
    proof (cases "fst (touch_session E now sid st)")
      case None
      then have "\<not> (\<exists>st'. admin_request E now path cookie st = (Inr (u, r), st'))"
        using True by (simp add: admin_request_def auth_middleware_def sid case_prod_beta)
      moreover have "\<not> (\<exists>row. get_session sid st = Some row \<and> now \<le> lg_expires row) \<or> db_fails E ''get_session''"
        using None sid(2) by (auto simp: touch_session_def split: option.splits if_splits)
      ultimately show ?thesis using sid(1) by auto
    next
      case (Some ve)
      obtain v e where ve: "ve = (v, e)" by (cases ve)
      have "(\<exists>st'. admin_request E now path cookie st = (Inr (u, r), st')) \<longleftrightarrow>
          u = v \<and> r = ROLE_ADMIN \<and> v \<noteq> [] \<and> get_user_role E v st = ROLE_ADMIN"
        using True Some ve by (simp add: admin_request_def auth_middleware_def sid case_prod_beta guard users)
      then show ?thesis using True sid touch[of sid v e] Some ve role[of v] by auto
    qed
  qed
qed

section \<open>Changing a password\<close>

text \<open>A password change succeeds exactly when the user exists, the current password verifies and the new
  one has eight characters. Then the new password verifies; the user keeps the role, the other users
  keep everything, and every session stays valid, those of other browsers too. A refusal changes nothing.
\<close>
theorem change_password_effect:
  assumes "healthy E" and "\<not> db_fails E ''upsert_user''"
    and "K new salt PBKDF2_ITER KEY_BYTES = Some dk" and "length dk = KEY_BYTES"
    and "change_password E K salt username current new st = ((ok, msg), st')"
  shows "(ok \<longleftrightarrow> 8 \<le> length new \<and>
      (\<exists>us. get_user username st = Some us \<and> verify_password K current (us_hash us))) \<and>
    (if ok then get_user username st' = map_option (\<lambda>us. us\<lparr>us_hash := encode_hash PBKDF2_ITER salt dk\<rparr>)
         (get_user username st) \<and> verify_password K new (encode_hash PBKDF2_ITER salt dk)
       else st' = st) \<and>
    au_sessions st' = au_sessions st \<and>
    filter (\<lambda>u. fst u \<noteq> username) (au_users st') = filter (\<lambda>u. fst u \<noteq> username) (au_users st)"
proof -
  have other: "filter (\<lambda>u. fst u \<noteq> username) (AList.update username v xs) = filter (\<lambda>u. fst u \<noteq> username) xs"
    for v :: user_row and xs
    by (induction xs) auto
  show ?thesis
    using assms by (auto simp: change_password_def hash_password_def verify_encoded upsert_user_def get_user_def
        update_conv other split: option.splits if_splits)
qed

lemma change_password_effect_witness:
  "fst (fst (change_password demo_env demo_kdf ''salt'' ''bob'' ''other-password'' ''new-password'' demo_auth)) \<and>
   au_sessions (snd (change_password demo_env demo_kdf ''salt'' ''bob'' ''other-password'' ''new-password'' demo_auth)) = []"
proof -
  obtain ok msg st' where run: "change_password demo_env demo_kdf ''salt'' ''bob'' ''other-password'' ''new-password''
      demo_auth = ((ok, msg), st')" by (metis prod_cases3 surj_pair)
  have "\<not> db_fails demo_env ''upsert_user''" by simp
  from change_password_effect[OF demo_env_healthy this demo_kdf_key demo_key_length run]
  moreover have "get_user ''bob'' demo_auth = Some \<lparr>us_hash = demo_hash ''other-password'', us_role = ''viewer''\<rparr>"
    "au_sessions demo_auth = []"
    by (simp_all add: demo_auth_def get_user_def)
  ultimately show ?thesis by (simp add: run)
qed

lemma admin_request_example:
  "fst (admin_request demo_env 60 ''/api/audit'' (Some ''s1'')
     (demo_auth\<lparr>au_sessions := [(''s1'', \<lparr>lg_user = ''bob'', lg_expires = 1800\<rparr>)]\<rparr>)) =
   Inl (HTTPException 403 ''admin role required'')"
  by (simp add: admin_request_def auth_middleware_def needs_auth_def PUBLIC_PATHS_def PUBLIC_PREFIXES_def
      touch_session_def get_session_def demo_auth_def get_user_role_def get_user_def update_session_expiry_def
      require_role_def get_current_user_with_role_def role_from_request_def role_rank_def ROLE_ADMIN_def
      ROLE_VIEWER_def SESSION_TTL_def)

end
