(* ===== verification/Operations.thy ===== *)
theory Operations
  imports Connectors
begin

text \<open>
  The threads of the operation manager (\<open>src/blackwatch/connectors/operations.py\<close>): callers that start an
  operation, worker threads, timeouts, the recovery of orphans, the groups of a retry-all, edits from
  the dashboard and a crash of the process, interleaved at every database statement and every block
  under \<open>_state_lock\<close>. \<open>conn_state\<close> holds the tables and the process memory: free slots of the
  semaphore, held connector locks, \<open>_active\<close>, and one program counter per thread. A cancelled timer is
  one that never fires; reconciliation works on rows read at any earlier time. What a collector returns is the label's choice: \<open>Inl\<close> an error text,
  \<open>Inr\<close> the outcome. Exceptions of the database and of thread creation are not modelled.
\<close>

section \<open>State\<close>

record start_request =
  rq_connector :: string
  rq_kind :: string
  rq_parent :: "string option"
  rq_by :: "string option"
  rq_retry :: int

datatype starter = S_checked | S_slot | S_counted | S_locked | S_created | S_submitted

datatype worker_pc =
    W_waiting
  | W_started time
  | W_ran time "string + dict"
  | W_checked time "string + dict"
  | W_counted time string int
  | W_won int "time option" "string option"
  | W_finishing
  | W_done

datatype timeout_pc =
    T_armed string string int
  | T_checked string string int
  | T_won string string int time
  | T_detach string string
  | T_stale string "string option" int
  | T_recovered string int time

record conn_state =
  cs_db :: conn_db
  cs_slots :: nat
  cs_locks :: "string set"
  cs_active :: "string \<Rightarrow> string option"
  cs_start :: "string \<Rightarrow> (starter \<times> start_request) option"
  cs_work :: "string \<Rightarrow> worker_pc option"
  cs_timeout :: "nat \<Rightarrow> timeout_pc option"

definition MAX_CONCURRENT_OPERATIONS :: nat where "MAX_CONCURRENT_OPERATIONS = 3"

definition fresh_process :: "conn_db \<Rightarrow> conn_state" where
  "fresh_process d = \<lparr>cs_db = d, cs_slots = MAX_CONCURRENT_OPERATIONS, cs_locks = {}, cs_active = Map.empty,
     cs_start = Map.empty, cs_work = Map.empty, cs_timeout = Map.empty\<rparr>"

section \<open>Operations on the state\<close>

definition active_count :: "conn_state \<Rightarrow> nat" where
  "active_count s = card {o1 \<in> dom (cs_active s). cs_work s o1 \<noteq> Some W_done}"

text \<open>\<open>_finish\<close>: whoever takes the entry out of \<open>_active\<close> frees the slot and the lock.\<close>

definition finish :: "string \<Rightarrow> conn_state \<Rightarrow> conn_state" where
  "finish o1 s = (case cs_active s o1 of None \<Rightarrow> s
     | Some c \<Rightarrow> s\<lparr>cs_active := (cs_active s)(o1 := None), cs_slots := cs_slots s + 1, cs_locks := cs_locks s - {c}\<rparr>)"

text \<open>A future that has not begun is cancelled and counts as done.\<close>

definition detach_active_operation :: "string \<Rightarrow> conn_state \<Rightarrow> conn_state" where
  "detach_active_operation o1 s = (case cs_active s o1 of None \<Rightarrow> s
     | Some c \<Rightarrow> (finish o1 s)\<lparr>cs_work := (if cs_work s o1 = Some W_waiting then (cs_work s)(o1 \<mapsto> W_done)
         else cs_work s)\<rparr>)"

definition startable :: "string \<Rightarrow> connector \<Rightarrow> bool" where
  "startable kind c \<longleftrightarrow> (kind = ''manual'' \<longrightarrow> co_verified c) \<and>
     (kind = ''scheduled'' \<longrightarrow> co_enabled c \<and> co_verified c)"

text \<open>The status that \<open>run_connector\<close> writes at the end of a run.\<close>

definition record_run :: "string \<Rightarrow> string \<Rightarrow> time \<Rightarrow> string + dict \<Rightarrow> conn_db \<Rightarrow> conn_db" where
  "record_run c o1 now result d =
     (if get_connector d c = None then d
      else case result of
        Inr _ \<Rightarrow> set_connector_status c ''ok'' None now (Some True) (Some o1) d
      | Inl err \<Rightarrow> set_connector_status c ''error'' (Some err) now None (Some o1) d)"

definition safe_outcome :: "dict \<Rightarrow> dict" where
  "safe_outcome result =
     List.map_filter (\<lambda>(k, v).
       if k \<notin> {''status'', ''ingested'', ''messages'', ''results'', ''buckets'', ''findings'', ''scan_complete'',
           ''files_processed'', ''errors'', ''since'', ''targets_checked'', ''ok'', ''failed''} then None
       else case v of
         PyList xs \<Rightarrow> Some (k, PyDict [(''count'', PyInt (int (length xs)))])
       | PyDict kv \<Rightarrow> Some (k, PyDict [(''count'', PyInt (int (length kv)))])
       | PyTime t \<Rightarrow> None | PyObj x y \<Rightarrow> None
       | _ \<Rightarrow> Some (k, v)) result"

definition store_success :: "string \<Rightarrow> time \<Rightarrow> time \<Rightarrow> dict \<Rightarrow> conn_db \<Rightarrow> bool \<times> conn_db" where
  "store_success o1 started now result =
     update_connector_operation o1 Op_succeeded
       (no_change\<lparr>ch_finished_at := Some now, ch_duration_ms := Some (trunc ((now - started) * 1000)),
          ch_outcome := Some (safe_outcome result)\<rparr>) True"

definition failure_next_attempt :: "time \<Rightarrow> int \<Rightarrow> int \<Rightarrow> time" where
  "failure_next_attempt now jitter retry_count =
     now + real_of_int (scheduled_retry_delay jitter (max 0 (retry_count - 1)))"

text \<open>\<open>_record_failure\<close> after it has read the retry count; the text becomes a \<open>RuntimeError\<close>.\<close>

definition store_failure :: "string \<Rightarrow> time \<Rightarrow> time \<Rightarrow> int \<Rightarrow> string \<Rightarrow> int \<Rightarrow> conn_db \<Rightarrow> bool \<times> conn_db" where
  "store_failure o1 started now jitter err retry_count =
     (let e = runtime_error err; category = classify_failure e in
      update_connector_operation o1 Op_failed
        (no_change\<lparr>ch_finished_at := Some now,
           ch_next_attempt_at := Some (failure_next_attempt now jitter retry_count),
           ch_retry_count := Some retry_count, ch_duration_ms := Some (trunc ((now - started) * 1000)),
           ch_outcome := Some [(''status'', PyStr ''error'')], ch_error_category := Some category,
           ch_error_message := Some (redact_message e category)\<rparr>) True)"

definition failed_so_far :: "string \<Rightarrow> conn_db \<Rightarrow> int" where
  "failed_so_far c d = (case get_connector d c of None \<Rightarrow> 0 | Some r \<Rightarrow> co_retry_count r) + 1"

definition timeout_next_attempt :: "time \<Rightarrow> int \<Rightarrow> int \<Rightarrow> time" where
  "timeout_next_attempt now jitter retry_count = now + real_of_int (scheduled_retry_delay jitter retry_count)"

definition store_timeout :: "string \<Rightarrow> time \<Rightarrow> int \<Rightarrow> int \<Rightarrow> conn_db \<Rightarrow> bool \<times> conn_db" where
  "store_timeout o1 now jitter retry_count =
     mark_connector_operation_timed_out o1 now (timeout_next_attempt now jitter retry_count) (retry_count + 1)
       ''timeout'' ''connector operation timed out'' [(''status'', PyStr ''timed_out'')]"

definition store_orphan :: "string \<Rightarrow> time \<Rightarrow> int \<Rightarrow> int \<Rightarrow> conn_db \<Rightarrow> bool \<times> conn_db" where
  "store_orphan o1 now jitter retry_count =
     mark_connector_operation_timed_out o1 now (failure_next_attempt now jitter retry_count) retry_count
       ''timeout'' ''orphaned connector operation''
       [(''status'', PyStr ''timed_out''), (''reason'', PyStr ''process_restart'')]"

section \<open>Steps\<close>

datatype label = Starter string | Worker string | Timeout nat | Recovery | Group | Edit | Crash

definition set_start :: "string \<Rightarrow> starter \<Rightarrow> start_request \<Rightarrow> conn_state \<Rightarrow> conn_state" where
  "set_start o1 p q s = s\<lparr>cs_start := (cs_start s)(o1 \<mapsto> (p, q))\<rparr>"

definition drop_start :: "string \<Rightarrow> conn_state \<Rightarrow> conn_state" where
  "drop_start o1 s = s\<lparr>cs_start := (cs_start s)(o1 := None)\<rparr>"

definition set_work :: "string \<Rightarrow> worker_pc \<Rightarrow> conn_state \<Rightarrow> conn_state" where
  "set_work o1 w s = s\<lparr>cs_work := (cs_work s)(o1 \<mapsto> w)\<rparr>"

definition set_timeout :: "nat \<Rightarrow> timeout_pc option \<Rightarrow> conn_state \<Rightarrow> conn_state" where
  "set_timeout k t s = s\<lparr>cs_timeout := (cs_timeout s)(k := t)\<rparr>"

definition unused :: "string \<Rightarrow> conn_state \<Rightarrow> bool" where
  "unused o1 s \<longleftrightarrow> cs_start s o1 = None \<and> cs_active s o1 = None \<and> cs_work s o1 = None \<and>
     get_connector_operation (cs_db s) o1 = None"

inductive conn_step :: "label \<Rightarrow> conn_state \<Rightarrow> conn_state \<Rightarrow> bool" where
  start_check:
    "\<lbrakk>unused o1 s; get_connector (cs_db s) (rq_connector q) = Some c; startable (rq_kind q) c;
      find_active_connector_operation (cs_db s) (rq_connector q) = None\<rbrakk>
     \<Longrightarrow> conn_step (Starter o1) s (set_start o1 S_checked q s)"
| start_slot:
    "\<lbrakk>cs_start s o1 = Some (S_checked, q); 0 < cs_slots s\<rbrakk>
     \<Longrightarrow> conn_step (Starter o1) s (set_start o1 S_slot q (s\<lparr>cs_slots := cs_slots s - 1\<rparr>))"
| start_no_slot:
    "\<lbrakk>cs_start s o1 = Some (S_checked, q); cs_slots s = 0\<rbrakk> \<Longrightarrow> conn_step (Starter o1) s (drop_start o1 s)"
| start_count:
    "\<lbrakk>cs_start s o1 = Some (S_slot, q); active_count s < MAX_CONCURRENT_OPERATIONS\<rbrakk>
     \<Longrightarrow> conn_step (Starter o1) s (set_start o1 S_counted q s)"
| start_full:
    "\<lbrakk>cs_start s o1 = Some (S_slot, q); MAX_CONCURRENT_OPERATIONS \<le> active_count s\<rbrakk>
     \<Longrightarrow> conn_step (Starter o1) s (drop_start o1 (s\<lparr>cs_slots := cs_slots s + 1\<rparr>))"
| start_lock:
    "\<lbrakk>cs_start s o1 = Some (S_counted, q); rq_connector q \<notin> cs_locks s\<rbrakk>
     \<Longrightarrow> conn_step (Starter o1) s
           (set_start o1 S_locked q (s\<lparr>cs_locks := insert (rq_connector q) (cs_locks s)\<rparr>))"
| start_busy:
    "\<lbrakk>cs_start s o1 = Some (S_counted, q); rq_connector q \<in> cs_locks s\<rbrakk>
     \<Longrightarrow> conn_step (Starter o1) s (drop_start o1 (s\<lparr>cs_slots := cs_slots s + 1\<rparr>))"
| start_create:
    "\<lbrakk>cs_start s o1 = Some (S_locked, q);
      create_connector_operation o1 (rq_kind q) (Some (rq_connector q)) (rq_parent q) Op_queued now (rq_retry q) []
        (rq_by q) (cs_db s) = Some d\<rbrakk>
     \<Longrightarrow> conn_step (Starter o1) s (set_start o1 S_created q (s\<lparr>cs_db := d\<rparr>))"
| start_submit:
    "cs_start s o1 = Some (S_created, q)
     \<Longrightarrow> conn_step (Starter o1) s (set_start o1 S_submitted q (set_work o1 W_waiting s))"
| start_register:
    "\<lbrakk>cs_start s o1 = Some (S_submitted, q); cs_timeout s k = None\<rbrakk>
     \<Longrightarrow> conn_step (Starter o1) s (set_timeout k (Some (T_armed o1 (rq_connector q) (rq_retry q)))
           (drop_start o1 (s\<lparr>cs_active := (cs_active s)(o1 \<mapsto> rq_connector q)\<rparr>)))"
| prune:
    "cs_work s o1 = Some W_done \<Longrightarrow> conn_step (Starter o1) s (finish o1 s)"
| work_claim:
    "\<lbrakk>cs_work s o1 = Some W_waiting; mark_connector_operation_running o1 now (cs_db s) = (True, d)\<rbrakk>
     \<Longrightarrow> conn_step (Worker o1) s (set_work o1 (W_started now) (s\<lparr>cs_db := d\<rparr>))"
| work_lost:
    "\<lbrakk>cs_work s o1 = Some W_waiting; mark_connector_operation_running o1 now (cs_db s) = (False, d)\<rbrakk>
     \<Longrightarrow> conn_step (Worker o1) s (set_work o1 W_finishing s)"
| work_run:
    "\<lbrakk>cs_work s o1 = Some (W_started t); get_connector_operation (cs_db s) o1 = Some r;
      op_connector r = Some c\<rbrakk>
     \<Longrightarrow> conn_step (Worker o1) s (set_work o1 (W_ran t result) (s\<lparr>cs_db := record_run c o1 now result (cs_db s)\<rparr>))"
| work_late:
    "\<lbrakk>cs_work s o1 = Some (W_ran t result); get_connector_operation (cs_db s) o1 = Some r;
      op_status r = Op_timed_out\<rbrakk>
     \<Longrightarrow> conn_step (Worker o1) s (set_work o1 W_finishing s)"
| work_check:
    "\<lbrakk>cs_work s o1 = Some (W_ran t result); get_connector_operation (cs_db s) o1 = Some r;
      op_status r \<noteq> Op_timed_out\<rbrakk>
     \<Longrightarrow> conn_step (Worker o1) s (set_work o1 (W_checked t result) s)"
| work_ok:
    "\<lbrakk>cs_work s o1 = Some (W_checked t (Inr result)); store_success o1 t now result (cs_db s) = (won, d)\<rbrakk>
     \<Longrightarrow> conn_step (Worker o1) s (set_work o1 (if won then W_won 0 None None else W_finishing) (s\<lparr>cs_db := d\<rparr>))"
| work_count:
    "\<lbrakk>cs_work s o1 = Some (W_checked t (Inl err)); get_connector_operation (cs_db s) o1 = Some r;
      op_connector r = Some c\<rbrakk>
     \<Longrightarrow> conn_step (Worker o1) s (set_work o1 (W_counted t err (failed_so_far c (cs_db s))) s)"
| work_fail:
    "\<lbrakk>cs_work s o1 = Some (W_counted t err n); store_failure o1 t now jitter err n (cs_db s) = (won, d)\<rbrakk>
     \<Longrightarrow> conn_step (Worker o1) s (set_work o1
           (if won then W_won n (Some (failure_next_attempt now jitter n)) (Some (classify_failure (runtime_error err)))
            else W_finishing) (s\<lparr>cs_db := d\<rparr>))"
| work_retry:
    "\<lbrakk>cs_work s o1 = Some (W_won n t reason); get_connector_operation (cs_db s) o1 = Some r;
      op_connector r = Some c\<rbrakk>
     \<Longrightarrow> conn_step (Worker o1) s (set_work o1 W_finishing (s\<lparr>cs_db := set_connector_retry c n t reason (cs_db s)\<rparr>))"
| work_finish:
    "cs_work s o1 = Some W_finishing \<Longrightarrow> conn_step (Worker o1) s (set_work o1 W_done (finish o1 s))"
| reap:
    "\<lbrakk>cs_active s o1 = Some c; get_connector_operation (cs_db s) o1 = Some r; op_active (op_status r);
      cs_timeout s k = None\<rbrakk>
     \<Longrightarrow> conn_step (Timeout k) s (set_timeout k (Some (T_armed o1 c (op_retry_count r))) s)"
| timeout_check:
    "\<lbrakk>cs_timeout s k = Some (T_armed o1 c n); cs_active s o1 = Some c; cs_work s o1 \<noteq> Some W_done;
      get_connector_operation (cs_db s) o1 = Some r; op_active (op_status r)\<rbrakk>
     \<Longrightarrow> conn_step (Timeout k) s (set_timeout k (Some (T_checked o1 c n)) s)"
| timeout_end:
    "cs_timeout s k = Some (T_armed o1 c n) \<Longrightarrow> conn_step (Timeout k) s (set_timeout k None s)"
| timeout_mark:
    "\<lbrakk>cs_timeout s k = Some (T_checked o1 c n); store_timeout o1 now jitter n (cs_db s) = (won, d)\<rbrakk>
     \<Longrightarrow> conn_step (Timeout k) s (set_timeout k
           (if won then Some (T_won o1 c n (timeout_next_attempt now jitter n)) else None) (s\<lparr>cs_db := d\<rparr>))"
| timeout_retry:
    "cs_timeout s k = Some (T_won o1 c n t)
     \<Longrightarrow> conn_step (Timeout k) s (set_timeout k (Some (T_detach o1 c))
           (s\<lparr>cs_db := set_connector_retry c (n + 1) (Some t) (Some ''timeout'') (cs_db s)\<rparr>))"
| timeout_detach:
    "cs_timeout s k = Some (T_detach o1 c)
     \<Longrightarrow> conn_step (Timeout k) s (set_timeout k None (detach_active_operation o1 s))"
| recover_list:
    "\<lbrakk>(o1, r) \<in> set (list_stale_connector_operations cutoff (cs_db s)); cs_timeout s k = None\<rbrakk>
     \<Longrightarrow> conn_step Recovery s (set_timeout k (Some (T_stale o1 (op_connector r) (op_retry_count r + 1))) s)"
| recover_mark:
    "\<lbrakk>cs_timeout s k = Some (T_stale o1 c n); store_orphan o1 now jitter n (cs_db s) = (won, d)\<rbrakk>
     \<Longrightarrow> conn_step Recovery s (set_timeout k
           (if won then map_option (\<lambda>c. T_recovered c n (failure_next_attempt now jitter n)) c else None)
           (s\<lparr>cs_db := d\<rparr>))"
| recover_retry:
    "cs_timeout s k = Some (T_recovered c n t)
     \<Longrightarrow> conn_step Recovery s (set_timeout k None
           (s\<lparr>cs_db := set_connector_retry c n (Some t) (Some ''process_restart'') (cs_db s)\<rparr>))"
| group_create:
    "\<lbrakk>unused o1 s; create_connector_operation o1 ''retry_all'' None None Op_queued now 0 [] by1 (cs_db s) = Some d\<rbrakk>
     \<Longrightarrow> conn_step Group s (s\<lparr>cs_db := d\<rparr>)"
| group_skip:
    "\<lbrakk>unused o1 s; create_connector_operation o1 ''retry_all_item'' (Some c) parent Op_skipped now 0 why by1
        (cs_db s) = Some d\<rbrakk>
     \<Longrightarrow> conn_step Group s (s\<lparr>cs_db := d\<rparr>)"
| group_update:
    "\<lbrakk>get_connector_operation (cs_db s) o1 = Some r; op_kind r = ''retry_all''; op_connector r = None;
      update_connector_operation o1 status (no_change\<lparr>ch_finished_at := fin, ch_outcome := out\<rparr>) False (cs_db s) = (b, d)\<rbrakk>
     \<Longrightarrow> conn_step Group s (s\<lparr>cs_db := d\<rparr>)"
| edit_connector:
    "conn_step Edit s (s\<lparr>cs_db := upsert_connector c name ctype config (cs_db s)\<rparr>)"
| edit_enabled:
    "conn_step Edit s (s\<lparr>cs_db := set_connector_enabled c b (cs_db s)\<rparr>)"
| edit_delete:
    "conn_step Edit s (s\<lparr>cs_db := delete_connector c (cs_db s)\<rparr>)"
| reconcile:
    "desired_retry r = Some (n, t, reason)
     \<Longrightarrow> conn_step Recovery s (s\<lparr>cs_db := set_connector_retry c n t reason (cs_db s)\<rparr>)"
| crash:
    "conn_step Crash s (fresh_process (cs_db s))"

inductive conn_reach :: "conn_state \<Rightarrow> bool" where
  boot: "cd_operations d = [] \<Longrightarrow> conn_reach (fresh_process d)"
| more: "conn_reach s \<Longrightarrow> conn_step a s s' \<Longrightarrow> conn_reach s'"

text \<open>From a given state on, keeping what a step of a label did.\<close>

inductive conn_steps :: "conn_state \<Rightarrow> conn_state \<Rightarrow> bool" where
  stay: "conn_steps s s"
| go: "conn_steps s s' \<Longrightarrow> conn_step a s' s'' \<Longrightarrow> conn_steps s s''"

section \<open>What the tables do\<close>

lemma alter_connector_operations [simp]: "cd_operations (alter_connector i f d) = cd_operations d"
  by (simp add: alter_connector_def split: option.splits)

lemma connector_edits_operations [simp]:
  "cd_operations (set_connector_status i st err t v o1 d) = cd_operations d"
  "cd_operations (set_connector_retry i n t' why d) = cd_operations d"
  "cd_operations (upsert_connector i name ctype cfg d) = cd_operations d"
  "cd_operations (set_connector_enabled i b d) = cd_operations d"
  "cd_operations (delete_connector i d) = cd_operations d"
  "cd_operations (reconcile_retry_metadata i r d) = cd_operations d"
  by (auto simp: set_connector_status_def set_connector_retry_def upsert_connector_def set_connector_enabled_def
      delete_connector_def reconcile_retry_metadata_def split: option.splits)

lemma record_run_operations [simp]: "cd_operations (record_run c o1 now res d) = cd_operations d"
  by (simp add: record_run_def split: sum.splits)

lemma get_operation_cong:
  "cd_operations d = cd_operations d' \<Longrightarrow> get_connector_operation d o1 = get_connector_operation d' o1"
  by (simp add: get_connector_operation_def)

lemma get_operation_edits [simp]:
  "get_connector_operation (record_run c o2 now res d) o1 = get_connector_operation d o1"
  "get_connector_operation (set_connector_retry i n t' why d) o1 = get_connector_operation d o1"
  "get_connector_operation (upsert_connector i name ctype cfg d) o1 = get_connector_operation d o1"
  "get_connector_operation (set_connector_enabled i b d) o1 = get_connector_operation d o1"
  "get_connector_operation (delete_connector i d) o1 = get_connector_operation d o1"
  "get_connector_operation (reconcile_retry_metadata i r d) o1 = get_connector_operation d o1"
  by (simp_all add: get_connector_operation_def)

lemma get_operation_alter:
  "alter_operation o1 g f d = (b, d') \<Longrightarrow> get_connector_operation d' o2 =
     (if o1 = o2 then map_option (\<lambda>r. if g r then f r else r) (get_connector_operation d o2)
      else get_connector_operation d o2)"
  by (auto simp: alter_operation_def get_connector_operation_def update_conv split: option.splits if_splits)

lemma alter_operation_won:
  "alter_operation o1 g f d = (b, d') \<Longrightarrow> b \<longleftrightarrow> (\<exists>r. get_connector_operation d o1 = Some r \<and> g r)"
  by (auto simp: alter_operation_def split: option.splits if_splits)

lemma get_operation_create:
  "create_connector_operation o1 kind c p st now n out by1 d = Some d' \<Longrightarrow>
   get_connector_operation d o1 = None \<and>
   (\<forall>o2. o2 \<noteq> o1 \<longrightarrow> get_connector_operation d' o2 = get_connector_operation d o2) \<and>
   (\<exists>r. get_connector_operation d' o1 = Some r \<and> op_status r = st \<and> op_connector r = c \<and> op_kind r = kind)"
  by (auto simp: create_connector_operation_def get_connector_operation_def map_of_append map_add_def
      split: if_splits option.splits)

text \<open>The statements that change a row only while it is queued or running.\<close>

lemmas cas_defs = store_success_def store_failure_def store_timeout_def store_orphan_def Let_def
  update_connector_operation_def mark_connector_operation_timed_out_def mark_connector_operation_running_def

lemma apply_change_sel [simp]:
  "op_connector (apply_change st c r) = op_connector r" "op_kind (apply_change st c r) = op_kind r"
  "op_status (apply_change st c r) = st"
  by (simp_all add: apply_change_def)

lemmas step_defs = set_start_def drop_start_def set_work_def set_timeout_def finish_def
  detach_active_operation_def fresh_process_def

abbreviation row :: "conn_state \<Rightarrow> string \<Rightarrow> operation option" where
  "row s o1 \<equiv> get_connector_operation (cs_db s) o1"

text \<open>
  A row keeps its connector, and once terminal it stays as it is, unless it is a group: every statement
  on an operation is a compare-and-set on the active states, but that of the groups.
\<close>

definition row_kept :: "operation \<Rightarrow> operation \<Rightarrow> bool" where
  "row_kept r r' \<longleftrightarrow> op_connector r' = op_connector r \<and>
     (op_connector r \<noteq> None \<and> \<not> op_active (op_status r) \<longrightarrow> r' = r)"

definition rows_kept :: "conn_db \<Rightarrow> conn_db \<Rightarrow> bool" where
  "rows_kept d d' \<longleftrightarrow> (\<forall>o1 r. get_connector_operation d o1 = Some r \<longrightarrow>
     (\<exists>r'. get_connector_operation d' o1 = Some r' \<and> row_kept r r'))"

lemma rows_kept_same [simp]: "cd_operations d' = cd_operations d \<Longrightarrow> rows_kept d d'"
  by (simp add: rows_kept_def row_kept_def get_connector_operation_def)

lemma rows_kept_alter:
  assumes "alter_operation o2 g f d = (b, d')" and "\<And>r. op_connector (f r) = op_connector r"
    and "\<And>r. get_connector_operation d o2 = Some r \<Longrightarrow> g r \<Longrightarrow> op_connector r \<noteq> None \<Longrightarrow> op_active (op_status r)"
  shows "rows_kept d d'"
  using get_operation_alter[OF assms(1)] assms(2,3) by (auto simp: rows_kept_def row_kept_def)

lemma rows_kept_cas:
  "store_success o2 t now res d = (b, d') \<Longrightarrow> rows_kept d d'"
  "store_failure o2 t now j err n d = (b, d') \<Longrightarrow> rows_kept d d'"
  "store_timeout o2 now j n d = (b, d') \<Longrightarrow> rows_kept d d'"
  "store_orphan o2 now j n d = (b, d') \<Longrightarrow> rows_kept d d'"
  "mark_connector_operation_running o2 now d = (b, d') \<Longrightarrow> rows_kept d d'"
  by (simp only: cas_defs, erule rows_kept_alter; simp add: op_active_def)+

lemma rows_kept_create:
  "create_connector_operation o2 kind c p st now n out by1 d = Some d' \<Longrightarrow> rows_kept d d'"
  unfolding rows_kept_def row_kept_def by (drule get_operation_create) (metis option.distinct(1))

lemma rows_kept_group:
  "get_connector_operation d o2 = Some r0 \<Longrightarrow> op_connector r0 = None \<Longrightarrow>
   update_connector_operation o2 st c False d = (b, d') \<Longrightarrow> rows_kept d d'"
  unfolding update_connector_operation_def by (erule rows_kept_alter) auto

lemma step_rows: "conn_step a s s' \<Longrightarrow> rows_kept (cs_db s) (cs_db s')"
  by (induction rule: conn_step.induct)
    (auto simp: step_defs dest: rows_kept_cas rows_kept_create rows_kept_group split: option.splits)

lemma rows_kept_trans: "rows_kept d d' \<Longrightarrow> rows_kept d' d'' \<Longrightarrow> rows_kept d d''"
proof -
  assume kept: "rows_kept d d'" "rows_kept d' d''"
  have "\<exists>r'. get_connector_operation d'' o1 = Some r' \<and> row_kept r r'"
    if r: "get_connector_operation d o1 = Some r" for o1 r
  proof -
    obtain r1 where r1: "get_connector_operation d' o1 = Some r1" "row_kept r r1"
      using kept(1) r unfolding rows_kept_def by blast
    obtain r2 where "get_connector_operation d'' o1 = Some r2" "row_kept r1 r2"
      using kept(2) r1(1) unfolding rows_kept_def by blast
    then show ?thesis using r1(2) by (auto simp: row_kept_def)
  qed
  then show ?thesis by (simp add: rows_kept_def)
qed

lemma steps_rows: "conn_steps s s' \<Longrightarrow> rows_kept (cs_db s) (cs_db s')"
  by (induction rule: conn_steps.induct) (auto intro: rows_kept_trans step_rows)

text \<open>A row that is new and active is that of a starter.\<close>

lemma alter_old_row: "alter_operation o2 g f d = (b, d') \<Longrightarrow> get_connector_operation d' o1 = Some r \<Longrightarrow>
   \<exists>r0. get_connector_operation d o1 = Some r0"
  by (drule get_operation_alter[of _ _ _ _ _ _ o1]) (auto split: if_splits)

lemma cas_old_row:
  "store_success o2 t now res d = (b, d') \<Longrightarrow> get_connector_operation d' o1 = Some r \<Longrightarrow>
   \<exists>r0. get_connector_operation d o1 = Some r0"
  "store_failure o2 t now j err n d = (b, d') \<Longrightarrow> get_connector_operation d' o1 = Some r \<Longrightarrow>
   \<exists>r0. get_connector_operation d o1 = Some r0"
  "store_timeout o2 now j n d = (b, d') \<Longrightarrow> get_connector_operation d' o1 = Some r \<Longrightarrow>
   \<exists>r0. get_connector_operation d o1 = Some r0"
  "store_orphan o2 now j n d = (b, d') \<Longrightarrow> get_connector_operation d' o1 = Some r \<Longrightarrow>
   \<exists>r0. get_connector_operation d o1 = Some r0"
  "mark_connector_operation_running o2 now d = (b, d') \<Longrightarrow> get_connector_operation d' o1 = Some r \<Longrightarrow>
   \<exists>r0. get_connector_operation d o1 = Some r0"
  "update_connector_operation o2 st c ra d = (b, d') \<Longrightarrow> get_connector_operation d' o1 = Some r \<Longrightarrow>
   \<exists>r0. get_connector_operation d o1 = Some r0"
  by (simp only: cas_defs, erule (1) alter_old_row)+

lemma step_new_row:
  assumes "conn_step a s s'" and "row s o1 = None" and "row s' o1 = Some r"
  shows "(\<exists>q. a = Starter o1 \<and> cs_start s o1 = Some (S_locked, q) \<and> cs_start s' o1 = Some (S_created, q) \<and>
      op_connector r = Some (rq_connector q)) \<or>
    unused o1 s \<and> (op_connector r = None \<or> \<not> op_active (op_status r)) \<and> cs_start s' o1 = None"
  using assms
proof (cases rule: conn_step.cases)
  case (start_create o2 q now d)
  then show ?thesis
    using assms(2,3) get_operation_create[of o2 "rq_kind q" "Some (rq_connector q)" "rq_parent q" Op_queued now
        "rq_retry q" "[]" "rq_by q" "cs_db s" d]
    by (cases "o1 = o2") (auto simp: step_defs)
next
  case (group_create o2 now by1 d)
  then show ?thesis
    using assms(2,3) get_operation_create[of o2 "''retry_all''" None None Op_queued now 0 "[]" by1 "cs_db s" d]
    by (cases "o1 = o2") (auto simp: unused_def)
next
  case (group_skip o2 c parent now why by1 d)
  then show ?thesis
    using assms(2,3) get_operation_create[of o2 "''retry_all_item''" "Some c" parent Op_skipped now 0 why by1 "cs_db s" d]
    by (cases "o1 = o2") (auto simp: unused_def op_active_def)
qed (use assms(2,3) in \<open>auto simp: step_defs dest: cas_old_row split: option.splits\<close>)

section \<open>Slots and locks\<close>

definition holders :: "conn_state \<Rightarrow> string set" where
  "holders s = {o1. \<exists>p q. cs_start s o1 = Some (p, q) \<and> p \<noteq> S_checked} \<union> dom (cs_active s)"

fun lock_part :: "(starter \<times> start_request) option \<Rightarrow> string option \<Rightarrow> string option" where
  "lock_part None c = c"
| "lock_part (Some (p, q)) c = (if p \<in> {S_locked, S_created, S_submitted} then Some (rq_connector q) else None)"

definition lock_of :: "conn_state \<Rightarrow> string \<Rightarrow> string option" where
  "lock_of s o1 = lock_part (cs_start s o1) (cs_active s o1)"

text \<open>No thread both starts and is registered; free slots and holders make up the semaphore; a lock
  is held by one thread.\<close>

definition inv_mem :: "conn_state \<Rightarrow> bool" where
  "inv_mem s \<longleftrightarrow> (\<forall>o1. cs_start s o1 \<noteq> None \<longrightarrow> cs_active s o1 = None) \<and>
     finite (holders s) \<and> cs_slots s + card (holders s) = MAX_CONCURRENT_OPERATIONS \<and>
     (\<forall>o1 o2 c. lock_of s o1 = Some c \<longrightarrow> lock_of s o2 = Some c \<longrightarrow> o1 = o2) \<and>
     cs_locks s = ran (lock_of s)"

lemma inv_mem_cong:
  assumes "cs_start s' = cs_start s" "cs_active s' = cs_active s" "cs_slots s' = cs_slots s" "cs_locks s' = cs_locks s"
  shows "inv_mem s' = inv_mem s"
proof -
  have "holders s' = holders s" "lock_of s' = lock_of s"
    by (simp_all add: holders_def lock_of_def assms fun_eq_iff)
  then show ?thesis by (simp only: inv_mem_def assms)
qed

lemma inv_mem_fresh [simp]: "inv_mem (fresh_process d)"
  by (simp add: inv_mem_def holders_def lock_of_def fresh_process_def ran_def)

lemma holders_set_start:
  "cs_active s o1 = None \<Longrightarrow> holders (set_start o1 p q s) = (if p = S_checked then holders s - {o1} else insert o1 (holders s))"
  by (auto simp: holders_def set_start_def)

lemma holders_drop_start: "cs_active s o1 = None \<Longrightarrow> holders (drop_start o1 s) = holders s - {o1}"
  by (auto simp: holders_def drop_start_def)

lemma lock_of_set_start:
  "lock_of (set_start o1 p q s) o2 = (if o2 = o1 then
     (if p \<in> {S_locked, S_created, S_submitted} then Some (rq_connector q) else None) else lock_of s o2)"
  by (simp add: lock_of_def set_start_def)

lemma lock_of_drop_start: "lock_of (drop_start o1 s) o2 = (if o2 = o1 then cs_active s o1 else lock_of s o2)"
  by (simp add: lock_of_def drop_start_def)

lemma start_updates [simp]:
  "cs_active (set_start o1 p q s) = cs_active s" "cs_slots (set_start o1 p q s) = cs_slots s"
  "cs_locks (set_start o1 p q s) = cs_locks s" "cs_start (set_start o1 p q s) = (cs_start s)(o1 \<mapsto> (p, q))"
  "cs_active (drop_start o1 s) = cs_active s" "cs_slots (drop_start o1 s) = cs_slots s"
  "cs_locks (drop_start o1 s) = cs_locks s" "cs_start (drop_start o1 s) = (cs_start s)(o1 := None)"
  "cs_db (set_start o1 p q s) = cs_db s" "cs_db (drop_start o1 s) = cs_db s"
  "cs_work (set_start o1 p q s) = cs_work s" "cs_work (drop_start o1 s) = cs_work s"
  "cs_timeout (set_start o1 p q s) = cs_timeout s" "cs_timeout (drop_start o1 s) = cs_timeout s"
  by (simp_all add: set_start_def drop_start_def)

lemma work_updates [simp]:
  "cs_active (set_work o1 w s) = cs_active s" "cs_slots (set_work o1 w s) = cs_slots s"
  "cs_locks (set_work o1 w s) = cs_locks s" "cs_start (set_work o1 w s) = cs_start s"
  "cs_db (set_work o1 w s) = cs_db s" "cs_timeout (set_work o1 w s) = cs_timeout s"
  "cs_work (set_work o1 w s) = (cs_work s)(o1 \<mapsto> w)"
  "cs_active (set_timeout k t s) = cs_active s" "cs_slots (set_timeout k t s) = cs_slots s"
  "cs_locks (set_timeout k t s) = cs_locks s" "cs_start (set_timeout k t s) = cs_start s"
  "cs_db (set_timeout k t s) = cs_db s" "cs_work (set_timeout k t s) = cs_work s"
  "cs_timeout (set_timeout k t s) = (cs_timeout s)(k := t)"
  by (simp_all add: set_work_def set_timeout_def)

text \<open>A starter moves on without touching the semaphore or its lock.\<close>

lemma inv_mem_move:
  assumes "inv_mem s" and "cs_start s o1 = Some (p, q)" and "p \<noteq> S_checked" and "p' \<noteq> S_checked"
    and "p \<in> {S_locked, S_created, S_submitted} \<longleftrightarrow> p' \<in> {S_locked, S_created, S_submitted}"
  shows "inv_mem (set_start o1 p' q s)"
proof -
  have "o1 \<in> holders s" using assms(2,3) by (auto simp: holders_def)
  then have "holders (set_start o1 p' q s) = holders s"
    using assms by (simp add: holders_set_start inv_mem_def insert_absorb)
  moreover have "lock_of (set_start o1 p' q s) = lock_of s"
    using assms(2,5) by (auto simp: lock_of_set_start lock_of_def fun_eq_iff)
  ultimately show ?thesis using assms(1,2) by (auto simp: inv_mem_def)
qed

lemma inv_mem_give_up:
  assumes "inv_mem s" and "cs_start s o1 = Some (p, q)" and "p \<in> {S_slot, S_counted}"
  shows "inv_mem (drop_start o1 (s\<lparr>cs_slots := cs_slots s + 1\<rparr>))"
proof -
  have o1: "o1 \<in> holders s" "cs_active s o1 = None" using assms by (auto simp: holders_def inv_mem_def)
  let ?s = "s\<lparr>cs_slots := cs_slots s + 1\<rparr>"
  have same: "holders ?s = holders s" "lock_of ?s = lock_of s"
    by (auto simp: holders_def lock_of_def fun_eq_iff)
  have "holders (drop_start o1 ?s) = holders s - {o1}" using o1(2) same by (simp add: holders_drop_start)
  moreover have "0 < card (holders s)" using o1(1) assms(1) by (auto simp: inv_mem_def card_gt_0_iff)
  moreover have "lock_of (drop_start o1 ?s) = lock_of s"
    using assms(2,3) o1(2) by (auto simp: lock_of_drop_start same lock_of_def fun_eq_iff)
  ultimately show ?thesis using assms(1) o1 by (auto simp: inv_mem_def)
qed

lemma ran_remove:
  assumes "m a = Some c" and "\<And>x. m x = Some c \<Longrightarrow> x = a"
  shows "ran (m(a := None)) = ran m - {c}"
proof (intro set_eqI iffI)
  fix d
  assume "d \<in> ran m - {c}"
  then obtain x where x: "m x = Some d" "d \<noteq> c" by (auto simp: ran_def)
  then have "x \<noteq> a" using assms(1) by auto
  then show "d \<in> ran (m(a := None))" using x(1) by (auto simp: ran_def)
next
  fix d
  assume "d \<in> ran (m(a := None))"
  then obtain x where x: "m x = Some d" "x \<noteq> a" by (auto simp: ran_def split: if_splits)
  then show "d \<in> ran m - {c}" using assms(2)[of x] by (auto simp: ran_def)
qed

lemma inv_mem_finish:
  assumes "inv_mem s"
  shows "inv_mem (finish o1 s)"
proof (cases "cs_active s o1")
  case (Some c)
  have o1: "o1 \<in> holders s" "cs_start s o1 = None"
    using assms Some by (auto simp: holders_def inv_mem_def) (metis not_Some_eq option.distinct(1) surj_pair)
  have h: "holders (finish o1 s) = holders s - {o1}" using Some o1 by (auto simp: holders_def finish_def)
  have c: "0 < card (holders s)" using o1(1) assms by (auto simp: inv_mem_def card_gt_0_iff)
  have l: "lock_of (finish o1 s) = (lock_of s)(o1 := None)"
    using Some o1(2) by (simp add: lock_of_def finish_def fun_eq_iff)
  have held: "lock_of s o1 = Some c" using Some o1(2) by (simp add: lock_of_def)
  have only: "\<And>o2. lock_of s o2 = Some c \<Longrightarrow> o2 = o1" using assms held unfolding inv_mem_def by blast
  have r: "cs_locks (finish o1 s) = ran (lock_of (finish o1 s))"
    using assms Some ran_remove[of "lock_of s" o1 c, OF held only] by (simp add: l, simp add: finish_def inv_mem_def)
  have f: "cs_start (finish o1 s) = cs_start s" "cs_active (finish o1 s) = (cs_active s)(o1 := None)"
    "cs_slots (finish o1 s) = cs_slots s + 1" using Some by (simp_all add: finish_def)
  show ?thesis using assms o1 c unfolding inv_mem_def r h l f by auto
qed (use assms in \<open>simp add: finish_def\<close>)

lemma finish_frame [simp]: "cs_db (finish o1 s) = cs_db s" "cs_start (finish o1 s) = cs_start s"
  "cs_work (finish o1 s) = cs_work s" "cs_timeout (finish o1 s) = cs_timeout s"
  by (simp_all add: finish_def split: option.splits)

lemma detach_frame [simp]:
  "cs_db (detach_active_operation o1 s) = cs_db s" "cs_start (detach_active_operation o1 s) = cs_start s"
  "cs_timeout (detach_active_operation o1 s) = cs_timeout s"
  "cs_active (detach_active_operation o1 s) = cs_active (finish o1 s)"
  "cs_slots (detach_active_operation o1 s) = cs_slots (finish o1 s)"
  "cs_locks (detach_active_operation o1 s) = cs_locks (finish o1 s)"
  by (simp_all add: detach_active_operation_def finish_def split: option.splits)

lemma step_mem:
  assumes "conn_step a s s'" and "inv_mem s"
  shows "inv_mem s'"
  using assms(1)
proof (cases rule: conn_step.cases)
  case (start_check o1 q c)
  then have "holders s' = holders s" by (auto simp: holders_def unused_def)
  moreover have "lock_of s' = lock_of s" using start_check by (auto simp: lock_of_def unused_def fun_eq_iff)
  ultimately show ?thesis using assms(2) start_check by (auto simp: inv_mem_def unused_def)
next
  case (start_slot o1 q)
  have o1: "o1 \<notin> holders s" "cs_active s o1 = None" using assms(2) start_slot by (auto simp: holders_def inv_mem_def)
  have "holders s' = insert o1 (holders s)" using start_slot o1 by (auto simp: holders_def)
  moreover have "lock_of s' = lock_of s" using start_slot by (auto simp: lock_of_def fun_eq_iff)
  ultimately show ?thesis using assms(2) start_slot o1 by (auto simp: inv_mem_def)
next
  case (start_no_slot o1 q)
  have o1: "o1 \<notin> holders s" "cs_active s o1 = None" using assms(2) start_no_slot by (auto simp: holders_def inv_mem_def)
  have "holders s' = holders s" using start_no_slot o1 by (auto simp: holders_def)
  moreover have "lock_of s' = lock_of s" using start_no_slot o1 by (auto simp: lock_of_def fun_eq_iff)
  ultimately show ?thesis using assms(2) start_no_slot by (auto simp: inv_mem_def)
next
  case (start_lock o1 q)
  have o1: "o1 \<in> holders s" "cs_active s o1 = None" using assms(2) start_lock by (auto simp: holders_def inv_mem_def)
  have h: "holders s' = holders s" using start_lock o1 by (auto simp: holders_def)
  have l: "lock_of s' = (lock_of s)(o1 \<mapsto> rq_connector q)"
    using start_lock by (simp add: lock_of_def fun_eq_iff)
  have none: "lock_of s o1 = None" using start_lock by (simp add: lock_of_def)
  have "cs_locks s' = insert (rq_connector q) (cs_locks s)" using start_lock by simp
  then have r: "cs_locks s' = ran (lock_of s')"
    using assms(2) ran_map_upd[of "lock_of s" o1 "rq_connector q", OF none] unfolding l inv_mem_def by simp
  have free: "\<And>o2. lock_of s o2 \<noteq> Some (rq_connector q)"
    using assms(2) start_lock by (auto simp: inv_mem_def ran_def)
  show ?thesis using assms(2) start_lock o1 free unfolding inv_mem_def r h l by auto
next
  case (start_create o1 q now d)
  then have "inv_mem (s\<lparr>cs_db := d\<rparr>)" using assms(2) inv_mem_cong[of "s\<lparr>cs_db := d\<rparr>" s] by simp
  then show ?thesis using start_create inv_mem_move[of "s\<lparr>cs_db := d\<rparr>" o1 S_locked q S_created] by simp
next
  case (start_submit o1 q)
  then have "inv_mem (set_work o1 W_waiting s)" using assms(2) inv_mem_cong[of "set_work o1 W_waiting s" s] by simp
  then show ?thesis using start_submit inv_mem_move[of "set_work o1 W_waiting s" o1 S_created q S_submitted] by simp
next
  case (start_register o1 q k)
  have o1: "o1 \<in> holders s" "cs_active s o1 = None" using assms(2) start_register by (auto simp: holders_def inv_mem_def)
  have "holders s' = holders s" using start_register o1 by (auto simp: holders_def)
  moreover have "lock_of s' = lock_of s" using start_register by (auto simp: lock_of_def fun_eq_iff)
  ultimately show ?thesis using assms(2) start_register by (auto simp: inv_mem_def)
next
  case (work_finish o1)
  then show ?thesis using inv_mem_finish[OF assms(2), of o1] inv_mem_cong[of s' "finish o1 s"] by simp
next
  case (timeout_detach k o1 c)
  then show ?thesis using inv_mem_finish[OF assms(2), of o1] inv_mem_cong[of s' "finish o1 s"] by simp
next
  case (start_count o1 q)
  then show ?thesis using inv_mem_move[OF assms(2), of o1 S_slot q S_counted] by simp
next
  case (start_full o1 q)
  then show ?thesis using inv_mem_give_up[OF assms(2)] by simp
next
  case (start_busy o1 q)
  then show ?thesis using inv_mem_give_up[OF assms(2)] by simp
next
  case (prune o1)
  then show ?thesis using inv_mem_finish[OF assms(2)] by simp
qed (auto intro!: inv_mem_cong[THEN iffD2, OF _ _ _ _ assms(2)])

lemma reach_mem: "conn_reach s \<Longrightarrow> inv_mem s"
  by (induction rule: conn_reach.induct) (auto intro: step_mem)

section \<open>Rows and threads\<close>

text \<open>
  What the threads know of the rows: a created operation has a row of its connector, a worker that
  ends has seen its row terminal, a timeout that won has made it so.
\<close>

definition worker_over :: "worker_pc \<Rightarrow> bool" where
  "worker_over w \<longleftrightarrow> (case w of W_won n t c \<Rightarrow> True | W_finishing \<Rightarrow> True | W_done \<Rightarrow> True | _ \<Rightarrow> False)"

fun start_rows :: "(starter \<times> start_request) option \<Rightarrow> operation option \<Rightarrow> worker_pc option \<Rightarrow> bool" where
  "start_rows None r w = True"
| "start_rows (Some (p, q)) r w =
     (if p = S_created \<or> p = S_submitted then (\<exists>x. r = Some x \<and> op_connector x = Some (rq_connector q) \<and>
          (p = S_created \<longrightarrow> w = None \<and> op_status x \<noteq> Op_running))
      else r = None \<and> w = None)"

fun timeout_rows :: "timeout_pc \<Rightarrow> (string \<Rightarrow> operation option) \<Rightarrow> bool" where
  "timeout_rows (T_armed o1 c n) R = (\<exists>x. R o1 = Some x \<and> op_connector x = Some c)"
| "timeout_rows (T_checked o1 c n) R = (\<exists>x. R o1 = Some x \<and> op_connector x = Some c)"
| "timeout_rows (T_won o1 c n t) R = (\<exists>x. R o1 = Some x \<and> op_connector x = Some c \<and> \<not> op_active (op_status x))"
| "timeout_rows (T_detach o1 c) R = (\<exists>x. R o1 = Some x \<and> op_connector x = Some c \<and> \<not> op_active (op_status x))"
| "timeout_rows _ R = True"

definition worker_rows :: "worker_pc option \<Rightarrow> operation option \<Rightarrow> bool" where
  "worker_rows w r \<longleftrightarrow> (\<forall>v. w = Some v \<longrightarrow> (\<exists>x. r = Some x \<and> op_connector x \<noteq> None \<and>
     (worker_over v \<longrightarrow> \<not> op_active (op_status x)) \<and> (v = W_waiting \<longrightarrow> op_status x \<noteq> Op_running)))"

definition active_rows :: "string option \<Rightarrow> operation option \<Rightarrow> bool" where
  "active_rows a r \<longleftrightarrow> (\<forall>c. a = Some c \<longrightarrow> (\<exists>x. r = Some x \<and> op_connector x = Some c))"

definition inv_rows :: "conn_state \<Rightarrow> bool" where
  "inv_rows s \<longleftrightarrow> (\<forall>o1. start_rows (cs_start s o1) (row s o1) (cs_work s o1) \<and>
       worker_rows (cs_work s o1) (row s o1) \<and> active_rows (cs_active s o1) (row s o1)) \<and>
     (\<forall>k t. cs_timeout s k = Some t \<longrightarrow> timeout_rows t (row s))"

lemma row_step:
  "conn_step a s s' \<Longrightarrow> row s o1 = Some r \<Longrightarrow> \<exists>r'. row s' o1 = Some r' \<and> row_kept r r'"
  using step_rows unfolding rows_kept_def by blast

text \<open>Only the worker of an operation sets it running.\<close>

lemma alter_running:
  assumes "alter_operation o2 g f d = (b, d')" and "get_connector_operation d o1 = Some r"
    and "get_connector_operation d' o1 = Some r'" and "\<And>r. op_status (f r) \<noteq> Op_running" and "op_status r \<noteq> Op_running"
  shows "op_status r' \<noteq> Op_running"
  using get_operation_alter[OF assms(1), of o1] assms(2-5) by (auto split: if_splits)

lemma cas_running:
  "store_success o2 t now res d = (b, d') \<Longrightarrow> get_connector_operation d o1 = Some r \<Longrightarrow>
     get_connector_operation d' o1 = Some r' \<Longrightarrow> op_status r \<noteq> Op_running \<Longrightarrow> op_status r' \<noteq> Op_running"
  "store_failure o2 t now j err n d = (b, d') \<Longrightarrow> get_connector_operation d o1 = Some r \<Longrightarrow>
     get_connector_operation d' o1 = Some r' \<Longrightarrow> op_status r \<noteq> Op_running \<Longrightarrow> op_status r' \<noteq> Op_running"
  "store_timeout o2 now j n d = (b, d') \<Longrightarrow> get_connector_operation d o1 = Some r \<Longrightarrow>
     get_connector_operation d' o1 = Some r' \<Longrightarrow> op_status r \<noteq> Op_running \<Longrightarrow> op_status r' \<noteq> Op_running"
  "store_orphan o2 now j n d = (b, d') \<Longrightarrow> get_connector_operation d o1 = Some r \<Longrightarrow>
     get_connector_operation d' o1 = Some r' \<Longrightarrow> op_status r \<noteq> Op_running \<Longrightarrow> op_status r' \<noteq> Op_running"
  by (simp only: cas_defs, erule alter_running; simp)+

lemma step_running:
  assumes "conn_step a s s'" and "row s o1 = Some r" and "op_connector r \<noteq> None" and "op_status r \<noteq> Op_running"
    and "row s' o1 = Some r'" and "op_status r' = Op_running"
  shows "\<exists>t. cs_work s' o1 = Some (W_started t)"
  using assms(1)
proof (cases rule: conn_step.cases)
  case (work_claim o2 now d)
  have "o2 = o1"
  proof (rule ccontr)
    assume "o2 \<noteq> o1"
    then have "row s' o1 = row s o1"
      using work_claim get_operation_alter[OF work_claim(4)[unfolded mark_connector_operation_running_def], of o1] by simp
    then show False using assms by simp
  qed
  then show ?thesis using work_claim by simp
next
  case (start_create o2 q now d)
  then show ?thesis using assms(2-6) get_operation_create[OF start_create(4)] by (cases "o1 = o2") auto
next
  case (group_create o2 now by1 d)
  then show ?thesis using assms(2-6) get_operation_create[OF group_create(4)] by (cases "o1 = o2") auto
next
  case (group_skip o2 c parent now why by1 d)
  then show ?thesis using assms(2-6) get_operation_create[OF group_skip(4)] by (cases "o1 = o2") auto
next
  case (group_update o2 r0 st fin out b d)
  then show ?thesis
    using assms(2-6) get_operation_alter[OF group_update(6)[unfolded update_connector_operation_def], of o1]
    by (cases "o1 = o2") auto
qed (use assms(2-6) in \<open>auto simp: fresh_process_def dest: cas_running\<close>)

lemma start_kept:
  assumes step: "conn_step a s s'" and rows: "start_rows (cs_start s o1) (row s o1) (cs_work s o1)"
    and same: "cs_start s' o1 = cs_start s o1" and work: "cs_work s' o1 = cs_work s o1 \<or> cs_work s o1 \<noteq> None"
  shows "start_rows (cs_start s' o1) (row s' o1) (cs_work s' o1)"
proof (cases "cs_start s o1")
  case (Some pq)
  obtain p q where pq: "pq = (p, q)" by (cases pq)
  show ?thesis
  proof (cases "p = S_created \<or> p = S_submitted")
    case True
    then obtain x where x: "row s o1 = Some x" "op_connector x = Some (rq_connector q)"
      "p = S_created \<longrightarrow> cs_work s o1 = None \<and> op_status x \<noteq> Op_running"
      using rows Some pq by auto
    obtain y where y: "row s' o1 = Some y" "row_kept x y" using row_step[OF step x(1)] by blast
    have "op_status y \<noteq> Op_running" if "p = S_created"
      using step_running[OF step x(1) _ _ y(1)] x(2,3) that work by auto
    then show ?thesis using x y True Some pq same work by (auto simp: row_kept_def)
  next
    case False
    then have none: "row s o1 = None" "cs_work s o1 = None" using rows Some pq by auto
    moreover have "row s' o1 = None"
    proof (rule ccontr)
      assume "row s' o1 \<noteq> None"
      then obtain r where "row s' o1 = Some r" by blast
      from step_new_row[OF step none(1) this] show False
        using same Some pq False by (auto simp: unused_def)
    qed
    ultimately show ?thesis using False Some pq same work by auto
  qed
qed (use same in auto)

lemma worker_kept:
  assumes "conn_step a s s'" and "worker_rows (cs_work s o1) (row s o1)" and "cs_work s' o1 = cs_work s o1"
  shows "worker_rows (cs_work s' o1) (row s' o1)"
  unfolding worker_rows_def
proof (intro allI impI)
  fix v
  assume v: "cs_work s' o1 = Some v"
  then obtain x where x: "row s o1 = Some x" "op_connector x \<noteq> None" "worker_over v \<longrightarrow> \<not> op_active (op_status x)"
    "v = W_waiting \<longrightarrow> op_status x \<noteq> Op_running"
    using assms(2,3) by (auto simp: worker_rows_def)
  obtain y where y: "row s' o1 = Some y" "row_kept x y" using row_step[OF assms(1) x(1)] by blast
  have "v = W_waiting \<longrightarrow> op_status y \<noteq> Op_running"
    using step_running[OF assms(1) x(1,2) _ y(1)] x(4) v by auto
  then show "\<exists>x. row s' o1 = Some x \<and> op_connector x \<noteq> None \<and> (worker_over v \<longrightarrow> \<not> op_active (op_status x)) \<and>
      (v = W_waiting \<longrightarrow> op_status x \<noteq> Op_running)"
    using x y by (auto simp: row_kept_def)
qed

text \<open>A worker moves on; where its next state is an over one, its row must be terminal.\<close>

lemma worker_moved:
  assumes "conn_step a s s'" and "worker_rows (cs_work s o1) (row s o1)" and "cs_work s o1 = Some w"
    and "worker_over w' \<Longrightarrow> \<exists>r. row s' o1 = Some r \<and> \<not> op_active (op_status r)" and "w' \<noteq> W_waiting"
  shows "worker_rows (Some w') (row s' o1)"
proof -
  obtain x where x: "row s o1 = Some x" "op_connector x \<noteq> None" using assms(2,3) by (auto simp: worker_rows_def)
  obtain y where "row s' o1 = Some y" "row_kept x y" using row_step[OF assms(1) x(1)] by blast
  then show ?thesis using x assms(4,5) by (auto simp: worker_rows_def row_kept_def)
qed

lemma active_kept:
  "conn_step a s s' \<Longrightarrow> active_rows x (row s o1) \<Longrightarrow> active_rows x (row s' o1)"
  unfolding active_rows_def using row_step[of a s s' o1] by (fastforce simp: row_kept_def)

lemma timeout_kept:
  assumes "conn_step a s s'" and "timeout_rows t (row s)"
  shows "timeout_rows t (row s')"
proof -
  have "\<exists>y. row s' o1 = Some y \<and> op_connector y = Some c \<and> (\<not> op_active (op_status x) \<longrightarrow> \<not> op_active (op_status y))"
    if "row s o1 = Some x" "op_connector x = Some c" for o1 x c
    using row_step[OF assms(1) that(1)] that(2) by (auto simp: row_kept_def)
  then show ?thesis using assms(2) by (cases t) (auto; blast)+
qed

text \<open>A compare-and-set that was lost found the row terminal; one that was won left it so.\<close>

lemma cas_terminal:
  assumes "alter_operation o1 (\<lambda>r. op_active (op_status r)) f d = (b, d')" and "get_connector_operation d o1 = Some r0"
    and "\<And>r. \<not> op_active (op_status (f r))"
  shows "\<exists>r. get_connector_operation d' o1 = Some r \<and> \<not> op_active (op_status r)"
  using get_operation_alter[OF assms(1), of o1] assms(2,3) by (cases "op_active (op_status r0)") auto

lemma store_terminal:
  "store_success o1 t now res d = (b, d') \<Longrightarrow> get_connector_operation d o1 = Some r0 \<Longrightarrow>
     \<exists>r. get_connector_operation d' o1 = Some r \<and> \<not> op_active (op_status r)"
  "store_failure o1 t now j err n d = (b, d') \<Longrightarrow> get_connector_operation d o1 = Some r0 \<Longrightarrow>
     \<exists>r. get_connector_operation d' o1 = Some r \<and> \<not> op_active (op_status r)"
  "store_timeout o1 now j n d = (b, d') \<Longrightarrow> get_connector_operation d o1 = Some r0 \<Longrightarrow>
     \<exists>r. get_connector_operation d' o1 = Some r \<and> \<not> op_active (op_status r)"
  by (simp only: cas_defs simp_thms, erule cas_terminal; simp add: op_active_def)+

lemma step_start_rows:
  assumes step: "conn_step a s s'" and inv: "inv_rows s"
  shows "start_rows (cs_start s' o1) (row s' o1) (cs_work s' o1)"
proof -
  have rows: "start_rows (cs_start s o1) (row s o1) (cs_work s o1)"
    and work: "worker_rows (cs_work s o1) (row s o1)" using inv by (auto simp: inv_rows_def)
  have "cs_start s' o1 = None \<or>
      cs_start s' o1 = cs_start s o1 \<and> (cs_work s' o1 = cs_work s o1 \<or> cs_work s o1 \<noteq> None) \<or>
      start_rows (cs_start s' o1) (row s' o1) (cs_work s' o1)"
    using step
  proof (cases rule: conn_step.cases)
    case (start_check o2 q c)
    then show ?thesis by (auto simp: unused_def)
  next
    case (start_create o2 q now d)
    then show ?thesis using rows get_operation_create[OF start_create(4)] by (cases "o2 = o1") auto
  next
    case (start_submit o2 q)
    then show ?thesis using rows by (cases "o2 = o1") auto
  next
    case (timeout_detach k o2 c)
    then show ?thesis by (auto simp: detach_active_operation_def split: option.splits)
  qed (use rows in \<open>auto simp: fresh_process_def\<close>)
  then show ?thesis using start_kept[OF step rows] by auto
qed

lemma step_worker_rows:
  assumes step: "conn_step a s s'" and inv: "inv_rows s"
  shows "worker_rows (cs_work s' o1) (row s' o1)"
proof -
  have rows: "worker_rows (cs_work s o1) (row s o1)" and start: "start_rows (cs_start s o1) (row s o1) (cs_work s o1)"
    using inv by (auto simp: inv_rows_def)
  note kept = worker_kept[OF step rows]
  note moved = worker_moved[OF step rows]
  have has_row: "\<exists>r. row s o1 = Some r" if "cs_work s o1 = Some w" for w
    using rows that by (auto simp: worker_rows_def)
  have "cs_work s' o1 = cs_work s o1 \<or> cs_work s' o1 = None \<or> worker_rows (cs_work s' o1) (row s' o1)"
    using step
  proof (cases rule: conn_step.cases)
    case (start_submit o2 q)
    then show ?thesis using kept start by (cases "o2 = o1") (auto simp: worker_rows_def worker_over_def)
  next
    case (work_claim o2 now d)
    then show ?thesis using kept moved[of W_waiting "W_started now"] by (cases "o2 = o1") (auto simp: worker_over_def)
  next
    case (work_lost o2 now d)
    show ?thesis
    proof (cases "o2 = o1")
      case True
      obtain r where r: "row s o1 = Some r" "op_status r \<noteq> Op_running"
        using rows work_lost True by (auto simp: worker_rows_def)
      have "op_status r \<noteq> Op_queued"
        using alter_operation_won[OF work_lost(4)[unfolded mark_connector_operation_running_def]] r True by auto
      then show ?thesis using moved[of W_waiting W_finishing] work_lost True r by (auto simp: op_active_def)
    qed (use kept work_lost in simp)
  next
    case (work_run o2 t r c result now)
    then show ?thesis using kept moved[of "W_started t" "W_ran t result"] by (cases "o2 = o1") (auto simp: worker_over_def)
  next
    case (work_late o2 t result r)
    then show ?thesis using kept moved[of "W_ran t result" W_finishing] by (cases "o2 = o1") (auto simp: op_active_def)
  next
    case (work_check o2 t result r)
    then show ?thesis using kept moved[of "W_ran t result" "W_checked t result"]
      by (cases "o2 = o1") (auto simp: worker_over_def)
  next
    case (work_ok o2 t result now won d)
    then show ?thesis
      using kept moved[of "W_checked t (Inr result)" "if won then W_won 0 None None else W_finishing"]
        has_row store_terminal(1)[OF work_ok(4)]
      by (cases "o2 = o1") auto
  next
    case (work_count o2 t err r c)
    then show ?thesis using kept moved[of "W_checked t (Inl err)" "W_counted t err (failed_so_far c (cs_db s))"]
      by (cases "o2 = o1") (auto simp: worker_over_def)
  next
    case (work_fail o2 t err n now jitter won d)
    show ?thesis
    proof (cases "o2 = o1")
      case True
      obtain r0 where "row s o1 = Some r0" using has_row work_fail True by blast
      then have "\<exists>r. get_connector_operation d o1 = Some r \<and> \<not> op_active (op_status r)"
        using store_terminal(2)[OF work_fail(4)] True by blast
      then show ?thesis using moved[OF work_fail(3)[unfolded True]] work_fail True by auto
    qed (use kept work_fail in simp)
  next
    case (work_retry o2 n t reason r c)
    then show ?thesis using kept moved[of "W_won n t reason" W_finishing] rows
      by (cases "o2 = o1") (auto simp: worker_rows_def worker_over_def)
  next
    case (work_finish o2)
    then show ?thesis using kept moved[of W_finishing W_done] rows
      by (cases "o2 = o1") (auto simp: worker_rows_def worker_over_def)
  next
    case (timeout_detach k o2 c)
    then have t: "timeout_rows (T_detach o2 c) (row s)" using inv unfolding inv_rows_def by blast
    show ?thesis
    proof (cases "cs_work s' o1 = cs_work s o1")
      case False
      then have "o2 = o1" "cs_work s o1 = Some W_waiting" "cs_work s' o1 = Some W_done"
        using timeout_detach by (auto simp: detach_active_operation_def split: option.splits if_splits)
      then show ?thesis using moved[of W_waiting W_done] t timeout_detach by auto
    qed (use kept in blast)
  qed (auto simp: fresh_process_def)
  then show ?thesis using kept by (auto simp: worker_rows_def)
qed

lemma step_active_rows:
  assumes step: "conn_step a s s'" and inv: "inv_rows s"
  shows "active_rows (cs_active s' o1) (row s' o1)"
proof -
  have rows: "active_rows (cs_active s o1) (row s o1)" and start: "start_rows (cs_start s o1) (row s o1) (cs_work s o1)"
    using inv by (auto simp: inv_rows_def)
  have "cs_active s' o1 = cs_active s o1 \<or> cs_active s' o1 = None \<or>
      (\<exists>q k. cs_start s o1 = Some (S_submitted, q) \<and> cs_active s' o1 = Some (rq_connector q) \<and> cs_db s' = cs_db s)"
    using step by (cases rule: conn_step.cases) (auto simp: fresh_process_def finish_def split: option.splits)
  then show ?thesis
    using active_kept[OF step rows] start by (elim disjE) (auto simp: active_rows_def)
qed

lemma step_timeout_rows:
  assumes step: "conn_step a s s'" and inv: "inv_rows s" and "cs_timeout s' k = Some t"
  shows "timeout_rows t (row s')"
proof -
  have rows: "timeout_rows t' (row s)" if "cs_timeout s k' = Some t'" for k' t'
    using inv that by (auto simp: inv_rows_def)
  have kept: "timeout_rows t (row s')" if "cs_timeout s k = Some t"
    using timeout_kept[OF step rows[OF that]] .
  show ?thesis
    using step
  proof (cases rule: conn_step.cases)
    case (start_register o1 q k2)
    moreover have "start_rows (cs_start s o1) (row s o1) (cs_work s o1)" using inv by (auto simp: inv_rows_def)
    ultimately show ?thesis using kept assms(3) by (cases "k2 = k") auto
  next
    case (reap o1 c r k2)
    moreover have "active_rows (cs_active s o1) (row s o1)" using inv by (auto simp: inv_rows_def)
    ultimately show ?thesis using kept assms(3) by (cases "k2 = k") (auto simp: active_rows_def)
  next
    case (timeout_check k2 o1 c n r)
    then show ?thesis using kept assms(3) rows[of k2] by (cases "k2 = k") auto
  next
    case (timeout_mark k2 o1 c n now jitter won d)
    show ?thesis
    proof (cases "k2 = k")
      case True
      then have t: "t = T_won o1 c n (timeout_next_attempt now jitter n)" using timeout_mark assms(3) by (auto split: if_splits)
      obtain x where x: "row s o1 = Some x" "op_connector x = Some c" using rows timeout_mark True by fastforce
      obtain y where y: "row s' o1 = Some y" "row_kept x y" using row_step[OF step x(1)] by blast
      then show ?thesis using store_terminal(3)[OF timeout_mark(4) x(1)] t x timeout_mark by (auto simp: row_kept_def)
    qed (use kept timeout_mark assms(3) in simp)
  next
    case (timeout_retry k2 o1 c n t2)
    then show ?thesis using kept assms(3) rows[of k2] by (cases "k2 = k") auto
  next
    case (recover_mark k2 o1 c n now jitter won d)
    then show ?thesis using kept assms(3) by (cases "k2 = k") (auto split: if_splits)
  qed (use kept assms(3) in \<open>auto simp: fresh_process_def split: if_splits\<close>)
qed

lemma step_inv_rows: "conn_step a s s' \<Longrightarrow> inv_rows s \<Longrightarrow> inv_rows s'"
  using step_start_rows step_worker_rows step_active_rows step_timeout_rows by (simp add: inv_rows_def)

lemma reach_rows: "conn_reach s \<Longrightarrow> inv_rows s"
proof (induction rule: conn_reach.induct)
  case (boot d)
  then show ?case by (simp add: inv_rows_def fresh_process_def worker_rows_def active_rows_def)
qed (rule step_inv_rows)

section \<open>One live operation per connector\<close>

definition live_on :: "conn_state \<Rightarrow> string \<Rightarrow> string \<Rightarrow> bool" where
  "live_on s c o1 \<longleftrightarrow> (\<exists>r. row s o1 = Some r \<and> op_connector r = Some c \<and> op_active (op_status r))"

text \<open>A live operation holds the lock of its connector; or it is an orphan of an earlier process, and then
  nobody holds that lock or tries to start on that connector.\<close>

definition inv_live :: "conn_state \<Rightarrow> bool" where
  "inv_live s \<longleftrightarrow> (\<forall>o1 c. live_on s c o1 \<longrightarrow> lock_of s o1 = Some c \<or>
       ((\<forall>o2. lock_of s o2 \<noteq> Some c) \<and> (\<forall>o2 p q. cs_start s o2 = Some (p, q) \<longrightarrow> rq_connector q \<noteq> c))) \<and>
     (\<forall>o1 o2 c. live_on s c o1 \<longrightarrow> live_on s c o2 \<longrightarrow> o1 = o2)"

lemma find_active_None:
  "find_active_connector_operation d c = None \<Longrightarrow> get_connector_operation d o1 = Some r \<Longrightarrow> op_connector r = Some c \<Longrightarrow>
   \<not> op_active (op_status r)"
proof -
  assume none: "find_active_connector_operation d c = None" and r: "get_connector_operation d o1 = Some r"
    "op_connector r = Some c"
  let ?live = "filter (\<lambda>(_, r). op_connector r = Some c \<and> op_active (op_status r)) (cd_operations d)"
  have "sort_key (\<lambda>(_, r). - op_requested_at r) ?live = []"
    using none unfolding find_active_connector_operation_def by (simp split: list.split_asm)
  then have "set ?live = set ([] :: (string \<times> operation) list)"
    using set_sort[of "\<lambda>(_, r). - op_requested_at r" ?live] by (simp only:)
  moreover have "(o1, r) \<in> set (cd_operations d)" using r(1) by (auto simp: get_connector_operation_def map_of_SomeD)
  ultimately show ?thesis using r(2) by (simp only: set_filter list.set) blast
qed

lemma worker_over_row:
  "inv_rows s \<Longrightarrow> cs_work s o1 = Some w \<Longrightarrow> worker_over w \<Longrightarrow> row s o1 = Some r \<Longrightarrow> \<not> op_active (op_status r)"
  unfolding inv_rows_def worker_rows_def by (metis option.inject)

lemma lock_of_finish: "lock_of (finish o2 s) o1 = lock_of s o1 \<or> o1 = o2 \<and> lock_of (finish o2 s) o1 = None"
proof (cases "cs_start s o1")
  case None
  then show ?thesis by (auto simp: lock_of_def finish_def split: option.splits)
next
  case (Some pq)
  then show ?thesis by (cases pq) (auto simp: lock_of_def)
qed

lemma lock_change:
  assumes step: "conn_step a s s'" and mem: "inv_mem s" and inv: "inv_rows s"
  shows "lock_of s' o1 = lock_of s o1 \<or>
    (\<exists>q. cs_start s o1 = Some (S_counted, q) \<and> lock_of s' o1 = Some (rq_connector q)) \<or>
    (lock_of s' o1 = None \<and> ((\<exists>d. s' = fresh_process d) \<or> (\<forall>r. row s o1 = Some r \<longrightarrow> \<not> op_active (op_status r))))"
proof -
  have free: "cs_start s o2 = None \<or> cs_active s o2 = None" for o2 using mem unfolding inv_mem_def by metis
  show ?thesis
    using step
  proof (cases rule: conn_step.cases)
    case (prune o2)
    then show ?thesis using lock_of_finish[of o2 s o1] worker_over_row[OF inv, of o1 W_done] by (auto simp: worker_over_def)
  next
    case (work_finish o2)
    have "lock_of s' o1 = lock_of (finish o2 s) o1" using work_finish by (simp add: lock_of_def)
    then show ?thesis
      using work_finish lock_of_finish[of o2 s o1] worker_over_row[OF inv, of o1 W_finishing] by (auto simp: worker_over_def)
  next
    case (timeout_detach k o2 c)
    have "lock_of s' o1 = lock_of (finish o2 s) o1" using timeout_detach by (simp add: lock_of_def)
    moreover have "timeout_rows (T_detach o2 c) (row s)" using inv timeout_detach unfolding inv_rows_def by blast
    ultimately show ?thesis using lock_of_finish[of o2 s o1] by auto
  qed (use free[of o1] in \<open>auto simp: lock_of_def unused_def fresh_process_def\<close>)
qed

lemma start_change:
  assumes "conn_step a s s'" and "cs_start s' o1 = Some (p, q)"
  shows "(\<exists>p'. cs_start s o1 = Some (p', q)) \<or> find_active_connector_operation (cs_db s) (rq_connector q) = None"
  using assms by (cases rule: conn_step.cases) (auto simp: fresh_process_def split: if_splits)

text \<open>A live operation was live before, or it is the row its starter just made.\<close>

lemma live_before:
  assumes step: "conn_step a s s'" and live: "live_on s' c o1"
  shows "live_on s c o1 \<or> row s o1 = None \<and> (\<exists>q. rq_connector q = c \<and>
    cs_start s o1 = Some (S_locked, q) \<and> cs_start s' o1 = Some (S_created, q))"
proof -
  obtain r where r: "row s' o1 = Some r" "op_connector r = Some c" "op_active (op_status r)"
    using live by (auto simp: live_on_def)
  show ?thesis
  proof (cases "row s o1")
    case None
    then show ?thesis using step_new_row[OF step None r(1)] r(2,3) by auto
  next
    case (Some x)
    then show ?thesis using row_step[OF step Some] r by (cases "op_active (op_status x)") (auto simp: row_kept_def live_on_def)
  qed
qed

lemma step_inv_live:
  assumes step: "conn_step a s s'" and mem: "inv_mem s" and rows: "inv_rows s" and live: "inv_live s"
  shows "inv_live s'"
proof -
  have one: "lock_of s' o1 = Some c \<or>
      ((\<forall>o2. lock_of s' o2 \<noteq> Some c) \<and> (\<forall>o2 p q. cs_start s' o2 = Some (p, q) \<longrightarrow> rq_connector q \<noteq> c))"
    if l': "live_on s' c o1" for o1 c
    using live_before[OF step l']
  proof
    assume l: "live_on s c o1"
    then obtain r where r: "row s o1 = Some r" "op_connector r = Some c" "op_active (op_status r)" by (auto simp: live_on_def)
    from live l consider "lock_of s o1 = Some c"
      | "\<forall>o2. lock_of s o2 \<noteq> Some c" "\<forall>o2 p q. cs_start s o2 = Some (p, q) \<longrightarrow> rq_connector q \<noteq> c"
      unfolding inv_live_def by blast
    then show ?thesis
    proof cases
      case 1
      then show ?thesis
        using lock_change[OF step mem rows, of o1] r by (auto simp: lock_of_def fresh_process_def)
    next
      case 2
      have "lock_of s' o2 \<noteq> Some c" for o2
        using lock_change[OF step mem rows, of o2] 2 by auto
      moreover have "rq_connector q \<noteq> c" if "cs_start s' o2 = Some (p, q)" for o2 p q
        using start_change[OF step that] 2(2) find_active_None[OF _ r(1)] r(2,3) by auto
      ultimately show ?thesis by blast
    qed
  next
    assume "row s o1 = None \<and> (\<exists>q. rq_connector q = c \<and>
      cs_start s o1 = Some (S_locked, q) \<and> cs_start s' o1 = Some (S_created, q))"
    then show ?thesis by (auto simp: lock_of_def)
  qed
  have new: "o1 = o2" if "row s o1 = None" "cs_start s o1 = Some (S_locked, q)" "rq_connector q = c" "live_on s c o2"
    for o1 o2 c q
  proof -
    have "lock_of s o1 = Some c" using that by (simp add: lock_of_def)
    moreover have "lock_of s o2 = Some c" using live that(4) calculation unfolding inv_live_def by blast
    ultimately show ?thesis using mem unfolding inv_mem_def by blast
  qed
  have both: "o1 = o2" if "cs_start s o1 = Some (S_locked, q1)" "cs_start s o2 = Some (S_locked, q2)"
    "rq_connector q1 = rq_connector q2" for o1 o2 q1 q2
  proof -
    have "lock_of s o1 = Some (rq_connector q1)" "lock_of s o2 = Some (rq_connector q1)" using that by (simp_all add: lock_of_def)
    then show ?thesis using mem unfolding inv_mem_def by blast
  qed
  have "o1 = o2" if l': "live_on s' c o1" "live_on s' c o2" for o1 o2 c
    using live_before[OF step l'(1)] live_before[OF step l'(2)] new both live unfolding inv_live_def by metis
  then show ?thesis using one unfolding inv_live_def by blast
qed

lemma reach_live: "conn_reach s \<Longrightarrow> inv_live s"
proof (induction rule: conn_reach.induct)
  case (boot d)
  then show ?case by (simp add: inv_live_def live_on_def fresh_process_def get_connector_operation_def)
next
  case (more s a s')
  then show ?case using step_inv_live reach_mem reach_rows by blast
qed

text \<open>C11: Whatever the interleaving of callers, workers, timeouts, recovery, edits and crashes of the
  process: a connector has at most one queued or running operation, and at most three operations are
  registered, each on a connector of its own.
\<close>
theorem one_live_operation:
  assumes "conn_reach s" and "live_on s c o1"
  shows "{o2. live_on s c o2} = {o1} \<and> card (dom (cs_active s)) \<le> 3 \<and> inj_on (cs_active s) (dom (cs_active s))"
proof -
  have mem: "inv_mem s" by (rule reach_mem[OF assms(1)])
  have "card (dom (cs_active s)) \<le> card (holders s)"
    using mem by (intro card_mono) (auto simp: inv_mem_def holders_def)
  moreover have "card (holders s) \<le> 3" using mem by (auto simp: inv_mem_def MAX_CONCURRENT_OPERATIONS_def)
  moreover have "lock_of s o2 = cs_active s o2" if "o2 \<in> dom (cs_active s)" for o2
  proof -
    have "cs_start s o2 = None" using mem that unfolding inv_mem_def by (metis domIff)
    then show ?thesis by (simp add: lock_of_def)
  qed
  then have "inj_on (cs_active s) (dom (cs_active s))"
    using mem unfolding inv_mem_def inj_on_def by (metis domD)
  moreover have "{o2. live_on s c o2} = {o1}" using reach_live[OF assms(1)] assms(2) unfolding inv_live_def by blast
  ultimately show ?thesis by linarith
qed

section \<open>Terminal operations\<close>

definition won_before :: "conn_state \<Rightarrow> string \<Rightarrow> bool" where
  "won_before s o1 \<longleftrightarrow> (case cs_work s o1 of Some (W_won n t reason) \<Rightarrow> True | _ \<Rightarrow> False)"

definition settled :: "conn_state \<Rightarrow> string \<Rightarrow> operation \<Rightarrow> bool" where
  "settled s o1 r \<longleftrightarrow> row s o1 = Some r \<and> op_connector r \<noteq> None \<and> \<not> op_active (op_status r)"

lemma settled_kept: "conn_step a s s' \<Longrightarrow> settled s o1 r \<Longrightarrow> settled s' o1 r"
  using row_step[of a s s' o1 r] by (auto simp: settled_def row_kept_def)

lemma cas_lost:
  "alter_operation o1 (\<lambda>r. op_active (op_status r)) f d = (b, d') \<Longrightarrow> get_connector_operation d o1 = Some r \<Longrightarrow>
   \<not> op_active (op_status r) \<Longrightarrow> \<not> b \<and> d' = d"
  by (auto simp: alter_operation_def)

lemma stores_lost:
  "store_success o1 t now res d = (b, d') \<Longrightarrow> get_connector_operation d o1 = Some r \<Longrightarrow> \<not> op_active (op_status r) \<Longrightarrow> \<not> b \<and> d' = d"
  "store_failure o1 t now j err n d = (b, d') \<Longrightarrow> get_connector_operation d o1 = Some r \<Longrightarrow> \<not> op_active (op_status r) \<Longrightarrow> \<not> b \<and> d' = d"
  by (simp only: cas_defs simp_thms, erule (2) cas_lost)+

lemma won_before_kept:
  assumes step: "conn_step a s s'" and r: "settled s o1 r" and no: "\<not> won_before s o1"
  shows "\<not> won_before s' o1"
proof -
  have row: "row s o1 = Some r" "\<not> op_active (op_status r)" using r by (auto simp: settled_def)
  show ?thesis
    using step
  proof (cases rule: conn_step.cases)
    case (work_ok o2 t result now won d)
    then show ?thesis using no stores_lost(1)[OF work_ok(4)] row by (auto simp: won_before_def)
  next
    case (work_fail o2 t err n now jitter won d)
    then show ?thesis using no stores_lost(2)[OF work_fail(4)] row by (auto simp: won_before_def)
  qed (use no in \<open>auto simp: won_before_def fresh_process_def detach_active_operation_def split: option.splits\<close>)
qed

lemma late_worker_step:
  assumes step: "conn_step (Worker o1) s s'" and r: "settled s o1 r" and no: "\<not> won_before s o1"
  shows "cs_db s' = cs_db s"
proof -
  have row: "row s o1 = Some r" "\<not> op_active (op_status r)" using r by (auto simp: settled_def)
  show ?thesis
    using step
  proof (cases rule: conn_step.cases)
    case (work_claim now d)
    then show ?thesis
      using alter_operation_won[OF work_claim(3)[unfolded mark_connector_operation_running_def]] row
      by (auto simp: op_active_def)
  next
    case (work_run t r2 c result now)
    have "\<not> operation_live (cs_db s) o1"
      using row by (simp add: operation_live_def get_connector_operation_def)
    then show ?thesis using work_run
      by (auto simp: record_run_def set_connector_status_def split: sum.splits)
  next
    case (work_ok t result now won d)
    then show ?thesis using stores_lost(1)[OF work_ok(3)] row by simp
  next
    case (work_fail t err n now jitter won d)
    then show ?thesis using stores_lost(2)[OF work_fail(3)] row by simp
  qed (use no in \<open>auto simp: won_before_def\<close>)
qed

text \<open>C12: The end of a connector's operation is final: once the operation of a single connector has
  succeeded, failed, been skipped or timed out, its row never changes again under any interleaving, and a
  worker that did not write that end itself and comes back later - a provider that answers after the
  timeout - writes nothing at all, neither to the history nor to the connector. The rows that group the
  operations of a retry-all have no connector and are not meant: they can be opened again.
\<close>
theorem terminal_is_final:
  assumes "settled s o1 r" and "\<not> won_before s o1" and "conn_steps s s'"
  shows "row s' o1 = Some r \<and> (\<forall>s''. conn_step (Worker o1) s' s'' \<longrightarrow> cs_db s'' = cs_db s')"
proof -
  have "settled s' o1 r \<and> \<not> won_before s' o1"
    using assms(3,1,2)
  proof (induction rule: conn_steps.induct)
    case (go s s' a s'')
    then show ?case using settled_kept[OF go(2)] won_before_kept[OF go(2)] by blast
  qed simp
  then show ?thesis using late_worker_step unfolding settled_def by blast
qed

section \<open>Repair\<close>

lemma alter_connector_same: "get_connector d c = Some r \<Longrightarrow> f r = r \<Longrightarrow> alter_connector c f d = d"
  by (simp add: alter_connector_def get_connector_def update_triv)

lemma reconcile_writes:
  assumes "desired_retry r = Some (n, t, reason)" and "0 \<le> n"
  shows "reconcile_retry_metadata c (Some r) d = set_connector_retry c n t reason d"
proof (cases "get_connector d c")
  case None
  then show ?thesis by (simp add: reconcile_retry_metadata_def set_connector_retry_def alter_connector_def)
next
  case (Some co)
  show ?thesis
  proof (cases "co_retry_count co = n \<and> co_next_attempt_at co = t \<and> co_reason co = reason")
    case True
    then have "set_connector_retry c n t reason d = d"
      unfolding set_connector_retry_def using assms(2) by (intro alter_connector_same[OF Some]) auto
    then show ?thesis using True Some assms(1) by (simp add: reconcile_retry_metadata_def)
  qed (use Some assms(1) in \<open>auto simp: reconcile_retry_metadata_def\<close>)
qed

lemma classify_nonempty: "classify_failure e \<noteq> []"
  by (simp add: classify_failure_def Let_def)

lemma alter_operation_row:
  "alter_operation o1 g f d = (True, d') \<Longrightarrow>
   \<exists>r. get_connector_operation d o1 = Some r \<and> get_connector_operation d' o1 = Some (f r)"
  using get_operation_alter[of o1 g f d True d' o1] alter_operation_won[of o1 g f d True d'] by auto

lemma reconcile_after:
  "store_success o1 started now result d = (True, d') \<Longrightarrow>
     reconcile_retry_metadata c (get_connector_operation d' o1) d' = set_connector_retry c 0 None None d'"
  "store_failure o1 started now jitter err (failed_so_far c d) d = (True, d') \<Longrightarrow> 0 \<le> failed_so_far c d \<Longrightarrow>
     reconcile_retry_metadata c (get_connector_operation d' o1) d' =
       set_connector_retry c (failed_so_far c d) (Some (failure_next_attempt now jitter (failed_so_far c d)))
         (Some (classify_failure (runtime_error err))) d'"
  "store_timeout o1 now jitter n d = (True, d') \<Longrightarrow> 0 \<le> n \<Longrightarrow>
     reconcile_retry_metadata c (get_connector_operation d' o1) d' =
       set_connector_retry c (n + 1) (Some (timeout_next_attempt now jitter n)) (Some ''timeout'') d'"
  "store_orphan o1 now jitter n d = (True, d') \<Longrightarrow> 0 \<le> n \<Longrightarrow>
     reconcile_retry_metadata c (get_connector_operation d' o1) d' =
       set_connector_retry c n (Some (failure_next_attempt now jitter n)) (Some ''process_restart'') d'"
proof -
  show "store_success o1 started now result d = (True, d') \<Longrightarrow>
     reconcile_retry_metadata c (get_connector_operation d' o1) d' = set_connector_retry c 0 None None d'"
    unfolding cas_defs
    by (drule alter_operation_row) (auto intro!: reconcile_writes simp: desired_retry_def)
  show "store_failure o1 started now jitter err (failed_so_far c d) d = (True, d') \<Longrightarrow> 0 \<le> failed_so_far c d \<Longrightarrow>
     reconcile_retry_metadata c (get_connector_operation d' o1) d' =
       set_connector_retry c (failed_so_far c d) (Some (failure_next_attempt now jitter (failed_so_far c d)))
         (Some (classify_failure (runtime_error err))) d'"
    unfolding cas_defs
    by (drule alter_operation_row)
      (auto intro!: reconcile_writes simp: desired_retry_def apply_change_def no_change_def keep_def classify_nonempty)
  show "store_timeout o1 now jitter n d = (True, d') \<Longrightarrow> 0 \<le> n \<Longrightarrow>
     reconcile_retry_metadata c (get_connector_operation d' o1) d' =
       set_connector_retry c (n + 1) (Some (timeout_next_attempt now jitter n)) (Some ''timeout'') d'"
    unfolding cas_defs by (drule alter_operation_row) (auto intro!: reconcile_writes simp: desired_retry_def)
  show "store_orphan o1 now jitter n d = (True, d') \<Longrightarrow> 0 \<le> n \<Longrightarrow>
     reconcile_retry_metadata c (get_connector_operation d' o1) d' =
       set_connector_retry c n (Some (failure_next_attempt now jitter n)) (Some ''process_restart'') d'"
    unfolding cas_defs by (drule alter_operation_row) (auto intro!: reconcile_writes simp: desired_retry_def)
qed

text \<open>C15: The history is enough to repair the scheduler's view: if the process dies after the statement that
  ends an operation and before the one that updates its connector, reconciling with the row of that
  operation writes exactly what the second statement would have written - after a success, a failure, a
  timeout and the recovery of an orphan.
\<close>
theorem reconcile_completes:
  assumes "0 \<le> failed_so_far c d" and "0 \<le> n"
  shows "(store_success o1 started now result d = (True, d') \<longrightarrow>
      reconcile_retry_metadata c (get_connector_operation d' o1) d' = set_connector_retry c 0 None None d') \<and>
   (store_failure o1 started now jitter err (failed_so_far c d) d = (True, d') \<longrightarrow>
      reconcile_retry_metadata c (get_connector_operation d' o1) d' =
        set_connector_retry c (failed_so_far c d) (Some (failure_next_attempt now jitter (failed_so_far c d)))
          (Some (classify_failure (runtime_error err))) d') \<and>
   (store_timeout o1 now jitter n d = (True, d') \<longrightarrow>
      reconcile_retry_metadata c (get_connector_operation d' o1) d' =
        set_connector_retry c (n + 1) (Some (timeout_next_attempt now jitter n)) (Some ''timeout'') d') \<and>
   (store_orphan o1 now jitter n d = (True, d') \<longrightarrow>
      reconcile_retry_metadata c (get_connector_operation d' o1) d' =
        set_connector_retry c n (Some (failure_next_attempt now jitter n)) (Some ''process_restart'') d')"
  using assms by (blast intro: reconcile_after)

section \<open>Backoff\<close>

lemma retry_delay_range:
  "min 900 (60 * 2 ^ nat (min 4 (max 0 n))) \<le> compute_retry_delay n j
     \<and> compute_retry_delay n j \<le> min 900 (60 * 2 ^ nat (min 4 (max 0 n)) + 30)"
proof -
  have capped: "min 900 b \<le> min 900 (min 900 b + max 0 (min x 30)) \<and> min 900 (min 900 b + max 0 (min x 30)) \<le> min 900 (b + 30)"
    for b x :: int by linarith
  show ?thesis using capped[of "60 * 2 ^ nat (min 4 (max 0 n))"] by (simp add: compute_retry_delay_def Let_def min.commute)
qed

text \<open>C17: What a failure writes holds the scheduler back. The next attempt is set one, two, four, eight
  or fifteen minutes after the failure, by the failures seen before, plus at most thirty seconds and never
  more than fifteen minutes in all; and as long as the connector's row says so, the scheduler finds the
  connector not due at any time before it, whatever its latest operation. Manual and retry-all runs do not
  ask the scheduler.
\<close>
theorem backoff_respected:
  assumes "get_connector d c = Some co" and "0 \<le> co_retry_count co" and "n = failed_so_far c d"
    and "get_connector (set_connector_retry c n (Some (failure_next_attempt now jitter n)) reason d) c = Some co'"
  defines "wait \<equiv> 60 * 2 ^ nat (min 4 (co_retry_count co)) :: int"
  shows "\<exists>t. co_next_attempt_at co' = Some t
    \<and> now + real_of_int (min 900 wait) \<le> t \<and> t \<le> now + real_of_int (min 900 (wait + 30))
    \<and> (\<forall>now' status. due now' status co' = Some True \<longrightarrow> t \<le> now')"
proof -
  let ?t = "failure_next_attempt now jitter n"
  have n: "n - 1 = co_retry_count co" using assms(1,3) by (simp add: failed_so_far_def)
  have co': "co_next_attempt_at co' = Some ?t"
    using assms(1,4) by (auto simp: set_connector_retry_def alter_connector_def get_connector_def update_conv)
  have "?t = now + real_of_int (compute_retry_delay (co_retry_count co) (Some jitter))"
    using assms(2) unfolding failure_next_attempt_def scheduled_retry_delay_def n by (simp add: max_def)
  moreover have "min 900 wait \<le> compute_retry_delay (co_retry_count co) (Some jitter)"
    "compute_retry_delay (co_retry_count co) (Some jitter) \<le> min 900 (wait + 30)"
    using retry_delay_range[of "co_retry_count co" "Some jitter"] assms(2) by (simp_all add: wait_def max_def)
  ultimately have "now + real_of_int (min 900 wait) \<le> ?t \<and> ?t \<le> now + real_of_int (min 900 (wait + 30))"
    by (simp add: of_int_le_iff del: of_int_min)
  moreover have "t \<le> now'" if "due now' status co' = Some True" "t = ?t" for now' status t
    using that by (simp add: due_def co' split: if_splits option.splits)
  ultimately show ?thesis using co' by blast
qed

section \<open>Witnesses\<close>

definition demo_connector :: connector where
  "demo_connector = \<lparr>co_name = ''trail'', co_type = ''aws_cloudtrail_sqs'', co_enabled = True, co_verified = True,
     co_config = [(''interval_seconds'', PyInt 60)], co_last_run_at = None, co_last_status = None,
     co_last_error = None, co_retry_count = 0, co_next_attempt_at = None, co_reason = None\<rparr>"

definition demo_conn_db :: conn_db where
  "demo_conn_db = \<lparr>cd_connectors = [(''c1'', demo_connector)], cd_operations = []\<rparr>"

definition demo_request :: start_request where
  "demo_request = \<lparr>rq_connector = ''c1'', rq_kind = ''scheduled'', rq_parent = None, rq_by = None, rq_retry = 0\<rparr>"

lemma backoff_respected_witness:
  "\<exists>co' t. get_connector (set_connector_retry ''c1'' 1 (Some (failure_next_attempt 1000 7 1)) (Some ''unknown'') demo_conn_db)
     ''c1'' = Some co' \<and> co_next_attempt_at co' = Some t \<and> 1060 \<le> t \<and> t \<le> 1090
     \<and> (\<forall>now' status. due now' status co' = Some True \<longrightarrow> t \<le> now')"
proof -
  obtain co' where co': "get_connector (set_connector_retry ''c1'' 1 (Some (failure_next_attempt 1000 7 1))
      (Some ''unknown'') demo_conn_db) ''c1'' = Some co'"
    by (simp add: set_connector_retry_def alter_connector_def get_connector_def demo_conn_db_def)
  have "get_connector demo_conn_db ''c1'' = Some demo_connector" by (simp add: get_connector_def demo_conn_db_def)
  from backoff_respected[OF this _ _ co'] obtain t where "co_next_attempt_at co' = Some t" "1060 \<le> t" "t \<le> 1090"
    "\<forall>now' status. due now' status co' = Some True \<longrightarrow> t \<le> now'"
    by (auto simp: demo_connector_def failed_so_far_def get_connector_def demo_conn_db_def)
  then show ?thesis using co' by blast
qed

lemma reconcile_completes_witness:
  "\<exists>d'. reconcile_retry_metadata ''c1'' (get_connector_operation d' ''o1'') d' = set_connector_retry ''c1'' 0 None None d'"
proof -
  obtain d where d: "create_connector_operation ''o1'' ''manual'' (Some ''c1'') None Op_queued 0 0 [] None demo_conn_db = Some d"
    by (simp add: create_connector_operation_def demo_conn_db_def)
  obtain b d' where s: "store_success ''o1'' 0 5 [(''status'', PyStr ''ok'')] d = (b, d')" by fastforce
  have "\<exists>r. get_connector_operation d ''o1'' = Some r \<and> op_active (op_status r)"
    using get_operation_create[OF d] by (auto simp: op_active_def)
  then have "b" using alter_operation_won[OF s[unfolded cas_defs]] by simp
  then have won: "store_success ''o1'' 0 5 [(''status'', PyStr ''ok'')] d = (True, d')" using s by simp
  have "get_connector d ''c1'' = Some demo_connector"
    using d by (auto simp: create_connector_operation_def get_connector_def demo_conn_db_def split: if_splits)
  then have f: "0 \<le> failed_so_far ''c1'' d" by (simp add: failed_so_far_def demo_connector_def)
  show ?thesis
    using reconcile_completes[where c = "''c1''" and d = d and n = 0 and ?o1.0 = "''o1''" and started = 0 and now = 5
        and result = "[(''status'', PyStr ''ok'')]" and d' = d', OF f order.refl] won by blast
qed

text \<open>A run that starts an operation, up to its registration.\<close>

lemma demo_reach:
  "\<exists>s. conn_reach s \<and> live_on s ''c1'' ''o1'' \<and> cs_work s ''o1'' = Some W_waiting \<and> cs_active s ''o1'' = Some ''c1''"
proof -
  let ?s0 = "fresh_process demo_conn_db"
  have "conn_reach ?s0" by (rule boot) (simp add: demo_conn_db_def)
  moreover have "conn_step (Starter ''o1'') ?s0 (set_start ''o1'' S_checked demo_request ?s0)"
    by (rule start_check[where c = demo_connector])
      (simp_all add: unused_def fresh_process_def get_connector_operation_def demo_conn_db_def get_connector_def
        demo_request_def startable_def demo_connector_def find_active_connector_operation_def)
  ultimately have r1: "conn_reach (set_start ''o1'' S_checked demo_request ?s0)" by (rule more)
  obtain s2 where s2: "conn_reach s2" "cs_start s2 ''o1'' = Some (S_slot, demo_request)" "cs_db s2 = demo_conn_db"
    "cs_locks s2 = {}" "cs_active s2 = Map.empty" "cs_work s2 = Map.empty" "cs_timeout s2 = Map.empty"
    using more[OF r1 start_slot[of _ "''o1''" demo_request]]
    by (fastforce simp: fresh_process_def MAX_CONCURRENT_OPERATIONS_def)
  obtain s3 where s3: "conn_reach s3" "cs_start s3 ''o1'' = Some (S_counted, demo_request)" "cs_db s3 = demo_conn_db"
    "cs_locks s3 = {}" "cs_active s3 = Map.empty" "cs_work s3 = Map.empty" "cs_timeout s3 = Map.empty"
    using more[OF s2(1) start_count[OF s2(2)]] s2 by (fastforce simp: active_count_def MAX_CONCURRENT_OPERATIONS_def)
  obtain s4 where s4: "conn_reach s4" "cs_start s4 ''o1'' = Some (S_locked, demo_request)" "cs_db s4 = demo_conn_db"
    "cs_active s4 = Map.empty" "cs_work s4 = Map.empty" "cs_timeout s4 = Map.empty"
    using more[OF s3(1) start_lock[OF s3(2)]] s3 by (fastforce simp: demo_request_def)
  obtain d where d: "create_connector_operation ''o1'' (rq_kind demo_request) (Some (rq_connector demo_request))
      (rq_parent demo_request) Op_queued 0 (rq_retry demo_request) [] (rq_by demo_request) (cs_db s4) = Some d"
    by (simp add: create_connector_operation_def s4 demo_conn_db_def)
  have row: "\<exists>r. get_connector_operation d ''o1'' = Some r \<and> op_status r = Op_queued \<and> op_connector r = Some ''c1''"
    using get_operation_create[OF d] by (auto simp: demo_request_def)
  obtain s5 where s5: "conn_reach s5" "cs_start s5 ''o1'' = Some (S_created, demo_request)" "cs_db s5 = d"
    "cs_active s5 = Map.empty" "cs_work s5 = Map.empty" "cs_timeout s5 = Map.empty"
    using more[OF s4(1) start_create[OF s4(2) d]] s4 by fastforce
  obtain s6 where s6: "conn_reach s6" "cs_start s6 ''o1'' = Some (S_submitted, demo_request)" "cs_db s6 = d"
    "cs_work s6 ''o1'' = Some W_waiting" "cs_timeout s6 = Map.empty"
    using more[OF s5(1) start_submit[OF s5(2)]] s5 by fastforce
  have "cs_timeout s6 0 = None" using s6(5) by simp
  from more[OF s6(1) start_register[OF s6(2) this]] show ?thesis
    using s6 row by (fastforce simp: live_on_def op_active_def demo_request_def)
qed

lemma one_live_operation_witness:
  "\<exists>s. conn_reach s \<and> {o2. live_on s ''c1'' o2} = {''o1''} \<and> card (dom (cs_active s)) \<le> 3"
  using demo_reach one_live_operation by metis

text \<open>The operation times out while its worker waits; then the worker comes back.\<close>

lemma terminal_is_final_witness:
  "\<exists>s r. settled s ''o1'' r \<and> op_status r = Op_timed_out \<and> row s ''o1'' = Some r \<and> \<not> won_before s ''o1''"
proof -
  obtain s where s: "conn_reach s" "live_on s ''c1'' ''o1''" "cs_work s ''o1'' = Some W_waiting"
    using demo_reach by blast
  obtain x where x: "row s ''o1'' = Some x" "op_connector x = Some ''c1''" "op_active (op_status x)"
    using s(2) by (auto simp: live_on_def)
  obtain d where d: "store_timeout ''o1'' 120 0 0 (cs_db s) = (True, d)"
    using x by (auto simp: cas_defs alter_operation_def)
  let ?s = "s\<lparr>cs_db := d\<rparr>"
  obtain r where r: "row ?s ''o1'' = Some r" "op_status r = Op_timed_out" "op_connector r = Some ''c1''"
    using alter_operation_row[OF d[unfolded cas_defs]] x by auto
  have "settled ?s ''o1'' r" "\<not> won_before ?s ''o1''"
    using r s(3) by (simp_all add: settled_def won_before_def op_active_def)
  from terminal_is_final[OF this stay] show ?thesis using r \<open>settled ?s ''o1'' r\<close> \<open>\<not> won_before ?s ''o1''\<close> by blast
qed

section \<open>Observations\<close>

text \<open>A group is not protected: after the recovery pass has closed it as an orphan, its monitor opens it again.\<close>

lemma group_reopened:
  assumes "get_connector_operation d o1 = Some r" and "op_active (op_status r)"
    and "store_orphan o1 now j n d = (b, d1)"
    and "update_connector_operation o1 Op_running (no_change\<lparr>ch_outcome := out\<rparr>) False d1 = (b2, d2)"
  shows "(\<exists>r1. get_connector_operation d1 o1 = Some r1 \<and> op_status r1 = Op_timed_out) \<and>
    (\<exists>r2. get_connector_operation d2 o1 = Some r2 \<and> op_status r2 = Op_running)"
  using get_operation_alter[OF assms(3)[unfolded cas_defs], of o1]
    get_operation_alter[OF assms(4)[unfolded update_connector_operation_def], of o1] assms(1,2) by auto

text \<open>A group whose items all failed at once is reported as succeeded.\<close>

lemma failed_group_succeeds:
  "initial_parent_status (aggregate_progress [(''o1'', r\<lparr>op_status := Op_failed\<rparr>)]) = Op_succeeded"
  by (simp add: initial_parent_status_def aggregate_progress_def count_status_def Let_def)

text \<open>\<open>run_connector\<close> turns exceptions into text, so a rejected configuration is not classified as one.\<close>

lemma validation_unclassified:
  "classify_failure (runtime_error ''1 validation error for CertProbeConfig'') = ''unknown'' \<and>
   classify_failure \<lparr>ex_class = X_value, ex_name = ''ValidationError'', ex_text = ''1 validation error''\<rparr> = ''configuration''"
  by code_simp

text \<open>A bearer token is redacted only up to its first space.\<close>

lemma bearer_leaks:
  "redact_secrets ''authorization: Bearer abc'' = ''authorization: [redacted] abc''"
  by code_simp

end
