(* ===== verification/AuditReader.thy ===== *)
theory AuditReader
  imports Regex
begin

text \<open>
  The audit reader of the host agent (\<open>AuditReaderThread\<close> in \<open>src/scripts/fim_engine.py\<close>): it reads the
  lines of the audit log, joins the records of one event by their identifier and keeps, for a short
  time, who wrote which path. The two dictionaries are association lists in insertion order, since
  eviction goes by that order. Opening, rotating and polling the log are not modelled: an input is a
  line with the time it is read at, a sweep or a lookup.
\<close>

section \<open>Patterns\<close>

definition rx_audit_id :: rx where
  "rx_audit_id = rx_cat [rx_lit ''msg=audit('', Rx_grp 1 (rx_plus (Rx_chars (\<lambda>c. is_digit c \<or> c = CHR ''.''))),
     rx_lit '':'', Rx_grp 2 (rx_plus rx_d), rx_lit '')'']"

text \<open>A quoted text of the log: a quote is character 34.\<close>

definition quote :: char where "quote = CHR 34"

definition rx_audit_quoted :: "nat \<Rightarrow> rx" where
  "rx_audit_quoted n = rx_cat [rx_lit [quote], Rx_grp n (rx_star (rx_not quote)), rx_lit [quote]]"

definition rx_hex_upper :: rx where
  "rx_hex_upper = Rx_chars (\<lambda>c. is_digit c \<or> (is_upper c \<and> is_hex c))"

definition rx_audit_key :: rx where
  "rx_audit_key = rx_lit (''key='' @ [quote] @ ''bw_fim'' @ [quote])"

definition rx_audit_name :: rx where
  "rx_audit_name = rx_cat [Rx_wordb, rx_lit ''name='', rx_audit_quoted 1]"

definition rx_audit_name_hex :: rx where
  "rx_audit_name_hex = rx_cat [Rx_wordb, rx_lit ''name='', Rx_grp 1 (rx_plus rx_hex_upper), Rx_wordb]"

definition rx_kv_quoted :: rx where
  "rx_kv_quoted = rx_cat [Rx_wordb, Rx_grp 1 (rx_plus (Rx_chars is_word)), rx_lit ''='', rx_audit_quoted 2]"

definition rx_kv_bare :: rx where
  "rx_kv_bare = rx_cat [Rx_wordb, Rx_grp 1 (rx_plus (Rx_chars is_word)), rx_lit ''='', Rx_grp 2 (rx_plus rx_S)]"

definition rx_proctitle_hex :: rx where
  "rx_proctitle_hex = rx_cat [Rx_wordb, rx_lit ''proctitle='', Rx_grp 1 (rx_plus rx_hex_upper), Rx_wordb]"

definition rx_proctitle_quoted :: rx where
  "rx_proctitle_quoted = rx_cat [Rx_wordb, rx_lit ''proctitle='', rx_audit_quoted 1]"

definition ACTOR_FIELDS :: "string list" where
  "ACTOR_FIELDS = [''uid'', ''gid'', ''euid'', ''egid'', ''pid'', ''ppid'', ''comm'', ''exe'', ''tty'']"

section \<open>Records of the log\<close>

definition kv_pairs :: "rx \<Rightarrow> string \<Rightarrow> (string \<times> string) list" where
  "kv_pairs r line = map (\<lambda>h. (grp_str 1 h, grp_str 2 h)) (re_finditer r line)"

definition bare_value :: "string \<Rightarrow> string \<Rightarrow> pyval" where
  "bare_value k v =
     (let w = rev (dropWhile (\<lambda>c. c \<in> set '':,;'') (rev v)) in
      if k \<in> set [''uid'', ''gid'', ''euid'', ''egid'', ''pid'', ''ppid'']
      then (case parse_int w of Some i \<Rightarrow> PyInt i | None \<Rightarrow> PyStr w)
      else PyStr w)"

definition add_quoted :: "string \<times> string \<Rightarrow> dict \<Rightarrow> dict" where
  "add_quoted kv actor =
     (if fst kv \<in> set ACTOR_FIELDS then AList.update (fst kv) (PyStr (snd kv)) actor else actor)"

definition add_bare :: "string \<times> string \<Rightarrow> dict \<Rightarrow> dict" where
  "add_bare kv actor =
     (if fst kv \<in> set ACTOR_FIELDS \<and> \<not> has_key actor (fst kv)
      then AList.update (fst kv) (bare_value (fst kv) (snd kv)) actor else actor)"

definition parse_syscall :: "string \<Rightarrow> dict" where
  "parse_syscall line = fold add_bare (kv_pairs rx_kv_bare line) (fold add_quoted (kv_pairs rx_kv_quoted line) [])"

text \<open>\<open>binascii.unhexlify\<close>; \<open>None\<close> where it raises: an odd number of digits.\<close>

definition hex_val :: "char \<Rightarrow> int" where
  "hex_val c = (if is_digit c then int (of_char c) - 48 else if is_upper c then int (of_char c) - 55
     else int (of_char c) - 87)"

fun unhexlify :: "string \<Rightarrow> int list option" where
  "unhexlify [] = Some []"
| "unhexlify [c] = None"
| "unhexlify (c # d # cs) =
     (if is_hex c \<and> is_hex d then map_option (\<lambda>bs. (16 * hex_val c + hex_val d) # bs) (unhexlify cs) else None)"

definition parse_path :: "pyenv \<Rightarrow> string \<Rightarrow> string option" where
  "parse_path E line =
     (case re_find rx_audit_name line of Some h \<Rightarrow> Some (grp_str 1 h)
      | None \<Rightarrow>
          (case re_find rx_audit_name_hex line of None \<Rightarrow> None
           | Some h \<Rightarrow> map_option (decode_utf8 E) (unhexlify (grp_str 1 h))))"

definition is_meaningful_nametype :: "string \<Rightarrow> bool" where
  "is_meaningful_nametype line \<longleftrightarrow>
     str_contains line ''nametype=NORMAL'' \<or> str_contains line ''nametype=CREATE''
     \<or> str_contains line ''nametype=DELETE''"

definition parse_proctitle :: "pyenv \<Rightarrow> string \<Rightarrow> string option" where
  "parse_proctitle E line =
     (case re_find rx_proctitle_quoted line of Some h \<Rightarrow> Some (grp_str 1 h)
      | None \<Rightarrow>
          (case re_find rx_proctitle_hex line of None \<Rightarrow> None
           | Some h \<Rightarrow> map_option (\<lambda>bs. str_strip (decode_utf8 E (map (\<lambda>b. if b = 0 then 32 else b) bs)))
                (unhexlify (grp_str 1 h))))"

definition audit_id_of :: "string \<Rightarrow> string option" where
  "audit_id_of line = map_option (\<lambda>h. grp_str 1 h @ '':'' @ grp_str 2 h) (re_find rx_audit_id line)"

section \<open>The reader\<close>

record audit_partial =
  ap_actor :: dict
  ap_paths :: "string list"
  ap_ts :: time

record audit_state =
  au_recent :: "(string \<times> time \<times> dict) list"
  au_partials :: "(string \<times> audit_partial) list"

definition AUDIT_WINDOW_SEC :: time where "AUDIT_WINDOW_SEC = 2"
definition AUDIT_RECENT_CAP :: nat where "AUDIT_RECENT_CAP = 4096"

definition audit_start :: audit_state where
  "audit_start = \<lparr>au_recent = [], au_partials = []\<rparr>"

definition audit_add :: "time \<Rightarrow> dict \<Rightarrow> string \<Rightarrow> audit_state \<Rightarrow> audit_state" where
  "audit_add now actor path s =
     (let m = (if AUDIT_RECENT_CAP \<le> length (au_recent s) then tl (au_recent s) else au_recent s) in
      s\<lparr>au_recent := AList.update path (now, actor) m\<rparr>)"

definition audit_commit :: "time \<Rightarrow> string \<Rightarrow> audit_partial \<Rightarrow> audit_state \<Rightarrow> audit_state" where
  "audit_commit now aid p s =
     (let s' = fold (audit_add now (ap_actor p)) (ap_paths p) s in
      s'\<lparr>au_partials := AList.delete aid (au_partials s')\<rparr>)"

definition audit_line :: "pyenv \<Rightarrow> time \<Rightarrow> string \<Rightarrow> audit_state \<Rightarrow> audit_state" where
  "audit_line E now line s =
     (if \<not> str_contains line ''bw_fim'' \<and> \<not> str_contains line ''PROCTITLE'' \<and> \<not> str_contains line ''PATH'' then s
      else case audit_id_of line of None \<Rightarrow> s
      | Some aid \<Rightarrow>
          if prefix ''type=SYSCALL'' line \<and> re_find rx_audit_key line \<noteq> None then
            (let actor = parse_syscall line in
             if actor = [] then s
             else s\<lparr>au_partials := AList.update aid \<lparr>ap_actor = actor, ap_paths = [], ap_ts = now\<rparr> (au_partials s)\<rparr>)
          else if prefix ''type=PATH'' line then
            (case map_of (au_partials s) aid of None \<Rightarrow> s
             | Some p \<Rightarrow>
                 (case parse_path E line of None \<Rightarrow> s
                  | Some path \<Rightarrow>
                      if path \<noteq> [] \<and> is_meaningful_nametype line
                      then s\<lparr>au_partials := AList.update aid (p\<lparr>ap_paths := ap_paths p @ [path]\<rparr>) (au_partials s)\<rparr>
                      else s))
          else if prefix ''type=PROCTITLE'' line then
            (case map_of (au_partials s) aid of None \<Rightarrow> s
             | Some p \<Rightarrow>
                 audit_commit now aid
                   (case parse_proctitle E line of None \<Rightarrow> p
                    | Some t \<Rightarrow> if t = [] then p else p\<lparr>ap_actor := AList.update ''proctitle'' (PyStr t) (ap_actor p)\<rparr>) s)
          else s)"

text \<open>Events whose last record never came, at the end of the file.\<close>

definition audit_sweep_one :: "time \<Rightarrow> string \<Rightarrow> audit_state \<Rightarrow> audit_state" where
  "audit_sweep_one now aid s =
     (case map_of (au_partials s) aid of None \<Rightarrow> s
      | Some p \<Rightarrow> audit_commit now aid p (s\<lparr>au_partials := AList.delete aid (au_partials s)\<rparr>))"

definition audit_sweep :: "time \<Rightarrow> audit_state \<Rightarrow> audit_state" where
  "audit_sweep now s =
     fold (audit_sweep_one now) (map fst (filter (\<lambda>(aid, p). 5 < now - ap_ts p) (au_partials s))) s"

definition audit_lookup :: "time \<Rightarrow> string \<Rightarrow> audit_state \<Rightarrow> dict option \<times> audit_state" where
  "audit_lookup now path s =
     (case map_of (au_recent s) path of None \<Rightarrow> (None, s)
      | Some (ts, actor) \<Rightarrow>
          if AUDIT_WINDOW_SEC < now - ts then (None, s\<lparr>au_recent := AList.delete path (au_recent s)\<rparr>)
          else (Some actor, s))"

datatype audit_input = Audit_line time string | Audit_sweep time | Audit_lookup time string

fun audit_step :: "pyenv \<Rightarrow> audit_input \<Rightarrow> audit_state \<Rightarrow> audit_state" where
  "audit_step E (Audit_line now line) s = audit_line E now line s"
| "audit_step E (Audit_sweep now) s = audit_sweep now s"
| "audit_step E (Audit_lookup now path) s = snd (audit_lookup now path s)"

definition audit_run :: "pyenv \<Rightarrow> audit_input list \<Rightarrow> audit_state" where
  "audit_run E ins = fold (audit_step E) ins audit_start"

section \<open>The map is bounded\<close>

definition audit_ok :: "audit_state \<Rightarrow> bool" where
  "audit_ok s \<longleftrightarrow> length (au_recent s) \<le> AUDIT_RECENT_CAP
     \<and> distinct (map fst (au_recent s)) \<and> distinct (map fst (au_partials s))"

lemma length_update_le: "length (AList.update k v xs) \<le> Suc (length xs)"
  by (induction xs) auto

lemma length_delete_le: "length (AList.delete k xs) \<le> length xs"
  by (simp add: AList.delete_eq)

lemma distinct_fst_tl: "distinct (map fst xs) \<Longrightarrow> distinct (map fst (tl xs))"
  by (cases xs) auto

lemma audit_add_ok: "audit_ok s \<Longrightarrow> audit_ok (audit_add now a p s)"
proof -
  assume ok: "audit_ok s"
  let ?m = "if AUDIT_RECENT_CAP \<le> length (au_recent s) then tl (au_recent s) else au_recent s"
  have "length ?m < AUDIT_RECENT_CAP" using ok by (auto simp: audit_ok_def AUDIT_RECENT_CAP_def)
  then have "length (AList.update p (now, a) ?m) \<le> AUDIT_RECENT_CAP"
    using length_update_le[of p "(now, a)" ?m] by linarith
  moreover have "distinct (map fst ?m)" using ok by (auto simp: audit_ok_def distinct_fst_tl)
  ultimately show ?thesis using ok by (simp add: audit_ok_def audit_add_def Let_def distinct_update)
qed

lemma audit_adds_ok: "audit_ok s \<Longrightarrow> audit_ok (fold (audit_add now a) ps s)"
  by (induction ps arbitrary: s) (auto intro: audit_add_ok)

lemma audit_partials_ok:
  "audit_ok s \<Longrightarrow> audit_ok (s\<lparr>au_partials := AList.update k v (au_partials s)\<rparr>)"
  "audit_ok s \<Longrightarrow> audit_ok (s\<lparr>au_partials := AList.delete k (au_partials s)\<rparr>)"
  by (auto simp: audit_ok_def distinct_update distinct_delete)

lemma audit_commit_ok: "audit_ok s \<Longrightarrow> audit_ok (audit_commit now aid p s)"
  by (simp add: audit_commit_def Let_def audit_adds_ok audit_partials_ok)

lemma audit_line_ok: "audit_ok s \<Longrightarrow> audit_ok (audit_line E now line s)"
  by (simp add: audit_line_def Let_def audit_commit_ok audit_partials_ok split: option.split)

lemma audit_sweep_one_ok: "audit_ok s \<Longrightarrow> audit_ok (audit_sweep_one now aid s)"
  by (simp add: audit_sweep_one_def audit_commit_ok audit_partials_ok split: option.split)

lemma audit_sweeps_ok: "audit_ok s \<Longrightarrow> audit_ok (fold (audit_sweep_one now) aids s)"
  by (induction aids arbitrary: s) (auto intro: audit_sweep_one_ok)

lemma audit_lookup_ok: "audit_ok s \<Longrightarrow> audit_ok (snd (audit_lookup now path s))"
  using length_delete_le[of path "au_recent s"]
  by (auto simp: audit_lookup_def audit_ok_def distinct_delete split: option.split)

lemma audit_step_ok: "audit_ok s \<Longrightarrow> audit_ok (audit_step E i s)"
  by (cases i) (simp_all add: audit_line_ok audit_lookup_ok audit_sweep_def audit_sweeps_ok)

lemma audit_run_snoc: "audit_run E (ins @ [i]) = audit_step E i (audit_run E ins)"
  by (simp add: audit_run_def)

lemma audit_run_ok: "audit_ok (audit_run E ins)"
proof (induction ins rule: rev_induct)
  case Nil show ?case by (simp add: audit_run_def audit_start_def audit_ok_def)
next
  case (snoc i ins) then show ?case by (simp add: audit_run_snoc audit_step_ok)
qed

section \<open>Who wrote a path\<close>

fun input_time :: "audit_input \<Rightarrow> time" where
  "input_time (Audit_line t line) = t"
| "input_time (Audit_sweep t) = t"
| "input_time (Audit_lookup t path) = t"

text \<open>A tagged system call of an event: its line, and what an actor of the event may be.\<close>

definition syscall_of :: "string \<Rightarrow> string \<Rightarrow> dict \<Rightarrow> bool" where
  "syscall_of line aid actor \<longleftrightarrow>
     prefix ''type=SYSCALL'' line \<and> re_find rx_audit_key line \<noteq> None \<and> audit_id_of line = Some aid
     \<and> AList.delete ''proctitle'' actor = parse_syscall line"

definition path_of :: "pyenv \<Rightarrow> string \<Rightarrow> string \<Rightarrow> string \<Rightarrow> bool" where
  "path_of E line aid path \<longleftrightarrow>
     prefix ''type=PATH'' line \<and> is_meaningful_nametype line \<and> audit_id_of line = Some aid
     \<and> parse_path E line = Some path"

definition called :: "audit_input list \<Rightarrow> string \<Rightarrow> dict \<Rightarrow> bool" where
  "called ins aid actor \<longleftrightarrow> (\<exists>t line. Audit_line t line \<in> set ins \<and> syscall_of line aid actor)"

definition touched :: "pyenv \<Rightarrow> audit_input list \<Rightarrow> string \<Rightarrow> string \<Rightarrow> bool" where
  "touched E ins aid path \<longleftrightarrow> (\<exists>t line. Audit_line t line \<in> set ins \<and> path_of E line aid path)"

text \<open>What the two maps of the reader hold after the inputs \<open>ins\<close>.\<close>

definition partial_sound :: "pyenv \<Rightarrow> audit_input list \<Rightarrow> string \<times> audit_partial \<Rightarrow> bool" where
  "partial_sound E ins ap \<longleftrightarrow>
     called ins (fst ap) (ap_actor (snd ap)) \<and> (\<forall>path \<in> set (ap_paths (snd ap)). touched E ins (fst ap) path)"

definition recent_sound :: "pyenv \<Rightarrow> audit_input list \<Rightarrow> string \<times> time \<times> dict \<Rightarrow> bool" where
  "recent_sound E ins r \<longleftrightarrow>
     (case r of (path, ts, actor) \<Rightarrow>
       ts \<in> input_time ` set ins \<and> (\<exists>aid. called ins aid actor \<and> touched E ins aid path))"

definition audit_sound :: "pyenv \<Rightarrow> audit_input list \<Rightarrow> audit_state \<Rightarrow> bool" where
  "audit_sound E ins s \<longleftrightarrow>
     list_all (partial_sound E ins) (au_partials s) \<and> list_all (recent_sound E ins) (au_recent s)"

lemma called_mono: "set ins \<subseteq> set ins' \<Longrightarrow> called ins aid a \<Longrightarrow> called ins' aid a"
  by (auto simp: called_def)

lemma touched_mono: "set ins \<subseteq> set ins' \<Longrightarrow> touched E ins aid p \<Longrightarrow> touched E ins' aid p"
  by (auto simp: touched_def)

lemma partial_sound_mono: "set ins \<subseteq> set ins' \<Longrightarrow> partial_sound E ins x \<Longrightarrow> partial_sound E ins' x"
  by (auto simp: partial_sound_def intro: called_mono touched_mono)

lemma recent_sound_mono: "set ins \<subseteq> set ins' \<Longrightarrow> recent_sound E ins y \<Longrightarrow> recent_sound E ins' y"
  by (auto simp: recent_sound_def split: prod.splits intro: called_mono touched_mono)

lemma audit_sound_mono: "set ins \<subseteq> set ins' \<Longrightarrow> audit_sound E ins s \<Longrightarrow> audit_sound E ins' s"
  by (auto simp: audit_sound_def intro: list.pred_mono_strong partial_sound_mono recent_sound_mono)

lemma list_all_update: "list_all P xs \<Longrightarrow> P (k, v) \<Longrightarrow> list_all P (AList.update k v xs)"
  by (induction xs) auto

lemma list_all_delete: "list_all P xs \<Longrightarrow> list_all P (AList.delete k xs)"
  by (auto simp: AList.delete_eq list_all_iff)

lemma list_all_tl: "list_all P xs \<Longrightarrow> list_all P (tl xs)"
  by (cases xs) auto

lemma map_of_list_all: "list_all P xs \<Longrightarrow> map_of xs k = Some v \<Longrightarrow> P (k, v)"
  by (auto simp: list_all_iff dest: map_of_SomeD)

text \<open>Only the fields of a system call are in an actor.\<close>

lemma add_quoted_keys: "fst ` set d \<subseteq> set ACTOR_FIELDS \<Longrightarrow> fst ` set (add_quoted kv d) \<subseteq> set ACTOR_FIELDS"
  by (auto simp: add_quoted_def update_conv' dom_update)

lemma add_bare_keys: "fst ` set d \<subseteq> set ACTOR_FIELDS \<Longrightarrow> fst ` set (add_bare kv d) \<subseteq> set ACTOR_FIELDS"
  by (auto simp: add_bare_def update_conv' dom_update)

lemma fold_keys:
  "(\<And>x d. fst ` set d \<subseteq> A \<Longrightarrow> fst ` set (f x d) \<subseteq> A) \<Longrightarrow> fst ` set d \<subseteq> A \<Longrightarrow> fst ` set (fold f xs d) \<subseteq> A"
  by (induction xs arbitrary: d) auto

lemma parse_syscall_keys: "fst ` set (parse_syscall line) \<subseteq> set ACTOR_FIELDS"
  unfolding parse_syscall_def
  by (intro fold_keys[of "set ACTOR_FIELDS" add_bare] fold_keys[of "set ACTOR_FIELDS" add_quoted] add_bare_keys add_quoted_keys) auto

lemma proctitle_not_parsed: "AList.delete ''proctitle'' (parse_syscall line) = parse_syscall line"
proof -
  have "''proctitle'' \<notin> set ACTOR_FIELDS" by (simp add: ACTOR_FIELDS_def)
  then have "''proctitle'' \<notin> fst ` set (parse_syscall line)" using parse_syscall_keys by blast
  then show ?thesis by (simp add: delete_idem)
qed

lemma called_proctitle: "called ins aid a \<Longrightarrow> called ins aid (AList.update ''proctitle'' t a)"
  by (auto simp: called_def syscall_of_def update_keys delete_update_same)

lemma audit_add_sound:
  assumes "audit_sound E ins s" and "now \<in> input_time ` set ins" and "called ins aid a" and "touched E ins aid p"
  shows "audit_sound E ins (audit_add now a p s)"
  using assms
  by (auto simp: audit_sound_def audit_add_def Let_def recent_sound_def intro!: list_all_update list_all_tl)

lemma audit_adds_sound:
  assumes "now \<in> input_time ` set ins" and "called ins aid a"
  shows "audit_sound E ins s \<Longrightarrow> \<forall>p \<in> set ps. touched E ins aid p \<Longrightarrow> audit_sound E ins (fold (audit_add now a) ps s)"
  by (induction ps arbitrary: s) (auto intro: audit_add_sound[OF _ assms])

lemma audit_partials_sound:
  "audit_sound E ins s \<Longrightarrow> partial_sound E ins (k, v) \<Longrightarrow>
     audit_sound E ins (s\<lparr>au_partials := AList.update k v (au_partials s)\<rparr>)"
  "audit_sound E ins s \<Longrightarrow> audit_sound E ins (s\<lparr>au_partials := AList.delete k (au_partials s)\<rparr>)"
  by (simp_all add: audit_sound_def list_all_update list_all_delete)

lemma audit_commit_sound:
  assumes "audit_sound E ins s" and "now \<in> input_time ` set ins" and "partial_sound E ins (aid, p)"
  shows "audit_sound E ins (audit_commit now aid p s)"
  using assms audit_adds_sound[OF assms(2), of aid "ap_actor p" E s "ap_paths p"]
  by (simp add: audit_commit_def Let_def partial_sound_def audit_partials_sound(2))

lemma partial_at:
  "audit_sound E ins s \<Longrightarrow> map_of (au_partials s) aid = Some p \<Longrightarrow> partial_sound E ins (aid, p)"
  unfolding audit_sound_def by (blast intro: map_of_list_all)

lemma audit_sweep_one_sound:
  assumes "audit_sound E ins s" and "now \<in> input_time ` set ins"
  shows "audit_sound E ins (audit_sweep_one now aid s)"
  using assms partial_at[OF assms(1), of aid]
  by (auto simp: audit_sweep_one_def audit_partials_sound(2) intro!: audit_commit_sound split: option.split)

lemma audit_sweep_sound:
  assumes "audit_sound E ins s" and "now \<in> input_time ` set ins"
  shows "audit_sound E ins (fold (audit_sweep_one now) aids s)"
  using assms(1) by (induction aids arbitrary: s) (auto intro: audit_sweep_one_sound[OF _ assms(2)])

lemma audit_syscall_sound:
  assumes "audit_sound E ins s" and "Audit_line now line \<in> set ins" and "audit_id_of line = Some aid"
    and "prefix ''type=SYSCALL'' line" and "re_find rx_audit_key line \<noteq> None"
  shows "audit_sound E ins (s\<lparr>au_partials := AList.update aid \<lparr>ap_actor = parse_syscall line, ap_paths = [], ap_ts = now\<rparr>
    (au_partials s)\<rparr>)"
proof (intro audit_partials_sound(1) assms(1))
  have "syscall_of line aid (parse_syscall line)" using assms by (simp add: syscall_of_def proctitle_not_parsed)
  then show "partial_sound E ins (aid, \<lparr>ap_actor = parse_syscall line, ap_paths = [], ap_ts = now\<rparr>)"
    using assms(2) by (auto simp: partial_sound_def called_def)
qed

lemma audit_path_sound:
  assumes "audit_sound E ins s" and "Audit_line now line \<in> set ins" and "audit_id_of line = Some aid"
    and "prefix ''type=PATH'' line" and "map_of (au_partials s) aid = Some p"
    and "parse_path E line = Some path" and "is_meaningful_nametype line"
  shows "audit_sound E ins (s\<lparr>au_partials := AList.update aid (p\<lparr>ap_paths := ap_paths p @ [path]\<rparr>) (au_partials s)\<rparr>)"
proof (intro audit_partials_sound(1) assms(1))
  have "touched E ins aid path" using assms by (auto simp: touched_def path_of_def)
  then show "partial_sound E ins (aid, p\<lparr>ap_paths := ap_paths p @ [path]\<rparr>)"
    using partial_at[OF assms(1,5)] by (simp add: partial_sound_def)
qed

lemma audit_proctitle_sound:
  assumes "audit_sound E ins s" and "now \<in> input_time ` set ins" and "map_of (au_partials s) aid = Some p"
  shows "audit_sound E ins (audit_commit now aid
     (case t of None \<Rightarrow> p | Some t \<Rightarrow> if t = [] then p
        else p\<lparr>ap_actor := AList.update ''proctitle'' (PyStr t) (ap_actor p)\<rparr>) s)"
  using partial_at[OF assms(1,3)]
  by (auto intro!: audit_commit_sound[OF assms(1,2)] split: option.split simp: partial_sound_def called_proctitle)

lemma audit_line_sound:
  assumes "audit_sound E ins s" and "Audit_line now line \<in> set ins"
  shows "audit_sound E ins (audit_line E now line s)"
proof -
  have now: "now \<in> input_time ` set ins" using assms(2) by force
  show ?thesis
    using assms audit_syscall_sound[OF assms] audit_path_sound[OF assms] audit_proctitle_sound[OF assms(1) now]
    by (simp add: audit_line_def Let_def split: option.split)
qed

lemma audit_lookup_sound: "audit_sound E ins s \<Longrightarrow> audit_sound E ins (snd (audit_lookup now path s))"
  by (auto simp: audit_lookup_def audit_sound_def list_all_delete split: option.split)

lemma audit_step_sound:
  assumes "audit_sound E ins s"
  shows "audit_sound E (ins @ [i]) (audit_step E i s)"
proof -
  have "audit_sound E (ins @ [i]) s" by (rule audit_sound_mono[OF _ assms]) auto
  then show ?thesis
    by (cases i) (simp_all add: audit_line_sound audit_lookup_sound audit_sweep_def audit_sweep_sound)
qed

lemma audit_run_sound: "audit_sound E ins (audit_run E ins)"
proof (induction ins rule: rev_induct)
  case Nil show ?case by (simp add: audit_run_def audit_start_def audit_sound_def)
next
  case (snoc i ins) then show ?case by (simp add: audit_run_snoc audit_step_sound)
qed

section \<open>Results\<close>

text \<open>A concrete event of the log, as the source's comment shows it.\<close>

definition demo_syscall :: string where
  "demo_syscall = ''type=SYSCALL msg=audit(17.594:12): uid=1000 pid=22 comm='' @ [quote] @ ''vim'' @ [quote]
     @ '' key='' @ [quote] @ ''bw_fim'' @ [quote]"

definition demo_path_line :: string where
  "demo_path_line = ''type=PATH msg=audit(17.594:12): item=0 name='' @ [quote] @ ''/etc/sudoers'' @ [quote]
     @ '' nametype=NORMAL''"

definition demo_proctitle :: string where
  "demo_proctitle = ''type=PROCTITLE msg=audit(17.594:12): proctitle='' @ [quote] @ ''vim'' @ [quote]"

definition demo_actor :: dict where
  "demo_actor = [(''comm'', PyStr ''vim''), (''uid'', PyInt 1000), (''pid'', PyInt 22)]"

lemma demo_parse_syscall: "parse_syscall demo_syscall = demo_actor"
  by code_simp

lemma demo_ids:
  "audit_id_of demo_syscall = Some ''17.594:12''" "audit_id_of demo_path_line = Some ''17.594:12''"
  "audit_id_of demo_proctitle = Some ''17.594:12''"
  by code_simp+

lemma demo_audit_key: "re_find rx_audit_key demo_syscall \<noteq> None"
  by code_simp

lemma demo_parse_path: "parse_path E demo_path_line = Some ''/etc/sudoers''"
proof -
  have "re_find rx_audit_name demo_path_line \<noteq> None \<and> grp_str 1 (the (re_find rx_audit_name demo_path_line)) = ''/etc/sudoers''"
    by code_simp
  then show ?thesis by (auto simp: parse_path_def)
qed

definition demo_inputs :: "audit_input list" where
  "demo_inputs = [Audit_line 100 demo_syscall, Audit_line 100 demo_path_line]"

lemma demo_run:
  "audit_run E demo_inputs = \<lparr>au_recent = [],
     au_partials = [(''17.594:12'', \<lparr>ap_actor = demo_actor, ap_paths = [''/etc/sudoers''], ap_ts = 100\<rparr>)]\<rparr>"
proof -
  have tags: "str_contains demo_syscall ''bw_fim''" "prefix ''type=SYSCALL'' demo_syscall"
    "str_contains demo_path_line ''PATH''" "\<not> prefix ''type=SYSCALL'' demo_path_line" "prefix ''type=PATH'' demo_path_line"
    "is_meaningful_nametype demo_path_line" "demo_actor \<noteq> []"
    by code_simp+
  show ?thesis
    by (simp add: audit_run_def demo_inputs_def audit_start_def audit_line_def tags demo_ids demo_audit_key
        demo_parse_syscall demo_parse_path)
qed

text \<open>an actor the reader names for a path is the one of a tagged system call of the log whose event,
  by its identifier, also touched this path, and the reader joined the two at most two seconds before
  the lookup, whatever lines, sweeps and lookups came before.\<close>
theorem whodata_sound:
  assumes "fst (audit_lookup now path (audit_run E ins)) = Some actor"
  shows "\<exists>aid. called ins aid actor \<and> touched E ins aid path \<and> (\<exists>i \<in> set ins. now - input_time i \<le> AUDIT_WINDOW_SEC)"
proof -
  obtain ts where e: "map_of (au_recent (audit_run E ins)) path = Some (ts, actor)" and t: "now - ts \<le> AUDIT_WINDOW_SEC"
    using assms by (auto simp: audit_lookup_def split: option.splits prod.splits if_splits)
  have "recent_sound E ins (path, ts, actor)"
    using map_of_list_all[OF _ e] audit_run_sound[of E ins] unfolding audit_sound_def by blast
  then obtain aid where "ts \<in> input_time ` set ins" "called ins aid actor" "touched E ins aid path"
    by (auto simp: recent_sound_def)
  then show ?thesis using t by blast
qed

lemma demo_swept:
  "map_of (au_recent (audit_run E (demo_inputs @ [Audit_sweep 106]))) ''/etc/sudoers'' = Some (106, demo_actor)"
  unfolding audit_run_snoc
  by (simp add: demo_run audit_sweep_def audit_sweep_one_def audit_commit_def audit_add_def AUDIT_RECENT_CAP_def)

lemma whodata_sound_witness:
  "\<exists>aid. called (demo_inputs @ [Audit_sweep 106]) aid demo_actor
     \<and> touched demo_env (demo_inputs @ [Audit_sweep 106]) aid ''/etc/sudoers''
     \<and> (\<exists>i \<in> set (demo_inputs @ [Audit_sweep 106]). 107 - input_time i \<le> AUDIT_WINDOW_SEC)"
  by (rule whodata_sound) (simp add: audit_lookup_def demo_swept AUDIT_WINDOW_SEC_def)

text \<open>The window starts when the reader stores the event, not when the file was written: an event whose
  last record is missing is stored by a sweep and then named although it is more than five seconds old.\<close>

lemma stale_event_attributed:
  "fst (audit_lookup 108 ''/etc/sudoers'' (audit_run E (demo_inputs @ [Audit_sweep 106]))) = Some demo_actor
     \<and> (\<forall>i \<in> set demo_inputs. 108 - input_time i = 8)"
  by (intro conjI, simp add: audit_lookup_def demo_swept AUDIT_WINDOW_SEC_def) (simp add: demo_inputs_def)

text \<open>Eviction drops the key that was inserted first, even when it was written again just now: writing a
  path again does not move it to the end.\<close>

lemma eviction_ignores_freshness:
  assumes "audit_ok s" and "length (au_recent s) = AUDIT_RECENT_CAP" and "fst (hd (au_recent s)) = p" and "p \<noteq> q"
  shows "map_of (au_recent (audit_add now b q s)) p = None"
proof -
  obtain e m where m: "au_recent s = (p, e) # m" using assms(2,3) by (cases "au_recent s") (auto simp: AUDIT_RECENT_CAP_def)
  then have "p \<notin> fst ` set m" using assms(1) by (auto simp: audit_ok_def)
  then show ?thesis using assms(2,4) m by (simp add: audit_add_def map_of_eq_None_iff update_conv' dom_update)
qed

lemma rewritten_path_stays_first:
  "au_recent s = (p, e) # m \<Longrightarrow> length (au_recent s) < AUDIT_RECENT_CAP \<Longrightarrow>
     au_recent (audit_add now a p s) = (p, now, a) # m"
  by (simp add: audit_add_def)

end
