(* ===== verification/FimEngine.thy ===== *)
theory FimEngine
  imports AuditReader
begin

text \<open>
  The file integrity engine of the host agent (\<open>FimEngine\<close> in \<open>src/scripts/fim_engine.py\<close>): the walk over
  the configured paths, the baseline table, the difference of a file and its row, the handler of
  an inotify event and the periodic scan. The file system is a value the operations read: the
  regular files by path with what \<open>os.stat\<close> and the hash say of them, and the directories as trees (a
  link to a directory is in no tree: neither the walk nor the watch list follows one). The table is an
  association list. The engine's state is its table, the queue of changes and the audit reader.
\<close>

section \<open>The file system\<close>

record file_meta =
  fm_sha :: string
  fm_size :: int
  fm_perm :: int
  fm_uid :: int
  fm_gid :: int
  fm_mtime :: time

record fs_entry =
  fe_meta :: file_meta
  fe_readable :: bool

datatype dir_tree = Dir_tree "string list" "(string \<times> dir_tree) list"

record file_system =
  fs_files :: "string \<Rightarrow> fs_entry option"
  fs_dirs :: "string \<Rightarrow> dir_tree option"

definition path_exists :: "file_system \<Rightarrow> string \<Rightarrow> bool" where
  "path_exists fs p \<longleftrightarrow> fs_files fs p \<noteq> None \<or> fs_dirs fs p \<noteq> None"

definition path_join :: "string \<Rightarrow> string \<Rightarrow> string" where
  "path_join d n = (if d \<noteq> [] \<and> last d \<noteq> CHR ''/'' then d @ ''/'' @ n else d @ n)"

text \<open>\<open>_stat_and_hash\<close>: its result, \<open>FileNotFoundError\<close>, or another \<open>OSError\<close> (a directory, no permission).\<close>

datatype hash_result = Hashed file_meta | Hash_missing | Hash_failed

definition stat_and_hash :: "file_system \<Rightarrow> string \<Rightarrow> hash_result" where
  "stat_and_hash fs p =
     (case fs_files fs p of Some e \<Rightarrow> if fe_readable e then Hashed (fe_meta e) else Hash_failed
      | None \<Rightarrow> if fs_dirs fs p = None then Hash_missing else Hash_failed)"

section \<open>Configuration and walk\<close>

record fim_config =
  fg_critical_files :: "string list"
  fg_critical_dirs :: "string list"
  fg_binary_dirs :: "string list"

definition DEFAULT_CRITICAL_FILES :: "string list" where
  "DEFAULT_CRITICAL_FILES = [''/etc/passwd'', ''/etc/shadow'', ''/etc/group'', ''/etc/gshadow'', ''/etc/sudoers'',
     ''/etc/login.defs'', ''/etc/ssh/sshd_config'', ''/etc/hosts'', ''/etc/hosts.allow'', ''/etc/hosts.deny'',
     ''/etc/resolv.conf'', ''/etc/crontab'', ''/etc/nsswitch.conf'', ''/etc/pam.conf'', ''/etc/profile'', ''/etc/bashrc'',
     ''/etc/environment'']"

definition DEFAULT_CRITICAL_DIRS :: "string list" where
  "DEFAULT_CRITICAL_DIRS = [''/etc/ssh/sshd_config.d'', ''/etc/sudoers.d'', ''/etc/pam.d'', ''/etc/security'',
     ''/etc/cron.d'', ''/etc/cron.hourly'', ''/etc/cron.daily'', ''/etc/cron.weekly'', ''/etc/cron.monthly'',
     ''/etc/systemd/system'', ''/etc/profile.d'', ''/root/.ssh'']"

definition DEFAULT_BINARY_DIRS :: "string list" where
  "DEFAULT_BINARY_DIRS = [''/bin'', ''/sbin'', ''/usr/bin'', ''/usr/sbin'', ''/usr/local/bin'', ''/usr/local/sbin'']"

definition EXCLUDED_PATH_PREFIXES :: "string list" where
  "EXCLUDED_PATH_PREFIXES = [''/proc/'', ''/sys/'', ''/dev/'', ''/run/'', ''/var/run/'', ''/var/log/'', ''/var/cache/'',
     ''/var/tmp/'', ''/tmp/'', ''/var/lib/blackwatch-agent'']"

definition MAX_HASH_BYTES :: int where "MAX_HASH_BYTES = 50 * 1024 * 1024"
definition MAX_QUEUED_CHANGES :: nat where "MAX_QUEUED_CHANGES = 1000"

text \<open>\<open>list(xs) if xs else list(default)\<close>, and the lists of an agent with extra paths.\<close>

definition fim_config_of :: "string list \<Rightarrow> string list \<Rightarrow> string list \<Rightarrow> fim_config" where
  "fim_config_of files dirs bins =
     \<lparr>fg_critical_files = (if files = [] then DEFAULT_CRITICAL_FILES else files),
      fg_critical_dirs = (if dirs = [] then DEFAULT_CRITICAL_DIRS else dirs),
      fg_binary_dirs = (if bins = [] then DEFAULT_BINARY_DIRS else bins)\<rparr>"

definition agent_fim_config :: "string list \<Rightarrow> string list \<Rightarrow> fim_config" where
  "agent_fim_config extra_files extra_dirs =
     (if extra_files = [] \<and> extra_dirs = [] then fim_config_of [] [] []
      else fim_config_of (DEFAULT_CRITICAL_FILES @ extra_files) (DEFAULT_CRITICAL_DIRS @ extra_dirs)
        DEFAULT_BINARY_DIRS)"

definition path_allowed :: "string \<Rightarrow> bool" where
  "path_allowed p \<longleftrightarrow> \<not> list_ex (\<lambda>pref. prefix pref p) EXCLUDED_PATH_PREFIXES"

definition is_in_scan_scope :: "fim_config \<Rightarrow> string \<Rightarrow> bool" where
  "is_in_scan_scope cfg p \<longleftrightarrow>
     p \<in> set (fg_critical_files cfg)
     \<or> list_ex (\<lambda>d. p = d \<or> prefix (d @ ''/'') p) (fg_critical_dirs cfg @ fg_binary_dirs cfg)"

text \<open>A file of the walk is yielded when it is regular, allowed and not too large to hash.\<close>

definition yields :: "file_system \<Rightarrow> string \<Rightarrow> bool" where
  "yields fs p \<longleftrightarrow> path_allowed p \<and>
     (case fs_files fs p of None \<Rightarrow> False | Some e \<Rightarrow> fm_size (fe_meta e) \<le> MAX_HASH_BYTES)"

fun walk :: "file_system \<Rightarrow> string \<Rightarrow> dir_tree \<Rightarrow> string list" where
  "walk fs dirpath (Dir_tree names subs) =
     (if \<not> path_allowed (dirpath @ ''/'') then []
      else filter (yields fs) (map (path_join dirpath) names)
        @ concat (map (\<lambda>(n, t). walk fs (path_join dirpath n) t) subs))"

definition iter_paths :: "fim_config \<Rightarrow> file_system \<Rightarrow> string list" where
  "iter_paths cfg fs =
     filter (\<lambda>p. path_allowed p \<and> fs_files fs p \<noteq> None) (fg_critical_files cfg)
     @ concat (map (\<lambda>root. if \<not> path_allowed root then []
         else case fs_dirs fs root of None \<Rightarrow> [] | Some t \<Rightarrow> walk fs root t)
       (fg_critical_dirs cfg @ fg_binary_dirs cfg))"

definition inotify_paths :: "fim_config \<Rightarrow> file_system \<Rightarrow> string list" where
  "inotify_paths cfg fs = sorted_set
     (filter (\<lambda>p. path_allowed p \<and> path_exists fs p) (fg_critical_files cfg)
      @ concat (map (\<lambda>d. if \<not> path_allowed d then []
          else case fs_dirs fs d of None \<Rightarrow> []
          | Some (Dir_tree names subs) \<Rightarrow> d # filter path_allowed (map (\<lambda>(n, t). path_join d n) subs))
        (fg_critical_dirs cfg)))"

section \<open>Changes\<close>

record engine_change =
  ch_path :: string
  ch_type :: string
  ch_sha_before :: "string option"
  ch_sha_after :: "string option"
  ch_size_before :: "int option"
  ch_size_after :: "int option"
  ch_perm_before :: "int option"
  ch_perm_after :: "int option"
  ch_owner_before :: "string option"
  ch_owner_after :: "string option"
  ch_detected_at :: time
  ch_detection :: string
  ch_actor :: "dict option"
  ch_note :: "string option"

definition fmt_owner :: "file_meta \<Rightarrow> string" where
  "fmt_owner m = int_str (fm_uid m) @ '':'' @ int_str (fm_gid m)"

definition same_file :: "file_meta \<Rightarrow> file_meta \<Rightarrow> bool" where
  "same_file m p \<longleftrightarrow> fm_sha m = fm_sha p \<and> fm_perm m = fm_perm p \<and> fm_uid m = fm_uid p \<and> fm_gid m = fm_gid p"

definition change_of :: "string \<Rightarrow> string \<Rightarrow> file_meta option \<Rightarrow> file_meta option \<Rightarrow> string \<Rightarrow> time \<Rightarrow> engine_change" where
  "change_of path kind prior meta detection now =
     \<lparr>ch_path = path, ch_type = kind,
      ch_sha_before = map_option fm_sha prior, ch_sha_after = map_option fm_sha meta,
      ch_size_before = map_option fm_size prior, ch_size_after = map_option fm_size meta,
      ch_perm_before = map_option fm_perm prior, ch_perm_after = map_option fm_perm meta,
      ch_owner_before = map_option fmt_owner prior, ch_owner_after = map_option fmt_owner meta,
      ch_detected_at = now, ch_detection = detection, ch_actor = None, ch_note = None\<rparr>"

definition diff_one :: "string \<Rightarrow> file_meta option \<Rightarrow> file_meta \<Rightarrow> string \<Rightarrow> time \<Rightarrow> engine_change option" where
  "diff_one path prior meta detection now =
     (case prior of None \<Rightarrow> Some (change_of path ''created'' None (Some meta) detection now)
      | Some p \<Rightarrow>
          if same_file meta p then None
          else Some (change_of path
            (if fm_sha meta \<noteq> fm_sha p then ''modified'' else if fm_perm meta \<noteq> fm_perm p then ''perm_changed''
             else ''owner_changed'') (Some p) (Some meta) detection now))"

definition make_delete_change :: "string \<Rightarrow> file_meta \<Rightarrow> string \<Rightarrow> time \<Rightarrow> engine_change" where
  "make_delete_change path prior detection now = change_of path ''deleted'' (Some prior) None detection now"

definition truncation_marker :: "nat \<Rightarrow> time \<Rightarrow> engine_change" where
  "truncation_marker cap now =
     (change_of ''<<truncated>>'' ''modified'' None None ''baseline'' now)
       \<lparr>ch_note := Some (''more than '' @ nat_str cap @ '' changes in this scan; truncated'')\<rparr>"

section \<open>Engine\<close>

record fim_engine =
  fe_baseline :: "(string \<times> file_meta) list"
  fe_pending :: "engine_change list"
  fe_audit :: "audit_state option"

definition read_baseline :: "string \<Rightarrow> fim_engine \<Rightarrow> file_meta option" where
  "read_baseline p g = map_of (fe_baseline g) p"

definition upsert_baseline_path :: "string \<Rightarrow> file_meta \<Rightarrow> fim_engine \<Rightarrow> fim_engine" where
  "upsert_baseline_path p m g = g\<lparr>fe_baseline := AList.update p m (fe_baseline g)\<rparr>"

definition delete_baseline :: "string \<Rightarrow> fim_engine \<Rightarrow> fim_engine" where
  "delete_baseline p g = g\<lparr>fe_baseline := AList.delete p (fe_baseline g)\<rparr>"

definition all_baseline_paths :: "fim_engine \<Rightarrow> string list" where
  "all_baseline_paths g = remdups (map fst (fe_baseline g))"

definition queue_change :: "engine_change \<Rightarrow> fim_engine \<Rightarrow> fim_engine" where
  "queue_change c g = g\<lparr>fe_pending := fe_pending g @ [c]\<rparr>"

definition drain_changes :: "fim_engine \<Rightarrow> engine_change list \<times> fim_engine" where
  "drain_changes g = (fe_pending g, g\<lparr>fe_pending := []\<rparr>)"

definition attach_actor :: "time \<Rightarrow> engine_change \<Rightarrow> fim_engine \<Rightarrow> engine_change \<times> fim_engine" where
  "attach_actor now c g =
     (case fe_audit g of None \<Rightarrow> (c, g)
      | Some a \<Rightarrow>
          (case audit_lookup now (ch_path c) a of
            (None, a') \<Rightarrow> (c, g\<lparr>fe_audit := Some a'\<rparr>)
          | (Some who, a') \<Rightarrow> (c\<lparr>ch_actor := Some who\<rparr>, g\<lparr>fe_audit := Some a'\<rparr>)))"

text \<open>What each thread does to the table while it holds the baseline lock. \<open>Hash_failed\<close> leaves it alone.\<close>

definition commit_hash :: "string \<Rightarrow> time \<Rightarrow> string \<Rightarrow> file_meta \<Rightarrow> fim_engine \<Rightarrow> engine_change option \<times> fim_engine" where
  "commit_hash detection now path meta g =
     (diff_one path (read_baseline path g) meta detection now, upsert_baseline_path path meta g)"

definition commit_delete :: "string \<Rightarrow> time \<Rightarrow> string \<Rightarrow> fim_engine \<Rightarrow> engine_change option \<times> fim_engine" where
  "commit_delete detection now path g =
     (case read_baseline path g of None \<Rightarrow> (None, g)
      | Some prior \<Rightarrow> (Some (make_delete_change path prior detection now), delete_baseline path g))"

definition realtime_commit :: "time \<Rightarrow> string \<Rightarrow> hash_result \<Rightarrow> fim_engine \<Rightarrow> engine_change option \<times> fim_engine" where
  "realtime_commit now path r g =
     (case r of Hashed meta \<Rightarrow> commit_hash ''inotify'' now path meta g
      | Hash_missing \<Rightarrow> commit_delete ''inotify'' now path g
      | Hash_failed \<Rightarrow> (None, g))"

definition handle_realtime_change :: "file_system \<Rightarrow> time \<Rightarrow> string \<Rightarrow> fim_engine \<Rightarrow> fim_engine" where
  "handle_realtime_change fs now path g =
     (case realtime_commit now path (stat_and_hash fs path) g of
        (None, g') \<Rightarrow> g'
      | (Some c, g') \<Rightarrow> (case attach_actor now c g' of (c', g'') \<Rightarrow> queue_change c' g''))"

definition scan_commit :: "time \<Rightarrow> string \<Rightarrow> hash_result \<Rightarrow> fim_engine \<Rightarrow> engine_change option \<times> fim_engine" where
  "scan_commit now path r g =
     (case r of Hashed meta \<Rightarrow> commit_hash ''baseline'' now path meta g | _ \<Rightarrow> (None, g))"

definition scan_one_path :: "file_system \<Rightarrow> time \<Rightarrow> string \<Rightarrow> fim_engine \<Rightarrow> engine_change option \<times> fim_engine" where
  "scan_one_path fs now path g =
     (case scan_commit now path (stat_and_hash fs path) g of
        (None, g') \<Rightarrow> (None, g')
      | (Some c, g') \<Rightarrow> (case attach_actor now c g' of (c', g'') \<Rightarrow> (Some c', g'')))"

text \<open>A scan queues at most what the cap leaves room for; the flag says that something was left out.\<close>

definition queue_capped :: "engine_change option \<Rightarrow> fim_engine \<times> bool \<Rightarrow> fim_engine \<times> bool" where
  "queue_capped c st =
     (case c of None \<Rightarrow> st
      | Some c \<Rightarrow> if length (fe_pending (fst st)) < MAX_QUEUED_CHANGES then (queue_change c (fst st), snd st)
                  else (fst st, True))"

definition scan_visit :: "file_system \<Rightarrow> time \<Rightarrow> string \<Rightarrow> fim_engine \<times> bool \<Rightarrow> fim_engine \<times> bool" where
  "scan_visit fs now path st =
     (case scan_one_path fs now path (fst st) of (c, g) \<Rightarrow> queue_capped c (g, snd st))"

text \<open>A path of the table the walk did not meet; a watched path that exists is kept. The watch list is read
  once, when the removal begins.\<close>

definition watch_set :: "fim_config \<Rightarrow> bool \<Rightarrow> file_system \<Rightarrow> string list" where
  "watch_set cfg watching fs = (if watching then inotify_paths cfg fs else [])"

definition scan_removes :: "fim_config \<Rightarrow> string list \<Rightarrow> file_system \<Rightarrow> string \<Rightarrow> bool" where
  "scan_removes cfg watched fs p \<longleftrightarrow> is_in_scan_scope cfg p \<and> \<not> (p \<in> set watched \<and> path_exists fs p)"

definition removal_commit ::
  "fim_config \<Rightarrow> string list \<Rightarrow> file_system \<Rightarrow> time \<Rightarrow> string \<Rightarrow> fim_engine \<Rightarrow> engine_change option \<times> fim_engine" where
  "removal_commit cfg watched fs now path g =
     (if scan_removes cfg watched fs path then commit_delete ''baseline'' now path g else (None, g))"

definition delete_visit ::
  "fim_config \<Rightarrow> string list \<Rightarrow> file_system \<Rightarrow> time \<Rightarrow> string \<Rightarrow> fim_engine \<times> bool \<Rightarrow> fim_engine \<times> bool" where
  "delete_visit cfg watched fs now path st =
     (case removal_commit cfg watched fs now path (fst st) of (c, g) \<Rightarrow> queue_capped c (g, snd st))"

definition scan_walked :: "fim_config \<Rightarrow> file_system \<Rightarrow> time \<Rightarrow> fim_engine \<Rightarrow> fim_engine \<times> bool" where
  "scan_walked cfg fs now g = fold (scan_visit fs now) (iter_paths cfg fs) (g, False)"

definition unseen_paths :: "fim_config \<Rightarrow> file_system \<Rightarrow> fim_engine \<Rightarrow> string list" where
  "unseen_paths cfg fs g = filter (\<lambda>p. p \<notin> set (iter_paths cfg fs)) (all_baseline_paths g)"

definition scan_all :: "fim_config \<Rightarrow> bool \<Rightarrow> file_system \<Rightarrow> time \<Rightarrow> fim_engine \<Rightarrow> fim_engine \<times> bool" where
  "scan_all cfg watching fs now g =
     (let st = scan_walked cfg fs now g in
      fold (delete_visit cfg (watch_set cfg watching fs) fs now) (unseen_paths cfg fs (fst st)) st)"

definition do_scan :: "fim_config \<Rightarrow> bool \<Rightarrow> file_system \<Rightarrow> time \<Rightarrow> fim_engine \<Rightarrow> fim_engine" where
  "do_scan cfg watching fs now g =
     (case scan_all cfg watching fs now g of
        (g', truncated) \<Rightarrow> if truncated then queue_change (truncation_marker MAX_QUEUED_CHANGES now) g' else g')"

section \<open>Coverage\<close>

text \<open>SQLite's \<open>LIKE\<close>: \<open>%\<close> stands for any text, \<open>_\<close> for any character, and ASCII letters are compared
  without case.\<close>

fun sql_like :: "string \<Rightarrow> string \<Rightarrow> bool" where
  "sql_like [] s = (s = [])"
| "sql_like (c # cs) [] = (c = CHR ''%'' \<and> sql_like cs [])"
| "sql_like (c # cs) (x # xs) =
     (if c = CHR ''%'' then sql_like cs (x # xs) \<or> sql_like (c # cs) xs
      else (c = CHR ''_'' \<or> char_lower c = char_lower x) \<and> sql_like cs xs)"

record path_stat =
  ps_file_count :: nat
  ps_total_size :: int
  ps_category :: string

definition stat_rows :: "string \<Rightarrow> (string \<times> file_meta) list \<Rightarrow> path_stat" where
  "stat_rows category rows =
     \<lparr>ps_file_count = length rows, ps_total_size = sum_list (map (fm_size \<circ> snd) rows), ps_category = category\<rparr>"

definition file_stat :: "fim_engine \<Rightarrow> string \<Rightarrow> path_stat" where
  "file_stat g p = stat_rows ''critical_files'' (filter (\<lambda>r. fst r = p) (fe_baseline g))"

definition dir_stat :: "string \<Rightarrow> fim_engine \<Rightarrow> string \<Rightarrow> path_stat" where
  "dir_stat category g p = stat_rows category
     (filter (\<lambda>r. fst r = p \<or> sql_like (str_rstrip (CHR ''/'') p @ ''/%'') (fst r)) (fe_baseline g))"

definition compute_path_stats :: "fim_config \<Rightarrow> fim_engine \<Rightarrow> (string \<times> path_stat) list" where
  "compute_path_stats cfg g =
     dmerge [] (map (\<lambda>p. (p, file_stat g p)) (fg_critical_files cfg)
       @ map (\<lambda>p. (p, dir_stat ''critical_dirs'' g p)) (fg_critical_dirs cfg)
       @ map (\<lambda>p. (p, dir_stat ''binary_dirs'' g p)) (fg_binary_dirs cfg))"

section \<open>What one visit does\<close>

text \<open>A change without its actor, which the engine adds after the fact.\<close>

definition bare :: "engine_change \<Rightarrow> engine_change" where
  "bare c = c\<lparr>ch_actor := None\<rparr>"

definition rows :: "fim_engine \<Rightarrow> string \<Rightarrow> file_meta option" where
  "rows g = map_of (fe_baseline g)"

definition opt_list :: "'a option \<Rightarrow> 'a list" where
  "opt_list x = (case x of None \<Rightarrow> [] | Some a \<Rightarrow> [a])"

lemma opt_list_simps [simp]: "opt_list None = []" "opt_list (Some a) = [a]"
  by (simp_all add: opt_list_def)

lemma change_of_sel [simp]: "ch_path (change_of p k b a d t) = p" "bare (change_of p k b a d t) = change_of p k b a d t"
  by (simp_all add: change_of_def bare_def)

lemma bare_path [simp]: "ch_path (bare c) = ch_path c" "bare (bare c) = bare c"
  by (simp_all add: bare_def)

lemma same_file_refl [simp]: "same_file m m"
  by (simp add: same_file_def)

lemma diff_one_sel:
  "diff_one p prior m d t = Some c \<Longrightarrow> ch_path c = p \<and> bare c = c"
  by (auto simp: diff_one_def split: option.splits if_splits)

lemma make_delete_change_sel [simp]: "ch_path (make_delete_change p m d t) = p"
  "bare (make_delete_change p m d t) = make_delete_change p m d t"
  by (simp_all add: make_delete_change_def)

lemma upsert_baseline_path_sel [simp]: "rows (upsert_baseline_path p m g) = (rows g)(p \<mapsto> m)"
  "fe_pending (upsert_baseline_path p m g) = fe_pending g" "fe_audit (upsert_baseline_path p m g) = fe_audit g"
  by (simp_all add: upsert_baseline_path_def rows_def update_conv')

lemma delete_baseline_sel [simp]: "rows (delete_baseline p g) = (rows g)(p := None)"
  "fe_pending (delete_baseline p g) = fe_pending g" "fe_audit (delete_baseline p g) = fe_audit g"
  by (simp_all add: delete_baseline_def rows_def delete_conv')

lemma queue_change_sel [simp]: "rows (queue_change c g) = rows g" "fe_pending (queue_change c g) = fe_pending g @ [c]"
  by (simp_all add: queue_change_def rows_def)

lemma attach_actor_sel [simp]:
  "rows (snd (attach_actor t c g)) = rows g" "fe_pending (snd (attach_actor t c g)) = fe_pending g"
  "bare (fst (attach_actor t c g)) = bare c" "ch_path (fst (attach_actor t c g)) = ch_path c"
  "ch_note (fst (attach_actor t c g)) = ch_note c"
  by (auto simp: attach_actor_def rows_def bare_def split: option.splits prod.splits)

lemma read_baseline_rows: "read_baseline p g = rows g p"
  by (simp add: read_baseline_def rows_def)

lemma all_baseline_paths_rows: "p \<in> set (all_baseline_paths g) \<longleftrightarrow> rows g p \<noteq> None"
  by (simp add: all_baseline_paths_def rows_def map_of_eq_None_iff)

lemmas commit_defs = commit_hash_def commit_delete_def read_baseline_rows

text \<open>The row a visit leaves for a path, and the change it reports.\<close>

definition scan_row :: "file_system \<Rightarrow> string \<Rightarrow> file_meta option \<Rightarrow> file_meta option" where
  "scan_row fs p old = (case stat_and_hash fs p of Hashed m \<Rightarrow> Some m | _ \<Rightarrow> old)"

definition scan_report :: "file_system \<Rightarrow> time \<Rightarrow> string \<Rightarrow> file_meta option \<Rightarrow> engine_change option" where
  "scan_report fs now p old = (case stat_and_hash fs p of Hashed m \<Rightarrow> diff_one p old m ''baseline'' now | _ \<Rightarrow> None)"

lemma scan_report_again [simp]: "scan_report fs now' p (scan_row fs p old) = None"
  by (simp add: scan_report_def scan_row_def diff_one_def split: hash_result.split)

lemma scan_row_again [simp]: "scan_row fs p (scan_row fs p old) = scan_row fs p old"
  by (simp add: scan_row_def split: hash_result.split)

lemma scan_report_path: "scan_report fs now p old = Some c \<Longrightarrow> ch_path c = p \<and> bare c = c"
  by (auto simp: scan_report_def dest: diff_one_sel split: hash_result.splits)

lemma queue_capped_sel:
  "rows (fst (queue_capped c st)) = rows (fst st)"
  "\<not> snd (queue_capped c st) \<Longrightarrow> \<not> snd st \<and> fe_pending (fst (queue_capped c st)) = fe_pending (fst st) @ opt_list c"
  by (auto simp: queue_capped_def split: option.splits if_splits)

lemma queue_capped_None [simp]: "queue_capped None st = st"
  by (simp add: queue_capped_def)

lemma scan_one_path_sel:
  "rows (snd (scan_one_path fs now p g)) = (rows g)(p := scan_row fs p (rows g p))"
  "fe_pending (snd (scan_one_path fs now p g)) = fe_pending g"
  "map_option bare (fst (scan_one_path fs now p g)) = scan_report fs now p (rows g p)"
proof -
  show "rows (snd (scan_one_path fs now p g)) = (rows g)(p := scan_row fs p (rows g p))"
    "fe_pending (snd (scan_one_path fs now p g)) = fe_pending g"
    by (simp_all add: scan_one_path_def scan_commit_def commit_defs scan_row_def split_beta fun_upd_idem
        split: hash_result.split option.split)
  show "map_option bare (fst (scan_one_path fs now p g)) = scan_report fs now p (rows g p)"
    by (auto simp: scan_one_path_def scan_commit_def commit_defs scan_report_def split_beta dest: diff_one_sel
        split: hash_result.split option.split)
qed

lemma map_opt_list: "map f (opt_list x) = opt_list (map_option f x)"
  by (cases x) auto

lemma queue_capped_bare:
  "\<not> snd (queue_capped c st) \<Longrightarrow> \<not> snd st
     \<and> map bare (fe_pending (fst (queue_capped c st))) = map bare (fe_pending (fst st)) @ opt_list (map_option bare c)"
  by (auto dest!: queue_capped_sel(2) simp: map_opt_list)

lemma scan_visit_sel:
  "rows (fst (scan_visit fs now p st)) = (rows (fst st))(p := scan_row fs p (rows (fst st) p))"
  "\<not> snd (scan_visit fs now p st) \<Longrightarrow> \<not> snd st
     \<and> map bare (fe_pending (fst (scan_visit fs now p st)))
       = map bare (fe_pending (fst st)) @ opt_list (scan_report fs now p (rows (fst st) p))"
  by (simp_all add: scan_visit_def split_beta queue_capped_sel(1) scan_one_path_sel)
    (auto dest!: queue_capped_bare simp: scan_one_path_sel)

definition removal_report ::
  "fim_config \<Rightarrow> string list \<Rightarrow> file_system \<Rightarrow> time \<Rightarrow> string \<Rightarrow> file_meta option \<Rightarrow> engine_change option" where
  "removal_report cfg watched fs now p old =
     (if scan_removes cfg watched fs p then map_option (\<lambda>m. make_delete_change p m ''baseline'' now) old else None)"

lemma delete_visit_sel:
  "rows (fst (delete_visit cfg w fs now p st)) = (rows (fst st))(p := if scan_removes cfg w fs p then None else rows (fst st) p)"
  "\<not> snd (delete_visit cfg w fs now p st) \<Longrightarrow> \<not> snd st
     \<and> map bare (fe_pending (fst (delete_visit cfg w fs now p st)))
       = map bare (fe_pending (fst st)) @ opt_list (removal_report cfg w fs now p (rows (fst st) p))"
  by (simp add: delete_visit_def removal_commit_def split_beta queue_capped_sel(1) commit_defs fun_upd_idem split: option.split)
    (auto simp: delete_visit_def removal_commit_def removal_report_def commit_defs dest!: queue_capped_bare
       split: option.splits if_splits)

section \<open>Passes over paths\<close>

text \<open>A pass visits paths one after the other; a visit settles the row of its path, reports what changed
  and has nothing to say the second time. The walk of a scan is such a pass, and so is its removal of
  what the walk did not meet.\<close>

definition reports_of :: "string \<Rightarrow> fim_engine \<Rightarrow> engine_change list" where
  "reports_of q g = filter (\<lambda>c. ch_path c = q) (map bare (fe_pending g))"

locale path_pass =
  fixes visit :: "string \<Rightarrow> fim_engine \<times> bool \<Rightarrow> fim_engine \<times> bool"
    and settled :: "string \<Rightarrow> file_meta option \<Rightarrow> file_meta option"
    and report :: "string \<Rightarrow> file_meta option \<Rightarrow> engine_change option"
  assumes visit_rows: "rows (fst (visit p st)) = (rows (fst st))(p := settled p (rows (fst st) p))"
    and visit_reports: "\<not> snd (visit p st) \<Longrightarrow> \<not> snd st \<and> map bare (fe_pending (fst (visit p st)))
          = map bare (fe_pending (fst st)) @ opt_list (report p (rows (fst st) p))"
    and visit_silent: "report p (rows (fst st) p) = None \<Longrightarrow>
          fe_pending (fst (visit p st)) = fe_pending (fst st) \<and> snd (visit p st) = snd st"
    and settled_again: "settled p (settled p r) = settled p r"
    and report_again: "report p (settled p r) = None"
    and report_path: "report p r = Some c \<Longrightarrow> ch_path c = p"
begin

lemma pass_rows: "rows (fst (fold visit ps st)) q = (if q \<in> set ps then settled q (rows (fst st) q) else rows (fst st) q)"
  by (induction ps rule: rev_induct) (auto simp: visit_rows settled_again)

lemma visit_reports_of:
  assumes "\<not> snd (visit p st)"
  shows "reports_of q (fst (visit p st)) = reports_of q (fst st) @ (if p = q then opt_list (report q (rows (fst st) q)) else [])"
  using visit_reports[OF assms] report_path[of p "rows (fst st) p"]
  by (cases "report p (rows (fst st) p)") (auto simp: reports_of_def)

lemma pass_reports:
  assumes "\<not> snd (fold visit ps st)"
  shows "\<not> snd st \<and> reports_of q (fst (fold visit ps st))
     = reports_of q (fst st) @ (if q \<in> set ps then opt_list (report q (rows (fst st) q)) else [])"
  using assms
proof (induction ps rule: rev_induct)
  case Nil then show ?case by simp
next
  case (snoc p ps)
  let ?st = "fold visit ps st"
  have nv: "\<not> snd (visit p ?st)" using snoc.prems by simp
  then have ih: "\<not> snd st \<and> reports_of q (fst ?st)
      = reports_of q (fst st) @ (if q \<in> set ps then opt_list (report q (rows (fst st) q)) else [])"
    using snoc.IH visit_reports[OF nv] by simp
  show ?case using ih visit_reports_of[OF nv, of q] by (auto simp: pass_rows report_again)
qed

lemma pass_silent:
  assumes "\<And>p. p \<in> set ps \<Longrightarrow> report p (rows (fst st) p) = None \<and> settled p (rows (fst st) p) = rows (fst st) p"
  shows "rows (fst (fold visit ps st)) = rows (fst st) \<and> fe_pending (fst (fold visit ps st)) = fe_pending (fst st)
     \<and> snd (fold visit ps st) = snd st"
  using assms
proof (induction ps arbitrary: st)
  case Nil then show ?case by simp
next
  case (Cons p ps)
  have r: "rows (fst (visit p st)) = rows (fst st)" using Cons.prems[of p] by (simp add: visit_rows fun_upd_idem)
  have s: "fe_pending (fst (visit p st)) = fe_pending (fst st) \<and> snd (visit p st) = snd st"
    using Cons.prems[of p] by (intro visit_silent) simp
  have "\<And>q. q \<in> set ps \<Longrightarrow> report q (rows (fst (visit p st)) q) = None
      \<and> settled q (rows (fst (visit p st)) q) = rows (fst (visit p st)) q"
    using Cons.prems by (simp add: r)
  from Cons.IH[OF this] r s show ?case by simp
qed

end

lemma scan_visit_silent:
  assumes "scan_report fs now p (rows (fst st) p) = None"
  shows "fe_pending (fst (scan_visit fs now p st)) = fe_pending (fst st) \<and> snd (scan_visit fs now p st) = snd st"
proof -
  have "fst (scan_one_path fs now p (fst st)) = None" using scan_one_path_sel(3)[of fs now p "fst st"] assms by simp
  then show ?thesis by (simp add: scan_visit_def split_beta scan_one_path_sel(2))
qed

interpretation walk_pass: path_pass "scan_visit fs now" "scan_row fs" "scan_report fs now" for fs now
  by (unfold_locales; (rule scan_visit_sel scan_visit_silent scan_row_again scan_report_again; assumption?)?)
    (blast dest: scan_report_path)

lemma delete_visit_silent:
  assumes "removal_report cfg w fs now p (rows (fst st) p) = None"
  shows "fe_pending (fst (delete_visit cfg w fs now p st)) = fe_pending (fst st) \<and> snd (delete_visit cfg w fs now p st) = snd st"
  using assms by (auto simp: removal_report_def removal_commit_def delete_visit_def commit_defs split: if_splits)

interpretation removal_pass: path_pass "delete_visit cfg w fs now"
  "\<lambda>p r. if scan_removes cfg w fs p then None else r" "removal_report cfg w fs now" for cfg w fs now
  by (unfold_locales; (rule delete_visit_sel delete_visit_silent; assumption?)?)
    (auto simp: removal_report_def split: if_splits)

section \<open>A scan of a file system that stands still\<close>

text \<open>The row a scan leaves for a path and the change it reports for it.\<close>

definition scanned_row :: "fim_config \<Rightarrow> string list \<Rightarrow> file_system \<Rightarrow> string \<Rightarrow> file_meta option \<Rightarrow> file_meta option" where
  "scanned_row cfg w fs q old =
     (if q \<in> set (iter_paths cfg fs) then scan_row fs q old
      else if scan_removes cfg w fs q then None else old)"

definition scanned_report ::
  "fim_config \<Rightarrow> string list \<Rightarrow> file_system \<Rightarrow> time \<Rightarrow> string \<Rightarrow> file_meta option \<Rightarrow> engine_change option" where
  "scanned_report cfg w fs now q old =
     (if q \<in> set (iter_paths cfg fs) then scan_report fs now q old else removal_report cfg w fs now q old)"

lemma unseen_iff: "q \<in> set (unseen_paths cfg fs g) \<longleftrightarrow> q \<notin> set (iter_paths cfg fs) \<and> rows g q \<noteq> None"
  by (auto simp: unseen_paths_def all_baseline_paths_rows)

lemma scan_all_rows: "rows (fst (scan_all cfg w fs now g)) q = scanned_row cfg (watch_set cfg w fs) fs q (rows g q)"
  by (simp add: scan_all_def Let_def removal_pass.pass_rows unseen_iff scan_walked_def walk_pass.pass_rows scanned_row_def)

lemma do_scan_rows: "rows (do_scan cfg w fs now g) q = scanned_row cfg (watch_set cfg w fs) fs q (rows g q)"
  using scan_all_rows[of cfg w fs now g q] by (simp add: do_scan_def split_beta)

lemma removal_report_None [simp]: "removal_report cfg w fs now q None = None"
  by (simp add: removal_report_def)

lemma scan_all_reports:
  assumes "\<not> snd (scan_all cfg w fs now g)"
  shows "reports_of q (fst (scan_all cfg w fs now g)) = reports_of q g @ opt_list (scanned_report cfg (watch_set cfg w fs) fs now q (rows g q))"
proof -
  let ?st = "scan_walked cfg fs now g"
  have r: "\<not> snd ?st \<and> reports_of q (fst (scan_all cfg w fs now g)) = reports_of q (fst ?st)
      @ (if q \<in> set (unseen_paths cfg fs (fst ?st)) then opt_list (removal_report cfg (watch_set cfg w fs) fs now q (rows (fst ?st) q)) else [])"
    using removal_pass.pass_reports[of cfg "watch_set cfg w fs" fs now "unseen_paths cfg fs (fst ?st)" ?st q] assms
    by (simp add: scan_all_def Let_def)
  moreover from r have "reports_of q (fst ?st) = reports_of q g
      @ (if q \<in> set (iter_paths cfg fs) then opt_list (scan_report fs now q (rows g q)) else [])"
    using walk_pass.pass_reports[of fs now "iter_paths cfg fs" "(g, False)" q] by (simp add: scan_walked_def)
  moreover have "rows (fst ?st) q = (if q \<in> set (iter_paths cfg fs) then scan_row fs q (rows g q) else rows g q)"
    by (simp add: scan_walked_def walk_pass.pass_rows)
  ultimately show ?thesis by (auto simp: unseen_iff scanned_report_def)
qed

text \<open>The file system of the witnesses: one watched file, one configured directory with a file in it.\<close>

definition demo_meta :: "string \<Rightarrow> int \<Rightarrow> file_meta" where
  "demo_meta sha n = \<lparr>fm_sha = sha, fm_size = n, fm_perm = 420, fm_uid = 0, fm_gid = 0, fm_mtime = 0\<rparr>"

definition demo_cfg :: fim_config where
  "demo_cfg = fim_config_of [''/etc/passwd''] [''/etc/cron.d''] [''/usr/bin'']"

definition demo_fs :: "(string \<times> file_meta) list \<Rightarrow> string list \<Rightarrow> file_system" where
  "demo_fs files names =
     \<lparr>fs_files = (\<lambda>p. map_option (\<lambda>m. \<lparr>fe_meta = m, fe_readable = True\<rparr>) (map_of files p)),
      fs_dirs = (\<lambda>d. if d = ''/etc/cron.d'' then Some (Dir_tree names []) else None)\<rparr>"

definition demo_engine :: "(string \<times> file_meta) list \<Rightarrow> fim_engine" where
  "demo_engine table = \<lparr>fe_baseline = table, fe_pending = [], fe_audit = None\<rparr>"

definition demo_files :: "(string \<times> file_meta) list" where
  "demo_files = [(''/etc/passwd'', demo_meta ''a1'' 10), (''/etc/cron.d/job'', demo_meta ''b1'' 20)]"

text \<open>a scan that leaves nothing out settles the row of every path and queues exactly the change
  this path calls for: one for a walked file that is new or differs from its row, one for a row in
  scope whose path the walk did not meet, none otherwise. Repeated paths of the walk do not report twice.\<close>
theorem scan_reports_exactly:
  assumes "\<not> snd (scan_all cfg watching fs now g)"
  shows "rows (do_scan cfg watching fs now g) q = scanned_row cfg (watch_set cfg watching fs) fs q (rows g q)
    \<and> reports_of q (do_scan cfg watching fs now g)
      = reports_of q g @ opt_list (scanned_report cfg (watch_set cfg watching fs) fs now q (rows g q))"
proof -
  have "do_scan cfg watching fs now g = fst (scan_all cfg watching fs now g)"
    using assms by (simp add: do_scan_def split_beta)
  with scan_all_reports[OF assms, of q] scan_all_rows[of cfg watching fs now g q] show ?thesis by simp
qed

lemma demo_scan_complete:
  "\<not> snd (scan_all demo_cfg True (demo_fs demo_files [''job'']) 5 (demo_engine [(''/etc/cron.d/old'', demo_meta ''c1'' 1)]))"
  by code_simp

lemma scan_reports_exactly_witness:
  "rows (do_scan demo_cfg True (demo_fs demo_files [''job'']) 5 (demo_engine [(''/etc/cron.d/old'', demo_meta ''c1'' 1)]))
      ''/etc/cron.d/old'' = None
    \<and> reports_of ''/etc/cron.d/old''
        (do_scan demo_cfg True (demo_fs demo_files [''job'']) 5 (demo_engine [(''/etc/cron.d/old'', demo_meta ''c1'' 1)]))
      = [make_delete_change ''/etc/cron.d/old'' (demo_meta ''c1'' 1) ''baseline'' 5]"
proof -
  let ?fs = "demo_fs demo_files [''job'']" and ?g = "demo_engine [(''/etc/cron.d/old'', demo_meta ''c1'' 1)]"
  have "scanned_row demo_cfg (watch_set demo_cfg True ?fs) ?fs ''/etc/cron.d/old'' (rows ?g ''/etc/cron.d/old'') = None"
    "reports_of ''/etc/cron.d/old'' ?g = []"
    "opt_list (scanned_report demo_cfg (watch_set demo_cfg True ?fs) ?fs 5 ''/etc/cron.d/old'' (rows ?g ''/etc/cron.d/old''))
       = [make_delete_change ''/etc/cron.d/old'' (demo_meta ''c1'' 1) ''baseline'' 5]"
    by code_simp+
  then show ?thesis using scan_reports_exactly[OF demo_scan_complete, of "''/etc/cron.d/old''"] by simp
qed

lemma scanned_settled:
  "q \<in> set (iter_paths cfg fs) \<Longrightarrow> scan_report fs now q (scanned_row cfg w fs q r) = None
     \<and> scan_row fs q (scanned_row cfg w fs q r) = scanned_row cfg w fs q r"
  "q \<notin> set (iter_paths cfg fs) \<Longrightarrow> scan_removes cfg w fs q \<Longrightarrow> scanned_row cfg w fs q r = None"
  "q \<notin> set (iter_paths cfg fs) \<Longrightarrow> removal_report cfg w fs now q (scanned_row cfg w fs q r) = None"
  by (simp_all add: scanned_row_def removal_report_def)

lemma scan_of_settled:
  assumes "\<And>q. rows g q = scanned_row cfg (watch_set cfg w fs) fs q (r q)"
  shows "scan_all cfg w fs now g = (g', t) \<Longrightarrow> rows g' = rows g \<and> fe_pending g' = fe_pending g \<and> \<not> t"
proof -
  let ?st = "scan_walked cfg fs now g"
  assume "scan_all cfg w fs now g = (g', t)"
  moreover have st: "rows (fst ?st) = rows g \<and> fe_pending (fst ?st) = fe_pending g \<and> \<not> snd ?st"
    using walk_pass.pass_silent[of "iter_paths cfg fs" fs now "(g, False)"]
    by (simp add: scan_walked_def assms scanned_settled(1))
  moreover have "rows (fst (scan_all cfg w fs now g)) = rows (fst ?st)
      \<and> fe_pending (fst (scan_all cfg w fs now g)) = fe_pending (fst ?st) \<and> snd (scan_all cfg w fs now g) = snd ?st"
    unfolding scan_all_def Let_def
    by (rule removal_pass.pass_silent) (use st in \<open>auto simp: unseen_iff assms scanned_settled(2,3)\<close>)
  ultimately show ?thesis by simp
qed

text \<open>a scan is idempotent: scanning the same files again, at any later time, changes no row and
  queues nothing, even when the first scan had to leave changes out.\<close>
theorem second_scan_silent:
  shows "rows (do_scan cfg watching fs now' (do_scan cfg watching fs now g)) = rows (do_scan cfg watching fs now g)
    \<and> fe_pending (do_scan cfg watching fs now' (do_scan cfg watching fs now g)) = fe_pending (do_scan cfg watching fs now g)"
proof (cases "scan_all cfg watching fs now' (do_scan cfg watching fs now g)")
  case (Pair g' t)
  then show ?thesis
    using scan_of_settled[of "do_scan cfg watching fs now g", OF do_scan_rows Pair]
    by (simp add: do_scan_def[of cfg watching fs now'])
qed

section \<open>Where a scan is wrong\<close>

text \<open>A configured directory written with a slash at its end is walked, but its files are not in scope,
  so their removal is never reported.\<close>

lemma trailing_slash_never_deleted:
  defines "cfg \<equiv> fim_config_of [''/etc/passwd''] [''/opt/app/''] [''/usr/bin'']"
    and "fs \<equiv> (\<lambda>names. \<lparr>fs_files = (\<lambda>p. if p \<in> set (map (path_join ''/opt/app/'') names)
            then Some \<lparr>fe_meta = demo_meta ''a1'' 10, fe_readable = True\<rparr> else None),
          fs_dirs = (\<lambda>d. if d = ''/opt/app/'' then Some (Dir_tree names []) else None)\<rparr>)"
  shows "iter_paths cfg (fs [''run'']) = [''/opt/app/run'']"
    and "iter_paths cfg (fs []) = []"
    and "scanned_report cfg watched (fs []) now ''/opt/app/run'' (Some m) = None"
    and "scanned_row cfg watched (fs []) ''/opt/app/run'' (Some m) = Some m"
proof -
  have out: "\<not> is_in_scan_scope cfg ''/opt/app/run''" unfolding cfg_def by code_simp
  show "iter_paths cfg (fs [''run'']) = [''/opt/app/run'']" unfolding cfg_def fs_def by code_simp
  show empty: "iter_paths cfg (fs []) = []" unfolding cfg_def fs_def by code_simp
  show "scanned_report cfg watched (fs []) now ''/opt/app/run'' (Some m) = None"
    "scanned_row cfg watched (fs []) ''/opt/app/run'' (Some m) = Some m"
    by (simp_all add: scanned_report_def scanned_row_def removal_report_def scan_removes_def out empty)
qed

text \<open>A file in a directory that grows beyond the size limit is reported as deleted although it is there.\<close>

lemma grown_file_reported_deleted:
  defines "fs \<equiv> demo_fs [(''/etc/cron.d/job'', demo_meta ''b2'' (MAX_HASH_BYTES + 1))] [''job'']"
  shows "fs_files fs ''/etc/cron.d/job'' \<noteq> None
    \<and> scanned_report demo_cfg (watch_set demo_cfg True fs) fs 5 ''/etc/cron.d/job'' (Some (demo_meta ''b1'' 20))
      = Some (make_delete_change ''/etc/cron.d/job'' (demo_meta ''b1'' 20) ''baseline'' 5)"
  unfolding fs_def by (intro conjI) code_simp+

text \<open>The statistics of a directory count files of others: in a \<open>LIKE\<close> pattern an underscore stands for any
  character.\<close>

lemma stats_count_other_directory:
  "ps_file_count (dir_stat ''critical_dirs'' (demo_engine [(''/opt/myXapp/f'', demo_meta ''a1'' 10)]) ''/opt/my_app'') = 1"
  by code_simp

text \<open>What the queue has no room for is gone: the rows move on, so no later scan reports it again.\<close>

lemma full_queue_loses_change:
  assumes "length (fe_pending g) = MAX_QUEUED_CHANGES" and "rows g p = Some old" and "stat_and_hash fs p = Hashed m"
    and "\<not> same_file m old"
  shows "fe_pending (fst (scan_visit fs now p (g, False))) = fe_pending g
    \<and> snd (scan_visit fs now p (g, False))
    \<and> scan_report fs now p (rows g p) \<noteq> None
    \<and> scan_report fs now' p (rows (fst (scan_visit fs now p (g, False))) p) = None"
proof -
  have r: "scan_report fs now p (rows g p) \<noteq> None" using assms by (simp add: scan_report_def diff_one_def)
  then obtain c where "fst (scan_one_path fs now p g) = Some c" using scan_one_path_sel(3)[of fs now p g] by auto
  then show ?thesis
    using r assms(1) by (simp add: scan_visit_def split_beta queue_capped_def scan_one_path_sel)
qed

end
