(* ===== verification/FimThreads.thy ===== *)
theory FimThreads
  imports FimEngine "HOL-Library.Multiset"
begin

text \<open>
  The engine's threads (\<open>src/scripts/fim_engine.py\<close>). The scan and the inotify handler each read a file
  first, then take the baseline lock to compare and store it, then queue the change after the lock is
  released; a scan holds the lock throughout its removal phase. A schedule is a list of actions: one
  such step of a thread, a change of the file system, a change of the audit reader or the agent taking
  the queue. Which file an event or the walk comes to is left open, since both read the live file
  system; the time of a step is free. Checking the length of the queue and appending to it is one step.
  \<open>ft_log\<close> and \<open>ft_lost\<close> only record: the changes in the order of their commits, and those the cap left out.
\<close>

section \<open>State and steps\<close>

datatype rt_state = Rt_idle | Rt_hashed string hash_result | Rt_report engine_change

datatype scan_state =
    Sc_idle
  | Sc_walk "string list" bool
  | Sc_hashed string hash_result "string list" bool
  | Sc_report engine_change "string list" bool
  | Sc_remove "string list" "string list" bool

record fim_threads =
  ft_engine :: fim_engine
  ft_fs :: file_system
  ft_scan :: scan_state
  ft_rt :: rt_state
  ft_sent :: "engine_change list"
  ft_log :: "engine_change list"
  ft_lost :: "engine_change list"

datatype fim_action =
    World file_system
  | Audit "audit_state option"
  | Rt_read string
  | Rt_commit time
  | Rt_queue time
  | Scan_begin
  | Scan_read string
  | Scan_commit time
  | Scan_queue time
  | Scan_unseen bool
  | Scan_remove time
  | Scan_end time
  | Drain

definition fim_start :: "(string \<times> file_meta) list \<Rightarrow> file_system \<Rightarrow> fim_threads" where
  "fim_start table fs = \<lparr>ft_engine = \<lparr>fe_baseline = table, fe_pending = [], fe_audit = None\<rparr>, ft_fs = fs,
     ft_scan = Sc_idle, ft_rt = Rt_idle, ft_sent = [], ft_log = [], ft_lost = []\<rparr>"

fun lock_free :: "scan_state \<Rightarrow> bool" where
  "lock_free (Sc_remove ps watched tr) = False"
| "lock_free _ = True"

definition left_out :: "engine_change option \<Rightarrow> fim_engine \<Rightarrow> engine_change list" where
  "left_out c g = (if length (fe_pending g) < MAX_QUEUED_CHANGES then [] else opt_list c)"

text \<open>\<open>None\<close>: the thread is not at this step, or the lock is held.\<close>

fun fim_act :: "fim_config \<Rightarrow> fim_action \<Rightarrow> fim_threads \<Rightarrow> fim_threads option" where
  "fim_act cfg (World fs) s = Some (s\<lparr>ft_fs := fs\<rparr>)"
| "fim_act cfg (Audit a) s = Some (s\<lparr>ft_engine := (ft_engine s)\<lparr>fe_audit := a\<rparr>\<rparr>)"
| "fim_act cfg (Rt_read p) s =
     (case ft_rt s of Rt_idle \<Rightarrow> Some (s\<lparr>ft_rt := Rt_hashed p (stat_and_hash (ft_fs s) p)\<rparr>) | _ \<Rightarrow> None)"
| "fim_act cfg (Rt_commit now) s =
     (case ft_rt s of Rt_hashed p r \<Rightarrow>
        if lock_free (ft_scan s)
        then (case realtime_commit now p r (ft_engine s) of (c, g) \<Rightarrow>
          Some (s\<lparr>ft_engine := g, ft_rt := (case c of None \<Rightarrow> Rt_idle | Some c \<Rightarrow> Rt_report c),
                 ft_log := ft_log s @ opt_list c\<rparr>))
        else None
      | _ \<Rightarrow> None)"
| "fim_act cfg (Rt_queue now) s =
     (case ft_rt s of Rt_report c \<Rightarrow>
        (case attach_actor now c (ft_engine s) of (c', g) \<Rightarrow> Some (s\<lparr>ft_engine := queue_change c' g, ft_rt := Rt_idle\<rparr>))
      | _ \<Rightarrow> None)"
| "fim_act cfg Scan_begin s = (case ft_scan s of Sc_idle \<Rightarrow> Some (s\<lparr>ft_scan := Sc_walk [] False\<rparr>) | _ \<Rightarrow> None)"
| "fim_act cfg (Scan_read p) s =
     (case ft_scan s of Sc_walk seen tr \<Rightarrow>
        Some (s\<lparr>ft_scan := Sc_hashed p (stat_and_hash (ft_fs s) p) (p # seen) tr\<rparr>) | _ \<Rightarrow> None)"
| "fim_act cfg (Scan_commit now) s =
     (case ft_scan s of Sc_hashed p r seen tr \<Rightarrow>
        (case scan_commit now p r (ft_engine s) of (c, g) \<Rightarrow>
          Some (s\<lparr>ft_engine := g, ft_scan := (case c of None \<Rightarrow> Sc_walk seen tr | Some c \<Rightarrow> Sc_report c seen tr),
                 ft_log := ft_log s @ opt_list c\<rparr>))
      | _ \<Rightarrow> None)"
| "fim_act cfg (Scan_queue now) s =
     (case ft_scan s of Sc_report c seen tr \<Rightarrow>
        (case attach_actor now c (ft_engine s) of (c', g) \<Rightarrow>
          (case queue_capped (Some c') (g, tr) of (g', tr') \<Rightarrow>
            Some (s\<lparr>ft_engine := g', ft_scan := Sc_walk seen tr', ft_lost := ft_lost s @ left_out (Some c') g\<rparr>)))
      | _ \<Rightarrow> None)"
| "fim_act cfg (Scan_unseen watching) s =
     (case ft_scan s of Sc_walk seen tr \<Rightarrow>
        Some (s\<lparr>ft_scan := Sc_remove (filter (\<lambda>p. p \<notin> set seen) (all_baseline_paths (ft_engine s)))
                 (watch_set cfg watching (ft_fs s)) tr\<rparr>)
      | _ \<Rightarrow> None)"
| "fim_act cfg (Scan_remove now) s =
     (case ft_scan s of Sc_remove (p # ps) watched tr \<Rightarrow>
        (case removal_commit cfg watched (ft_fs s) now p (ft_engine s) of (c, g) \<Rightarrow>
          (case queue_capped c (g, tr) of (g', tr') \<Rightarrow>
            Some (s\<lparr>ft_engine := g', ft_scan := Sc_remove ps watched tr', ft_log := ft_log s @ opt_list c,
                   ft_lost := ft_lost s @ left_out c g\<rparr>)))
      | _ \<Rightarrow> None)"
| "fim_act cfg (Scan_end now) s =
     (case ft_scan s of Sc_remove [] watched tr \<Rightarrow>
        Some (s\<lparr>ft_engine := (if tr then queue_change (truncation_marker MAX_QUEUED_CHANGES now) (ft_engine s)
                 else ft_engine s), ft_scan := Sc_idle\<rparr>)
      | _ \<Rightarrow> None)"
| "fim_act cfg Drain s =
     (case drain_changes (ft_engine s) of (cs, g) \<Rightarrow> Some (s\<lparr>ft_engine := g, ft_sent := ft_sent s @ cs\<rparr>))"

inductive fim_reaches :: "fim_config \<Rightarrow> fim_threads \<Rightarrow> fim_threads \<Rightarrow> bool" for cfg :: fim_config and s0 :: fim_threads where
  reach_start: "fim_reaches cfg s0 s0"
| reach_step: "fim_reaches cfg s0 s \<Longrightarrow> fim_act cfg a s = Some t \<Longrightarrow> fim_reaches cfg s0 t"

fun fim_run :: "fim_config \<Rightarrow> fim_action list \<Rightarrow> fim_threads \<Rightarrow> fim_threads option" where
  "fim_run cfg [] s = Some s"
| "fim_run cfg (a # as) s = (case fim_act cfg a s of None \<Rightarrow> None | Some t \<Rightarrow> fim_run cfg as t)"

lemma fim_run_reaches_from: "fim_run cfg as s = Some t \<Longrightarrow> fim_reaches cfg s0 s \<Longrightarrow> fim_reaches cfg s0 t"
  by (induction as arbitrary: s) (auto split: option.splits intro: fim_reaches.intros)

lemma fim_run_reaches: "fim_run cfg as s = Some t \<Longrightarrow> fim_reaches cfg s t"
  by (rule fim_run_reaches_from) (auto intro: fim_reaches.intros)

lemma fim_run_append: "fim_run cfg (as @ bs) s = Option.bind (fim_run cfg as s) (fim_run cfg bs)"
  by (induction as arbitrary: s) (auto split: option.splits)

section \<open>The log explains the baseline\<close>

text \<open>What a change says of its file before and after; \<open>None\<close>: there is no file.\<close>

type_synonym file_state = "string \<times> int \<times> string"

definition state_of :: "file_meta \<Rightarrow> file_state" where
  "state_of m = (fm_sha m, fm_perm m, fmt_owner m)"

definition file_state_of :: "string option \<Rightarrow> int option \<Rightarrow> string option \<Rightarrow> file_state option" where
  "file_state_of sha perm owner = Option.bind sha (\<lambda>a. Option.bind perm (\<lambda>b. map_option (\<lambda>c. (a, b, c)) owner))"

definition before_of :: "engine_change \<Rightarrow> file_state option" where
  "before_of c = file_state_of (ch_sha_before c) (ch_perm_before c) (ch_owner_before c)"

definition after_of :: "engine_change \<Rightarrow> file_state option" where
  "after_of c = file_state_of (ch_sha_after c) (ch_perm_after c) (ch_owner_after c)"

definition fim_apply :: "engine_change \<Rightarrow> (string \<Rightarrow> file_state option) \<Rightarrow> string \<Rightarrow> file_state option" where
  "fim_apply c f = f(ch_path c := after_of c)"

fun chained :: "(string \<Rightarrow> file_state option) \<Rightarrow> engine_change list \<Rightarrow> bool" where
  "chained f [] = True"
| "chained f (c # cs) = (before_of c = f (ch_path c) \<and> chained (fim_apply c f) cs)"

lemma chained_append: "chained f (xs @ ys) = (chained f xs \<and> chained (fold fim_apply xs f) ys)"
  by (induction xs arbitrary: f) auto

definition states :: "fim_engine \<Rightarrow> string \<Rightarrow> file_state option" where
  "states g p = map_option state_of (rows g p)"

text \<open>A commit: its change, if any, is the step from the table before to the table after, and an actor or a
  note is not yet on it.\<close>

definition commits :: "fim_engine \<Rightarrow> engine_change option \<Rightarrow> fim_engine \<Rightarrow> bool" where
  "commits g c g' \<longleftrightarrow> chained (states g) (opt_list c) \<and> states g' = fold fim_apply (opt_list c) (states g)
     \<and> fe_pending g' = fe_pending g \<and> list_all (\<lambda>c. ch_note c = None) (opt_list c)"

lemma change_of_states [simp]:
  "before_of (change_of p k b a d t) = map_option state_of b" "after_of (change_of p k b a d t) = map_option state_of a"
  "ch_note (change_of p k b a d t) = None"
  by (cases b; cases a; simp add: change_of_def before_of_def after_of_def file_state_of_def state_of_def)+

lemma same_file_state: "same_file m p \<Longrightarrow> state_of m = state_of p"
  by (simp add: same_file_def state_of_def fmt_owner_def)

lemma commits_None: "commits g None g"
  by (simp add: commits_def)

lemma states_upd: "states (upsert_baseline_path p m g) = (states g)(p \<mapsto> state_of m)"
  "states (delete_baseline p g) = (states g)(p := None)"
  by (auto simp: states_def)

lemma commit_hash_commits: "commit_hash d now p m g = (c, g') \<Longrightarrow> commits g c g'"
  by (auto simp: commit_hash_def commits_def diff_one_def read_baseline_rows states_upd fim_apply_def states_def
      same_file_state fun_upd_idem_iff split: option.splits if_splits)

lemma commit_delete_commits: "commit_delete d now p g = (c, g') \<Longrightarrow> commits g c g'"
  by (auto simp: commit_delete_def commits_def read_baseline_rows states_upd fim_apply_def states_def
      make_delete_change_def split: option.splits)

lemma realtime_commit_commits: "realtime_commit now p r g = (c, g') \<Longrightarrow> commits g c g'"
  by (auto simp: realtime_commit_def commits_None intro: commit_hash_commits commit_delete_commits split: hash_result.splits)

lemma scan_commit_commits: "scan_commit now p r g = (c, g') \<Longrightarrow> commits g c g'"
  by (auto simp: scan_commit_def commits_None intro: commit_hash_commits split: hash_result.splits)

lemma removal_commit_commits: "removal_commit cfg w fs now p g = (c, g') \<Longrightarrow> commits g c g'"
  by (auto simp: removal_commit_def commits_None intro: commit_delete_commits split: if_splits)

lemmas all_commits = realtime_commit_commits scan_commit_commits removal_commit_commits

definition explained :: "(string \<Rightarrow> file_state option) \<Rightarrow> fim_threads \<Rightarrow> bool" where
  "explained f s \<longleftrightarrow> chained f (ft_log s) \<and> states (ft_engine s) = fold fim_apply (ft_log s) f"

lemma explained_commit:
  assumes "explained f s" and "commits (ft_engine s) c g"
  shows "explained f (s\<lparr>ft_engine := g, ft_log := ft_log s @ opt_list c\<rparr>)"
  using assms by (simp add: explained_def commits_def chained_append)

lemma explained_same:
  "explained f s \<Longrightarrow> states (ft_engine t) = states (ft_engine s) \<Longrightarrow> ft_log t = ft_log s \<Longrightarrow> explained f t"
  by (simp add: explained_def)

lemma states_frame [simp]:
  "states (queue_change c g) = states g" "states (snd (attach_actor t c g)) = states g"
  "states (g\<lparr>fe_audit := a\<rparr>) = states g" "states (snd (drain_changes g)) = states g"
  "states (fst (queue_capped c' st)) = states (fst st)"
  by (simp_all add: states_def fun_eq_iff queue_capped_sel(1)) (simp_all add: rows_def drain_changes_def)

text \<open>Every step commits at most one change.\<close>

lemma fim_act_commits:
  assumes "fim_act cfg a s = Some t"
  shows "\<exists>c g. commits (ft_engine s) c g \<and> ft_log t = ft_log s @ opt_list c \<and> states (ft_engine t) = states g"
proof -
  have none: "ft_log t = ft_log s \<Longrightarrow> states (ft_engine t) = states (ft_engine s) \<Longrightarrow> ?thesis"
    using commits_None[of "ft_engine s"] by force
  show ?thesis
  proof (cases a)
    case (Rt_commit now)
    then obtain p r c g where "realtime_commit now p r (ft_engine s) = (c, g)"
      "ft_log t = ft_log s @ opt_list c" "ft_engine t = g"
      using assms by (auto split: rt_state.splits if_splits prod.splits)
    then show ?thesis using all_commits(1) by metis
  next
    case (Scan_commit now)
    then obtain p r c g where "scan_commit now p r (ft_engine s) = (c, g)"
      "ft_log t = ft_log s @ opt_list c" "ft_engine t = g"
      using assms by (auto split: scan_state.splits prod.splits)
    then show ?thesis using all_commits(2) by metis
  next
    case (Scan_remove now)
    then obtain p w tr c g g' tr' where "removal_commit cfg w (ft_fs s) now p (ft_engine s) = (c, g)"
      "ft_log t = ft_log s @ opt_list c" "ft_engine t = g'" "queue_capped c (g, tr) = (g', tr')"
      using assms by (auto split: scan_state.splits list.splits prod.splits)
    then show ?thesis using all_commits(3) states_frame(5)[of c "(g, tr)"] by (metis fst_conv)
  qed (use assms none in \<open>auto simp: split_beta split: rt_state.splits scan_state.splits list.splits\<close>)
qed

lemma explained_step: "explained f s \<Longrightarrow> fim_act cfg a s = Some t \<Longrightarrow> explained f t"
  using fim_act_commits[of cfg a s t] by (auto simp: explained_def commits_def chained_append)

section \<open>No change gets lost in silence\<close>

fun rt_flight :: "rt_state \<Rightarrow> engine_change list" where
  "rt_flight (Rt_report c) = [c]"
| "rt_flight _ = []"

fun scan_flight :: "scan_state \<Rightarrow> engine_change list" where
  "scan_flight (Sc_report c seen tr) = [c]"
| "scan_flight _ = []"

fun truncated :: "scan_state \<Rightarrow> bool" where
  "truncated (Sc_walk seen tr) = tr"
| "truncated (Sc_hashed p r seen tr) = tr"
| "truncated (Sc_report c seen tr) = tr"
| "truncated (Sc_remove ps watched tr) = tr"
| "truncated Sc_idle = False"

text \<open>What the agent has taken or can take, and the changes among it, without their actors.\<close>

definition handed :: "fim_threads \<Rightarrow> engine_change list" where
  "handed s = ft_sent s @ fe_pending (ft_engine s)"

definition bares :: "engine_change list \<Rightarrow> engine_change multiset" where
  "bares cs = mset (map bare (filter (\<lambda>c. ch_note c = None) cs))"

lemma bares_simps [simp]: "bares [] = {#}" "bares (xs @ ys) = bares xs + bares ys"
  "bares [c] = (if ch_note c = None then {#bare c#} else {#})"
  by (simp_all add: bares_def)

definition conserved :: "fim_threads \<Rightarrow> bool" where
  "conserved s \<longleftrightarrow> bares (ft_log s) = bares (handed s) + bares (rt_flight (ft_rt s)) + bares (scan_flight (ft_scan s))
       + bares (ft_lost s)
     \<and> list_all (\<lambda>c. ch_note c = None) (ft_log s)
     \<and> (ft_lost s \<noteq> [] \<longrightarrow> truncated (ft_scan s) \<or> (\<exists>c \<in> set (handed s). ch_note c \<noteq> None))"

lemma queue_capped_handed:
  "bares (fe_pending (fst (queue_capped c (g, tr)))) + bares (left_out c g) = bares (fe_pending g) + bares (opt_list c)"
  "left_out c g \<noteq> [] \<Longrightarrow> snd (queue_capped c (g, tr))"
  "tr \<Longrightarrow> snd (queue_capped c (g, tr))"
  "set (fe_pending g) \<subseteq> set (fe_pending (fst (queue_capped c (g, tr))))"
  by (auto simp: queue_capped_def left_out_def split: option.split)

lemma commits_bares: "commits g c g' \<Longrightarrow> fe_pending g' = fe_pending g \<and> list_all (\<lambda>c. ch_note c = None) (opt_list c)"
  by (simp add: commits_def)

lemma attach_note:
  "attach_actor t c g = (c', g') \<Longrightarrow> fe_pending g' = fe_pending g \<and> ch_note c' = ch_note c \<and> bare c' = bare c"
  using attach_actor_sel[of t c g] by simp

lemma conserved_step:
  assumes I: "conserved s" and act: "fim_act cfg a s = Some t"
  shows "conserved t"
proof (cases a)
  case (Rt_commit now)
  then obtain p r c g where c: "commits (ft_engine s) c g" and r: "ft_rt s = Rt_hashed p r"
    and t: "t = s\<lparr>ft_engine := g, ft_rt := (case c of None \<Rightarrow> Rt_idle | Some c \<Rightarrow> Rt_report c), ft_log := ft_log s @ opt_list c\<rparr>"
    using act by (auto split: rt_state.splits if_splits prod.splits dest: realtime_commit_commits)
  from I c r t show ?thesis using commits_bares[OF c] by (cases c) (auto simp: conserved_def handed_def)
next
  case (Scan_commit now)
  then obtain p r seen tr c g where c: "commits (ft_engine s) c g" and r: "ft_scan s = Sc_hashed p r seen tr"
    and t: "t = s\<lparr>ft_engine := g, ft_scan := (case c of None \<Rightarrow> Sc_walk seen tr | Some c \<Rightarrow> Sc_report c seen tr),
      ft_log := ft_log s @ opt_list c\<rparr>"
    using act by (auto split: scan_state.splits prod.splits dest: scan_commit_commits)
  from I c r t show ?thesis using commits_bares[OF c] by (cases c) (auto simp: conserved_def handed_def)
next
  case (Rt_queue now)
  then show ?thesis using I act by (auto simp: conserved_def handed_def queue_change_def
    dest!: attach_note split: rt_state.splits prod.splits)
next
  case (Scan_queue now)
  then obtain c seen tr c' g g' tr' where r: "ft_scan s = Sc_report c seen tr" and a: "attach_actor now c (ft_engine s) = (c', g)"
    and q: "queue_capped (Some c') (g, tr) = (g', tr')"
    and t: "t = s\<lparr>ft_engine := g', ft_scan := Sc_walk seen tr', ft_lost := ft_lost s @ left_out (Some c') g\<rparr>"
    using act by (auto split: scan_state.splits prod.splits)
  have "bares (fe_pending g') + bares (left_out (Some c') g) = bares (fe_pending (ft_engine s)) + bares [c]"
    and "left_out (Some c') g \<noteq> [] \<Longrightarrow> tr'" "tr \<Longrightarrow> tr'" "set (fe_pending (ft_engine s)) \<subseteq> set (fe_pending g')"
    using queue_capped_handed[where c = "Some c'" and g = g and tr = tr] q attach_note[OF a] by simp_all
  with I r t show ?thesis by (auto simp: conserved_def handed_def ac_simps)
next
  case (Scan_remove now)
  then obtain p ps w tr c g g' tr' where r: "ft_scan s = Sc_remove (p # ps) w tr" and c: "commits (ft_engine s) c g"
    and q: "queue_capped c (g, tr) = (g', tr')"
    and t: "t = s\<lparr>ft_engine := g', ft_scan := Sc_remove ps w tr', ft_log := ft_log s @ opt_list c,
      ft_lost := ft_lost s @ left_out c g\<rparr>"
    using act by (auto split: scan_state.splits prod.splits list.splits dest: removal_commit_commits)
  have "bares (fe_pending g') + bares (left_out c g) = bares (fe_pending (ft_engine s)) + bares (opt_list c)"
    and "left_out c g \<noteq> [] \<Longrightarrow> tr'" "tr \<Longrightarrow> tr'" "set (fe_pending (ft_engine s)) \<subseteq> set (fe_pending g')"
    using queue_capped_handed[where c = c and g = g and tr = tr] q commits_bares[OF c] by simp_all
  with I r t commits_bares[OF c] show ?thesis by (auto simp: conserved_def handed_def ac_simps)
next
  case (Scan_end now)
  then show ?thesis using I act by (auto simp: conserved_def handed_def queue_change_def truncation_marker_def
    split: scan_state.splits list.splits)
qed (use I act in \<open>auto simp: conserved_def handed_def drain_changes_def split: rt_state.splits scan_state.splits\<close>)

section \<open>Results\<close>

definition table_states :: "(string \<times> file_meta) list \<Rightarrow> string \<Rightarrow> file_state option" where
  "table_states table p = map_option state_of (map_of table p)"

text \<open>A scan under way while a file appears: its walk has passed the directory when the file is created, and
  its removal phase comes after the inotify handler has stored it.\<close>

definition job_path :: string where "job_path = ''/etc/cron.d/job''"

definition demo_fim_world :: "string \<Rightarrow> file_system" where
  "demo_fim_world sha = demo_fs [(job_path, demo_meta sha 20)] [''job'']"

definition race_run :: "fim_action list" where
  "race_run = [Scan_begin, World (demo_fim_world ''b1''), Rt_read job_path, Rt_commit 1, Rt_queue 1,
     Scan_unseen True, Scan_remove 2, Scan_end 3]"

definition race_end :: fim_threads where
  "race_end = the (fim_run demo_cfg race_run (fim_start [] (demo_fs [] [])))"

lemma race_runs: "fim_run demo_cfg race_run (fim_start [] (demo_fs [] [])) = Some race_end"
proof -
  have "fim_run demo_cfg race_run (fim_start [] (demo_fs [] [])) \<noteq> None" by code_simp
  then show ?thesis by (auto simp: race_end_def)
qed

text \<open>however the threads, the file system and the agent interleave, the changes in the order of their
  commits lead from the first table to the current one: each says of its file before what the table
  said then, and applying all of them gives what the table says of every file now.\<close>
theorem fim_log_replays:
  assumes "fim_reaches cfg (fim_start table fs) s"
  shows "chained (table_states table) (ft_log s)
    \<and> states (ft_engine s) = fold fim_apply (ft_log s) (table_states table)"
proof -
  have "explained (table_states table) s"
    using assms
  proof (induction rule: fim_reaches.induct)
    case reach_start
    then show ?case by (auto simp: explained_def fim_start_def states_def rows_def table_states_def)
  next
    case (reach_step s a t) then show ?case by (blast intro: explained_step)
  qed
  then show ?thesis by (simp add: explained_def)
qed

lemma fim_log_replays_witness:
  "chained (table_states []) (ft_log race_end) \<and> states (ft_engine race_end) = fold fim_apply (ft_log race_end) (table_states [])"
  by (rule fim_log_replays[OF fim_run_reaches[OF race_runs]])

text \<open>every committed change is handed to the agent once, is still held by a thread on its way to the
  queue, or was left out because the queue was full; and when one was left out, the scan still knows
  it or a marker that says so has been handed over.\<close>
theorem fim_changes_conserved:
  assumes "fim_reaches cfg (fim_start table fs) s"
  shows "bares (ft_log s) = bares (handed s) + bares (rt_flight (ft_rt s)) + bares (scan_flight (ft_scan s)) + bares (ft_lost s)
    \<and> (ft_lost s = [] \<or> truncated (ft_scan s) \<or> (\<exists>c \<in> set (handed s). ch_note c \<noteq> None))"
proof -
  have "conserved s"
    using assms
  proof (induction rule: fim_reaches.induct)
    case reach_start
    then show ?case by (simp add: conserved_def fim_start_def handed_def)
  next
    case (reach_step s a t) then show ?case by (blast intro: conserved_step)
  qed
  then show ?thesis by (auto simp: conserved_def)
qed

lemma fim_changes_conserved_witness:
  "bares (ft_log race_end) = bares (handed race_end) + bares (rt_flight (ft_rt race_end))
      + bares (scan_flight (ft_scan race_end)) + bares (ft_lost race_end)
    \<and> (ft_lost race_end = [] \<or> truncated (ft_scan race_end) \<or> (\<exists>c \<in> set (handed race_end). ch_note c \<noteq> None))"
  by (rule fim_changes_conserved[OF fim_run_reaches[OF race_runs]])

text \<open>In that run the file stands untouched from its creation on, yet the agent is told that it was created
  and then deleted, and its row is gone.\<close>

lemma scan_reports_live_file_deleted:
  "map ch_type (handed race_end) = [''created'', ''deleted''] \<and> map ch_path (handed race_end) = [job_path, job_path]
    \<and> rows (ft_engine race_end) job_path = None \<and> fs_files (ft_fs race_end) job_path \<noteq> None"
  unfolding race_end_def by (intro conjI) code_simp+

text \<open>A file is hashed before the lock is taken. A scan that hashed the file before it changed stores the old
  state over the new one the inotify handler has stored, and reports a change back that never was.\<close>

definition stale_run :: "fim_action list" where
  "stale_run = [Scan_begin, Scan_read job_path, World (demo_fim_world ''b2''), Rt_read job_path, Rt_commit 1, Rt_queue 1,
     Scan_commit 2, Scan_queue 2, Scan_unseen True, Scan_end 3]"

lemma scan_stores_stale_state:
  "map_option (\<lambda>t. (map (\<lambda>c. (ch_sha_before c, ch_sha_after c)) (handed t), map_option fm_sha (rows (ft_engine t) job_path),
      map_option (fm_sha \<circ> fe_meta) (fs_files (ft_fs t) job_path)))
     (fim_run demo_cfg stale_run (fim_start [(job_path, demo_meta ''b1'' 20)] (demo_fim_world ''b1'')))
   = Some ([(Some ''b1'', Some ''b2''), (Some ''b2'', Some ''b1'')], Some ''b1'', Some ''b2'')"
  by code_simp

text \<open>The queue is not in the order of the commits: the change before the last one can be queued last.\<close>

definition overtaking_run :: "fim_action list" where
  "overtaking_run = [World (demo_fim_world ''b2''), Rt_read job_path, Rt_commit 1, World (demo_fim_world ''b3''), Scan_begin,
     Scan_read job_path, Scan_commit 2, Scan_queue 2, Rt_queue 3]"

lemma queue_order_differs:
  "map_option (\<lambda>t. (map ch_sha_after (ft_log t), map ch_sha_after (handed t)))
     (fim_run demo_cfg overtaking_run (fim_start [(job_path, demo_meta ''b1'' 20)] (demo_fim_world ''b1'')))
   = Some ([Some ''b2'', Some ''b3''], [Some ''b3'', Some ''b2''])"
  by code_simp

section \<open>A scan alone\<close>

lemma fim_reaches_trans: "fim_reaches cfg t u \<Longrightarrow> fim_reaches cfg s t \<Longrightarrow> fim_reaches cfg s u"
  by (induction rule: fim_reaches.induct) (auto intro: fim_reaches.intros)

lemma fim_run_reaches_trans: "fim_run cfg as t = Some u \<Longrightarrow> fim_reaches cfg s t \<Longrightarrow> fim_reaches cfg s u"
  using fim_run_reaches fim_reaches_trans by blast

text \<open>\<open>scanning cfg s st sc t\<close>: from \<open>s\<close> the scan alone can get to \<open>t\<close>, with this engine and at this point.\<close>

definition scanning :: "fim_config \<Rightarrow> fim_threads \<Rightarrow> fim_engine \<Rightarrow> scan_state \<Rightarrow> fim_threads \<Rightarrow> bool" where
  "scanning cfg s g sc t \<longleftrightarrow> fim_reaches cfg s t \<and> ft_engine t = g \<and> ft_scan t = sc
     \<and> ft_fs t = ft_fs s \<and> ft_rt t = ft_rt s \<and> ft_sent t = ft_sent s"

lemma scanning_run:
  assumes "scanning cfg s g sc t" and "fim_run cfg as t = Some u"
    and "ft_fs u = ft_fs t" "ft_rt u = ft_rt t" "ft_sent u = ft_sent t"
  shows "scanning cfg s (ft_engine u) (ft_scan u) u"
  using assms fim_run_reaches_trans by (auto simp: scanning_def)

lemma scanning_visit:
  assumes "scanning cfg s (fst st) (Sc_walk seen (snd st)) t"
  shows "\<exists>u. scanning cfg s (fst (scan_visit (ft_fs s) now p st)) (Sc_walk (p # seen) (snd (scan_visit (ft_fs s) now p st))) u"
proof -
  have t: "ft_engine t = fst st" "ft_scan t = Sc_walk seen (snd st)" "ft_fs t = ft_fs s" using assms by (auto simp: scanning_def)
  obtain c g where c: "scan_commit now p (stat_and_hash (ft_fs s) p) (fst st) = (c, g)" by fastforce
  show ?thesis
  proof (cases c)
    case None
    then have "fim_run cfg [Scan_read p, Scan_commit now] t =
        Some (t\<lparr>ft_engine := g, ft_scan := Sc_walk (p # seen) (snd st), ft_log := ft_log t @ []\<rparr>)"
      using t c by simp
    from scanning_run[OF assms this] show ?thesis
      using c None by (auto simp: scan_visit_def scan_one_path_def)
  next
    case (Some x)
    obtain x' g' where a: "attach_actor now x g = (x', g')" by fastforce
    obtain g2 tr where q: "queue_capped (Some x') (g', snd st) = (g2, tr)" by fastforce
    have "fim_run cfg [Scan_read p, Scan_commit now, Scan_queue now] t =
        Some (t\<lparr>ft_engine := g2, ft_scan := Sc_walk (p # seen) tr, ft_log := ft_log t @ [x],
          ft_lost := ft_lost t @ left_out (Some x') g'\<rparr>)"
      using t c Some a q by simp
    from scanning_run[OF assms this] show ?thesis
      using c Some a q by (auto simp: scan_visit_def scan_one_path_def)
  qed
qed

lemma scanning_walk:
  assumes "scanning cfg s (fst st) (Sc_walk seen (snd st)) t"
  shows "\<exists>u. scanning cfg s (fst (fold (scan_visit (ft_fs s) now) ps st))
    (Sc_walk (rev ps @ seen) (snd (fold (scan_visit (ft_fs s) now) ps st))) u"
  using assms
proof (induction ps arbitrary: st seen t)
  case Nil then show ?case by auto
next
  case (Cons p ps)
  obtain u where "scanning cfg s (fst (scan_visit (ft_fs s) now p st)) (Sc_walk (p # seen) (snd (scan_visit (ft_fs s) now p st))) u"
    using scanning_visit[OF Cons.prems] by blast
  from Cons.IH[OF this] show ?case by simp
qed

lemma scanning_removal:
  assumes "scanning cfg s (fst st) (Sc_remove ps watched (snd st)) t"
  shows "\<exists>u. scanning cfg s (fst (fold (delete_visit cfg watched (ft_fs s) now) ps st))
    (Sc_remove [] watched (snd (fold (delete_visit cfg watched (ft_fs s) now) ps st))) u"
  using assms
proof (induction ps arbitrary: st t)
  case Nil then show ?case by auto
next
  case (Cons p ps)
  have t: "ft_engine t = fst st" "ft_scan t = Sc_remove (p # ps) watched (snd st)" "ft_fs t = ft_fs s"
    using Cons.prems by (auto simp: scanning_def)
  obtain c g where c: "removal_commit cfg watched (ft_fs s) now p (fst st) = (c, g)" by fastforce
  obtain g' tr where q: "queue_capped c (g, snd st) = (g', tr)" by fastforce
  have d: "delete_visit cfg watched (ft_fs s) now p st = (g', tr)" using c q by (simp add: delete_visit_def)
  have "fim_run cfg [Scan_remove now] t = Some (t\<lparr>ft_engine := g', ft_scan := Sc_remove ps watched tr,
      ft_log := ft_log t @ opt_list c, ft_lost := ft_lost t @ left_out c g\<rparr>)"
    using t c q by simp
  from scanning_run[OF Cons.prems this] have "\<exists>u. scanning cfg s (fst (g', tr)) (Sc_remove ps watched (snd (g', tr))) u" by auto
  then show ?case using Cons.IH d by fastforce
qed

text \<open>a scan thread nobody disturbs does what \<open>do_scan\<close> does: from any state in which no scan is under
  way it can reach, by its own steps, a state with the engine \<open>do_scan\<close> computes.\<close>
theorem scan_alone_is_do_scan:
  assumes "ft_scan s = Sc_idle"
  shows "\<exists>t. fim_reaches cfg s t \<and> ft_engine t = do_scan cfg watching (ft_fs s) now (ft_engine s)
    \<and> ft_scan t = Sc_idle \<and> ft_fs t = ft_fs s \<and> ft_sent t = ft_sent s"
proof -
  let ?fs = "ft_fs s" and ?g = "ft_engine s"
  let ?st = "scan_walked cfg ?fs now ?g"
  have "scanning cfg s ?g Sc_idle s" using assms by (simp add: scanning_def fim_reaches.intros)
  from scanning_run[OF this, of "[Scan_begin]" "s\<lparr>ft_scan := Sc_walk [] False\<rparr>"]
  have "scanning cfg s (fst (?g, False)) (Sc_walk [] (snd (?g, False))) (s\<lparr>ft_scan := Sc_walk [] False\<rparr>)"
    using assms by simp
  from scanning_walk[OF this, of now "iter_paths cfg ?fs"]
  obtain t1 where t1: "scanning cfg s (fst ?st) (Sc_walk (rev (iter_paths cfg ?fs)) (snd ?st)) t1"
    by (auto simp: scan_walked_def)
  let ?rm = "unseen_paths cfg ?fs (fst ?st)"
  have "fim_run cfg [Scan_unseen watching] t1 =
      Some (t1\<lparr>ft_scan := Sc_remove ?rm (watch_set cfg watching ?fs) (snd ?st)\<rparr>)"
    using t1 by (simp add: scanning_def unseen_paths_def)
  from scanning_run[OF t1 this] t1
  have "scanning cfg s (fst ?st) (Sc_remove ?rm (watch_set cfg watching ?fs) (snd ?st))
      (t1\<lparr>ft_scan := Sc_remove ?rm (watch_set cfg watching ?fs) (snd ?st)\<rparr>)"
    by (simp add: scanning_def)
  from scanning_removal[OF this, of now]
  obtain t2 where t2: "scanning cfg s (fst (scan_all cfg watching ?fs now ?g))
      (Sc_remove [] (watch_set cfg watching ?fs) (snd (scan_all cfg watching ?fs now ?g))) t2"
    by (auto simp: scan_all_def Let_def)
  then have "fim_run cfg [Scan_end now] t2 = Some (t2\<lparr>ft_engine := do_scan cfg watching ?fs now ?g, ft_scan := Sc_idle\<rparr>)"
    by (simp add: scanning_def do_scan_def split_beta)
  from scanning_run[OF t2 this] show ?thesis by (auto simp: scanning_def)
qed

lemma scan_alone_is_do_scan_witness:
  "\<exists>t. fim_reaches demo_cfg (fim_start [] (demo_fim_world ''b1'')) t
    \<and> ft_engine t = do_scan demo_cfg True (demo_fim_world ''b1'') 5 (ft_engine (fim_start [] (demo_fim_world ''b1'')))
    \<and> ft_scan t = Sc_idle \<and> ft_fs t = demo_fim_world ''b1'' \<and> ft_sent t = []"
  using scan_alone_is_do_scan[of "fim_start [] (demo_fim_world ''b1'')" demo_cfg True 5] by (simp add: fim_start_def)

section \<open>Debounce\<close>

text \<open>One turn of the watcher's loop: every event moves its path's time on, and a path that was quiet for the
  debounce time is handed to the handler. \<open>wds\<close> maps watch descriptors to watched paths.\<close>

definition INOTIFY_DEBOUNCE_SEC :: time where "INOTIFY_DEBOUNCE_SEC = 2 / 10"

definition event_path :: "string \<Rightarrow> string \<Rightarrow> string" where
  "event_path base name = (if name = [] then base else path_join base name)"

definition note_event ::
  "(int \<times> string) list \<Rightarrow> time \<Rightarrow> int \<times> string \<Rightarrow> (string \<times> time) list \<Rightarrow> (string \<times> time) list" where
  "note_event wds now ev pending =
     (case map_of wds (fst ev) of None \<Rightarrow> pending
      | Some base \<Rightarrow> AList.update (event_path base (snd ev)) now pending)"

definition watch_turn ::
  "(int \<times> string) list \<Rightarrow> time \<Rightarrow> (int \<times> string) list \<Rightarrow> (string \<times> time) list \<Rightarrow> string list \<times> (string \<times> time) list" where
  "watch_turn wds now evs pending =
     (let noted = fold (note_event wds now) evs pending;
          quiet = (\<lambda>(p, t). t \<le> now - INOTIFY_DEBOUNCE_SEC) in
      (map fst (filter quiet noted), filter (\<lambda>x. \<not> quiet x) noted))"

definition event_for :: "(int \<times> string) list \<Rightarrow> (int \<times> string) list \<Rightarrow> string \<Rightarrow> bool" where
  "event_for wds evs p \<longleftrightarrow> (\<exists>ev \<in> set evs. \<exists>base. map_of wds (fst ev) = Some base \<and> event_path base (snd ev) = p)"

lemma event_for_Cons:
  "event_for wds (ev # evs) p \<longleftrightarrow> map_option (\<lambda>base. event_path base (snd ev)) (map_of wds (fst ev)) = Some p \<or> event_for wds evs p"
  by (auto simp: event_for_def)

lemma map_of_note_event:
  "map_of (note_event wds now ev pending) p =
     (if map_option (\<lambda>base. event_path base (snd ev)) (map_of wds (fst ev)) = Some p then Some now else map_of pending p)"
  by (auto simp: note_event_def update_conv' split: option.split)

lemma map_of_noted:
  "map_of (fold (note_event wds now) evs pending) p = (if event_for wds evs p then Some now else map_of pending p)"
  by (induction evs arbitrary: pending) (auto simp: event_for_Cons map_of_note_event event_for_def)

lemma distinct_noted: "distinct (map fst pending) \<Longrightarrow> distinct (map fst (fold (note_event wds now) evs pending))"
  by (induction evs arbitrary: pending) (auto simp: note_event_def distinct_update split: option.split)

text \<open>A path is handed on exactly when this turn brings no event of it and its last one is old enough; then
  it is no longer pending. In particular a file that is written more often than that is never looked
  at by the watcher.\<close>

lemma watch_turn_ready_iff:
  assumes "distinct (map fst pending)"
  shows "p \<in> set (fst (watch_turn wds now evs pending)) \<longleftrightarrow>
     \<not> event_for wds evs p \<and> (\<exists>t. map_of pending p = Some t \<and> INOTIFY_DEBOUNCE_SEC \<le> now - t)"
proof -
  have "p \<in> set (fst (watch_turn wds now evs pending)) \<longleftrightarrow>
      (\<exists>t. (p, t) \<in> set (fold (note_event wds now) evs pending) \<and> t \<le> now - INOTIFY_DEBOUNCE_SEC)"
    by (force simp: watch_turn_def Let_def)
  also have "\<dots> \<longleftrightarrow> (\<exists>t. map_of (fold (note_event wds now) evs pending) p = Some t \<and> t \<le> now - INOTIFY_DEBOUNCE_SEC)"
    using map_of_eq_Some_iff[OF distinct_noted[OF assms]] by simp
  finally show ?thesis by (auto simp: map_of_noted INOTIFY_DEBOUNCE_SEC_def)
qed

fun watch_turns ::
  "(int \<times> string) list \<Rightarrow> (time \<times> (int \<times> string) list) list \<Rightarrow> (string \<times> time) list \<Rightarrow> string list \<times> (string \<times> time) list" where
  "watch_turns wds [] pending = ([], pending)"
| "watch_turns wds ((now, evs) # turns) pending =
     (let (ready, rest) = watch_turn wds now evs pending; (more, end') = watch_turns wds turns rest in (ready @ more, end'))"

lemma watch_turn_distinct: "distinct (map fst pending) \<Longrightarrow> distinct (map fst (snd (watch_turn wds now evs pending)))"
  by (simp add: watch_turn_def Let_def distinct_noted distinct_map_filter)

lemma busy_file_never_handled:
  assumes "distinct (map fst pending)" and "\<forall>(now, evs) \<in> set turns. event_for wds evs p"
  shows "p \<notin> set (fst (watch_turns wds turns pending))"
  using assms
proof (induction turns arbitrary: pending)
  case (Cons turn turns)
  then show ?case
    using watch_turn_ready_iff[OF Cons.prems(1)] watch_turn_distinct[OF Cons.prems(1)]
    by (cases turn) (auto simp: split_beta)
qed simp

end
