(* ===== verification/AgentReport.thy ===== *)
theory AgentReport
  imports FimThreads AdapterBase
begin

text \<open>
  How the host agent ships a report (\<open>_shrink_for_sqs\<close>, \<open>_spool\<close>, \<open>_flush_spool\<close> and \<open>send\<close> of
  \<open>src/scripts/ec2_agent.py\<close>): the report is shrunk to the size the queue takes, sent after the reports
  kept on disk, and kept on disk itself when sending fails. The length of the JSON text is computed for
  both separator styles the code uses. Whether a call of the queue succeeds is an argument. Halving the
  list of file changes is a loop that may not end; its result is then \<open>None\<close>.
\<close>

section \<open>The length of a JSON text\<close>

text \<open>\<open>json.dumps\<close> with ASCII output: \<open>w\<close> is the length of both separators, 1 for the compact style and 2 for
  the default one. Numbers that are no integers have the length of their \<open>repr\<close>.\<close>

definition escaped_len :: "char \<Rightarrow> nat" where
  "escaped_len c =
     (let n = of_char c :: nat in
      if n = 34 \<or> n = 92 \<or> n = 8 \<or> n = 9 \<or> n = 10 \<or> n = 12 \<or> n = 13 then 2
      else if 32 \<le> n \<and> n \<le> 126 then 1 else 6)"

definition json_str_len :: "string \<Rightarrow> nat" where
  "json_str_len s = 2 + sum_list (map escaped_len s)"

fun json_len :: "pyenv \<Rightarrow> nat \<Rightarrow> pyval \<Rightarrow> nat" where
  "json_len E w PyNone = 4"
| "json_len E w (PyBool b) = (if b then 4 else 5)"
| "json_len E w (PyInt i) = length (int_str i)"
| "json_len E w (PyStr s) = json_str_len s"
| "json_len E w (PyList xs) = 2 + w * (length xs - 1) + sum_list (map (json_len E w) xs)"
| "json_len E w (PyDict d) = 2 + w * (length d - 1) + sum_list (map (\<lambda>(k, v). json_str_len k + w + json_len E w v) d)"
| "json_len E w v = length (repr_other E v)"

text \<open>The number of separators in the text.\<close>

fun separators :: "pyval \<Rightarrow> nat" where
  "separators (PyList xs) = (length xs - 1) + sum_list (map separators xs)"
| "separators (PyDict d) = (length d - 1) + sum_list (map (\<lambda>(k, v). Suc (separators v)) d)"
| "separators v = 0"

section \<open>Shrinking a report\<close>

definition SQS_BODY_MAX_BYTES :: nat where "SQS_BODY_MAX_BYTES = 240000"

definition fits :: "pyenv \<Rightarrow> nat \<Rightarrow> dict \<Rightarrow> bool" where
  "fits E limit payload \<longleftrightarrow> json_len E 1 (PyDict payload) \<le> limit"

definition annotated :: "string list \<Rightarrow> dict \<Rightarrow> dict" where
  "annotated gone payload = AList.update ''truncated'' (PyList (map PyStr gone)) payload"

definition SHED_SNAPSHOTS :: "string list" where
  "SHED_SNAPSHOTS = [''suid'', ''systemd_units'', ''packages'', ''kernel_modules'', ''cron'', ''processes'']"

text \<open>A stage returns the finished payload (\<open>Inl\<close>), or passes on what is left and what was gone.\<close>

type_synonym shed = "dict + dict \<times> string list"

definition cut_to :: "pyenv \<Rightarrow> nat \<Rightarrow> dict \<Rightarrow> string list \<Rightarrow> shed" where
  "cut_to E limit payload gone = (if fits E limit payload then Inl (annotated gone payload) else Inr (payload, gone))"

fun shed_snapshots :: "pyenv \<Rightarrow> nat \<Rightarrow> string list \<Rightarrow> dict \<Rightarrow> string list \<Rightarrow> shed" where
  "shed_snapshots E limit [] payload gone = Inr (payload, gone)"
| "shed_snapshots E limit (c # cs) payload gone =
     (case dget payload ''snapshots'' of PyDict snaps \<Rightarrow>
        if has_key snaps c
        then (case cut_to E limit (AList.update ''snapshots'' (PyDict (AList.delete c snaps)) payload) (gone @ [''snapshots.'' @ c]) of
            Inl done' \<Rightarrow> Inl done'
          | Inr (payload', gone') \<Rightarrow> shed_snapshots E limit cs payload' gone')
        else shed_snapshots E limit cs payload gone
      | _ \<Rightarrow> Inr (payload, gone))"

definition shed_all_snapshots :: "pyenv \<Rightarrow> nat \<Rightarrow> dict \<Rightarrow> string list \<Rightarrow> shed" where
  "shed_all_snapshots E limit payload gone =
     (if has_key payload ''snapshots'' then cut_to E limit (AList.delete ''snapshots'' payload) (gone @ [''snapshots''])
      else Inr (payload, gone))"

partial_function (option) halve :: "(pyval list \<Rightarrow> bool) \<Rightarrow> pyval list \<Rightarrow> pyval list option" where
  "halve ok cs = (if cs \<noteq> [] \<and> \<not> ok cs then halve ok (take (max 1 (length cs div 2)) cs) else Some cs)"

definition with_changes :: "pyval list \<Rightarrow> dict \<Rightarrow> dict" where
  "with_changes cs payload = AList.update ''fim_changes'' (PyList cs) payload"

definition shed_changes :: "pyenv \<Rightarrow> nat \<Rightarrow> dict \<Rightarrow> string list \<Rightarrow> shed option" where
  "shed_changes E limit payload gone =
     (case dget payload ''fim_changes'' of PyList cs \<Rightarrow>
        if cs = [] then Some (Inr (payload, gone))
        else map_option (\<lambda>kept. cut_to E limit (with_changes kept payload)
               (gone @ [''fim_changes(kept='' @ nat_str (length kept) @ '')'']))
             (halve (\<lambda>cs. fits E limit (with_changes cs payload)) cs)
      | _ \<Rightarrow> Some (Inr (payload, gone)))"

definition shed_auth :: "dict \<Rightarrow> string list \<Rightarrow> dict" where
  "shed_auth payload gone =
     (if has_key payload ''auth_events'' then annotated (gone @ [''auth_events'']) (AList.delete ''auth_events'' payload)
      else annotated gone payload)"

definition shed_bind :: "shed \<Rightarrow> (dict \<Rightarrow> string list \<Rightarrow> shed option) \<Rightarrow> shed option" where
  "shed_bind r f = (case r of Inl done' \<Rightarrow> Some (Inl done') | Inr (payload, gone) \<Rightarrow> f payload gone)"

definition shrink_for_sqs :: "pyenv \<Rightarrow> nat \<Rightarrow> dict \<Rightarrow> dict option" where
  "shrink_for_sqs E limit payload =
     (if fits E limit payload then Some payload
      else map_option (\<lambda>r. case r of Inl done' \<Rightarrow> done' | Inr (p, gone) \<Rightarrow> shed_auth p gone)
        (shed_bind (shed_snapshots E limit SHED_SNAPSHOTS payload []) (\<lambda>p gone.
         shed_bind (shed_all_snapshots E limit p gone) (shed_changes E limit))))"

section \<open>When shrinking ends\<close>

lemma sum_list_filter_le: "sum_list (map f (filter P xs)) \<le> sum_list (map f (xs :: 'a list))" for f :: "'a \<Rightarrow> nat"
  by (induction xs) auto

lemma json_len_delete: "json_len E w (PyDict (AList.delete k d)) \<le> json_len E w (PyDict d)"
proof -
  have "length (AList.delete k d) \<le> length d" by (rule length_delete_le)
  then have "w * (length (AList.delete k d) - 1) \<le> w * (length d - 1)" by (intro mult_le_mono2 diff_le_mono)
  then show ?thesis using sum_list_filter_le[of "\<lambda>(k, v). json_str_len k + w + json_len E w v" _ d]
    by (simp add: AList.delete_eq add_mono)
qed

lemma length_update_present: "map_of d k = Some v \<Longrightarrow> length (AList.update k v' d) = length d"
  by (induction d) auto

lemma json_len_update:
  "map_of d k = Some v \<Longrightarrow> json_len E w v' \<le> json_len E w v \<Longrightarrow>
     sum_list (map (\<lambda>(k, v). json_str_len k + w + json_len E w v) (AList.update k v' d))
     \<le> sum_list (map (\<lambda>(k, v). json_str_len k + w + json_len E w v) d)"
  by (induction d) (auto split: if_splits)

lemma fits_update:
  "fits E limit d \<Longrightarrow> map_of d k = Some v \<Longrightarrow> json_len E 1 v' \<le> json_len E 1 v \<Longrightarrow> fits E limit (AList.update k v' d)"
  using json_len_update[of d k v E 1 v'] by (auto simp: fits_def length_update_present)

lemma fits_delete: "fits E limit d \<Longrightarrow> fits E limit (AList.delete k d)"
  using json_len_delete[of E 1 k d] by (auto simp: fits_def)

lemma json_len_take: "json_len E w (PyList (take n xs)) \<le> json_len E w (PyList xs)"
proof -
  have "sum_list (map (json_len E w) (take n xs)) \<le> sum_list (map (json_len E w) xs)"
    using append_take_drop_id[of n xs] by (metis le_add1 map_append sum_list_append)
  moreover have "w * (min (length xs) n - 1) \<le> w * (length xs - 1)" by (simp add: diff_le_mono)
  ultimately show ?thesis by (simp add: add_mono)
qed

lemma dget_map_of: "dget d k = v \<Longrightarrow> v \<noteq> PyNone \<Longrightarrow> map_of d k = Some v"
  by (auto simp: dget_def split: option.splits)

lemma halve_prefix:
  assumes "halve ok cs = Some r"
  shows "(\<exists>n. r = take n cs) \<and> (cs \<noteq> [] \<longrightarrow> r \<noteq> [] \<and> ok r)"
proof (rule halve.raw_induct[where P = "\<lambda>ok cs r. (\<exists>n. r = take n cs) \<and> (cs \<noteq> [] \<longrightarrow> r \<noteq> [] \<and> ok r)", OF _ assms])
  fix halve' :: "(pyval list \<Rightarrow> bool) \<Rightarrow> pyval list \<Rightarrow> pyval list option" and ok cs r
  assume ih: "\<And>ok cs r. halve' ok cs = Some r \<Longrightarrow> (\<exists>n. r = take n cs) \<and> (cs \<noteq> [] \<longrightarrow> r \<noteq> [] \<and> ok r)"
    and r: "(if cs \<noteq> [] \<and> \<not> ok cs then halve' ok (take (max 1 (length cs div 2)) cs) else Some cs) = Some r"
  show "(\<exists>n. r = take n cs) \<and> (cs \<noteq> [] \<longrightarrow> r \<noteq> [] \<and> ok r)"
  proof (cases "cs \<noteq> [] \<and> \<not> ok cs")
    case True
    then have "halve' ok (take (max 1 (length cs div 2)) cs) = Some r" using r by simp
    from ih[OF this] True show ?thesis by (auto simp: take_take)
  next
    case False
    then have "r = cs" using r by (simp only: if_False option.inject)
    moreover have "cs = take (length cs) cs" by simp
    ultimately show ?thesis using False by metis
  qed
qed

lemma halve_ends: "ok [hd cs] \<Longrightarrow> \<exists>r. halve ok cs = Some r"
proof (induction "length cs" arbitrary: cs rule: less_induct)
  case less
  show ?case
  proof (cases "cs \<noteq> [] \<and> \<not> ok cs")
    case True
    let ?cs = "take (max 1 (length cs div 2)) cs"
    have "1 < length cs" using True less.prems by (cases cs; cases "tl cs") auto
    then have "length ?cs < length cs" "hd ?cs = hd cs" by (auto simp: hd_take)
    then have "\<exists>r. halve ok ?cs = Some r" using less by metis
    then show ?thesis using True by (subst halve.simps) simp
  next
    case False then show ?thesis by (subst halve.simps) auto
  qed
qed

text \<open>The loop ends exactly when the first change alone fits.\<close>

lemma halve_ends_iff:
  assumes "cs \<noteq> []" and shorter: "\<And>n r. ok r \<Longrightarrow> ok (take (Suc n) r)"
  shows "(\<exists>r. halve ok cs = Some r) \<longleftrightarrow> ok [hd cs]"
proof
  assume "\<exists>r. halve ok cs = Some r"
  then obtain r where "halve ok cs = Some r" by blast
  from halve_prefix[OF this] assms(1) obtain n where n: "r = take n cs" "r \<noteq> []" "ok r" by auto
  have "take (Suc 0) r = [hd cs]" using n(1,2) assms(1) by (cases n; cases cs) auto
  then show "ok [hd cs]" using shorter[OF n(3), of 0] by simp
qed (rule halve_ends)

text \<open>What a stage leaves has the fields of the report outside the snapshots, and is finished only if it
  fits.\<close>

definition rest_of :: "dict \<Rightarrow> dict" where
  "rest_of d = AList.delete ''snapshots'' d"

definition stage_ok :: "pyenv \<Rightarrow> nat \<Rightarrow> dict \<Rightarrow> shed \<Rightarrow> bool" where
  "stage_ok E limit rest r \<longleftrightarrow>
     (case r of Inl d \<Rightarrow> \<exists>p gone. d = annotated gone p \<and> fits E limit p \<and> rest_of p = rest
      | Inr (p, gone) \<Rightarrow> rest_of p = rest)"

lemma cut_to_ok: "rest_of p = rest \<Longrightarrow> stage_ok E limit rest (cut_to E limit p gone)"
  by (auto simp: cut_to_def stage_ok_def)

lemma rest_of_update [simp]: "rest_of (AList.update ''snapshots'' v d) = rest_of d"
  by (simp add: rest_of_def delete_update_same)

lemma rest_of_rest [simp]: "rest_of (rest_of d) = rest_of d"
  by (simp add: rest_of_def delete_idem)

lemma shed_snapshots_ok: "stage_ok E limit (rest_of p) (shed_snapshots E limit cs p gone)"
proof (induction cs arbitrary: p gone)
  case Nil show ?case by (simp add: stage_ok_def)
next
  case (Cons c cs)
  show ?case
  proof (cases "dget p ''snapshots''")
    case (PyDict snaps)
    let ?p = "AList.update ''snapshots'' (PyDict (AList.delete c snaps)) p" and ?g = "gone @ [''snapshots.'' @ c]"
    have "stage_ok E limit (rest_of p) (shed_snapshots E limit cs ?p ?g)" using Cons.IH[of ?p ?g] by simp
    moreover have "stage_ok E limit (rest_of p) (cut_to E limit ?p ?g)" by (rule cut_to_ok) simp
    ultimately show ?thesis using Cons.IH[of p gone] PyDict by (auto simp: cut_to_def split: if_splits)
  qed (simp_all add: stage_ok_def)
qed

lemma shed_all_snapshots_sel:
  "shed_all_snapshots E limit p gone = Inl d \<Longrightarrow> \<exists>g. d = annotated g (rest_of p) \<and> fits E limit (rest_of p)"
  "shed_all_snapshots E limit p gone = Inr (q, g) \<Longrightarrow> q = rest_of p"
  by (auto simp: shed_all_snapshots_def cut_to_def rest_of_def has_key_iff delete_idem image_iff split: if_splits)

lemma dget_rest_of: "k \<noteq> ''snapshots'' \<Longrightarrow> dget (rest_of d) k = dget d k"
  by (simp add: dget_def rest_of_def delete_conv')

lemma fits_first_change:
  assumes "fits E limit d" and "dget d ''fim_changes'' = PyList (c # cs)"
  shows "fits E limit (with_changes [c] (rest_of d))"
proof -
  have "fits E limit (rest_of d)" unfolding rest_of_def by (rule fits_delete[OF assms(1)])
  moreover have "map_of (rest_of d) ''fim_changes'' = Some (PyList (c # cs))"
    using assms(2) by (simp add: dget_rest_of dget_map_of)
  moreover have "json_len E 1 (PyList [c]) \<le> json_len E 1 (PyList (c # cs))"
    using json_len_take[of E 1 "Suc 0" "c # cs"] by simp
  ultimately show ?thesis unfolding with_changes_def by (rule fits_update)
qed

lemma shed_changes_None_iff:
  "shed_changes E limit p gone = None \<longleftrightarrow>
     (\<exists>c cs. dget p ''fim_changes'' = PyList (c # cs) \<and> \<not> fits E limit (with_changes [c] p))"
proof (cases "dget p ''fim_changes''")
  case (PyList cs)
  have shorter: "fits E limit (with_changes (take (Suc n) r) p)" if "fits E limit (with_changes r p)" for n r
  proof -
    have "with_changes (take (Suc n) r) p = AList.update ''fim_changes'' (PyList (take (Suc n) r)) (with_changes r p)"
      by (simp add: with_changes_def)
    then show ?thesis
      using fits_update[OF that, of "''fim_changes''" "PyList r" "PyList (take (Suc n) r)"] json_len_take[of E 1 "Suc n" r]
      by (simp add: with_changes_def update_conv')
  qed
  show ?thesis
  proof (cases cs)
    case (Cons c cs')
    have "(\<exists>r. halve (\<lambda>cs. fits E limit (with_changes cs p)) cs = Some r) \<longleftrightarrow> fits E limit (with_changes [hd cs] p)"
      by (rule halve_ends_iff) (use Cons shorter in auto)
    then show ?thesis using PyList Cons by (auto simp: shed_changes_def)
  qed (simp add: shed_changes_def PyList)
qed (simp_all add: shed_changes_def)

lemma shrink_None_iff:
  "shrink_for_sqs E limit payload = None \<longleftrightarrow>
     (\<exists>c cs. dget payload ''fim_changes'' = PyList (c # cs)
        \<and> \<not> fits E limit (with_changes [c] (AList.delete ''snapshots'' payload)))"
proof -
  let ?hard = "\<lambda>d. \<exists>c cs. dget d ''fim_changes'' = PyList (c # cs) \<and> \<not> fits E limit (with_changes [c] (rest_of d))"
  have same: "?hard d \<longleftrightarrow> ?hard payload" if "rest_of d = rest_of payload" for d
    using that dget_rest_of[of "''fim_changes''" d] dget_rest_of[of "''fim_changes''" payload] by simp
  have easy: "\<not> ?hard payload" if "fits E limit d" "rest_of d = rest_of payload" for d
    using fits_first_change[OF that(1)] same[OF that(2)] by auto
  have "shrink_for_sqs E limit payload = None \<longleftrightarrow> ?hard payload"
  proof (cases "fits E limit payload")
    case True
    then show ?thesis using easy[OF True] by (simp add: shrink_for_sqs_def)
  next
    case big: False
    have ok: "stage_ok E limit (rest_of payload) (shed_snapshots E limit SHED_SNAPSHOTS payload [])" by (rule shed_snapshots_ok)
    show ?thesis
    proof (cases "shed_snapshots E limit SHED_SNAPSHOTS payload []")
      case (Inl d)
      then have "\<not> ?hard payload" using ok easy by (auto simp: stage_ok_def)
      then show ?thesis using big Inl by (simp add: shrink_for_sqs_def shed_bind_def)
    next
      case (Inr pg)
      then obtain p g where p: "shed_snapshots E limit SHED_SNAPSHOTS payload [] = Inr (p, g)" by (cases pg) auto
      then have rest: "rest_of p = rest_of payload" using ok by (simp add: stage_ok_def)
      show ?thesis
      proof (cases "shed_all_snapshots E limit p g")
        case (Inl d)
        have "\<not> ?hard payload" using shed_all_snapshots_sel(1)[OF Inl] easy[of "rest_of p"] rest by auto
        then show ?thesis using big p Inl by (simp add: shrink_for_sqs_def shed_bind_def)
      next
        case (Inr qg)
        then obtain q g' where q: "shed_all_snapshots E limit p g = Inr (q, g')" by (cases qg) auto
        have "q = rest_of payload" using shed_all_snapshots_sel(2)[OF q] rest by simp
        then have "shed_changes E limit q g' = None \<longleftrightarrow> ?hard payload"
          by (simp add: shed_changes_None_iff dget_rest_of)
        then show ?thesis using big p q by (simp add: shrink_for_sqs_def shed_bind_def)
      qed
    qed
  qed
  then show ?thesis by (simp add: rest_of_def)
qed

lemma json_len_field: "map_of d k = Some v \<Longrightarrow> json_len E w v \<le> json_len E w (PyDict d)"
proof -
  assume "map_of d k = Some v"
  then have "json_len E w v \<le> sum_list (map (\<lambda>(k, v). json_str_len k + w + json_len E w v) d)"
    by (induction d) (auto split: if_splits)
  then show ?thesis by simp
qed

text \<open>Login lines that alone exceed the limit hang the agent as soon as one file change is pending.\<close>

lemma login_flood_hangs:
  assumes "dget payload ''fim_changes'' = PyList (c # cs)" and "dget payload ''auth_events'' = PyList lines"
    and "limit < json_len E 1 (PyList lines)"
  shows "shrink_for_sqs E limit payload = None"
proof -
  let ?p = "with_changes [c] (rest_of payload)"
  have "dget ?p ''auth_events'' = PyList lines" using assms(2) by (simp add: with_changes_def dget_rest_of)
  then have "json_len E 1 (PyList lines) \<le> json_len E 1 (PyDict ?p)" by (intro json_len_field dget_map_of) auto
  then have "\<not> fits E limit ?p" using assms(3) by (simp add: fits_def)
  then show ?thesis using assms(1) by (auto simp: shrink_None_iff rest_of_def)
qed

section \<open>What shrinking keeps\<close>

definition sheddable :: "string set" where
  "sheddable = {''snapshots'', ''fim_changes'', ''auth_events'', ''truncated''}"

definition keeps :: "dict \<Rightarrow> dict \<Rightarrow> bool" where
  "keeps d p \<longleftrightarrow> (\<forall>k. k \<notin> sheddable \<longrightarrow> dget p k = dget d k)
     \<and> (\<forall>cs. dget d ''fim_changes'' = PyList cs \<longrightarrow> (\<exists>n. dget p ''fim_changes'' = PyList (take n cs)))"

lemma keeps_changes: "dget d ''fim_changes'' = v \<Longrightarrow> \<forall>cs. v = PyList cs \<longrightarrow> (\<exists>n. dget d ''fim_changes'' = PyList (take n cs))"
  by (metis order_refl take_all)

lemma keepsI:
  assumes "\<And>k. k \<notin> sheddable \<Longrightarrow> dget p k = dget d k" and "dget p ''fim_changes'' = dget d ''fim_changes''"
  shows "keeps d p"
  using assms keeps_changes[of p "dget d ''fim_changes''"] by (simp add: keeps_def)

lemma keeps_refl: "keeps d d" by (rule keepsI) simp_all

lemma keeps_trans: "keeps d p \<Longrightarrow> keeps p q \<Longrightarrow> keeps d q"
  by (auto simp: keeps_def) (metis take_take)

lemma dget_delete: "dget (AList.delete k d) j = (if j = k then PyNone else dget d j)"
  by (simp add: dget_def delete_conv')

lemma keeps_steps:
  "keeps d (AList.delete ''snapshots'' d)" "keeps d (AList.update ''snapshots'' v d)" "keeps d (annotated gone d)"
  "keeps d (AList.delete ''auth_events'' d)"
  "dget d ''fim_changes'' = PyList cs \<Longrightarrow> keeps d (with_changes (take n cs) d)"
proof -
  show "keeps d (AList.delete ''snapshots'' d)" by (rule keepsI) (auto simp: sheddable_def dget_delete)
  show "keeps d (AList.update ''snapshots'' v d)" by (rule keepsI) (auto simp: sheddable_def)
  show "keeps d (annotated gone d)" by (rule keepsI) (auto simp: sheddable_def annotated_def)
  show "keeps d (AList.delete ''auth_events'' d)" by (rule keepsI) (auto simp: sheddable_def dget_delete)
  show "dget d ''fim_changes'' = PyList cs \<Longrightarrow> keeps d (with_changes (take n cs) d)"
    by (auto simp: keeps_def sheddable_def with_changes_def)
qed

definition shed_keeps :: "dict \<Rightarrow> shed \<Rightarrow> bool" where
  "shed_keeps d r \<longleftrightarrow> (case r of Inl p \<Rightarrow> keeps d p | Inr (p, gone) \<Rightarrow> keeps d p)"

lemma cut_to_keeps: "keeps d p \<Longrightarrow> shed_keeps d (cut_to E limit p gone)"
  by (auto simp: cut_to_def shed_keeps_def intro: keeps_trans keeps_steps(3))

lemma shed_snapshots_keeps: "keeps d p \<Longrightarrow> shed_keeps d (shed_snapshots E limit cs p gone)"
proof (induction cs arbitrary: p gone)
  case Nil then show ?case by (simp add: shed_keeps_def)
next
  case (Cons c cs)
  show ?case
  proof (cases "dget p ''snapshots''")
    case (PyDict snaps)
    let ?p = "AList.update ''snapshots'' (PyDict (AList.delete c snaps)) p" and ?g = "gone @ [''snapshots.'' @ c]"
    have k: "keeps d ?p" using Cons.prems keeps_trans keeps_steps(2) by blast
    show ?thesis using Cons.IH[OF k, of ?g] cut_to_keeps[OF k, of E limit ?g] Cons.IH[OF Cons.prems, of gone] PyDict
      by (auto simp: cut_to_def split: if_splits)
  qed (use Cons.prems in \<open>simp_all add: shed_keeps_def\<close>)
qed

lemma shed_all_snapshots_keeps: "keeps d p \<Longrightarrow> shed_keeps d (shed_all_snapshots E limit p gone)"
  using cut_to_keeps[of d "AList.delete ''snapshots'' p"] keeps_trans[OF _ keeps_steps(1), of d p]
  by (simp add: shed_all_snapshots_def) (simp add: shed_keeps_def)

lemma shed_changes_keeps:
  assumes "keeps d p" and "shed_changes E limit p gone = Some r"
  shows "shed_keeps d r"
proof (cases "dget p ''fim_changes''")
  case (PyList cs)
  show ?thesis
  proof (cases "cs = []")
    case False
    then obtain kept g where k: "halve (\<lambda>cs. fits E limit (with_changes cs p)) cs = Some kept"
      and r: "r = cut_to E limit (with_changes kept p) g"
      using assms(2) PyList by (auto simp: shed_changes_def)
    obtain n where "kept = take n cs" using halve_prefix[OF k] by blast
    then show ?thesis unfolding r using PyList by (auto intro: cut_to_keeps keeps_trans[OF assms(1) keeps_steps(5)])
  qed (use assms PyList in \<open>simp add: shed_changes_def; force simp: shed_keeps_def\<close>)
qed (use assms in \<open>auto simp: shed_changes_def shed_keeps_def\<close>)

lemma shed_auth_keeps: "keeps d p \<Longrightarrow> keeps d (shed_auth p gone)"
  using keeps_trans[OF _ keeps_steps(3), of d p gone]
    keeps_trans[OF keeps_trans[OF _ keeps_steps(4)] keeps_steps(3), of d p "gone @ [''auth_events'']"]
  by (simp add: shed_auth_def)

text \<open>A report that is shrunk keeps every field but the snapshots, the login lines and the mark, and a prefix of its
  file changes.\<close>

lemma shrink_keeps:
  assumes "shrink_for_sqs E limit payload = Some p"
  shows "keeps payload p"
proof (cases "fits E limit payload")
  case True
  then show ?thesis using assms keeps_refl by (simp add: shrink_for_sqs_def)
next
  case False
  have finish: "keeps payload (case r of Inl d \<Rightarrow> d | Inr (q, gone) \<Rightarrow> shed_auth q gone)" if "shed_keeps payload r" for r
    using that by (auto simp: shed_keeps_def shed_auth_keeps split: sum.splits)
  have bind: "shed_keeps payload r'"
    if "shed_keeps payload r" "shed_bind r f = Some r'" "\<And>q g r'. keeps payload q \<Longrightarrow> f q g = Some r' \<Longrightarrow> shed_keeps payload r'" for r f r'
  proof (cases r)
    case (Inr qg)
    then show ?thesis using that(1,2) that(3)[of "fst qg" "snd qg" r'] by (auto simp: shed_bind_def shed_keeps_def)
  qed (use that in \<open>auto simp: shed_bind_def\<close>)
  obtain r where r: "shed_bind (shed_snapshots E limit SHED_SNAPSHOTS payload []) (\<lambda>p gone.
      shed_bind (shed_all_snapshots E limit p gone) (shed_changes E limit)) = Some r"
    and p: "p = (case r of Inl d \<Rightarrow> d | Inr (q, gone) \<Rightarrow> shed_auth q gone)"
    using assms False by (auto simp: shrink_for_sqs_def)
  have "shed_keeps payload r"
    by (rule bind[OF shed_snapshots_keeps[OF keeps_refl] r], rule bind[OF shed_all_snapshots_keeps])
      (auto intro: shed_changes_keeps)
  then show ?thesis unfolding p by (rule finish)
qed

text \<open>The loop over the file changes ends unless the first of them, with all that is not a snapshot, is too big; then
  the agent hangs in it.
\<close>
theorem shrink_hangs_iff:
  "shrink_for_sqs E limit payload = None \<longleftrightarrow>
     (\<exists>c cs. dget payload ''fim_changes'' = PyList (c # cs)
        \<and> \<not> fits E limit (with_changes [c] (AList.delete ''snapshots'' payload)))"
  by (rule shrink_None_iff)

section \<open>The spool\<close>

text \<open>The files of the spool directory in the order of their names, which are times in milliseconds. The reports are
  written in the default style. \<open>accepts n d\<close> is whether the \<open>n\<close>-th \<open>send_message\<close> of a tick succeeds, given
  the report; \<open>reachable\<close> whether a client can be made at all. Deleting and writing a file are taken to succeed.\<close>

type_synonym spool = "(nat \<times> dict) list"

definition SPOOL_MAX_FILES :: nat where "SPOOL_MAX_FILES = 5000"
definition SPOOL_MAX_BYTES :: nat where "SPOOL_MAX_BYTES = 100 * 1024 * 1024"

definition file_size :: "pyenv \<Rightarrow> nat \<times> dict \<Rightarrow> nat" where
  "file_size E f = json_len E 2 (PyDict (snd f))"

text \<open>Newest first: a file goes once the sizes up to it exceed the cap.\<close>

fun drop_over :: "pyenv \<Rightarrow> nat \<Rightarrow> nat \<Rightarrow> spool \<Rightarrow> spool" where
  "drop_over E cap running [] = []"
| "drop_over E cap running (f # fs) =
     (let running1 = running + file_size E f; rest = drop_over E cap running1 fs in
      if cap < running1 then rest else f # rest)"

definition enforce_spool_caps :: "pyenv \<Rightarrow> nat \<Rightarrow> nat \<Rightarrow> spool \<Rightarrow> spool" where
  "enforce_spool_caps E max_files max_bytes files =
     (let files1 = drop (length files - max_files) files in
      if max_bytes < sum_list (map (file_size E) files1) then rev (drop_over E max_bytes 0 (rev files1)) else files1)"

definition spool_report :: "pyenv \<Rightarrow> nat \<Rightarrow> nat \<Rightarrow> nat \<Rightarrow> dict \<Rightarrow> spool \<Rightarrow> spool" where
  "spool_report E max_files max_bytes t payload files =
     enforce_spool_caps E max_files max_bytes
       (filter (\<lambda>f. fst f < t) files @ (t, payload) # filter (\<lambda>f. t < fst f) files)"

fun flush_spool :: "(nat \<Rightarrow> dict \<Rightarrow> bool) \<Rightarrow> nat \<Rightarrow> spool \<Rightarrow> dict list \<times> spool \<times> nat" where
  "flush_spool accepts n [] = ([], [], n)"
| "flush_spool accepts n (f # fs) =
     (if accepts n (snd f) then (let (out, rest, n') = flush_spool accepts (Suc n) fs in (snd f # out, rest, n'))
      else ([], f # fs, Suc n))"

record agent =
  ag_spool :: spool
  ag_failures :: int

definition backoff_after :: "int \<Rightarrow> int" where
  "backoff_after failures = (if 4 \<le> failures then min 300 (30 * ((failures - 3 + 2) div 3)) else 0)"

text \<open>What a tick puts on the queue, the new state and the time it sleeps; \<open>None\<close> when shrinking does not end.\<close>

definition send_report ::
  "pyenv \<Rightarrow> nat \<Rightarrow> nat \<Rightarrow> bool \<Rightarrow> (nat \<Rightarrow> dict \<Rightarrow> bool) \<Rightarrow> nat \<Rightarrow> dict \<Rightarrow> agent \<Rightarrow> (dict list \<times> agent \<times> int) option" where
  "send_report E max_files max_bytes reachable accepts t payload a =
     (case shrink_for_sqs E SQS_BODY_MAX_BYTES payload of None \<Rightarrow> None
      | Some p \<Rightarrow>
          let (out, rest, n) = (if reachable then flush_spool accepts 0 (ag_spool a) else ([], ag_spool a, 0)) in
          if reachable \<and> accepts n p then Some (out @ [p], \<lparr>ag_spool = rest, ag_failures = 0\<rparr>, 0)
          else let k = ag_failures a + 1 in
            Some (out, \<lparr>ag_spool = spool_report E max_files max_bytes t p rest, ag_failures = k\<rparr>, backoff_after k))"

section \<open>What the spool promises\<close>

lemma flush_spool_split:
  "flush_spool accepts n files = (out, rest, n') \<Longrightarrow>
     \<exists>done'. files = done' @ rest \<and> out = map snd done' \<and> (rest \<noteq> [] \<longrightarrow> \<not> accepts (n + length done') (snd (hd rest)))"
proof (induction files arbitrary: n out)
  case (Cons f fs)
  show ?case
  proof (cases "accepts n (snd f)")
    case True
    obtain o2 where o: "flush_spool accepts (Suc n) fs = (o2, rest, n')" "out = snd f # o2"
      using Cons.prems True by (auto split: prod.splits)
    obtain d where "fs = d @ rest" "o2 = map snd d" "rest \<noteq> [] \<longrightarrow> \<not> accepts (Suc n + length d) (snd (hd rest))"
      using Cons.IH[OF o(1)] by blast
    then show ?thesis using o(2) by (intro exI[of _ "f # d"]) simp
  next
    case False
    then show ?thesis using Cons.prems by (intro exI[of _ "[]"]) auto
  qed
qed simp

lemma drop_over_take: "\<exists>n. drop_over E cap running fs = take n fs \<and> running + sum_list (map (file_size E) (take n fs)) \<le> max running cap"
proof (induction fs arbitrary: running)
  case (Cons f fs)
  let ?r = "running + file_size E f"
  show ?case
  proof (cases "cap < ?r")
    case True
    have "drop_over E cap r fs = []" if "cap < r" for r
      using that by (induction fs arbitrary: r) (simp_all add: Let_def)
    then show ?thesis using True by (intro exI[of _ 0]) simp
  next
    case False
    obtain n where "drop_over E cap ?r fs = take n fs" "?r + sum_list (map (file_size E) (take n fs)) \<le> max ?r cap"
      using Cons.IH by blast
    then show ?thesis using False by (intro exI[of _ "Suc n"]) (simp add: Let_def)
  qed
qed simp

text \<open>Of the files there are, the newest are kept, within both caps; nothing goes that need not.\<close>

lemma enforce_spool_caps_suffix:
  "\<exists>n. enforce_spool_caps E max_files max_bytes files = drop n files"
  "length (enforce_spool_caps E max_files max_bytes files) \<le> max_files"
  "sum_list (map (file_size E) (enforce_spool_caps E max_files max_bytes files)) \<le> max_bytes"
  "length files \<le> max_files \<Longrightarrow> sum_list (map (file_size E) files) \<le> max_bytes \<Longrightarrow>
     enforce_spool_caps E max_files max_bytes files = files"
proof -
  let ?f1 = "drop (length files - max_files) files"
  obtain n where n: "drop_over E max_bytes 0 (rev ?f1) = take n (rev ?f1)"
    "sum_list (map (file_size E) (take n (rev ?f1))) \<le> max_bytes" using drop_over_take[of E max_bytes 0 "rev ?f1"] by auto
  have r: "rev (take n (rev ?f1)) = drop (length ?f1 - n) ?f1" by (simp add: rev_take)
  have sum_rev: "sum_list (map (file_size E) (rev xs)) = sum_list (map (file_size E) xs)" for xs
    by (simp add: rev_map[symmetric])
  show "\<exists>n. enforce_spool_caps E max_files max_bytes files = drop n files"
    unfolding enforce_spool_caps_def Let_def n(1) r by (auto simp: drop_drop)
  show "length (enforce_spool_caps E max_files max_bytes files) \<le> max_files"
    unfolding enforce_spool_caps_def Let_def n(1) r by auto
  show "sum_list (map (file_size E) (enforce_spool_caps E max_files max_bytes files)) \<le> max_bytes"
    unfolding enforce_spool_caps_def Let_def n(1) using n(2) sum_rev[of "take n (rev ?f1)"] by auto
  show "length files \<le> max_files \<Longrightarrow> sum_list (map (file_size E) files) \<le> max_bytes \<Longrightarrow>
     enforce_spool_caps E max_files max_bytes files = files"
    by (simp add: enforce_spool_caps_def)
qed

text \<open>A tick loses no report but to the caps. The report is shrunk; the spooled reports are sent oldest first
  up to the first that fails. Then either the report itself is sent, the other spooled ones stay and the count of failures is
  cleared; or it joins those as the newest, the oldest go as far as the caps ask, none if they are kept, and the
  tick sleeps by the failures in a row.
\<close>
theorem tick_conserves_reports:
  assumes "send_report E max_files max_bytes reachable accepts t payload a = Some (out, a', wait)"
    and "\<forall>f \<in> set (ag_spool a). fst f < t"
  shows "\<exists>p sent waiting. shrink_for_sqs E SQS_BODY_MAX_BYTES payload = Some p \<and> ag_spool a = sent @ waiting \<and>
    (out = map snd sent @ [p] \<and> a' = \<lparr>ag_spool = waiting, ag_failures = 0\<rparr> \<and> wait = 0 \<or>
     out = map snd sent \<and> ag_failures a' = ag_failures a + 1 \<and> wait = backoff_after (ag_failures a + 1) \<and>
     (\<exists>n. ag_spool a' = drop n (waiting @ [(t, p)])) \<and>
     length (ag_spool a') \<le> max_files \<and> sum_list (map (file_size E) (ag_spool a')) \<le> max_bytes \<and>
     (length waiting < max_files \<and> sum_list (map (file_size E) (waiting @ [(t, p)])) \<le> max_bytes \<longrightarrow>
        ag_spool a' = waiting @ [(t, p)]))"
proof -
  obtain p where p: "shrink_for_sqs E SQS_BODY_MAX_BYTES payload = Some p"
    using assms(1) by (auto simp: send_report_def split: option.splits)
  obtain o1 rest n where f: "(if reachable then flush_spool accepts 0 (ag_spool a) else ([], ag_spool a, 0)) = (o1, rest, n)"
    by (metis prod_cases3)
  obtain sent where sent: "ag_spool a = sent @ rest" "o1 = map snd sent"
  proof (cases reachable)
    case True
    then show thesis using flush_spool_split[of accepts 0 "ag_spool a" o1 rest n] f that by auto
  next
    case False
    then show thesis using f that[of "[]"] by auto
  qed
  show ?thesis
  proof (cases "reachable \<and> accepts n p")
    case True
    then have "out = o1 @ [p]" "a' = \<lparr>ag_spool = rest, ag_failures = 0\<rparr>" "wait = 0"
      using assms(1) f by (simp_all add: send_report_def p)
    then show ?thesis using p sent by blast
  next
    case False
    then have r: "out = o1" "wait = backoff_after (ag_failures a + 1)" "ag_failures a' = ag_failures a + 1"
        "ag_spool a' = spool_report E max_files max_bytes t p rest"
      using assms(1) f by (auto simp: send_report_def p Let_def)
    have "filter (\<lambda>f. fst f < t) rest = rest" "filter (\<lambda>f. t < fst f) rest = []"
      using assms(2) sent(1) by (force simp: filter_empty_conv intro!: filter_True)+
    then have "ag_spool a' = enforce_spool_caps E max_files max_bytes (rest @ [(t, p)])"
      by (simp add: r(4) spool_report_def)
    then show ?thesis
      using enforce_spool_caps_suffix[where E = E and max_files = max_files and max_bytes = max_bytes and files = "rest @ [(t, p)]"] r p sent
      by (intro exI[of _ p] exI[of _ sent] exI[of _ rest]) auto
  qed
qed

lemma tick_conserves_reports_witness:
  "\<exists>a' wait. send_report demo_env 5000 1000 False (\<lambda>_ _. True) 7 [] \<lparr>ag_spool = [], ag_failures = 3\<rparr> = Some ([], a', wait) \<and>
     ag_spool a' = [(7, [])] \<and> ag_failures a' = 4 \<and> wait = 30"
proof -
  have s: "shrink_for_sqs demo_env SQS_BODY_MAX_BYTES [] = Some []"
    by (simp add: shrink_for_sqs_def fits_def SQS_BODY_MAX_BYTES_def)
  obtain a' wait where r: "send_report demo_env 5000 1000 False (\<lambda>_ _. True) 7 [] \<lparr>ag_spool = [], ag_failures = 3\<rparr> = Some ([], a', wait)"
    by (simp add: send_report_def s)
  show ?thesis
    using tick_conserves_reports[OF r] r by (auto simp: s file_size_def backoff_after_def)
qed

text \<open>A report on disk that the queue never accepts keeps every later one from being sent.\<close>

lemma refused_file_blocks:
  assumes "ag_spool a = f # fs" and "\<And>n. \<not> accepts n (snd f)"
    and "shrink_for_sqs E SQS_BODY_MAX_BYTES payload = Some p" and "accepts 1 p"
  shows "send_report E max_files max_bytes True accepts t payload a = Some ([p], \<lparr>ag_spool = f # fs, ag_failures = 0\<rparr>, 0)"
  using assms by (simp add: send_report_def)

text \<open>The check counts the compact style and the message is in the default one, which has a space more for each
  separator: a report that passes at 200001 bytes is 300000 long when sent, over the 262144 the queue takes.\<close>

lemma default_style_longer: "json_len E 2 v = json_len E 1 v + separators v"
proof (induction v rule: separators.induct)
  case (1 xs)
  have "sum_list (map (json_len E 2) xs) = sum_list (map (json_len E 1) xs) + sum_list (map separators xs)"
    using 1 by (induction xs) auto
  then show ?case by simp
next
  case (2 d)
  have "sum_list (map (\<lambda>(k, v). json_str_len k + 2 + json_len E 2 v) d) =
      sum_list (map (\<lambda>(k, v). json_str_len k + 1 + json_len E 1 v) d) + sum_list (map (\<lambda>(k, v). Suc (separators v)) d)"
    using 2 by (induction d) force+
  then show ?case by simp
qed simp_all

lemma passes_but_too_long:
  "json_len E 1 (PyList (replicate 100000 (PyInt 0))) = 200001 \<and> json_len E 2 (PyList (replicate 100000 (PyInt 0))) = 300000"
proof -
  have "int_str 0 = ''0''" by code_simp
  then show ?thesis by (simp add: sum_list_replicate)
qed

end
