(* ===== verification/Spec2Isabelle.thy ===== *)
theory Spec2Isabelle
  imports Drains Staleness Profiles Metrics Worker Auth Operations AgentReport
begin

text \<open>
  BlackWatch: telemetry of cloud accounts and hosts comes in as payloads, becomes events, is scored by rules,
  stored, routed to notification channels and folded into per-module state that derives further events.
  Paths below are under \<open>src/blackwatch/\<close>.

  \<^bold>\<open>The path of a payload.\<close> A payload is addressed to a module. \<open>Intake\<close> (\<open>pipeline.py ingest_payload\<close>) resolves the
  adapter (\<open>Adapters\<close>, \<open>modules/registry.py\<close>) and hands its events to \<open>Pipeline\<close> (\<open>pipeline.py\<close>): each is enriched
  (\<open>Intel\<close>, \<open>intel/enrich.py\<close>, \<open>intel/db.py\<close>), dropped when muted (\<open>Noise\<close>, \<open>noise.py\<close>), scored (\<open>RuleEngine\<close>,
  \<open>Operators\<close>, \<open>rules/*.py\<close>), inserted by identifier (\<open>Storage\<close>, \<open>storage.py\<close>), dispatched (\<open>Router\<close>, \<open>notify/router.py\<close>)
  and checked against first-seen baselines (\<open>Ueba\<close>, \<open>ueba/*.py\<close>), whose anomalies go the same way; then the
  projections see it. Actions of \<open>projection_only_actions\<close> feed the projections only. \<open>Worker\<close> (\<open>notify/worker.py\<close>)
  sends what the router queued.

  \<^bold>\<open>Adapters.\<close> \<open>AdapterBase\<close> (\<open>modules/base.py\<close>: the context, untyped values, checked fields), \<open>ReportAdapters\<close>
  (\<open>generic.py\<close>, \<open>ecs_probe.py\<close>, \<open>aws_posture.py\<close>, \<open>cert_expiry.py\<close>, \<open>aws_s3.py\<close>), \<open>Journal\<close> (journal lines shared by the
  VPN and host adapters), \<open>VpnAdapter\<close>, \<open>ApiAdapter\<close>, \<open>RdsAdapter\<close>, \<open>S3AccessAdapter\<close>, \<open>HostAdapter\<close>,
  \<open>CloudTrailSignals\<close> and \<open>CloudTrail\<close>, one per file of \<open>modules/\<close>. \<open>Regex\<close> is the part of Python's \<open>re\<close> their
  patterns use: a matcher that lists all ways to match in the order in which \<open>re\<close> tries them, proved against
  the language of the pattern. An adapter is a function of the payload that gives \<open>Inl\<close> where \<open>parse\<close> raises;
  the RDS adapter also threads the dictionaries it keeps in module variables. The locale \<open>adapter_contract\<close>
  (extended by \<open>severity_free\<close>) states what the pipeline relies on and is interpreted for each adapter.

  \<^bold>\<open>Projections.\<close> \<open>VpnProjection\<close>, \<open>S3Projection\<close>, \<open>PostureProjection\<close>, \<open>ServiceProjection\<close>, \<open>ApiProjection\<close>,
  \<open>RdsProjection\<close>, \<open>HostProjection\<close> (with \<open>HostDiff\<close>, \<open>PerfAlerts\<close>, \<open>Metrics\<close>) and \<open>Correlation\<close> model
  \<open>{vpn,s3,posture,services,api_gateway,rds,hosts}/projection.py\<close>, \<open>hosts/diff.py\<close>, \<open>perf_alerts.py\<close> and
  \<open>correlation.py\<close>. Each is a function from an event and the tables to derived events and tables; \<open>Derived\<close> and
  \<open>Ownership\<close> collect which actions they derive and which tables they write. \<open>Window\<close> and \<open>Edges\<close> hold the two
  interfaces that several share: sliding windows and edge-triggered alerts.

  \<^bold>\<open>Services around it.\<close> \<open>Auth\<close> and \<open>Password\<close> (\<open>auth.py\<close> and the session, user and role checks of \<open>main.py\<close> and
  \<open>api.py\<close>), \<open>Connectors\<close> and \<open>Operations\<close> (\<open>connectors/operations.py\<close>, \<open>scheduler.py\<close>, \<open>runner.py\<close> and their tables: a
  transition system whose steps are the statements of the threads, with crashes), \<open>Drains\<close> (\<open>connectors/aws_*_sqs.py\<close>,
  \<open>aws_s3_access_pull.py\<close>: the loops that read queues and the access-log bucket into \<open>Intake\<close>, and the synchronisation
  of probe targets), \<open>Staleness\<close> (\<open>{hosts,services,rds}/staleness.py\<close>, what a tick of the scheduler checks). What
  operators configure: \<open>Catalog\<close>, \<open>NotifyRules\<close> and \<open>Profiles\<close> (\<open>notify/catalog.py\<close>, \<open>routing_matrix.py\<close>, \<open>routes_view.py\<close>,
  \<open>profiles.py\<close>, \<open>profile_service.py\<close>: cards, routes and profiles as rows of the rule table that \<open>Router\<close> reloads).

  \<^bold>\<open>The host agent.\<close> \<open>AuditReader\<close> and \<open>FimEngine\<close> (\<open>src/scripts/fim_engine.py\<close>: who wrote which path; the walk, the
  baseline, the scan and the handler of an inotify event), \<open>FimThreads\<close> (the interleaving of its threads with the file
  system) and \<open>AgentReport\<close> (\<open>src/scripts/ec2_agent.py\<close>: shrinking, sending and spooling a report) model what a host
  puts on the queue that \<open>HostAdapter\<close> reads.

  \<^bold>\<open>How code is rendered.\<close> A table is an association list with the behaviour of its \<open>ON CONFLICT\<close> clause; a record
  of the code is a record, an enum a datatype with the values of the source, a Python value of any type a
  \<open>pyval\<close>, an exception a \<open>pyerr\<close> in \<open>Inl\<close>. Times are reals (seconds), Python integers \<open>int\<close>. The clock is an argument,
  one reading per call. What the sources only call is a field of \<open>pyenv\<close>, \<open>intel_env\<close> or \<open>delivery\<close>, or an argument
  (hashing, UUIDs, JSON, time formatting, templates, address parsing, the KDF, what AWS and channels answer);
  no property constrains them beyond its hypotheses. Strings are lists of bytes, so characters beyond ASCII are
  their UTF-8 bytes, and letter case is that of ASCII. The wording of pydantic's messages is not modelled.

  \<^bold>\<open>Fuel and ends.\<close> Processing an event takes the allowance 2 for its nested anomalies, and \<open>process_terminates\<close>
  shows that a larger one changes nothing; a repetition of \<open>Regex\<close> is bounded by the length of the text that is
  left, which loses no match, since a useless round is refused as in \<open>re\<close>; every other loop is structural,
  except the halving of an agent's list of changes, which need not end (\<open>halve\<close>, \<open>shrink_hangs_iff\<close>).

  \<^bold>\<open>What the lemmas show.\<close> Per component: invariants and that each operation keeps them, the result of each
  operation on each branch, exact conditions of alerts, conservation of digests up to the one attempt to send them, at most one live
  operation per connector under any interleaving. Across components: what ingestion adds and cannot add, that
  processing a replay changes nothing (its projections still run), that a payload stays within the tables of its module, that a drain deletes what it
  ingested. Where the code falls short of its comments a theorem states what holds instead.

  \<^bold>\<open>Not modelled.\<close> Rendering and HTTP handlers (\<open>ui/\<close>, most of \<open>api.py\<close>), SQL beyond the statements used, the AWS
  collectors that call boto3 throughout, feeds and their network access, channel transports and message texts
  (\<open>notify/channels.py\<close>, \<open>content_contracts.py\<close>), thread creation, logging, and of
  \<open>src/scripts/\<close> what reads the operating system and the agents other than the host agent.
\<close>

end
